(* ===== verification/Prelude.thy ===== *)
theory Prelude
  imports Main
begin

text \<open>
  Shared vocabulary of the development: the error classes of the program, the
  transaction monad in which every database command is written, its weakest
  precondition calculus, and tables (lists of rows with a key column) with the
  lookup and update laws every component uses.
\<close>

named_theorems wp_simps \<open>weakest preconditions of the transaction combinators\<close>
named_theorems pres_rules \<open>structural rules for preserved predicates\<close>
named_theorems tbl_simps \<open>lookup and update laws of tables\<close>

section \<open>Errors\<close>

text \<open>
  One constructor per exception class the modelled code raises: the classes of
  \<^verbatim>\<open>persistence/contracts.py\<close>, those of the runtime, the workspace, the file tools and
  the production services, and the built-in exceptions. Messages are not part of the model.
\<close>

datatype error =
    SessionNotFoundError
  | LedgerIntegrityError
  | MigrationChecksumError
  | BlobQuotaExceededError
  | BlobMetadataConflictError
  | RunNotFoundError
  | RunStateConflictError
  | ToolCallConflictError
  | ApprovalConflictError
  | BudgetLimitError
  | LeaseConflictError
  | ProjectionError
  | ToolIdentityError
  | ValueError
  | TypeError
  | KeyError
  | OSError
  | IntegrityError
  | PathGuardError
  | FileConflictError
  | FileNotFoundError
  | UnicodeDecodeError
  | RuntimeError
  | PromptWorkingSetIntegrityError
  | ModelInvocationError
  | DurableObservationError
  | ReError
  | OverflowError
  | RedisError
  | ShadowProjectionUnavailableError
  | ShadowProjectionProtocolError
  | ActiveRunIndexUnavailableError
  | ActiveRunIndexProtocolError
  | RelayProtocolError
  | ProjectionSourceConsistencyError
  | RunFanoutUnavailableError
  | RunFanoutProtocolError
  | ApiRateLimitBackendUnavailableError
  | ApiRateLimitBackendProtocolError
  | ShadowProjectionReadProtocolError
  | ActiveRunReadProtocolError
  | PermissionError
  | IdempotencyConflictError
  | RunVersionConflictError
  | RunEventStreamProtocolError
  | WorkerWakeUnavailableError
  | BlobObjectUnavailableError
  | ModelGatewayError
  | BudgetExceededError
  | RetryableManagedRunError
  | PermanentManagedRunError
  | ManagedLeaseLostError
  | AssertionError

text \<open>Identifiers are text in the program; the name marks their place in long signatures.\<close>

type_synonym ident = string

type_synonym 'a result = "error + 'a"

text \<open>\<^verbatim>\<open>except (LedgerIntegrityError, ValueError)\<close>: a class catches its subclasses.\<close>

definition is_value_error :: "error \<Rightarrow> bool" where
  "is_value_error e \<longleftrightarrow> e \<in> {ValueError, ProjectionError, ToolIdentityError, PathGuardError, UnicodeDecodeError}"

definition is_integrity_error :: "error \<Rightarrow> bool" where
  "is_integrity_error e \<longleftrightarrow> e \<in> {LedgerIntegrityError, BlobMetadataConflictError}"

section \<open>Results\<close>

definition bindE :: "'a result \<Rightarrow> ('a \<Rightarrow> 'b result) \<Rightarrow> 'b result" where
  "bindE m f = (case m of Inl e \<Rightarrow> Inl e | Inr x \<Rightarrow> f x)"

lemma bindE_simps [simp]:
  "bindE (Inl e) f = Inl e"
  "bindE (Inr x) f = f x"
  by (simp_all add: bindE_def)

lemma bindE_eq_Inr: "bindE m f = Inr y \<longleftrightarrow> (\<exists>x. m = Inr x \<and> f x = Inr y)"
  by (cases m) auto

fun mapE :: "('a \<Rightarrow> 'b result) \<Rightarrow> 'a list \<Rightarrow> 'b list result" where
  "mapE f [] = Inr []"
| "mapE f (x # xs) = bindE (f x) (\<lambda>y. bindE (mapE f xs) (\<lambda>ys. Inr (y # ys)))"

lemma mapE_Inr: "(\<And>x. x \<in> set xs \<Longrightarrow> f x = Inr (g x)) \<Longrightarrow> mapE f xs = Inr (map g xs)"
  by (induction xs) auto

lemma mapE_append:
  "mapE f (xs @ ys) = bindE (mapE f xs) (\<lambda>us. bindE (mapE f ys) (\<lambda>vs. Inr (us @ vs)))"
proof (induction xs)
  case Nil
  show ?case by (cases "mapE f ys") auto
next
  case (Cons x xs)
  show ?case
    by (cases "f x"; cases "mapE f xs"; cases "mapE f ys") (auto simp: Cons.IH)
qed

lemma mapE_length: "mapE f xs = Inr ys \<Longrightarrow> length ys = length xs"
  by (induction xs arbitrary: ys) (auto simp: bindE_eq_Inr)

fun foldE :: "('s \<Rightarrow> 'e \<Rightarrow> 's result) \<Rightarrow> 's \<Rightarrow> 'e list \<Rightarrow> 's result" where
  "foldE step s [] = Inr s"
| "foldE step s (e # es) = bindE (step s e) (\<lambda>s'. foldE step s' es)"

lemma foldE_append: "foldE step s (xs @ ys) = bindE (foldE step s xs) (\<lambda>s'. foldE step s' ys)"
proof (induction xs arbitrary: s)
  case (Cons x xs)
  then show ?case by (cases "step s x") auto
qed simp

text \<open>
  A reducer over a sequenced stream: the state carries the position of the last event
  it took in, events that do not concern it leave it alone, and every other event must
  advance the position. This is the contract between an append-only stream and the
  projections rebuilt from it.
\<close>

locale cursor_reducer =
  fixes step :: "'s \<Rightarrow> 'e \<Rightarrow> 's result"
    and cursor :: "'s \<Rightarrow> int"
    and pos :: "'e \<Rightarrow> int"
    and live :: "'e \<Rightarrow> bool"
  assumes step_skip: "\<not> live e \<Longrightarrow> step s e = Inr s"
    and step_live: "live e \<Longrightarrow> step s e = Inr s' \<Longrightarrow> cursor s < pos e \<and> cursor s' = pos e"
begin

lemma fold_cursor_mono: "foldE step s es = Inr s' \<Longrightarrow> cursor s \<le> cursor s'"
proof (induction es arbitrary: s)
  case (Cons e es)
  then obtain t where t: "step s e = Inr t" "foldE step t es = Inr s'"
    by (auto simp: bindE_eq_Inr)
  have "cursor s \<le> cursor t"
    using t(1) step_skip [of e s] step_live [of e s t] by (cases "live e") auto
  with Cons.IH [OF t(2)] show ?case by simp
qed simp

lemma fold_positions:
  "foldE step s es = Inr s' \<Longrightarrow>
     sorted_wrt (<) (map pos (filter live es)) \<and>
     (\<forall>e \<in> set es. live e \<longrightarrow> cursor s < pos e \<and> pos e \<le> cursor s')"
proof (induction es arbitrary: s)
  case (Cons e es)
  then obtain t where t: "step s e = Inr t" "foldE step t es = Inr s'"
    by (auto simp: bindE_eq_Inr)
  note IH = Cons.IH [OF t(2)]
  show ?case
  proof (cases "live e")
    case True
    with t(1) have "cursor s < pos e" "cursor t = pos e" by (auto dest: step_live)
    moreover have "cursor t \<le> cursor s'" using t(2) by (rule fold_cursor_mono)
    ultimately show ?thesis using IH True by force
  next
    case False
    with t(1) step_skip have "t = s" by simp
    with IH False show ?thesis by auto
  qed
qed simp

lemma fold_filter_live: "foldE step s (filter live es) = foldE step s es"
  by (induction es arbitrary: s) (auto simp: step_skip)

lemma fold_cursor_less:
  "foldE step s es = Inr s' \<Longrightarrow> cursor s < b \<Longrightarrow> \<forall>e \<in> set es. pos e < b \<Longrightarrow> cursor s' < b"
proof (induction es arbitrary: s)
  case (Cons e es)
  then obtain t where t: "step s e = Inr t" "foldE step t es = Inr s'"
    by (auto simp: bindE_eq_Inr)
  have "cursor t < b"
    using t(1) Cons.prems step_skip [of e s] step_live [of e s t] by (cases "live e") auto
  with Cons t(2) show ?case by simp
qed simp

lemma fold_cursor_in:
  "foldE step s es = Inr s' \<Longrightarrow> cursor s' = cursor s \<or> cursor s' \<in> pos ` set es"
proof (induction es arbitrary: s)
  case (Cons e es)
  then obtain t where t: "step s e = Inr t" "foldE step t es = Inr s'"
    by (auto simp: bindE_eq_Inr)
  show ?case
    using Cons.IH [OF t(2)] t(1) step_skip [of e s] step_live [of e s t] by (cases "live e") auto
qed simp

text \<open>
  Resuming: on a stream sorted by position, taking in the events after the cursor of
  an intermediate state gives what the whole stream gives.
\<close>

lemma fold_resume:
  assumes "sorted_wrt (<) (map pos es)"
    and "foldE step s (filter (\<lambda>e. pos e \<le> c) es) = Inr t"
  shows "foldE step s es = foldE step t (filter (\<lambda>e. c < pos e) es)"
proof -
  have "es = filter (\<lambda>e. pos e \<le> c) es @ filter (\<lambda>e. c < pos e) es"
    using assms(1)
  proof (induction es)
    case (Cons e es)
    show ?case
    proof (cases "pos e \<le> c")
      case True
      with Cons show ?thesis by auto
    next
      case False
      with Cons.prems have "\<forall>x \<in> set es. c < pos x" by auto
      then have "filter (\<lambda>e. pos e \<le> c) es = []" "filter (\<lambda>e. c < pos e) es = es"
        by (auto simp: filter_empty_conv filter_id_conv)
      with False show ?thesis by simp
    qed
  qed simp
  then have "foldE step s es =
      foldE step s (filter (\<lambda>e. pos e \<le> c) es @ filter (\<lambda>e. c < pos e) es)"
    by simp
  with assms(2) show ?thesis by (simp add: foldE_append)
qed

end

section \<open>Transactions\<close>

text \<open>
  The body of a \<^verbatim>\<open>BEGIN IMMEDIATE ... COMMIT\<close> bracket is a state transformer that
  either raises (and the bracket rolls back) or returns a value and the new
  database.
\<close>

type_synonym ('s, 'a) txn = "'s \<Rightarrow> error + ('a \<times> 's)"

definition returnT :: "'a \<Rightarrow> ('s, 'a) txn" where
  "returnT x = (\<lambda>s. Inr (x, s))"

definition throwT :: "error \<Rightarrow> ('s, 'a) txn" where
  "throwT e = (\<lambda>s. Inl e)"

definition bindT :: "('s, 'a) txn \<Rightarrow> ('a \<Rightarrow> ('s, 'b) txn) \<Rightarrow> ('s, 'b) txn" where
  "bindT m f = (\<lambda>s. case m s of Inl e \<Rightarrow> Inl e | Inr (x, s') \<Rightarrow> f x s')"

definition liftT :: "'a result \<Rightarrow> ('s, 'a) txn" where
  "liftT r = (\<lambda>s. case r of Inl e \<Rightarrow> Inl e | Inr x \<Rightarrow> Inr (x, s))"

definition getT :: "('s \<Rightarrow> 'a) \<Rightarrow> ('s, 'a) txn" where
  "getT f = (\<lambda>s. Inr (f s, s))"

definition modifyT :: "('s \<Rightarrow> 's) \<Rightarrow> ('s, unit) txn" where
  "modifyT f = (\<lambda>s. Inr ((), f s))"

definition readT :: "('s \<Rightarrow> 'a result) \<Rightarrow> ('s, 'a) txn" where
  "readT f = (\<lambda>s. case f s of Inl e \<Rightarrow> Inl e | Inr x \<Rightarrow> Inr (x, s))"

fun forT :: "('e \<Rightarrow> ('s, unit) txn) \<Rightarrow> 'e list \<Rightarrow> ('s, unit) txn" where
  "forT f [] = returnT ()"
| "forT f (x # xs) = bindT (f x) (\<lambda>_. forT f xs)"

definition raise_if :: "bool \<Rightarrow> error \<Rightarrow> ('s, unit) txn" where
  "raise_if c e = (if c then throwT e else returnT ())"

lemma returnT_apply [simp]: "returnT x s = Inr (x, s)"
  by (simp add: returnT_def)

lemma throwT_apply [simp]: "throwT e s = Inl e"
  by (simp add: throwT_def)

lemma getT_apply [simp]: "getT f s = Inr (f s, s)"
  by (simp add: getT_def)

lemma modifyT_apply [simp]: "modifyT f s = Inr ((), f s)"
  by (simp add: modifyT_def)

lemma liftT_apply [simp]:
  "liftT (Inl e) s = Inl e" "liftT (Inr x) s = Inr (x, s)"
  by (simp_all add: liftT_def)

lemma raise_if_apply [simp]: "raise_if c e s = (if c then Inl e else Inr ((), s))"
  by (simp add: raise_if_def)

lemma bindT_apply: "bindT m f s = (case m s of Inl e \<Rightarrow> Inl e | Inr (x, s') \<Rightarrow> f x s')"
  by (simp add: bindT_def)

lemma bindT_Inr [simp]: "m s = Inr (x, s') \<Longrightarrow> bindT m f s = f x s'"
  by (simp add: bindT_def)

lemma bindT_Inl [simp]: "m s = Inl e \<Longrightarrow> bindT m f s = Inl e"
  by (simp add: bindT_def)

lemma bindT_eq_Inr:
  "bindT m f s = Inr (y, t) \<longleftrightarrow> (\<exists>x u. m s = Inr (x, u) \<and> f x u = Inr (y, t))"
  by (auto simp: bindT_def split: sum.splits)

text \<open>
  \<open>transact\<close> is the bracket: an exception inside leaves the database as it was
  (\<^verbatim>\<open>ROLLBACK\<close>).
\<close>

definition transact :: "('s, 'a) txn \<Rightarrow> 's \<Rightarrow> 'a result \<times> 's" where
  "transact m s = (case m s of Inl e \<Rightarrow> (Inl e, s) | Inr (x, s') \<Rightarrow> (Inr x, s'))"

lemma transact_Inl: "transact m s = (Inl e, s') \<Longrightarrow> s' = s \<and> m s = Inl e"
  by (auto simp: transact_def split: sum.splits)

lemma transact_Inr: "transact m s = (Inr x, s') \<longleftrightarrow> m s = Inr (x, s')"
  by (auto simp: transact_def split: sum.splits)

section \<open>Weakest preconditions\<close>

definition wp :: "('s, 'a) txn \<Rightarrow> ('a \<Rightarrow> 's \<Rightarrow> bool) \<Rightarrow> 's \<Rightarrow> bool" where
  "wp m Q s = (case m s of Inl e \<Rightarrow> True | Inr (x, s') \<Rightarrow> Q x s')"

lemma wp_return [wp_simps]: "wp (returnT x) Q = Q x"
  by (simp add: wp_def fun_eq_iff)

lemma wp_throw [wp_simps]: "wp (throwT e) Q s = True"
  by (simp add: wp_def)

lemma wp_get [wp_simps]: "wp (getT f) Q s = Q (f s) s"
  by (simp add: wp_def)

lemma wp_modify [wp_simps]: "wp (modifyT f) Q s = Q () (f s)"
  by (simp add: wp_def)

lemma wp_raise_if [wp_simps]: "wp (raise_if c e) Q s = (\<not> c \<longrightarrow> Q () s)"
  by (simp add: wp_def)

lemma wp_lift [wp_simps]: "wp (liftT r) Q s = (\<forall>x. r = Inr x \<longrightarrow> Q x s)"
  by (cases r) (auto simp: wp_def)

lemma wp_read [wp_simps]: "wp (readT f) Q s = (\<forall>x. f s = Inr x \<longrightarrow> Q x s)"
  by (cases "f s") (auto simp: wp_def readT_def)

lemma wp_bind [wp_simps]: "wp (bindT m f) Q = wp m (\<lambda>x. wp (f x) Q)"
  by (auto simp: wp_def bindT_def fun_eq_iff split: sum.splits)

lemma wp_if [wp_simps]:
  "wp (if c then m else n) Q s = ((c \<longrightarrow> wp m Q s) \<and> (\<not> c \<longrightarrow> wp n Q s))"
  by simp

lemma wp_case_option [wp_simps]:
  "wp (case x of None \<Rightarrow> m | Some y \<Rightarrow> f y) Q s =
     ((x = None \<longrightarrow> wp m Q s) \<and> (\<forall>y. x = Some y \<longrightarrow> wp (f y) Q s))"
  by (cases x) auto

lemma wp_mono: "wp m Q s \<Longrightarrow> (\<And>x s'. m s = Inr (x, s') \<Longrightarrow> Q x s' \<Longrightarrow> R x s') \<Longrightarrow> wp m R s"
  by (auto simp: wp_def split: sum.splits)

lemma wpI: "(\<And>x s'. m s = Inr (x, s') \<Longrightarrow> Q x s') \<Longrightarrow> wp m Q s"
  by (auto simp: wp_def split: sum.splits)

lemma wp_for:
  assumes "\<And>x s. x \<in> set xs \<Longrightarrow> I s \<Longrightarrow> wp (f x) (\<lambda>_. I) s" and "I s"
  shows "wp (forT f xs) (\<lambda>_. I) s"
  using assms
proof (induction xs arbitrary: s)
  case (Cons x xs)
  from Cons.prems have "wp (f x) (\<lambda>_. I) s" by simp
  with Cons show ?case by (auto simp: wp_bind intro: wp_mono)
qed (simp add: wp_return)

lemma wpD: "wp m Q s \<Longrightarrow> m s = Inr (x, s') \<Longrightarrow> Q x s'"
  by (simp add: wp_def)

lemma wp_transact: "wp m Q s \<Longrightarrow> transact m s = (Inr x, s') \<Longrightarrow> Q x s'"
  by (auto simp: transact_Inr dest: wpD)

text \<open>
  \<open>pres P m\<close>: every step of \<open>m\<close> keeps \<open>P\<close>, whatever values it read. The structural
  rules reduce a command to the primitive updates it makes.
\<close>

definition pres :: "('s \<Rightarrow> bool) \<Rightarrow> ('s, 'a) txn \<Rightarrow> bool" where
  "pres P m \<longleftrightarrow> (\<forall>s. P s \<longrightarrow> wp m (\<lambda>_. P) s)"

lemma pres_basic [pres_rules]:
  "pres P (returnT x)" "pres P (throwT e)" "pres P (getT f)" "pres P (readT g)"
  "pres P (liftT r)" "pres P (raise_if c e)"
  by (simp_all add: pres_def wp_simps)

lemma pres_bind [pres_rules]:
  "pres P m \<Longrightarrow> (\<And>x. pres P (f x)) \<Longrightarrow> pres P (bindT m f)"
  unfolding pres_def wp_bind by (blast intro: wp_mono)

lemma pres_if [pres_rules]: "pres P m \<Longrightarrow> pres P n \<Longrightarrow> pres P (if c then m else n)"
  by simp

lemma pres_case_option [pres_rules]:
  "pres P m \<Longrightarrow> (\<And>y. pres P (f y)) \<Longrightarrow> pres P (case x of None \<Rightarrow> m | Some y \<Rightarrow> f y)"
  by (cases x) simp_all

lemma pres_case_prod [pres_rules]:
  "(\<And>a b. pres P (f a b)) \<Longrightarrow> pres P (case x of (a, b) \<Rightarrow> f a b)"
  by (cases x) simp

lemma wp_pres: "pres P m \<Longrightarrow> P d \<Longrightarrow> wp m (\<lambda>_. P) d"
  by (simp add: pres_def)

lemma wp_conj: "wp m (\<lambda>_. P) d \<Longrightarrow> wp m (\<lambda>_. Q) d \<Longrightarrow> wp m (\<lambda>_ d'. P d' \<and> Q d') d"
  by (auto simp: wp_def split: sum.splits)

lemma presD: "pres P m \<Longrightarrow> P s \<Longrightarrow> m s = Inr (x, s') \<Longrightarrow> P s'"
  by (auto simp: pres_def wp_def)

lemma pres_modify: "(\<And>s. P s \<Longrightarrow> P (f s)) \<Longrightarrow> pres P (modifyT f)"
  by (simp add: pres_def wp_simps)

lemma pres_transact: "pres P m \<Longrightarrow> P s \<Longrightarrow> P (snd (transact m s))"
  by (auto simp: transact_def dest: presD split: sum.splits)

section \<open>Tables\<close>

text \<open>
  A table is the list of its rows in insertion order. \<open>row_get\<close> is
  \<^verbatim>\<open>SELECT ... WHERE key = ?\<close> with \<^verbatim>\<open>fetchone\<close>, \<open>row_upd\<close> is \<^verbatim>\<open>UPDATE ... WHERE key = ?\<close>.
\<close>

definition row_get :: "('r \<Rightarrow> 'k) \<Rightarrow> 'k \<Rightarrow> 'r list \<Rightarrow> 'r option" where
  "row_get key k rows = find (\<lambda>r. key r = k) rows"

definition row_upd :: "('r \<Rightarrow> 'k) \<Rightarrow> 'k \<Rightarrow> ('r \<Rightarrow> 'r) \<Rightarrow> 'r list \<Rightarrow> 'r list" where
  "row_upd key k f rows = map (\<lambda>r. if key r = k then f r else r) rows"

abbreviation keeps :: "('r \<Rightarrow> 'c) \<Rightarrow> ('r \<Rightarrow> 'r) \<Rightarrow> bool" where
  "keeps col f \<equiv> \<forall>r. col (f r) = col r"

lemma row_get_Nil [tbl_simps]: "row_get key k [] = None"
  by (simp add: row_get_def)

lemma row_get_Cons [tbl_simps]:
  "row_get key k (r # rows) = (if key r = k then Some r else row_get key k rows)"
  by (simp add: row_get_def)

lemma row_get_append [tbl_simps]:
  "row_get key k (rows @ rows') =
     (case row_get key k rows of None \<Rightarrow> row_get key k rows' | Some r \<Rightarrow> Some r)"
  by (induction rows) (simp_all add: row_get_def)

lemma row_get_SomeD: "row_get key k rows = Some r \<Longrightarrow> key r = k \<and> r \<in> set rows"
  by (induction rows) (auto simp: row_get_def split: if_splits)

lemma row_get_None: "row_get key k rows = None \<longleftrightarrow> k \<notin> key ` set rows"
  by (induction rows) (auto simp: row_get_def)

lemma row_get_member:
  "distinct (map key rows) \<Longrightarrow> r \<in> set rows \<Longrightarrow> row_get key (key r) rows = Some r"
  by (induction rows) (auto simp: row_get_def)

lemma row_get_upd [tbl_simps]:
  "keeps key f \<Longrightarrow> row_get key k' (row_upd key k f rows) =
     (if k' = k then map_option f (row_get key k rows) else row_get key k' rows)"
  by (induction rows) (auto simp: row_get_def row_upd_def)

lemma map_row_upd [tbl_simps]: "keeps col f \<Longrightarrow> map col (row_upd key k f rows) = map col rows"
  by (simp add: row_upd_def)

lemma filter_row_upd:
  "keeps col f \<Longrightarrow> (\<And>r. P (f r) = P r) \<Longrightarrow>
     map col (filter P (row_upd key k f rows)) = map col (filter P rows)"
  by (induction rows) (auto simp: row_upd_def)

lemma row_upd_absent: "row_get key k rows = None \<Longrightarrow> row_upd key k f rows = rows"
  by (induction rows) (auto simp: row_upd_def row_get_def split: if_splits)

lemma in_row_upd:
  "r \<in> set (row_upd key k f rows) \<Longrightarrow>
     r \<in> set rows \<and> key r \<noteq> k \<or> (\<exists>r0 \<in> set rows. key r0 = k \<and> r = f r0)"
  by (auto simp: row_upd_def split: if_splits)

text \<open>
  The interface a command has to a table inside the database: keyed lookup and keyed
  update, where an update function may not change the key.
\<close>

locale keyed_store =
  fixes lookup :: "'s \<Rightarrow> 'k \<Rightarrow> 'r option"
    and update :: "'k \<Rightarrow> ('r \<Rightarrow> 'r) \<Rightarrow> 's \<Rightarrow> 's"
    and key :: "'r \<Rightarrow> 'k"
  assumes lookup_update: "keeps key f \<Longrightarrow>
      lookup (update k f s) k' = (if k' = k then map_option f (lookup s k) else lookup s k')"
    and lookup_key: "lookup s k = Some r \<Longrightarrow> key r = k"
begin

lemma lookup_update_same:
  "keeps key f \<Longrightarrow> lookup s k = Some r \<Longrightarrow> lookup (update k f s) k = Some (f r)"
  by (simp add: lookup_update)

lemma lookup_update_other:
  "keeps key f \<Longrightarrow> k' \<noteq> k \<Longrightarrow> lookup (update k f s) k' = lookup s k'"
  by (simp add: lookup_update)

lemma column_kept:
  "keeps key f \<Longrightarrow> keeps col f \<Longrightarrow>
     map_option col (lookup (update k f s) k') = map_option col (lookup s k')"
  by (simp add: lookup_update option.map_comp comp_def cong: option.map_cong)

end

end
