(* ===== verification/Domain.thy ===== *)
theory Domain
  imports Prelude
begin

text \<open>
  The shared domain types of \<^verbatim>\<open>src/forge_replay/domain.py\<close>: the string enums with
  their persisted values, the fencing cursor \<open>execution_context\<close> a worker carries
  through its mutations, the control-command envelope, and the execution-status
  transition check.
\<close>

section \<open>String enums\<close>

datatype execution_status =
  ES_ACTIVE | ES_COMPLETED | ES_FAILED | ES_CANCELLED | ES_BUDGET_EXCEEDED | ES_NEEDS_ATTENTION

fun execution_status_value :: "execution_status \<Rightarrow> string" where
  "execution_status_value ES_ACTIVE = ''active''"
| "execution_status_value ES_COMPLETED = ''completed''"
| "execution_status_value ES_FAILED = ''failed''"
| "execution_status_value ES_CANCELLED = ''cancelled''"
| "execution_status_value ES_BUDGET_EXCEEDED = ''budget_exceeded''"
| "execution_status_value ES_NEEDS_ATTENTION = ''needs_attention''"

datatype run_phase =
  RP_PREFLIGHTING | RP_BLOCKED_DIRTY | RP_PROVISIONING | RP_AWAITING_MODEL
  | RP_WAITING_APPROVAL | RP_EXECUTING_TOOL | RP_VERIFYING | RP_RECOVERING

fun run_phase_value :: "run_phase \<Rightarrow> string" where
  "run_phase_value RP_PREFLIGHTING = ''preflighting''"
| "run_phase_value RP_BLOCKED_DIRTY = ''blocked_dirty''"
| "run_phase_value RP_PROVISIONING = ''provisioning''"
| "run_phase_value RP_AWAITING_MODEL = ''awaiting_model''"
| "run_phase_value RP_WAITING_APPROVAL = ''waiting_approval''"
| "run_phase_value RP_EXECUTING_TOOL = ''executing_tool''"
| "run_phase_value RP_VERIFYING = ''verifying''"
| "run_phase_value RP_RECOVERING = ''recovering''"

datatype workspace_disposition =
  WD_NONE | WD_ACTIVE | WD_PRESERVED | WD_EXPORTED | WD_INTEGRATED | WD_DISCARDED
  | WD_CLEANED | WD_ORPHANED | WD_QUARANTINED

fun workspace_disposition_value :: "workspace_disposition \<Rightarrow> string" where
  "workspace_disposition_value WD_NONE = ''none''"
| "workspace_disposition_value WD_ACTIVE = ''active''"
| "workspace_disposition_value WD_PRESERVED = ''preserved''"
| "workspace_disposition_value WD_EXPORTED = ''exported''"
| "workspace_disposition_value WD_INTEGRATED = ''integrated''"
| "workspace_disposition_value WD_DISCARDED = ''discarded''"
| "workspace_disposition_value WD_CLEANED = ''cleaned''"
| "workspace_disposition_value WD_ORPHANED = ''orphaned''"
| "workspace_disposition_value WD_QUARANTINED = ''quarantined''"

datatype tool_effect_class =
  TE_PURE | TE_DETECTABLE_IDEMPOTENT | TE_EXTERNALLY_IDEMPOTENT | TE_NON_IDEMPOTENT

fun tool_effect_class_value :: "tool_effect_class \<Rightarrow> string" where
  "tool_effect_class_value TE_PURE = ''pure''"
| "tool_effect_class_value TE_DETECTABLE_IDEMPOTENT = ''detectable_idempotent''"
| "tool_effect_class_value TE_EXTERNALLY_IDEMPOTENT = ''externally_idempotent''"
| "tool_effect_class_value TE_NON_IDEMPOTENT = ''non_idempotent''"

datatype tool_call_state =
  TC_PROPOSED | TC_REJECTED | TC_WAITING_APPROVAL | TC_READY | TC_DENIED | TC_DISPATCHED
  | TC_SUCCEEDED | TC_FAILED | TC_CANCELLED | TC_UNCERTAIN

datatype approval_decision = AD_DENY | AD_ALLOW_ONCE | AD_ALLOW_RUN_SCOPE | AD_HARD_DENY

fun approval_decision_value :: "approval_decision \<Rightarrow> string" where
  "approval_decision_value AD_DENY = ''deny''"
| "approval_decision_value AD_ALLOW_ONCE = ''allow_once''"
| "approval_decision_value AD_ALLOW_RUN_SCOPE = ''allow_run_scope''"
| "approval_decision_value AD_HARD_DENY = ''hard_deny''"

text \<open>
  Calling an enum class on a string (\<^verbatim>\<open>RunPhase(value)\<close>) searches the members in
  order and raises \<^verbatim>\<open>ValueError\<close> when none has that value.
\<close>

definition all_execution_status :: "execution_status list" where
  "all_execution_status = [ES_ACTIVE, ES_COMPLETED, ES_FAILED, ES_CANCELLED,
     ES_BUDGET_EXCEEDED, ES_NEEDS_ATTENTION]"

definition all_run_phase :: "run_phase list" where
  "all_run_phase = [RP_PREFLIGHTING, RP_BLOCKED_DIRTY, RP_PROVISIONING, RP_AWAITING_MODEL,
     RP_WAITING_APPROVAL, RP_EXECUTING_TOOL, RP_VERIFYING, RP_RECOVERING]"

definition all_workspace_disposition :: "workspace_disposition list" where
  "all_workspace_disposition = [WD_NONE, WD_ACTIVE, WD_PRESERVED, WD_EXPORTED, WD_INTEGRATED,
     WD_DISCARDED, WD_CLEANED, WD_ORPHANED, WD_QUARANTINED]"

definition all_tool_effect_class :: "tool_effect_class list" where
  "all_tool_effect_class = [TE_PURE, TE_DETECTABLE_IDEMPOTENT, TE_EXTERNALLY_IDEMPOTENT,
     TE_NON_IDEMPOTENT]"

definition enum_of :: "('a \<Rightarrow> string) \<Rightarrow> 'a list \<Rightarrow> string \<Rightarrow> 'a result" where
  "enum_of val members s =
     (case find (\<lambda>m. val m = s) members of None \<Rightarrow> Inl ValueError | Some m \<Rightarrow> Inr m)"

lemma enum_of_execution_status [simp]:
  "enum_of execution_status_value all_execution_status (execution_status_value x) = Inr x"
  by (cases x) (simp_all add: enum_of_def all_execution_status_def)

lemma enum_of_run_phase [simp]:
  "enum_of run_phase_value all_run_phase (run_phase_value x) = Inr x"
  by (cases x) (simp_all add: enum_of_def all_run_phase_def)

lemma enum_of_workspace_disposition [simp]:
  "enum_of workspace_disposition_value all_workspace_disposition
     (workspace_disposition_value x) = Inr x"
  by (cases x) (simp_all add: enum_of_def all_workspace_disposition_def)

lemma enum_of_tool_effect_class [simp]:
  "enum_of tool_effect_class_value all_tool_effect_class (tool_effect_class_value x) = Inr x"
  by (cases x) (simp_all add: enum_of_def all_tool_effect_class_def)

section \<open>Execution contexts\<close>

text \<open>
  A \<^verbatim>\<open>datetime\<close> is an instant (microseconds since the epoch) that carries a time zone
  or does not. \<open>execution_context_new\<close> is the constructor with \<^verbatim>\<open>__post_init__\<close>.
\<close>

type_synonym instant = int

datatype datetime = Aware instant | Naive instant

fun is_naive :: "datetime \<Rightarrow> bool" where
  "is_naive (Aware t) = False"
| "is_naive (Naive t) = True"

record execution_context =
  ctx_run_id :: string
  ctx_worker_id :: string
  ctx_lease_epoch :: int
  ctx_lease_expires_at :: datetime
  ctx_stream_version :: int

definition execution_context_new ::
  "string \<Rightarrow> string \<Rightarrow> int \<Rightarrow> datetime \<Rightarrow> int \<Rightarrow> execution_context result" where
  "execution_context_new run_id worker_id lease_epoch expires_at stream_version =
     (if run_id = [] \<or> worker_id = [] \<or> lease_epoch < 0 then Inl ValueError
      else if is_naive expires_at then Inl ValueError
      else if stream_version < 0 then Inl ValueError
      else Inr \<lparr>ctx_run_id = run_id, ctx_worker_id = worker_id, ctx_lease_epoch = lease_epoch,
                ctx_lease_expires_at = expires_at, ctx_stream_version = stream_version\<rparr>)"

definition observe :: "execution_context \<Rightarrow> int \<Rightarrow> execution_context result" where
  "observe ctx stream_version =
     (if stream_version < ctx_stream_version ctx then Inl ValueError
      else Inr (ctx\<lparr>ctx_stream_version := stream_version\<rparr>))"

definition renew :: "execution_context \<Rightarrow> datetime \<Rightarrow> int \<Rightarrow> execution_context result" where
  "renew ctx expires_at lease_epoch =
     (if lease_epoch \<noteq> ctx_lease_epoch ctx then Inl ValueError
      else if is_naive expires_at then Inl ValueError
      else Inr (ctx\<lparr>ctx_lease_expires_at := expires_at\<rparr>))"

definition context_valid :: "execution_context \<Rightarrow> bool" where
  "context_valid ctx \<longleftrightarrow>
     ctx_run_id ctx \<noteq> [] \<and> ctx_worker_id ctx \<noteq> [] \<and> 0 \<le> ctx_lease_epoch ctx \<and>
     \<not> is_naive (ctx_lease_expires_at ctx) \<and> 0 \<le> ctx_stream_version ctx"

lemma execution_context_new_valid:
  "execution_context_new r w e x v = Inr ctx \<Longrightarrow> context_valid ctx"
  by (auto simp: execution_context_new_def context_valid_def split: if_splits)

lemma observe_valid: "context_valid ctx \<Longrightarrow> observe ctx v = Inr ctx' \<Longrightarrow> context_valid ctx'"
  by (auto simp: observe_def context_valid_def split: if_splits)

lemma renew_valid: "context_valid ctx \<Longrightarrow> renew ctx x e = Inr ctx' \<Longrightarrow> context_valid ctx'"
  by (auto simp: renew_def context_valid_def split: if_splits)

lemma observe_frame:
  "observe ctx v = Inr ctx' \<Longrightarrow>
     ctx_run_id ctx' = ctx_run_id ctx \<and> ctx_worker_id ctx' = ctx_worker_id ctx \<and>
     ctx_lease_epoch ctx' = ctx_lease_epoch ctx \<and> ctx_stream_version ctx' = v"
  by (auto simp: observe_def split: if_splits)

text \<open>\<^verbatim>\<open>ControlCommandContext\<close> and its \<^verbatim>\<open>__post_init__\<close>.\<close>

record control_context =
  cc_command_id :: string
  cc_actor :: string
  cc_expected_stream_version :: int

definition control_context_new :: "string \<Rightarrow> string \<Rightarrow> int \<Rightarrow> control_context result" where
  "control_context_new command_id actor version =
     (if command_id = [] \<or> actor = [] then Inl ValueError
      else if version < 0 then Inl ValueError
      else Inr \<lparr>cc_command_id = command_id, cc_actor = actor,
                cc_expected_stream_version = version\<rparr>)"

section \<open>Execution-status transitions\<close>

definition TERMINAL_EXECUTION_STATUSES :: "execution_status list" where
  "TERMINAL_EXECUTION_STATUSES = [ES_COMPLETED, ES_FAILED, ES_CANCELLED, ES_BUDGET_EXCEEDED]"

definition can_transition_execution :: "execution_status \<Rightarrow> execution_status \<Rightarrow> bool" where
  "can_transition_execution current target =
     (if current \<in> set TERMINAL_EXECUTION_STATUSES then current = target
      else if current = ES_NEEDS_ATTENTION
      then target \<in> {ES_ACTIVE, ES_FAILED, ES_CANCELLED, ES_NEEDS_ATTENTION}
      else True)"

abbreviation terminal :: "execution_status \<Rightarrow> bool" where
  "terminal st \<equiv> st \<in> set TERMINAL_EXECUTION_STATUSES"

lemma can_transition_terminal:
  "terminal current \<Longrightarrow> can_transition_execution current target \<longleftrightarrow> target = current"
  by (auto simp: can_transition_execution_def)

lemma completed_only_from_active:
  "can_transition_execution current ES_COMPLETED \<and> current \<noteq> ES_COMPLETED \<longleftrightarrow>
     current = ES_ACTIVE"
  by (cases current)
    (auto simp: can_transition_execution_def TERMINAL_EXECUTION_STATUSES_def)

end
