(* ===== verification/Json.thy ===== *)
theory Json
  imports Prelude "HOL-Library.Multiset" "HOL-Library.Char_ord" "HOL-Library.List_Lexorder"
begin

text \<open>
  JSON documents and the canonical text that the ledger hashes
  (\<^verbatim>\<open>canonical_json\<close> of \<^verbatim>\<open>persistence/store.py\<close>): keys sorted, no blanks, non-ASCII
  characters kept. A Python string is the list of its UTF-8 bytes, so that
  \<^verbatim>\<open>str.encode("utf-8")\<close> is the identity and \<^typ>\<open>char\<close> is a byte; a finite float is
  its \<^verbatim>\<open>repr\<close> text. A dict is the list of its items in insertion order.
\<close>

datatype json =
    JNull
  | JBool bool
  | JInt int
  | JFloat string
  | JStr string
  | JArr "json list"
  | JObj "(string \<times> json) list"

section \<open>Text\<close>

text \<open>\<open>blank s\<close> is \<^verbatim>\<open>not s.strip()\<close>, for the ASCII white space of \<^verbatim>\<open>str.strip\<close>.\<close>

definition is_space :: "char \<Rightarrow> bool" where
  "is_space c \<longleftrightarrow> of_char c \<in> {9, 10, 11, 12, 13, 28, 29, 30, 31, 32 :: nat}"

definition blank :: "string \<Rightarrow> bool" where
  "blank s \<longleftrightarrow> list_all is_space s"

lemma blank_Nil [simp]: "blank []"
  by (simp add: blank_def)

definition digit_char :: "nat \<Rightarrow> char" where
  "digit_char n = (if n < 10 then char_of (48 + n) else char_of (87 + n))"

fun nat_digits :: "nat \<Rightarrow> string" where
  "nat_digits n = (if n < 10 then [digit_char n] else nat_digits (n div 10) @ [digit_char (n mod 10)])"

declare nat_digits.simps [simp del]

definition int_text :: "int \<Rightarrow> string" where
  "int_text i = (if i < 0 then CHR ''-'' # nat_digits (nat (- i)) else nat_digits (nat i))"

section \<open>Canonical text\<close>

text \<open>
  The string encoder of \<^verbatim>\<open>json.dumps(..., ensure_ascii=False)\<close>: quotation mark,
  reverse solidus and the control characters are escaped, everything else is kept.
\<close>

definition escape_char :: "char \<Rightarrow> string" where
  "escape_char c =
     (let n = (of_char c :: nat) in
      if n = 34 then [char_of (92::nat), char_of (34::nat)]
      else if n = 92 then [char_of (92::nat), char_of (92::nat)]
      else if n = 10 then [char_of (92::nat), CHR ''n'']
      else if n = 13 then [char_of (92::nat), CHR ''r'']
      else if n = 9 then [char_of (92::nat), CHR ''t'']
      else if n = 12 then [char_of (92::nat), CHR ''f'']
      else if n = 8 then [char_of (92::nat), CHR ''b'']
      else if n < 32 then
        [char_of (92::nat), CHR ''u'', CHR ''0'', CHR ''0'', digit_char (n div 16), digit_char (n mod 16)]
      else [c])"

definition json_string :: "string \<Rightarrow> string" where
  "json_string s = char_of (34::nat) # concat (map escape_char s) @ [char_of (34::nat)]"

fun comma_join :: "string list \<Rightarrow> string" where
  "comma_join [] = []"
| "comma_join [x] = x"
| "comma_join (x # y # xs) = x @ CHR '','' # comma_join (y # xs)"

fun canonical_json :: "json \<Rightarrow> string" where
  "canonical_json JNull = ''null''"
| "canonical_json (JBool b) = (if b then ''true'' else ''false'')"
| "canonical_json (JInt i) = int_text i"
| "canonical_json (JFloat r) = r"
| "canonical_json (JStr s) = json_string s"
| "canonical_json (JArr xs) = CHR ''['' # comma_join (map canonical_json xs) @ '']''"
| "canonical_json (JObj kvs) =
     CHR ''{'' # comma_join (map (\<lambda>(k, t). json_string k @ CHR '':'' # t)
       (sort_key fst (map (\<lambda>kv. (fst kv, canonical_json (snd kv))) kvs))) @ ''}''"

text \<open>
  The text does not depend on the insertion order of a dict: two item lists with
  the same items (and distinct keys) are encoded alike.
\<close>

lemma mset_eq_length_le_1: "mset us = mset vs \<Longrightarrow> length vs \<le> 1 \<Longrightarrow> us = vs"
  by (cases vs) auto

lemma sort_key_items_unique:
  fixes xs ys :: "('k::linorder \<times> 'v) list"
  assumes "mset xs = mset ys" and "distinct (map fst xs)"
  shows "sort_key fst xs = sort_key fst ys"
proof (rule properties_for_sort_key)
  show "mset (sort_key fst ys) = mset xs"
    using assms(1) by simp
  show "sorted (map fst (sort_key fst ys))"
    by simp
  fix k :: "'k \<times> 'v"
  let ?p = "\<lambda>x :: 'k \<times> 'v. fst k = fst x"
  have "length (filter ?p xs) \<le> 1"
    using assms(2) by (induction xs) (auto simp: filter_empty_conv)
  moreover have "mset (filter ?p (sort_key fst ys)) = mset (filter ?p xs)"
    using assms(1) by simp
  ultimately show "filter ?p (sort_key fst ys) = filter ?p xs"
    by (rule mset_eq_length_le_1 [rotated])
qed

lemma canonical_json_item_order:
  assumes "mset xs = mset ys" and "distinct (map fst xs)"
  shows "canonical_json (JObj xs) = canonical_json (JObj ys)"
proof -
  let ?enc = "\<lambda>kv. (fst kv, canonical_json (snd kv))"
  have "sort_key fst (map ?enc xs) = sort_key fst (map ?enc ys)"
    by (rule sort_key_items_unique) (simp_all add: assms comp_def)
  then show ?thesis by simp
qed

end
