(* ===== verification/Events.thy ===== *)
theory Events
  imports Domain Json
begin

text \<open>
  The runtime event contracts of \<^verbatim>\<open>src/forge_replay/events.py\<close>: the event types, the
  twenty-six payload classes, the JSON document each payload is persisted as
  (\<^verbatim>\<open>model_dump(mode="json")\<close>), the reading of such a document back under the
  declared schema (required and optional fields, bounds, enumerations,
  \<^verbatim>\<open>extra="forbid"\<close>), and the envelope. Budget amounts are integers.
\<close>

section \<open>Event types\<close>

datatype event_type =
    EV_SESSION_CREATED
  | EV_USER_MESSAGE_RECEIVED
  | EV_RUN_CREATED
  | EV_RUN_PHASE_CHANGED
  | EV_WORKSPACE_PROVISIONING_STARTED
  | EV_WORKSPACE_PROVISIONED
  | EV_WORKSPACE_DISPOSITION_CHANGED
  | EV_MODEL_CALL_STARTED
  | EV_MODEL_RESPONSE_RECEIVED
  | EV_MODEL_CALL_FAILED
  | EV_MODEL_OUTPUT_REJECTED
  | EV_TOOL_CALL_PROPOSED
  | EV_APPROVAL_REQUESTED
  | EV_APPROVAL_DECIDED
  | EV_TOOL_EXECUTION_DISPATCHED
  | EV_TOOL_EXECUTION_SUCCEEDED
  | EV_TOOL_EXECUTION_FAILED
  | EV_TOOL_EXECUTION_UNCERTAIN
  | EV_CHECKPOINT_COMMITTED
  | EV_BUDGET_RESERVED
  | EV_BUDGET_SETTLED
  | EV_CANCELLATION_REQUESTED
  | EV_RUN_COMPLETED
  | EV_RUN_TERMINATED
  | EV_FINAL_ANSWER_COMMITTED
  | EV_PROJECTION_REBUILT

fun event_type_value :: "event_type \<Rightarrow> string" where
  "event_type_value EV_SESSION_CREATED = ''session_created''"
| "event_type_value EV_USER_MESSAGE_RECEIVED = ''user_message_received''"
| "event_type_value EV_RUN_CREATED = ''run_created''"
| "event_type_value EV_RUN_PHASE_CHANGED = ''run_phase_changed''"
| "event_type_value EV_WORKSPACE_PROVISIONING_STARTED = ''workspace_provisioning_started''"
| "event_type_value EV_WORKSPACE_PROVISIONED = ''workspace_provisioned''"
| "event_type_value EV_WORKSPACE_DISPOSITION_CHANGED = ''workspace_disposition_changed''"
| "event_type_value EV_MODEL_CALL_STARTED = ''model_call_started''"
| "event_type_value EV_MODEL_RESPONSE_RECEIVED = ''model_response_received''"
| "event_type_value EV_MODEL_CALL_FAILED = ''model_call_failed''"
| "event_type_value EV_MODEL_OUTPUT_REJECTED = ''model_output_rejected''"
| "event_type_value EV_TOOL_CALL_PROPOSED = ''tool_call_proposed''"
| "event_type_value EV_APPROVAL_REQUESTED = ''approval_requested''"
| "event_type_value EV_APPROVAL_DECIDED = ''approval_decided''"
| "event_type_value EV_TOOL_EXECUTION_DISPATCHED = ''tool_execution_dispatched''"
| "event_type_value EV_TOOL_EXECUTION_SUCCEEDED = ''tool_execution_succeeded''"
| "event_type_value EV_TOOL_EXECUTION_FAILED = ''tool_execution_failed''"
| "event_type_value EV_TOOL_EXECUTION_UNCERTAIN = ''tool_execution_uncertain''"
| "event_type_value EV_CHECKPOINT_COMMITTED = ''checkpoint_committed''"
| "event_type_value EV_BUDGET_RESERVED = ''budget_reserved''"
| "event_type_value EV_BUDGET_SETTLED = ''budget_settled''"
| "event_type_value EV_CANCELLATION_REQUESTED = ''cancellation_requested''"
| "event_type_value EV_RUN_COMPLETED = ''run_completed''"
| "event_type_value EV_RUN_TERMINATED = ''run_terminated''"
| "event_type_value EV_FINAL_ANSWER_COMMITTED = ''final_answer_committed''"
| "event_type_value EV_PROJECTION_REBUILT = ''projection_rebuilt''"

definition all_event_types :: "event_type list" where
  "all_event_types = [EV_SESSION_CREATED,
     EV_USER_MESSAGE_RECEIVED,
     EV_RUN_CREATED,
     EV_RUN_PHASE_CHANGED,
     EV_WORKSPACE_PROVISIONING_STARTED,
     EV_WORKSPACE_PROVISIONED,
     EV_WORKSPACE_DISPOSITION_CHANGED,
     EV_MODEL_CALL_STARTED,
     EV_MODEL_RESPONSE_RECEIVED,
     EV_MODEL_CALL_FAILED,
     EV_MODEL_OUTPUT_REJECTED,
     EV_TOOL_CALL_PROPOSED,
     EV_APPROVAL_REQUESTED,
     EV_APPROVAL_DECIDED,
     EV_TOOL_EXECUTION_DISPATCHED,
     EV_TOOL_EXECUTION_SUCCEEDED,
     EV_TOOL_EXECUTION_FAILED,
     EV_TOOL_EXECUTION_UNCERTAIN,
     EV_CHECKPOINT_COMMITTED,
     EV_BUDGET_RESERVED,
     EV_BUDGET_SETTLED,
     EV_CANCELLATION_REQUESTED,
     EV_RUN_COMPLETED,
     EV_RUN_TERMINATED,
     EV_FINAL_ANSWER_COMMITTED,
     EV_PROJECTION_REBUILT]"
lemma enum_of_event_type [simp]:
  "enum_of event_type_value all_event_types (event_type_value x) = Inr x"
  by (cases x) (simp_all add: enum_of_def all_event_types_def)

section \<open>Payloads\<close>

datatype dirty_mode = DM_refuse | DM_head_only

fun dirty_mode_value :: "dirty_mode \<Rightarrow> string" where
  "dirty_mode_value DM_refuse = ''refuse''"
| "dirty_mode_value DM_head_only = ''head-only''"

datatype verification_status = VS_passed | VS_failed | VS_not_configured

fun verification_status_value :: "verification_status \<Rightarrow> string" where
  "verification_status_value VS_passed = ''passed''"
| "verification_status_value VS_failed = ''failed''"
| "verification_status_value VS_not_configured = ''not_configured''"

datatype payload =
    SessionCreatedPayload string string
      \<comment> \<open>workspace_root, config_sha256\<close>
  | UserMessageReceivedPayload string
      \<comment> \<open>message_blob_sha256\<close>
  | RunCreatedPayload string string "(string \<times> int) list"
      \<comment> \<open>base_repo_root, base_commit_sha, budget_limits\<close>
  | RunPhaseChangedPayload "run_phase option" run_phase string
      \<comment> \<open>previous_phase, next_phase, reason\<close>
  | WorkspaceProvisioningStartedPayload string string dirty_mode
      \<comment> \<open>base_repo_root, base_commit_sha, dirty_mode\<close>
  | WorkspaceProvisionedPayload string string string string
      \<comment> \<open>worktree_path, branch, ownership_marker, ownership_token_sha256\<close>
  | WorkspaceDispositionChangedPayload workspace_disposition workspace_disposition string
      \<comment> \<open>previous, next, reason\<close>
  | ModelCallStartedPayload string string int "int option"
      \<comment> \<open>model_call_id, model_name, attempt_no, step\<close>
  | ModelResponseReceivedPayload string string "int option" "int option"
      \<comment> \<open>model_call_id, response_blob_sha256, input_tokens, output_tokens\<close>
  | ModelCallFailedPayload string string bool
      \<comment> \<open>model_call_id, error_class, retryable\<close>
  | ModelOutputRejectedPayload string string
      \<comment> \<open>response_event_id, reason\<close>
  | ToolCallProposedPayload string string string string tool_effect_class
      \<comment> \<open>tool_call_id, tool_name, tool_version, args_sha256, effect_class\<close>
  | ApprovalRequestedPayload string string string string
      \<comment> \<open>approval_id, tool_call_id, fingerprint, policy\<close>
  | ApprovalDecidedPayload string string string string string
      \<comment> \<open>approval_id, tool_call_id, fingerprint, decision, actor\<close>
  | ToolExecutionDispatchedPayload string string int string
      \<comment> \<open>tool_call_id, attempt_id, attempt_no, action_digest\<close>
  | ToolExecutionSucceededPayload string string string "string option" bool
      \<comment> \<open>tool_call_id, attempt_id, receipt_sha256, output_blob_sha256, output_truncated\<close>
  | ToolExecutionFailedPayload string string string bool
      \<comment> \<open>tool_call_id, attempt_id, error_class, retryable\<close>
  | ToolExecutionUncertainPayload string string string
      \<comment> \<open>tool_call_id, attempt_id, evidence\<close>
  | CheckpointCommittedPayload string int string
      \<comment> \<open>checkpoint_id, through_seq, state_sha256\<close>
  | BudgetReservedPayload string string int
      \<comment> \<open>reservation_id, category, amount\<close>
  | BudgetSettledPayload string string int int
      \<comment> \<open>reservation_id, category, reserved, consumed\<close>
  | CancellationRequestedPayload string string
      \<comment> \<open>actor, reason\<close>
  | RunCompletedPayload verification_status
      \<comment> \<open>verification_status\<close>
  | RunTerminatedPayload execution_status string
      \<comment> \<open>execution_status, reason\<close>
  | FinalAnswerCommittedPayload string
      \<comment> \<open>answer_blob_sha256\<close>
  | ProjectionRebuiltPayload int string string
      \<comment> \<open>through_seq, previous_state_sha256, rebuilt_state_sha256\<close>

fun payload_event_type :: "payload \<Rightarrow> event_type" where
  "payload_event_type (SessionCreatedPayload _ _) = EV_SESSION_CREATED"
| "payload_event_type (UserMessageReceivedPayload _) = EV_USER_MESSAGE_RECEIVED"
| "payload_event_type (RunCreatedPayload _ _ _) = EV_RUN_CREATED"
| "payload_event_type (RunPhaseChangedPayload _ _ _) = EV_RUN_PHASE_CHANGED"
| "payload_event_type (WorkspaceProvisioningStartedPayload _ _ _) = EV_WORKSPACE_PROVISIONING_STARTED"
| "payload_event_type (WorkspaceProvisionedPayload _ _ _ _) = EV_WORKSPACE_PROVISIONED"
| "payload_event_type (WorkspaceDispositionChangedPayload _ _ _) = EV_WORKSPACE_DISPOSITION_CHANGED"
| "payload_event_type (ModelCallStartedPayload _ _ _ _) = EV_MODEL_CALL_STARTED"
| "payload_event_type (ModelResponseReceivedPayload _ _ _ _) = EV_MODEL_RESPONSE_RECEIVED"
| "payload_event_type (ModelCallFailedPayload _ _ _) = EV_MODEL_CALL_FAILED"
| "payload_event_type (ModelOutputRejectedPayload _ _) = EV_MODEL_OUTPUT_REJECTED"
| "payload_event_type (ToolCallProposedPayload _ _ _ _ _) = EV_TOOL_CALL_PROPOSED"
| "payload_event_type (ApprovalRequestedPayload _ _ _ _) = EV_APPROVAL_REQUESTED"
| "payload_event_type (ApprovalDecidedPayload _ _ _ _ _) = EV_APPROVAL_DECIDED"
| "payload_event_type (ToolExecutionDispatchedPayload _ _ _ _) = EV_TOOL_EXECUTION_DISPATCHED"
| "payload_event_type (ToolExecutionSucceededPayload _ _ _ _ _) = EV_TOOL_EXECUTION_SUCCEEDED"
| "payload_event_type (ToolExecutionFailedPayload _ _ _ _) = EV_TOOL_EXECUTION_FAILED"
| "payload_event_type (ToolExecutionUncertainPayload _ _ _) = EV_TOOL_EXECUTION_UNCERTAIN"
| "payload_event_type (CheckpointCommittedPayload _ _ _) = EV_CHECKPOINT_COMMITTED"
| "payload_event_type (BudgetReservedPayload _ _ _) = EV_BUDGET_RESERVED"
| "payload_event_type (BudgetSettledPayload _ _ _ _) = EV_BUDGET_SETTLED"
| "payload_event_type (CancellationRequestedPayload _ _) = EV_CANCELLATION_REQUESTED"
| "payload_event_type (RunCompletedPayload _) = EV_RUN_COMPLETED"
| "payload_event_type (RunTerminatedPayload _ _) = EV_RUN_TERMINATED"
| "payload_event_type (FinalAnswerCommittedPayload _) = EV_FINAL_ANSWER_COMMITTED"
| "payload_event_type (ProjectionRebuiltPayload _ _ _) = EV_PROJECTION_REBUILT"
section \<open>Payload documents\<close>

definition opt_dump :: "('a \<Rightarrow> json) \<Rightarrow> 'a option \<Rightarrow> json" where
  "opt_dump f x = (case x of None \<Rightarrow> JNull | Some y \<Rightarrow> f y)"

definition limits_dump :: "(string \<times> int) list \<Rightarrow> json" where
  "limits_dump kvs = JObj (map (\<lambda>(k, v). (k, JInt v)) kvs)"

fun payload_fields :: "payload \<Rightarrow> (string \<times> json) list" where
  "payload_fields (SessionCreatedPayload a b) =
     [(''workspace_root'', JStr a),
      (''config_sha256'', JStr b)]"
| "payload_fields (UserMessageReceivedPayload a) =
     [(''message_blob_sha256'', JStr a)]"
| "payload_fields (RunCreatedPayload a b c) =
     [(''base_repo_root'', JStr a),
      (''base_commit_sha'', JStr b),
      (''budget_limits'', limits_dump c)]"
| "payload_fields (RunPhaseChangedPayload a b c) =
     [(''previous_phase'', opt_dump (\<lambda>p. JStr (run_phase_value p)) a),
      (''next_phase'', JStr (run_phase_value b)),
      (''reason'', JStr c)]"
| "payload_fields (WorkspaceProvisioningStartedPayload a b c) =
     [(''base_repo_root'', JStr a),
      (''base_commit_sha'', JStr b),
      (''dirty_mode'', JStr (dirty_mode_value c))]"
| "payload_fields (WorkspaceProvisionedPayload a b c d) =
     [(''worktree_path'', JStr a),
      (''branch'', JStr b),
      (''ownership_marker'', JStr c),
      (''ownership_token_sha256'', JStr d)]"
| "payload_fields (WorkspaceDispositionChangedPayload a b c) =
     [(''previous'', JStr (workspace_disposition_value a)),
      (''next'', JStr (workspace_disposition_value b)),
      (''reason'', JStr c)]"
| "payload_fields (ModelCallStartedPayload a b c d) =
     [(''model_call_id'', JStr a),
      (''model_name'', JStr b),
      (''attempt_no'', JInt c),
      (''step'', opt_dump JInt d)]"
| "payload_fields (ModelResponseReceivedPayload a b c d) =
     [(''model_call_id'', JStr a),
      (''response_blob_sha256'', JStr b),
      (''input_tokens'', opt_dump JInt c),
      (''output_tokens'', opt_dump JInt d)]"
| "payload_fields (ModelCallFailedPayload a b c) =
     [(''model_call_id'', JStr a),
      (''error_class'', JStr b),
      (''retryable'', JBool c)]"
| "payload_fields (ModelOutputRejectedPayload a b) =
     [(''response_event_id'', JStr a),
      (''reason'', JStr b)]"
| "payload_fields (ToolCallProposedPayload a b c d e) =
     [(''tool_call_id'', JStr a),
      (''tool_name'', JStr b),
      (''tool_version'', JStr c),
      (''args_sha256'', JStr d),
      (''effect_class'', JStr (tool_effect_class_value e))]"
| "payload_fields (ApprovalRequestedPayload a b c d) =
     [(''approval_id'', JStr a),
      (''tool_call_id'', JStr b),
      (''fingerprint'', JStr c),
      (''policy'', JStr d)]"
| "payload_fields (ApprovalDecidedPayload a b c d e) =
     [(''approval_id'', JStr a),
      (''tool_call_id'', JStr b),
      (''fingerprint'', JStr c),
      (''decision'', JStr d),
      (''actor'', JStr e)]"
| "payload_fields (ToolExecutionDispatchedPayload a b c d) =
     [(''tool_call_id'', JStr a),
      (''attempt_id'', JStr b),
      (''attempt_no'', JInt c),
      (''action_digest'', JStr d)]"
| "payload_fields (ToolExecutionSucceededPayload a b c d e) =
     [(''tool_call_id'', JStr a),
      (''attempt_id'', JStr b),
      (''receipt_sha256'', JStr c),
      (''output_blob_sha256'', opt_dump JStr d),
      (''output_truncated'', JBool e)]"
| "payload_fields (ToolExecutionFailedPayload a b c d) =
     [(''tool_call_id'', JStr a),
      (''attempt_id'', JStr b),
      (''error_class'', JStr c),
      (''retryable'', JBool d)]"
| "payload_fields (ToolExecutionUncertainPayload a b c) =
     [(''tool_call_id'', JStr a),
      (''attempt_id'', JStr b),
      (''evidence'', JStr c)]"
| "payload_fields (CheckpointCommittedPayload a b c) =
     [(''checkpoint_id'', JStr a),
      (''through_seq'', JInt b),
      (''state_sha256'', JStr c)]"
| "payload_fields (BudgetReservedPayload a b c) =
     [(''reservation_id'', JStr a),
      (''category'', JStr b),
      (''amount'', JInt c)]"
| "payload_fields (BudgetSettledPayload a b c d) =
     [(''reservation_id'', JStr a),
      (''category'', JStr b),
      (''reserved'', JInt c),
      (''consumed'', JInt d)]"
| "payload_fields (CancellationRequestedPayload a b) =
     [(''actor'', JStr a),
      (''reason'', JStr b)]"
| "payload_fields (RunCompletedPayload a) =
     [(''execution_status'', JStr (execution_status_value ES_COMPLETED)),
      (''verification_status'', JStr (verification_status_value a))]"
| "payload_fields (RunTerminatedPayload a b) =
     [(''execution_status'', JStr (execution_status_value a)),
      (''reason'', JStr b)]"
| "payload_fields (FinalAnswerCommittedPayload a) =
     [(''answer_blob_sha256'', JStr a)]"
| "payload_fields (ProjectionRebuiltPayload a b c) =
     [(''through_seq'', JInt a),
      (''previous_state_sha256'', JStr b),
      (''rebuilt_state_sha256'', JStr c)]"
definition payload_dump :: "payload \<Rightarrow> json" where
  "payload_dump p =
     JObj ((''event_type'', JStr (event_type_value (payload_event_type p))) # payload_fields p)"

text \<open>Field readers. A missing required field, a wrong type or a violated bound raises.\<close>

definition closed_fields :: "string list \<Rightarrow> (string \<times> json) list \<Rightarrow> unit result" where
  "closed_fields ks kvs = (if list_all (\<lambda>kv. fst kv \<in> set ks) kvs then Inr () else Inl ValueError)"

definition str_field :: "string \<Rightarrow> (string \<times> json) list \<Rightarrow> string result" where
  "str_field k kvs = (case map_of kvs k of Some (JStr s) \<Rightarrow> Inr s | _ \<Rightarrow> Inl ValueError)"

definition opt_str_field :: "string \<Rightarrow> (string \<times> json) list \<Rightarrow> string option result" where
  "opt_str_field k kvs = (case map_of kvs k of
       None \<Rightarrow> Inr None | Some JNull \<Rightarrow> Inr None | Some (JStr s) \<Rightarrow> Inr (Some s)
     | _ \<Rightarrow> Inl ValueError)"

definition int_field :: "int \<Rightarrow> string \<Rightarrow> (string \<times> json) list \<Rightarrow> int result" where
  "int_field lo k kvs = (case map_of kvs k of
       Some (JInt i) \<Rightarrow> (if lo \<le> i then Inr i else Inl ValueError) | _ \<Rightarrow> Inl ValueError)"

definition opt_int_field :: "int \<Rightarrow> string \<Rightarrow> (string \<times> json) list \<Rightarrow> int option result" where
  "opt_int_field lo k kvs = (case map_of kvs k of
       None \<Rightarrow> Inr None | Some JNull \<Rightarrow> Inr None
     | Some (JInt i) \<Rightarrow> (if lo \<le> i then Inr (Some i) else Inl ValueError)
     | _ \<Rightarrow> Inl ValueError)"

definition bool_field :: "string \<Rightarrow> (string \<times> json) list \<Rightarrow> bool result" where
  "bool_field k kvs = (case map_of kvs k of Some (JBool b) \<Rightarrow> Inr b | _ \<Rightarrow> Inl ValueError)"

definition bool_default_field :: "bool \<Rightarrow> string \<Rightarrow> (string \<times> json) list \<Rightarrow> bool result" where
  "bool_default_field d k kvs = (case map_of kvs k of
       None \<Rightarrow> Inr d | Some (JBool b) \<Rightarrow> Inr b | _ \<Rightarrow> Inl ValueError)"

definition phase_field :: "string \<Rightarrow> (string \<times> json) list \<Rightarrow> run_phase result" where
  "phase_field k kvs = bindE (str_field k kvs) (enum_of run_phase_value all_run_phase)"

definition opt_phase_field :: "string \<Rightarrow> (string \<times> json) list \<Rightarrow> run_phase option result" where
  "opt_phase_field k kvs = (case map_of kvs k of
       Some JNull \<Rightarrow> Inr None
     | _ \<Rightarrow> bindE (phase_field k kvs) (\<lambda>p. Inr (Some p)))"

definition disposition_field ::
  "string \<Rightarrow> (string \<times> json) list \<Rightarrow> workspace_disposition result" where
  "disposition_field k kvs =
     bindE (str_field k kvs) (enum_of workspace_disposition_value all_workspace_disposition)"

definition effect_class_field :: "string \<Rightarrow> (string \<times> json) list \<Rightarrow> tool_effect_class result" where
  "effect_class_field k kvs =
     bindE (str_field k kvs) (enum_of tool_effect_class_value all_tool_effect_class)"

definition dirty_mode_field :: "string \<Rightarrow> (string \<times> json) list \<Rightarrow> dirty_mode result" where
  "dirty_mode_field k kvs =
     bindE (str_field k kvs) (enum_of dirty_mode_value [DM_refuse, DM_head_only])"

definition verification_field ::
  "string \<Rightarrow> (string \<times> json) list \<Rightarrow> verification_status result" where
  "verification_field k kvs =
     bindE (str_field k kvs)
       (enum_of verification_status_value [VS_passed, VS_failed, VS_not_configured])"

definition termination_statuses :: "execution_status list" where
  "termination_statuses = [ES_FAILED, ES_CANCELLED, ES_BUDGET_EXCEEDED, ES_NEEDS_ATTENTION]"

definition termination_status_field ::
  "string \<Rightarrow> (string \<times> json) list \<Rightarrow> execution_status result" where
  "termination_status_field k kvs =
     bindE (str_field k kvs) (enum_of execution_status_value termination_statuses)"

definition completed_status_field :: "string \<Rightarrow> (string \<times> json) list \<Rightarrow> unit result" where
  "completed_status_field k kvs = (case map_of kvs k of
       None \<Rightarrow> Inr ()
     | Some v \<Rightarrow> (if v = JStr (execution_status_value ES_COMPLETED) then Inr ()
                 else Inl ValueError))"

fun limit_item :: "string \<times> json \<Rightarrow> (string \<times> int) result" where
  "limit_item (k, JInt v) = Inr (k, v)"
| "limit_item (k, v) = Inl ValueError"

definition limits_field :: "string \<Rightarrow> (string \<times> json) list \<Rightarrow> (string \<times> int) list result" where
  "limits_field k kvs =
     (case map_of kvs k of Some (JObj items) \<Rightarrow> mapE limit_item items | _ \<Rightarrow> Inl ValueError)"

lemmas field_defs = closed_fields_def str_field_def opt_str_field_def int_field_def
  opt_int_field_def bool_field_def bool_default_field_def phase_field_def opt_phase_field_def
  disposition_field_def effect_class_field_def dirty_mode_field_def verification_field_def
  termination_status_field_def completed_status_field_def limits_field_def

fun payload_of_fields :: "event_type \<Rightarrow> (string \<times> json) list \<Rightarrow> payload result" where
  "payload_of_fields EV_SESSION_CREATED kvs =
     bindE (closed_fields [''event_type'', ''workspace_root'', ''config_sha256''] kvs) (\<lambda>_.
     bindE (str_field ''workspace_root'' kvs) (\<lambda>a.
     bindE (str_field ''config_sha256'' kvs) (\<lambda>b.
     Inr (SessionCreatedPayload a b))))"
| "payload_of_fields EV_USER_MESSAGE_RECEIVED kvs =
     bindE (closed_fields [''event_type'', ''message_blob_sha256''] kvs) (\<lambda>_.
     bindE (str_field ''message_blob_sha256'' kvs) (\<lambda>a.
     Inr (UserMessageReceivedPayload a)))"
| "payload_of_fields EV_RUN_CREATED kvs =
     bindE (closed_fields [''event_type'', ''base_repo_root'', ''base_commit_sha'', ''budget_limits''] kvs) (\<lambda>_.
     bindE (str_field ''base_repo_root'' kvs) (\<lambda>a.
     bindE (str_field ''base_commit_sha'' kvs) (\<lambda>b.
     bindE (limits_field ''budget_limits'' kvs) (\<lambda>c.
     Inr (RunCreatedPayload a b c)))))"
| "payload_of_fields EV_RUN_PHASE_CHANGED kvs =
     bindE (closed_fields [''event_type'', ''previous_phase'', ''next_phase'', ''reason''] kvs) (\<lambda>_.
     bindE (opt_phase_field ''previous_phase'' kvs) (\<lambda>a.
     bindE (phase_field ''next_phase'' kvs) (\<lambda>b.
     bindE (str_field ''reason'' kvs) (\<lambda>c.
     Inr (RunPhaseChangedPayload a b c)))))"
| "payload_of_fields EV_WORKSPACE_PROVISIONING_STARTED kvs =
     bindE (closed_fields [''event_type'', ''base_repo_root'', ''base_commit_sha'', ''dirty_mode''] kvs) (\<lambda>_.
     bindE (str_field ''base_repo_root'' kvs) (\<lambda>a.
     bindE (str_field ''base_commit_sha'' kvs) (\<lambda>b.
     bindE (dirty_mode_field ''dirty_mode'' kvs) (\<lambda>c.
     Inr (WorkspaceProvisioningStartedPayload a b c)))))"
| "payload_of_fields EV_WORKSPACE_PROVISIONED kvs =
     bindE (closed_fields [''event_type'', ''worktree_path'', ''branch'', ''ownership_marker'', ''ownership_token_sha256''] kvs) (\<lambda>_.
     bindE (str_field ''worktree_path'' kvs) (\<lambda>a.
     bindE (str_field ''branch'' kvs) (\<lambda>b.
     bindE (str_field ''ownership_marker'' kvs) (\<lambda>c.
     bindE (str_field ''ownership_token_sha256'' kvs) (\<lambda>d.
     Inr (WorkspaceProvisionedPayload a b c d))))))"
| "payload_of_fields EV_WORKSPACE_DISPOSITION_CHANGED kvs =
     bindE (closed_fields [''event_type'', ''previous'', ''next'', ''reason''] kvs) (\<lambda>_.
     bindE (disposition_field ''previous'' kvs) (\<lambda>a.
     bindE (disposition_field ''next'' kvs) (\<lambda>b.
     bindE (str_field ''reason'' kvs) (\<lambda>c.
     Inr (WorkspaceDispositionChangedPayload a b c)))))"
| "payload_of_fields EV_MODEL_CALL_STARTED kvs =
     bindE (closed_fields [''event_type'', ''model_call_id'', ''model_name'', ''attempt_no'', ''step''] kvs) (\<lambda>_.
     bindE (str_field ''model_call_id'' kvs) (\<lambda>a.
     bindE (str_field ''model_name'' kvs) (\<lambda>b.
     bindE (int_field 1 ''attempt_no'' kvs) (\<lambda>c.
     bindE (opt_int_field 0 ''step'' kvs) (\<lambda>d.
     Inr (ModelCallStartedPayload a b c d))))))"
| "payload_of_fields EV_MODEL_RESPONSE_RECEIVED kvs =
     bindE (closed_fields [''event_type'', ''model_call_id'', ''response_blob_sha256'', ''input_tokens'', ''output_tokens''] kvs) (\<lambda>_.
     bindE (str_field ''model_call_id'' kvs) (\<lambda>a.
     bindE (str_field ''response_blob_sha256'' kvs) (\<lambda>b.
     bindE (opt_int_field 0 ''input_tokens'' kvs) (\<lambda>c.
     bindE (opt_int_field 0 ''output_tokens'' kvs) (\<lambda>d.
     Inr (ModelResponseReceivedPayload a b c d))))))"
| "payload_of_fields EV_MODEL_CALL_FAILED kvs =
     bindE (closed_fields [''event_type'', ''model_call_id'', ''error_class'', ''retryable''] kvs) (\<lambda>_.
     bindE (str_field ''model_call_id'' kvs) (\<lambda>a.
     bindE (str_field ''error_class'' kvs) (\<lambda>b.
     bindE (bool_field ''retryable'' kvs) (\<lambda>c.
     Inr (ModelCallFailedPayload a b c)))))"
| "payload_of_fields EV_MODEL_OUTPUT_REJECTED kvs =
     bindE (closed_fields [''event_type'', ''response_event_id'', ''reason''] kvs) (\<lambda>_.
     bindE (str_field ''response_event_id'' kvs) (\<lambda>a.
     bindE (str_field ''reason'' kvs) (\<lambda>b.
     Inr (ModelOutputRejectedPayload a b))))"
| "payload_of_fields EV_TOOL_CALL_PROPOSED kvs =
     bindE (closed_fields [''event_type'', ''tool_call_id'', ''tool_name'', ''tool_version'', ''args_sha256'', ''effect_class''] kvs) (\<lambda>_.
     bindE (str_field ''tool_call_id'' kvs) (\<lambda>a.
     bindE (str_field ''tool_name'' kvs) (\<lambda>b.
     bindE (str_field ''tool_version'' kvs) (\<lambda>c.
     bindE (str_field ''args_sha256'' kvs) (\<lambda>d.
     bindE (effect_class_field ''effect_class'' kvs) (\<lambda>e.
     Inr (ToolCallProposedPayload a b c d e)))))))"
| "payload_of_fields EV_APPROVAL_REQUESTED kvs =
     bindE (closed_fields [''event_type'', ''approval_id'', ''tool_call_id'', ''fingerprint'', ''policy''] kvs) (\<lambda>_.
     bindE (str_field ''approval_id'' kvs) (\<lambda>a.
     bindE (str_field ''tool_call_id'' kvs) (\<lambda>b.
     bindE (str_field ''fingerprint'' kvs) (\<lambda>c.
     bindE (str_field ''policy'' kvs) (\<lambda>d.
     Inr (ApprovalRequestedPayload a b c d))))))"
| "payload_of_fields EV_APPROVAL_DECIDED kvs =
     bindE (closed_fields [''event_type'', ''approval_id'', ''tool_call_id'', ''fingerprint'', ''decision'', ''actor''] kvs) (\<lambda>_.
     bindE (str_field ''approval_id'' kvs) (\<lambda>a.
     bindE (str_field ''tool_call_id'' kvs) (\<lambda>b.
     bindE (str_field ''fingerprint'' kvs) (\<lambda>c.
     bindE (str_field ''decision'' kvs) (\<lambda>d.
     bindE (str_field ''actor'' kvs) (\<lambda>e.
     Inr (ApprovalDecidedPayload a b c d e)))))))"
| "payload_of_fields EV_TOOL_EXECUTION_DISPATCHED kvs =
     bindE (closed_fields [''event_type'', ''tool_call_id'', ''attempt_id'', ''attempt_no'', ''action_digest''] kvs) (\<lambda>_.
     bindE (str_field ''tool_call_id'' kvs) (\<lambda>a.
     bindE (str_field ''attempt_id'' kvs) (\<lambda>b.
     bindE (int_field 1 ''attempt_no'' kvs) (\<lambda>c.
     bindE (str_field ''action_digest'' kvs) (\<lambda>d.
     Inr (ToolExecutionDispatchedPayload a b c d))))))"
| "payload_of_fields EV_TOOL_EXECUTION_SUCCEEDED kvs =
     bindE (closed_fields [''event_type'', ''tool_call_id'', ''attempt_id'', ''receipt_sha256'', ''output_blob_sha256'', ''output_truncated''] kvs) (\<lambda>_.
     bindE (str_field ''tool_call_id'' kvs) (\<lambda>a.
     bindE (str_field ''attempt_id'' kvs) (\<lambda>b.
     bindE (str_field ''receipt_sha256'' kvs) (\<lambda>c.
     bindE (opt_str_field ''output_blob_sha256'' kvs) (\<lambda>d.
     bindE (bool_default_field False ''output_truncated'' kvs) (\<lambda>e.
     Inr (ToolExecutionSucceededPayload a b c d e)))))))"
| "payload_of_fields EV_TOOL_EXECUTION_FAILED kvs =
     bindE (closed_fields [''event_type'', ''tool_call_id'', ''attempt_id'', ''error_class'', ''retryable''] kvs) (\<lambda>_.
     bindE (str_field ''tool_call_id'' kvs) (\<lambda>a.
     bindE (str_field ''attempt_id'' kvs) (\<lambda>b.
     bindE (str_field ''error_class'' kvs) (\<lambda>c.
     bindE (bool_field ''retryable'' kvs) (\<lambda>d.
     Inr (ToolExecutionFailedPayload a b c d))))))"
| "payload_of_fields EV_TOOL_EXECUTION_UNCERTAIN kvs =
     bindE (closed_fields [''event_type'', ''tool_call_id'', ''attempt_id'', ''evidence''] kvs) (\<lambda>_.
     bindE (str_field ''tool_call_id'' kvs) (\<lambda>a.
     bindE (str_field ''attempt_id'' kvs) (\<lambda>b.
     bindE (str_field ''evidence'' kvs) (\<lambda>c.
     Inr (ToolExecutionUncertainPayload a b c)))))"
| "payload_of_fields EV_CHECKPOINT_COMMITTED kvs =
     bindE (closed_fields [''event_type'', ''checkpoint_id'', ''through_seq'', ''state_sha256''] kvs) (\<lambda>_.
     bindE (str_field ''checkpoint_id'' kvs) (\<lambda>a.
     bindE (int_field 1 ''through_seq'' kvs) (\<lambda>b.
     bindE (str_field ''state_sha256'' kvs) (\<lambda>c.
     Inr (CheckpointCommittedPayload a b c)))))"
| "payload_of_fields EV_BUDGET_RESERVED kvs =
     bindE (closed_fields [''event_type'', ''reservation_id'', ''category'', ''amount''] kvs) (\<lambda>_.
     bindE (str_field ''reservation_id'' kvs) (\<lambda>a.
     bindE (str_field ''category'' kvs) (\<lambda>b.
     bindE (int_field 1 ''amount'' kvs) (\<lambda>c.
     Inr (BudgetReservedPayload a b c)))))"
| "payload_of_fields EV_BUDGET_SETTLED kvs =
     bindE (closed_fields [''event_type'', ''reservation_id'', ''category'', ''reserved'', ''consumed''] kvs) (\<lambda>_.
     bindE (str_field ''reservation_id'' kvs) (\<lambda>a.
     bindE (str_field ''category'' kvs) (\<lambda>b.
     bindE (int_field 1 ''reserved'' kvs) (\<lambda>c.
     bindE (int_field 0 ''consumed'' kvs) (\<lambda>d.
     Inr (BudgetSettledPayload a b c d))))))"
| "payload_of_fields EV_CANCELLATION_REQUESTED kvs =
     bindE (closed_fields [''event_type'', ''actor'', ''reason''] kvs) (\<lambda>_.
     bindE (str_field ''actor'' kvs) (\<lambda>a.
     bindE (str_field ''reason'' kvs) (\<lambda>b.
     Inr (CancellationRequestedPayload a b))))"
| "payload_of_fields EV_RUN_COMPLETED kvs =
     bindE (closed_fields [''event_type'', ''execution_status'', ''verification_status''] kvs) (\<lambda>_.
     bindE (completed_status_field ''execution_status'' kvs) (\<lambda>_.
     bindE (verification_field ''verification_status'' kvs) (\<lambda>b.
     Inr (RunCompletedPayload b))))"
| "payload_of_fields EV_RUN_TERMINATED kvs =
     bindE (closed_fields [''event_type'', ''execution_status'', ''reason''] kvs) (\<lambda>_.
     bindE (termination_status_field ''execution_status'' kvs) (\<lambda>a.
     bindE (str_field ''reason'' kvs) (\<lambda>b.
     Inr (RunTerminatedPayload a b))))"
| "payload_of_fields EV_FINAL_ANSWER_COMMITTED kvs =
     bindE (closed_fields [''event_type'', ''answer_blob_sha256''] kvs) (\<lambda>_.
     bindE (str_field ''answer_blob_sha256'' kvs) (\<lambda>a.
     Inr (FinalAnswerCommittedPayload a)))"
| "payload_of_fields EV_PROJECTION_REBUILT kvs =
     bindE (closed_fields [''event_type'', ''through_seq'', ''previous_state_sha256'', ''rebuilt_state_sha256''] kvs) (\<lambda>_.
     bindE (int_field 1 ''through_seq'' kvs) (\<lambda>a.
     bindE (str_field ''previous_state_sha256'' kvs) (\<lambda>b.
     bindE (str_field ''rebuilt_state_sha256'' kvs) (\<lambda>c.
     Inr (ProjectionRebuiltPayload a b c)))))"
text \<open>\<^verbatim>\<open>model_validate\<close> of a payload: the union is discriminated by \<^verbatim>\<open>event_type\<close>.\<close>

definition payload_validate :: "json \<Rightarrow> payload result" where
  "payload_validate j = (case j of
       JObj kvs \<Rightarrow>
         bindE (str_field ''event_type'' kvs) (\<lambda>t.
         bindE (enum_of event_type_value all_event_types t) (\<lambda>ty.
         payload_of_fields ty kvs))
     | _ \<Rightarrow> Inl ValueError)"

section \<open>Well-formed payloads\<close>

text \<open>The bounds that the constructors enforce.\<close>

definition opt_ge :: "int \<Rightarrow> int option \<Rightarrow> bool" where
  "opt_ge lo x = (case x of None \<Rightarrow> True | Some i \<Rightarrow> lo \<le> i)"

fun payload_wf :: "payload \<Rightarrow> bool" where
  "payload_wf (RunCreatedPayload a b c) = distinct (map fst c)"
| "payload_wf (ModelCallStartedPayload a b c d) = (1 \<le> c \<and> opt_ge 0 d)"
| "payload_wf (ModelResponseReceivedPayload a b c d) = (opt_ge 0 c \<and> opt_ge 0 d)"
| "payload_wf (ToolExecutionDispatchedPayload a b c d) = (1 \<le> c)"
| "payload_wf (CheckpointCommittedPayload a b c) = (1 \<le> b)"
| "payload_wf (BudgetReservedPayload a b c) = (0 < c)"
| "payload_wf (BudgetSettledPayload a b c d) = (0 < c \<and> 0 \<le> d)"
| "payload_wf (RunTerminatedPayload a b) = (a \<in> set termination_statuses)"
| "payload_wf (ProjectionRebuiltPayload a b c) = (1 \<le> a)"
| "payload_wf _ = True"
lemma mapE_limit_item [simp]:
  "mapE limit_item (map (\<lambda>(k, v). (k, JInt v)) kvs) = Inr kvs"
  by (induction kvs) auto

text \<open>Each field reader inverts the dump of its field.\<close>

lemma field_reads:
  "map_of kvs k = Some (JStr s) \<Longrightarrow> str_field k kvs = Inr s"
  "map_of kvs k = Some (opt_dump JStr os) \<Longrightarrow> opt_str_field k kvs = Inr os"
  "map_of kvs k = Some (JInt i) \<Longrightarrow> lo \<le> i \<Longrightarrow> int_field lo k kvs = Inr i"
  "map_of kvs k = Some (opt_dump JInt oi) \<Longrightarrow> opt_ge lo oi \<Longrightarrow> opt_int_field lo k kvs = Inr oi"
  "map_of kvs k = Some (JBool b) \<Longrightarrow> bool_field k kvs = Inr b"
  "map_of kvs k = Some (JBool b) \<Longrightarrow> bool_default_field d k kvs = Inr b"
  "map_of kvs k = Some (limits_dump c) \<Longrightarrow> limits_field k kvs = Inr c"
  by (auto simp: field_defs opt_dump_def opt_ge_def limits_dump_def split: option.splits)

lemma enum_field_reads:
  "map_of kvs k = Some (JStr (run_phase_value p)) \<Longrightarrow> phase_field k kvs = Inr p"
  "map_of kvs k = Some (opt_dump (\<lambda>p. JStr (run_phase_value p)) op) \<Longrightarrow> opt_phase_field k kvs = Inr op"
  "map_of kvs k = Some (JStr (workspace_disposition_value w)) \<Longrightarrow> disposition_field k kvs = Inr w"
  "map_of kvs k = Some (JStr (tool_effect_class_value e)) \<Longrightarrow> effect_class_field k kvs = Inr e"
  "map_of kvs k = Some (JStr (dirty_mode_value m)) \<Longrightarrow> dirty_mode_field k kvs = Inr m"
  "map_of kvs k = Some (JStr (verification_status_value v)) \<Longrightarrow> verification_field k kvs = Inr v"
  "map_of kvs k = Some (JStr (execution_status_value t)) \<Longrightarrow> t \<in> set termination_statuses \<Longrightarrow>
     termination_status_field k kvs = Inr t"
  "map_of kvs k = Some (JStr (execution_status_value ES_COMPLETED)) \<Longrightarrow>
     completed_status_field k kvs = Inr ()"
proof -
  assume "map_of kvs k = Some (opt_dump (\<lambda>p. JStr (run_phase_value p)) op)"
  then show "opt_phase_field k kvs = Inr op"
    by (cases op) (simp_all add: opt_phase_field_def phase_field_def str_field_def opt_dump_def)
next
  assume "map_of kvs k = Some (JStr (dirty_mode_value m))"
  then show "dirty_mode_field k kvs = Inr m"
    by (cases m) (simp_all add: dirty_mode_field_def str_field_def enum_of_def)
next
  assume "map_of kvs k = Some (JStr (verification_status_value v))"
  then show "verification_field k kvs = Inr v"
    by (cases v) (simp_all add: verification_field_def str_field_def enum_of_def)
next
  assume "map_of kvs k = Some (JStr (execution_status_value t))" "t \<in> set termination_statuses"
  then show "termination_status_field k kvs = Inr t"
    by (cases t)
      (simp_all add: termination_status_field_def str_field_def enum_of_def termination_statuses_def)
qed (simp_all add: field_defs)

lemma payload_of_fields_dump:
  "payload_wf p \<Longrightarrow>
     payload_of_fields (payload_event_type p)
       ((''event_type'', JStr (event_type_value (payload_event_type p))) # payload_fields p) = Inr p"
  by (cases p) (simp_all add: field_reads enum_field_reads closed_fields_def del: execution_status_value.simps)

lemma payload_roundtrip: "payload_wf p \<Longrightarrow> payload_validate (payload_dump p) = Inr p"
  using payload_of_fields_dump [of p]
  by (simp add: payload_validate_def payload_dump_def str_field_def)

section \<open>Identifiers\<close>

text \<open>
  \<^verbatim>\<open>str(UUID(text))\<close>: an optional \<^verbatim>\<open>urn:\<close> or \<^verbatim>\<open>uuid:\<close> prefix, braces and hyphens are
  dropped; what is left must be 32 hexadecimal digits; the result is the canonical
  lower-case text with hyphens.
\<close>

function py_replace :: "string \<Rightarrow> string \<Rightarrow> string \<Rightarrow> string" where
  "py_replace pat rep s =
     (if s = [] \<or> pat = [] then s
      else if take (length pat) s = pat then rep @ py_replace pat rep (drop (length pat) s)
      else hd s # py_replace pat rep (tl s))"
  by pat_completeness auto
termination
  by (relation "measure (\<lambda>(pat, rep, s). length s)") auto

declare py_replace.simps [simp del]

definition py_strip :: "(char \<Rightarrow> bool) \<Rightarrow> string \<Rightarrow> string" where
  "py_strip P s = rev (dropWhile P (rev (dropWhile P s)))"

definition hex_digit :: "char \<Rightarrow> bool" where
  "hex_digit c \<longleftrightarrow> (let n = (of_char c :: nat) in
     48 \<le> n \<and> n \<le> 57 \<or> 65 \<le> n \<and> n \<le> 70 \<or> 97 \<le> n \<and> n \<le> 102)"

definition ascii_lower :: "char \<Rightarrow> char" where
  "ascii_lower c = (let n = (of_char c :: nat) in if 65 \<le> n \<and> n \<le> 90 then char_of (n + 32) else c)"

definition uuid_text :: "string \<Rightarrow> string" where
  "uuid_text h = take 8 h @ ''-'' @ take 4 (drop 8 h) @ ''-'' @ take 4 (drop 12 h) @ ''-''
     @ take 4 (drop 16 h) @ ''-'' @ drop 20 h"

definition parse_uuid :: "string \<Rightarrow> string result" where
  "parse_uuid s =
     (let a = py_replace ''uuid:'' [] (py_replace ''urn:'' [] s);
          h = filter (\<lambda>c. c \<noteq> CHR ''-'') (py_strip (\<lambda>c. c \<in> {CHR ''{'', CHR ''}''}) a)
      in if length h = 32 \<and> list_all hex_digit h then Inr (uuid_text (map ascii_lower h))
         else Inl ValueError)"

text \<open>The text \<^verbatim>\<open>str(uuid4())\<close> of a drawn identifier is canonical.\<close>

definition is_uuid :: "string \<Rightarrow> bool" where
  "is_uuid s \<longleftrightarrow> parse_uuid s = Inr s"

definition parse_opt_uuid :: "string option \<Rightarrow> string option result" where
  "parse_opt_uuid x = (case x of None \<Rightarrow> Inr None
     | Some s \<Rightarrow> bindE (parse_uuid s) (\<lambda>u. Inr (Some u)))"

section \<open>Envelopes\<close>

record event_envelope =
  e_event_id :: string
  e_schema_version :: int
  e_session_id :: string
  e_turn_id :: "string option"
  e_run_id :: "string option"
  e_seq :: int
  e_occurred_at :: instant
  e_process_instance_id :: string
  e_boot_id :: "string option"
  e_causation_event_id :: "string option"
  e_correlation_id :: "string option"
  e_payload :: payload

text \<open>
  \<open>envelope_check\<close> is the validation of the envelope's own fields. The time stamp is
  an instant with a zone, so \<^verbatim>\<open>require_timezone\<close> always accepts it.
\<close>

definition envelope_check :: "event_envelope \<Rightarrow> event_envelope result" where
  "envelope_check e =
     (if 1 \<le> e_schema_version e \<and> e_session_id e \<noteq> [] \<and> 1 \<le> e_seq e
         \<and> e_process_instance_id e \<noteq> [] then Inr e else Inl ValueError)"

definition new_event ::
  "string \<Rightarrow> instant \<Rightarrow> string \<Rightarrow> int \<Rightarrow> string \<Rightarrow> payload \<Rightarrow> string option \<Rightarrow> string option
     \<Rightarrow> string option \<Rightarrow> string option \<Rightarrow> event_envelope result" where
  "new_event event_id now session_id seq process_instance_id payload turn_id run_id
       causation_event_id correlation_id =
     envelope_check \<lparr>e_event_id = event_id, e_schema_version = 1, e_session_id = session_id,
       e_turn_id = turn_id, e_run_id = run_id, e_seq = seq, e_occurred_at = now,
       e_process_instance_id = process_instance_id, e_boot_id = None,
       e_causation_event_id = causation_event_id, e_correlation_id = correlation_id,
       e_payload = payload\<rparr>"

lemma new_event_Inr:
  "new_event eid now sid sq pid p tid rid cause corr = Inr e \<Longrightarrow>
     e = \<lparr>e_event_id = eid, e_schema_version = 1, e_session_id = sid, e_turn_id = tid,
       e_run_id = rid, e_seq = sq, e_occurred_at = now, e_process_instance_id = pid,
       e_boot_id = None, e_causation_event_id = cause, e_correlation_id = corr, e_payload = p\<rparr>
     \<and> sid \<noteq> [] \<and> 1 \<le> sq \<and> pid \<noteq> []"
  by (auto simp: new_event_def envelope_check_def split: if_splits)

end
