(* ===== verification/Projection.thy ===== *)
theory Projection
  imports Events
begin

text \<open>
  The pure event reducer of \<^verbatim>\<open>src/forge_replay/runtime/projection.py\<close>, which rebuilds a
  run's mutable state from its immutable events, and the checkpoint snapshots of
  \<^verbatim>\<open>src/forge_replay/runtime/checkpoint.py\<close> that let a replay start in the middle.
\<close>

section \<open>Run projections\<close>

record run_projection =
  p_run_id :: string
  p_session_id :: string
  p_turn_id :: string
  p_execution_status :: execution_status
  p_phase :: "run_phase option"
  p_workspace_disposition :: workspace_disposition
  p_base_repo_root :: string
  p_base_commit_sha :: string
  p_budget_limits :: "(string \<times> int) list"
  p_last_event_seq :: int

definition business_state :: "run_projection \<Rightarrow> json" where
  "business_state p = JObj
     [(''execution_status'', JStr (execution_status_value (p_execution_status p))),
      (''phase'', opt_dump (\<lambda>x. JStr (run_phase_value x)) (p_phase p)),
      (''workspace_disposition'',
         JStr (workspace_disposition_value (p_workspace_disposition p)))]"

text \<open>The payload dispatch of the loop body, for an event that continues a projection.\<close>

fun apply_payload :: "run_projection \<Rightarrow> int \<Rightarrow> payload \<Rightarrow> run_projection result" where
  "apply_payload p sq (RunPhaseChangedPayload prev nxt reason) =
     (if p_phase p \<noteq> prev then Inl ProjectionError
      else Inr (p\<lparr>p_phase := Some nxt, p_last_event_seq := sq\<rparr>))"
| "apply_payload p sq (RunCompletedPayload v) =
     Inr (p\<lparr>p_execution_status := ES_COMPLETED, p_phase := None, p_last_event_seq := sq\<rparr>)"
| "apply_payload p sq (RunTerminatedPayload st reason) =
     Inr (p\<lparr>p_execution_status := st, p_phase := None, p_last_event_seq := sq\<rparr>)"
| "apply_payload p sq (WorkspaceProvisionedPayload path branch marker token) =
     Inr (p\<lparr>p_workspace_disposition := WD_ACTIVE, p_last_event_seq := sq\<rparr>)"
| "apply_payload p sq (WorkspaceDispositionChangedPayload prev nxt reason) =
     (if p_workspace_disposition p \<noteq> prev then Inl ProjectionError
      else Inr (p\<lparr>p_workspace_disposition := nxt, p_last_event_seq := sq\<rparr>))"
| "apply_payload p sq _ = Inr (p\<lparr>p_last_event_seq := sq\<rparr>)"

text \<open>One iteration of the loop; the state is \<^verbatim>\<open>(projection, previous_seq)\<close>.\<close>

definition reduce_step ::
  "run_projection option \<times> int \<Rightarrow> event_envelope \<Rightarrow> (run_projection option \<times> int) result" where
  "reduce_step st e = (case st of (projection, previous_seq) \<Rightarrow>
     (case e_run_id e of
        None \<Rightarrow> Inr st
      | Some run_id \<Rightarrow>
          if e_seq e \<le> previous_seq then Inl ProjectionError
          else (case e_payload e of
             RunCreatedPayload root commit limits \<Rightarrow>
               (case projection of
                  Some _ \<Rightarrow> Inl ProjectionError
                | None \<Rightarrow>
                    (case e_turn_id e of
                       None \<Rightarrow> Inl ProjectionError
                     | Some turn_id \<Rightarrow>
                         Inr (Some \<lparr>p_run_id = run_id, p_session_id = e_session_id e,
                           p_turn_id = turn_id, p_execution_status = ES_ACTIVE, p_phase = None,
                           p_workspace_disposition = WD_NONE, p_base_repo_root = root,
                           p_base_commit_sha = commit, p_budget_limits = limits,
                           p_last_event_seq = e_seq e\<rparr>, e_seq e)))
           | payload \<Rightarrow>
               (case projection of
                  None \<Rightarrow> Inl ProjectionError
                | Some p \<Rightarrow>
                    if run_id \<noteq> p_run_id p then Inl ProjectionError
                    else bindE (apply_payload p (e_seq e) payload) (\<lambda>p'. Inr (Some p', e_seq e))))))"

definition reduce_start :: "run_projection option \<Rightarrow> run_projection option \<times> int" where
  "reduce_start initial =
     (initial, case initial of None \<Rightarrow> 0 | Some p \<Rightarrow> p_last_event_seq p)"

definition reduce_run_events ::
  "event_envelope list \<Rightarrow> run_projection option \<Rightarrow> run_projection result" where
  "reduce_run_events es initial =
     bindE (foldE reduce_step (reduce_start initial) es) (\<lambda>st.
       case fst st of None \<Rightarrow> Inl ProjectionError | Some p \<Rightarrow> Inr p)"

section \<open>The reducer contract\<close>

abbreviation run_live :: "event_envelope \<Rightarrow> bool" where
  "run_live e \<equiv> e_run_id e \<noteq> None"

lemma apply_payload_frame:
  "apply_payload p sq x = Inr p' \<Longrightarrow>
     p_last_event_seq p' = sq \<and> p_run_id p' = p_run_id p \<and> p_session_id p' = p_session_id p \<and>
     p_turn_id p' = p_turn_id p \<and> p_base_repo_root p' = p_base_repo_root p \<and>
     p_base_commit_sha p' = p_base_commit_sha p \<and> p_budget_limits p' = p_budget_limits p"
  by (cases x) (auto split: if_splits)

lemma reduce_step_skip: "e_run_id e = None \<Longrightarrow> reduce_step st e = Inr st"
  by (simp add: reduce_step_def split: prod.splits)

lemma reduce_step_seq:
  "run_live e \<Longrightarrow> reduce_step st e = Inr st' \<Longrightarrow> snd st < e_seq e \<and> snd st' = e_seq e"
  by (auto simp: reduce_step_def bindE_eq_Inr
      split: prod.splits option.splits payload.splits if_splits)

interpretation run_reducer: cursor_reducer reduce_step snd e_seq run_live
  by unfold_locales (simp_all add: reduce_step_skip reduce_step_seq)

text \<open>A state is coherent when its cursor is the projection's own sequence number.\<close>

lemma reduce_step_coherent:
  "reduce_step (reduce_start i) e = Inr st \<Longrightarrow> st = reduce_start (fst st)"
  by (auto simp: reduce_step_def reduce_start_def bindE_eq_Inr dest: apply_payload_frame
      split: prod.splits option.splits payload.splits if_splits)

lemma foldE_coherent:
  "foldE reduce_step (reduce_start i) es = Inr st \<Longrightarrow> st = reduce_start (fst st)"
proof (induction es arbitrary: i)
  case Nil
  then show ?case by (auto simp: reduce_start_def)
next
  case (Cons e es)
  then obtain t where t: "reduce_step (reduce_start i) e = Inr t"
      "foldE reduce_step t es = Inr st"
    by (auto simp: bindE_eq_Inr)
  from t(1) have "t = reduce_start (fst t)" by (rule reduce_step_coherent)
  with t(2) Cons.IH show ?case by metis
qed

lemma reduce_run_events_Inr:
  "reduce_run_events es i = Inr p \<longleftrightarrow> foldE reduce_step (reduce_start i) es = Inr (reduce_start (Some p))"
proof
  assume "reduce_run_events es i = Inr p"
  then obtain st where "foldE reduce_step (reduce_start i) es = Inr st" "fst st = Some p"
    by (auto simp: reduce_run_events_def bindE_eq_Inr split: option.splits)
  with foldE_coherent [of i es st] show
    "foldE reduce_step (reduce_start i) es = Inr (reduce_start (Some p))" by simp
qed (simp add: reduce_run_events_def reduce_start_def)

text \<open>Replay can stop and start again at any point of the stream.\<close>

lemma reduce_append:
  "reduce_run_events xs i = Inr p \<Longrightarrow>
     reduce_run_events (xs @ ys) i = reduce_run_events ys (Some p)"
  unfolding reduce_run_events_Inr
  by (simp add: reduce_run_events_def foldE_append)

fun creates_run :: "payload \<Rightarrow> bool" where
  "creates_run (RunCreatedPayload a b c) = True"
| "creates_run _ = False"

lemma reduce_step_continue:
  "e_run_id e = Some (p_run_id p) \<Longrightarrow> p_last_event_seq p < e_seq e \<Longrightarrow>
     \<not> creates_run (e_payload e) \<Longrightarrow>
     reduce_step (reduce_start (Some p)) e =
       bindE (apply_payload p (e_seq e) (e_payload e)) (\<lambda>p'. Inr (Some p', e_seq e))"
  by (cases "e_payload e") (simp_all add: reduce_step_def reduce_start_def)

lemma reduce_snoc:
  assumes "reduce_run_events es i = Inr p" and "e_run_id e = Some (p_run_id p)"
    and "p_last_event_seq p < e_seq e" and "\<not> creates_run (e_payload e)"
  shows "reduce_run_events (es @ [e]) i = apply_payload p (e_seq e) (e_payload e)"
proof -
  have "reduce_run_events (es @ [e]) i = reduce_run_events [e] (Some p)"
    using assms(1) by (rule reduce_append)
  also have "\<dots> = apply_payload p (e_seq e) (e_payload e)"
    using assms(2-) by (cases "apply_payload p (e_seq e) (e_payload e)")
      (simp_all add: reduce_run_events_def reduce_step_continue)
  finally show ?thesis .
qed

lemma reduce_two:
  assumes "reduce_run_events es i = Inr p"
    and "e_run_id e = Some (p_run_id p)" "p_last_event_seq p < e_seq e"
      "\<not> creates_run (e_payload e)" "apply_payload p (e_seq e) (e_payload e) = Inr q"
    and "e_run_id f = Some (p_run_id p)" "e_seq e < e_seq f" "\<not> creates_run (e_payload f)"
  shows "reduce_run_events (es @ [e, f]) i = apply_payload q (e_seq f) (e_payload f)"
proof -
  from assms(1-5) have "reduce_run_events (es @ [e]) i = Inr q"
    by (simp add: reduce_snoc)
  moreover from assms(5) have "p_run_id q = p_run_id p" "p_last_event_seq q = e_seq e"
    by (auto dest: apply_payload_frame)
  ultimately have "reduce_run_events ((es @ [e]) @ [f]) i = apply_payload q (e_seq f) (e_payload f)"
    using assms(6-8) by (intro reduce_snoc) auto
  then show ?thesis by simp
qed

section \<open>Checkpoint snapshots\<close>

definition CHECKPOINT_STATE_VERSION :: int where
  "CHECKPOINT_STATE_VERSION = 1"

record run_checkpoint_snapshot =
  cs_state_version :: int
  cs_run_id :: string
  cs_session_id :: string
  cs_turn_id :: string
  cs_execution_status :: execution_status
  cs_phase :: "run_phase option"
  cs_workspace_disposition :: workspace_disposition
  cs_base_repo_root :: string
  cs_base_commit_sha :: string
  cs_budget_limits :: "(string \<times> int) list"
  cs_through_seq :: int

definition from_projection :: "run_projection \<Rightarrow> run_checkpoint_snapshot" where
  "from_projection p =
     \<lparr>cs_state_version = CHECKPOINT_STATE_VERSION, cs_run_id = p_run_id p,
      cs_session_id = p_session_id p, cs_turn_id = p_turn_id p,
      cs_execution_status = p_execution_status p, cs_phase = p_phase p,
      cs_workspace_disposition = p_workspace_disposition p,
      cs_base_repo_root = p_base_repo_root p, cs_base_commit_sha = p_base_commit_sha p,
      cs_budget_limits = p_budget_limits p, cs_through_seq = p_last_event_seq p\<rparr>"

definition to_projection :: "run_checkpoint_snapshot \<Rightarrow> run_projection" where
  "to_projection s =
     \<lparr>p_run_id = cs_run_id s, p_session_id = cs_session_id s, p_turn_id = cs_turn_id s,
      p_execution_status = cs_execution_status s, p_phase = cs_phase s,
      p_workspace_disposition = cs_workspace_disposition s,
      p_base_repo_root = cs_base_repo_root s, p_base_commit_sha = cs_base_commit_sha s,
      p_budget_limits = cs_budget_limits s, p_last_event_seq = cs_through_seq s\<rparr>"

lemma to_from_projection [simp]: "to_projection (from_projection p) = p"
  by (simp add: to_projection_def from_projection_def)

text \<open>The snapshot document and its reading under the declared schema.\<close>

definition status_field :: "string \<Rightarrow> (string \<times> json) list \<Rightarrow> execution_status result" where
  "status_field k kvs =
     bindE (str_field k kvs) (enum_of execution_status_value all_execution_status)"

definition snapshot_dump :: "run_checkpoint_snapshot \<Rightarrow> json" where
  "snapshot_dump s = JObj
     [(''state_version'', JInt (cs_state_version s)),
      (''run_id'', JStr (cs_run_id s)),
      (''session_id'', JStr (cs_session_id s)),
      (''turn_id'', JStr (cs_turn_id s)),
      (''execution_status'', JStr (execution_status_value (cs_execution_status s))),
      (''phase'', opt_dump (\<lambda>x. JStr (run_phase_value x)) (cs_phase s)),
      (''workspace_disposition'',
         JStr (workspace_disposition_value (cs_workspace_disposition s))),
      (''base_repo_root'', JStr (cs_base_repo_root s)),
      (''base_commit_sha'', JStr (cs_base_commit_sha s)),
      (''budget_limits'', limits_dump (cs_budget_limits s)),
      (''through_seq'', JInt (cs_through_seq s))]"

definition any_int_field :: "string \<Rightarrow> (string \<times> json) list \<Rightarrow> int result" where
  "any_int_field k kvs = (case map_of kvs k of Some (JInt i) \<Rightarrow> Inr i | _ \<Rightarrow> Inl ValueError)"

definition version_field :: "string \<Rightarrow> (string \<times> json) list \<Rightarrow> int result" where
  "version_field k kvs =
     (case map_of kvs k of None \<Rightarrow> Inr CHECKPOINT_STATE_VERSION | _ \<Rightarrow> any_int_field k kvs)"

definition snapshot_validate :: "json \<Rightarrow> run_checkpoint_snapshot result" where
  "snapshot_validate j = (case j of
       JObj kvs \<Rightarrow>
         bindE (closed_fields [''state_version'', ''run_id'', ''session_id'', ''turn_id'',
           ''execution_status'', ''phase'', ''workspace_disposition'', ''base_repo_root'',
           ''base_commit_sha'', ''budget_limits'', ''through_seq''] kvs) (\<lambda>_.
         bindE (version_field ''state_version'' kvs) (\<lambda>v.
         bindE (str_field ''run_id'' kvs) (\<lambda>r.
         bindE (str_field ''session_id'' kvs) (\<lambda>s.
         bindE (str_field ''turn_id'' kvs) (\<lambda>t.
         bindE (status_field ''execution_status'' kvs) (\<lambda>es.
         bindE (opt_phase_field ''phase'' kvs) (\<lambda>ph.
         bindE (disposition_field ''workspace_disposition'' kvs) (\<lambda>wd.
         bindE (str_field ''base_repo_root'' kvs) (\<lambda>br.
         bindE (str_field ''base_commit_sha'' kvs) (\<lambda>bc.
         bindE (limits_field ''budget_limits'' kvs) (\<lambda>bl.
         bindE (any_int_field ''through_seq'' kvs) (\<lambda>ts.
         Inr \<lparr>cs_state_version = v, cs_run_id = r, cs_session_id = s, cs_turn_id = t,
              cs_execution_status = es, cs_phase = ph, cs_workspace_disposition = wd,
              cs_base_repo_root = br, cs_base_commit_sha = bc, cs_budget_limits = bl,
              cs_through_seq = ts\<rparr>))))))))))))
     | _ \<Rightarrow> Inl ValueError)"

lemma snapshot_field_reads:
  "map_of kvs k = Some (JInt i) \<Longrightarrow> any_int_field k kvs = Inr i"
  "map_of kvs k = Some (JInt i) \<Longrightarrow> version_field k kvs = Inr i"
  "map_of kvs k = Some (JStr (execution_status_value t)) \<Longrightarrow> status_field k kvs = Inr t"
  by (simp_all add: any_int_field_def version_field_def status_field_def str_field_def)

lemma snapshot_roundtrip [simp]: "snapshot_validate (snapshot_dump s) = Inr s"
  by (simp add: snapshot_validate_def snapshot_dump_def closed_fields_def
      field_reads enum_field_reads snapshot_field_reads)

end
