(* ===== verification/Tables.thy ===== *)
theory Tables
  imports Projection
begin

text \<open>
  The SQLite schema of \<^verbatim>\<open>src/forge_replay/persistence/schema.py\<close>: one record per table
  row, the database as the record of its tables, and for every table the
  \<^verbatim>\<open>INSERT\<close> with the constraints the schema declares (primary key, unique indices,
  \<^verbatim>\<open>CHECK\<close>s and foreign keys; \<^verbatim>\<open>PRAGMA foreign_keys = ON\<close>), which raises
  \<^verbatim>\<open>sqlite3.IntegrityError\<close>. Enum columns hold the enum member, JSON columns the
  document, time stamps the instant. Columns that no code writes are left out.
\<close>

section \<open>Rows\<close>

record session_row =
  s_session_id :: string
  s_workspace_root :: string
  s_created_at :: instant
  s_status :: string
  s_next_seq :: int
  s_config :: json
  s_last_event_id :: "string option"

record turn_row =
  t_turn_id :: string
  t_session_id :: string
  t_user_event_id :: string
  t_created_at :: instant
  t_status :: string
  t_active_run_id :: "string option"

record run_row =
  r_run_id :: string
  r_turn_id :: string
  r_session_id :: string
  r_execution_status :: execution_status
  r_phase :: "run_phase option"
  r_workspace_disposition :: workspace_disposition
  r_base_repo_root :: string
  r_base_commit_sha :: string
  r_worktree_path :: "string option"
  r_worktree_branch :: "string option"
  r_created_at :: instant
  r_finished_at :: "instant option"
  r_last_event_seq :: int
  r_lease_owner :: "string option"
  r_lease_epoch :: int
  r_lease_expires_at :: "instant option"
  r_cancel_requested_at :: "instant option"
  r_cancel_reason :: "string option"
  r_budget_limits :: "(string \<times> int) list"
  r_budget_consumed :: "(string \<times> int) list"
  r_terminal_reason :: "json option"

record event_row =
  v_event_id :: string
  v_session_id :: string
  v_turn_id :: "string option"
  v_run_id :: "string option"
  v_seq :: int
  v_event_type :: string
  v_schema_version :: int
  v_occurred_at :: instant
  v_process_instance_id :: string
  v_boot_id :: "string option"
  v_causation_event_id :: "string option"
  v_correlation_id :: "string option"
  v_payload_json :: json
  v_payload_sha256 :: string

record tool_call_row =
  c_tool_call_id :: string
  c_run_id :: string
  c_response_event_id :: string
  c_ordinal :: int
  c_tool_name :: string
  c_tool_version :: string
  c_args_json :: string
  c_args_sha256 :: string
  c_approval_fingerprint :: string
  c_effect_class :: tool_effect_class
  c_state :: tool_call_state
  c_precondition :: json
  c_final_output_blob_sha256 :: "string option"
  c_final_error :: "json option"

record tool_attempt_row =
  a_attempt_id :: string
  a_tool_call_id :: string
  a_attempt_no :: int
  a_state :: tool_call_state
  a_executor_identity :: json
  a_dispatched_at :: instant
  a_completed_at :: "instant option"
  a_receipt :: "json option"
  a_output_blob_sha256 :: "string option"
  a_error :: "json option"

record approval_row =
  ap_approval_id :: string
  ap_run_id :: string
  ap_subject_type :: string
  ap_subject_id :: string
  ap_fingerprint :: string
  ap_policy :: string
  ap_decision :: "approval_decision option"
  ap_requested_at :: instant
  ap_decided_at :: "instant option"
  ap_actor :: "string option"
  ap_reason :: "string option"

datatype reservation_state = RS_reserved | RS_settled

record reservation_row =
  b_reservation_id :: string
  b_run_id :: string
  b_category :: string
  b_reserved :: int
  b_consumed :: "int option"
  b_state :: reservation_state
  b_created_at :: instant
  b_settled_at :: "instant option"

record checkpoint_row =
  k_checkpoint_id :: string
  k_run_id :: string
  k_through_seq :: int
  k_state_version :: int
  k_phase :: string
  k_snapshot_json :: json
  k_snapshot_sha256 :: string
  k_created_at :: instant

record blob_row =
  o_sha256 :: string
  o_byte_length :: int
  o_media_type :: string
  o_content :: string
  o_created_at :: instant

record control_command_row =
  m_command_id :: string
  m_run_id :: string
  m_command_type :: string
  m_actor :: string
  m_expected_stream_version :: int
  m_payload_sha256 :: string
  m_committed_event_id :: "string option"
  m_created_at :: instant

datatype model_call_status = MS_started | MS_responded | MS_consumed

datatype consumption_kind = CK_tool_batch | CK_rejected | CK_final

record model_call_row =
  mc_model_call_id :: string
  mc_run_id :: string
  mc_step :: int
  mc_model_name :: string
  mc_status :: model_call_status
  mc_attempt_count :: int
  mc_latest_attempt_no :: int
  mc_first_started_event_id :: "string option"
  mc_latest_attempt_event_id :: "string option"
  mc_latest_failure_event_id :: "string option"
  mc_response_event_id :: "string option"
  mc_response_blob_sha256 :: "string option"
  mc_response_seq :: "int option"
  mc_consumed_event_id :: "string option"
  mc_consumed_seq :: "int option"
  mc_consumption_kind :: "consumption_kind option"
  mc_updated_seq :: int

section \<open>The database\<close>

record db =
  sessions :: "session_row list"
  turns :: "turn_row list"
  runs :: "run_row list"
  events :: "event_row list"
  tool_calls :: "tool_call_row list"
  tool_attempts :: "tool_attempt_row list"
  approvals :: "approval_row list"
  budget_reservations :: "reservation_row list"
  checkpoints :: "checkpoint_row list"
  blobs :: "blob_row list"
  control_commands :: "control_command_row list"
  model_calls :: "model_call_row list"
  schema_migrations :: "(int \<times> string) list"
  operational_projection_migrations :: "(string \<times> int) list"

definition empty_db :: db where
  "empty_db = \<lparr>sessions = [], turns = [], runs = [], events = [], tool_calls = [],
     tool_attempts = [], approvals = [], budget_reservations = [], checkpoints = [], blobs = [],
     control_commands = [], model_calls = [], schema_migrations = [],
     operational_projection_migrations = []\<rparr>"

text \<open>
  The configuration a store instance is created with, and the functions of the
  surrounding platform it calls: the digest \<^verbatim>\<open>hashlib.sha256(bytes).hexdigest()\<close>,
  \<^verbatim>\<open>unicodedata.normalize("NFC", text)\<close>, and the resolution of a path
  (\<^verbatim>\<open>Path(p).resolve()\<close>; with \<^verbatim>\<open>strict=True\<close> it fails on a missing file).
\<close>

record env =
  sha256 :: "string \<Rightarrow> string"
  nfc :: "string \<Rightarrow> string"
  resolve_path :: "string \<Rightarrow> string"
  resolve_strict :: "string \<Rightarrow> string option"
  max_blob_bytes :: int
  max_total_bytes :: int

definition sha256_json :: "env \<Rightarrow> json \<Rightarrow> string" where
  "sha256_json env j = sha256 env (canonical_json j)"

section \<open>Keyed access\<close>

definition get_session :: "db \<Rightarrow> string \<Rightarrow> session_row option" where
  "get_session d k = row_get s_session_id k (sessions d)"

definition get_run :: "db \<Rightarrow> string \<Rightarrow> run_row option" where
  "get_run d k = row_get r_run_id k (runs d)"

definition get_event :: "db \<Rightarrow> string \<Rightarrow> event_row option" where
  "get_event d k = row_get v_event_id k (events d)"

definition get_tool_call_row :: "db \<Rightarrow> string \<Rightarrow> tool_call_row option" where
  "get_tool_call_row d k = row_get c_tool_call_id k (tool_calls d)"

definition get_attempt_row :: "db \<Rightarrow> string \<Rightarrow> tool_attempt_row option" where
  "get_attempt_row d k = row_get a_attempt_id k (tool_attempts d)"

definition get_approval_row :: "db \<Rightarrow> string \<Rightarrow> approval_row option" where
  "get_approval_row d k = row_get ap_approval_id k (approvals d)"

definition get_reservation_row :: "db \<Rightarrow> string \<Rightarrow> reservation_row option" where
  "get_reservation_row d k = row_get b_reservation_id k (budget_reservations d)"

definition get_blob_row :: "db \<Rightarrow> string \<Rightarrow> blob_row option" where
  "get_blob_row d k = row_get o_sha256 k (blobs d)"

definition get_command_row :: "db \<Rightarrow> string \<Rightarrow> control_command_row option" where
  "get_command_row d k = row_get m_command_id k (control_commands d)"

definition get_model_call_row :: "db \<Rightarrow> string \<Rightarrow> model_call_row option" where
  "get_model_call_row d k = row_get mc_model_call_id k (model_calls d)"

definition update_session :: "string \<Rightarrow> (session_row \<Rightarrow> session_row) \<Rightarrow> db \<Rightarrow> db" where
  "update_session k f d = d\<lparr>sessions := row_upd s_session_id k f (sessions d)\<rparr>"

definition update_turn :: "string \<Rightarrow> (turn_row \<Rightarrow> turn_row) \<Rightarrow> db \<Rightarrow> db" where
  "update_turn k f d = d\<lparr>turns := row_upd t_turn_id k f (turns d)\<rparr>"

definition update_run :: "string \<Rightarrow> (run_row \<Rightarrow> run_row) \<Rightarrow> db \<Rightarrow> db" where
  "update_run k f d = d\<lparr>runs := row_upd r_run_id k f (runs d)\<rparr>"

definition update_tool_call :: "string \<Rightarrow> (tool_call_row \<Rightarrow> tool_call_row) \<Rightarrow> db \<Rightarrow> db" where
  "update_tool_call k f d = d\<lparr>tool_calls := row_upd c_tool_call_id k f (tool_calls d)\<rparr>"

definition update_attempt :: "string \<Rightarrow> (tool_attempt_row \<Rightarrow> tool_attempt_row) \<Rightarrow> db \<Rightarrow> db" where
  "update_attempt k f d = d\<lparr>tool_attempts := row_upd a_attempt_id k f (tool_attempts d)\<rparr>"

definition update_approval :: "string \<Rightarrow> (approval_row \<Rightarrow> approval_row) \<Rightarrow> db \<Rightarrow> db" where
  "update_approval k f d = d\<lparr>approvals := row_upd ap_approval_id k f (approvals d)\<rparr>"

definition update_reservation :: "string \<Rightarrow> (reservation_row \<Rightarrow> reservation_row) \<Rightarrow> db \<Rightarrow> db" where
  "update_reservation k f d =
     d\<lparr>budget_reservations := row_upd b_reservation_id k f (budget_reservations d)\<rparr>"

definition update_model_call :: "string \<Rightarrow> (model_call_row \<Rightarrow> model_call_row) \<Rightarrow> db \<Rightarrow> db" where
  "update_model_call k f d = d\<lparr>model_calls := row_upd mc_model_call_id k f (model_calls d)\<rparr>"

lemmas get_defs = get_session_def get_run_def get_event_def get_tool_call_row_def
  get_attempt_row_def get_approval_row_def get_reservation_row_def get_blob_row_def
  get_command_row_def get_model_call_row_def

lemmas table_update_defs = update_session_def update_turn_def update_run_def update_tool_call_def
  update_attempt_def update_approval_def update_reservation_def update_model_call_def

interpretation session_store: keyed_store get_session update_session s_session_id
  by unfold_locales (auto simp: get_defs table_update_defs row_get_upd dest: row_get_SomeD)

interpretation run_store: keyed_store get_run update_run r_run_id
  by unfold_locales (auto simp: get_defs table_update_defs row_get_upd dest: row_get_SomeD)

interpretation tool_call_store: keyed_store get_tool_call_row update_tool_call c_tool_call_id
  by unfold_locales (auto simp: get_defs table_update_defs row_get_upd dest: row_get_SomeD)

interpretation attempt_store: keyed_store get_attempt_row update_attempt a_attempt_id
  by unfold_locales (auto simp: get_defs table_update_defs row_get_upd dest: row_get_SomeD)

interpretation approval_store: keyed_store get_approval_row update_approval ap_approval_id
  by unfold_locales (auto simp: get_defs table_update_defs row_get_upd dest: row_get_SomeD)

interpretation reservation_store: keyed_store get_reservation_row update_reservation b_reservation_id
  by unfold_locales (auto simp: get_defs table_update_defs row_get_upd dest: row_get_SomeD)

interpretation model_call_store: keyed_store get_model_call_row update_model_call mc_model_call_id
  by unfold_locales (auto simp: get_defs table_update_defs row_get_upd dest: row_get_SomeD)

section \<open>Inserts\<close>

definition opt_exists :: "(string \<Rightarrow> bool) \<Rightarrow> string option \<Rightarrow> bool" where
  "opt_exists P x = (case x of None \<Rightarrow> True | Some k \<Rightarrow> P k)"

definition session_exists :: "db \<Rightarrow> string \<Rightarrow> bool" where
  "session_exists d k = list_ex (\<lambda>r. s_session_id r = k) (sessions d)"

definition turn_exists :: "db \<Rightarrow> string \<Rightarrow> bool" where
  "turn_exists d k = list_ex (\<lambda>r. t_turn_id r = k) (turns d)"

definition run_exists :: "db \<Rightarrow> string \<Rightarrow> bool" where
  "run_exists d k = list_ex (\<lambda>r. r_run_id r = k) (runs d)"

definition event_exists :: "db \<Rightarrow> string \<Rightarrow> bool" where
  "event_exists d k = list_ex (\<lambda>r. v_event_id r = k) (events d)"

definition tool_call_exists :: "db \<Rightarrow> string \<Rightarrow> bool" where
  "tool_call_exists d k = list_ex (\<lambda>r. c_tool_call_id r = k) (tool_calls d)"

definition blob_exists :: "db \<Rightarrow> string \<Rightarrow> bool" where
  "blob_exists d k = list_ex (\<lambda>r. o_sha256 r = k) (blobs d)"

definition insert_session :: "session_row \<Rightarrow> (db, unit) txn" where
  "insert_session r = (\<lambda>d.
     if session_exists d (s_session_id r) then Inl IntegrityError
     else Inr ((), d\<lparr>sessions := sessions d @ [r]\<rparr>))"

definition insert_turn :: "turn_row \<Rightarrow> (db, unit) txn" where
  "insert_turn r = (\<lambda>d.
     if turn_exists d (t_turn_id r) \<or> \<not> session_exists d (t_session_id r) then Inl IntegrityError
     else Inr ((), d\<lparr>turns := turns d @ [r]\<rparr>))"

definition insert_run :: "run_row \<Rightarrow> (db, unit) txn" where
  "insert_run r = (\<lambda>d.
     if run_exists d (r_run_id r) \<or> \<not> turn_exists d (r_turn_id r)
        \<or> \<not> session_exists d (r_session_id r) then Inl IntegrityError
     else Inr ((), d\<lparr>runs := runs d @ [r]\<rparr>))"

definition insert_event_row :: "event_row \<Rightarrow> (db, unit) txn" where
  "insert_event_row r = (\<lambda>d.
     if event_exists d (v_event_id r) \<or> \<not> session_exists d (v_session_id r)
        \<or> \<not> opt_exists (turn_exists d) (v_turn_id r) \<or> \<not> opt_exists (run_exists d) (v_run_id r)
        \<or> list_ex (\<lambda>x. v_session_id x = v_session_id r \<and> v_seq x = v_seq r) (events d)
     then Inl IntegrityError
     else Inr ((), d\<lparr>events := events d @ [r]\<rparr>))"

definition insert_tool_call :: "tool_call_row \<Rightarrow> (db, unit) txn" where
  "insert_tool_call r = (\<lambda>d.
     if tool_call_exists d (c_tool_call_id r) \<or> \<not> run_exists d (c_run_id r)
        \<or> \<not> event_exists d (c_response_event_id r)
        \<or> list_ex (\<lambda>x. c_run_id x = c_run_id r \<and> c_response_event_id x = c_response_event_id r
             \<and> c_ordinal x = c_ordinal r) (tool_calls d)
     then Inl IntegrityError
     else Inr ((), d\<lparr>tool_calls := tool_calls d @ [r]\<rparr>))"

definition insert_attempt :: "tool_attempt_row \<Rightarrow> (db, unit) txn" where
  "insert_attempt r = (\<lambda>d.
     if list_ex (\<lambda>x. a_attempt_id x = a_attempt_id r) (tool_attempts d)
        \<or> \<not> tool_call_exists d (a_tool_call_id r)
        \<or> list_ex (\<lambda>x. a_tool_call_id x = a_tool_call_id r \<and> a_attempt_no x = a_attempt_no r)
            (tool_attempts d)
     then Inl IntegrityError
     else Inr ((), d\<lparr>tool_attempts := tool_attempts d @ [r]\<rparr>))"

definition insert_approval :: "approval_row \<Rightarrow> (db, unit) txn" where
  "insert_approval r = (\<lambda>d.
     if list_ex (\<lambda>x. ap_approval_id x = ap_approval_id r) (approvals d)
        \<or> \<not> run_exists d (ap_run_id r)
        \<or> list_ex (\<lambda>x. ap_run_id x = ap_run_id r \<and> ap_subject_type x = ap_subject_type r
             \<and> ap_subject_id x = ap_subject_id r \<and> ap_fingerprint x = ap_fingerprint r) (approvals d)
     then Inl IntegrityError
     else Inr ((), d\<lparr>approvals := approvals d @ [r]\<rparr>))"

definition insert_reservation :: "reservation_row \<Rightarrow> (db, unit) txn" where
  "insert_reservation r = (\<lambda>d.
     if list_ex (\<lambda>x. b_reservation_id x = b_reservation_id r) (budget_reservations d)
        \<or> \<not> run_exists d (b_run_id r)
     then Inl IntegrityError
     else Inr ((), d\<lparr>budget_reservations := budget_reservations d @ [r]\<rparr>))"

definition insert_checkpoint :: "checkpoint_row \<Rightarrow> (db, unit) txn" where
  "insert_checkpoint r = (\<lambda>d.
     if list_ex (\<lambda>x. k_checkpoint_id x = k_checkpoint_id r) (checkpoints d)
        \<or> \<not> run_exists d (k_run_id r)
        \<or> list_ex (\<lambda>x. k_run_id x = k_run_id r \<and> k_through_seq x = k_through_seq r) (checkpoints d)
     then Inl IntegrityError
     else Inr ((), d\<lparr>checkpoints := checkpoints d @ [r]\<rparr>))"

definition insert_blob :: "blob_row \<Rightarrow> (db, unit) txn" where
  "insert_blob r = (\<lambda>d.
     if blob_exists d (o_sha256 r) then Inl IntegrityError
     else Inr ((), d\<lparr>blobs := blobs d @ [r]\<rparr>))"

definition insert_control_command :: "control_command_row \<Rightarrow> (db, unit) txn" where
  "insert_control_command r = (\<lambda>d.
     if list_ex (\<lambda>x. m_command_id x = m_command_id r) (control_commands d)
        \<or> \<not> run_exists d (m_run_id r) \<or> \<not> opt_exists (event_exists d) (m_committed_event_id r)
     then Inl IntegrityError
     else Inr ((), d\<lparr>control_commands := control_commands d @ [r]\<rparr>))"

text \<open>Indices \<^verbatim>\<open>model_calls_by_run_step\<close> and \<^verbatim>\<open>model_calls_one_active_per_run\<close>.\<close>

definition model_call_active :: "model_call_row \<Rightarrow> bool" where
  "model_call_active r \<longleftrightarrow> mc_status r \<in> {MS_started, MS_responded}"

definition insert_model_call :: "model_call_row \<Rightarrow> (db, unit) txn" where
  "insert_model_call r = (\<lambda>d.
     if list_ex (\<lambda>x. mc_model_call_id x = mc_model_call_id r) (model_calls d)
        \<or> \<not> run_exists d (mc_run_id r) \<or> mc_step r < 0 \<or> mc_attempt_count r < 0
        \<or> mc_latest_attempt_no r < 0
        \<or> \<not> opt_exists (event_exists d) (mc_first_started_event_id r)
        \<or> \<not> opt_exists (event_exists d) (mc_latest_attempt_event_id r)
        \<or> list_ex (\<lambda>x. mc_run_id x = mc_run_id r \<and> mc_step x = mc_step r) (model_calls d)
        \<or> model_call_active r
          \<and> list_ex (\<lambda>x. mc_run_id x = mc_run_id r \<and> model_call_active x) (model_calls d)
     then Inl IntegrityError
     else Inr ((), d\<lparr>model_calls := model_calls d @ [r]\<rparr>))"

lemmas insert_defs = insert_session_def insert_turn_def insert_run_def insert_event_row_def
  insert_tool_call_def insert_attempt_def insert_approval_def insert_reservation_def
  insert_checkpoint_def insert_blob_def insert_control_command_def insert_model_call_def

lemma exists_iff:
  "session_exists d k \<longleftrightarrow> k \<in> s_session_id ` set (sessions d)"
  "turn_exists d k \<longleftrightarrow> k \<in> t_turn_id ` set (turns d)"
  "run_exists d k \<longleftrightarrow> k \<in> r_run_id ` set (runs d)"
  "event_exists d k \<longleftrightarrow> k \<in> v_event_id ` set (events d)"
  "tool_call_exists d k \<longleftrightarrow> k \<in> c_tool_call_id ` set (tool_calls d)"
  "blob_exists d k \<longleftrightarrow> k \<in> o_sha256 ` set (blobs d)"
  by (auto simp: session_exists_def turn_exists_def run_exists_def event_exists_def
      tool_call_exists_def blob_exists_def list_ex_iff)

lemma get_run_exists: "run_exists d k \<longleftrightarrow> get_run d k \<noteq> None"
  by (auto simp: exists_iff get_run_def row_get_None)

end
