(* ===== verification/Tool_Identity.thy ===== *)
theory Tool_Identity
  imports Tables
begin

text \<open>
  Tool-call identities (\<^verbatim>\<open>src/forge_replay/runtime/tool_identity.py\<close>): the bit layout of
  version 7 UUIDs, the canonical form of tool arguments, lexical target paths and the
  approval fingerprint that binds a decision to one call.
\<close>

unbundle bit_operations_syntax

section \<open>UUID version 7\<close>

text \<open>
  \<open>rand_a\<close> and \<open>rand_b\<close> are the values of \<^verbatim>\<open>secrets.randbits(12)\<close> and
  \<^verbatim>\<open>secrets.randbits(62)\<close>. The result is the integer given to \<^verbatim>\<open>UUID(int=...)\<close>.
\<close>

definition uuid7_value :: "int \<Rightarrow> int \<Rightarrow> int \<Rightarrow> int" where
  "uuid7_value timestamp_ms rand_a rand_b =
     (((push_bit 80 timestamp_ms OR push_bit 76 7) OR push_bit 64 rand_a) OR push_bit 62 2) OR rand_b"

definition new_uuid7 :: "int \<Rightarrow> int \<Rightarrow> int \<Rightarrow> int result" where
  "new_uuid7 unix_ms rand_a rand_b =
     (if \<not> (0 \<le> unix_ms \<and> unix_ms < push_bit 48 1) then Inl ValueError
      else Inr (uuid7_value unix_ms rand_a rand_b))"

lemma or_push_bit:
  fixes a b :: int
  assumes "0 \<le> b" "b < 2 ^ n"
  shows "push_bit n a OR b = a * 2 ^ n + b"
proof -
  have "push_bit n a AND b = 0"
  proof (rule bit_eqI)
    fix i
    have "\<not> bit b i" if "n \<le> i"
    proof -
      have "take_bit n b = b" using assms by (simp add: take_bit_int_eq_self_iff)
      with that show ?thesis by (metis bit_take_bit_iff linorder_not_less)
    qed
    then show "bit (push_bit n a AND b) i = bit (0::int) i"
      by (auto simp: bit_and_iff bit_push_bit_iff)
  qed
  then have "push_bit n a OR b = push_bit n a + b"
    by (simp add: disjunctive_add_eq_or)
  then show ?thesis by (simp add: push_bit_eq_mult)
qed

lemma uuid7_value_sum:
  assumes "0 \<le> a" "a < 2 ^ 12" "0 \<le> b" "b < 2 ^ 62"
  shows "uuid7_value t a b = t * 2 ^ 80 + 7 * 2 ^ 76 + a * 2 ^ 64 + 2 * 2 ^ 62 + b"
proof -
  have 1: "push_bit 80 t OR push_bit 76 7 = push_bit 76 (t * 16 + 7)"
    using or_push_bit [of "push_bit 76 7" 80 t] by (simp add: push_bit_eq_mult)
  have 2: "push_bit 76 (t * 16 + 7) OR push_bit 64 a = push_bit 64 ((t * 16 + 7) * 4096 + a)"
    using or_push_bit [of "push_bit 64 a" 76 "t * 16 + 7"] assms by (simp add: push_bit_eq_mult)
  have 3: "push_bit 64 ((t * 16 + 7) * 4096 + a) OR push_bit 62 2 =
      push_bit 62 (((t * 16 + 7) * 4096 + a) * 4 + 2)"
    using or_push_bit [of "push_bit 62 2" 64 "(t * 16 + 7) * 4096 + a"] by (simp add: push_bit_eq_mult)
  show ?thesis
    unfolding uuid7_value_def 1 2 3
    using or_push_bit [of b 62 "((t * 16 + 7) * 4096 + a) * 4 + 2"] assms by (simp add: algebra_simps)
qed

section \<open>Canonical arguments\<close>

text \<open>
  The Python values a tool call may carry. A float is its \<^verbatim>\<open>repr\<close> and whether it is
  zero, or not finite; \<open>PyOther\<close> stands for every other type.
\<close>

datatype py_value =
    PyNone
  | PyBool bool
  | PyInt int
  | PyFloat string bool
  | PyNonFinite
  | PyStr string
  | PyList "py_value list"
  | PyTuple "py_value list"
  | PyDict "(py_value \<times> py_value) list"
  | PyOther

fun normalize_json_value :: "(string \<Rightarrow> string) \<Rightarrow> py_value \<Rightarrow> json result"
  and normalize_values :: "(string \<Rightarrow> string) \<Rightarrow> py_value list \<Rightarrow> json list result"
  and normalize_items ::
    "(string \<Rightarrow> string) \<Rightarrow> (string \<times> json) list \<Rightarrow> (py_value \<times> py_value) list
       \<Rightarrow> (string \<times> json) list result" where
  "normalize_json_value norm PyNone = Inr JNull"
| "normalize_json_value norm (PyBool b) = Inr (JBool b)"
| "normalize_json_value norm (PyInt i) = Inr (JInt i)"
| "normalize_json_value norm PyNonFinite = Inl ToolIdentityError"
| "normalize_json_value norm (PyFloat r zero) = Inr (JFloat (if zero then ''0.0'' else r))"
| "normalize_json_value norm (PyStr s) = Inr (JStr (norm s))"
| "normalize_json_value norm (PyList xs) = bindE (normalize_values norm xs) (\<lambda>js. Inr (JArr js))"
| "normalize_json_value norm (PyTuple xs) = bindE (normalize_values norm xs) (\<lambda>js. Inr (JArr js))"
| "normalize_json_value norm (PyDict kvs) = bindE (normalize_items norm [] kvs) (\<lambda>js. Inr (JObj js))"
| "normalize_json_value norm PyOther = Inl ToolIdentityError"
| "normalize_values norm [] = Inr []"
| "normalize_values norm (x # xs) =
     bindE (normalize_json_value norm x) (\<lambda>j. bindE (normalize_values norm xs) (\<lambda>js. Inr (j # js)))"
| "normalize_items norm done [] = Inr done"
| "normalize_items norm done ((k, v) # kvs) = (case k of
       PyStr s \<Rightarrow>
         if norm s \<in> fst ` set done then Inl ToolIdentityError
         else bindE (normalize_json_value norm v) (\<lambda>j. normalize_items norm (done @ [(norm s, j)]) kvs)
     | _ \<Rightarrow> Inl ToolIdentityError)"

record canonical_tool_args =
  ca_value :: "(string \<times> json) list"
  ca_json :: string
  ca_sha256 :: string

definition canonicalize_tool_args :: "env \<Rightarrow> py_value \<Rightarrow> canonical_tool_args result" where
  "canonicalize_tool_args env args =
     bindE (normalize_json_value (nfc env) args) (\<lambda>normalized.
     case normalized of
       JObj kvs \<Rightarrow> Inr \<lparr>ca_value = kvs, ca_json = canonical_json normalized,
                        ca_sha256 = sha256 env (canonical_json normalized)\<rparr>
     | _ \<Rightarrow> Inl ToolIdentityError)"

section \<open>Target paths\<close>

definition is_letter :: "char \<Rightarrow> bool" where
  "is_letter c \<longleftrightarrow> (let n = (of_char c :: nat) in 65 \<le> n \<and> n \<le> 90 \<or> 97 \<le> n \<and> n \<le> 122)"

text \<open>\<^verbatim>\<open>_WINDOWS_DRIVE\<close>: a letter and a colon at the start.\<close>

fun windows_drive :: "string \<Rightarrow> bool" where
  "windows_drive (c # d # s) = (is_letter c \<and> d = CHR '':'')"
| "windows_drive _ = False"

fun split_on :: "char \<Rightarrow> string \<Rightarrow> string list" where
  "split_on c [] = [[]]"
| "split_on c (x # s) =
     (if x = c then [] # split_on c s
      else case split_on c s of [] \<Rightarrow> [[x]] | p # ps \<Rightarrow> (x # p) # ps)"

fun join_with :: "char \<Rightarrow> string list \<Rightarrow> string" where
  "join_with c [] = []"
| "join_with c [p] = p"
| "join_with c (p # q # ps) = p @ c # join_with c (q # ps)"

fun path_parts :: "string list \<Rightarrow> string list result" where
  "path_parts [] = Inr []"
| "path_parts (p # ps) =
     (if p = [] \<or> p = ''.'' then path_parts ps
      else if p = ''..'' then Inl ToolIdentityError
      else bindE (path_parts ps) (\<lambda>qs. Inr (p # qs)))"

definition backslash :: char where
  "backslash = char_of (92 :: nat)"

definition slash_path :: "env \<Rightarrow> string \<Rightarrow> string" where
  "slash_path env raw = map (\<lambda>c. if c = backslash then CHR ''/'' else c) (nfc env raw)"

definition normalize_target_path :: "env \<Rightarrow> string \<Rightarrow> string result" where
  "normalize_target_path env raw_path =
     (let normalized = slash_path env raw_path in
      if normalized = [] \<or> char_of (0 :: nat) \<in> set normalized then Inl ToolIdentityError
      else if hd normalized = CHR ''/'' \<or> windows_drive normalized then Inl ToolIdentityError
      else bindE (path_parts (split_on (CHR ''/'') normalized)) (\<lambda>parts.
        if parts = [] then Inl ToolIdentityError else Inr (join_with (CHR ''/'') parts)))"

text \<open>\<^verbatim>\<open>tuple(sorted({normalize_target_path(path) for path in target_paths}))\<close>\<close>

definition normalize_targets :: "env \<Rightarrow> string list \<Rightarrow> string list result" where
  "normalize_targets env paths =
     bindE (mapE (normalize_target_path env) paths) (\<lambda>ps. Inr (sort (remdups ps)))"

section \<open>Approval fingerprints\<close>

record fingerprint_input =
  fi_run_id :: string
  fi_tool_call_id :: string
  fi_tool_name :: string
  fi_tool_version :: string
  fi_args_sha256 :: string
  fi_effect_class :: tool_effect_class
  fi_base_repo_root :: string
  fi_base_commit_sha :: string
  fi_worktree_path :: "string option"
  fi_target_paths :: "string list"
  fi_policy_version :: string

definition fingerprint_document :: "env \<Rightarrow> fingerprint_input \<Rightarrow> string list \<Rightarrow> json" where
  "fingerprint_document env i target_paths = JObj
     [(''args_sha256'', JStr (fi_args_sha256 i)),
      (''base_commit_sha'', JStr (fi_base_commit_sha i)),
      (''base_repo_root'', JStr (nfc env (fi_base_repo_root i))),
      (''effect_class'', JStr (tool_effect_class_value (fi_effect_class i))),
      (''policy_version'', JStr (fi_policy_version i)),
      (''run_id'', JStr (fi_run_id i)),
      (''target_paths'', JArr (map JStr target_paths)),
      (''tool_call_id'', JStr (fi_tool_call_id i)),
      (''tool_name'', JStr (fi_tool_name i)),
      (''tool_version'', JStr (fi_tool_version i)),
      (''worktree_path'', opt_dump (\<lambda>p. JStr (nfc env p)) (fi_worktree_path i))]"

definition build_approval_fingerprint :: "env \<Rightarrow> fingerprint_input \<Rightarrow> string result" where
  "build_approval_fingerprint env i =
     (if blank (fi_policy_version i) then Inl ToolIdentityError
      else bindE (normalize_targets env (fi_target_paths i)) (\<lambda>target_paths.
        Inr (sha256_json env (fingerprint_document env i target_paths))))"

end
