(* ===== verification/Model_Calls.thy ===== *)
theory Model_Calls
  imports Tables "HOL-Library.Product_Lexorder"
begin

text \<open>
  The operational projection of model calls (\<^verbatim>\<open>persistence/store.py\<close>,
  \<^verbatim>\<open>_apply_operational_projection_in_transaction\<close> and the methods below it): every
  appended event updates the indexed \<^verbatim>\<open>model_calls\<close> table, which is a state machine
  started, responded, consumed with at most one active call per run; and the one-time
  backfill of that table from a ledger written before it existed.
\<close>

section \<open>Reading event rows\<close>

definition event_from_row :: "env \<Rightarrow> event_row \<Rightarrow> event_envelope result" where
  "event_from_row env row =
     (if sha256_json env (v_payload_json row) \<noteq> v_payload_sha256 row then Inl LedgerIntegrityError
      else bindE (payload_validate (v_payload_json row)) (\<lambda>payload.
           bindE (parse_uuid (v_event_id row)) (\<lambda>event_id.
           bindE (parse_opt_uuid (v_causation_event_id row)) (\<lambda>causation.
           envelope_check \<lparr>e_event_id = event_id, e_schema_version = v_schema_version row,
             e_session_id = v_session_id row, e_turn_id = v_turn_id row, e_run_id = v_run_id row,
             e_seq = v_seq row, e_occurred_at = v_occurred_at row,
             e_process_instance_id = v_process_instance_id row, e_boot_id = v_boot_id row,
             e_causation_event_id = causation, e_correlation_id = v_correlation_id row,
             e_payload = payload\<rparr>))))"

definition event_run_id :: "event_envelope \<Rightarrow> string result" where
  "event_run_id e = (case e_run_id e of None \<Rightarrow> Inl LedgerIntegrityError | Some r \<Rightarrow> Inr r)"

section \<open>Model steps\<close>

definition model_call_prefix :: "string \<Rightarrow> string" where
  "model_call_prefix run_id = ''model-call:'' @ run_id @ '':''"

definition is_digit :: "char \<Rightarrow> bool" where
  "is_digit c \<longleftrightarrow> (48::nat) \<le> of_char c \<and> of_char c \<le> (57::nat)"

definition digits_value :: "string \<Rightarrow> int" where
  "digits_value s = foldl (\<lambda>a c. a * 10 + (of_char c - 48)) 0 s"

definition parsed_step :: "string \<Rightarrow> string \<Rightarrow> int option" where
  "parsed_step run_id model_call_id =
     (let p = model_call_prefix run_id; suffix = drop (length p) model_call_id in
      if take (length p) model_call_id = p \<and> suffix \<noteq> [] \<and> list_all is_digit suffix
      then Some (digits_value suffix) else None)"

definition resolve_model_step ::
  "db \<Rightarrow> string \<Rightarrow> string \<Rightarrow> int option \<Rightarrow> bool \<Rightarrow> model_call_row option \<Rightarrow> int result" where
  "resolve_model_step d run_id model_call_id explicit_step legacy_backfill existing =
     (case existing of
        Some row \<Rightarrow>
          (case explicit_step of
             Some st \<Rightarrow> if st \<noteq> mc_step row then Inl LedgerIntegrityError else Inr (mc_step row)
           | None \<Rightarrow> Inr (mc_step row))
      | None \<Rightarrow>
          (case explicit_step of
             Some st \<Rightarrow>
               if model_call_id \<noteq> model_call_prefix run_id @ int_text st
               then Inl LedgerIntegrityError else Inr st
           | None \<Rightarrow>
               (case parsed_step run_id model_call_id of
                  Some st \<Rightarrow> Inr st
                | None \<Rightarrow>
                    if \<not> legacy_backfill then Inl LedgerIntegrityError
                    else let steps = map mc_step (filter (\<lambda>r. mc_run_id r = run_id) (model_calls d))
                         in if steps = [] then Inr 0 else Inr (foldr max steps (hd steps) + 1))))"

definition run_has_active_call :: "db \<Rightarrow> string \<Rightarrow> bool" where
  "run_has_active_call d run_id \<longleftrightarrow>
     list_ex (\<lambda>r. mc_run_id r = run_id \<and> model_call_active r) (model_calls d)"

section \<open>Projections of single events\<close>

definition legacy_unknown :: string where
  "legacy_unknown = ''legacy-unknown''"

definition new_model_call :: "string \<Rightarrow> string \<Rightarrow> int \<Rightarrow> string \<Rightarrow> int \<Rightarrow> model_call_row" where
  "new_model_call model_call_id run_id step model_name sq =
     \<lparr>mc_model_call_id = model_call_id, mc_run_id = run_id, mc_step = step,
      mc_model_name = model_name, mc_status = MS_started, mc_attempt_count = 0,
      mc_latest_attempt_no = 0, mc_first_started_event_id = None,
      mc_latest_attempt_event_id = None, mc_latest_failure_event_id = None,
      mc_response_event_id = None, mc_response_blob_sha256 = None, mc_response_seq = None,
      mc_consumed_event_id = None, mc_consumed_seq = None, mc_consumption_kind = None,
      mc_updated_seq = sq\<rparr>"

definition project_model_call_started ::
  "event_envelope \<Rightarrow> string \<Rightarrow> string \<Rightarrow> int \<Rightarrow> int option \<Rightarrow> bool \<Rightarrow> (db, unit) txn" where
  "project_model_call_started event model_call_id model_name attempt_no step legacy_backfill =
     bindT (liftT (event_run_id event)) (\<lambda>run_id.
     bindT (getT (\<lambda>d. get_model_call_row d model_call_id)) (\<lambda>existing.
     bindT (readT (\<lambda>d. resolve_model_step d run_id model_call_id step legacy_backfill existing)) (\<lambda>stp.
     case existing of
       None \<Rightarrow>
         bindT (getT (\<lambda>d. run_has_active_call d run_id)) (\<lambda>active.
         if active then throwT LedgerIntegrityError
         else insert_model_call ((new_model_call model_call_id run_id stp model_name (e_seq event))
                \<lparr>mc_attempt_count := 1, mc_latest_attempt_no := attempt_no,
                 mc_first_started_event_id := Some (e_event_id event),
                 mc_latest_attempt_event_id := Some (e_event_id event)\<rparr>))
     | Some row \<Rightarrow>
         if mc_run_id row \<noteq> run_id \<or> mc_step row \<noteq> stp
            \<or> mc_model_name row \<notin> {model_name, legacy_unknown}
         then throwT LedgerIntegrityError
         else if mc_status row \<noteq> MS_started then throwT LedgerIntegrityError
         else if mc_latest_attempt_event_id row = Some (e_event_id event) then returnT ()
         else if attempt_no \<le> mc_latest_attempt_no row then throwT LedgerIntegrityError
         else modifyT (update_model_call model_call_id (\<lambda>r. r
                \<lparr>mc_model_name := model_name, mc_attempt_count := mc_attempt_count r + 1,
                 mc_latest_attempt_no := attempt_no,
                 mc_latest_attempt_event_id := Some (e_event_id event),
                 mc_first_started_event_id :=
                   (case mc_first_started_event_id r of
                      None \<Rightarrow> Some (e_event_id event) | Some x \<Rightarrow> Some x),
                 mc_updated_seq := e_seq event\<rparr>)))))"

definition project_model_call_failed ::
  "event_envelope \<Rightarrow> string \<Rightarrow> bool \<Rightarrow> (db, unit) txn" where
  "project_model_call_failed event model_call_id legacy_backfill =
     bindT (getT (\<lambda>d. get_model_call_row d model_call_id)) (\<lambda>existing.
     case existing of
       None \<Rightarrow> throwT LedgerIntegrityError
     | Some row \<Rightarrow>
         bindT (liftT (event_run_id event)) (\<lambda>run_id.
         if mc_run_id row \<noteq> run_id then throwT LedgerIntegrityError
         else if mc_status row \<noteq> MS_started then throwT LedgerIntegrityError
         else if \<not> legacy_backfill \<and> e_causation_event_id event = None
         then throwT LedgerIntegrityError
         else if e_causation_event_id event \<noteq> None
                 \<and> e_causation_event_id event \<noteq> mc_latest_attempt_event_id row
         then throwT LedgerIntegrityError
         else modifyT (update_model_call model_call_id (\<lambda>r. r
                \<lparr>mc_latest_failure_event_id := Some (e_event_id event),
                 mc_updated_seq := e_seq event\<rparr>))))"

text \<open>
  The update that records a response is subject to the foreign key of
  \<^verbatim>\<open>response_blob_sha256\<close> and to the uniqueness of \<^verbatim>\<open>response_event_id\<close>.
\<close>

definition record_response :: "event_envelope \<Rightarrow> string \<Rightarrow> string \<Rightarrow> (db, unit) txn" where
  "record_response event model_call_id blob_sha = (\<lambda>d.
     if \<not> blob_exists d blob_sha
        \<or> list_ex (\<lambda>r. mc_model_call_id r \<noteq> model_call_id
             \<and> mc_response_event_id r = Some (e_event_id event)) (model_calls d)
     then Inl IntegrityError
     else Inr ((), update_model_call model_call_id (\<lambda>r. r
            \<lparr>mc_status := MS_responded, mc_response_event_id := Some (e_event_id event),
             mc_response_blob_sha256 := Some blob_sha, mc_response_seq := Some (e_seq event),
             mc_updated_seq := e_seq event\<rparr>) d))"

definition project_model_response ::
  "event_envelope \<Rightarrow> string \<Rightarrow> string \<Rightarrow> bool \<Rightarrow> (db, unit) txn" where
  "project_model_response event model_call_id blob_sha legacy_backfill =
     bindT (liftT (event_run_id event)) (\<lambda>run_id.
     bindT (getT (\<lambda>d. get_model_call_row d model_call_id)) (\<lambda>row0.
     bindT (if row0 = None \<and> legacy_backfill
            then bindT (getT (\<lambda>d. run_has_active_call d run_id)) (\<lambda>active.
                 if active then throwT LedgerIntegrityError
                 else bindT (readT (\<lambda>d. resolve_model_step d run_id model_call_id None True None)) (\<lambda>stp.
                      insert_model_call
                        (new_model_call model_call_id run_id stp legacy_unknown (e_seq event))))
            else returnT ()) (\<lambda>_.
     bindT (getT (\<lambda>d. get_model_call_row d model_call_id)) (\<lambda>row1.
     case row1 of
       None \<Rightarrow> throwT LedgerIntegrityError
     | Some row \<Rightarrow>
         if mc_run_id row \<noteq> run_id then throwT LedgerIntegrityError
         else if mc_status row = MS_responded
                 \<and> mc_response_event_id row = Some (e_event_id event)
                 \<and> mc_response_blob_sha256 row = Some blob_sha then returnT ()
         else if mc_status row \<noteq> MS_started then throwT LedgerIntegrityError
         else if \<not> legacy_backfill \<and> e_causation_event_id event = None
         then throwT LedgerIntegrityError
         else if e_causation_event_id event \<noteq> None
                 \<and> mc_latest_attempt_event_id row \<noteq> None
                 \<and> e_causation_event_id event \<noteq> mc_latest_attempt_event_id row
         then throwT LedgerIntegrityError
         else record_response event model_call_id blob_sha))))"

definition find_by_response :: "db \<Rightarrow> string \<Rightarrow> model_call_row option" where
  "find_by_response d response_event_id =
     find (\<lambda>r. mc_response_event_id r = Some response_event_id) (model_calls d)"

text \<open>The response event a consumer names must exist, be intact and belong to the run.\<close>

fun is_model_response :: "payload \<Rightarrow> bool" where
  "is_model_response (ModelResponseReceivedPayload a b c d) = True"
| "is_model_response _ = False"

definition check_response_event :: "env \<Rightarrow> string \<Rightarrow> string \<Rightarrow> db \<Rightarrow> event_envelope result" where
  "check_response_event env run_id response_event_id d =
     (case get_event d response_event_id of
        None \<Rightarrow> Inl LedgerIntegrityError
      | Some r \<Rightarrow>
          bindE (event_from_row env r) (\<lambda>response.
          if e_run_id response \<noteq> Some run_id \<or> \<not> is_model_response (e_payload response)
          then Inl LedgerIntegrityError else Inr response))"

definition consume_call ::
  "event_envelope \<Rightarrow> consumption_kind \<Rightarrow> string \<Rightarrow> (db, unit) txn" where
  "consume_call event kind model_call_id =
     modifyT (update_model_call model_call_id (\<lambda>r. r
       \<lparr>mc_status := MS_consumed, mc_consumed_event_id := Some (e_event_id event),
        mc_consumed_seq := Some (e_seq event), mc_consumption_kind := Some kind,
        mc_updated_seq := e_seq event\<rparr>))"

text \<open>
  \<open>consumption_source\<close> is the first half of \<^verbatim>\<open>_project_model_response_consumption\<close>: which
  response the event consumes, and as what.
\<close>

definition consumption_source ::
  "event_envelope \<Rightarrow> bool \<Rightarrow> db \<Rightarrow> (consumption_kind \<times> string) result" where
  "consumption_source event legacy_backfill d =
     (case e_payload event of
        ToolCallProposedPayload tool_call_id tool_name tool_version args_sha effect \<Rightarrow>
          let tool_row = get_tool_call_row d tool_call_id;
              response = (case e_causation_event_id event of
                  Some c \<Rightarrow> Some c
                | None \<Rightarrow> if legacy_backfill then map_option c_response_event_id tool_row else None)
          in (case tool_row of
                None \<Rightarrow> Inl LedgerIntegrityError
              | Some tr \<Rightarrow>
                  bindE (event_run_id event) (\<lambda>run_id.
                  if c_run_id tr \<noteq> run_id \<or> Some (c_response_event_id tr) \<noteq> response
                     \<or> c_tool_name tr \<noteq> tool_name \<or> c_tool_version tr \<noteq> tool_version
                     \<or> c_args_sha256 tr \<noteq> args_sha \<or> c_effect_class tr \<noteq> effect
                  then Inl LedgerIntegrityError
                  else Inr (CK_tool_batch, c_response_event_id tr)))
      | ModelOutputRejectedPayload response_event_id reason \<Rightarrow>
          if e_causation_event_id event \<noteq> None
             \<and> e_causation_event_id event \<noteq> Some response_event_id
          then Inl LedgerIntegrityError else Inr (CK_rejected, response_event_id)
      | _ \<Rightarrow> Inl LedgerIntegrityError)"

definition project_model_response_consumption ::
  "env \<Rightarrow> event_envelope \<Rightarrow> bool \<Rightarrow> (db, unit) txn" where
  "project_model_response_consumption env event legacy_backfill =
     bindT (readT (consumption_source event legacy_backfill)) (\<lambda>(kind, response_event_id).
     bindT (liftT (event_run_id event)) (\<lambda>run_id.
     bindT (readT (check_response_event env run_id response_event_id)) (\<lambda>_.
     bindT (getT (\<lambda>d. find_by_response d response_event_id)) (\<lambda>found.
     case found of
       None \<Rightarrow> throwT LedgerIntegrityError
     | Some row \<Rightarrow>
         if mc_status row = MS_consumed then
           (if kind = CK_tool_batch \<and> mc_consumption_kind row = Some CK_tool_batch
               \<and> mc_response_event_id row = Some response_event_id then returnT ()
            else if mc_consumed_event_id row = Some (e_event_id event) then returnT ()
            else throwT LedgerIntegrityError)
         else if mc_status row \<noteq> MS_responded then throwT LedgerIntegrityError
         else consume_call event kind (mc_model_call_id row)))))"

definition consume_final_model_response ::
  "env \<Rightarrow> event_envelope \<Rightarrow> string \<Rightarrow> (db, unit) txn" where
  "consume_final_model_response env final_event response_event_id =
     bindT (liftT (event_run_id final_event)) (\<lambda>run_id.
     bindT (readT (check_response_event env run_id response_event_id)) (\<lambda>_.
     bindT (getT (\<lambda>d. find_by_response d response_event_id)) (\<lambda>found.
     case found of
       None \<Rightarrow> throwT LedgerIntegrityError
     | Some row \<Rightarrow>
         if mc_status row = MS_consumed then
           (if mc_consumption_kind row = Some CK_final
               \<and> mc_consumed_event_id row = Some (e_event_id final_event) then returnT ()
            else throwT LedgerIntegrityError)
         else if mc_status row \<noteq> MS_responded then throwT LedgerIntegrityError
         else consume_call final_event CK_final (mc_model_call_id row))))"

fun is_final_answer :: "payload \<Rightarrow> bool" where
  "is_final_answer (FinalAnswerCommittedPayload a) = True"
| "is_final_answer _ = False"

text \<open>\<^verbatim>\<open>ORDER BY seq DESC LIMIT 1\<close> and \<^verbatim>\<open>LIMIT 2\<close>.\<close>

definition latest_final_row :: "db \<Rightarrow> string \<Rightarrow> int \<Rightarrow> event_row option" where
  "latest_final_row d run_id before_seq =
     (case rev (sort_key v_seq (filter (\<lambda>r. v_run_id r = Some run_id
         \<and> v_event_type r = event_type_value EV_FINAL_ANSWER_COMMITTED \<and> v_seq r < before_seq) (events d)))
      of [] \<Rightarrow> None | r # _ \<Rightarrow> Some r)"

definition sole_pending_response :: "db \<Rightarrow> string \<Rightarrow> int \<Rightarrow> string option" where
  "sole_pending_response d run_id before_seq =
     (case filter (\<lambda>r. mc_run_id r = run_id \<and> mc_status r = MS_responded
         \<and> (case mc_response_seq r of None \<Rightarrow> False | Some q \<Rightarrow> q < before_seq)) (model_calls d)
      of [r] \<Rightarrow> mc_response_event_id r | _ \<Rightarrow> None)"

definition project_completed_final_answer ::
  "env \<Rightarrow> event_envelope \<Rightarrow> bool \<Rightarrow> (db, unit) txn" where
  "project_completed_final_answer env event legacy_backfill =
     (if e_causation_event_id event = None \<and> \<not> legacy_backfill then returnT ()
      else
        bindT (case e_causation_event_id event of
                 None \<Rightarrow> bindT (liftT (event_run_id event)) (\<lambda>run_id.
                           getT (\<lambda>d. latest_final_row d run_id (e_seq event)))
               | Some c \<Rightarrow> getT (\<lambda>d. get_event d c)) (\<lambda>final_row.
        case final_row of
          None \<Rightarrow> if e_causation_event_id event = None then returnT ()
                  else throwT LedgerIntegrityError
        | Some fr \<Rightarrow>
            bindT (liftT (event_from_row env fr)) (\<lambda>final_event.
            if \<not> is_final_answer (e_payload final_event) then
              (if legacy_backfill then returnT () else throwT LedgerIntegrityError)
            else
              bindT (liftT (event_run_id event)) (\<lambda>run_id.
              if e_run_id final_event \<noteq> Some run_id then throwT LedgerIntegrityError
              else
                bindT (getT (\<lambda>d. case e_causation_event_id final_event of
                         Some c \<Rightarrow> Some c
                       | None \<Rightarrow> if legacy_backfill
                                 then sole_pending_response d run_id (e_seq final_event) else None))
                  (\<lambda>response.
                case response of
                  None \<Rightarrow> throwT LedgerIntegrityError
                | Some rid \<Rightarrow> consume_final_model_response env final_event rid)))))"

section \<open>Dispatch\<close>

definition apply_operational_projection ::
  "env \<Rightarrow> event_envelope \<Rightarrow> bool \<Rightarrow> (db, unit) txn" where
  "apply_operational_projection env event legacy_backfill = (case e_payload event of
       ModelCallStartedPayload i n a s \<Rightarrow> project_model_call_started event i n a s legacy_backfill
     | ModelCallFailedPayload i c r \<Rightarrow> project_model_call_failed event i legacy_backfill
     | ModelResponseReceivedPayload i b x y \<Rightarrow> project_model_response event i b legacy_backfill
     | ToolCallProposedPayload _ _ _ _ _ \<Rightarrow>
         project_model_response_consumption env event legacy_backfill
     | ModelOutputRejectedPayload _ _ \<Rightarrow>
         project_model_response_consumption env event legacy_backfill
     | RunCompletedPayload _ \<Rightarrow> project_completed_final_answer env event legacy_backfill
     | _ \<Rightarrow> returnT ())"

section \<open>Backfill\<close>

definition backfill_types :: "string list" where
  "backfill_types = map event_type_value
     [EV_MODEL_CALL_STARTED, EV_MODEL_CALL_FAILED, EV_MODEL_RESPONSE_RECEIVED,
      EV_MODEL_OUTPUT_REJECTED, EV_TOOL_CALL_PROPOSED, EV_FINAL_ANSWER_COMMITTED, EV_RUN_COMPLETED]"

definition backfill_model_call_projection :: "env \<Rightarrow> (db, unit) txn" where
  "backfill_model_call_projection env =
     bindT (getT (\<lambda>d. map_of (operational_projection_migrations d) ''model_calls'')) (\<lambda>completed.
     case completed of
       Some v \<Rightarrow> if v \<noteq> 1 then throwT MigrationChecksumError else returnT ()
     | None \<Rightarrow>
         bindT (modifyT (\<lambda>d. d\<lparr>model_calls := []\<rparr>)) (\<lambda>_.
         bindT (getT (\<lambda>d. sort_key (\<lambda>r. (v_session_id r, v_seq r))
                  (filter (\<lambda>r. v_event_type r \<in> set backfill_types) (events d)))) (\<lambda>rows.
         bindT (forT (\<lambda>row. bindT (liftT (event_from_row env row)) (\<lambda>e.
                  apply_operational_projection env e True)) rows) (\<lambda>_.
         modifyT (\<lambda>d. d\<lparr>operational_projection_migrations :=
                        operational_projection_migrations d @ [(''model_calls'', 1)]\<rparr>)))))"

section \<open>What the projection touches\<close>

text \<open>Only the \<^verbatim>\<open>model_calls\<close> table changes.\<close>

definition mc_only :: "db \<Rightarrow> db \<Rightarrow> bool" where
  "mc_only d d' \<longleftrightarrow> (\<exists>m. d' = d\<lparr>model_calls := m\<rparr>)"

lemma mc_only_refl [simp]: "mc_only d d"
  unfolding mc_only_def by (rule exI [of _ "model_calls d"]) simp

lemma mc_only_trans: "mc_only d d' \<Longrightarrow> mc_only d' d'' \<Longrightarrow> mc_only d d''"
  by (auto simp: mc_only_def)

lemma mc_only_set [simp]: "mc_only d (d'\<lparr>model_calls := m\<rparr>) \<longleftrightarrow> mc_only d d'"
  unfolding mc_only_def by (cases d; cases d') auto

lemma mc_only_update [simp]: "mc_only d (update_model_call k f d') \<longleftrightarrow> mc_only d d'"
  by (simp add: update_model_call_def)

lemma mc_only_frame:
  "mc_only d d' \<Longrightarrow> sessions d' = sessions d \<and> turns d' = turns d \<and> runs d' = runs d \<and>
     events d' = events d \<and> tool_calls d' = tool_calls d \<and> tool_attempts d' = tool_attempts d \<and>
     approvals d' = approvals d \<and> budget_reservations d' = budget_reservations d \<and>
     checkpoints d' = checkpoints d \<and> blobs d' = blobs d \<and>
     control_commands d' = control_commands d \<and> schema_migrations d' = schema_migrations d"
  by (auto simp: mc_only_def)

lemma wp_insert_model_call [wp_simps]:
  "wp (insert_model_call r) Q d =
     (insert_model_call r d \<noteq> Inl IntegrityError \<longrightarrow> Q () (d\<lparr>model_calls := model_calls d @ [r]\<rparr>))"
  by (simp add: wp_def insert_model_call_def)

lemma wp_record_response [wp_simps]:
  "wp (record_response e i b) Q d =
     (record_response e i b d \<noteq> Inl IntegrityError \<longrightarrow> Q () (update_model_call i (\<lambda>r. r
            \<lparr>mc_status := MS_responded, mc_response_event_id := Some (e_event_id e),
             mc_response_blob_sha256 := Some b, mc_response_seq := Some (e_seq e),
             mc_updated_seq := e_seq e\<rparr>) d))"
  by (simp add: wp_def record_response_def)

lemmas project_defs = project_model_call_started_def project_model_call_failed_def
  project_model_response_def project_model_response_consumption_def consume_call_def
  consume_final_model_response_def project_completed_final_answer_def

lemma wp_case_prod [wp_simps]: "wp (case x of (a, b) \<Rightarrow> f a b) Q s = wp (f (fst x) (snd x)) Q s"
  by (cases x) simp

lemma apply_operational_projection_frame:
  "wp (apply_operational_projection env e l) (\<lambda>_. mc_only d) d"
  by (cases "e_payload e")
    (simp_all add: apply_operational_projection_def project_defs wp_simps)

section \<open>The model-call state machine\<close>

text \<open>
  At most one call of a run is active, calls and steps are unique, and a call that has
  responded carries its response.
\<close>

definition call_complete :: "model_call_row \<Rightarrow> bool" where
  "call_complete r \<longleftrightarrow> (mc_status r \<noteq> MS_started \<longrightarrow> mc_response_event_id r \<noteq> None
     \<and> mc_response_blob_sha256 r \<noteq> None \<and> mc_response_seq r \<noteq> None)
     \<and> (mc_status r = MS_consumed \<longleftrightarrow> mc_consumption_kind r \<noteq> None)
     \<and> (mc_status r = MS_consumed \<longleftrightarrow> mc_consumed_event_id r \<noteq> None)"

definition active_calls :: "string \<Rightarrow> model_call_row list \<Rightarrow> model_call_row list" where
  "active_calls run_id ms = filter (\<lambda>r. mc_run_id r = run_id \<and> model_call_active r) ms"

definition model_calls_ok :: "db \<Rightarrow> bool" where
  "model_calls_ok d \<longleftrightarrow>
     distinct (map mc_model_call_id (model_calls d)) \<and>
     distinct (map (\<lambda>r. (mc_run_id r, mc_step r)) (model_calls d)) \<and>
     (\<forall>run_id. length (active_calls run_id (model_calls d)) \<le> 1) \<and>
     list_all call_complete (model_calls d)"

lemma model_calls_ok_empty: "model_calls d = [] \<Longrightarrow> model_calls_ok d"
  by (simp add: model_calls_ok_def active_calls_def)

lemma run_has_active_call_iff: "run_has_active_call d r \<longleftrightarrow> active_calls r (model_calls d) \<noteq> []"
  by (simp add: run_has_active_call_def active_calls_def filter_empty_conv list_ex_iff)

lemma model_calls_ok_insert:
  assumes "model_calls_ok d" and "insert_model_call r d \<noteq> Inl IntegrityError" and "call_complete r"
  shows "model_calls_ok (d\<lparr>model_calls := model_calls d @ [r]\<rparr>)"
proof -
  have "mc_model_call_id r \<notin> mc_model_call_id ` set (model_calls d)"
    and "(mc_run_id r, mc_step r) \<notin> (\<lambda>x. (mc_run_id x, mc_step x)) ` set (model_calls d)"
    and act: "model_call_active r \<Longrightarrow> active_calls (mc_run_id r) (model_calls d) = []"
    using assms(2)
    by (auto simp: insert_model_call_def list_ex_iff active_calls_def filter_empty_conv
        split: if_splits)
  with assms(1,3) show ?thesis
    by (auto simp: model_calls_ok_def active_calls_def)
qed

lemma active_calls_update:
  assumes "\<And>r. mc_run_id (f r) = mc_run_id r"
    and "\<And>r. r \<in> set ms \<Longrightarrow> mc_model_call_id r = k \<Longrightarrow> model_call_active (f r) \<Longrightarrow> model_call_active r"
  shows "length (active_calls run_id (row_upd mc_model_call_id k f ms)) \<le> length (active_calls run_id ms)"
  using assms(2)
  by (induction ms) (auto simp: active_calls_def row_upd_def assms(1) intro: le_SucI)

lemma model_calls_ok_update:
  assumes "model_calls_ok d"
    and "keeps mc_model_call_id f" "keeps mc_run_id f" "keeps mc_step f"
    and "get_model_call_row d k = Some r"
    and "model_call_active (f r) \<Longrightarrow> model_call_active r" "call_complete (f r)"
  shows "model_calls_ok (update_model_call k f d)"
proof -
  have uniq: "x = r" if "x \<in> set (model_calls d)" "mc_model_call_id x = k" for x
  proof -
    have "row_get mc_model_call_id (mc_model_call_id x) (model_calls d) = Some x"
      using assms(1) that(1) by (intro row_get_member) (simp_all add: model_calls_ok_def)
    with that(2) assms(5) show ?thesis by (simp add: get_model_call_row_def)
  qed
  have 1: "length (active_calls u (row_upd mc_model_call_id k f (model_calls d))) \<le> 1" for u
  proof (rule order_trans)
    show "length (active_calls u (row_upd mc_model_call_id k f (model_calls d)))
        \<le> length (active_calls u (model_calls d))"
      using assms(3,6) uniq by (intro active_calls_update) auto
    show "length (active_calls u (model_calls d)) \<le> 1"
      using assms(1) by (simp add: model_calls_ok_def)
  qed
  have 2: "list_all call_complete (row_upd mc_model_call_id k f (model_calls d))"
    using assms(1,7) uniq by (auto simp: list_all_iff model_calls_ok_def row_upd_def)
  from 1 2 assms(1-4) show ?thesis
    by (simp add: model_calls_ok_def update_model_call_def map_row_upd)
qed

lemma find_by_responseD:
  "model_calls_ok d \<Longrightarrow> find_by_response d x = Some r \<Longrightarrow>
     get_model_call_row d (mc_model_call_id r) = Some r \<and> mc_response_event_id r = Some x"
  by (auto simp: find_by_response_def find_Some_iff get_model_call_row_def model_calls_ok_def
      intro!: row_get_member)

lemma model_call_complete:
  "model_calls_ok d \<Longrightarrow> get_model_call_row d k = Some r \<Longrightarrow> call_complete r"
  by (auto simp: model_calls_ok_def get_model_call_row_def list_all_iff dest: row_get_SomeD)

lemma new_model_call_complete: "call_complete (new_model_call i r st n q)"
  by (simp add: call_complete_def new_model_call_def)

lemma started_ok:
  "model_calls_ok d \<Longrightarrow> wp (project_model_call_started e i n a s l) (\<lambda>_. model_calls_ok) d"
  by (auto simp: project_model_call_started_def wp_simps call_complete_def new_model_call_def
      model_call_active_def
      intro!: model_calls_ok_insert model_calls_ok_update dest: model_call_complete)

lemma failed_ok:
  "model_calls_ok d \<Longrightarrow> wp (project_model_call_failed e i l) (\<lambda>_. model_calls_ok) d"
  by (auto simp: project_model_call_failed_def wp_simps call_complete_def model_call_active_def
      intro!: model_calls_ok_update dest: model_call_complete)

lemma record_response_ok:
  assumes "model_calls_ok d" "get_model_call_row d i = Some r" "mc_status r = MS_started"
  shows "wp (record_response e i b) (\<lambda>_. model_calls_ok) d"
proof -
  from assms(1,2) have "call_complete r" by (rule model_call_complete)
  with assms show ?thesis
    by (auto simp: wp_simps call_complete_def model_call_active_def intro!: model_calls_ok_update)
qed

lemma get_model_call_snoc:
  "get_model_call_row d (mc_model_call_id r) = None \<Longrightarrow>
     get_model_call_row (d\<lparr>model_calls := model_calls d @ [r]\<rparr>) (mc_model_call_id r) = Some r"
  by (simp add: get_model_call_row_def tbl_simps)

lemma response_ok:
  "model_calls_ok d \<Longrightarrow> wp (project_model_response e i b l) (\<lambda>_. model_calls_ok) d"
  unfolding project_model_response_def
  by (simp only: wp_bind wp_lift wp_get wp_if wp_case_option wp_throw wp_return wp_read
      wp_insert_model_call)
    (auto intro!: record_response_ok model_calls_ok_insert new_model_call_complete)

lemma consume_call_ok:
  assumes "model_calls_ok d" "find_by_response d x = Some r" "mc_status r = MS_responded"
  shows "wp (consume_call e k (mc_model_call_id r)) (\<lambda>_. model_calls_ok) d"
proof -
  from find_by_responseD [OF assms(1,2)]
  have r: "get_model_call_row d (mc_model_call_id r) = Some r" by simp
  with assms(1) have "call_complete r" by (rule model_call_complete)
  with assms r show ?thesis
    by (auto simp: consume_call_def wp_simps call_complete_def model_call_active_def
        intro!: model_calls_ok_update)
qed

lemma consumption_ok:
  "model_calls_ok d \<Longrightarrow> wp (project_model_response_consumption env e l) (\<lambda>_. model_calls_ok) d"
  by (auto simp: project_model_response_consumption_def wp_simps intro!: consume_call_ok
      dest: model_call_status.exhaust)

lemma final_ok:
  "model_calls_ok d \<Longrightarrow> wp (project_completed_final_answer env e l) (\<lambda>_. model_calls_ok) d"
  by (auto simp: project_completed_final_answer_def consume_final_model_response_def wp_simps
      intro!: consume_call_ok)

lemma apply_operational_projection_ok:
  "model_calls_ok d \<Longrightarrow> wp (apply_operational_projection env e l) (\<lambda>_. model_calls_ok) d"
  by (cases "e_payload e")
    (simp_all add: apply_operational_projection_def wp_simps started_ok failed_ok response_ok
      consumption_ok final_ok)

end
