(* ===== verification/Ledger.thy ===== *)
theory Ledger
  imports Model_Calls
begin

text \<open>
  The append-only event ledger of \<^verbatim>\<open>persistence/store.py\<close>: allocation of session
  sequence numbers, insertion of events with their payload digest, the operational
  projection run in the same transaction, session creation, loading, migrations, and
  the bracket in which every public command runs.
\<close>

section \<open>Appending\<close>

text \<open>The keyword arguments of \<^verbatim>\<open>_append_event_in_transaction\<close>.\<close>

record event_request =
  q_session_id :: string
  q_process_instance_id :: string
  q_payload :: payload
  q_turn_id :: "string option"
  q_run_id :: "string option"
  q_causation_event_id :: "string option"
  q_correlation_id :: "string option"

text \<open>
  \<open>event_id\<close> and \<open>now\<close> are the values drawn from \<^verbatim>\<open>uuid4()\<close> and the clock. Building the
  payload object validates its bounds.
\<close>

definition prepare_event :: "string \<Rightarrow> instant \<Rightarrow> event_request \<Rightarrow> db \<Rightarrow> event_envelope result" where
  "prepare_event event_id now q d =
     (if \<not> payload_wf (q_payload q) then Inl ValueError
      else case get_session d (q_session_id q) of
        None \<Rightarrow> Inl SessionNotFoundError
      | Some s \<Rightarrow>
          bindE (parse_opt_uuid (q_causation_event_id q)) (\<lambda>causation.
          new_event event_id now (q_session_id q) (s_next_seq s) (q_process_instance_id q)
            (q_payload q) (q_turn_id q) (q_run_id q) causation (q_correlation_id q)))"

definition row_of_event :: "env \<Rightarrow> event_envelope \<Rightarrow> event_row" where
  "row_of_event env e =
     \<lparr>v_event_id = e_event_id e, v_session_id = e_session_id e, v_turn_id = e_turn_id e,
      v_run_id = e_run_id e, v_seq = e_seq e,
      v_event_type = event_type_value (payload_event_type (e_payload e)),
      v_schema_version = e_schema_version e, v_occurred_at = e_occurred_at e,
      v_process_instance_id = e_process_instance_id e, v_boot_id = e_boot_id e,
      v_causation_event_id = e_causation_event_id e, v_correlation_id = e_correlation_id e,
      v_payload_json = payload_dump (e_payload e),
      v_payload_sha256 = sha256_json env (payload_dump (e_payload e))\<rparr>"

text \<open>
  The cursor update is \<^verbatim>\<open>UPDATE sessions ... WHERE session_id = ? AND next_seq = ?\<close>; it must
  touch exactly one row.
\<close>

definition advance_session :: "event_envelope \<Rightarrow> session_row \<Rightarrow> session_row" where
  "advance_session e s = s\<lparr>s_next_seq := e_seq e + 1, s_last_event_id := Some (e_event_id e)\<rparr>"

definition insert_event :: "env \<Rightarrow> event_envelope \<Rightarrow> (db, unit) txn" where
  "insert_event env e =
     bindT (insert_event_row (row_of_event env e)) (\<lambda>_.
     bindT (getT (\<lambda>d. length (filter (\<lambda>s. s_session_id s = e_session_id e
                               \<and> s_next_seq s = e_seq e) (sessions d)))) (\<lambda>rowcount.
     bindT (modifyT (\<lambda>d. d\<lparr>sessions := map (\<lambda>s. if s_session_id s = e_session_id e
                               \<and> s_next_seq s = e_seq e then advance_session e s else s) (sessions d)\<rparr>)) (\<lambda>_.
     raise_if (rowcount \<noteq> 1) LedgerIntegrityError)))"

definition append_event_in_transaction ::
  "env \<Rightarrow> string \<Rightarrow> instant \<Rightarrow> event_request \<Rightarrow> (db, event_envelope) txn" where
  "append_event_in_transaction env event_id now q =
     bindT (readT (prepare_event event_id now q)) (\<lambda>e.
     bindT (insert_event env e) (\<lambda>_.
     bindT (apply_operational_projection env e False) (\<lambda>_.
     returnT e)))"

section \<open>Public commands\<close>

text \<open>
  A public command runs its body in a transaction; after the commit it advances the
  caller's execution context to the sequence number of the last event it appended.
  The body returns that number, or \<open>None\<close> where the code returns without advancing.
\<close>

definition advance_execution_context ::
  "execution_context option \<Rightarrow> int \<Rightarrow> execution_context option result" where
  "advance_execution_context ctx stream_version = (case ctx of
       None \<Rightarrow> Inr None
     | Some c \<Rightarrow> bindE (observe c stream_version) (\<lambda>c'. Inr (Some c')))"

definition run_command ::
  "execution_context option \<Rightarrow> (db, 'a \<times> int option) txn \<Rightarrow> db
     \<Rightarrow> ('a \<times> execution_context option) result \<times> db" where
  "run_command ctx body d = (case transact body d of
       (Inl e, d') \<Rightarrow> (Inl e, d')
     | (Inr (x, None), d') \<Rightarrow> (Inr (x, ctx), d')
     | (Inr (x, Some v), d') \<Rightarrow>
         (bindE (advance_execution_context ctx v) (\<lambda>ctx'. Inr (x, ctx')), d'))"

definition create_session ::
  "env \<Rightarrow> instant \<Rightarrow> string \<Rightarrow> string \<Rightarrow> string \<Rightarrow> json \<Rightarrow> string
     \<Rightarrow> db \<Rightarrow> event_envelope result \<times> db" where
  "create_session env now event_id session_id workspace_root config process_instance_id =
     transact (
       bindT (insert_session \<lparr>s_session_id = session_id,
                s_workspace_root = resolve_path env workspace_root, s_created_at = now,
                s_status = ''active'', s_next_seq = 1, s_config = config,
                s_last_event_id = None\<rparr>) (\<lambda>_.
       append_event_in_transaction env event_id now
         \<lparr>q_session_id = session_id, q_process_instance_id = process_instance_id,
          q_payload = SessionCreatedPayload (resolve_path env workspace_root) (sha256_json env config),
          q_turn_id = None, q_run_id = None, q_causation_event_id = None, q_correlation_id = None\<rparr>))"

section \<open>Loading\<close>

definition load_events :: "env \<Rightarrow> db \<Rightarrow> string \<Rightarrow> int \<Rightarrow> event_envelope list result" where
  "load_events env d session_id after_seq =
     mapE (event_from_row env)
       (sort_key v_seq (filter (\<lambda>r. v_session_id r = session_id \<and> after_seq < v_seq r) (events d)))"

definition load_run_events_in_transaction ::
  "env \<Rightarrow> string \<Rightarrow> int \<Rightarrow> db \<Rightarrow> event_envelope list result" where
  "load_run_events_in_transaction env run_id after_seq d =
     mapE (event_from_row env)
       (sort_key v_seq (filter (\<lambda>r. v_run_id r = Some run_id \<and> after_seq < v_seq r) (events d)))"

definition require_run_row :: "string \<Rightarrow> db \<Rightarrow> run_row result" where
  "require_run_row run_id d =
     (case get_run d run_id of None \<Rightarrow> Inl RunNotFoundError | Some r \<Rightarrow> Inr r)"

definition load_run_events :: "env \<Rightarrow> db \<Rightarrow> string \<Rightarrow> event_envelope list result" where
  "load_run_events env d run_id =
     bindE (require_run_row run_id d) (\<lambda>_. load_run_events_in_transaction env run_id 0 d)"

text \<open>\<^verbatim>\<open>ORDER BY seq DESC LIMIT ?\<close>, then reversed.\<close>

definition load_recent_run_events ::
  "env \<Rightarrow> db \<Rightarrow> string \<Rightarrow> int \<Rightarrow> event_envelope list result" where
  "load_recent_run_events env d run_id limit =
     (if limit < 1 \<or> limit > 10000 then Inl ValueError
      else bindE (require_run_row run_id d) (\<lambda>_.
        mapE (event_from_row env)
          (rev (take (nat limit)
            (rev (sort_key v_seq (filter (\<lambda>r. v_run_id r = Some run_id) (events d))))))))"

section \<open>Migrations\<close>

text \<open>
  A migration is its version and its statements. The checksum is over the statements,
  stripped and joined by newlines. The tables a statement creates are present in
  \<^typ>\<open>db\<close> from the start (empty), so executing it changes nothing here.
\<close>

record migration =
  g_version :: int
  g_statements :: "string list"

fun newline_join :: "string list \<Rightarrow> string" where
  "newline_join [] = []"
| "newline_join [x] = x"
| "newline_join (x # y # xs) = x @ char_of (10::nat) # newline_join (y # xs)"

definition migration_checksum :: "env \<Rightarrow> migration \<Rightarrow> string" where
  "migration_checksum env g = sha256 env (newline_join (map (py_strip is_space) (g_statements g)))"

definition apply_migration :: "env \<Rightarrow> migration \<Rightarrow> (db, unit) txn" where
  "apply_migration env g =
     bindT (getT (\<lambda>d. map_of (schema_migrations d) (g_version g))) (\<lambda>applied.
     case applied of
       Some c \<Rightarrow> if c \<noteq> migration_checksum env g then throwT MigrationChecksumError else returnT ()
     | None \<Rightarrow> modifyT (\<lambda>d. d\<lparr>schema_migrations :=
                 schema_migrations d @ [(g_version g, migration_checksum env g)]\<rparr>))"

text \<open>\<^verbatim>\<open>initialize\<close>: each migration and the backfill is a transaction of its own.\<close>

fun apply_migrations :: "env \<Rightarrow> migration list \<Rightarrow> db \<Rightarrow> unit result \<times> db" where
  "apply_migrations env [] d = transact (backfill_model_call_projection env) d"
| "apply_migrations env (g # gs) d = (case transact (apply_migration env g) d of
       (Inl e, d') \<Rightarrow> (Inl e, d')
     | (Inr _, d') \<Rightarrow> apply_migrations env gs d')"

section \<open>Canonical identifiers\<close>

lemma py_replace_absent: "c \<in> set pat \<Longrightarrow> c \<notin> set s \<Longrightarrow> py_replace pat rep s = s"
proof (induction pat rep s rule: py_replace.induct)
  case (1 pat rep s)
  show ?case
  proof (cases "s = [] \<or> pat = []")
    case False
    have "take (length pat) s \<noteq> pat"
      using 1(3,4) by (metis in_set_takeD)
    moreover have "c \<notin> set (tl s)"
      using 1(4) False by (cases s) auto
    ultimately show ?thesis
      using False 1(2,3) by (subst py_replace.simps) simp
  qed (simp add: py_replace.simps)
qed

lemma py_strip_absent: "\<forall>c \<in> set s. \<not> P c \<Longrightarrow> py_strip P s = s"
  by (simp add: py_strip_def dropWhile_eq_self_iff)
    (metis dropWhile_eq_self_iff hd_rev last_in_set rev_rev_ident rev_is_Nil_conv hd_in_set)

lemma filter_uuid_text:
  assumes "length h = 32" and "CHR ''-'' \<notin> set h"
  shows "filter (\<lambda>c. c \<noteq> CHR ''-'') (uuid_text h) = h"
proof -
  have keep: "filter (\<lambda>c. c \<noteq> CHR ''-'') x = x" if "set x \<subseteq> set h" for x
    using that assms(2) by (auto simp: filter_id_conv)
  have "filter (\<lambda>c. c \<noteq> CHR ''-'') (uuid_text h) =
      take 8 h @ take 4 (drop 8 h) @ take 4 (drop 12 h) @ take 4 (drop 16 h) @ drop 20 h"
    by (simp add: uuid_text_def keep set_take_subset set_drop_subset
        order_trans [OF set_take_subset set_drop_subset])
  also have "\<dots> = take 20 h @ drop 20 h"
    using take_add [of 8 4 h] take_add [of 12 4 h] take_add [of 16 4 h] by simp
  finally show ?thesis by simp
qed

lemma hex_digit_lower: "hex_digit c \<Longrightarrow> hex_digit (ascii_lower c) \<and> ascii_lower (ascii_lower c) = ascii_lower c"
  by (auto simp: hex_digit_def ascii_lower_def Let_def)

lemma hex_digit_not: "hex_digit c \<Longrightarrow> c \<noteq> CHR ''-'' \<and> c \<noteq> CHR '':'' \<and> c \<noteq> CHR ''{'' \<and> c \<noteq> CHR ''}''"
  by (auto simp: hex_digit_def)

lemma parse_uuid_canonical:
  assumes "parse_uuid s = Inr u"
  shows "is_uuid u"
proof -
  from assms obtain g where g: "length g = 32" "list_all hex_digit g" "u = uuid_text (map ascii_lower g)"
    by (auto simp: parse_uuid_def Let_def split: if_splits)
  define h where "h = map ascii_lower g"
  from g have h: "length h = 32" "list_all hex_digit h" "map ascii_lower h = h" "u = uuid_text h"
    by (auto simp: h_def list_all_iff hex_digit_lower)
  have hex: "c \<in> set h \<Longrightarrow> hex_digit c" for c
    using h(2) by (simp add: list_all_iff)
  have "set u \<subseteq> set h \<union> {CHR ''-''}"
    unfolding h(4) uuid_text_def by (auto dest: in_set_takeD in_set_dropD)
  with hex have no: "c \<in> set u \<Longrightarrow> c \<noteq> CHR '':'' \<and> c \<noteq> CHR ''{'' \<and> c \<noteq> CHR ''}''" for c
    using hex_digit_not by fastforce
  have "CHR '':'' \<notin> set u"
    using no by blast
  then have r: "py_replace ''uuid:'' [] (py_replace ''urn:'' [] u) = u"
    by (simp add: py_replace_absent [where c = "CHR '':''"])
  have "py_strip (\<lambda>c. c \<in> {CHR ''{'', CHR ''}''}) u = u"
    using no by (intro py_strip_absent) auto
  moreover have "filter (\<lambda>c. c \<noteq> CHR ''-'') u = h"
    unfolding h(4) using h(1) hex hex_digit_not by (intro filter_uuid_text) auto
  ultimately show ?thesis
    using h r by (simp add: is_uuid_def parse_uuid_def Let_def)
qed

section \<open>Event rows and events\<close>

definition event_wf :: "event_envelope \<Rightarrow> bool" where
  "event_wf e \<longleftrightarrow> payload_wf (e_payload e) \<and> is_uuid (e_event_id e) \<and>
     parse_opt_uuid (e_causation_event_id e) = Inr (e_causation_event_id e) \<and>
     envelope_check e = Inr e"

text \<open>What is read back from a row is the event that was written.\<close>

lemma event_from_row_of_event: "event_wf e \<Longrightarrow> event_from_row env (row_of_event env e) = Inr e"
  by (cases e)
    (simp add: event_wf_def event_from_row_def row_of_event_def is_uuid_def payload_roundtrip)

lemma row_of_event_simps [simp]:
  "v_event_id (row_of_event env e) = e_event_id e"
  "v_session_id (row_of_event env e) = e_session_id e"
  "v_turn_id (row_of_event env e) = e_turn_id e"
  "v_run_id (row_of_event env e) = e_run_id e"
  "v_seq (row_of_event env e) = e_seq e"
  by (simp_all add: row_of_event_def)

lemma parse_opt_uuid_canonical:
  "parse_opt_uuid x = Inr u \<Longrightarrow> parse_opt_uuid u = Inr u"
  by (cases x)
    (auto simp: parse_opt_uuid_def bindE_eq_Inr dest: parse_uuid_canonical simp: is_uuid_def)

section \<open>The effect of an append\<close>

text \<open>
  \<open>appended env eid now q d e d'\<close>: the event has the next sequence number of its session,
  the ledger grew by its row, the session cursor moved on, and nothing else changed
  but the model-call projection, which stays in order.
\<close>

definition appended ::
  "env \<Rightarrow> string \<Rightarrow> instant \<Rightarrow> event_request \<Rightarrow> db \<Rightarrow> event_envelope \<Rightarrow> db \<Rightarrow> bool" where
  "appended env eid now q d e d' \<longleftrightarrow>
     (\<exists>s cause m.
        get_session d (q_session_id q) = Some s \<and>
        parse_opt_uuid (q_causation_event_id q) = Inr cause \<and>
        e = \<lparr>e_event_id = eid, e_schema_version = 1, e_session_id = q_session_id q,
          e_turn_id = q_turn_id q, e_run_id = q_run_id q, e_seq = s_next_seq s,
          e_occurred_at = now, e_process_instance_id = q_process_instance_id q, e_boot_id = None,
          e_causation_event_id = cause, e_correlation_id = q_correlation_id q,
          e_payload = q_payload q\<rparr> \<and>
        envelope_check e = Inr e \<and>
        d' = d\<lparr>sessions := map (\<lambda>s. if s_session_id s = e_session_id e \<and> s_next_seq s = e_seq e
                 then advance_session e s else s) (sessions d),
               events := events d @ [row_of_event env e], model_calls := m\<rparr>) \<and>
     payload_wf (q_payload q) \<and> \<not> event_exists d eid \<and>
     opt_exists (run_exists d) (q_run_id q) \<and> opt_exists (turn_exists d) (q_turn_id q) \<and>
     (model_calls_ok d \<longrightarrow> model_calls_ok d')"

lemma model_calls_ok_cong: "model_calls d' = model_calls d \<Longrightarrow> model_calls_ok d' = model_calls_ok d"
  by (simp add: model_calls_ok_def)

lemma prepare_event_Inr:
  "prepare_event eid now q d = Inr e \<Longrightarrow>
     (\<exists>s cause. get_session d (q_session_id q) = Some s \<and>
        parse_opt_uuid (q_causation_event_id q) = Inr cause \<and>
        e = \<lparr>e_event_id = eid, e_schema_version = 1, e_session_id = q_session_id q,
          e_turn_id = q_turn_id q, e_run_id = q_run_id q, e_seq = s_next_seq s,
          e_occurred_at = now, e_process_instance_id = q_process_instance_id q, e_boot_id = None,
          e_causation_event_id = cause, e_correlation_id = q_correlation_id q,
          e_payload = q_payload q\<rparr>) \<and>
     envelope_check e = Inr e \<and> payload_wf (q_payload q)"
  by (auto simp: prepare_event_def bindE_eq_Inr new_event_def envelope_check_def
      split: if_splits option.splits)

lemma insert_event_Inr:
  "insert_event env e d = Inr (u, d') \<Longrightarrow>
     d' = d\<lparr>sessions := map (\<lambda>s. if s_session_id s = e_session_id e \<and> s_next_seq s = e_seq e
              then advance_session e s else s) (sessions d),
            events := events d @ [row_of_event env e]\<rparr> \<and>
     \<not> event_exists d (e_event_id e) \<and> opt_exists (run_exists d) (e_run_id e) \<and>
     opt_exists (turn_exists d) (e_turn_id e)"
  by (auto simp: insert_event_def bindT_eq_Inr insert_event_row_def split: if_splits)

lemma append_appended:
  assumes "append_event_in_transaction env eid now q d = Inr (e, d')"
  shows "appended env eid now q d e d'"
proof -
  from assms obtain d1 where p: "prepare_event eid now q d = Inr e"
      and i: "insert_event env e d = Inr ((), d1)"
      and o: "apply_operational_projection env e False d1 = Inr ((), d')"
    by (auto simp: append_event_in_transaction_def bindT_eq_Inr readT_def split: sum.splits)
  note P = prepare_event_Inr [OF p] and I = insert_event_Inr [OF i]
  have "mc_only d1 d'"
    using apply_operational_projection_frame o by (rule wpD)
  then obtain m where m: "d' = d1\<lparr>model_calls := m\<rparr>" by (auto simp: mc_only_def)
  have "model_calls_ok d \<Longrightarrow> model_calls_ok d1"
    using I by (simp add: model_calls_ok_def)
  then have "model_calls_ok d \<Longrightarrow> model_calls_ok d'"
    using wpD [OF apply_operational_projection_ok o] by simp
  moreover from P obtain s cause where "get_session d (q_session_id q) = Some s"
      "parse_opt_uuid (q_causation_event_id q) = Inr cause"
      and e: "e = \<lparr>e_event_id = eid, e_schema_version = 1, e_session_id = q_session_id q,
          e_turn_id = q_turn_id q, e_run_id = q_run_id q, e_seq = s_next_seq s,
          e_occurred_at = now, e_process_instance_id = q_process_instance_id q, e_boot_id = None,
          e_causation_event_id = cause, e_correlation_id = q_correlation_id q,
          e_payload = q_payload q\<rparr>"
    by blast
  moreover have "e_event_id e = eid" "e_run_id e = q_run_id q" "e_turn_id e = q_turn_id q"
    by (simp_all add: e)
  ultimately show ?thesis
    using P I m unfolding appended_def
    by (intro conjI exI [of _ s] exI [of _ cause] exI [of _ m]) simp_all
qed

lemma wp_append:
  "(\<And>e d'. appended env eid now q d e d' \<Longrightarrow> Q e d') \<Longrightarrow>
     wp (append_event_in_transaction env eid now q) Q d"
  by (rule wpI) (blast dest: append_appended)

section \<open>The ledger invariant\<close>

text \<open>
  The events of a session carry the numbers \<open>1 .. next_seq - 1\<close> in insertion order,
  without gap or repetition; identifiers are unique; every row is the intact image of
  a well-formed event of an existing session.
\<close>

definition session_seqs :: "db \<Rightarrow> string \<Rightarrow> int list" where
  "session_seqs d sid = map v_seq (filter (\<lambda>r. v_session_id r = sid) (events d))"

definition ledger_ok :: "env \<Rightarrow> db \<Rightarrow> bool" where
  "ledger_ok env d \<longleftrightarrow>
     distinct (map s_session_id (sessions d)) \<and>
     distinct (map v_event_id (events d)) \<and>
     (\<forall>s \<in> set (sessions d). 1 \<le> s_next_seq s \<and>
        session_seqs d (s_session_id s) = [1..s_next_seq s - 1]) \<and>
     (\<forall>r \<in> set (events d). v_session_id r \<in> s_session_id ` set (sessions d)) \<and>
     (\<forall>r \<in> set (events d). \<exists>e. event_wf e \<and> r = row_of_event env e)"

lemma ledger_ok_cong:
  "sessions d' = sessions d \<Longrightarrow> events d' = events d \<Longrightarrow> ledger_ok env d' = ledger_ok env d"
  by (simp add: ledger_ok_def session_seqs_def)

lemma ledger_ok_empty [simp]: "ledger_ok env empty_db"
  by (simp add: ledger_ok_def empty_db_def)

lemma appended_event_wf: "appended env eid now q d e d' \<Longrightarrow> is_uuid eid \<Longrightarrow> event_wf e"
  unfolding appended_def event_wf_def by (auto dest: parse_opt_uuid_canonical)

lemma appended_fields:
  "appended env eid now q d e d' \<Longrightarrow>
     e_event_id e = eid \<and> e_session_id e = q_session_id q \<and> e_turn_id e = q_turn_id q \<and>
     e_run_id e = q_run_id q \<and> e_payload e = q_payload q \<and> e_occurred_at e = now \<and>
     (\<exists>s. get_session d (q_session_id q) = Some s \<and> e_seq e = s_next_seq s)"
  unfolding appended_def by auto

lemma appended_tables:
  "appended env eid now q d e d' \<Longrightarrow>
     events d' = events d @ [row_of_event env e] \<and> turns d' = turns d \<and> runs d' = runs d \<and>
     tool_calls d' = tool_calls d \<and> tool_attempts d' = tool_attempts d \<and>
     approvals d' = approvals d \<and> budget_reservations d' = budget_reservations d \<and>
     checkpoints d' = checkpoints d \<and> blobs d' = blobs d \<and>
     control_commands d' = control_commands d \<and> schema_migrations d' = schema_migrations d \<and>
     operational_projection_migrations d' = operational_projection_migrations d"
  unfolding appended_def by auto

lemma appended_sessions:
  "appended env eid now q d e d' \<Longrightarrow>
     sessions d' = map (\<lambda>s. if s_session_id s = e_session_id e \<and> s_next_seq s = e_seq e
                      then advance_session e s else s) (sessions d)"
  unfolding appended_def by auto

lemma session_unique:
  "distinct (map s_session_id (sessions d)) \<Longrightarrow> get_session d k = Some s \<Longrightarrow>
     x \<in> set (sessions d) \<Longrightarrow> s_session_id x = k \<Longrightarrow> x = s"
  unfolding get_session_def using row_get_member by fastforce

lemma appended_ledger_ok:
  assumes L: "ledger_ok env d" and A: "appended env eid now q d e d'" and "is_uuid eid"
  shows "ledger_ok env d'"
proof -
  note F = appended_fields [OF A] and T = appended_tables [OF A] and S = appended_sessions [OF A]
  from F obtain s where s: "get_session d (e_session_id e) = Some s" "e_seq e = s_next_seq s"
    by auto
  then have sin: "s \<in> set (sessions d)" "s_session_id s = e_session_id e"
    by (auto simp: get_session_def dest: row_get_SomeD)
  have ids: "map s_session_id (sessions d') = map s_session_id (sessions d)"
    by (simp add: S advance_session_def)
  have fresh: "eid \<notin> v_event_id ` set (events d)"
    using A by (auto simp: appended_def exists_iff)
  have seqs: "1 \<le> s_next_seq x \<and> session_seqs d' (s_session_id x) = [1..s_next_seq x - 1]"
    if x: "x \<in> set (sessions d')" for x
  proof -
    from x obtain y where y: "y \<in> set (sessions d)"
        "x = (if s_session_id y = e_session_id e \<and> s_next_seq y = e_seq e
              then advance_session e y else y)"
      by (auto simp: S)
    have Ly: "1 \<le> s_next_seq y" "session_seqs d (s_session_id y) = [1..s_next_seq y - 1]"
      using L y(1) by (auto simp: ledger_ok_def)
    show ?thesis
    proof (cases "s_session_id y = e_session_id e")
      case True
      then have "y = s" using L s(1) y(1) session_unique by (auto simp: ledger_ok_def)
      with s y True have x: "x = advance_session e s" by simp
      have "session_seqs d' (e_session_id e) = session_seqs d (e_session_id e) @ [s_next_seq s]"
        using T s(2) by (simp add: session_seqs_def)
      with Ly \<open>y = s\<close> sin s(2) x show ?thesis
        by (simp add: advance_session_def upto_rec2 [of 1 "s_next_seq s"])
    next
      case False
      with y(2) Ly T show ?thesis by (simp add: session_seqs_def)
    qed
  qed
  have "event_wf e" using A assms(3) by (rule appended_event_wf)
  moreover have "e_session_id e \<in> s_session_id ` set (sessions d)" using sin by force
  moreover have "s_session_id ` set (sessions d') = s_session_id ` set (sessions d)"
    using ids by (metis image_set)
  ultimately show ?thesis
    using L seqs fresh F T ids unfolding ledger_ok_def by auto
qed

end
