(* ===== verification/Blobs.thy ===== *)
theory Blobs
  imports Ledger
begin

text \<open>
  The content-addressed blob table of \<^verbatim>\<open>persistence/store.py\<close>: bytes are stored once under
  their digest, re-checked on every read, and bounded by the two quotas of
  \<^verbatim>\<open>BlobLimits\<close> (\<^verbatim>\<open>persistence/contracts.py\<close>).
\<close>

definition blob_limits_check :: "int \<Rightarrow> int \<Rightarrow> unit result" where
  "blob_limits_check max_blob max_total =
     (if max_blob < 1 then Inl ValueError
      else if max_total < max_blob then Inl ValueError else Inr ())"

definition verify_blob :: "env \<Rightarrow> blob_row \<Rightarrow> unit result" where
  "verify_blob env b =
     (if int (length (o_content b)) \<noteq> o_byte_length b then Inl LedgerIntegrityError
      else if sha256 env (o_content b) \<noteq> o_sha256 b then Inl LedgerIntegrityError
      else Inr ())"

definition total_blob_bytes :: "db \<Rightarrow> int" where
  "total_blob_bytes d = sum_list (map o_byte_length (blobs d))"

definition put_blob_in_transaction ::
  "env \<Rightarrow> instant \<Rightarrow> string \<Rightarrow> string \<Rightarrow> (db, blob_row) txn" where
  "put_blob_in_transaction env now content media_type =
     (if blank media_type then throwT ValueError
      else
        bindT (getT (\<lambda>d. get_blob_row d (sha256 env content))) (\<lambda>existing.
        case existing of
          Some stored \<Rightarrow>
            bindT (liftT (verify_blob env stored)) (\<lambda>_.
            if o_content stored \<noteq> content then throwT LedgerIntegrityError
            else if o_media_type stored \<noteq> media_type then throwT BlobMetadataConflictError
            else returnT stored)
        | None \<Rightarrow>
            if int (length content) > max_blob_bytes env then throwT BlobQuotaExceededError
            else
              bindT (getT total_blob_bytes) (\<lambda>total.
              if total + int (length content) > max_total_bytes env
              then throwT BlobQuotaExceededError
              else
                bindT (returnT \<lparr>o_sha256 = sha256 env content,
                   o_byte_length = int (length content), o_media_type = media_type,
                   o_content = content, o_created_at = now\<rparr>) (\<lambda>blob.
                bindT (insert_blob blob) (\<lambda>_. returnT blob)))))"

definition put_blob :: "env \<Rightarrow> instant \<Rightarrow> string \<Rightarrow> string \<Rightarrow> db \<Rightarrow> blob_row result \<times> db" where
  "put_blob env now content media_type = transact (put_blob_in_transaction env now content media_type)"

definition get_blob :: "env \<Rightarrow> db \<Rightarrow> string \<Rightarrow> blob_row result" where
  "get_blob env d sha = (case get_blob_row d sha of
       None \<Rightarrow> Inl KeyError
     | Some b \<Rightarrow> bindE (verify_blob env b) (\<lambda>_. Inr b))"

section \<open>The blob invariant\<close>

definition blobs_ok :: "env \<Rightarrow> db \<Rightarrow> bool" where
  "blobs_ok env d \<longleftrightarrow>
     distinct (map o_sha256 (blobs d)) \<and>
     list_all (\<lambda>b. verify_blob env b = Inr () \<and> o_byte_length b \<le> max_blob_bytes env) (blobs d) \<and>
     total_blob_bytes d \<le> max_total_bytes env"

lemma blobs_ok_cong: "blobs d' = blobs d \<Longrightarrow> blobs_ok env d' = blobs_ok env d"
  by (simp add: blobs_ok_def total_blob_bytes_def)

lemma blobs_ok_empty: "0 \<le> max_total_bytes env \<Longrightarrow> blobs_ok env empty_db"
  by (simp add: blobs_ok_def empty_db_def total_blob_bytes_def)

text \<open>Only the blob table changes, and only by one row at its end.\<close>

definition blob_stored :: "env \<Rightarrow> string \<Rightarrow> db \<Rightarrow> blob_row \<Rightarrow> db \<Rightarrow> bool" where
  "blob_stored env content d b d' \<longleftrightarrow>
     o_sha256 b = sha256 env content \<and> o_content b = content \<and>
     (d' = d \<and> b \<in> set (blobs d) \<or> d' = d\<lparr>blobs := blobs d @ [b]\<rparr> \<and> \<not> blob_exists d (o_sha256 b)) \<and>
     get_blob_row d' (sha256 env content) = Some b \<and> verify_blob env b = Inr () \<and>
     (blobs_ok env d \<longrightarrow> blobs_ok env d')"

lemma put_blob_new_ok:
  assumes "blobs_ok env d" "\<not> blob_exists d (o_sha256 b)" "verify_blob env b = Inr ()"
    "o_byte_length b \<le> max_blob_bytes env" "total_blob_bytes d + o_byte_length b \<le> max_total_bytes env"
  shows "blobs_ok env (d\<lparr>blobs := blobs d @ [b]\<rparr>)"
  using assms by (auto simp: blobs_ok_def total_blob_bytes_def exists_iff)

lemma put_blob_stored:
  assumes "put_blob_in_transaction env now content mt d = Inr (b, d')"
  shows "blob_stored env content d b d'"
proof (cases "get_blob_row d (sha256 env content)")
  case (Some stored)
  with assms have "b = stored" "d' = d" "o_content stored = content" "verify_blob env stored = Inr ()"
    by (auto simp: put_blob_in_transaction_def bindT_eq_Inr liftT_def split: if_splits sum.splits)
  moreover from Some have "o_sha256 stored = sha256 env content" "stored \<in> set (blobs d)"
    by (auto simp: get_blob_row_def dest: row_get_SomeD)
  ultimately show ?thesis using Some by (simp add: blob_stored_def)
next
  case None
  let ?b = "\<lparr>o_sha256 = sha256 env content, o_byte_length = int (length content),
    o_media_type = mt, o_content = content, o_created_at = now\<rparr>"
  from assms None have b: "b = ?b" "d' = d\<lparr>blobs := blobs d @ [?b]\<rparr>"
      "\<not> blob_exists d (o_sha256 ?b)" "int (length content) \<le> max_blob_bytes env"
      "total_blob_bytes d + int (length content) \<le> max_total_bytes env"
    by (auto simp: put_blob_in_transaction_def bindT_eq_Inr insert_blob_def split: if_splits)
  moreover have "verify_blob env ?b = Inr ()" by (simp add: verify_blob_def)
  moreover have "get_blob_row (d\<lparr>blobs := blobs d @ [?b]\<rparr>) (sha256 env content) = Some ?b"
    using None by (simp add: get_blob_row_def tbl_simps)
  ultimately show ?thesis
    by (auto simp: blob_stored_def intro!: put_blob_new_ok)
qed

lemma wp_put_blob:
  "(\<And>b d'. blob_stored env content d b d' \<Longrightarrow> Q b d') \<Longrightarrow>
     wp (put_blob_in_transaction env now content mt) Q d"
  by (rule wpI) (blast dest: put_blob_stored)

lemma blob_stored_tables:
  "blob_stored env c d b d' \<Longrightarrow> sessions d' = sessions d \<and> turns d' = turns d \<and> runs d' = runs d \<and>
     events d' = events d \<and> tool_calls d' = tool_calls d \<and> tool_attempts d' = tool_attempts d \<and>
     approvals d' = approvals d \<and> budget_reservations d' = budget_reservations d \<and>
     checkpoints d' = checkpoints d \<and> control_commands d' = control_commands d \<and>
     model_calls d' = model_calls d"
  by (auto simp: blob_stored_def)

end
