(* ===== verification/Recovery.thy ===== *)
theory Recovery
  imports Blobs
begin

text \<open>
  Recovery of a run's projection (\<^verbatim>\<open>persistence/store.py\<close>): the newest valid checkpoint
  plus the events after it, falling back through older checkpoints to a full replay;
  and the invariant that ties the mutable columns of \<^verbatim>\<open>runs\<close> to the replayed events.
\<close>

section \<open>Checkpoints as replay starts\<close>

definition snapshot_phase_text :: "run_phase option \<Rightarrow> string" where
  "snapshot_phase_text ph = (case ph of None \<Rightarrow> ''terminal'' | Some p \<Rightarrow> run_phase_value p)"

definition projection_from_checkpoint_row ::
  "env \<Rightarrow> checkpoint_row \<Rightarrow> run_row \<Rightarrow> run_projection result" where
  "projection_from_checkpoint_row env ck run =
     (if sha256_json env (k_snapshot_json ck) \<noteq> k_snapshot_sha256 ck then Inl LedgerIntegrityError
      else if k_state_version ck \<noteq> CHECKPOINT_STATE_VERSION then Inl LedgerIntegrityError
      else bindE (snapshot_validate (k_snapshot_json ck)) (\<lambda>s.
        if cs_state_version s \<noteq> k_state_version ck then Inl LedgerIntegrityError
        else if cs_through_seq s \<noteq> k_through_seq ck then Inl LedgerIntegrityError
        else if snapshot_phase_text (cs_phase s) \<noteq> k_phase ck then Inl LedgerIntegrityError
        else if cs_run_id s \<noteq> r_run_id run \<or> cs_session_id s \<noteq> r_session_id run
                \<or> cs_turn_id s \<noteq> r_turn_id run \<or> cs_base_repo_root s \<noteq> r_base_repo_root run
                \<or> cs_base_commit_sha s \<noteq> r_base_commit_sha run
        then Inl LedgerIntegrityError
        else Inr (to_projection s)))"

record recovered_run =
  rec_projection :: run_projection
  rec_checkpoint_id :: "string option"
  rec_rejected_checkpoint_ids :: "string list"

definition replay_from_checkpoint ::
  "env \<Rightarrow> string \<Rightarrow> run_row \<Rightarrow> db \<Rightarrow> checkpoint_row \<Rightarrow> run_projection result" where
  "replay_from_checkpoint env run_id run d ck =
     bindE (projection_from_checkpoint_row env ck run) (\<lambda>cp.
     bindE (load_run_events_in_transaction env run_id (p_last_event_seq cp) d) (\<lambda>later.
     reduce_run_events later (Some cp)))"

fun recover_loop ::
  "env \<Rightarrow> string \<Rightarrow> run_row \<Rightarrow> db \<Rightarrow> string list \<Rightarrow> checkpoint_row list \<Rightarrow> recovered_run result" where
  "recover_loop env run_id run d rejected [] =
     bindE (load_run_events_in_transaction env run_id 0 d) (\<lambda>es.
     bindE (reduce_run_events es None) (\<lambda>p.
     Inr \<lparr>rec_projection = p, rec_checkpoint_id = None, rec_rejected_checkpoint_ids = rejected\<rparr>))"
| "recover_loop env run_id run d rejected (ck # cks) =
     (case replay_from_checkpoint env run_id run d ck of
        Inl e \<Rightarrow> if is_integrity_error e \<or> is_value_error e
                 then recover_loop env run_id run d (rejected @ [k_checkpoint_id ck]) cks
                 else Inl e
      | Inr p \<Rightarrow> Inr \<lparr>rec_projection = p, rec_checkpoint_id = Some (k_checkpoint_id ck),
                      rec_rejected_checkpoint_ids = rejected\<rparr>)"

definition recover_run_projection_in_transaction ::
  "env \<Rightarrow> string \<Rightarrow> run_row \<Rightarrow> db \<Rightarrow> recovered_run result" where
  "recover_run_projection_in_transaction env run_id run d =
     recover_loop env run_id run d []
       (rev (sort_key k_through_seq (filter (\<lambda>k. k_run_id k = run_id) (checkpoints d))))"

definition recover_run_projection :: "env \<Rightarrow> db \<Rightarrow> string \<Rightarrow> recovered_run result" where
  "recover_run_projection env d run_id =
     bindE (require_run_row run_id d) (\<lambda>run. recover_run_projection_in_transaction env run_id run d)"

definition get_run_projection :: "env \<Rightarrow> db \<Rightarrow> string \<Rightarrow> run_projection result" where
  "get_run_projection env d run_id =
     bindE (recover_run_projection env d run_id) (\<lambda>r. Inr (rec_projection r))"

definition latest_checkpoint_through_seq :: "env \<Rightarrow> db \<Rightarrow> string \<Rightarrow> int result" where
  "latest_checkpoint_through_seq env d run_id =
     bindE (recover_run_projection env d run_id) (\<lambda>r.
     case rec_checkpoint_id r of
       None \<Rightarrow> Inr 0
     | Some c \<Rightarrow> (case row_get k_checkpoint_id c (checkpoints d) of
                   None \<Rightarrow> Inl TypeError | Some k \<Rightarrow> Inr (k_through_seq k)))"

section \<open>The history of a run\<close>

definition decode :: "env \<Rightarrow> event_row \<Rightarrow> event_envelope" where
  "decode env r = projr (event_from_row env r)"

definition history :: "env \<Rightarrow> db \<Rightarrow> string \<Rightarrow> event_envelope list" where
  "history env d run_id = map (decode env) (filter (\<lambda>r. v_run_id r = Some run_id) (events d))"

definition proj_of_row :: "run_row \<Rightarrow> run_projection" where
  "proj_of_row r =
     \<lparr>p_run_id = r_run_id r, p_session_id = r_session_id r, p_turn_id = r_turn_id r,
      p_execution_status = r_execution_status r, p_phase = r_phase r,
      p_workspace_disposition = r_workspace_disposition r,
      p_base_repo_root = r_base_repo_root r, p_base_commit_sha = r_base_commit_sha r,
      p_budget_limits = r_budget_limits r, p_last_event_seq = r_last_event_seq r\<rparr>"

text \<open>The events of a run belong to the run's session.\<close>

definition run_sessions_ok :: "db \<Rightarrow> bool" where
  "run_sessions_ok d \<longleftrightarrow> (\<forall>v \<in> set (events d). \<forall>rid. v_run_id v = Some rid \<longrightarrow>
     (\<exists>r \<in> set (runs d). r_run_id r = rid \<and> v_session_id v = r_session_id r))"

text \<open>
  The mutable columns of every run are what replaying its events from the beginning
  gives.
\<close>

definition runs_ok :: "env \<Rightarrow> db \<Rightarrow> bool" where
  "runs_ok env d \<longleftrightarrow>
     distinct (map r_run_id (runs d)) \<and> run_sessions_ok d \<and>
     (\<forall>r \<in> set (runs d). reduce_run_events (history env d (r_run_id r)) None = Inr (proj_of_row r))"

lemma sort_key_id: "sorted (map f xs) \<Longrightarrow> sort_key f xs = xs"
  by (rule sort_key_id_if_sorted)

lemma history_cong: "events d' = events d \<Longrightarrow> history env d' = history env d"
  by (simp add: history_def fun_eq_iff)

lemma decode_row_of_event: "event_wf e \<Longrightarrow> decode env (row_of_event env e) = e"
  by (simp add: decode_def event_from_row_of_event)

lemma ledger_row:
  "ledger_ok env d \<Longrightarrow> r \<in> set (events d) \<Longrightarrow>
     event_from_row env r = Inr (decode env r) \<and> e_seq (decode env r) = v_seq r \<and>
     e_run_id (decode env r) = v_run_id r \<and> event_wf (decode env r)"
  by (auto simp: ledger_ok_def decode_def event_from_row_of_event)

text \<open>The rows of a run are strictly increasing in their sequence numbers.\<close>

lemma run_rows_sorted:
  assumes "ledger_ok env d" "run_sessions_ok d" "distinct (map r_run_id (runs d))"
  shows "sorted_wrt (<) (map v_seq (filter (\<lambda>r. v_run_id r = Some run_id) (events d)))"
proof (cases "filter (\<lambda>r. v_run_id r = Some run_id) (events d)")
  case (Cons v vs)
  then have v: "v \<in> set (events d)" "v_run_id v = Some run_id"
    by (auto dest: filter_eq_ConsD [THEN exE] simp: filter_eq_Cons_iff)
  then obtain r where r: "r \<in> set (runs d)" "r_run_id r = run_id"
    using assms(2) by (auto simp: run_sessions_ok_def)
  have same: "v_session_id x = r_session_id r"
    if "x \<in> set (events d)" "v_run_id x = Some run_id" for x
  proof -
    from that assms(2) obtain r' where r': "r' \<in> set (runs d)" "r_run_id r' = run_id"
        "v_session_id x = r_session_id r'"
      by (auto simp: run_sessions_ok_def)
    have "r' = r"
      using row_get_member [OF assms(3) r'(1)] row_get_member [OF assms(3) r(1)] r'(2) r(2) by simp
    with r'(3) show ?thesis by simp
  qed
  let ?S = "filter (\<lambda>x. v_session_id x = r_session_id r) (events d)"
  have eq: "filter (\<lambda>r. v_run_id r = Some run_id) (events d) = filter (\<lambda>r. v_run_id r = Some run_id) ?S"
    using same by (auto intro!: filter_cong)
  from assms(1) v(1) same [OF v] obtain s where "s \<in> set (sessions d)" "s_session_id s = r_session_id r"
    by (auto simp: ledger_ok_def)
  then have "map v_seq ?S = [1..s_next_seq s - 1]"
    using assms(1) by (auto simp: ledger_ok_def session_seqs_def)
  then have "sorted_wrt (<) (map v_seq ?S)" by simp
  then show ?thesis
    unfolding eq sorted_wrt_map by (rule sorted_wrt_filter)
qed simp

lemma load_run_events_history:
  assumes "ledger_ok env d" "run_sessions_ok d" "distinct (map r_run_id (runs d))"
  shows "load_run_events_in_transaction env run_id after d =
    Inr (filter (\<lambda>e. after < e_seq e) (history env d run_id))"
proof -
  let ?R = "filter (\<lambda>r. v_run_id r = Some run_id \<and> after < v_seq r) (events d)"
  have "sorted_wrt (<) (map v_seq (filter (\<lambda>r. after < v_seq r)
      (filter (\<lambda>r. v_run_id r = Some run_id) (events d))))"
    using run_rows_sorted [OF assms, of run_id] unfolding sorted_wrt_map by (rule sorted_wrt_filter)
  then have "sorted (map v_seq ?R)"
    by (simp add: strict_sorted_imp_sorted conj_commute)
  then have "sort_key v_seq ?R = ?R" by (rule sort_key_id)
  moreover have "mapE (event_from_row env) ?R = Inr (map (decode env) ?R)"
    using assms(1) by (intro mapE_Inr) (simp add: ledger_row)
  moreover have "map (decode env) ?R = filter (\<lambda>e. after < e_seq e) (history env d run_id)"
    using assms(1)
    by (auto simp: history_def filter_map comp_def ledger_row intro!: arg_cong [where f = "map (decode env)"]
        filter_cong)
  ultimately show ?thesis by (simp add: load_run_events_in_transaction_def)
qed

section \<open>Recovery is full replay\<close>

text \<open>
  A checkpoint is sound when, if it passes the checks of
  \<^const>\<open>projection_from_checkpoint_row\<close>, it is the replay of the events up to its
  sequence number. A damaged row that the checks reject is sound.
\<close>

definition checkpoint_sound :: "env \<Rightarrow> db \<Rightarrow> checkpoint_row \<Rightarrow> run_row \<Rightarrow> bool" where
  "checkpoint_sound env d ck r \<longleftrightarrow>
     (\<forall>p. projection_from_checkpoint_row env ck r = Inr p \<longrightarrow>
        k_through_seq ck \<in> e_seq ` set (history env d (r_run_id r)) \<and>
        reduce_run_events (filter (\<lambda>e. e_seq e \<le> k_through_seq ck) (history env d (r_run_id r))) None
          = Inr p)"

definition checkpoints_ok :: "env \<Rightarrow> db \<Rightarrow> bool" where
  "checkpoints_ok env d \<longleftrightarrow>
     (\<forall>ck \<in> set (checkpoints d). k_run_id ck \<in> r_run_id ` set (runs d) \<and>
        (\<forall>r \<in> set (runs d). r_run_id r = k_run_id ck \<longrightarrow> checkpoint_sound env d ck r))"

lemma history_sorted:
  assumes "ledger_ok env d" "run_sessions_ok d" "distinct (map r_run_id (runs d))"
  shows "sorted_wrt (<) (map e_seq (history env d run_id))"
proof -
  have "map e_seq (history env d run_id) =
      map v_seq (filter (\<lambda>r. v_run_id r = Some run_id) (events d))"
    using assms(1) by (auto simp: history_def ledger_row)
  with run_rows_sorted [OF assms] show ?thesis by simp
qed

text \<open>Every way a snapshot document can fail to validate is a \<^verbatim>\<open>ValueError\<close>.\<close>

definition fails_with :: "error \<Rightarrow> 'a result \<Rightarrow> bool" where
  "fails_with x r \<longleftrightarrow> (\<forall>e. r = Inl e \<longrightarrow> e = x)"

lemma fails_with_bind:
  "fails_with x m \<Longrightarrow> (\<And>y. fails_with x (f y)) \<Longrightarrow> fails_with x (bindE m f)"
  by (cases m) (auto simp: fails_with_def)

lemma fails_with_mapE: "(\<And>y. fails_with x (f y)) \<Longrightarrow> fails_with x (mapE f ys)"
  by (induction ys) (auto simp: fails_with_def bindE_def split: sum.splits)

lemma fails_with_limit_item: "fails_with ValueError (limit_item kv)"
  by (cases kv rule: limit_item.cases) (simp_all add: fails_with_def)

lemma fails_with_enum_of: "fails_with ValueError (enum_of val ms s)"
  by (simp add: fails_with_def enum_of_def split: option.splits)

lemma fails_with_simple_fields:
  "fails_with ValueError (closed_fields ks kvs)"
  "fails_with ValueError (str_field k kvs)"
  "fails_with ValueError (any_int_field k kvs)"
  "fails_with ValueError (version_field k kvs)"
  "fails_with ValueError (limits_field k kvs)"
  by (auto simp: fails_with_def closed_fields_def str_field_def any_int_field_def version_field_def
      limits_field_def split: option.splits json.splits
      dest: fails_with_mapE [OF fails_with_limit_item, unfolded fails_with_def, rule_format])

lemma fails_with_enum_fields:
  "fails_with ValueError (status_field k kvs)"
  "fails_with ValueError (phase_field k kvs)"
  "fails_with ValueError (disposition_field k kvs)"
  unfolding status_field_def phase_field_def disposition_field_def
  by (intro fails_with_bind fails_with_enum_of fails_with_simple_fields)+

lemma fails_with_opt_phase: "fails_with ValueError (opt_phase_field k kvs)"
proof -
  have "fails_with ValueError (bindE (phase_field k kvs) (\<lambda>p. Inr (Some p)))"
    by (intro fails_with_bind fails_with_enum_fields) (simp add: fails_with_def)
  then show ?thesis
    by (auto simp: opt_phase_field_def fails_with_def split: option.splits json.splits)
qed

lemma snapshot_validate_fails: "fails_with ValueError (snapshot_validate j)"
proof (cases j)
  case (JObj kvs)
  then show ?thesis
    unfolding snapshot_validate_def
    by (simp, intro fails_with_bind fails_with_simple_fields fails_with_enum_fields
        fails_with_opt_phase) (simp add: fails_with_def)
qed (simp_all add: snapshot_validate_def fails_with_def)

lemma projection_from_checkpoint_errors:
  assumes "projection_from_checkpoint_row env ck r = Inl e"
  shows "is_integrity_error e \<or> is_value_error e"
  using assms snapshot_validate_fails [of "k_snapshot_json ck"]
  by (cases "snapshot_validate (k_snapshot_json ck)")
    (auto simp: projection_from_checkpoint_row_def is_integrity_error_def is_value_error_def
      fails_with_def split: if_splits)

lemma projection_from_checkpoint_seq:
  "projection_from_checkpoint_row env ck r = Inr p \<Longrightarrow> p_last_event_seq p = k_through_seq ck"
  by (auto simp: projection_from_checkpoint_row_def bindE_eq_Inr to_projection_def split: if_splits)

lemma replay_from_sound_checkpoint:
  assumes "ledger_ok env d" "run_sessions_ok d" "distinct (map r_run_id (runs d))"
    and "checkpoint_sound env d ck r" "projection_from_checkpoint_row env ck r = Inr p"
  shows "replay_from_checkpoint env (r_run_id r) r d ck =
    reduce_run_events (history env d (r_run_id r)) None"
proof -
  let ?H = "history env d (r_run_id r)"
  have p: "p_last_event_seq p = k_through_seq ck"
    using assms(5) by (rule projection_from_checkpoint_seq)
  have "foldE reduce_step (reduce_start None) (filter (\<lambda>e. e_seq e \<le> k_through_seq ck) ?H) =
      Inr (reduce_start (Some p))"
    using assms(4,5) by (simp add: checkpoint_sound_def reduce_run_events_Inr)
  then have "foldE reduce_step (reduce_start None) ?H =
      foldE reduce_step (reduce_start (Some p)) (filter (\<lambda>e. k_through_seq ck < e_seq e) ?H)"
    using history_sorted [OF assms(1-3)] by (intro run_reducer.fold_resume)
  then show ?thesis
    using assms(5) p
    by (simp add: replay_from_checkpoint_def load_run_events_history [OF assms(1-3)]
        reduce_run_events_def)
qed

lemma history_positive:
  assumes "ledger_ok env d" "e \<in> set (history env d run_id)"
  shows "0 < e_seq e"
proof -
  from assms(2) obtain v where v: "v \<in> set (events d)" "e = decode env v"
    by (auto simp: history_def)
  with assms(1) obtain s where s: "s \<in> set (sessions d)" "v_session_id v = s_session_id s"
    unfolding ledger_ok_def by blast
  have "v_seq v \<in> set (session_seqs d (s_session_id s))"
    using v(1) s(2) by (auto simp: session_seqs_def)
  then have "v_seq v \<in> set [1..s_next_seq s - 1]"
    using assms(1) s(1) by (simp add: ledger_ok_def)
  with assms(1) v show ?thesis by (simp add: ledger_row)
qed

lemma load_full_history:
  assumes "ledger_ok env d" "run_sessions_ok d" "distinct (map r_run_id (runs d))"
  shows "load_run_events_in_transaction env run_id 0 d = Inr (history env d run_id)"
proof -
  have "filter (\<lambda>e. 0 < e_seq e) (history env d run_id) = history env d run_id"
    using history_positive [OF assms(1)] by (simp add: filter_id_conv)
  with load_run_events_history [OF assms] show ?thesis by simp
qed

lemma recover_loop_full:
  assumes "ledger_ok env d" "run_sessions_ok d" "distinct (map r_run_id (runs d))"
    and "\<forall>ck \<in> set cks. checkpoint_sound env d ck r"
    and "reduce_run_events (history env d (r_run_id r)) None = Inr p"
  shows "\<exists>rec. recover_loop env (r_run_id r) r d rejected cks = Inr rec \<and> rec_projection rec = p"
  using assms(4)
proof (induction cks arbitrary: rejected)
  case Nil
  show ?case using assms(5) by (simp add: load_full_history [OF assms(1-3)])
next
  case (Cons ck cks)
  show ?case
  proof (cases "projection_from_checkpoint_row env ck r")
    case (Inl e)
    then have "is_integrity_error e \<or> is_value_error e" by (rule projection_from_checkpoint_errors)
    moreover from Inl have "replay_from_checkpoint env (r_run_id r) r d ck = Inl e"
      by (simp add: replay_from_checkpoint_def)
    ultimately show ?thesis using Cons by simp
  next
    case (Inr cp)
    with Cons.prems assms(1-3,5) show ?thesis by (simp add: replay_from_sound_checkpoint)
  qed
qed

text \<open>On a sound database the recovered projection is what the run's columns say.\<close>

lemma recover_in_transaction:
  assumes "ledger_ok env d" "runs_ok env d" "checkpoints_ok env d" "get_run d run_id = Some r"
  shows "\<exists>rec. recover_run_projection_in_transaction env run_id r d = Inr rec \<and>
    rec_projection rec = proj_of_row r"
proof -
  from assms(4) have r: "r \<in> set (runs d)" "r_run_id r = run_id"
    by (auto simp: get_run_def dest: row_get_SomeD)
  then show ?thesis
    using recover_loop_full [of env d _ r "proj_of_row r" "[]"] assms(1-3)
    by (auto simp: recover_run_projection_in_transaction_def runs_ok_def checkpoints_ok_def)
qed

end
