(* ===== verification/Integrity.thy ===== *)
theory Integrity
  imports Recovery "HOL-Library.Sublist"
begin

text \<open>
  What every command keeps. \<open>evolves\<close> relates two databases of one store: events, blobs
  and control commands are only ever added, run identities never change, lease epochs
  never go down. \<open>store_ok\<close> is the integrity invariant: gap-free intact ledger, ordered
  model calls, blobs true to their digests, run columns equal to the replay of their
  events, checkpoints true to their prefix. \<open>lagging\<close> is the invariant in the middle of
  a transaction, when the events of one run are ahead of its columns.
\<close>

section \<open>Evolution\<close>

definition run_identity :: "run_row \<Rightarrow> run_row \<Rightarrow> bool" where
  "run_identity r r' \<longleftrightarrow>
     r_run_id r' = r_run_id r \<and> r_session_id r' = r_session_id r \<and> r_turn_id r' = r_turn_id r \<and>
     r_base_repo_root r' = r_base_repo_root r \<and> r_base_commit_sha r' = r_base_commit_sha r \<and>
     r_budget_limits r' = r_budget_limits r"

definition run_le :: "run_row \<Rightarrow> run_row \<Rightarrow> bool" where
  "run_le r r' \<longleftrightarrow> run_identity r r' \<and> r_lease_epoch r \<le> r_lease_epoch r' \<and>
     (r_cancel_requested_at r \<noteq> None \<longrightarrow> r_cancel_requested_at r' \<noteq> None)"

lemma run_le_refl [simp]: "run_le r r"
  by (simp add: run_le_def run_identity_def)

lemma run_le_trans: "run_le a b \<Longrightarrow> run_le b c \<Longrightarrow> run_le a c"
  by (auto simp: run_le_def run_identity_def)

definition runs_le :: "run_row list \<Rightarrow> run_row list \<Rightarrow> bool" where
  "runs_le rs rs' \<longleftrightarrow> (\<exists>ys zs. rs' = ys @ zs \<and> list_all2 run_le rs ys)"

lemma runs_le_refl [simp]: "runs_le rs rs"
  unfolding runs_le_def by (intro exI [of _ rs] exI [of _ "[]"]) (simp add: list_all2_refl)

lemma runs_le_trans:
  assumes "runs_le as bs" "runs_le bs cs"
  shows "runs_le as cs"
proof -
  from assms obtain b1 b2 c1 c2 where *: "bs = b1 @ b2" "list_all2 run_le as b1"
      "cs = c1 @ c2" "list_all2 run_le (b1 @ b2) c1"
    by (auto simp: runs_le_def)
  from *(4) obtain c11 c12 where **: "c1 = c11 @ c12" "list_all2 run_le b1 c11"
    by (auto simp: list_all2_append1)
  have "list_all2 run_le as c11"
    using run_le_trans *(2) **(2) by (rule list_all2_trans)
  with * ** show ?thesis by (auto simp: runs_le_def)
qed

lemma runs_le_upd:
  assumes "\<And>r. key r = k \<Longrightarrow> r \<in> set rs \<Longrightarrow> run_le r (f r)"
  shows "runs_le rs (row_upd key k f rs)"
proof -
  have "list_all2 run_le rs (row_upd key k f rs)"
    using assms by (auto simp: row_upd_def list_all2_conv_all_nth)
  then show ?thesis unfolding runs_le_def by (metis append_Nil2)
qed

lemma runs_le_snoc [simp]: "runs_le rs (rs @ [r])"
  unfolding runs_le_def by (intro exI [of _ rs] exI [of _ "[r]"]) (simp add: list_all2_refl)

lemma runs_le_get:
  "runs_le rs rs' \<Longrightarrow> row_get r_run_id k rs = Some r \<Longrightarrow>
     \<exists>r'. row_get r_run_id k rs' = Some r' \<and> run_le r r'"
proof -
  assume "runs_le rs rs'" and get: "row_get r_run_id k rs = Some r"
  then obtain ys zs where rs': "rs' = ys @ zs" and ys: "list_all2 run_le rs ys"
    by (auto simp: runs_le_def)
  from ys get have "\<exists>r'. row_get r_run_id k ys = Some r' \<and> run_le r r'"
    by (induction rule: list_all2_induct)
      (auto simp: tbl_simps run_le_def run_identity_def split: if_splits)
  then show ?thesis by (auto simp: rs' tbl_simps)
qed

definition evolves :: "db \<Rightarrow> db \<Rightarrow> bool" where
  "evolves d d' \<longleftrightarrow>
     prefix (events d) (events d') \<and> prefix (blobs d) (blobs d') \<and>
     prefix (control_commands d) (control_commands d') \<and>
     prefix (checkpoints d) (checkpoints d') \<and> runs_le (runs d) (runs d')"

lemma evolves_refl [simp]: "evolves d d"
  by (simp add: evolves_def)

lemma evolves_trans: "evolves a b \<Longrightarrow> evolves b c \<Longrightarrow> evolves a c"
  unfolding evolves_def by (blast intro: prefix_order.trans runs_le_trans)

lemma evolves_run:
  "evolves d d' \<Longrightarrow> get_run d k = Some r \<Longrightarrow> \<exists>r'. get_run d' k = Some r' \<and> run_le r r'"
  unfolding evolves_def get_run_def by (blast intro: runs_le_get)

text \<open>
  \<open>sound_from env d0\<close> is the part of the invariant that holds of every command without a
  condition on its arguments.
\<close>

definition ledger_sound :: "env \<Rightarrow> db \<Rightarrow> bool" where
  "ledger_sound env d \<longleftrightarrow> ledger_ok env d \<and> model_calls_ok d \<and> blobs_ok env d \<and>
     distinct (map r_run_id (runs d))"

definition sound_from :: "env \<Rightarrow> db \<Rightarrow> db \<Rightarrow> bool" where
  "sound_from env d0 d \<longleftrightarrow> ledger_sound env d \<and> evolves d0 d"

lemma sound_from_trans:
  "sound_from env d0 d \<Longrightarrow> ledger_sound env d' \<Longrightarrow> evolves d d' \<Longrightarrow> sound_from env d0 d'"
  unfolding sound_from_def by (blast intro: evolves_trans)

lemma ledger_sound_cong:
  "sessions d' = sessions d \<Longrightarrow> events d' = events d \<Longrightarrow> model_calls d' = model_calls d \<Longrightarrow>
     blobs d' = blobs d \<Longrightarrow> map r_run_id (runs d') = map r_run_id (runs d) \<Longrightarrow>
     ledger_sound env d' = ledger_sound env d"
  by (simp add: ledger_sound_def ledger_ok_cong [of d' d] model_calls_ok_cong [of d' d]
      blobs_ok_cong [of d' d])

lemma appended_model_calls:
  "appended env eid now q d e d' \<Longrightarrow> model_calls_ok d \<Longrightarrow> model_calls_ok d'"
  by (simp add: appended_def)

lemma appended_ledger_sound:
  "appended env eid now q d e d' \<Longrightarrow> is_uuid eid \<Longrightarrow> ledger_sound env d \<Longrightarrow> ledger_sound env d'"
  using appended_tables [of env eid now q d e d'] blobs_ok_cong [of d' d env]
    appended_ledger_ok [of env d eid now q e d'] appended_model_calls [of env eid now q d e d']
  by (simp add: ledger_sound_def)

lemma appended_evolves: "appended env eid now q d e d' \<Longrightarrow> evolves d d'"
  using appended_tables [of env eid now q d e d'] by (auto simp: evolves_def)

lemma pres_append [pres_rules]:
  "is_uuid eid \<Longrightarrow> pres (sound_from env d0) (append_event_in_transaction env eid now q)"
  unfolding pres_def
  by (auto intro!: wp_append intro: sound_from_trans appended_ledger_sound appended_evolves
      simp: sound_from_def evolves_trans)

lemma blob_stored_sound:
  "blob_stored env c d b d' \<Longrightarrow> ledger_sound env d \<Longrightarrow> ledger_sound env d' \<and> evolves d d'"
proof
  assume *: "blob_stored env c d b d'" "ledger_sound env d"
  note T = blob_stored_tables [OF *(1)]
  show "ledger_sound env d'"
    using * T ledger_ok_cong [of d' d env] model_calls_ok_cong [of d' d]
    by (simp add: ledger_sound_def blob_stored_def)
  have "prefix (blobs d) (blobs d')" using *(1) by (auto simp: blob_stored_def)
  with T show "evolves d d'" by (simp add: evolves_def)
qed

lemma pres_put_blob [pres_rules]:
  "pres (sound_from env d0) (put_blob_in_transaction env now c mt)"
  unfolding pres_def
  unfolding sound_from_def
  by (intro allI impI wp_put_blob) (blast dest: blob_stored_sound intro: evolves_trans)

text \<open>An update outside the ledger, the model calls and the blobs.\<close>

lemma pres_sound_modify:
  assumes "\<And>d. sessions (f d) = sessions d" "\<And>d. events (f d) = events d"
    "\<And>d. model_calls (f d) = model_calls d" "\<And>d. blobs (f d) = blobs d"
    "\<And>d. checkpoints (f d) = checkpoints d" "\<And>d. control_commands (f d) = control_commands d"
    "\<And>d. runs_le (runs d) (runs (f d))" "\<And>d. map r_run_id (runs (f d)) = map r_run_id (runs d)"
  shows "pres (sound_from env d0) (modifyT f)"
proof (rule pres_modify)
  fix d assume "sound_from env d0 d"
  moreover have "ledger_sound env (f d) = ledger_sound env d"
    by (intro ledger_sound_cong assms)
  moreover have "evolves d (f d)" using assms by (simp add: evolves_def)
  ultimately show "sound_from env d0 (f d)" by (auto simp: sound_from_def intro: evolves_trans)
qed

lemma pres_update_other [pres_rules]:
  "pres (sound_from env d0) (modifyT (update_turn k f1))"
  "pres (sound_from env d0) (modifyT (update_tool_call k f2))"
  "pres (sound_from env d0) (modifyT (update_attempt k f3))"
  "pres (sound_from env d0) (modifyT (update_approval k f4))"
  "pres (sound_from env d0) (modifyT (update_reservation k f5))"
  by - (rule pres_sound_modify; simp add: table_update_defs)+

lemma pres_update_run [pres_rules]:
  "(\<And>r. run_le r (f r)) \<Longrightarrow> pres (sound_from env d0) (modifyT (update_run k f))"
  by (rule pres_sound_modify)
    (auto simp: table_update_defs map_row_upd run_le_def run_identity_def intro: runs_le_upd)

lemma pres_insert:
  assumes "\<And>d x d'. m d = Inr (x, d') \<Longrightarrow> sessions d' = sessions d \<and> events d' = events d \<and>
      model_calls d' = model_calls d \<and> blobs d' = blobs d \<and>
      prefix (checkpoints d) (checkpoints d') \<and>
      prefix (control_commands d) (control_commands d') \<and> runs_le (runs d) (runs d') \<and>
      (distinct (map r_run_id (runs d)) \<longrightarrow> distinct (map r_run_id (runs d')))"
  shows "pres (sound_from env d0) m"
proof (unfold pres_def, intro allI impI wpI)
  fix d x d' assume "sound_from env d0 d" and m: "m d = Inr (x, d')"
  moreover have "ledger_sound env d \<Longrightarrow> ledger_sound env d'"
    using assms [OF m] ledger_ok_cong [of d' d env] model_calls_ok_cong [of d' d]
      blobs_ok_cong [of d' d env] by (simp add: ledger_sound_def)
  moreover have "evolves d d'" using assms [OF m] by (simp add: evolves_def)
  ultimately show "sound_from env d0 d'" by (auto simp: sound_from_def intro: evolves_trans)
qed

lemma pres_inserts [pres_rules]:
  "pres (sound_from env d0) (insert_turn r1)"
  "pres (sound_from env d0) (insert_run r2)"
  "pres (sound_from env d0) (insert_tool_call r3)"
  "pres (sound_from env d0) (insert_attempt r4)"
  "pres (sound_from env d0) (insert_approval r5)"
  "pres (sound_from env d0) (insert_reservation r6)"
  "pres (sound_from env d0) (insert_checkpoint r7)"
  "pres (sound_from env d0) (insert_control_command r8)"
  by - (rule pres_insert; auto simp: insert_defs exists_iff split: if_splits)+

section \<open>The integrity invariant\<close>

definition store_ok :: "env \<Rightarrow> db \<Rightarrow> bool" where
  "store_ok env d \<longleftrightarrow> ledger_sound env d \<and> runs_ok env d \<and> checkpoints_ok env d"

definition replays :: "env \<Rightarrow> db \<Rightarrow> string \<Rightarrow> run_projection option \<Rightarrow> bool" where
  "replays env d rid po \<longleftrightarrow>
     foldE reduce_step (reduce_start None) (history env d rid) = Inr (reduce_start po)"

definition lagging :: "env \<Rightarrow> db \<Rightarrow> string \<Rightarrow> run_projection option \<Rightarrow> bool" where
  "lagging env d rid po \<longleftrightarrow>
     ledger_sound env d \<and> distinct (map r_run_id (runs d)) \<and> run_sessions_ok d \<and>
     checkpoints_ok env d \<and>
     (\<forall>r \<in> set (runs d). replays env d (r_run_id r)
        (if r_run_id r = rid then po else Some (proj_of_row r)))"

lemma store_ok_empty: "0 \<le> max_total_bytes env \<Longrightarrow> store_ok env empty_db"
  by (simp add: store_ok_def ledger_sound_def runs_ok_def run_sessions_ok_def checkpoints_ok_def
      model_calls_ok_def blobs_ok_empty) (simp add: empty_db_def active_calls_def)

lemma get_run_unique:
  "distinct (map r_run_id (runs d)) \<Longrightarrow> get_run d k = Some r \<Longrightarrow> x \<in> set (runs d) \<Longrightarrow>
     r_run_id x = k \<Longrightarrow> x = r"
  unfolding get_run_def using row_get_member by fastforce

lemma get_run_in: "get_run d k = Some r \<Longrightarrow> r \<in> set (runs d) \<and> r_run_id r = k"
  by (auto simp: get_run_def dest: row_get_SomeD)

lemma store_lagging:
  assumes "store_ok env d" "get_run d rid = Some r"
  shows "lagging env d rid (Some (proj_of_row r))"
proof -
  have "replays env d (r_run_id x) (if r_run_id x = rid then Some (proj_of_row r) else Some (proj_of_row x))"
    if "x \<in> set (runs d)" for x
    using that assms get_run_unique [of d rid r x]
    by (auto simp: store_ok_def runs_ok_def replays_def reduce_run_events_Inr)
  with assms show ?thesis by (simp add: lagging_def store_ok_def runs_ok_def)
qed

lemma lagging_store:
  assumes "lagging env d rid (Some (proj_of_row r))" "get_run d rid = Some r"
  shows "store_ok env d"
  using assms get_run_unique [of d rid r]
  by (auto simp: store_ok_def lagging_def runs_ok_def reduce_run_events_Inr replays_def split: if_splits)

lemma store_ok_recover:
  assumes "store_ok env d" "get_run d rid = Some r"
    and "recover_run_projection_in_transaction env rid r d = Inr rec"
  shows "rec_projection rec = proj_of_row r"
  using recover_in_transaction [of env d rid r] assms
  by (auto simp: store_ok_def ledger_sound_def)

text \<open>Tables the invariant does not look at.\<close>

lemma checkpoints_ok_cong:
  "events d' = events d \<Longrightarrow> runs d' = runs d \<Longrightarrow> checkpoints d' = checkpoints d \<Longrightarrow>
     checkpoints_ok env d' = checkpoints_ok env d"
  by (simp add: checkpoints_ok_def checkpoint_sound_def history_cong [of d' d])

lemma lagging_cong:
  assumes "sessions d' = sessions d" "events d' = events d" "model_calls d' = model_calls d"
    "blobs d' = blobs d" "runs d' = runs d" "checkpoints d' = checkpoints d"
  shows "lagging env d' rid po = lagging env d rid po"
  using assms ledger_sound_cong [of d' d env] checkpoints_ok_cong [of d' d env]
  by (simp add: lagging_def run_sessions_ok_def replays_def history_cong [of d' d])

lemma store_ok_cong:
  assumes "sessions d' = sessions d" "events d' = events d" "model_calls d' = model_calls d"
    "blobs d' = blobs d" "runs d' = runs d" "checkpoints d' = checkpoints d"
  shows "store_ok env d' = store_ok env d"
  using assms ledger_sound_cong [of d' d env] checkpoints_ok_cong [of d' d env]
  by (simp add: store_ok_def runs_ok_def run_sessions_ok_def history_cong [of d' d])

lemma other_tables [simp]:
  "lagging env (d\<lparr>turns := x1\<rparr>) rid po = lagging env d rid po"
  "lagging env (d\<lparr>tool_calls := x2\<rparr>) rid po = lagging env d rid po"
  "lagging env (d\<lparr>tool_attempts := x3\<rparr>) rid po = lagging env d rid po"
  "lagging env (d\<lparr>approvals := x4\<rparr>) rid po = lagging env d rid po"
  "lagging env (d\<lparr>budget_reservations := x5\<rparr>) rid po = lagging env d rid po"
  "lagging env (d\<lparr>control_commands := x6\<rparr>) rid po = lagging env d rid po"
  "store_ok env (d\<lparr>turns := x1\<rparr>) = store_ok env d"
  "store_ok env (d\<lparr>tool_calls := x2\<rparr>) = store_ok env d"
  "store_ok env (d\<lparr>tool_attempts := x3\<rparr>) = store_ok env d"
  "store_ok env (d\<lparr>approvals := x4\<rparr>) = store_ok env d"
  "store_ok env (d\<lparr>budget_reservations := x5\<rparr>) = store_ok env d"
  "store_ok env (d\<lparr>control_commands := x6\<rparr>) = store_ok env d"
  "get_run (d\<lparr>turns := x1\<rparr>) k = get_run d k"
  "get_run (d\<lparr>tool_calls := x2\<rparr>) k = get_run d k"
  "get_run (d\<lparr>tool_attempts := x3\<rparr>) k = get_run d k"
  "get_run (d\<lparr>approvals := x4\<rparr>) k = get_run d k"
  "get_run (d\<lparr>budget_reservations := x5\<rparr>) k = get_run d k"
  "get_run (d\<lparr>control_commands := x6\<rparr>) k = get_run d k"
  by - ((rule lagging_cong store_ok_cong; simp) | simp add: get_run_def)+

section \<open>Appending to one run\<close>

lemma history_appended:
  "appended env eid now q d e d' \<Longrightarrow> is_uuid eid \<Longrightarrow>
     history env d' k = history env d k @ (if q_run_id q = Some k then [e] else [])"
  using appended_tables [of env eid now q d e d'] appended_fields [of env eid now q d e d']
    appended_event_wf [of env eid now q d e d']
  by (auto simp: history_def decode_row_of_event)

lemma checkpoint_sound_grow:
  assumes "checkpoint_sound env d ck r"
    and "history env d' (r_run_id r) = history env d (r_run_id r) @ es"
    and "sorted_wrt (<) (map e_seq (history env d' (r_run_id r)))"
  shows "checkpoint_sound env d' ck r"
proof -
  have "filter (\<lambda>e. e_seq e \<le> k_through_seq ck) es = []"
    if "k_through_seq ck \<in> e_seq ` set (history env d (r_run_id r))"
    using that assms(2,3) by (force simp: sorted_wrt_append filter_empty_conv)
  then show ?thesis
    using assms(1,2) by (auto simp: checkpoint_sound_def)
qed

lemma appended_run_sessions:
  assumes "appended env eid now q d e d'" "run_sessions_ok d"
    and "\<And>rid. q_run_id q = Some rid \<Longrightarrow> \<exists>r. get_run d rid = Some r \<and> q_session_id q = r_session_id r"
  shows "run_sessions_ok d'"
  using assms appended_tables [OF assms(1)] appended_fields [OF assms(1)]
  by (fastforce simp: run_sessions_ok_def dest: get_run_in)

lemma appended_lagging:
  assumes L: "lagging env d rid po" and A: "appended env eid now q d e d'" and U: "is_uuid eid"
    and q: "q_run_id q = Some rid" "get_run d rid = Some r" "q_session_id q = r_session_id r"
    and step: "reduce_step (reduce_start po) e = Inr (reduce_start po')"
  shows "lagging env d' rid po'"
proof -
  note T = appended_tables [OF A] and H = history_appended [OF A U]
  have base: "ledger_sound env d'" "distinct (map r_run_id (runs d'))" "run_sessions_ok d'"
    using L T q appended_ledger_sound [OF A U] appended_run_sessions [OF A]
    by (simp_all add: lagging_def)
  have sorted: "sorted_wrt (<) (map e_seq (history env d' k))" for k
    using base by (intro history_sorted) (simp_all add: ledger_sound_def)
  have "checkpoints_ok env d'"
    using L T by (auto simp: lagging_def checkpoints_ok_def intro: checkpoint_sound_grow [OF _ H sorted])
  moreover have "replays env d' (r_run_id x) (if r_run_id x = rid then po' else Some (proj_of_row x))"
    if "x \<in> set (runs d')" for x
    using that L T H q step by (auto simp: lagging_def replays_def foldE_append)
  ultimately show ?thesis using base by (simp add: lagging_def)
qed

lemma lagging_cursor:
  assumes "lagging env d rid (Some p)" "appended env eid now q d e d'" "is_uuid eid"
    and "q_run_id q = Some rid" "get_run d rid = Some r" "q_session_id q = r_session_id r"
  shows "p_last_event_seq p < e_seq e"
proof -
  note T = appended_tables [OF assms(2)] and H = history_appended [OF assms(2,3), of rid]
  have "ledger_ok env d'" "run_sessions_ok d'" "distinct (map r_run_id (runs d'))"
    using assms T appended_ledger_sound [OF assms(2,3)] appended_run_sessions [OF assms(2)]
    by (simp_all add: lagging_def ledger_sound_def)
  then have sorted: "sorted_wrt (<) (map e_seq (history env d' rid))"
    and pos: "\<forall>x \<in> set (history env d' rid). 0 < e_seq x"
    by (auto intro: history_sorted history_positive)
  have "foldE reduce_step (reduce_start None) (history env d rid) = Inr (reduce_start (Some p))"
    using assms(1) get_run_in [OF assms(5)] by (auto simp: lagging_def replays_def)
  moreover have "snd (reduce_start None) < e_seq e"
    using pos H assms(4) by (simp add: reduce_start_def)
  moreover have "\<forall>x \<in> set (history env d rid). e_seq x < e_seq e"
    using sorted H assms(4) by (simp add: sorted_wrt_append)
  ultimately have "snd (reduce_start (Some p)) < e_seq e"
    by (rule run_reducer.fold_cursor_less)
  then show ?thesis by (simp add: reduce_start_def)
qed

lemma get_run_appended: "appended env eid now q d e d' \<Longrightarrow> get_run d' k = get_run d k"
  using appended_tables [of env eid now q d e d'] by (simp add: get_run_def)

lemma wp_append_run:
  assumes "lagging env d rid (Some p)" "get_run d rid = Some r" "is_uuid eid"
    and "q_run_id q = Some rid" "q_session_id q = r_session_id r" "p_run_id p = rid"
    and "\<not> creates_run (q_payload q)" "\<And>sq. apply_payload p sq (q_payload q) = Inr (f sq)"
    and "\<And>e d'. appended env eid now q d e d' \<Longrightarrow> lagging env d' rid (Some (f (e_seq e))) \<Longrightarrow>
           get_run d' rid = Some r \<Longrightarrow> runs d' = runs d \<Longrightarrow> p_last_event_seq p < e_seq e \<Longrightarrow> Q e d'"
  shows "wp (append_event_in_transaction env eid now q) Q d"
proof (rule wp_append)
  fix e d' assume A: "appended env eid now q d e d'"
  note F = appended_fields [OF A]
  have "reduce_step (reduce_start (Some p)) e = Inr (reduce_start (Some (f (e_seq e))))"
    using assms F lagging_cursor [OF assms(1) A] apply_payload_frame [OF assms(8)]
    by (simp add: reduce_step_continue) (simp add: reduce_start_def)
  then have "lagging env d' rid (Some (f (e_seq e)))"
    using assms by (intro appended_lagging [OF assms(1) A])
  then show "Q e d'"
    using A assms(2-5) lagging_cursor [OF assms(1) A] appended_tables [OF A]
    by (intro assms(9)) (simp_all add: get_run_appended [OF A])
qed

lemma checkpoint_row_identity:
  "run_identity x y \<Longrightarrow>
     projection_from_checkpoint_row env ck y = projection_from_checkpoint_row env ck x"
  unfolding run_identity_def projection_from_checkpoint_row_def by (elim conjE) (simp only:)

lemma lagging_update_run:
  assumes "lagging env d rid po" and "\<And>r. run_identity r (f r)"
  shows "lagging env (update_run rid f d) rid po"
proof -
  let ?d = "update_run rid f d"
  have same: "events ?d = events d" "sessions ?d = sessions d" "blobs ?d = blobs d"
      "model_calls ?d = model_calls d" "checkpoints ?d = checkpoints d"
      "history env ?d = history env d"
    by (simp_all add: update_run_def history_def fun_eq_iff)
  have ids: "map r_run_id (runs ?d) = map r_run_id (runs d)"
    using assms(2) by (simp add: update_run_def map_row_upd run_identity_def)
  have mem: "\<exists>x \<in> set (runs d). run_identity x y \<and> (r_run_id x \<noteq> rid \<longrightarrow> y = x)"
    if "y \<in> set (runs ?d)" for y
    using in_row_upd [of y r_run_id rid f "runs d"] that assms(2)
    by (auto simp: update_run_def run_identity_def)
  have conv: "\<exists>y \<in> set (runs ?d). run_identity x y" if "x \<in> set (runs d)" for x
  proof
    show "(if r_run_id x = rid then f x else x) \<in> set (runs ?d)"
      using that by (simp add: update_run_def row_upd_def)
    show "run_identity x (if r_run_id x = rid then f x else x)"
      using assms(2) by (simp add: run_identity_def)
  qed
  have "ledger_sound env ?d = ledger_sound env d" by (intro ledger_sound_cong same ids)
  moreover have "run_sessions_ok ?d"
    using assms(1) conv same(1) unfolding lagging_def run_sessions_ok_def run_identity_def by metis
  moreover have "checkpoints_ok env ?d"
  proof -
    have "checkpoint_sound env ?d ck y" if "checkpoint_sound env d ck x" "run_identity x y" for ck x y
      using that same(6) by (simp add: checkpoint_sound_def checkpoint_row_identity [OF that(2)])
        (simp add: run_identity_def)
    moreover have "r_run_id ` set (runs ?d) = r_run_id ` set (runs d)"
      using ids by (metis image_set)
    ultimately show ?thesis
      using assms(1) mem unfolding lagging_def checkpoints_ok_def same run_identity_def by metis
  qed
  moreover have "replays env ?d (r_run_id y) (if r_run_id y = rid then po else Some (proj_of_row y))"
    if "y \<in> set (runs ?d)" for y
    using mem [OF that] assms(1) same(6)
    by (auto simp: lagging_def replays_def run_identity_def split: if_splits)
  ultimately show ?thesis using assms(1) ids by (simp add: lagging_def)
qed

lemma get_update_run:
  "(\<And>r. run_identity r (f r)) \<Longrightarrow> get_run d rid = Some r \<Longrightarrow> get_run (update_run rid f d) rid = Some (f r)"
  by (rule run_store.lookup_update_same) (simp_all add: run_identity_def)

text \<open>Closing a transaction: the columns catch up with the events.\<close>

lemma store_ok_catch_up:
  assumes "lagging env d rid (Some p)" "get_run d rid = Some r"
    and "\<And>x. run_identity x (f x)" "proj_of_row (f r) = p"
  shows "store_ok env (update_run rid f d)"
  using lagging_update_run [OF assms(1,3)] get_update_run [OF assms(3,2)] assms(4)
  by (auto intro: lagging_store)

section \<open>New sessions and runs\<close>

lemma insert_session_ok:
  assumes "insert_session s d = Inr (u, d')" "s_next_seq s = 1"
  shows "(ledger_sound env d \<longrightarrow> ledger_sound env d') \<and> (store_ok env d \<longrightarrow> store_ok env d')"
proof -
  from assms(1) have new: "s_session_id s \<notin> s_session_id ` set (sessions d)"
    and d': "d' = d\<lparr>sessions := sessions d @ [s]\<rparr>"
    by (auto simp: insert_session_def exists_iff split: if_splits)
  have "session_seqs d (s_session_id s) = []" if "ledger_ok env d"
    using that new by (auto simp: ledger_ok_def session_seqs_def filter_empty_conv)
      (metis image_eqI)
  then have "ledger_ok env d \<Longrightarrow> ledger_ok env d'"
    using new assms(2) unfolding d' ledger_ok_def by (auto simp: session_seqs_def)
  moreover have "checkpoints_ok env d' = checkpoints_ok env d"
    by (rule checkpoints_ok_cong) (simp_all add: d')
  ultimately show ?thesis
    by (simp add: ledger_sound_def store_ok_def runs_ok_def run_sessions_ok_def
        model_calls_ok_cong [of d' d] blobs_ok_cong [of d' d] history_cong [of d' d])
      (auto simp: d' model_calls_ok_def blobs_ok_def total_blob_bytes_def history_def)
qed

lemma pres_insert_session [pres_rules]:
  "s_next_seq s = 1 \<Longrightarrow> pres (sound_from env d0) (insert_session s)"
  unfolding pres_def sound_from_def
proof (intro allI impI wpI)
  fix d u d' assume *: "s_next_seq s = 1" "ledger_sound env d \<and> evolves d0 d"
    "insert_session s d = Inr (u, d')"
  have "evolves d d'" using *(3) by (auto simp: insert_session_def evolves_def split: if_splits)
  with * insert_session_ok [of s d u d' env] show "ledger_sound env d' \<and> evolves d0 d'"
    by (auto intro: evolves_trans)
qed

lemma appended_no_run:
  assumes "appended env eid now q d e d'" "is_uuid eid" "q_run_id q = None" "lagging env d rid po"
  shows "lagging env d' rid po"
proof -
  note T = appended_tables [OF assms(1)] and H = history_appended [OF assms(1,2)]
  have same: "history env d' = history env d" using H assms(3) by (simp add: fun_eq_iff)
  have "checkpoints_ok env d' = checkpoints_ok env d"
    using T by (simp add: checkpoints_ok_def checkpoint_sound_def same)
  then show ?thesis
    using assms T appended_ledger_sound [OF assms(1,2)] appended_run_sessions [OF assms(1)]
    by (simp add: lagging_def replays_def same)
qed

text \<open>A new run has no events yet.\<close>

lemma insert_run_lagging:
  assumes "insert_run r d = Inr (u, d')" "store_ok env d"
  shows "lagging env d' (r_run_id r) None \<and> get_run d' (r_run_id r) = Some r"
proof -
  from assms(1) have new: "r_run_id r \<notin> r_run_id ` set (runs d)" and d': "d' = d\<lparr>runs := runs d @ [r]\<rparr>"
    by (auto simp: insert_run_def exists_iff split: if_splits)
  have H: "history env d' = history env d" by (simp add: d' history_def fun_eq_iff)
  have empty: "history env d (r_run_id r) = []"
    using assms(2) new unfolding store_ok_def runs_ok_def run_sessions_ok_def history_def
    by (auto simp: filter_empty_conv) (metis image_eqI)
  have "ledger_sound env d'"
    using assms(2) new model_calls_ok_cong [of d' d] blobs_ok_cong [of d' d env] ledger_ok_cong [of d' d env]
    by (simp add: store_ok_def ledger_sound_def d')
  moreover have "run_sessions_ok d'"
    using assms(2) by (auto simp: store_ok_def runs_ok_def run_sessions_ok_def d')
  moreover have "checkpoints_ok env d'"
    using assms(2) new unfolding store_ok_def checkpoints_ok_def checkpoint_sound_def H
    by (auto simp: d')
  moreover have "replays env d' (r_run_id x) (if r_run_id x = r_run_id r then None else Some (proj_of_row x))"
    if "x \<in> set (runs d')" for x
    using that assms(2) new empty
    by (auto simp: d' replays_def history_def store_ok_def runs_ok_def reduce_run_events_Inr)
  moreover have "get_run d' (r_run_id r) = Some r"
    using new row_get_None [of r_run_id "r_run_id r" "runs d"] by (simp add: d' get_run_def tbl_simps)
  ultimately show ?thesis
    using assms(2) new by (simp add: lagging_def store_ok_def runs_ok_def d')
qed

text \<open>
  An event prepared before other inserts of the same transaction and inserted after them,
  as the user message of a new turn is.
\<close>

lemma inserted_appended:
  assumes "prepare_event eid now q d0 = Inr e" "insert_event env e d = Inr (u, d')"
    and "get_session d (q_session_id q) = get_session d0 (q_session_id q)"
  shows "appended env eid now q d e d'"
proof -
  note P = prepare_event_Inr [OF assms(1)] and I = insert_event_Inr [OF assms(2)]
  then have "model_calls d' = model_calls d" by simp
  then have mc: "model_calls_ok d' = model_calls_ok d" by (rule model_calls_ok_cong)
  from P obtain s cause where e: "e = \<lparr>e_event_id = eid, e_schema_version = 1,
      e_session_id = q_session_id q, e_turn_id = q_turn_id q, e_run_id = q_run_id q,
      e_seq = s_next_seq s, e_occurred_at = now, e_process_instance_id = q_process_instance_id q,
      e_boot_id = None, e_causation_event_id = cause, e_correlation_id = q_correlation_id q,
      e_payload = q_payload q\<rparr>"
      and s: "get_session d0 (q_session_id q) = Some s"
        "parse_opt_uuid (q_causation_event_id q) = Inr cause"
    by blast
  have ids: "e_event_id e = eid" "e_run_id e = q_run_id q" "e_turn_id e = q_turn_id q"
    by (simp_all add: e)
  have d': "d' = d\<lparr>sessions := map (\<lambda>s. if s_session_id s = e_session_id e \<and> s_next_seq s = e_seq e
                 then advance_session e s else s) (sessions d),
               events := events d @ [row_of_event env e], model_calls := model_calls d\<rparr>"
    using I by simp
  show ?thesis
    unfolding appended_def
    using P I s assms(3) d' e mc ids
    by (intro conjI exI [of _ s] exI [of _ cause] exI [of _ "model_calls d"]) (simp_all only:, simp_all)
qed

end
