(* ===== verification/Leases.thy ===== *)
theory Leases
  imports Integrity
begin

text \<open>
  Run leases and fencing of \<^verbatim>\<open>persistence/store.py\<close>: acquisition, renewal and release,
  the check every fenced command makes of the caller's \<^typ>\<open>execution_context\<close>, the
  idempotency table of control commands, and the public \<^verbatim>\<open>append_event\<close>. A lease time to
  live is a whole number of seconds; instants are microseconds.
\<close>

section \<open>Leases\<close>

record run_lease =
  l_run_id :: string
  l_owner :: string
  l_epoch :: int
  l_expires_at :: instant

definition lease_expiry :: "instant \<Rightarrow> int \<Rightarrow> instant" where
  "lease_expiry now ttl_seconds = now + ttl_seconds * 1000000"

text \<open>\<^verbatim>\<open>row["lease_owner"]\<close> is truthy, and the expiry is present and after \<open>now\<close>.\<close>

definition has_owner :: "run_row \<Rightarrow> bool" where
  "has_owner r = (case r_lease_owner r of None \<Rightarrow> False | Some w \<Rightarrow> w \<noteq> [])"

definition expires_after :: "run_row \<Rightarrow> instant \<Rightarrow> bool" where
  "expires_after r now = (case r_lease_expires_at r of None \<Rightarrow> False | Some x \<Rightarrow> now < x)"

definition set_lease :: "string \<Rightarrow> int \<Rightarrow> instant \<Rightarrow> run_row \<Rightarrow> run_row" where
  "set_lease owner epoch expires r =
     r\<lparr>r_lease_owner := Some owner, r_lease_epoch := epoch, r_lease_expires_at := Some expires\<rparr>"

definition acquire_run_lease_body ::
  "string \<Rightarrow> string \<Rightarrow> int \<Rightarrow> instant \<Rightarrow> (db, run_lease) txn" where
  "acquire_run_lease_body run_id owner ttl_seconds now =
    (if blank owner \<or> \<not> (1 \<le> ttl_seconds \<and> ttl_seconds \<le> 3600) then throwT ValueError
     else
       bindT (readT (require_run_row run_id)) (\<lambda>row.
       if has_owner row \<and> r_lease_owner row \<noteq> Some owner \<and> expires_after row now
       then throwT LeaseConflictError
       else
         bindT (returnT (if r_lease_owner row \<noteq> Some owner then r_lease_epoch row + 1
                         else r_lease_epoch row)) (\<lambda>epoch.
         bindT (modifyT (update_run run_id
                  (set_lease owner epoch (lease_expiry now ttl_seconds)))) (\<lambda>_.
         returnT \<lparr>l_run_id = run_id, l_owner = owner, l_epoch = epoch,
                  l_expires_at = lease_expiry now ttl_seconds\<rparr>))))"

text \<open>An \<^verbatim>\<open>UPDATE runs SET ... WHERE ...\<close> whose row count is checked.\<close>

definition update_runs_where :: "(run_row \<Rightarrow> bool) \<Rightarrow> (run_row \<Rightarrow> run_row) \<Rightarrow> (db, nat) txn" where
  "update_runs_where P f = (\<lambda>d.
     Inr (length (filter P (runs d)), d\<lparr>runs := map (\<lambda>r. if P r then f r else r) (runs d)\<rparr>))"

definition renew_run_lease_body ::
  "execution_context \<Rightarrow> int \<Rightarrow> instant \<Rightarrow> (db, run_lease) txn" where
  "renew_run_lease_body ctx ttl_seconds now =
    (if \<not> (1 \<le> ttl_seconds \<and> ttl_seconds \<le> 3600) then throwT ValueError
     else
       bindT (update_runs_where
         (\<lambda>r. r_run_id r = ctx_run_id ctx \<and> r_lease_owner r = Some (ctx_worker_id ctx)
            \<and> r_lease_epoch r = ctx_lease_epoch ctx \<and> expires_after r now)
         (\<lambda>r. r\<lparr>r_lease_expires_at := Some (lease_expiry now ttl_seconds)\<rparr>)) (\<lambda>rowcount.
       if rowcount \<noteq> 1 then throwT LeaseConflictError
       else returnT \<lparr>l_run_id = ctx_run_id ctx, l_owner = ctx_worker_id ctx,
              l_epoch = ctx_lease_epoch ctx, l_expires_at = lease_expiry now ttl_seconds\<rparr>))"

definition release_run_lease_body :: "run_lease \<Rightarrow> (db, unit) txn" where
  "release_run_lease_body lease =
     bindT (update_runs_where
       (\<lambda>r. r_run_id r = l_run_id lease \<and> r_lease_owner r = Some (l_owner lease)
          \<and> r_lease_epoch r = l_epoch lease)
       (\<lambda>r. r\<lparr>r_lease_owner := None, r_lease_expires_at := None\<rparr>)) (\<lambda>rowcount.
     if rowcount \<noteq> 1 then throwT LeaseConflictError else returnT ())"

definition acquire_run_lease ::
  "string \<Rightarrow> string \<Rightarrow> int \<Rightarrow> instant \<Rightarrow> db \<Rightarrow> run_lease result \<times> db" where
  "acquire_run_lease run_id owner ttl_seconds now =
     transact (acquire_run_lease_body run_id owner ttl_seconds now)"

definition renew_run_lease ::
  "execution_context \<Rightarrow> int \<Rightarrow> instant \<Rightarrow> db \<Rightarrow> run_lease result \<times> db" where
  "renew_run_lease ctx ttl_seconds now = transact (renew_run_lease_body ctx ttl_seconds now)"

definition release_run_lease :: "run_lease \<Rightarrow> db \<Rightarrow> unit result \<times> db" where
  "release_run_lease lease = transact (release_run_lease_body lease)"

text \<open>The caller's token is out of date: another owner or epoch, or an expired lease.\<close>

definition lease_stale :: "instant \<Rightarrow> execution_context \<Rightarrow> run_row \<Rightarrow> bool" where
  "lease_stale now ctx row \<longleftrightarrow>
     r_lease_owner row \<noteq> Some (ctx_worker_id ctx) \<or> r_lease_epoch row \<noteq> ctx_lease_epoch ctx
     \<or> \<not> expires_after row now"

definition synchronize_execution_context ::
  "instant \<Rightarrow> execution_context \<Rightarrow> db \<Rightarrow> (int \<times> execution_context) result" where
  "synchronize_execution_context now ctx d =
     bindE (require_run_row (ctx_run_id ctx) d) (\<lambda>row.
     if lease_stale now ctx row then Inl LeaseConflictError
     else bindE (observe ctx (r_last_event_seq row)) (\<lambda>ctx'. Inr (r_last_event_seq row, ctx')))"

definition require_execution_context ::
  "instant \<Rightarrow> string \<Rightarrow> execution_context option \<Rightarrow> db \<Rightarrow> run_row result" where
  "require_execution_context now run_id execution_context d =
     bindE (require_run_row run_id d) (\<lambda>row.
     case execution_context of
       None \<Rightarrow> if has_owner row \<and> expires_after row now then Inl LeaseConflictError else Inr row
     | Some ctx \<Rightarrow>
         if ctx_run_id ctx \<noteq> run_id then Inl LeaseConflictError
         else if lease_stale now ctx row then Inl LeaseConflictError
         else if r_last_event_seq row \<noteq> ctx_stream_version ctx then Inl RunStateConflictError
         else Inr row)"

section \<open>Control commands\<close>

definition begin_control_command ::
  "env \<Rightarrow> string \<Rightarrow> string \<Rightarrow> json \<Rightarrow> control_context \<Rightarrow> db
     \<Rightarrow> (bool \<times> event_envelope option) result" where
  "begin_control_command env run_id command_type semantic_payload cc d =
     (case get_command_row d (cc_command_id cc) of
        Some existing \<Rightarrow>
          if m_run_id existing \<noteq> run_id \<or> m_command_type existing \<noteq> command_type
             \<or> m_actor existing \<noteq> cc_actor cc
             \<or> m_payload_sha256 existing \<noteq> sha256_json env semantic_payload
          then Inl RunStateConflictError
          else (case m_committed_event_id existing of
              None \<Rightarrow> Inr (True, None)
            | Some eid \<Rightarrow>
                (case get_event d eid of
                   None \<Rightarrow> Inl LedgerIntegrityError
                 | Some v \<Rightarrow> bindE (event_from_row env v) (\<lambda>e. Inr (True, Some e))))
      | None \<Rightarrow>
          bindE (require_run_row run_id d) (\<lambda>row.
          if r_last_event_seq row \<noteq> cc_expected_stream_version cc then Inl RunStateConflictError
          else Inr (False, None)))"

definition record_control_command ::
  "env \<Rightarrow> instant \<Rightarrow> string \<Rightarrow> string \<Rightarrow> json \<Rightarrow> control_context \<Rightarrow> event_envelope option
     \<Rightarrow> (db, unit) txn" where
  "record_control_command env now run_id command_type semantic_payload cc event =
     insert_control_command \<lparr>m_command_id = cc_command_id cc, m_run_id = run_id,
       m_command_type = command_type, m_actor = cc_actor cc,
       m_expected_stream_version = cc_expected_stream_version cc,
       m_payload_sha256 = sha256_json env semantic_payload,
       m_committed_event_id = map_option e_event_id event, m_created_at = now\<rparr>"

text \<open>\<^verbatim>\<open>if control_context is not None: self._record_control_command(...)\<close>\<close>

definition record_if_control ::
  "env \<Rightarrow> instant \<Rightarrow> string \<Rightarrow> string \<Rightarrow> json \<Rightarrow> control_context option \<Rightarrow> event_envelope option
     \<Rightarrow> (db, unit) txn" where
  "record_if_control env now run_id command_type payload cc event =
     (case cc of None \<Rightarrow> returnT ()
      | Some c \<Rightarrow> record_control_command env now run_id command_type payload c event)"

text \<open>\<^verbatim>\<open>if control_context is not None: self._begin_control_command(...)\<close>\<close>

definition begin_if_control ::
  "env \<Rightarrow> string \<Rightarrow> string \<Rightarrow> json \<Rightarrow> control_context option \<Rightarrow> db
     \<Rightarrow> (bool \<times> event_envelope option) result" where
  "begin_if_control env run_id command_type payload cc d =
     (case cc of None \<Rightarrow> Inr (False, None)
      | Some c \<Rightarrow> begin_control_command env run_id command_type payload c d)"

section \<open>Appending from outside\<close>

text \<open>\<^verbatim>\<open>UPDATE runs SET last_event_seq = ? WHERE run_id = ?\<close>\<close>

definition touch_run :: "string \<Rightarrow> int \<Rightarrow> (db, unit) txn" where
  "touch_run run_id sq = modifyT (update_run run_id (\<lambda>r. r\<lparr>r_last_event_seq := sq\<rparr>))"

text \<open>The request most commands make: an event of a run, in the run's session and turn.\<close>

definition run_event ::
  "run_row \<Rightarrow> string \<Rightarrow> string option \<Rightarrow> payload \<Rightarrow> event_request" where
  "run_event row process_instance_id causation payload =
     \<lparr>q_session_id = r_session_id row, q_process_instance_id = process_instance_id,
      q_payload = payload, q_turn_id = Some (r_turn_id row), q_run_id = Some (r_run_id row),
      q_causation_event_id = causation, q_correlation_id = Some (r_run_id row)\<rparr>"

fun domain_command_payload :: "payload \<Rightarrow> bool" where
  "domain_command_payload (ToolCallProposedPayload a b c d e) = True"
| "domain_command_payload (RunCompletedPayload a) = True"
| "domain_command_payload _ = False"

definition append_event_body ::
  "env \<Rightarrow> instant \<Rightarrow> string \<Rightarrow> event_request \<Rightarrow> execution_context option
     \<Rightarrow> (db, event_envelope \<times> int option) txn" where
  "append_event_body env now event_id q execution_context =
     (if domain_command_payload (q_payload q) then throwT TypeError
      else case q_run_id q of
        None \<Rightarrow>
          bindT (append_event_in_transaction env event_id now q) (\<lambda>event. returnT (event, None))
      | Some run_id \<Rightarrow>
          bindT (readT (require_execution_context now run_id execution_context)) (\<lambda>_.
          bindT (append_event_in_transaction env event_id now q) (\<lambda>event.
          bindT (touch_run run_id (e_seq event)) (\<lambda>_.
          returnT (event, Some (e_seq event))))))"

definition append_event ::
  "env \<Rightarrow> instant \<Rightarrow> string \<Rightarrow> event_request \<Rightarrow> execution_context option \<Rightarrow> db
     \<Rightarrow> (event_envelope \<times> execution_context option) result \<times> db" where
  "append_event env now event_id q execution_context =
     run_command execution_context (append_event_body env now event_id q execution_context)"

section \<open>Fencing\<close>

lemma require_run_row_Inr: "require_run_row k d = Inr r \<longleftrightarrow> get_run d k = Some r"
  by (simp add: require_run_row_def split: option.splits)

lemma require_execution_context_Inr:
  "require_execution_context now run_id ctx d = Inr row \<Longrightarrow> get_run d run_id = Some row"
  by (auto simp: require_execution_context_def bindE_eq_Inr require_run_row_Inr
      split: option.splits if_splits)

lemma require_stale:
  "get_run d run_id = Some row \<Longrightarrow> lease_stale now ctx row \<Longrightarrow>
     require_execution_context now run_id (Some ctx) d = Inl LeaseConflictError"
  by (simp add: require_execution_context_def require_run_row_def)

lemma require_stale_version:
  "get_run d run_id = Some row \<Longrightarrow> ctx_run_id ctx = run_id \<Longrightarrow> \<not> lease_stale now ctx row \<Longrightarrow>
     r_last_event_seq row \<noteq> ctx_stream_version ctx \<Longrightarrow>
     require_execution_context now run_id (Some ctx) d = Inl RunStateConflictError"
  by (simp add: require_execution_context_def require_run_row_def)

lemma require_unleased:
  "get_run d run_id = Some row \<Longrightarrow> has_owner row \<Longrightarrow> expires_after row now \<Longrightarrow>
     require_execution_context now run_id None d = Inl LeaseConflictError"
  by (simp add: require_execution_context_def require_run_row_def)

text \<open>
  The contract of a fenced command: when the check of the caller's context fails for the
  run the command would change, nothing changes.
\<close>

locale fenced_command =
  fixes body :: "execution_context option \<Rightarrow> (db, 'a) txn"
    and target :: "db \<Rightarrow> string option"
    and clock :: instant
  assumes fence: "target d = Some rid \<Longrightarrow> require_execution_context clock rid ctx d = Inl err \<Longrightarrow>
      wp (body ctx) (\<lambda>_ d'. d' = d) d"
begin

lemma refused:
  "target d = Some rid \<Longrightarrow> require_execution_context clock rid ctx d = Inl err \<Longrightarrow>
     snd (transact (body ctx) d) = d"
  using fence [of d rid ctx err] by (auto simp: wp_def transact_def split: sum.splits)

lemma stale_token:
  "target d = Some rid \<Longrightarrow> get_run d rid = Some row \<Longrightarrow> lease_stale clock ctx row \<Longrightarrow>
     snd (transact (body (Some ctx)) d) = d"
  by (rule refused) (auto intro: require_stale)

lemma missing_token:
  "target d = Some rid \<Longrightarrow> get_run d rid = Some row \<Longrightarrow> has_owner row \<Longrightarrow> expires_after row clock \<Longrightarrow>
     snd (transact (body None) d) = d"
  by (rule refused) (auto intro: require_unleased)

text \<open>Once an epoch has been superseded its holder can never change the run again.\<close>

lemma superseded_token:
  assumes "get_run d0 rid = Some row0" "ctx_lease_epoch ctx < r_lease_epoch row0"
    and "evolves d0 d" "target d = Some rid"
  shows "snd (transact (body (Some ctx)) d) = d"
proof -
  from evolves_run [OF assms(3,1)] obtain row where
    row: "get_run d rid = Some row" "run_le row0 row" by blast
  with assms(2) have "lease_stale clock ctx row" by (auto simp: lease_stale_def run_le_def)
  with assms(4) row(1) show ?thesis by (intro stale_token)
qed

end

lemma fence_readT:
  "require_execution_context now rid ctx d = Inl err \<Longrightarrow>
     wp (bindT (readT (require_execution_context now rid ctx)) f) Q d"
  by (simp add: wp_simps)

interpretation append_fence: fenced_command "append_event_body env now eid q" "\<lambda>_. q_run_id q" now
  for env now eid q
  by unfold_locales (simp add: append_event_body_def wp_simps)

section \<open>What lease commands keep\<close>

lemma sound_update_run:
  assumes "sound_from env d0 d" "get_run d k = Some r" "run_le r (f r)" "keeps r_run_id f"
  shows "sound_from env d0 (update_run k f d)"
proof -
  let ?d = "update_run k f d"
  have ids: "map r_run_id (runs ?d) = map r_run_id (runs d)"
    using assms(4) by (simp add: update_run_def map_row_upd)
  have "runs_le (runs d) (runs ?d)"
    using assms(1-3) get_run_unique [of d k r]
    by (auto simp: update_run_def sound_from_def ledger_sound_def intro!: runs_le_upd)
  then have "evolves d ?d" by (simp add: evolves_def update_run_def)
  moreover have "ledger_sound env ?d = ledger_sound env d"
    using ids by (intro ledger_sound_cong) (simp_all add: update_run_def)
  ultimately show ?thesis using assms(1) by (auto simp: sound_from_def intro: evolves_trans)
qed

lemma store_ok_update_run:
  assumes "store_ok env d" "get_run d k = Some r" "\<And>x. run_identity x (f x)"
    "proj_of_row (f r) = proj_of_row r"
  shows "store_ok env (update_run k f d)"
  using store_ok_catch_up [OF store_lagging [OF assms(1,2)] assms(2,3)] assms(4) by simp

lemma set_lease_identity:
  "run_identity r (set_lease o' ep ex r)" "proj_of_row (set_lease o' ep ex r) = proj_of_row r"
  "r_lease_epoch r \<le> ep \<Longrightarrow> run_le r (set_lease o' ep ex r)"
  by (simp_all add: set_lease_def run_identity_def proj_of_row_def run_le_def)

lemma wp_acquire:
  assumes "\<And>row ep. get_run d k = Some row \<Longrightarrow>
      \<not> (has_owner row \<and> r_lease_owner row \<noteq> Some owner \<and> expires_after row now) \<Longrightarrow>
      ep = (if r_lease_owner row \<noteq> Some owner then r_lease_epoch row + 1 else r_lease_epoch row) \<Longrightarrow>
      Q \<lparr>l_run_id = k, l_owner = owner, l_epoch = ep, l_expires_at = lease_expiry now ttl\<rparr>
        (update_run k (set_lease owner ep (lease_expiry now ttl)) d)"
  shows "wp (acquire_run_lease_body k owner ttl now) Q d"
  unfolding acquire_run_lease_body_def wp_simps require_run_row_Inr
  by (intro conjI allI impI TrueI, erule assms, assumption, rule refl)

text \<open>
  On a table with unique run identifiers an update that names the run touches the row
  \<^const>\<open>get_run\<close> finds, or none.
\<close>

lemma wp_update_runs_where:
  assumes "distinct (map r_run_id (runs d))" "\<And>r. P r \<Longrightarrow> r_run_id r = k"
    and "Q 0 d" "\<And>r. get_run d k = Some r \<Longrightarrow> P r \<Longrightarrow> Q 1 (update_run k f d)"
  shows "wp (update_runs_where P f) Q d"
proof (cases "\<exists>r \<in> set (runs d). P r")
  case True
  then obtain r xs ys where r: "P r" "runs d = xs @ r # ys" by (meson split_list)
  have k: "r_run_id r = k" using r(1) by (rule assms(2))
  with assms(1) r(2) have "k \<notin> r_run_id ` set xs" "k \<notin> r_run_id ` set ys" by auto
  then have other: "\<forall>x \<in> set xs \<union> set ys. r_run_id x \<noteq> k" by auto
  with assms(2) have no: "\<forall>x \<in> set xs \<union> set ys. \<not> P x" by blast
  have get: "get_run d k = Some r"
    unfolding get_run_def using row_get_member [OF assms(1), of r] r(2) k by simp
  have "map (\<lambda>r. if P r then f r else r) (runs d) = row_upd r_run_id k f (runs d)"
    using r k other no by (simp add: row_upd_def)
  moreover have "length (filter P (runs d)) = 1"
    using r no by (simp add: filter_empty_conv)
  ultimately show ?thesis
    using assms(4) [OF get r(1)] by (simp add: wp_def update_runs_where_def update_run_def)
next
  case False
  then have "filter P (runs d) = []" "map (\<lambda>r. if P r then f r else r) (runs d) = runs d"
    by (auto simp: filter_empty_conv intro: map_idI)
  with assms(3) show ?thesis by (simp add: wp_def update_runs_where_def)
qed

lemma wp_renew:
  assumes "distinct (map r_run_id (runs d))"
    and "\<And>row. get_run d (ctx_run_id ctx) = Some row \<Longrightarrow> \<not> lease_stale now ctx row \<Longrightarrow>
      Q \<lparr>l_run_id = ctx_run_id ctx, l_owner = ctx_worker_id ctx,
         l_epoch = ctx_lease_epoch ctx, l_expires_at = lease_expiry now ttl\<rparr>
        (update_run (ctx_run_id ctx) (\<lambda>r. r\<lparr>r_lease_expires_at := Some (lease_expiry now ttl)\<rparr>) d)"
  shows "wp (renew_run_lease_body ctx ttl now) Q d"
  unfolding renew_run_lease_body_def wp_if wp_bind
  by (intro conjI impI wp_update_runs_where [OF assms(1), where k = "ctx_run_id ctx"])
    (auto simp: wp_simps lease_stale_def intro: assms(2))

lemma wp_release:
  assumes "distinct (map r_run_id (runs d))"
    and "\<And>row. get_run d (l_run_id l) = Some row \<Longrightarrow> r_lease_owner row = Some (l_owner l) \<Longrightarrow>
      r_lease_epoch row = l_epoch l \<Longrightarrow>
      Q () (update_run (l_run_id l) (\<lambda>r. r\<lparr>r_lease_owner := None, r_lease_expires_at := None\<rparr>) d)"
  shows "wp (release_run_lease_body l) Q d"
  unfolding release_run_lease_body_def wp_bind
  by (intro wp_update_runs_where [OF assms(1), where k = "l_run_id l"])
    (auto simp: wp_simps intro: assms(2))

lemma lease_update_identity:
  "run_identity r (r\<lparr>r_lease_expires_at := ex\<rparr>)" "proj_of_row (r\<lparr>r_lease_expires_at := ex\<rparr>) = proj_of_row r"
  "run_le r (r\<lparr>r_lease_expires_at := ex\<rparr>)"
  "run_identity r (r\<lparr>r_lease_owner := ow, r_lease_expires_at := ex\<rparr>)"
  "proj_of_row (r\<lparr>r_lease_owner := ow, r_lease_expires_at := ex\<rparr>) = proj_of_row r"
  "run_le r (r\<lparr>r_lease_owner := ow, r_lease_expires_at := ex\<rparr>)"
  by (simp_all add: run_identity_def proj_of_row_def run_le_def)

lemma pres_leases [pres_rules]:
  "pres (sound_from env d0) (acquire_run_lease_body k owner ttl now)"
  "pres (sound_from env d0) (renew_run_lease_body ctx ttl now)"
  "pres (sound_from env d0) (release_run_lease_body l)"
proof -
  have dist: "distinct (map r_run_id (runs d))" if "sound_from env d0 d" for d
    using that by (simp add: sound_from_def ledger_sound_def)
  show "pres (sound_from env d0) (acquire_run_lease_body k owner ttl now)"
    unfolding pres_def
    by (intro allI impI wp_acquire sound_update_run set_lease_identity) (auto simp: set_lease_def)
  show "pres (sound_from env d0) (renew_run_lease_body ctx ttl now)"
    unfolding pres_def
    by (intro allI impI wp_renew sound_update_run lease_update_identity) (auto simp: dist)
  show "pres (sound_from env d0) (release_run_lease_body l)"
    unfolding pres_def
    by (intro allI impI wp_release sound_update_run lease_update_identity) (auto simp: dist)
qed

lemma leases_store_ok:
  assumes "store_ok env d"
  shows "wp (acquire_run_lease_body k owner ttl now) (\<lambda>_. store_ok env) d"
    and "wp (renew_run_lease_body ctx ttl now) (\<lambda>_. store_ok env) d"
    and "wp (release_run_lease_body l) (\<lambda>_. store_ok env) d"
proof -
  have dist: "distinct (map r_run_id (runs d))"
    using assms by (simp add: store_ok_def ledger_sound_def)
  show "wp (acquire_run_lease_body k owner ttl now) (\<lambda>_. store_ok env) d"
    using assms by (intro wp_acquire store_ok_update_run set_lease_identity)
  show "wp (renew_run_lease_body ctx ttl now) (\<lambda>_. store_ok env) d"
    using assms dist by (intro wp_renew store_ok_update_run lease_update_identity)
  show "wp (release_run_lease_body l) (\<lambda>_. store_ok env) d"
    using assms dist by (intro wp_release store_ok_update_run lease_update_identity)
qed

section \<open>Committed commands\<close>

text \<open>
  Payloads that concern other tables: for the run projection they only move the cursor.
\<close>

fun neutral :: "payload \<Rightarrow> bool" where
  "neutral (RunCreatedPayload a b c) = False"
| "neutral (RunPhaseChangedPayload a b c) = False"
| "neutral (RunCompletedPayload a) = False"
| "neutral (RunTerminatedPayload a b) = False"
| "neutral (WorkspaceProvisionedPayload a b c d) = False"
| "neutral (WorkspaceDispositionChangedPayload a b c) = False"
| "neutral _ = True"

lemma neutral_apply:
  "neutral x \<Longrightarrow> \<not> creates_run x \<and> apply_payload p sq x = Inr (p\<lparr>p_last_event_seq := sq\<rparr>)"
  by (cases x) simp_all

text \<open>Only an active run changes its execution status.\<close>

definition status_step :: "db \<Rightarrow> db \<Rightarrow> bool" where
  "status_step d d' \<longleftrightarrow> (\<forall>k r. get_run d k = Some r \<longrightarrow>
     (\<exists>r'. get_run d' k = Some r' \<and>
        (r_execution_status r' = r_execution_status r \<or> r_execution_status r = ES_ACTIVE)))"

text \<open>
  What a fenced command leaves behind: the integrity invariant, no status change of a run
  that was not active, and a stream version for the caller's context that is the stored
  one and not older than what the context had.
\<close>

definition in_sync :: "execution_context option \<Rightarrow> int option \<Rightarrow> db \<Rightarrow> bool" where
  "in_sync ctx v d' \<longleftrightarrow> (\<forall>c sq. ctx = Some c \<longrightarrow> v = Some sq \<longrightarrow>
     ctx_stream_version c \<le> sq \<and>
     (\<exists>row. get_run d' (ctx_run_id c) = Some row \<and> r_last_event_seq row = sq))"

definition committed ::
  "env \<Rightarrow> db \<Rightarrow> execution_context option \<Rightarrow> int option \<Rightarrow> db \<Rightarrow> bool" where
  "committed env d ctx v d' \<longleftrightarrow> store_ok env d' \<and> status_step d d' \<and> in_sync ctx v d'"

abbreviation commits ::
  "env \<Rightarrow> db \<Rightarrow> execution_context option \<Rightarrow> 'a \<times> int option \<Rightarrow> db \<Rightarrow> bool" where
  "commits env d ctx \<equiv> \<lambda>xv. committed env d ctx (snd xv)"

lemma status_step_refl [simp]: "status_step d d"
  by (simp add: status_step_def)

lemma committed_unchanged: "store_ok env d \<Longrightarrow> committed env d ctx None d"
  by (simp add: committed_def in_sync_def)

lemma committed_tables [simp]:
  "committed env d ctx v (d'\<lparr>turns := x1\<rparr>) = committed env d ctx v d'"
  "committed env d ctx v (d'\<lparr>tool_calls := x2\<rparr>) = committed env d ctx v d'"
  "committed env d ctx v (d'\<lparr>tool_attempts := x3\<rparr>) = committed env d ctx v d'"
  "committed env d ctx v (d'\<lparr>approvals := x4\<rparr>) = committed env d ctx v d'"
  "committed env d ctx v (d'\<lparr>control_commands := x6\<rparr>) = committed env d ctx v d'"
  by (simp_all add: committed_def status_step_def in_sync_def)

definition fence_passed :: "execution_context option \<Rightarrow> run_row \<Rightarrow> bool" where
  "fence_passed ctx row \<longleftrightarrow> (\<forall>c. ctx = Some c \<longrightarrow>
     ctx_run_id c = r_run_id row \<and> ctx_stream_version c \<le> r_last_event_seq row)"

lemma require_fence_passed:
  "require_execution_context now run_id ctx d = Inr row \<Longrightarrow>
     fence_passed ctx row \<and> get_run d run_id = Some row \<and> r_run_id row = run_id"
  by (frule require_execution_context_Inr)
    (auto simp: require_execution_context_def bindE_eq_Inr require_run_row_Inr fence_passed_def
      dest: get_run_in split: option.splits if_splits)

lemma fence_passed_None [simp]: "fence_passed None row"
  by (simp add: fence_passed_def)

lemma committed_update:
  assumes "fence_passed ctx row" "lagging env d1 (r_run_id row) (Some p)"
    and "get_run d (r_run_id row) = Some row" "runs d1 = runs d"
    and "\<And>x. run_identity x (f x)" "proj_of_row (f row) = p"
    and "r_last_event_seq row \<le> p_last_event_seq p"
    and "p_execution_status p = r_execution_status row \<or> r_execution_status row = ES_ACTIVE"
  shows "committed env d ctx (Some (p_last_event_seq p)) (update_run (r_run_id row) f d1)"
proof -
  let ?d = "update_run (r_run_id row) f d1"
  have d1: "get_run d1 k = get_run d k" for k using assms(4) by (simp add: get_run_def)
  have get: "get_run ?d k = (if k = r_run_id row then Some (f row) else get_run d k)" for k
    using assms(3,5) d1 by (simp add: run_store.lookup_update run_identity_def)
  have "store_ok env ?d"
    using assms(3,5,6) d1 by (intro store_ok_catch_up [OF assms(2)]) auto
  moreover have f: "r_execution_status (f row) = p_execution_status p" "r_last_event_seq (f row) = p_last_event_seq p"
    using assms(6) by (auto simp: proj_of_row_def)
  then have "status_step d ?d"
    using assms(3,8) by (auto simp: status_step_def get)
  moreover have "in_sync ctx (Some (p_last_event_seq p)) ?d"
    using assms(1,7) f by (auto simp: in_sync_def fence_passed_def get)
  ultimately show ?thesis by (simp add: committed_def)
qed

lemma proj_of_row_touch: "proj_of_row (r\<lparr>r_last_event_seq := sq\<rparr>) = (proj_of_row r)\<lparr>p_last_event_seq := sq\<rparr>"
  by (simp add: proj_of_row_def)

lemma proj_of_row_simps [simp]:
  "p_run_id (proj_of_row r) = r_run_id r" "p_session_id (proj_of_row r) = r_session_id r"
  "p_execution_status (proj_of_row r) = r_execution_status r" "p_phase (proj_of_row r) = r_phase r"
  "p_workspace_disposition (proj_of_row r) = r_workspace_disposition r"
  "p_last_event_seq (proj_of_row r) = r_last_event_seq r"
  by (simp_all add: proj_of_row_def)

lemma run_event_simps [simp]:
  "q_session_id (run_event row pid cause x) = r_session_id row"
  "q_run_id (run_event row pid cause x) = Some (r_run_id row)"
  "q_payload (run_event row pid cause x) = x"
  "q_causation_event_id (run_event row pid cause x) = cause"
  by (simp_all add: run_event_def)

lemma run_le_touch: "run_le r (r\<lparr>r_last_event_seq := sq\<rparr>)"
  by (simp add: run_le_def run_identity_def)

lemma pres_touch [pres_rules]: "pres (sound_from env d0) (touch_run k sq)"
  unfolding touch_run_def by (intro pres_rules run_le_touch)

lemma pres_record_control [pres_rules]:
  "pres (sound_from env d0) (record_control_command env now k ty pl cc ev)"
  "pres (sound_from env d0) (record_if_control env now k ty pl co ev)"
  unfolding record_if_control_def record_control_command_def by (intro pres_rules)+

lemma pres_append_event [pres_rules]:
  "is_uuid eid \<Longrightarrow> pres (sound_from env d0) (append_event_body env now eid q ctx)"
  unfolding append_event_body_def by (intro pres_rules)

lemma appended_no_run_store:
  assumes "appended env eid now q d e d'" "is_uuid eid" "q_run_id q = None" "store_ok env d"
  shows "store_ok env d'"
proof -
  have "history env d' = history env d"
    using history_appended [OF assms(1,2)] assms(3) by (simp add: fun_eq_iff)
  then show ?thesis
    using assms(3,4) appended_ledger_sound [OF assms(1,2)] appended_tables [OF assms(1)]
      appended_run_sessions [OF assms(1)]
    by (simp add: store_ok_def runs_ok_def checkpoints_ok_def checkpoint_sound_def)
qed

section \<open>Rules for command bodies\<close>

text \<open>
  The steps a command is made of, as rules in the order the code has them: the fence, the
  recovered projection, events, the update that closes the transaction. In between,
  \<open>in_progress\<close> records the row \<open>row\<close> read from the initial database \<open>d0\<close> and the
  projection \<open>p\<close> the events of the run amount to by now.
\<close>

definition in_progress ::
  "env \<Rightarrow> db \<Rightarrow> db \<Rightarrow> string \<Rightarrow> run_row \<Rightarrow> run_projection \<Rightarrow> bool" where
  "in_progress env d0 d rid row p \<longleftrightarrow>
     lagging env d rid (Some p) \<and> get_run d0 rid = Some row \<and> r_run_id row = rid \<and>
     runs d = runs d0 \<and> p_run_id p = rid \<and> r_last_event_seq row \<le> p_last_event_seq p"

lemma in_progress_tables [simp]:
  "in_progress env d0 (d\<lparr>turns := x1\<rparr>) rid row p = in_progress env d0 d rid row p"
  "in_progress env d0 (d\<lparr>tool_calls := x2\<rparr>) rid row p = in_progress env d0 d rid row p"
  "in_progress env d0 (d\<lparr>tool_attempts := x3\<rparr>) rid row p = in_progress env d0 d rid row p"
  "in_progress env d0 (d\<lparr>approvals := x4\<rparr>) rid row p = in_progress env d0 d rid row p"
  "in_progress env d0 (d\<lparr>budget_reservations := x5\<rparr>) rid row p = in_progress env d0 d rid row p"
  "in_progress env d0 (d\<lparr>control_commands := x6\<rparr>) rid row p = in_progress env d0 d rid row p"
  by (simp_all add: in_progress_def)

lemma in_progress_start:
  "store_ok env d \<Longrightarrow> get_run d rid = Some row \<Longrightarrow> in_progress env d d rid row (proj_of_row row)"
  using store_lagging [of env d rid row] get_run_in [of d rid row] by (simp add: in_progress_def)

lemma wp_fenced:
  assumes "store_ok env d"
    and "\<And>row. fence_passed ctx row \<Longrightarrow> get_run d rid = Some row \<Longrightarrow>
      in_progress env d d rid row (proj_of_row row) \<Longrightarrow> wp (f row) Q d"
  shows "wp (bindT (readT (require_execution_context now rid ctx)) f) Q d"
  using assms(2) in_progress_start [OF assms(1)]
  by (auto simp: wp_bind wp_read dest: require_fence_passed)

lemma wp_run_row:
  assumes "store_ok env d"
    and "\<And>row. get_run d rid = Some row \<Longrightarrow> in_progress env d d rid row (proj_of_row row) \<Longrightarrow>
      wp (f row) Q d"
  shows "wp (bindT (readT (require_run_row rid)) f) Q d"
  using assms(2) in_progress_start [OF assms(1)]
  by (auto simp: wp_bind wp_read require_run_row_Inr)

lemma wp_recover:
  assumes "store_ok env d" "get_run d rid = Some row"
    and "\<And>rec. rec_projection rec = proj_of_row row \<Longrightarrow> wp (f rec) Q d"
  shows "wp (bindT (readT (recover_run_projection_in_transaction env rid row)) f) Q d"
  using assms(3) store_ok_recover [OF assms(1,2)] by (auto simp: wp_bind wp_read)

text \<open>An insert either violates a constraint and raises, or adds its row.\<close>

lemma wp_inserts:
  "Q () (d\<lparr>tool_calls := tool_calls d @ [r3]\<rparr>) \<Longrightarrow> wp (insert_tool_call r3) Q d"
  "Q () (d\<lparr>tool_attempts := tool_attempts d @ [r4]\<rparr>) \<Longrightarrow> wp (insert_attempt r4) Q d"
  "Q () (d\<lparr>approvals := approvals d @ [r5]\<rparr>) \<Longrightarrow> wp (insert_approval r5) Q d"
  "Q () (d\<lparr>budget_reservations := budget_reservations d @ [r6]\<rparr>) \<Longrightarrow> wp (insert_reservation r6) Q d"
  "Q () (d\<lparr>checkpoints := checkpoints d @ [r7]\<rparr>) \<Longrightarrow> wp (insert_checkpoint r7) Q d"
  "Q () (d\<lparr>control_commands := control_commands d @ [r8]\<rparr>) \<Longrightarrow> wp (insert_control_command r8) Q d"
  by (simp_all add: wp_def insert_defs)

lemma wp_record_if_control:
  "(\<And>cs. Q () (d\<lparr>control_commands := cs\<rparr>)) \<Longrightarrow>
     wp (record_if_control env now k ty pl cc ev) Q d"
proof -
  assume Q: "\<And>cs. Q () (d\<lparr>control_commands := cs\<rparr>)"
  from Q [of "control_commands d"] have "Q () d" by simp
  with Q show ?thesis
    by (auto simp: record_if_control_def record_control_command_def insert_control_command_def wp_simps
        wp_def split: option.splits)
qed

lemma wp_append_then:
  assumes "in_progress env d0 d rid row p" "is_uuid eid" "\<not> creates_run x"
    and "\<And>sq. apply_payload p sq x = Inr (f sq)"
    and "\<And>e d'. appended env eid now (run_event row pid cause x) d e d' \<Longrightarrow>
           in_progress env d0 d' rid row (f (e_seq e)) \<Longrightarrow> wp (K e) Q d'"
  shows "wp (bindT (append_event_in_transaction env eid now (run_event row pid cause x)) K) Q d"
proof -
  have get: "get_run d rid = Some row"
    using assms(1) by (simp add: in_progress_def get_run_def)
  have f: "p_run_id (f sq) = p_run_id p" "p_last_event_seq (f sq) = sq" for sq
    using apply_payload_frame [OF assms(4)] by auto
  show ?thesis
    unfolding wp_bind
  proof (rule wp_append_run [OF _ get assms(2)])
    show "lagging env d rid (Some p)" "q_run_id (run_event row pid cause x) = Some rid"
      "p_run_id p = rid"
      using assms(1) by (simp_all add: in_progress_def)
    fix e d' assume *: "appended env eid now (run_event row pid cause x) d e d'"
      "lagging env d' rid (Some (f (e_seq e)))" "runs d' = runs d" "p_last_event_seq p < e_seq e"
    then have "in_progress env d0 d' rid row (f (e_seq e))"
      using assms(1) f by (auto simp: in_progress_def)
    with *(1) show "wp (K e) Q d'" by (rule assms(5))
  qed (use assms in auto)
qed

lemma wp_append_neutral:
  assumes "in_progress env d0 d rid row p" "is_uuid eid" "neutral x"
    and "\<And>e d'. appended env eid now (run_event row pid cause x) d e d' \<Longrightarrow>
           in_progress env d0 d' rid row (p\<lparr>p_last_event_seq := e_seq e\<rparr>) \<Longrightarrow> wp (K e) Q d'"
  shows "wp (bindT (append_event_in_transaction env eid now (run_event row pid cause x)) K) Q d"
  using assms by (intro wp_append_then [OF assms(1,2)]) (auto dest: neutral_apply)

lemma wp_append_phase:
  assumes "in_progress env d0 d rid row p" "is_uuid eid" "p_phase p = prev"
    and "\<And>e d'. in_progress env d0 d' rid row (p\<lparr>p_phase := Some nxt, p_last_event_seq := e_seq e\<rparr>) \<Longrightarrow>
           wp (K e) Q d'"
  shows "wp (bindT (append_event_in_transaction env eid now (run_event row pid cause
      (RunPhaseChangedPayload prev nxt reason))) K) Q d"
  using assms by (intro wp_append_then [OF assms(1,2)]) auto

lemma wp_append_completed:
  assumes "in_progress env d0 d rid row p" "is_uuid eid"
    and "\<And>e d'. in_progress env d0 d' rid row (p\<lparr>p_execution_status := ES_COMPLETED, p_phase := None,
             p_last_event_seq := e_seq e\<rparr>) \<Longrightarrow> wp (K e) Q d'"
  shows "wp (bindT (append_event_in_transaction env eid now (run_event row pid cause
      (RunCompletedPayload vs))) K) Q d"
  using assms by (intro wp_append_then [OF assms(1,2)]) auto

lemma wp_append_terminated:
  assumes "in_progress env d0 d rid row p" "is_uuid eid"
    and "\<And>e d'. in_progress env d0 d' rid row (p\<lparr>p_execution_status := st, p_phase := None,
             p_last_event_seq := e_seq e\<rparr>) \<Longrightarrow> wp (K e) Q d'"
  shows "wp (bindT (append_event_in_transaction env eid now (run_event row pid cause
      (RunTerminatedPayload st reason))) K) Q d"
  using assms by (intro wp_append_then [OF assms(1,2)]) auto

lemma wp_append_provisioned:
  assumes "in_progress env d0 d rid row p" "is_uuid eid"
    and "\<And>e d'. in_progress env d0 d' rid row (p\<lparr>p_workspace_disposition := WD_ACTIVE,
             p_last_event_seq := e_seq e\<rparr>) \<Longrightarrow> wp (K e) Q d'"
  shows "wp (bindT (append_event_in_transaction env eid now (run_event row pid cause
      (WorkspaceProvisionedPayload w1 w2 w3 w4))) K) Q d"
  using assms by (intro wp_append_then [OF assms(1,2)]) auto

lemma wp_append_disposition:
  assumes "in_progress env d0 d rid row p" "is_uuid eid" "p_workspace_disposition p = prev"
    and "\<And>e d'. in_progress env d0 d' rid row (p\<lparr>p_workspace_disposition := nxt,
             p_last_event_seq := e_seq e\<rparr>) \<Longrightarrow> wp (K e) Q d'"
  shows "wp (bindT (append_event_in_transaction env eid now (run_event row pid cause
      (WorkspaceDispositionChangedPayload prev nxt reason))) K) Q d"
  using assms by (intro wp_append_then [OF assms(1,2)]) auto

lemma wp_catch_up:
  assumes "in_progress env d0 d rid row p" "fence_passed ctx row" "\<And>x. run_identity x (f x)"
    and "proj_of_row (f row) = p"
    and "p_execution_status p = r_execution_status row \<or> r_execution_status row = ES_ACTIVE"
    and "committed env d0 ctx (Some (p_last_event_seq p)) (update_run rid f d) \<Longrightarrow>
      wp K Q (update_run rid f d)"
  shows "wp (bindT (modifyT (update_run rid f)) (\<lambda>_. K)) Q d"
  using assms(6) committed_update [OF assms(2) _ _ _ assms(3,4) _ assms(5), of env d d0] assms(1)
  by (simp add: wp_bind wp_modify in_progress_def)

lemma wp_touch:
  assumes "in_progress env d0 d rid row ((proj_of_row row)\<lparr>p_last_event_seq := sq\<rparr>)"
    and "fence_passed ctx row"
    and "committed env d0 ctx (Some sq) (update_run rid (\<lambda>r. r\<lparr>r_last_event_seq := sq\<rparr>) d) \<Longrightarrow>
      wp K Q (update_run rid (\<lambda>r. r\<lparr>r_last_event_seq := sq\<rparr>) d)"
  shows "wp (bindT (touch_run rid sq) (\<lambda>_. K)) Q d"
  unfolding touch_run_def using assms(3)
  by (intro wp_catch_up [OF assms(1,2)]) (simp_all add: run_identity_def proj_of_row_touch)

text \<open>
  \<^const>\<open>append_event\<close> keeps the invariant when the event is in the run's own session and
  is not one of the payloads that change a run.
\<close>

lemma append_event_committed:
  assumes "store_ok env d" "is_uuid eid" "neutral (q_payload q)"
    and "\<And>rid r. q_run_id q = Some rid \<Longrightarrow> get_run d rid = Some r \<Longrightarrow> q_session_id q = r_session_id r"
  shows "wp (append_event_body env now eid q ctx) (commits env d ctx) d"
proof (cases "q_run_id q")
  case None
  have "committed env d ctx None d'" if A: "appended env eid now q d e d'" for e d'
    using appended_no_run_store [OF A assms(2) None assms(1)] get_run_appended [OF A]
    by (simp add: committed_def status_step_def in_sync_def)
  then show ?thesis
    by (auto simp: append_event_body_def None wp_simps intro!: wp_append)
next
  case (Some rid)
  have "wp (append_event_in_transaction env eid now q)
      (\<lambda>e. wp (bindT (touch_run rid (e_seq e)) (\<lambda>_. returnT (e, Some (e_seq e)))) (commits env d ctx)) d"
    if row: "fence_passed ctx row" "get_run d rid = Some row"
      "in_progress env d d rid row (proj_of_row row)" for row
  proof (rule wp_append_run)
    show "lagging env d rid (Some (proj_of_row row))" "get_run d rid = Some row" "q_run_id q = Some rid"
      "q_session_id q = r_session_id row" "is_uuid eid" "p_run_id (proj_of_row row) = rid"
      using row assms Some by (auto simp: in_progress_def)
    fix e d' assume "lagging env d' rid (Some ((proj_of_row row)\<lparr>p_last_event_seq := e_seq e\<rparr>))"
      "runs d' = runs d" "p_last_event_seq (proj_of_row row) < e_seq e"
    then have "in_progress env d d' rid row ((proj_of_row row)\<lparr>p_last_event_seq := e_seq e\<rparr>)"
      using row by (simp add: in_progress_def)
    then show "wp (bindT (touch_run rid (e_seq e)) (\<lambda>_. returnT (e, Some (e_seq e)))) (commits env d ctx) d'"
      using row(1) by (rule wp_touch) (simp add: wp_return)
  qed (use assms(3) in \<open>auto dest: neutral_apply\<close>)
  then show ?thesis
    using assms(1)
    by (auto simp: append_event_body_def Some wp_throw wp_bind intro!: wp_fenced [unfolded wp_bind])
qed

end
