(* ===== verification/Tool_Calls.thy ===== *)
theory Tool_Calls
  imports Tool_Identity Leases
begin

text \<open>
  Tool calls, approvals and attempts of \<^verbatim>\<open>persistence/store.py\<close>: proposal (idempotent by
  response and ordinal), the approval request and decision bound to a fingerprint, the
  dispatch intent and the terminal result. Records returned to callers are the row with
  the fields the code derives from its JSON columns.
\<close>

section \<open>Records\<close>

definition json_get :: "string \<Rightarrow> json \<Rightarrow> json option" where
  "json_get k j = (case j of JObj kvs \<Rightarrow> map_of kvs k | _ \<Rightarrow> None)"

text \<open>\<^verbatim>\<open>d[k] = v\<close> on a dict: an existing key keeps its place.\<close>

fun items_put :: "string \<Rightarrow> json \<Rightarrow> (string \<times> json) list \<Rightarrow> (string \<times> json) list" where
  "items_put k v [] = [(k, v)]"
| "items_put k v ((k', v') # kvs) = (if k' = k then (k, v) # kvs else (k', v') # items_put k v kvs)"

fun json_put :: "string \<Rightarrow> json \<Rightarrow> json \<Rightarrow> json result" where
  "json_put k v (JObj kvs) = Inr (JObj (items_put k v kvs))"
| "json_put k v _ = Inl TypeError"

text \<open>\<^verbatim>\<open>tuple(value)\<close> of a JSON value.\<close>

fun json_tuple :: "json \<Rightarrow> json list result" where
  "json_tuple (JArr xs) = Inr xs"
| "json_tuple (JStr s) = Inr (map (\<lambda>c. JStr [c]) s)"
| "json_tuple (JObj kvs) = Inr (map (\<lambda>kv. JStr (fst kv)) kvs)"
| "json_tuple _ = Inl TypeError"

record tool_call_record =
  tr_row :: tool_call_row
  tr_target_paths :: "json list"
  tr_policy_version :: json
  tr_action_plan :: "json option"
  tr_proposal_event :: "event_envelope option"

definition tool_call_from_row ::
  "env \<Rightarrow> event_envelope option \<Rightarrow> tool_call_row \<Rightarrow> tool_call_record result" where
  "tool_call_from_row env proposal_event row =
     (if sha256 env (c_args_json row) \<noteq> c_args_sha256 row then Inl LedgerIntegrityError
      else
        bindE (json_tuple (case json_get ''target_paths'' (c_precondition row) of
                 None \<Rightarrow> JArr [] | Some x \<Rightarrow> x)) (\<lambda>paths.
        Inr \<lparr>tr_row = row, tr_target_paths = paths,
             tr_policy_version = (case json_get ''policy_version'' (c_precondition row) of
                                    None \<Rightarrow> JStr '''' | Some v \<Rightarrow> v),
             tr_action_plan = json_get ''action_plan'' (c_precondition row),
             tr_proposal_event = proposal_event\<rparr>))"

record tool_attempt_record =
  ta_row :: tool_attempt_row
  ta_action_digest :: "json option"
  ta_event :: "event_envelope option"

definition tool_attempt_from_row ::
  "event_envelope option \<Rightarrow> tool_attempt_row \<Rightarrow> tool_attempt_record" where
  "tool_attempt_from_row event row =
     \<lparr>ta_row = row, ta_action_digest = json_get ''action_digest'' (a_executor_identity row),
      ta_event = event\<rparr>"

section \<open>Proposals\<close>

definition fingerprint_of ::
  "run_row \<Rightarrow> string \<Rightarrow> string \<Rightarrow> string \<Rightarrow> string \<Rightarrow> tool_effect_class \<Rightarrow> string list \<Rightarrow> string
     \<Rightarrow> fingerprint_input" where
  "fingerprint_of run tool_call_id tool_name tool_version args_sha256 effect_class targets policy =
     \<lparr>fi_run_id = r_run_id run, fi_tool_call_id = tool_call_id, fi_tool_name = tool_name,
      fi_tool_version = tool_version, fi_args_sha256 = args_sha256, fi_effect_class = effect_class,
      fi_base_repo_root = r_base_repo_root run, fi_base_commit_sha = r_base_commit_sha run,
      fi_worktree_path = r_worktree_path run, fi_target_paths = targets, fi_policy_version = policy\<rparr>"

definition propose_tool_call_body ::
  "env \<Rightarrow> instant \<Rightarrow> string \<Rightarrow> string \<Rightarrow> string \<Rightarrow> string \<Rightarrow> int \<Rightarrow> string \<Rightarrow> string \<Rightarrow> py_value
     \<Rightarrow> tool_effect_class \<Rightarrow> string list \<Rightarrow> string \<Rightarrow> string \<Rightarrow> execution_context option
     \<Rightarrow> (db, tool_call_record \<times> int option) txn" where
  "propose_tool_call_body env now eid fresh_id run_id response_event_id ordinal tool_name tool_version
     args effect_class target_paths policy_version process_instance_id ctx =
     (if ordinal < 0 then throwT ValueError
      else if blank tool_name \<or> blank tool_version then throwT ValueError
      else
        bindT (liftT (canonicalize_tool_args env args)) (\<lambda>canonical_args.
        bindT (liftT (normalize_targets env target_paths)) (\<lambda>targets.
        bindT (readT (require_execution_context now run_id ctx)) (\<lambda>run_row.
        if r_execution_status run_row \<noteq> ES_ACTIVE then throwT RunStateConflictError
        else
          bindT (getT (\<lambda>d. get_event d response_event_id)) (\<lambda>response_row.
          case response_row of
            None \<Rightarrow> throwT ToolCallConflictError
          | Some v \<Rightarrow>
              bindT (liftT (event_from_row env v)) (\<lambda>response_event.
              if e_run_id response_event \<noteq> Some run_id \<or> \<not> is_model_response (e_payload response_event)
              then throwT ToolCallConflictError
              else
                bindT (getT (\<lambda>d. find (\<lambda>c. c_run_id c = run_id \<and> c_response_event_id c = response_event_id
                                      \<and> c_ordinal c = ordinal) (tool_calls d))) (\<lambda>existing.
                case existing of
                  Some row \<Rightarrow>
                    bindT (liftT (tool_call_from_row env None row)) (\<lambda>rec.
                    bindT (liftT (build_approval_fingerprint env (fingerprint_of run_row
                             (c_tool_call_id row) tool_name tool_version (ca_sha256 canonical_args)
                             effect_class targets policy_version))) (\<lambda>expected_fingerprint.
                    if c_tool_name row \<noteq> tool_name \<or> c_tool_version row \<noteq> tool_version
                       \<or> c_args_json row \<noteq> ca_json canonical_args \<or> c_effect_class row \<noteq> effect_class
                       \<or> tr_target_paths rec \<noteq> map JStr targets
                       \<or> tr_policy_version rec \<noteq> JStr policy_version
                       \<or> c_approval_fingerprint row \<noteq> expected_fingerprint
                    then throwT ToolCallConflictError
                    else returnT (rec, None)))
                | None \<Rightarrow>
                    bindT (liftT (build_approval_fingerprint env (fingerprint_of run_row fresh_id
                             tool_name tool_version (ca_sha256 canonical_args) effect_class targets
                             policy_version))) (\<lambda>approval_fingerprint.
                    bindT (returnT \<lparr>c_tool_call_id = fresh_id, c_run_id = run_id,
                        c_response_event_id = response_event_id, c_ordinal = ordinal,
                        c_tool_name = tool_name, c_tool_version = tool_version,
                        c_args_json = ca_json canonical_args, c_args_sha256 = ca_sha256 canonical_args,
                        c_approval_fingerprint = approval_fingerprint, c_effect_class = effect_class,
                        c_state = (if effect_class = TE_PURE then TC_READY else TC_PROPOSED),
                        c_precondition = JObj [(''policy_version'', JStr policy_version),
                                               (''target_paths'', JArr (map JStr targets))],
                        c_final_output_blob_sha256 = None, c_final_error = None\<rparr>) (\<lambda>row.
                    bindT (insert_tool_call row) (\<lambda>_.
                    bindT (append_event_in_transaction env eid now
                      (run_event run_row process_instance_id (Some response_event_id)
                        (ToolCallProposedPayload fresh_id tool_name tool_version
                          (ca_sha256 canonical_args) effect_class))) (\<lambda>proposal_event.
                    bindT (touch_run run_id (e_seq proposal_event)) (\<lambda>_.
                    bindT (liftT (tool_call_from_row env (Some proposal_event) row)) (\<lambda>rec.
                    returnT (rec, Some (e_seq proposal_event)))))))))))))))"

definition propose_tool_call ::
  "env \<Rightarrow> instant \<Rightarrow> string \<Rightarrow> string \<Rightarrow> string \<Rightarrow> string \<Rightarrow> int \<Rightarrow> string \<Rightarrow> string \<Rightarrow> py_value
     \<Rightarrow> tool_effect_class \<Rightarrow> string list \<Rightarrow> string \<Rightarrow> string \<Rightarrow> execution_context option
     \<Rightarrow> db \<Rightarrow> (tool_call_record \<times> execution_context option) result \<times> db" where
  "propose_tool_call env now eid fresh_id run_id response_event_id ordinal tool_name tool_version
     args effect_class target_paths policy_version process_instance_id ctx =
     run_command ctx (propose_tool_call_body env now eid fresh_id run_id response_event_id ordinal
       tool_name tool_version args effect_class target_paths policy_version process_instance_id ctx)"

section \<open>Reading\<close>

definition get_tool_call :: "env \<Rightarrow> db \<Rightarrow> string \<Rightarrow> tool_call_record result" where
  "get_tool_call env d tool_call_id = (case get_tool_call_row d tool_call_id of
       None \<Rightarrow> Inl ToolCallConflictError
     | Some row \<Rightarrow> tool_call_from_row env None row)"

definition get_tool_attempt :: "db \<Rightarrow> string \<Rightarrow> tool_attempt_record result" where
  "get_tool_attempt d attempt_id = (case get_attempt_row d attempt_id of
       None \<Rightarrow> Inl ToolCallConflictError
     | Some row \<Rightarrow> Inr (tool_attempt_from_row None row))"

definition list_dispatched_attempts :: "db \<Rightarrow> string \<Rightarrow> tool_attempt_record list" where
  "list_dispatched_attempts d run_id = map (tool_attempt_from_row None)
     (sort_key a_dispatched_at (filter (\<lambda>a. a_state a = TC_DISPATCHED \<and>
        list_ex (\<lambda>c. c_tool_call_id c = a_tool_call_id a \<and> c_run_id c = run_id) (tool_calls d))
        (tool_attempts d)))"

definition get_dispatched_attempt :: "db \<Rightarrow> string \<Rightarrow> tool_attempt_record option result" where
  "get_dispatched_attempt d tool_call_id =
     (case filter (\<lambda>a. a_tool_call_id a = tool_call_id \<and> a_state a = TC_DISPATCHED) (tool_attempts d) of
        [] \<Rightarrow> Inr None
      | [a] \<Rightarrow> Inr (Some (tool_attempt_from_row None a))
      | _ \<Rightarrow> Inl LedgerIntegrityError)"

definition unfinished_states :: "tool_call_state list" where
  "unfinished_states = [TC_PROPOSED, TC_WAITING_APPROVAL, TC_READY, TC_DISPATCHED]"

definition get_unfinished_tool_call ::
  "env \<Rightarrow> db \<Rightarrow> string \<Rightarrow> tool_call_record option result" where
  "get_unfinished_tool_call env d run_id =
     bindE (require_run_row run_id d) (\<lambda>_.
     case filter (\<lambda>c. c_run_id c = run_id \<and> c_state c \<in> set unfinished_states) (tool_calls d) of
       [] \<Rightarrow> Inr None
     | [row] \<Rightarrow>
         (case get_event d (c_response_event_id row) of
            None \<Rightarrow> Inl LedgerIntegrityError
          | Some v \<Rightarrow>
              bindE (event_from_row env v) (\<lambda>response.
              if e_run_id response \<noteq> Some run_id \<or> \<not> is_model_response (e_payload response)
              then Inl LedgerIntegrityError
              else bindE (tool_call_from_row env None row) (\<lambda>rec. Inr (Some rec))))
     | _ \<Rightarrow> Inl LedgerIntegrityError)"

section \<open>Approvals\<close>

type_synonym approval_record = "approval_row \<times> event_envelope option"

definition same_approval :: "tool_call_row \<Rightarrow> approval_row \<Rightarrow> bool" where
  "same_approval tool ap \<longleftrightarrow> ap_run_id ap = c_run_id tool \<and> ap_subject_type ap = ''tool_call''
     \<and> ap_subject_id ap = c_tool_call_id tool \<and> ap_fingerprint ap = c_approval_fingerprint tool"

definition request_tool_approval_body ::
  "env \<Rightarrow> instant \<Rightarrow> string \<Rightarrow> string \<Rightarrow> string \<Rightarrow> string \<Rightarrow> string \<Rightarrow> execution_context option
     \<Rightarrow> (db, approval_record \<times> int option) txn" where
  "request_tool_approval_body env now eid fresh_id tool_call_id policy process_instance_id ctx =
     (if blank policy then throwT ValueError
      else
        bindT (getT (\<lambda>d. get_tool_call_row d tool_call_id)) (\<lambda>found.
        case found of
          None \<Rightarrow> throwT ToolCallConflictError
        | Some tool_row \<Rightarrow>
            bindT (readT (require_execution_context now (c_run_id tool_row) ctx)) (\<lambda>run_row.
            bindT (getT (\<lambda>d. find (same_approval tool_row) (approvals d))) (\<lambda>existing.
            case existing of
              Some ap \<Rightarrow> returnT ((ap, None), None)
            | None \<Rightarrow>
                if c_state tool_row \<noteq> TC_PROPOSED then throwT ApprovalConflictError
                else
                  bindT (returnT \<lparr>ap_approval_id = fresh_id, ap_run_id = c_run_id tool_row,
                      ap_subject_type = ''tool_call'', ap_subject_id = tool_call_id,
                      ap_fingerprint = c_approval_fingerprint tool_row, ap_policy = policy,
                      ap_decision = None, ap_requested_at = now, ap_decided_at = None,
                      ap_actor = None, ap_reason = None\<rparr>) (\<lambda>row.
                  bindT (insert_approval row) (\<lambda>_.
                  bindT (modifyT (update_tool_call tool_call_id
                           (\<lambda>c. c\<lparr>c_state := TC_WAITING_APPROVAL\<rparr>))) (\<lambda>_.
                  bindT (append_event_in_transaction env eid now (run_event run_row process_instance_id None
                    (ApprovalRequestedPayload fresh_id tool_call_id (c_approval_fingerprint tool_row) policy)))
                    (\<lambda>event.
                  bindT (touch_run (r_run_id run_row) (e_seq event)) (\<lambda>_.
                  returnT ((row, Some event), Some (e_seq event)))))))))))"

definition request_tool_approval ::
  "env \<Rightarrow> instant \<Rightarrow> string \<Rightarrow> string \<Rightarrow> string \<Rightarrow> string \<Rightarrow> string \<Rightarrow> execution_context option
     \<Rightarrow> db \<Rightarrow> (approval_record \<times> execution_context option) result \<times> db" where
  "request_tool_approval env now eid fresh_id tool_call_id policy process_instance_id ctx =
     run_command ctx (request_tool_approval_body env now eid fresh_id tool_call_id policy
       process_instance_id ctx)"

definition get_approval :: "db \<Rightarrow> string \<Rightarrow> approval_record result" where
  "get_approval d approval_id = (case get_approval_row d approval_id of
       None \<Rightarrow> Inl ApprovalConflictError | Some row \<Rightarrow> Inr (row, None))"

definition get_pending_approval_for_tool :: "db \<Rightarrow> string \<Rightarrow> approval_record option" where
  "get_pending_approval_for_tool d tool_call_id =
     (case rev (sort_key ap_requested_at (filter (\<lambda>a. ap_subject_type a = ''tool_call''
                \<and> ap_subject_id a = tool_call_id \<and> ap_decision a = None) (approvals d))) of
        [] \<Rightarrow> None | a # _ \<Rightarrow> Some (a, None))"

definition decision_document ::
  "string \<Rightarrow> string \<Rightarrow> approval_decision \<Rightarrow> string \<Rightarrow> json" where
  "decision_document approval_id expected_fingerprint decision reason = JObj
     [(''approval_id'', JStr approval_id), (''expected_fingerprint'', JStr expected_fingerprint),
      (''decision'', JStr (approval_decision_value decision)), (''reason'', JStr reason)]"

definition decide_row ::
  "approval_decision \<Rightarrow> instant \<Rightarrow> string \<Rightarrow> string \<Rightarrow> approval_row \<Rightarrow> approval_row" where
  "decide_row decision now actor reason a =
     a\<lparr>ap_decision := Some decision, ap_decided_at := Some now, ap_actor := Some actor,
       ap_reason := Some reason\<rparr>"

text \<open>The part of the command after the checks on the approval itself.\<close>

definition apply_decision ::
  "env \<Rightarrow> instant \<Rightarrow> string \<Rightarrow> approval_row \<Rightarrow> string \<Rightarrow> approval_decision \<Rightarrow> string \<Rightarrow> string
     \<Rightarrow> string \<Rightarrow> control_context option \<Rightarrow> (db, approval_record \<times> int option) txn" where
  "apply_decision env now eid approval_row expected_fingerprint decision actor reason
     process_instance_id cc =
     bindT (getT (\<lambda>d. get_tool_call_row d (ap_subject_id approval_row))) (\<lambda>found.
     case found of
       None \<Rightarrow> throwT ApprovalConflictError
     | Some tool_row \<Rightarrow>
         if c_approval_fingerprint tool_row \<noteq> expected_fingerprint then throwT ApprovalConflictError
         else if c_state tool_row \<noteq> TC_WAITING_APPROVAL then throwT ApprovalConflictError
         else
           bindT (modifyT (update_approval (ap_approval_id approval_row)
                    (decide_row decision now actor reason))) (\<lambda>_.
           bindT (modifyT (update_tool_call (c_tool_call_id tool_row) (\<lambda>c. c\<lparr>c_state :=
                    (if decision = AD_ALLOW_ONCE then TC_READY else TC_DENIED)\<rparr>))) (\<lambda>_.
           bindT (readT (require_run_row (ap_run_id approval_row))) (\<lambda>run_row.
           bindT (append_event_in_transaction env eid now (run_event run_row process_instance_id None
             (ApprovalDecidedPayload (ap_approval_id approval_row) (c_tool_call_id tool_row)
               expected_fingerprint (approval_decision_value decision) actor))) (\<lambda>event.
           bindT (touch_run (r_run_id run_row) (e_seq event)) (\<lambda>_.
           bindT (record_if_control env now (r_run_id run_row) ''decide_tool_approval''
                    (decision_document (ap_approval_id approval_row) expected_fingerprint decision reason)
                    cc (Some event)) (\<lambda>_.
           returnT ((decide_row decision now actor reason approval_row, Some event),
                    Some (e_seq event)))))))))"

definition decide_tool_approval_body ::
  "env \<Rightarrow> instant \<Rightarrow> string \<Rightarrow> string \<Rightarrow> string \<Rightarrow> approval_decision \<Rightarrow> string \<Rightarrow> string \<Rightarrow> string
     \<Rightarrow> control_context option \<Rightarrow> execution_context option
     \<Rightarrow> (db, approval_record \<times> int option) txn" where
  "decide_tool_approval_body env now eid approval_id expected_fingerprint decision actor reason
     process_instance_id cc ctx =
     (if decision = AD_ALLOW_RUN_SCOPE then throwT ApprovalConflictError
      else if blank actor \<or> blank reason then throwT ValueError
      else if (case cc of None \<Rightarrow> False | Some c \<Rightarrow> cc_actor c \<noteq> actor) then throwT ApprovalConflictError
      else
        bindT (getT (\<lambda>d. get_approval_row d approval_id)) (\<lambda>found.
        case found of
          None \<Rightarrow> throwT ApprovalConflictError
        | Some approval_row \<Rightarrow>
            bindT (returnT (decision_document approval_id expected_fingerprint decision reason)) (\<lambda>payload.
            bindT (readT (begin_if_control env (ap_run_id approval_row) ''decide_tool_approval'' payload cc))
              (\<lambda>begun.
            if fst begun then returnT ((approval_row, snd begun), None)
            else
              bindT (case ctx of None \<Rightarrow> returnT ()
                     | Some c \<Rightarrow> bindT (readT (require_execution_context now (ap_run_id approval_row) ctx))
                                   (\<lambda>_. returnT ())) (\<lambda>_.
              if ap_fingerprint approval_row \<noteq> expected_fingerprint then throwT ApprovalConflictError
              else case ap_decision approval_row of
                Some existing_decision \<Rightarrow>
                  if existing_decision \<noteq> decision then throwT ApprovalConflictError
                  else
                    bindT (record_if_control env now (ap_run_id approval_row) ''decide_tool_approval''
                             payload cc None) (\<lambda>_.
                    returnT ((approval_row, None), None))
              | None \<Rightarrow> apply_decision env now eid approval_row expected_fingerprint decision actor
                          reason process_instance_id cc)))))"

definition decide_tool_approval ::
  "env \<Rightarrow> instant \<Rightarrow> string \<Rightarrow> string \<Rightarrow> string \<Rightarrow> approval_decision \<Rightarrow> string \<Rightarrow> string \<Rightarrow> string
     \<Rightarrow> control_context option \<Rightarrow> execution_context option
     \<Rightarrow> db \<Rightarrow> (approval_record \<times> execution_context option) result \<times> db" where
  "decide_tool_approval env now eid approval_id expected_fingerprint decision actor reason
     process_instance_id cc ctx =
     run_command ctx (decide_tool_approval_body env now eid approval_id expected_fingerprint decision
       actor reason process_instance_id cc ctx)"

section \<open>Dispatch\<close>

text \<open>\<^verbatim>\<open>attempt_id or str(new_uuid7())\<close>\<close>

definition chosen_attempt_id :: "string option \<Rightarrow> string \<Rightarrow> string" where
  "chosen_attempt_id attempt_id fresh_id = (case attempt_id of
       None \<Rightarrow> fresh_id | Some a \<Rightarrow> if a = [] then fresh_id else a)"

text \<open>\<^verbatim>\<open>COALESCE(MAX(attempt_no), 0) + 1\<close>\<close>

definition next_attempt_no :: "db \<Rightarrow> string \<Rightarrow> int" where
  "next_attempt_no d tool_call_id =
     (case map a_attempt_no (filter (\<lambda>a. a_tool_call_id a = tool_call_id) (tool_attempts d)) of
        [] \<Rightarrow> 1 | n # ns \<Rightarrow> foldl max n ns + 1)"

definition dispatch_tool_call_body ::
  "env \<Rightarrow> instant \<Rightarrow> string \<Rightarrow> string \<Rightarrow> string \<Rightarrow> (string \<times> json) list \<Rightarrow> (string \<times> json) list
     \<Rightarrow> string \<Rightarrow> string option \<Rightarrow> execution_context option
     \<Rightarrow> (db, tool_attempt_record \<times> int option) txn" where
  "dispatch_tool_call_body env now eid fresh_id tool_call_id action_plan executor_identity
     process_instance_id attempt_id ctx =
     bindT (returnT (sha256_json env (JObj action_plan))) (\<lambda>action_digest.
     bindT (returnT (chosen_attempt_id attempt_id fresh_id)) (\<lambda>attempt.
     bindT (getT (\<lambda>d. get_tool_call_row d tool_call_id)) (\<lambda>found.
     case found of
       None \<Rightarrow> throwT ToolCallConflictError
     | Some tool_row \<Rightarrow>
         bindT (getT (\<lambda>d. get_attempt_row d attempt)) (\<lambda>existing.
         case existing of
           Some row \<Rightarrow>
             if a_tool_call_id row \<noteq> tool_call_id
                \<or> ta_action_digest (tool_attempt_from_row None row) \<noteq> Some (JStr action_digest)
             then throwT ToolCallConflictError
             else returnT (tool_attempt_from_row None row, None)
         | None \<Rightarrow>
             if c_state tool_row \<noteq> TC_READY then throwT ToolCallConflictError
             else
               bindT (readT (require_execution_context now (c_run_id tool_row) ctx)) (\<lambda>run_row.
               if r_cancel_requested_at run_row \<noteq> None then throwT ToolCallConflictError
               else
                 bindT (getT (\<lambda>d. next_attempt_no d tool_call_id)) (\<lambda>attempt_no.
                 bindT (liftT (json_put ''action_plan'' (JObj action_plan) (c_precondition tool_row))) (\<lambda>precondition.
                 bindT (returnT \<lparr>a_attempt_id = attempt, a_tool_call_id = tool_call_id,
                     a_attempt_no = attempt_no, a_state = TC_DISPATCHED,
                     a_executor_identity = JObj (items_put ''action_digest'' (JStr action_digest) executor_identity),
                     a_dispatched_at = now, a_completed_at = None, a_receipt = None,
                     a_output_blob_sha256 = None, a_error = None\<rparr>) (\<lambda>row.
                 bindT (insert_attempt row) (\<lambda>_.
                 bindT (modifyT (update_tool_call tool_call_id (\<lambda>c. c\<lparr>c_state := TC_DISPATCHED,
                          c_precondition := precondition\<rparr>))) (\<lambda>_.
                 bindT (append_event_in_transaction env eid now (run_event run_row process_instance_id None
                   (ToolExecutionDispatchedPayload tool_call_id attempt attempt_no action_digest))) (\<lambda>event.
                 bindT (touch_run (r_run_id run_row) (e_seq event)) (\<lambda>_.
                 returnT (tool_attempt_from_row (Some event) row, Some (e_seq event))))))))))))))"

definition dispatch_tool_call ::
  "env \<Rightarrow> instant \<Rightarrow> string \<Rightarrow> string \<Rightarrow> string \<Rightarrow> (string \<times> json) list \<Rightarrow> (string \<times> json) list
     \<Rightarrow> string \<Rightarrow> string option \<Rightarrow> execution_context option
     \<Rightarrow> db \<Rightarrow> (tool_attempt_record \<times> execution_context option) result \<times> db" where
  "dispatch_tool_call env now eid fresh_id tool_call_id action_plan executor_identity
     process_instance_id attempt_id ctx =
     run_command ctx (dispatch_tool_call_body env now eid fresh_id tool_call_id action_plan
       executor_identity process_instance_id attempt_id ctx)"

section \<open>Results\<close>

text \<open>\<^verbatim>\<open>ToolCallState(outcome)\<close> for the three outcomes the command accepts.\<close>

definition outcome_state :: "string \<Rightarrow> tool_call_state option" where
  "outcome_state outcome =
     (if outcome = ''succeeded'' then Some TC_SUCCEEDED
      else if outcome = ''failed'' then Some TC_FAILED
      else if outcome = ''uncertain'' then Some TC_UNCERTAIN
      else None)"

text \<open>\<^verbatim>\<open>(error or {}).get(key, default)\<close> used as a string field of a payload.\<close>

definition error_field :: "string \<Rightarrow> string \<Rightarrow> (string \<times> json) list option \<Rightarrow> string result" where
  "error_field key dflt error =
     (case map_of (case error of None \<Rightarrow> [] | Some kvs \<Rightarrow> kvs) key of
        None \<Rightarrow> Inr dflt | Some (JStr s) \<Rightarrow> Inr s | Some _ \<Rightarrow> Inl ValueError)"

definition result_payload ::
  "env \<Rightarrow> tool_call_state \<Rightarrow> string \<Rightarrow> string \<Rightarrow> (string \<times> json) list option \<Rightarrow> string option
     \<Rightarrow> (string \<times> json) list option \<Rightarrow> bool \<Rightarrow> payload result" where
  "result_payload env target tool_call_id attempt_id receipt output_sha error retryable =
     (if target = TC_SUCCEEDED then
        (case receipt of
           None \<Rightarrow> Inl LedgerIntegrityError
         | Some r \<Rightarrow> Inr (ToolExecutionSucceededPayload tool_call_id attempt_id
                            (sha256_json env (JObj r)) output_sha False))
      else if target = TC_FAILED then
        bindE (error_field ''class'' ''ToolError'' error) (\<lambda>c.
        Inr (ToolExecutionFailedPayload tool_call_id attempt_id c retryable))
      else
        bindE (error_field ''evidence'' ''outcome could not be proven'' error) (\<lambda>ev.
        Inr (ToolExecutionUncertainPayload tool_call_id attempt_id ev)))"

definition finish_attempt_row ::
  "tool_call_state \<Rightarrow> instant \<Rightarrow> json option \<Rightarrow> string option \<Rightarrow> json option
     \<Rightarrow> tool_attempt_row \<Rightarrow> tool_attempt_row" where
  "finish_attempt_row target now receipt output_sha error a =
     a\<lparr>a_state := target, a_completed_at := Some now, a_receipt := receipt,
       a_output_blob_sha256 := output_sha, a_error := error\<rparr>"

definition finish_tool_attempt_body ::
  "env \<Rightarrow> instant \<Rightarrow> string \<Rightarrow> string \<Rightarrow> string \<Rightarrow> string \<Rightarrow> (string \<times> json) list option
     \<Rightarrow> string option \<Rightarrow> string \<Rightarrow> (string \<times> json) list option \<Rightarrow> bool \<Rightarrow> execution_context option
     \<Rightarrow> (db, tool_attempt_record \<times> int option) txn" where
  "finish_tool_attempt_body env now eid attempt_id outcome process_instance_id receipt output
     output_media_type error retryable ctx =
     (case outcome_state outcome of
        None \<Rightarrow> throwT ValueError
      | Some target \<Rightarrow>
          if target = TC_SUCCEEDED \<and> receipt = None then throwT ValueError
          else
            bindT (getT (\<lambda>d. get_attempt_row d attempt_id)) (\<lambda>found.
            case found of
              None \<Rightarrow> throwT ToolCallConflictError
            | Some attempt_row \<Rightarrow>
                if a_state attempt_row \<noteq> TC_DISPATCHED then
                  if a_state attempt_row \<noteq> target then throwT ToolCallConflictError
                  else returnT (tool_attempt_from_row None attempt_row, None)
                else
                  bindT (getT (\<lambda>d. get_tool_call_row d (a_tool_call_id attempt_row))) (\<lambda>found_tool.
                  case found_tool of
                    None \<Rightarrow> throwT TypeError
                  | Some tool_row \<Rightarrow>
                      bindT (readT (require_execution_context now (c_run_id tool_row) ctx)) (\<lambda>run_row.
                      bindT (case output of
                               None \<Rightarrow> returnT None
                             | Some raw \<Rightarrow>
                                 bindT (put_blob_in_transaction env now raw output_media_type) (\<lambda>b.
                                 returnT (Some (o_sha256 b)))) (\<lambda>output_sha.
                      bindT (modifyT (update_attempt attempt_id (finish_attempt_row target now
                               (map_option JObj receipt) output_sha (map_option JObj error)))) (\<lambda>_.
                      bindT (modifyT (update_tool_call (a_tool_call_id attempt_row) (\<lambda>c. c\<lparr>c_state := target,
                               c_final_output_blob_sha256 := output_sha,
                               c_final_error := map_option JObj error\<rparr>))) (\<lambda>_.
                      bindT (liftT (result_payload env target (a_tool_call_id attempt_row) attempt_id
                               receipt output_sha error retryable)) (\<lambda>payload.
                      bindT (append_event_in_transaction env eid now
                               (run_event run_row process_instance_id None payload)) (\<lambda>event.
                      bindT (touch_run (r_run_id run_row) (e_seq event)) (\<lambda>_.
                      returnT (tool_attempt_from_row (Some event)
                                 (finish_attempt_row target now (map_option JObj receipt) output_sha
                                   (map_option JObj error) attempt_row), Some (e_seq event)))))))))))) "

definition finish_tool_attempt ::
  "env \<Rightarrow> instant \<Rightarrow> string \<Rightarrow> string \<Rightarrow> string \<Rightarrow> string \<Rightarrow> (string \<times> json) list option
     \<Rightarrow> string option \<Rightarrow> string \<Rightarrow> (string \<times> json) list option \<Rightarrow> bool \<Rightarrow> execution_context option
     \<Rightarrow> db \<Rightarrow> (tool_attempt_record \<times> execution_context option) result \<times> db" where
  "finish_tool_attempt env now eid attempt_id outcome process_instance_id receipt output
     output_media_type error retryable ctx =
     run_command ctx (finish_tool_attempt_body env now eid attempt_id outcome process_instance_id
       receipt output output_media_type error retryable ctx)"

end
