(* ===== verification/Lifecycle.thy ===== *)
theory Lifecycle
  imports Leases
begin

text \<open>
  The life of a run (\<^verbatim>\<open>persistence/store.py\<close>): creation with its turn and user message,
  workspace provisioning, checkpoints, phase transitions, the terminal commands,
  cancellation requests, the repair command, and the read side of the model-call
  projection. Every command with an execution context is a body and the bracket
  \<^const>\<open>run_command\<close>.
\<close>

section \<open>Creation\<close>

record created_run =
  cr_message_blob :: blob_row
  cr_user_message_event :: event_envelope
  cr_run_created_event :: event_envelope
  cr_phase_changed_event :: event_envelope
  cr_projection :: run_projection

definition new_turn :: "string \<Rightarrow> string \<Rightarrow> string \<Rightarrow> string \<Rightarrow> instant \<Rightarrow> turn_row" where
  "new_turn turn_id session_id user_event_id run_id now =
     \<lparr>t_turn_id = turn_id, t_session_id = session_id, t_user_event_id = user_event_id,
      t_created_at = now, t_status = ''active'', t_active_run_id = Some run_id\<rparr>"

definition new_run ::
  "string \<Rightarrow> string \<Rightarrow> string \<Rightarrow> string \<Rightarrow> string \<Rightarrow> (string \<times> int) list \<Rightarrow> instant \<Rightarrow> run_row" where
  "new_run run_id turn_id session_id repo_root base_commit_sha budget_limits now =
     \<lparr>r_run_id = run_id, r_turn_id = turn_id, r_session_id = session_id,
      r_execution_status = ES_ACTIVE, r_phase = None, r_workspace_disposition = WD_NONE,
      r_base_repo_root = repo_root, r_base_commit_sha = base_commit_sha,
      r_worktree_path = None, r_worktree_branch = None, r_created_at = now, r_finished_at = None,
      r_last_event_seq = 0, r_lease_owner = None, r_lease_epoch = 0, r_lease_expires_at = None,
      r_cancel_requested_at = None, r_cancel_reason = None, r_budget_limits = budget_limits,
      r_budget_consumed = [], r_terminal_reason = None\<rparr>"

definition create_turn_and_run_body ::
  "env \<Rightarrow> instant \<Rightarrow> ident \<Rightarrow> ident \<Rightarrow> ident \<Rightarrow> ident \<Rightarrow> ident \<Rightarrow> ident \<Rightarrow> string \<Rightarrow> string
     \<Rightarrow> string \<Rightarrow> (string \<times> int) list \<Rightarrow> string
     \<Rightarrow> (db, blob_row \<times> event_envelope \<times> event_envelope \<times> event_envelope) txn" where
  "create_turn_and_run_body env now eid1 eid2 eid3 session_id turn_id run_id user_message
     base_repo_root base_commit_sha budget_limits process_instance_id =
     (if user_message = [] then throwT ValueError
      else if blank base_commit_sha then throwT ValueError
      else
        bindT (put_blob_in_transaction env now user_message ''text/plain; charset=utf-8'') (\<lambda>message_blob.
        bindT (readT (prepare_event eid1 now
          \<lparr>q_session_id = session_id, q_process_instance_id = process_instance_id,
           q_payload = UserMessageReceivedPayload (o_sha256 message_blob), q_turn_id = Some turn_id,
           q_run_id = None, q_causation_event_id = None, q_correlation_id = None\<rparr>)) (\<lambda>user_event.
        bindT (insert_turn (new_turn turn_id session_id (e_event_id user_event) run_id now)) (\<lambda>_.
        bindT (insert_run (new_run run_id turn_id session_id (resolve_path env base_repo_root)
                 base_commit_sha budget_limits now)) (\<lambda>_.
        bindT (insert_event env user_event) (\<lambda>_.
        bindT (append_event_in_transaction env eid2 now
          \<lparr>q_session_id = session_id, q_process_instance_id = process_instance_id,
           q_payload = RunCreatedPayload (resolve_path env base_repo_root) base_commit_sha budget_limits,
           q_turn_id = Some turn_id, q_run_id = Some run_id,
           q_causation_event_id = Some (e_event_id user_event), q_correlation_id = Some run_id\<rparr>)
          (\<lambda>run_created_event.
        bindT (append_event_in_transaction env eid3 now
          \<lparr>q_session_id = session_id, q_process_instance_id = process_instance_id,
           q_payload = RunPhaseChangedPayload None RP_PREFLIGHTING ''run created'',
           q_turn_id = Some turn_id, q_run_id = Some run_id,
           q_causation_event_id = Some (e_event_id run_created_event), q_correlation_id = Some run_id\<rparr>)
          (\<lambda>phase_changed_event.
        bindT (modifyT (update_run run_id (\<lambda>r. r\<lparr>r_phase := Some RP_PREFLIGHTING,
                 r_last_event_seq := e_seq phase_changed_event\<rparr>))) (\<lambda>_.
        returnT (message_blob, user_event, run_created_event, phase_changed_event))))))))))"

definition create_turn_and_run ::
  "env \<Rightarrow> instant \<Rightarrow> ident \<Rightarrow> ident \<Rightarrow> ident \<Rightarrow> ident \<Rightarrow> ident \<Rightarrow> ident \<Rightarrow> string \<Rightarrow> string
     \<Rightarrow> string \<Rightarrow> (string \<times> int) list \<Rightarrow> string \<Rightarrow> db \<Rightarrow> created_run result \<times> db" where
  "create_turn_and_run env now eid1 eid2 eid3 session_id turn_id run_id user_message
     base_repo_root base_commit_sha budget_limits process_instance_id d =
     (case transact (create_turn_and_run_body env now eid1 eid2 eid3 session_id turn_id run_id
              user_message base_repo_root base_commit_sha budget_limits process_instance_id) d of
        (Inl e, d') \<Rightarrow> (Inl e, d')
      | (Inr (blob, user_event, created, phase_changed), d') \<Rightarrow>
          (bindE (reduce_run_events [created, phase_changed] None) (\<lambda>p.
             Inr \<lparr>cr_message_blob = blob, cr_user_message_event = user_event,
                  cr_run_created_event = created, cr_phase_changed_event = phase_changed,
                  cr_projection = p\<rparr>), d'))"

section \<open>Workspaces\<close>

record run_workspace =
  w_run_id :: string
  w_base_repo_root :: string
  w_base_commit_sha :: string
  w_worktree_path :: "string option"
  w_worktree_branch :: "string option"
  w_disposition :: workspace_disposition

definition get_run_workspace :: "string \<Rightarrow> db \<Rightarrow> run_workspace result" where
  "get_run_workspace run_id d =
     bindE (require_run_row run_id d) (\<lambda>row.
     Inr \<lparr>w_run_id = run_id, w_base_repo_root = r_base_repo_root row,
          w_base_commit_sha = r_base_commit_sha row, w_worktree_path = r_worktree_path row,
          w_worktree_branch = r_worktree_branch row, w_disposition = r_workspace_disposition row\<rparr>)"

definition begin_workspace_provisioning_body ::
  "env \<Rightarrow> instant \<Rightarrow> string \<Rightarrow> string \<Rightarrow> string \<Rightarrow> dirty_mode \<Rightarrow> string \<Rightarrow> execution_context option
     \<Rightarrow> (db, event_envelope option \<times> int option) txn" where
  "begin_workspace_provisioning_body env now eid1 eid2 run_id dirty_mode process_instance_id ctx =
     bindT (readT (require_execution_context now run_id ctx)) (\<lambda>row.
     bindT (readT (recover_run_projection_in_transaction env run_id row)) (\<lambda>recovered.
     if p_phase (rec_projection recovered) = Some RP_PROVISIONING then returnT (None, None)
     else if p_phase (rec_projection recovered) \<noteq> Some RP_PREFLIGHTING
     then throwT RunStateConflictError
     else
       bindT (append_event_in_transaction env eid1 now (run_event row process_instance_id None
         (WorkspaceProvisioningStartedPayload (r_base_repo_root row) (r_base_commit_sha row) dirty_mode)))
         (\<lambda>intent.
       bindT (append_event_in_transaction env eid2 now
         (run_event row process_instance_id (Some (e_event_id intent))
           (RunPhaseChangedPayload (Some RP_PREFLIGHTING) RP_PROVISIONING
             ''workspace provisioning intent committed''))) (\<lambda>phase_event.
       bindT (modifyT (update_run run_id (\<lambda>r. r\<lparr>r_phase := Some RP_PROVISIONING,
                r_last_event_seq := e_seq phase_event\<rparr>))) (\<lambda>_.
       returnT (Some intent, Some (e_seq phase_event)))))))"

definition begin_workspace_provisioning ::
  "env \<Rightarrow> instant \<Rightarrow> string \<Rightarrow> string \<Rightarrow> string \<Rightarrow> dirty_mode \<Rightarrow> string \<Rightarrow> execution_context option
     \<Rightarrow> db \<Rightarrow> (event_envelope option \<times> execution_context option) result \<times> db" where
  "begin_workspace_provisioning env now eid1 eid2 run_id dirty_mode process_instance_id ctx =
     run_command ctx (begin_workspace_provisioning_body env now eid1 eid2 run_id dirty_mode
       process_instance_id ctx)"

definition resolve_existing :: "env \<Rightarrow> string \<Rightarrow> string result" where
  "resolve_existing env p =
     (case resolve_strict env p of None \<Rightarrow> Inl OSError | Some q \<Rightarrow> Inr q)"

definition attach_provisioned_workspace_body ::
  "env \<Rightarrow> instant \<Rightarrow> ident \<Rightarrow> ident \<Rightarrow> ident \<Rightarrow> string \<Rightarrow> string \<Rightarrow> string \<Rightarrow> string \<Rightarrow> string
     \<Rightarrow> string \<Rightarrow> execution_context option \<Rightarrow> (db, run_workspace \<times> int option) txn" where
  "attach_provisioned_workspace_body env now eid1 eid2 run_id worktree_path branch base_commit_sha
     ownership_marker ownership_token process_instance_id ctx =
     bindT (liftT (resolve_existing env worktree_path)) (\<lambda>resolved_worktree.
     bindT (liftT (resolve_existing env ownership_marker)) (\<lambda>resolved_marker.
     bindT (readT (require_execution_context now run_id ctx)) (\<lambda>row.
     if r_base_commit_sha row \<noteq> base_commit_sha then throwT RunStateConflictError
     else case r_worktree_path row of
       Some path \<Rightarrow>
         if path \<noteq> resolved_worktree then throwT RunStateConflictError
         else bindT (readT (get_run_workspace run_id)) (\<lambda>w. returnT (w, None))
     | None \<Rightarrow>
         bindT (readT (recover_run_projection_in_transaction env run_id row)) (\<lambda>recovered.
         if p_phase (rec_projection recovered) \<noteq> Some RP_PROVISIONING
         then throwT RunStateConflictError
         else
           bindT (append_event_in_transaction env eid1 now (run_event row process_instance_id None
             (WorkspaceProvisionedPayload resolved_worktree branch resolved_marker
               (sha256 env ownership_token)))) (\<lambda>provisioned.
           bindT (append_event_in_transaction env eid2 now
             (run_event row process_instance_id (Some (e_event_id provisioned))
               (RunPhaseChangedPayload (Some RP_PROVISIONING) RP_AWAITING_MODEL
                 ''owned worktree attached''))) (\<lambda>phase_event.
           bindT (modifyT (update_run run_id (\<lambda>r. r\<lparr>r_worktree_path := Some resolved_worktree,
                    r_worktree_branch := Some branch, r_workspace_disposition := WD_ACTIVE,
                    r_phase := Some RP_AWAITING_MODEL, r_last_event_seq := e_seq phase_event\<rparr>))) (\<lambda>_.
           bindT (readT (get_run_workspace run_id)) (\<lambda>w.
           returnT (w, Some (e_seq phase_event)))))))))) "

definition attach_provisioned_workspace ::
  "env \<Rightarrow> instant \<Rightarrow> ident \<Rightarrow> ident \<Rightarrow> ident \<Rightarrow> string \<Rightarrow> string \<Rightarrow> string \<Rightarrow> string \<Rightarrow> string
     \<Rightarrow> string \<Rightarrow> execution_context option
     \<Rightarrow> db \<Rightarrow> (run_workspace \<times> execution_context option) result \<times> db" where
  "attach_provisioned_workspace env now eid1 eid2 run_id worktree_path branch base_commit_sha
     ownership_marker ownership_token process_instance_id ctx =
     run_command ctx (attach_provisioned_workspace_body env now eid1 eid2 run_id worktree_path branch
       base_commit_sha ownership_marker ownership_token process_instance_id ctx)"

fun allowed_dispositions :: "workspace_disposition \<Rightarrow> workspace_disposition list" where
  "allowed_dispositions WD_ACTIVE = [WD_EXPORTED, WD_CLEANED, WD_PRESERVED, WD_QUARANTINED]"
| "allowed_dispositions WD_EXPORTED = [WD_CLEANED, WD_PRESERVED, WD_INTEGRATED]"
| "allowed_dispositions WD_PRESERVED = [WD_EXPORTED, WD_INTEGRATED, WD_QUARANTINED]"
| "allowed_dispositions WD_ORPHANED = [WD_QUARANTINED]"
| "allowed_dispositions _ = []"

definition set_workspace_disposition_body ::
  "env \<Rightarrow> instant \<Rightarrow> string \<Rightarrow> string \<Rightarrow> workspace_disposition \<Rightarrow> workspace_disposition \<Rightarrow> string
     \<Rightarrow> string \<Rightarrow> (db, run_workspace \<times> int option) txn" where
  "set_workspace_disposition_body env now eid run_id expected target reason process_instance_id =
     (if blank reason \<or> target = expected then throwT ValueError
      else if target \<notin> set (allowed_dispositions expected) then throwT ValueError
      else
        bindT (readT (require_run_row run_id)) (\<lambda>row.
        if r_workspace_disposition row \<noteq> expected then throwT RunStateConflictError
        else
          bindT (append_event_in_transaction env eid now (run_event row process_instance_id None
            (WorkspaceDispositionChangedPayload expected target reason))) (\<lambda>event.
          bindT (modifyT (update_run run_id (\<lambda>r. r\<lparr>r_workspace_disposition := target,
                   r_last_event_seq := e_seq event\<rparr>))) (\<lambda>_.
          bindT (readT (get_run_workspace run_id)) (\<lambda>w. returnT (w, None))))))"

definition set_workspace_disposition ::
  "env \<Rightarrow> instant \<Rightarrow> string \<Rightarrow> string \<Rightarrow> workspace_disposition \<Rightarrow> workspace_disposition \<Rightarrow> string
     \<Rightarrow> string \<Rightarrow> db \<Rightarrow> (run_workspace \<times> execution_context option) result \<times> db" where
  "set_workspace_disposition env now eid run_id expected target reason process_instance_id =
     run_command None (set_workspace_disposition_body env now eid run_id expected target reason
       process_instance_id)"

fun user_message_digest :: "payload \<Rightarrow> string option" where
  "user_message_digest (UserMessageReceivedPayload sha) = Some sha"
| "user_message_digest _ = None"

text \<open>The user event of the run's turn, joined by \<^verbatim>\<open>turns.user_event_id\<close>.\<close>

definition get_run_user_message :: "env \<Rightarrow> db \<Rightarrow> string \<Rightarrow> string result" where
  "get_run_user_message env d run_id =
     bindE (require_run_row run_id d) (\<lambda>run.
     case Option.bind (row_get t_turn_id (r_turn_id run) (turns d)) (\<lambda>t. get_event d (t_user_event_id t)) of
       None \<Rightarrow> Inl LedgerIntegrityError
     | Some v \<Rightarrow>
         bindE (event_from_row env v) (\<lambda>event.
         case user_message_digest (e_payload event) of
           None \<Rightarrow> Inl LedgerIntegrityError
         | Some sha \<Rightarrow> bindE (get_blob env d sha) (\<lambda>b. Inr (o_content b))))"

section \<open>Checkpoints\<close>

record checkpoint_record =
  kr_checkpoint_id :: string
  kr_run_id :: string
  kr_through_seq :: int
  kr_state_sha256 :: string
  kr_created_at :: instant
  kr_committed_event :: event_envelope

definition checkpoint_of ::
  "env \<Rightarrow> instant \<Rightarrow> string \<Rightarrow> string \<Rightarrow> run_projection \<Rightarrow> checkpoint_row" where
  "checkpoint_of env now checkpoint_id run_id p =
     \<lparr>k_checkpoint_id = checkpoint_id, k_run_id = run_id, k_through_seq = p_last_event_seq p,
      k_state_version = CHECKPOINT_STATE_VERSION, k_phase = snapshot_phase_text (p_phase p),
      k_snapshot_json = snapshot_dump (from_projection p),
      k_snapshot_sha256 = sha256_json env (snapshot_dump (from_projection p)), k_created_at = now\<rparr>"

definition commit_run_checkpoint_body ::
  "env \<Rightarrow> instant \<Rightarrow> string \<Rightarrow> string \<Rightarrow> string \<Rightarrow> string \<Rightarrow> execution_context option
     \<Rightarrow> (db, checkpoint_record \<times> int option) txn" where
  "commit_run_checkpoint_body env now eid run_id checkpoint_id process_instance_id ctx =
     (if blank checkpoint_id then throwT ValueError
      else
        bindT (readT (require_execution_context now run_id ctx)) (\<lambda>row.
        bindT (readT (recover_run_projection_in_transaction env run_id row)) (\<lambda>recovered.
        bindT (returnT (checkpoint_of env now checkpoint_id run_id (rec_projection recovered))) (\<lambda>ck.
        bindT (insert_checkpoint ck) (\<lambda>_.
        bindT (append_event_in_transaction env eid now (run_event row process_instance_id None
          (CheckpointCommittedPayload checkpoint_id (k_through_seq ck) (k_snapshot_sha256 ck)))) (\<lambda>event.
        bindT (touch_run run_id (e_seq event)) (\<lambda>_.
        returnT (\<lparr>kr_checkpoint_id = checkpoint_id, kr_run_id = run_id,
                  kr_through_seq = k_through_seq ck, kr_state_sha256 = k_snapshot_sha256 ck,
                  kr_created_at = now, kr_committed_event = event\<rparr>, Some (e_seq event)))))))))"

definition commit_run_checkpoint ::
  "env \<Rightarrow> instant \<Rightarrow> string \<Rightarrow> string \<Rightarrow> string \<Rightarrow> string \<Rightarrow> execution_context option
     \<Rightarrow> db \<Rightarrow> (checkpoint_record \<times> execution_context option) result \<times> db" where
  "commit_run_checkpoint env now eid run_id checkpoint_id process_instance_id ctx =
     run_command ctx (commit_run_checkpoint_body env now eid run_id checkpoint_id process_instance_id ctx)"

section \<open>Phases and terminal statuses\<close>

definition transition_run_phase_body ::
  "env \<Rightarrow> instant \<Rightarrow> string \<Rightarrow> string \<Rightarrow> run_phase option \<Rightarrow> run_phase \<Rightarrow> string \<Rightarrow> string
     \<Rightarrow> execution_context option \<Rightarrow> (db, run_projection \<times> int option) txn" where
  "transition_run_phase_body env now eid run_id expected_previous_phase next_phase reason
     process_instance_id ctx =
     (if blank reason then throwT ValueError
      else
        bindT (readT (require_execution_context now run_id ctx)) (\<lambda>row.
        bindT (readT (recover_run_projection_in_transaction env run_id row)) (\<lambda>recovered.
        bindT (returnT (rec_projection recovered)) (\<lambda>projection.
        if p_execution_status projection \<noteq> ES_ACTIVE then throwT RunStateConflictError
        else if p_phase projection \<noteq> expected_previous_phase then throwT RunStateConflictError
        else if p_phase projection = Some next_phase then throwT RunStateConflictError
        else
          bindT (append_event_in_transaction env eid now (run_event row process_instance_id None
            (RunPhaseChangedPayload (p_phase projection) next_phase reason))) (\<lambda>event.
          bindT (modifyT (update_run run_id (\<lambda>r. r\<lparr>r_phase := Some next_phase,
                   r_last_event_seq := e_seq event\<rparr>))) (\<lambda>_.
          returnT (projection\<lparr>p_phase := Some next_phase, p_last_event_seq := e_seq event\<rparr>,
                   Some (e_seq event))))))))"

definition transition_run_phase ::
  "env \<Rightarrow> instant \<Rightarrow> string \<Rightarrow> string \<Rightarrow> run_phase option \<Rightarrow> run_phase \<Rightarrow> string \<Rightarrow> string
     \<Rightarrow> execution_context option \<Rightarrow> db
     \<Rightarrow> (run_projection \<times> execution_context option) result \<times> db" where
  "transition_run_phase env now eid run_id expected_previous_phase next_phase reason
     process_instance_id ctx =
     run_command ctx (transition_run_phase_body env now eid run_id expected_previous_phase next_phase
       reason process_instance_id ctx)"

definition complete_row :: "instant \<Rightarrow> int \<Rightarrow> run_row \<Rightarrow> run_row" where
  "complete_row now sq r =
     r\<lparr>r_execution_status := ES_COMPLETED, r_phase := None, r_finished_at := Some now,
       r_last_event_seq := sq\<rparr>"

definition complete_turn :: "turn_row \<Rightarrow> turn_row" where
  "complete_turn t = t\<lparr>t_status := ''completed'', t_active_run_id := None\<rparr>"

definition commit_final_answer_body ::
  "env \<Rightarrow> instant \<Rightarrow> string \<Rightarrow> string \<Rightarrow> string \<Rightarrow> string \<Rightarrow> string \<Rightarrow> verification_status \<Rightarrow> string
     \<Rightarrow> execution_context option \<Rightarrow> (db, run_projection \<times> int option) txn" where
  "commit_final_answer_body env now eid1 eid2 run_id response_event_id answer_blob_sha256
     verification_status process_instance_id ctx =
     bindT (readT (require_execution_context now run_id ctx)) (\<lambda>row.
     bindT (readT (recover_run_projection_in_transaction env run_id row)) (\<lambda>recovered.
     bindT (returnT (rec_projection recovered)) (\<lambda>projection.
     if p_execution_status projection \<noteq> ES_ACTIVE then throwT RunStateConflictError
     else
       bindT (getT (\<lambda>d. blob_exists d answer_blob_sha256)) (\<lambda>answer_blob.
       if \<not> answer_blob then throwT LedgerIntegrityError
       else
         bindT (append_event_in_transaction env eid1 now
           (run_event row process_instance_id (Some response_event_id)
             (FinalAnswerCommittedPayload answer_blob_sha256))) (\<lambda>final_event.
         bindT (append_event_in_transaction env eid2 now
           (run_event row process_instance_id (Some (e_event_id final_event))
             (RunCompletedPayload verification_status))) (\<lambda>completed_event.
         bindT (modifyT (update_run run_id (complete_row now (e_seq completed_event)))) (\<lambda>_.
         bindT (modifyT (update_turn (r_turn_id row) complete_turn)) (\<lambda>_.
         returnT (projection\<lparr>p_execution_status := ES_COMPLETED, p_phase := None,
                    p_last_event_seq := e_seq completed_event\<rparr>, Some (e_seq completed_event)))))))))) "

definition commit_final_answer ::
  "env \<Rightarrow> instant \<Rightarrow> string \<Rightarrow> string \<Rightarrow> string \<Rightarrow> string \<Rightarrow> string \<Rightarrow> verification_status \<Rightarrow> string
     \<Rightarrow> execution_context option \<Rightarrow> db
     \<Rightarrow> (run_projection \<times> execution_context option) result \<times> db" where
  "commit_final_answer env now eid1 eid2 run_id response_event_id answer_blob_sha256
     verification_status process_instance_id ctx =
     run_command ctx (commit_final_answer_body env now eid1 eid2 run_id response_event_id
       answer_blob_sha256 verification_status process_instance_id ctx)"

definition complete_run_body ::
  "env \<Rightarrow> instant \<Rightarrow> string \<Rightarrow> string \<Rightarrow> verification_status \<Rightarrow> string \<Rightarrow> execution_context option
     \<Rightarrow> (db, run_projection \<times> int option) txn" where
  "complete_run_body env now eid run_id verification_status process_instance_id ctx =
     bindT (readT (require_execution_context now run_id ctx)) (\<lambda>row.
     bindT (readT (recover_run_projection_in_transaction env run_id row)) (\<lambda>recovered.
     bindT (returnT (rec_projection recovered)) (\<lambda>projection.
     if \<not> can_transition_execution (p_execution_status projection) ES_COMPLETED
        \<or> p_execution_status projection = ES_COMPLETED
     then throwT RunStateConflictError
     else
       bindT (append_event_in_transaction env eid now (run_event row process_instance_id None
         (RunCompletedPayload verification_status))) (\<lambda>event.
       bindT (modifyT (update_run run_id (complete_row now (e_seq event)))) (\<lambda>_.
       bindT (modifyT (update_turn (r_turn_id row) complete_turn)) (\<lambda>_.
       returnT (projection\<lparr>p_execution_status := ES_COMPLETED, p_phase := None,
                  p_last_event_seq := e_seq event\<rparr>, Some (e_seq event))))))))"

definition complete_run ::
  "env \<Rightarrow> instant \<Rightarrow> string \<Rightarrow> string \<Rightarrow> verification_status \<Rightarrow> string \<Rightarrow> execution_context option
     \<Rightarrow> db \<Rightarrow> (run_projection \<times> execution_context option) result \<times> db" where
  "complete_run env now eid run_id verification_status process_instance_id ctx =
     run_command ctx (complete_run_body env now eid run_id verification_status process_instance_id ctx)"

definition terminate_row :: "execution_status \<Rightarrow> string \<Rightarrow> instant \<Rightarrow> int \<Rightarrow> run_row \<Rightarrow> run_row" where
  "terminate_row st reason now sq r =
     r\<lparr>r_execution_status := st, r_phase := None,
       r_finished_at := (if st = ES_NEEDS_ATTENTION then None else Some now),
       r_terminal_reason := Some (JObj [(''reason'', JStr reason)]), r_last_event_seq := sq\<rparr>"

definition terminate_run_body ::
  "env \<Rightarrow> instant \<Rightarrow> string \<Rightarrow> string \<Rightarrow> execution_status \<Rightarrow> string \<Rightarrow> string
     \<Rightarrow> execution_context option \<Rightarrow> (db, run_projection \<times> int option) txn" where
  "terminate_run_body env now eid run_id execution_status reason process_instance_id ctx =
     (if execution_status \<notin> {ES_FAILED, ES_CANCELLED, ES_BUDGET_EXCEEDED, ES_NEEDS_ATTENTION}
         \<or> blank reason
      then throwT ValueError
      else
        bindT (readT (require_execution_context now run_id ctx)) (\<lambda>row.
        bindT (readT (recover_run_projection_in_transaction env run_id row)) (\<lambda>recovered.
        bindT (returnT (rec_projection recovered)) (\<lambda>projection.
        if p_execution_status projection \<noteq> ES_ACTIVE
        then if p_execution_status projection = execution_status then returnT (projection, None)
             else throwT RunStateConflictError
        else
          bindT (append_event_in_transaction env eid now (run_event row process_instance_id None
            (RunTerminatedPayload execution_status reason))) (\<lambda>event.
          bindT (modifyT (update_run run_id
                   (terminate_row execution_status reason now (e_seq event)))) (\<lambda>_.
          returnT (projection\<lparr>p_execution_status := execution_status, p_phase := None,
                     p_last_event_seq := e_seq event\<rparr>, Some (e_seq event))))))))"

definition terminate_run ::
  "env \<Rightarrow> instant \<Rightarrow> string \<Rightarrow> string \<Rightarrow> execution_status \<Rightarrow> string \<Rightarrow> string
     \<Rightarrow> execution_context option \<Rightarrow> db
     \<Rightarrow> (run_projection \<times> execution_context option) result \<times> db" where
  "terminate_run env now eid run_id execution_status reason process_instance_id ctx =
     run_command ctx (terminate_run_body env now eid run_id execution_status reason
       process_instance_id ctx)"

section \<open>Cancellation\<close>

definition is_cancellation_requested :: "db \<Rightarrow> string \<Rightarrow> bool result" where
  "is_cancellation_requested d run_id =
     bindE (require_run_row run_id d) (\<lambda>row. Inr (r_cancel_requested_at row \<noteq> None))"

definition request_cancellation_body ::
  "env \<Rightarrow> instant \<Rightarrow> string \<Rightarrow> string \<Rightarrow> string \<Rightarrow> string \<Rightarrow> string \<Rightarrow> control_context option
     \<Rightarrow> (db, event_envelope option) txn" where
  "request_cancellation_body env now eid run_id actor reason process_instance_id cc =
     (if blank actor \<or> blank reason then throwT ValueError
      else if (case cc of None \<Rightarrow> False | Some c \<Rightarrow> cc_actor c \<noteq> actor) then throwT RunStateConflictError
      else
        bindT (readT (require_run_row run_id)) (\<lambda>row.
        bindT (returnT (JObj [(''actor'', JStr actor), (''reason'', JStr reason)])) (\<lambda>payload.
        bindT (readT (begin_if_control env run_id ''request_cancellation'' payload cc)) (\<lambda>begun.
        if fst begun then returnT (snd begun)
        else if r_cancel_requested_at row \<noteq> None then
          bindT (record_if_control env now run_id ''request_cancellation'' payload cc None) (\<lambda>_.
          returnT None)
        else if r_execution_status row \<noteq> ES_ACTIVE then throwT RunStateConflictError
        else
          bindT (append_event_in_transaction env eid now (run_event row process_instance_id None
            (CancellationRequestedPayload actor reason))) (\<lambda>event.
          bindT (modifyT (update_run run_id (\<lambda>r. r\<lparr>r_cancel_requested_at := Some (e_occurred_at event),
                   r_cancel_reason := Some reason, r_last_event_seq := e_seq event\<rparr>))) (\<lambda>_.
          bindT (record_if_control env now run_id ''request_cancellation'' payload cc (Some event)) (\<lambda>_.
          returnT (Some event))))))))"

definition request_cancellation ::
  "env \<Rightarrow> instant \<Rightarrow> string \<Rightarrow> string \<Rightarrow> string \<Rightarrow> string \<Rightarrow> string \<Rightarrow> control_context option
     \<Rightarrow> db \<Rightarrow> event_envelope option result \<times> db" where
  "request_cancellation env now eid run_id actor reason process_instance_id cc =
     transact (request_cancellation_body env now eid run_id actor reason process_instance_id cc)"

section \<open>Repair\<close>

definition previous_state :: "run_row \<Rightarrow> json" where
  "previous_state row = JObj
     [(''execution_status'', JStr (execution_status_value (r_execution_status row))),
      (''phase'', opt_dump (\<lambda>x. JStr (run_phase_value x)) (r_phase row)),
      (''workspace_disposition'', JStr (workspace_disposition_value (r_workspace_disposition row)))]"

definition repair_row :: "run_projection \<Rightarrow> run_row \<Rightarrow> run_row" where
  "repair_row p r =
     r\<lparr>r_execution_status := p_execution_status p, r_phase := p_phase p,
       r_workspace_disposition := p_workspace_disposition p, r_last_event_seq := p_last_event_seq p\<rparr>"

definition rebuild_run_projection_body ::
  "env \<Rightarrow> instant \<Rightarrow> string \<Rightarrow> string \<Rightarrow> string \<Rightarrow> (db, run_projection) txn" where
  "rebuild_run_projection_body env now eid run_id process_instance_id =
     bindT (readT (require_run_row run_id)) (\<lambda>row.
     bindT (readT (load_run_events_in_transaction env run_id 0)) (\<lambda>es.
     bindT (liftT (reduce_run_events es None)) (\<lambda>projection.
     bindT (modifyT (update_run run_id (repair_row projection))) (\<lambda>_.
     bindT (append_event_in_transaction env eid now (run_event row process_instance_id None
       (ProjectionRebuiltPayload (p_last_event_seq projection) (sha256_json env (previous_state row))
         (sha256_json env (business_state projection))))) (\<lambda>audit_event.
     bindT (touch_run run_id (e_seq audit_event)) (\<lambda>_.
     returnT (projection\<lparr>p_last_event_seq := e_seq audit_event\<rparr>)))))))"

definition rebuild_run_projection ::
  "env \<Rightarrow> instant \<Rightarrow> string \<Rightarrow> string \<Rightarrow> string \<Rightarrow> db \<Rightarrow> run_projection result \<times> db" where
  "rebuild_run_projection env now eid run_id process_instance_id =
     transact (rebuild_run_projection_body env now eid run_id process_instance_id)"

section \<open>Reading the model-call projection\<close>

definition get_model_call :: "db \<Rightarrow> string \<Rightarrow> model_call_row option" where
  "get_model_call d model_call_id = get_model_call_row d model_call_id"

definition get_next_model_step :: "db \<Rightarrow> string \<Rightarrow> int result" where
  "get_next_model_step d run_id =
     bindE (require_run_row run_id d) (\<lambda>_.
     case rev (sort_key mc_step (filter (\<lambda>m. mc_run_id m = run_id) (model_calls d))) of
       [] \<Rightarrow> Inr 0
     | m # _ \<Rightarrow> Inr (if mc_status m = MS_started then mc_step m else mc_step m + 1))"

record pending_model_response =
  pm_event :: event_envelope
  pm_model_call_id :: string
  pm_step :: int
  pm_response_blob_sha256 :: string

text \<open>The call identifier and blob a response event names, if it is one.\<close>

fun response_names :: "payload \<Rightarrow> (string \<times> string) option" where
  "response_names (ModelResponseReceivedPayload call blob u v) = Some (call, blob)"
| "response_names _ = None"

definition get_latest_unconsumed_model_response ::
  "env \<Rightarrow> db \<Rightarrow> string \<Rightarrow> pending_model_response option result" where
  "get_latest_unconsumed_model_response env d run_id =
     bindE (require_run_row run_id d) (\<lambda>_.
     case filter (\<lambda>m. mc_run_id m = run_id \<and> mc_status m = MS_responded) (model_calls d) of
       [] \<Rightarrow> Inr None
     | [m] \<Rightarrow>
         (case (mc_response_event_id m, mc_response_blob_sha256 m) of
            (Some eid, Some blob) \<Rightarrow>
              (case get_event d eid of
                 None \<Rightarrow> Inl LedgerIntegrityError
               | Some v \<Rightarrow>
                   bindE (event_from_row env v) (\<lambda>response.
                   if e_run_id response \<noteq> Some run_id \<or> Some (e_seq response) \<noteq> mc_response_seq m
                      \<or> response_names (e_payload response) \<noteq> Some (mc_model_call_id m, blob)
                   then Inl LedgerIntegrityError
                   else Inr (Some \<lparr>pm_event = response, pm_model_call_id = mc_model_call_id m,
                          pm_step = mc_step m, pm_response_blob_sha256 = blob\<rparr>)))
          | _ \<Rightarrow> Inl LedgerIntegrityError)
     | _ \<Rightarrow> Inl LedgerIntegrityError)"

end
