(* ===== verification/Lifecycle_Facts.thy ===== *)
theory Lifecycle_Facts
  imports Lifecycle
begin

text \<open>
  What the commands of \<open>Lifecycle\<close> keep: each body preserves the unconditional
  soundness of the ledger, leaves a committed state (integrity invariant, status steps,
  caller in sync), and honours the fence.
\<close>

section \<open>Unconditional soundness\<close>

lemma run_le_updates:
  "run_le r (r\<lparr>r_phase := a, r_last_event_seq := b\<rparr>)"
  "run_le r (r\<lparr>r_worktree_path := c, r_worktree_branch := e, r_workspace_disposition := f,
     r_phase := a, r_last_event_seq := b\<rparr>)"
  "run_le r (r\<lparr>r_workspace_disposition := f, r_last_event_seq := b\<rparr>)"
  "run_le r (complete_row now sq r)"
  "run_le r (terminate_row st reason now sq r)"
  "run_le r (r\<lparr>r_cancel_requested_at := Some t, r_cancel_reason := g, r_last_event_seq := b\<rparr>)"
  "run_le r (repair_row p r)"
  by (simp_all add: run_le_def run_identity_def complete_row_def terminate_row_def repair_row_def)

lemma pres_lifecycle:
  "is_uuid eid \<Longrightarrow> is_uuid eid2 \<Longrightarrow>
     pres (sound_from env d0) (begin_workspace_provisioning_body env now eid eid2 k dm pid ctx)"
  "is_uuid eid \<Longrightarrow> is_uuid eid2 \<Longrightarrow>
     pres (sound_from env d0) (attach_provisioned_workspace_body env now eid eid2 k wt br bc om ot pid ctx)"
  "is_uuid eid \<Longrightarrow> pres (sound_from env d0) (set_workspace_disposition_body env now eid k ex ta re pid)"
  "is_uuid eid \<Longrightarrow> pres (sound_from env d0) (commit_run_checkpoint_body env now eid k ck pid ctx)"
  "is_uuid eid \<Longrightarrow> pres (sound_from env d0) (transition_run_phase_body env now eid k pp np re pid ctx)"
  "is_uuid eid \<Longrightarrow> is_uuid eid2 \<Longrightarrow>
     pres (sound_from env d0) (commit_final_answer_body env now eid eid2 k rsp an vs pid ctx)"
  "is_uuid eid \<Longrightarrow> pres (sound_from env d0) (complete_run_body env now eid k vs pid ctx)"
  "is_uuid eid \<Longrightarrow> pres (sound_from env d0) (terminate_run_body env now eid k st re pid ctx)"
  "is_uuid eid \<Longrightarrow> pres (sound_from env d0) (request_cancellation_body env now eid k ac re pid cc)"
  "is_uuid eid \<Longrightarrow> pres (sound_from env d0) (rebuild_run_projection_body env now eid k pid)"
  unfolding begin_workspace_provisioning_body_def attach_provisioned_workspace_body_def
    set_workspace_disposition_body_def commit_run_checkpoint_body_def transition_run_phase_body_def
    commit_final_answer_body_def complete_run_body_def terminate_run_body_def
    request_cancellation_body_def rebuild_run_projection_body_def
  by (intro pres_rules run_le_updates; assumption)+

section \<open>Committed states\<close>

lemmas row_updates = run_identity_def proj_of_row_def complete_row_def terminate_row_def
  wp_return wp_throw

lemma committed_no_context: "committed env d None v d' \<Longrightarrow> committed env d None v' d'"
  by (simp add: committed_def in_sync_def)

lemma begin_workspace_provisioning_committed:
  assumes "store_ok env d" "is_uuid eid" "is_uuid eid2"
  shows "wp (begin_workspace_provisioning_body env now eid eid2 k dm pid ctx) (commits env d ctx) d"
  unfolding begin_workspace_provisioning_body_def
proof (rule wp_fenced [OF assms(1)], rule wp_recover [OF assms(1)], assumption, unfold wp_if,
    intro conjI impI, goal_cases)
  case (3 row rec)
  show ?case
    by (rule wp_append_neutral [OF 3(3)], rule assms, simp,
        rule wp_append_phase, assumption, rule assms, use 3 in simp,
        rule wp_catch_up, assumption, use 3 in \<open>simp_all add: row_updates\<close>)
qed (simp_all add: wp_return wp_throw committed_unchanged assms)

lemma wp_get_run_workspace:
  "(\<And>w. Q (w, v) d) \<Longrightarrow> wp (bindT (readT (get_run_workspace k)) (\<lambda>w. returnT (w, v))) Q d"
  by (simp add: wp_bind wp_read wp_return)

lemma attach_provisioned_workspace_committed:
  assumes "store_ok env d" "is_uuid eid" "is_uuid eid2"
  shows "wp (attach_provisioned_workspace_body env now eid eid2 k wt br bc om ot pid ctx) (commits env d ctx) d"
proof -
  have "wp (bindT (readT (require_execution_context now k ctx)) (\<lambda>row.
     if r_base_commit_sha row \<noteq> bc then throwT RunStateConflictError
     else case r_worktree_path row of
       Some path \<Rightarrow>
         if path \<noteq> rw then throwT RunStateConflictError
         else bindT (readT (get_run_workspace k)) (\<lambda>w. returnT (w, None))
     | None \<Rightarrow>
         bindT (readT (recover_run_projection_in_transaction env k row)) (\<lambda>recovered.
         if p_phase (rec_projection recovered) \<noteq> Some RP_PROVISIONING
         then throwT RunStateConflictError
         else
           bindT (append_event_in_transaction env eid now (run_event row pid None
             (WorkspaceProvisionedPayload rw br rm (sha256 env ot)))) (\<lambda>provisioned.
           bindT (append_event_in_transaction env eid2 now
             (run_event row pid (Some (e_event_id provisioned))
               (RunPhaseChangedPayload (Some RP_PROVISIONING) RP_AWAITING_MODEL
                 ''owned worktree attached''))) (\<lambda>phase_event.
           bindT (modifyT (update_run k (\<lambda>r. r\<lparr>r_worktree_path := Some rw,
                    r_worktree_branch := Some br, r_workspace_disposition := WD_ACTIVE,
                    r_phase := Some RP_AWAITING_MODEL, r_last_event_seq := e_seq phase_event\<rparr>))) (\<lambda>_.
           bindT (readT (get_run_workspace k)) (\<lambda>w.
           returnT (w, Some (e_seq phase_event))))))))) (commits env d ctx) d" for rw rm
  proof (rule wp_fenced [OF assms(1)], unfold wp_if wp_case_option, intro conjI impI allI, goal_cases)
    case (2 row)
    show ?case
    proof (rule wp_recover [OF assms(1) 2(2)], unfold wp_if, intro conjI impI, goal_cases)
      case (2 rec)
      show ?case
        by (rule wp_append_provisioned, rule \<open>in_progress env d d k row (proj_of_row row)\<close>, rule assms,
            rule wp_append_phase, assumption, rule assms, use 2 in simp,
            rule wp_catch_up, assumption, rule \<open>fence_passed ctx row\<close>,
            simp_all add: row_updates wp_get_run_workspace)
    qed (simp add: wp_throw)
  qed (simp_all add: wp_throw wp_get_run_workspace committed_unchanged assms)
  then show ?thesis
    by (simp add: attach_provisioned_workspace_body_def wp_bind wp_lift)
qed

lemma set_workspace_disposition_committed:
  assumes "store_ok env d" "is_uuid eid"
  shows "wp (set_workspace_disposition_body env now eid k ex ta re pid) (commits env d None) d"
  unfolding set_workspace_disposition_body_def wp_if
proof (intro conjI impI, goal_cases)
  case 3
  show ?case
  proof (rule wp_run_row [OF assms(1)], unfold wp_if, intro conjI impI, goal_cases)
    case (2 row)
    show ?case
      by (rule wp_append_disposition, rule 2, rule assms, use 2 in simp,
          rule wp_catch_up [where ctx = None], assumption,
          simp_all add: row_updates wp_get_run_workspace committed_no_context)
  qed (simp add: wp_throw)
qed (simp_all add: wp_throw)

lemma transition_run_phase_committed:
  assumes "store_ok env d" "is_uuid eid"
  shows "wp (transition_run_phase_body env now eid k pp np re pid ctx) (commits env d ctx) d"
  unfolding transition_run_phase_body_def wp_if
proof (intro conjI impI, goal_cases)
  case 2
  show ?case
  proof (rule wp_fenced [OF assms(1)], rule wp_recover [OF assms(1)], assumption,
      unfold wp_bind [of "returnT _"] wp_return wp_if, intro conjI impI, goal_cases)
    case (4 row rec)
    show ?case
      by (rule wp_append_phase, rule 4, rule assms, use 4 in simp,
          rule wp_catch_up, assumption, use 4 in \<open>simp_all add: row_updates\<close>)
  qed (simp_all add: wp_throw)
qed (simp add: wp_throw)

lemma commit_final_answer_committed:
  assumes "store_ok env d" "is_uuid eid" "is_uuid eid2"
  shows "wp (commit_final_answer_body env now eid eid2 k rsp an vs pid ctx) (commits env d ctx) d"
  unfolding commit_final_answer_body_def
proof (rule wp_fenced [OF assms(1)], rule wp_recover [OF assms(1)], assumption,
    unfold wp_bind [of "returnT _"] wp_bind [of "getT _"] wp_return wp_get wp_if, intro conjI impI, goal_cases)
  case (3 row rec)
  show ?case
    by (rule wp_append_neutral, rule 3, rule assms, simp,
        rule wp_append_completed, assumption, rule assms,
        rule wp_catch_up, assumption,
        use 3 in \<open>simp_all add: row_updates wp_bind wp_modify update_turn_def\<close>)
qed (simp_all add: wp_throw)

lemma complete_run_committed:
  assumes "store_ok env d" "is_uuid eid"
  shows "wp (complete_run_body env now eid k vs pid ctx) (commits env d ctx) d"
  unfolding complete_run_body_def
proof (rule wp_fenced [OF assms(1)], rule wp_recover [OF assms(1)], assumption,
    unfold wp_bind [of "returnT _"] wp_return wp_if, intro conjI impI, goal_cases)
  case (2 row rec)
  then have "r_execution_status row = ES_ACTIVE"
    using completed_only_from_active [of "r_execution_status row"] by simp
  then show ?case
    by (intro wp_append_completed [OF 2(3)] assms, intro wp_catch_up)
      (assumption, use 2 in \<open>simp_all add: row_updates wp_bind wp_modify update_turn_def\<close>)
qed (simp_all add: wp_throw)

lemma terminate_run_committed:
  assumes "store_ok env d" "is_uuid eid"
  shows "wp (terminate_run_body env now eid k st re pid ctx) (commits env d ctx) d"
  unfolding terminate_run_body_def wp_if
proof (intro conjI impI, goal_cases)
  case 2
  show ?case
  proof (rule wp_fenced [OF assms(1)], rule wp_recover [OF assms(1)], assumption,
      unfold wp_bind [of "returnT _"] wp_return wp_if, intro conjI impI, goal_cases)
    case (3 row rec)
    show ?case
      by (rule wp_append_terminated, rule 3, rule assms,
          rule wp_catch_up, assumption, use 3 in \<open>simp_all add: row_updates\<close>)
  qed (simp_all add: wp_throw wp_return committed_unchanged assms)
qed (simp add: wp_throw)

lemma request_cancellation_committed:
  assumes "store_ok env d" "is_uuid eid"
  shows "wp (request_cancellation_body env now eid k ac re pid cc) (\<lambda>_. committed env d None None) d"
  unfolding request_cancellation_body_def wp_if
proof (intro conjI impI, goal_cases)
  case 3
  show ?case
  proof (rule wp_run_row [OF assms(1)],
      unfold wp_bind [of "returnT _"] wp_bind [of "readT _"] wp_return wp_read wp_if,
      intro allI conjI impI, goal_cases)
    case (4 row begun)
    show ?case
      by (rule wp_append_neutral, rule 4, rule assms, simp, rule wp_catch_up [where ctx = None], assumption,
          simp_all add: row_updates wp_bind,
          rule wp_record_if_control, simp, erule committed_no_context)
  qed (simp_all add: wp_throw wp_bind wp_return wp_record_if_control committed_unchanged assms)
qed (simp_all add: wp_throw)

text \<open>A new checkpoint is the replay of the events up to it.\<close>

lemma checkpoint_of_valid:
  "projection_from_checkpoint_row env (checkpoint_of env now cid rid p) r = Inr p' \<Longrightarrow> p' = p"
  by (auto simp: projection_from_checkpoint_row_def checkpoint_of_def split: if_splits)

lemma replay_position:
  assumes "ledger_ok env d" "replays env d rid (Some p)"
  shows "p_last_event_seq p \<in> e_seq ` set (history env d rid)"
    and "\<forall>e \<in> set (history env d rid). e_seq e \<le> p_last_event_seq p"
proof -
  let ?H = "history env d rid"
  have fold: "foldE reduce_step (reduce_start None) ?H = Inr (reduce_start (Some p))"
    using assms(2) by (simp add: replays_def)
  have live: "run_live e" if "e \<in> set ?H" for e
    using that ledger_row [OF assms(1)] by (auto simp: history_def)
  show le: "\<forall>e \<in> set ?H. e_seq e \<le> p_last_event_seq p"
    using run_reducer.fold_positions [OF fold] live by (auto simp: reduce_start_def)
  have "?H \<noteq> []" using fold by (auto simp: reduce_start_def)
  then obtain e where "e \<in> set ?H" by (meson last_in_set)
  with le history_positive [OF assms(1)] have "0 < p_last_event_seq p" by force
  then show "p_last_event_seq p \<in> e_seq ` set ?H"
    using run_reducer.fold_cursor_in [OF fold] by (auto simp: reduce_start_def)
qed

lemma new_checkpoint_sound:
  assumes "ledger_ok env d" "replays env d rid (Some p)" "r_run_id r = rid"
  shows "checkpoint_sound env d (checkpoint_of env now cid rid p) r"
proof -
  have "filter (\<lambda>e. e_seq e \<le> p_last_event_seq p) (history env d rid) = history env d rid"
    using replay_position(2) [OF assms(1,2)] by (simp add: filter_id_conv)
  then have "reduce_run_events (filter (\<lambda>e. e_seq e \<le> p_last_event_seq p) (history env d rid)) None = Inr p"
    using assms(2) by (simp add: replays_def reduce_run_events_Inr)
  then show ?thesis
    using replay_position(1) [OF assms(1,2)] assms(3)
    by (auto simp: checkpoint_sound_def dest!: checkpoint_of_valid)
      (simp_all add: checkpoint_of_def)
qed

lemma wp_insert_checkpoint:
  assumes "in_progress env d0 d rid row p" "ck = checkpoint_of env now cid rid p"
    and "\<And>d'. in_progress env d0 d' rid row p \<Longrightarrow> wp K Q d'"
  shows "wp (bindT (insert_checkpoint ck) (\<lambda>_. K)) Q d"
proof -
  let ?d = "d\<lparr>checkpoints := checkpoints d @ [ck]\<rparr>"
  from assms(1) have L: "lagging env d rid (Some p)" and row: "row \<in> set (runs d)" "r_run_id row = rid"
    using get_run_in by (auto simp: in_progress_def get_run_def dest: row_get_SomeD)
  then have rep: "ledger_ok env d" "replays env d rid (Some p)"
    by (auto simp: lagging_def ledger_sound_def)
  have H: "history env ?d = history env d" by (simp add: history_def fun_eq_iff)
  have same: "checkpoint_sound env ?d = checkpoint_sound env d"
    by (simp add: checkpoint_sound_def fun_eq_iff H)
  have id: "k_run_id ck = rid" by (simp add: assms(2) checkpoint_of_def)
  have "\<forall>r \<in> set (runs d). r_run_id r = rid \<longrightarrow> checkpoint_sound env d ck r"
    unfolding assms(2) using new_checkpoint_sound [OF rep] by blast
  then have "checkpoints_ok env ?d"
    using L row id unfolding lagging_def checkpoints_ok_def same by auto
  moreover have "ledger_sound env ?d = ledger_sound env d" by (rule ledger_sound_cong) simp_all
  ultimately have "lagging env ?d rid (Some p)"
    using L by (simp add: lagging_def run_sessions_ok_def replays_def H)
  then have "in_progress env d0 ?d rid row p" using assms(1) by (simp add: in_progress_def)
  then show ?thesis
    unfolding wp_bind by (intro wp_inserts) (rule assms(3))
qed

lemma commit_run_checkpoint_committed:
  assumes "store_ok env d" "is_uuid eid"
  shows "wp (commit_run_checkpoint_body env now eid k ck pid ctx) (commits env d ctx) d"
  unfolding commit_run_checkpoint_body_def wp_if
proof (intro conjI impI, goal_cases)
  case 2
  show ?case
  proof (rule wp_fenced [OF assms(1)], rule wp_recover [OF assms(1)], assumption,
      unfold wp_bind [of "returnT _"] wp_return, goal_cases)
    case (1 row rec)
    show ?case
      by (rule wp_insert_checkpoint, rule 1, simp add: 1, rule wp_append_neutral, assumption,
          rule assms, simp, rule wp_touch, assumption, use 1 in \<open>simp_all add: wp_return\<close>)
  qed
qed (simp add: wp_throw)

lemma update_run_same:
  assumes "distinct (map r_run_id (runs d))" "get_run d k = Some r" "f r = r"
  shows "update_run k f d = d"
proof -
  have "row_upd r_run_id k f (runs d) = runs d"
    using get_run_unique [OF assms(1,2)] assms(3) by (auto simp: row_upd_def intro!: map_idI)
  then show ?thesis by (simp add: update_run_def)
qed

text \<open>On a sound store the repair command finds nothing to repair.\<close>

lemma rebuild_run_projection_committed:
  assumes "store_ok env d" "is_uuid eid"
  shows "wp (rebuild_run_projection_body env now eid k pid) (\<lambda>_. committed env d None None) d"
  unfolding rebuild_run_projection_body_def
proof (rule wp_run_row [OF assms(1)],
    unfold wp_bind [of "readT _"] wp_bind [of "liftT _"] wp_read wp_lift wp_bind [of "modifyT _"] wp_modify,
    intro allI impI, goal_cases)
  case (1 row es p)
  have S: "ledger_ok env d" "run_sessions_ok d" "distinct (map r_run_id (runs d))"
    using assms(1) by (auto simp: store_ok_def ledger_sound_def runs_ok_def)
  have "row \<in> set (runs d)" "r_run_id row = k" using 1(1) by (auto dest: get_run_in)
  then have "reduce_run_events (history env d k) None = Inr (proj_of_row row)"
    using assms(1) by (auto simp: store_ok_def runs_ok_def)
  then have p: "p = proj_of_row row" using 1(3,4) load_full_history [OF S] by simp
  have same: "update_run k (repair_row p) d = d"
    using S(3) 1(1) by (rule update_run_same) (simp add: p repair_row_def)
  show ?case
    by (simp only: same, rule wp_append_neutral, rule 1, rule assms, simp,
        rule wp_touch [where ctx = None], assumption, simp_all add: wp_return,
        erule committed_no_context)
qed

section \<open>Creating a run\<close>

lemma insert_turn_ok:
  "insert_turn t d = Inr (u, d') \<Longrightarrow> d' = d\<lparr>turns := turns d @ [t]\<rparr>"
  by (auto simp: insert_turn_def split: if_splits)

lemma blob_stored_store_ok:
  assumes "blob_stored env c d b d'" "store_ok env d"
  shows "store_ok env d'"
proof -
  note T = blob_stored_tables [OF assms(1)]
  have "ledger_sound env d'"
    using assms blob_stored_sound by (auto simp: store_ok_def)
  moreover have "checkpoints_ok env d' = checkpoints_ok env d"
    using T by (intro checkpoints_ok_cong) auto
  ultimately show ?thesis
    using assms(2) T by (simp add: store_ok_def runs_ok_def run_sessions_ok_def history_cong [of d' d])
qed

text \<open>The first event of a run starts its projection.\<close>

lemma reduce_created:
  "e_run_id e = Some rid \<Longrightarrow> e_turn_id e = Some tid \<Longrightarrow> 0 < e_seq e \<Longrightarrow>
     e_payload e = RunCreatedPayload root commit limits \<Longrightarrow>
     reduce_step (reduce_start None) e = Inr (reduce_start (Some
       \<lparr>p_run_id = rid, p_session_id = e_session_id e, p_turn_id = tid,
        p_execution_status = ES_ACTIVE, p_phase = None, p_workspace_disposition = WD_NONE,
        p_base_repo_root = root, p_base_commit_sha = commit, p_budget_limits = limits,
        p_last_event_seq = e_seq e\<rparr>))"
  by (simp add: reduce_step_def reduce_start_def)

lemma appended_seq_positive:
  assumes "appended env eid now q d e d'" "ledger_ok env d"
  shows "0 < e_seq e"
  using assms appended_fields [OF assms(1)]
  by (auto simp: ledger_ok_def get_session_def dest!: row_get_SomeD)

text \<open>
  The events of a new run: the user message without a run, the creation, the first phase.
\<close>

lemma create_events_lagging:
  assumes run: "lagging env d0 rid None" "get_run d0 rid = Some (new_run rid tid sid root commit limits now)"
    and A1: "appended env eid1 now q1 d0 e1 d1" "is_uuid eid1" "q_run_id q1 = None"
    and A2: "appended env eid2 now q2 d1 e2 d2" "is_uuid eid2"
    and q2: "q_run_id q2 = Some rid" "q_session_id q2 = sid" "q_turn_id q2 = Some tid"
      "q_payload q2 = RunCreatedPayload root commit limits"
    and A3: "appended env eid3 now q3 d2 e3 d3" "is_uuid eid3"
    and q3: "q_run_id q3 = Some rid" "q_session_id q3 = sid"
      "q_payload q3 = RunPhaseChangedPayload None ph reason"
  shows "store_ok env (update_run rid (\<lambda>r. r\<lparr>r_phase := Some ph, r_last_event_seq := e_seq e3\<rparr>) d3)
    \<and> (\<exists>p. reduce_run_events [e2, e3] None = Inr p)"
proof
  let ?r = "new_run rid tid sid root commit limits now"
  note F2 = appended_fields [OF A2(1)] and F3 = appended_fields [OF A3(1)]
  have L1: "lagging env d1 rid None" using A1 run(1) by (rule appended_no_run)
  have r1: "get_run d1 rid = Some ?r" "get_run d2 rid = Some ?r" "get_run d3 rid = Some ?r"
    using run(2) A1(1) A2(1) A3(1) by (simp_all add: get_run_appended)
  define p where "p = (proj_of_row ?r)\<lparr>p_last_event_seq := e_seq e2\<rparr>"
  have "0 < e_seq e2"
    using A2(1) L1 by (intro appended_seq_positive) (auto simp: lagging_def ledger_sound_def)
  then have step2: "reduce_step (reduce_start None) e2 = Inr (reduce_start (Some p))"
    using F2 q2 by (subst reduce_created) (auto simp: p_def proj_of_row_def new_run_def)
  have L2: "lagging env d2 rid (Some p)"
    using step2 q2 r1(1) by (intro appended_lagging [OF L1 A2]) (auto simp: new_run_def)
  have "e_seq e2 < e_seq e3"
    using lagging_cursor [OF L2 A3 q3(1) r1(2)] q3 by (simp add: p_def new_run_def)
  then have step3: "reduce_step (reduce_start (Some p)) e3 =
      Inr (reduce_start (Some (p\<lparr>p_phase := Some ph, p_last_event_seq := e_seq e3\<rparr>)))"
    using F3 q3 by (simp add: reduce_step_continue p_def new_run_def)
      (simp add: reduce_start_def proj_of_row_def)
  have "lagging env d3 rid (Some (p\<lparr>p_phase := Some ph, p_last_event_seq := e_seq e3\<rparr>))"
    using step3 q3 r1(2) by (intro appended_lagging [OF L2 A3]) (auto simp: new_run_def)
  then show "store_ok env (update_run rid (\<lambda>r. r\<lparr>r_phase := Some ph, r_last_event_seq := e_seq e3\<rparr>) d3)"
    using r1(3) by (rule store_ok_catch_up) (simp_all add: run_identity_def proj_of_row_def p_def new_run_def)
  show "\<exists>p. reduce_run_events [e2, e3] None = Inr p"
    unfolding reduce_run_events_Inr using step2 step3 by auto
qed

lemma readT_Inr: "readT f s = Inr (x, s') \<longleftrightarrow> f s = Inr x \<and> s' = s"
  by (auto simp: readT_def split: sum.splits)

lemma create_turn_and_run_steps:
  assumes "create_turn_and_run_body env now eid1 eid2 eid3 sid tid rid msg root commit limits pid d
      = Inr ((blob, e1, e2, e3), d')"
  obtains d1 d2 d3 q1 d4 q2 d5 q3 d6 where
    "blob_stored env msg d blob d1"
    "insert_turn (new_turn tid sid (e_event_id e1) rid now) d1 = Inr ((), d2)"
    "insert_run (new_run rid tid sid (resolve_path env root) commit limits now) d2 = Inr ((), d3)"
    "appended env eid1 now q1 d3 e1 d4" "q_run_id q1 = None"
    "appended env eid2 now q2 d4 e2 d5" "q_run_id q2 = Some rid" "q_session_id q2 = sid"
    "q_turn_id q2 = Some tid" "q_payload q2 = RunCreatedPayload (resolve_path env root) commit limits"
    "appended env eid3 now q3 d5 e3 d6" "q_run_id q3 = Some rid" "q_session_id q3 = sid"
    "q_payload q3 = RunPhaseChangedPayload None RP_PREFLIGHTING ''run created''"
    "d' = update_run rid (\<lambda>r. r\<lparr>r_phase := Some RP_PREFLIGHTING, r_last_event_seq := e_seq e3\<rparr>) d6"
proof -
  define q1 where "q1 = \<lparr>q_session_id = sid, q_process_instance_id = pid,
    q_payload = UserMessageReceivedPayload (o_sha256 blob), q_turn_id = Some tid,
    q_run_id = None, q_causation_event_id = None, q_correlation_id = None\<rparr>"
  define q2 where "q2 = \<lparr>q_session_id = sid, q_process_instance_id = pid,
    q_payload = RunCreatedPayload (resolve_path env root) commit limits,
    q_turn_id = Some tid, q_run_id = Some rid,
    q_causation_event_id = Some (e_event_id e1), q_correlation_id = Some rid\<rparr>"
  define q3 where "q3 = \<lparr>q_session_id = sid, q_process_instance_id = pid,
    q_payload = RunPhaseChangedPayload None RP_PREFLIGHTING ''run created'',
    q_turn_id = Some tid, q_run_id = Some rid,
    q_causation_event_id = Some (e_event_id e2), q_correlation_id = Some rid\<rparr>"
  from assms obtain d1 d2 d3 d4 d5 d6 where
    b: "put_blob_in_transaction env now msg ''text/plain; charset=utf-8'' d = Inr (blob, d1)"
    and p: "prepare_event eid1 now q1 d1 = Inr e1"
    and t: "insert_turn (new_turn tid sid (e_event_id e1) rid now) d1 = Inr ((), d2)"
    and r: "insert_run (new_run rid tid sid (resolve_path env root) commit limits now) d2 = Inr ((), d3)"
    and i: "insert_event env e1 d3 = Inr ((), d4)"
    and a2: "append_event_in_transaction env eid2 now q2 d4 = Inr (e2, d5)"
    and a3: "append_event_in_transaction env eid3 now q3 d5 = Inr (e3, d6)"
    and d': "d' = update_run rid (\<lambda>r. r\<lparr>r_phase := Some RP_PREFLIGHTING, r_last_event_seq := e_seq e3\<rparr>) d6"
    unfolding create_turn_and_run_body_def q1_def q2_def q3_def
    by (auto simp: bindT_eq_Inr readT_Inr split: if_splits)
  have "sessions d3 = sessions d1"
    using t r by (auto simp: insert_turn_def insert_run_def split: if_splits)
  then have "appended env eid1 now q1 d3 e1 d4"
    using p i by (intro inserted_appended) (auto simp: get_session_def)
  with put_blob_stored [OF b] t r append_appended [OF a2] append_appended [OF a3] d' show ?thesis
    by (intro that [of d1 d2 d3 q1 d4 q2 d5 q3 d6]) (simp_all add: q1_def q2_def q3_def)
qed

lemma create_turn_and_run_ok:
  assumes S: "store_ok env d" and U: "is_uuid eid1" "is_uuid eid2" "is_uuid eid3"
    and C: "create_turn_and_run_body env now eid1 eid2 eid3 sid tid rid msg root commit limits pid d
      = Inr ((blob, e1, e2, e3), d')"
  shows "store_ok env d' \<and> (\<exists>p. reduce_run_events [e2, e3] None = Inr p)"
proof -
  from C obtain d1 d2 d3 q1 d4 q2 d5 q3 d6 where steps:
    "blob_stored env msg d blob d1"
    "insert_turn (new_turn tid sid (e_event_id e1) rid now) d1 = Inr ((), d2)"
    "insert_run (new_run rid tid sid (resolve_path env root) commit limits now) d2 = Inr ((), d3)"
    and a1: "appended env eid1 now q1 d3 e1 d4" "q_run_id q1 = None"
    and a2: "appended env eid2 now q2 d4 e2 d5" "q_run_id q2 = Some rid" "q_session_id q2 = sid"
    "q_turn_id q2 = Some tid" "q_payload q2 = RunCreatedPayload (resolve_path env root) commit limits"
    and a3: "appended env eid3 now q3 d5 e3 d6" "q_run_id q3 = Some rid" "q_session_id q3 = sid"
    "q_payload q3 = RunPhaseChangedPayload None RP_PREFLIGHTING ''run created''"
    and d': "d' = update_run rid (\<lambda>r. r\<lparr>r_phase := Some RP_PREFLIGHTING, r_last_event_seq := e_seq e3\<rparr>) d6"
    by (rule create_turn_and_run_steps)
  have "store_ok env d2"
    using blob_stored_store_ok [OF steps(1) S] insert_turn_ok [OF steps(2)] by simp
  then have "lagging env d3 rid None \<and>
      get_run d3 rid = Some (new_run rid tid sid (resolve_path env root) commit limits now)"
    using insert_run_lagging [OF steps(3)] by (simp add: new_run_def)
  then show ?thesis
    unfolding d'
    by (intro create_events_lagging [OF _ _ a1(1) U(1) a1(2) a2(1) U(2) a2(2-5) a3(1) U(3) a3(2-4)]) auto
qed

text \<open>It also only adds: the new events end the ledger, existing runs stay as they were.\<close>

lemma create_turn_and_run_evolves:
  assumes "create_turn_and_run_body env now eid1 eid2 eid3 sid tid rid msg root commit limits pid d
      = Inr ((blob, e1, e2, e3), d')" "ledger_sound env d" "is_uuid eid1" "is_uuid eid2" "is_uuid eid3"
  shows "ledger_sound env d' \<and> evolves d d'"
  using assms(1)
proof (rule create_turn_and_run_steps)
  fix d1 d2 d3 q1 d4 q2 d5 q3 d6
  assume *: "blob_stored env msg d blob d1"
    "insert_turn (new_turn tid sid (e_event_id e1) rid now) d1 = Inr ((), d2)"
    "insert_run (new_run rid tid sid (resolve_path env root) commit limits now) d2 = Inr ((), d3)"
    "appended env eid1 now q1 d3 e1 d4" "appended env eid2 now q2 d4 e2 d5"
    "appended env eid3 now q3 d5 e3 d6"
    and d': "d' = update_run rid (\<lambda>r. r\<lparr>r_phase := Some RP_PREFLIGHTING, r_last_event_seq := e_seq e3\<rparr>) d6"
  have "sound_from env d d1"
    using blob_stored_sound [OF *(1) assms(2)] by (simp add: sound_from_def)
  then have "sound_from env d d3"
    using presD [OF pres_inserts(1) _ *(2)] presD [OF pres_inserts(2) _ *(3)] by blast
  then have "sound_from env d d6"
    using *(4-6) assms(3-5) unfolding sound_from_def
    by (blast intro: appended_ledger_sound appended_evolves evolves_trans)
  moreover have "pres (sound_from env d) (modifyT (update_run rid
      (\<lambda>r. r\<lparr>r_phase := Some RP_PREFLIGHTING, r_last_event_seq := e_seq e3\<rparr>)))"
    by (intro pres_rules run_le_updates)
  ultimately have "sound_from env d d'"
    unfolding d' by (auto dest: presD)
  then show ?thesis by (simp add: sound_from_def)
qed

lemma status_step_runs_le:
  assumes "\<And>k r. get_run d k = Some r \<Longrightarrow> \<exists>r'. get_run d' k = Some r' \<and>
    r_execution_status r' = r_execution_status r"
  shows "status_step d d'"
  using assms unfolding status_step_def by blast

lemma create_turn_and_run_status:
  assumes "create_turn_and_run_body env now eid1 eid2 eid3 sid tid rid msg root commit limits pid d
      = Inr ((blob, e1, e2, e3), d')"
  shows "status_step d d'"
  using assms
proof (rule create_turn_and_run_steps)
  fix d1 d2 d3 q1 d4 q2 d5 q3 d6
  assume *: "blob_stored env msg d blob d1"
    "insert_turn (new_turn tid sid (e_event_id e1) rid now) d1 = Inr ((), d2)"
    "insert_run (new_run rid tid sid (resolve_path env root) commit limits now) d2 = Inr ((), d3)"
    "appended env eid1 now q1 d3 e1 d4" "appended env eid2 now q2 d4 e2 d5"
    "appended env eid3 now q3 d5 e3 d6"
    and d': "d' = update_run rid (\<lambda>r. r\<lparr>r_phase := Some RP_PREFLIGHTING, r_last_event_seq := e_seq e3\<rparr>) d6"
  have r: "runs d6 = runs d @ [new_run rid tid sid (resolve_path env root) commit limits now]"
    using blob_stored_tables [OF *(1)] insert_turn_ok [OF *(2)] *(3) appended_tables [OF *(4)]
      appended_tables [OF *(5)] appended_tables [OF *(6)]
    by (auto simp: insert_run_def split: if_splits)
  then show ?thesis
    unfolding d'
    by (intro status_step_runs_le) (auto simp: update_run_def get_run_def tbl_simps)
qed

section \<open>Creating a session\<close>

lemma create_session_ok:
  assumes "is_uuid eid" "create_session env now eid sid root config pid d = (Inr e, d')"
  shows "store_ok env d \<longrightarrow> store_ok env d' \<and> status_step d d'"
    and "ledger_sound env d \<longrightarrow> ledger_sound env d' \<and> evolves d d'"
proof -
  from assms(2) obtain s d1 q where i: "insert_session s d = Inr ((), d1)" "s_next_seq s = 1"
      and a: "append_event_in_transaction env eid now q d1 = Inr (e, d')" "q_run_id q = None"
    unfolding create_session_def transact_Inr bindT_eq_Inr by fastforce
  note A = append_appended [OF a(1)]
  have runs: "runs d' = runs d"
    using i(1) appended_tables [OF A] by (auto simp: insert_session_def split: if_splits)
  show "store_ok env d \<longrightarrow> store_ok env d' \<and> status_step d d'"
    using insert_session_ok [OF i] appended_no_run_store [OF A assms(1) a(2)] runs
    by (auto simp: get_run_def intro!: status_step_runs_le)
  show "ledger_sound env d \<longrightarrow> ledger_sound env d' \<and> evolves d d'"
    using presD [OF pres_insert_session [OF i(2)] _ i(1), of env d] appended_ledger_sound [OF A assms(1)]
      appended_evolves [OF A]
    by (auto simp: sound_from_def intro: evolves_trans)
qed

section \<open>Fences\<close>

interpretation begin_workspace_fence: fenced_command
  "begin_workspace_provisioning_body env now eid eid2 k dm pid" "\<lambda>_. Some k" now
  for env now eid eid2 k dm pid
  by unfold_locales (simp add: begin_workspace_provisioning_body_def wp_simps)

interpretation attach_workspace_fence: fenced_command
  "attach_provisioned_workspace_body env now eid eid2 k wt br bc om ot pid" "\<lambda>_. Some k" now
  for env now eid eid2 k wt br bc om ot pid
  by unfold_locales (simp add: attach_provisioned_workspace_body_def wp_simps)

interpretation checkpoint_fence: fenced_command
  "commit_run_checkpoint_body env now eid k ck pid" "\<lambda>_. Some k" now for env now eid k ck pid
  by unfold_locales (simp add: commit_run_checkpoint_body_def wp_simps)

interpretation transition_fence: fenced_command
  "transition_run_phase_body env now eid k pp np re pid" "\<lambda>_. Some k" now
  for env now eid k pp np re pid
  by unfold_locales (simp add: transition_run_phase_body_def wp_simps)

interpretation final_answer_fence: fenced_command
  "commit_final_answer_body env now eid eid2 k rsp an vs pid" "\<lambda>_. Some k" now
  for env now eid eid2 k rsp an vs pid
  by unfold_locales (simp add: commit_final_answer_body_def wp_simps)

interpretation complete_fence: fenced_command
  "complete_run_body env now eid k vs pid" "\<lambda>_. Some k" now for env now eid k vs pid
  by unfold_locales (simp add: complete_run_body_def wp_simps)

interpretation terminate_fence: fenced_command
  "terminate_run_body env now eid k st re pid" "\<lambda>_. Some k" now for env now eid k st re pid
  by unfold_locales (simp add: terminate_run_body_def wp_simps)

end
