(* ===== verification/Views.thy ===== *)
theory Views
  imports Lifecycle_Facts
begin

text \<open>
  Commands that concern other tables leave a part of the database alone. A \<open>run_view\<close> is a
  part that does not depend on the ledger, the blobs, the model calls or the columns the
  life cycle of a run changes; what the commands keep of such a part is proved once here
  and used for the tool tables and for the budgets.
\<close>

locale run_view =
  fixes view :: "db \<Rightarrow> 'v"
  assumes view_sessions: "view (d\<lparr>sessions := s\<rparr>) = view d"
    and view_events: "view (d\<lparr>events := es\<rparr>) = view d"
    and view_model_calls: "view (d\<lparr>model_calls := ms\<rparr>) = view d"
    and view_blobs: "view (d\<lparr>blobs := bs\<rparr>) = view d"
    and view_turns: "view (d\<lparr>turns := ts\<rparr>) = view d"
    and view_checkpoints: "view (d\<lparr>checkpoints := cs\<rparr>) = view d"
    and view_control_commands: "view (d\<lparr>control_commands := ccs\<rparr>) = view d"
    and view_map_runs: "(\<And>r. r_run_id (f r) = r_run_id r \<and> r_budget_limits (f r) = r_budget_limits r \<and>
      r_budget_consumed (f r) = r_budget_consumed r) \<Longrightarrow> view (d\<lparr>runs := map f (runs d)\<rparr>) = view d"
begin

lemmas view_simps = view_sessions view_events view_model_calls view_blobs view_turns
  view_checkpoints view_control_commands

lemma view_appended: "appended env eid now q d e d' \<Longrightarrow> view d' = view d"
  unfolding appended_def by (auto simp: view_simps)

lemma keeps_append: "pres (\<lambda>d. view d = v) (append_event_in_transaction env eid now q)"
  unfolding pres_def by (auto intro!: wp_append simp: view_appended)

lemma view_blob_stored: "blob_stored env c d b d' \<Longrightarrow> view d' = view d"
  unfolding blob_stored_def by (auto simp: view_simps)

lemma keeps_put_blob: "pres (\<lambda>d. view d = v) (put_blob_in_transaction env now c mt)"
  unfolding pres_def by (auto intro!: wp_put_blob simp: view_blob_stored)

lemma keeps_tables:
  "pres (\<lambda>d. view d = v) (modifyT (update_turn k f1))"
  "pres (\<lambda>d. view d = v) (insert_checkpoint r7)"
  "pres (\<lambda>d. view d = v) (insert_control_command r8)"
  by (auto simp: pres_def wp_def insert_defs update_turn_def view_simps)

lemma keeps_update_run:
  "(\<And>r. r_run_id (f r) = r_run_id r \<and> r_budget_limits (f r) = r_budget_limits r \<and>
      r_budget_consumed (f r) = r_budget_consumed r) \<Longrightarrow>
     pres (\<lambda>d. view d = v) (modifyT (update_run k f))"
  unfolding pres_def wp_modify update_run_def row_upd_def
  by (intro allI impI, subst view_map_runs) simp_all

lemma keeps_update_where:
  "(\<And>r. r_run_id (f r) = r_run_id r \<and> r_budget_limits (f r) = r_budget_limits r \<and>
      r_budget_consumed (f r) = r_budget_consumed r) \<Longrightarrow>
     pres (\<lambda>d. view d = v) (update_runs_where P f)"
  unfolding pres_def wp_def update_runs_where_def
  by (intro allI impI, simp, subst view_map_runs) simp_all

lemma keeps_touch: "pres (\<lambda>d. view d = v) (touch_run k sq)"
  unfolding touch_run_def by (rule keeps_update_run) simp

lemma keeps_record:
  "pres (\<lambda>d. view d = v) (record_if_control env now k ty pl co ev)"
  unfolding record_if_control_def record_control_command_def by (intro pres_rules keeps_tables)

lemmas keeps_rules = pres_basic pres_bind pres_if pres_case_option pres_case_prod keeps_append
  keeps_put_blob keeps_tables keeps_touch keeps_record

lemma keeps_append_event: "pres (\<lambda>d. view d = v) (append_event_body env now eid q ctx)"
  unfolding append_event_body_def by (intro keeps_rules)

lemma keeps_lifecycle:
  "pres (\<lambda>d. view d = v) (begin_workspace_provisioning_body env now eid eid2 k dm pid ctx)"
  "pres (\<lambda>d. view d = v) (attach_provisioned_workspace_body env now eid eid2 k wt br bc om ot pid ctx)"
  "pres (\<lambda>d. view d = v) (set_workspace_disposition_body env now eid k ex ta re pid)"
  "pres (\<lambda>d. view d = v) (commit_run_checkpoint_body env now eid k ck pid ctx)"
  "pres (\<lambda>d. view d = v) (transition_run_phase_body env now eid k pp np re pid ctx)"
  "pres (\<lambda>d. view d = v) (commit_final_answer_body env now eid eid2 k rsp an vs pid ctx)"
  "pres (\<lambda>d. view d = v) (complete_run_body env now eid k vs pid ctx)"
  "pres (\<lambda>d. view d = v) (terminate_run_body env now eid k st re pid ctx)"
  "pres (\<lambda>d. view d = v) (request_cancellation_body env now eid k ac re pid cc)"
  "pres (\<lambda>d. view d = v) (rebuild_run_projection_body env now eid k pid)"
  unfolding begin_workspace_provisioning_body_def attach_provisioned_workspace_body_def
    set_workspace_disposition_body_def commit_run_checkpoint_body_def transition_run_phase_body_def
    commit_final_answer_body_def complete_run_body_def terminate_run_body_def
    request_cancellation_body_def rebuild_run_projection_body_def
  by (intro keeps_rules keeps_update_run;
      simp add: complete_row_def terminate_row_def repair_row_def)+

lemma keeps_leases:
  "pres (\<lambda>d. view d = v) (acquire_run_lease_body k owner ttl now)"
  "pres (\<lambda>d. view d = v) (renew_run_lease_body ctx ttl now)"
  "pres (\<lambda>d. view d = v) (release_run_lease_body l)"
  unfolding acquire_run_lease_body_def renew_run_lease_body_def release_run_lease_body_def
  by (intro keeps_rules keeps_update_run keeps_update_where; simp add: set_lease_def)+

lemma view_session: "create_session env now eid sid root config pid d = (Inr e, d') \<Longrightarrow> view d' = view d"
  unfolding create_session_def transact_Inr bindT_eq_Inr
  by (auto simp: insert_session_def view_simps dest!: append_appended view_appended split: if_splits)

end

end
