(* ===== verification/Tool_Facts.thy ===== *)
theory Tool_Facts
  imports Tool_Calls Views
begin

text \<open>
  What the tool-call commands keep: soundness of the ledger, committed states, the fence;
  and the approval discipline \<open>tools_ok\<close>: a call with side effects is dispatched only
  under a recorded \<open>allow_once\<close> decision for its own fingerprint, and at most once.
\<close>

section \<open>Ledger and integrity\<close>

lemma pres_tool_calls:
  "is_uuid eid \<Longrightarrow> pres (sound_from env d0)
     (propose_tool_call_body env now eid fid k rsp n tn tv args ec tps pv pid ctx)"
  "is_uuid eid \<Longrightarrow> pres (sound_from env d0) (request_tool_approval_body env now eid fid tc pol pid ctx)"
  "is_uuid eid \<Longrightarrow> pres (sound_from env d0)
     (decide_tool_approval_body env now eid aid fp dc ac re pid cc ctx)"
  "is_uuid eid \<Longrightarrow> pres (sound_from env d0)
     (dispatch_tool_call_body env now eid fid tc plan ident pid att ctx)"
  "is_uuid eid \<Longrightarrow> pres (sound_from env d0)
     (finish_tool_attempt_body env now eid atid oc pid rcpt out mt err rt ctx)"
  unfolding propose_tool_call_body_def request_tool_approval_body_def decide_tool_approval_body_def
    apply_decision_def dispatch_tool_call_body_def finish_tool_attempt_body_def
  by (intro pres_rules; assumption)+

lemma propose_tool_call_committed:
  assumes "store_ok env d" "is_uuid eid"
  shows "wp (propose_tool_call_body env now eid fid k rsp n tn tv args ec tps pv pid ctx)
    (commits env d ctx) d"
  unfolding propose_tool_call_body_def wp_if wp_bind [of "liftT _"] wp_lift
proof (intro conjI impI allI, goal_cases)
  case (3 ca targets)
  show ?case
  proof (rule wp_fenced [OF assms(1)], unfold wp_bind [of "liftT _"] wp_bind [of "getT _"]
      wp_bind [of "returnT _"] wp_return wp_get wp_lift wp_case_option wp_if,
      intro conjI impI allI, goal_cases)
    case (4 row v e fp)
    show ?case
      unfolding wp_bind [of "insert_tool_call _"]
      by (intro wp_inserts, rule wp_append_neutral, simp, rule 4, rule assms, simp,
          rule wp_touch, assumption, rule 4, unfold wp_bind wp_lift wp_return, simp)
  qed (simp_all add: wp_throw wp_return committed_unchanged assms)
qed (simp_all add: wp_throw)

lemma request_tool_approval_committed:
  assumes "store_ok env d" "is_uuid eid"
  shows "wp (request_tool_approval_body env now eid fid tc pol pid ctx) (commits env d ctx) d"
  unfolding request_tool_approval_body_def wp_if wp_bind [of "getT _"] wp_get wp_case_option
proof (intro conjI impI allI, goal_cases)
  case (3 tool)
  show ?case
  proof (rule wp_fenced [OF assms(1)], unfold wp_bind [of "getT _"]
      wp_bind [of "returnT _"] wp_return wp_get wp_case_option wp_if, intro conjI impI allI, goal_cases)
    case (2 row)
    then have id: "r_run_id row = c_run_id tool" by (simp add: in_progress_def)
    show ?case
      unfolding wp_bind [of "insert_approval _"] wp_bind [of "modifyT _"] wp_modify update_tool_call_def id
      by (intro wp_inserts, rule wp_append_neutral, simp, rule 2, rule assms, simp,
          rule wp_touch, assumption, use 2 in \<open>simp_all add: wp_simps\<close>)
  qed (simp_all add: wp_throw wp_return committed_unchanged assms)
qed (simp_all add: wp_throw)

lemma apply_decision_committed:
  assumes "store_ok env d" "is_uuid eid"
    and "\<And>c row. ctx = Some c \<Longrightarrow> get_run d (ap_run_id ap) = Some row \<Longrightarrow> fence_passed ctx row"
  shows "wp (apply_decision env now eid ap fp dc ac re pid cc) (commits env d ctx) d"
proof -
  have upd: "store_ok env (d\<lparr>approvals := as, tool_calls := ts\<rparr>)" for as ts using assms(1) by simp
  show ?thesis
    unfolding apply_decision_def wp_bind [of "getT _"] wp_get wp_case_option wp_if
      wp_bind [of "modifyT _"] wp_modify update_tool_call_def update_approval_def
  proof (intro conjI impI allI, goal_cases)
    case (4 tool)
    let ?d = "d\<lparr>approvals := row_upd ap_approval_id (ap_approval_id ap) (decide_row dc now ac re) (approvals d)\<rparr>"
    show ?case
    proof (rule wp_run_row [where env = env], simp add: assms(1), goal_cases)
      case (1 row)
      then have row: "get_run d (ap_run_id ap) = Some row" "r_run_id row = ap_run_id ap"
        by (auto simp: in_progress_def dest: get_run_in)
      have fence: "fence_passed ctx row"
        using assms(3) row(1) by (cases ctx) auto
      have start: "in_progress env d (d\<lparr>approvals := as, tool_calls := ts\<rparr>) (ap_run_id ap) row (proj_of_row row)" for as ts
        using in_progress_start [OF assms(1) row(1)] by simp
      show ?case
        unfolding row(2)
        by (rule wp_append_neutral [OF start], rule assms, simp,
            rule wp_touch, assumption, rule fence, unfold wp_bind,
            rule wp_record_if_control, simp add: wp_return)
    qed
  qed (simp_all add: wp_throw)
qed

lemma decide_tool_approval_committed:
  assumes "store_ok env d" "is_uuid eid"
  shows "wp (decide_tool_approval_body env now eid aid fp dc ac re pid cc ctx) (commits env d ctx) d"
  unfolding decide_tool_approval_body_def wp_if wp_bind [of "getT _"] wp_get wp_case_option
proof (intro conjI impI allI, goal_cases)
  case (5 ap)
  have tail: "wp (if ap_fingerprint ap \<noteq> fp then throwT ApprovalConflictError
       else case ap_decision ap of
         Some x \<Rightarrow> if x \<noteq> dc then throwT ApprovalConflictError
           else bindT (record_if_control env now (ap_run_id ap) ''decide_tool_approval''
                  (decision_document aid fp dc re) cc None) (\<lambda>_. returnT ((ap, None), None))
       | None \<Rightarrow> apply_decision env now eid ap fp dc ac re pid cc) (commits env d ctx) d"
    if "ctx = None \<or> (\<exists>x. require_execution_context now (ap_run_id ap) ctx d = Inr x)"
  proof -
    have "wp (apply_decision env now eid ap fp dc ac re pid cc) (commits env d ctx) d"
      using that by (intro apply_decision_committed assms) (auto dest!: require_fence_passed)
    then show ?thesis
      unfolding wp_if wp_case_option wp_bind using committed_unchanged [OF assms(1), of ctx]
      by (auto simp: wp_throw wp_return intro!: wp_record_if_control)
  qed
  show ?case
    unfolding wp_bind [of "returnT _"] wp_return wp_bind [of "readT _"] wp_read wp_if
      wp_bind [of "case_option _ _ _"]
    using tail assms(1)
    by (cases ctx) (auto simp: wp_simps committed_unchanged)
qed (simp_all add: wp_throw)

lemma dispatch_tool_call_committed:
  assumes "store_ok env d" "is_uuid eid"
  shows "wp (dispatch_tool_call_body env now eid fid tc plan ident pid att ctx) (commits env d ctx) d"
  unfolding dispatch_tool_call_body_def wp_bind [of "returnT _"] wp_return wp_bind [of "getT _"] wp_get
    wp_case_option wp_if
proof (intro conjI impI allI, goal_cases)
  case (3 tool)
  show ?case
  proof (rule wp_fenced [OF assms(1)], unfold wp_bind [of "getT _"] wp_bind [of "liftT _"]
      wp_bind [of "returnT _"] wp_return wp_get wp_lift wp_if, intro conjI impI allI, goal_cases)
    case (2 row pre)
    then have id: "r_run_id row = c_run_id tool" by (simp add: in_progress_def)
    show ?case
      unfolding wp_bind [of "insert_attempt _"] wp_bind [of "modifyT _"] wp_modify update_tool_call_def id
      by (intro wp_inserts, rule wp_append_neutral, simp, rule 2, rule assms, simp,
          rule wp_touch, assumption, rule 2, simp add: wp_return)
  qed (simp_all add: wp_throw)
qed (simp_all add: wp_throw wp_return committed_unchanged assms)

lemma result_payload_neutral: "result_payload env st tc at rc os er rt = Inr x \<Longrightarrow> neutral x"
  by (auto simp: result_payload_def bindE_eq_Inr split: if_splits option.splits)

lemma blob_in_progress:
  assumes "blob_stored env c d b d'" "in_progress env d0 d rid row p"
  shows "in_progress env d0 d' rid row p"
proof -
  note T = blob_stored_tables [OF assms(1)]
  have "ledger_sound env d'"
    using blob_stored_sound [OF assms(1)] assms(2) by (auto simp: in_progress_def lagging_def)
  moreover have "checkpoints_ok env d' = checkpoints_ok env d"
    using T by (intro checkpoints_ok_cong) auto
  moreover have L: "lagging env d rid (Some p)" using assms(2) by (simp add: in_progress_def)
  ultimately have "lagging env d' rid (Some p)"
    using T by (simp add: lagging_def run_sessions_ok_def replays_def history_cong [of d' d])
  then show ?thesis using assms(2) T by (simp add: in_progress_def)
qed

text \<open>Storing the output, if there is one.\<close>

lemma wp_store_output:
  assumes "in_progress env d0 d rid row p"
    and "\<And>os d'. in_progress env d0 d' rid row p \<Longrightarrow> wp (K os) Q d'"
  shows "wp (bindT (case out of None \<Rightarrow> returnT None
     | Some raw \<Rightarrow> bindT (put_blob_in_transaction env now raw mt) (\<lambda>b. returnT (Some (o_sha256 b)))) K) Q d"
  using assms(2) [OF assms(1)] assms(2) [OF blob_in_progress [OF _ assms(1)]]
  by (cases out) (auto simp: wp_bind wp_return intro!: wp_put_blob)

lemma finish_tool_attempt_committed:
  assumes "store_ok env d" "is_uuid eid"
  shows "wp (finish_tool_attempt_body env now eid atid oc pid rc out mt er rt ctx) (commits env d ctx) d"
  unfolding finish_tool_attempt_body_def wp_bind [of "getT _"] wp_get wp_case_option wp_if
proof (intro conjI impI allI, goal_cases)
  case (7 target att tool)
  show ?case
  proof (rule wp_fenced [OF assms(1)], rule wp_store_output, assumption, goal_cases)
    case (1 row os d1)
    then have id: "r_run_id row = c_run_id tool" by (simp add: in_progress_def)
    show ?case
      unfolding wp_bind [of "modifyT _"] wp_bind [of "liftT _"] wp_modify wp_lift
        update_tool_call_def update_attempt_def id
    proof (intro allI impI, rule wp_append_neutral)
      fix x assume "result_payload env target (a_tool_call_id att) atid rc os er rt = Inr x"
      then show "neutral x" by (rule result_payload_neutral)
    next
      show "is_uuid eid" by (rule assms)
    next
      fix ts as
      show "in_progress env d (d1\<lparr>tool_attempts := as, tool_calls := ts\<rparr>) (c_run_id tool) row (proj_of_row row)"
        using 1 by simp
    next
      fix e :: event_envelope and d' assume "in_progress env d d' (c_run_id tool) row ((proj_of_row row)\<lparr>p_last_event_seq := e_seq e\<rparr>)"
      then show "wp (bindT (touch_run (c_run_id tool) (e_seq e)) (\<lambda>_.
          returnT (tool_attempt_from_row (Some e) (finish_attempt_row target now (map_option JObj rc) os
             (map_option JObj er) att), Some (e_seq e)))) (commits env d ctx) d'"
        by (rule wp_touch) (use 1 in \<open>simp_all add: wp_return\<close>)
    qed
  qed
qed (simp_all add: wp_throw wp_return committed_unchanged assms)

section \<open>Fences\<close>

interpretation propose_fence: fenced_command
  "propose_tool_call_body env now eid fid k rsp n tn tv args ec tps pv pid" "\<lambda>_. Some k" now
  for env now eid fid k rsp n tn tv args ec tps pv pid
  by unfold_locales (simp add: propose_tool_call_body_def wp_simps)

interpretation request_approval_fence: fenced_command
  "request_tool_approval_body env now eid fid tc pol pid"
  "\<lambda>d. map_option c_run_id (get_tool_call_row d tc)" now
  for env now eid fid tc pol pid
  by unfold_locales (auto simp: request_tool_approval_body_def wp_simps)

interpretation dispatch_fence: fenced_command
  "dispatch_tool_call_body env now eid fid tc plan ident pid att"
  "\<lambda>d. map_option c_run_id (get_tool_call_row d tc)" now
  for env now eid fid tc plan ident pid att
  by unfold_locales (auto simp: dispatch_tool_call_body_def wp_simps)

definition attempt_run :: "db \<Rightarrow> string \<Rightarrow> string option" where
  "attempt_run d atid = Option.bind (get_attempt_row d atid) (\<lambda>a.
     map_option c_run_id (get_tool_call_row d (a_tool_call_id a)))"

interpretation finish_fence: fenced_command
  "finish_tool_attempt_body env now eid atid oc pid rc out mt er rt" "\<lambda>d. attempt_run d atid" now
  for env now eid atid oc pid rc out mt er rt
  by unfold_locales
    (auto simp: finish_tool_attempt_body_def attempt_run_def wp_simps split: bind_splits)

section \<open>The approval discipline\<close>

definition approved :: "approval_row list \<Rightarrow> tool_call_row \<Rightarrow> bool" where
  "approved aps c \<longleftrightarrow> list_ex (\<lambda>ap. same_approval c ap \<and> ap_decision ap = Some AD_ALLOW_ONCE) aps"

definition attempts_of :: "tool_attempt_row list \<Rightarrow> string \<Rightarrow> tool_attempt_row list" where
  "attempts_of ats k = filter (\<lambda>a. a_tool_call_id a = k) ats"

text \<open>
  A call that was never dispatched has no attempt; a dispatched one has exactly one, in the
  state of the call. From \<open>ready\<close> on, a call that is not pure has been allowed.
\<close>

definition call_ok :: "tool_attempt_row list \<Rightarrow> approval_row list \<Rightarrow> tool_call_row \<Rightarrow> bool" where
  "call_ok ats aps c \<longleftrightarrow>
     (if c_state c \<in> {TC_DISPATCHED, TC_SUCCEEDED, TC_FAILED, TC_UNCERTAIN}
      then map a_state (attempts_of ats (c_tool_call_id c)) = [c_state c]
      else attempts_of ats (c_tool_call_id c) = []) \<and>
     (c_state c \<in> {TC_READY, TC_DISPATCHED, TC_SUCCEEDED, TC_FAILED, TC_UNCERTAIN} \<longrightarrow>
        c_effect_class c = TE_PURE \<or> approved aps c)"

definition tools_inv :: "tool_call_row list \<Rightarrow> tool_attempt_row list \<Rightarrow> approval_row list \<Rightarrow> bool" where
  "tools_inv tcs ats aps \<longleftrightarrow>
     distinct (map c_tool_call_id tcs) \<and> distinct (map a_attempt_id ats) \<and>
     distinct (map ap_approval_id aps) \<and>
     list_all (\<lambda>a. a_tool_call_id a \<in> c_tool_call_id ` set tcs) ats \<and>
     list_all (call_ok ats aps) tcs"

definition tools_ok :: "db \<Rightarrow> bool" where
  "tools_ok d \<longleftrightarrow> tools_inv (tool_calls d) (tool_attempts d) (approvals d)"

definition tool_view :: "db \<Rightarrow> tool_call_row list \<times> tool_attempt_row list \<times> approval_row list" where
  "tool_view d = (tool_calls d, tool_attempts d, approvals d)"

interpretation tool_tables: run_view tool_view
  by unfold_locales (simp_all add: tool_view_def)

lemma tools_ok_view: "tool_view d' = tool_view d \<Longrightarrow> tools_ok d' = tools_ok d"
  by (simp add: tool_view_def tools_ok_def)

lemma pres_tools:
  assumes "\<And>v. pres (\<lambda>d. tool_view d = v) m"
  shows "pres tools_ok m"
  unfolding pres_def
proof (intro allI impI)
  fix d assume "tools_ok d"
  from assms [of "tool_view d"] have "wp m (\<lambda>_ d'. tool_view d' = tool_view d) d"
    by (simp add: pres_def)
  then show "wp m (\<lambda>_. tools_ok) d"
    by (rule wp_mono) (use \<open>tools_ok d\<close> tools_ok_view in blast)
qed

lemma tools_inv_add_call:
  assumes "tools_inv tcs ats aps" "c_tool_call_id c \<notin> c_tool_call_id ` set tcs"
    and "c_state c = (if c_effect_class c = TE_PURE then TC_READY else TC_PROPOSED)"
  shows "tools_inv (tcs @ [c]) ats aps"
proof -
  have "attempts_of ats (c_tool_call_id c) = []"
    using assms(1,2) by (auto simp: tools_inv_def attempts_of_def filter_empty_conv list_all_iff) metis
  with assms show ?thesis by (auto simp: tools_inv_def call_ok_def list_all_iff)
qed

lemma tools_inv_update_call:
  assumes "tools_inv tcs ats aps" "c \<in> set tcs" "c_tool_call_id c = k" "keeps c_tool_call_id f"
    and "distinct (map a_attempt_id ats')" "distinct (map ap_approval_id aps')"
    and "list_all (\<lambda>a. a_tool_call_id a \<in> c_tool_call_id ` set tcs) ats'"
    and "call_ok ats' aps' (f c)"
    and "\<And>x. x \<in> set tcs \<Longrightarrow> c_tool_call_id x \<noteq> k \<Longrightarrow> call_ok ats aps x \<Longrightarrow> call_ok ats' aps' x"
  shows "tools_inv (row_upd c_tool_call_id k f tcs) ats' aps'"
proof -
  have d: "distinct (map c_tool_call_id tcs)" and ok: "\<forall>x \<in> set tcs. call_ok ats aps x"
    using assms(1) by (auto simp: tools_inv_def list_all_iff)
  have c: "x = c" if "x \<in> set tcs" "c_tool_call_id x = k" for x
    using that assms(2,3) d by (metis distinct_map inj_onD)
  have "call_ok ats' aps' y" if "y \<in> set (row_upd c_tool_call_id k f tcs)" for y
    using in_row_upd [OF that] c assms(8,9) ok by auto
  moreover have ids: "map c_tool_call_id (row_upd c_tool_call_id k f tcs) = map c_tool_call_id tcs"
    using assms(4) by (rule map_row_upd)
  ultimately show ?thesis
    using d assms(5-7) unfolding tools_inv_def list_all_iff ids
    by (metis image_set ids)
qed


lemma call_ok_mono:
  "call_ok ats aps x \<Longrightarrow>
     map a_state (attempts_of ats' (c_tool_call_id x)) = map a_state (attempts_of ats (c_tool_call_id x)) \<Longrightarrow>
     (approved aps x \<Longrightarrow> approved aps' x) \<Longrightarrow> call_ok ats' aps' x"
  unfolding call_ok_def by (metis map_is_Nil_conv)

lemma propose_tool_call_tools:
  assumes "tools_ok d"
  shows "wp (propose_tool_call_body env now eid fid k rsp n tn tv args ec tps pv pid ctx) (\<lambda>_. tools_ok) d"
proof -
  have "wp (insert_tool_call c) (\<lambda>_. tools_ok) d"
    if "c_state c = (if c_effect_class c = TE_PURE then TC_READY else TC_PROPOSED)" for c
    using that assms tools_inv_add_call [of "tool_calls d" "tool_attempts d" "approvals d" c]
    by (auto simp: wp_def insert_tool_call_def tools_ok_def exists_iff)
  moreover have "pres tools_ok (bindT (append_event_in_transaction env eid now q) (\<lambda>e.
      bindT (touch_run k (e_seq e)) (\<lambda>_. bindT (liftT (tool_call_from_row env (Some e) c)) (\<lambda>rec.
      returnT (rec, Some (e_seq e))))))" for q c
    by (intro pres_tools tool_tables.keeps_rules)
  ultimately have tail: "wp (bindT (insert_tool_call c) (\<lambda>_.
      bindT (append_event_in_transaction env eid now q) (\<lambda>e.
      bindT (touch_run k (e_seq e)) (\<lambda>_. bindT (liftT (tool_call_from_row env (Some e) c)) (\<lambda>rec.
      returnT (rec, Some (e_seq e))))))) (\<lambda>_. tools_ok) d"
    if "c_state c = (if c_effect_class c = TE_PURE then TC_READY else TC_PROPOSED)" for c q
    using that unfolding wp_bind [of "insert_tool_call c"] pres_def by (blast intro: wp_mono)
  show ?thesis
    unfolding propose_tool_call_body_def wp_if wp_bind [of "liftT _"] wp_bind [of "getT _"]
      wp_bind [of "readT _"] wp_bind [of "returnT _"] wp_return wp_get wp_read wp_lift wp_case_option wp_throw
    using assms by (intro conjI impI allI TrueI tail) simp_all
qed

lemma same_approval_state [simp]: "same_approval (c\<lparr>c_state := s\<rparr>) = same_approval c"
  by (simp add: same_approval_def fun_eq_iff)

lemma approved_state [simp]: "approved aps (c\<lparr>c_state := s\<rparr>) = approved aps c"
  by (simp add: approved_def)

lemma wp_insert_approval:
  "(\<forall>x \<in> set (approvals d). ap_approval_id x \<noteq> ap_approval_id r \<Longrightarrow>
      Q () (d\<lparr>approvals := approvals d @ [r]\<rparr>)) \<Longrightarrow> wp (insert_approval r) Q d"
  by (simp add: wp_def insert_approval_def list_ex_iff)

lemma wp_insert_attempt:
  "(\<forall>x \<in> set (tool_attempts d). a_attempt_id x \<noteq> a_attempt_id r \<Longrightarrow>
      Q () (d\<lparr>tool_attempts := tool_attempts d @ [r]\<rparr>)) \<Longrightarrow> wp (insert_attempt r) Q d"
  by (simp add: wp_def insert_attempt_def list_ex_iff)

lemma approved_mono:
  "approved aps c \<Longrightarrow> (\<And>ap. ap \<in> set aps \<Longrightarrow> ap_decision ap = Some AD_ALLOW_ONCE \<Longrightarrow> ap \<in> set aps') \<Longrightarrow>
     approved aps' c"
  by (auto simp: approved_def list_ex_iff)

lemma get_tool_call_row_in:
  "get_tool_call_row d k = Some c \<Longrightarrow> c \<in> set (tool_calls d) \<and> c_tool_call_id c = k"
  by (auto simp: get_tool_call_row_def dest: row_get_SomeD)

text \<open>The state of one call changes, approvals are only added or decided.\<close>

lemma tools_inv_state:
  assumes "tools_inv tcs ats aps" "c \<in> set tcs" "c_tool_call_id c = k"
    and "distinct (map ap_approval_id aps')"
    and "\<And>ap. ap \<in> set aps \<Longrightarrow> ap_decision ap = Some AD_ALLOW_ONCE \<Longrightarrow> ap \<in> set aps'"
    and "c_state c \<in> {TC_PROPOSED, TC_WAITING_APPROVAL}" "s \<in> {TC_WAITING_APPROVAL, TC_READY, TC_DENIED}"
    and "s = TC_READY \<Longrightarrow> approved aps' c"
  shows "tools_inv (row_upd c_tool_call_id k (\<lambda>c. c\<lparr>c_state := s\<rparr>) tcs) ats aps'"
proof (rule tools_inv_update_call [OF assms(1-3)])
  have "call_ok ats aps c" using assms(1,2) by (simp add: tools_inv_def list_all_iff)
  then have none: "attempts_of ats (c_tool_call_id c) = []"
    using assms(6) by (elim insertE) (simp_all add: call_ok_def)
  show "call_ok ats aps' (c\<lparr>c_state := s\<rparr>)"
    using assms(7)
  proof (elim insertE)
    assume "s = TC_READY"
    with assms(8) none show ?thesis by (simp add: call_ok_def)
  qed (use none in \<open>simp_all add: call_ok_def\<close>)
  show "call_ok ats aps' x" if "call_ok ats aps x" for x
    using that by (rule call_ok_mono) (auto intro: approved_mono [OF _ assms(5)])
qed (use assms(1,4) in \<open>auto simp: tools_inv_def\<close>)

lemma request_tool_approval_tools:
  assumes "tools_ok d"
  shows "wp (request_tool_approval_body env now eid fid tc pol pid ctx) (\<lambda>_. tools_ok) d"
proof -
  have upd: "wp (bindT (insert_approval ap) (\<lambda>_. modifyT (update_tool_call tc (\<lambda>c. c\<lparr>c_state := TC_WAITING_APPROVAL\<rparr>))))
      (\<lambda>_. tools_ok) d"
    if "get_tool_call_row d tc = Some c" "c_state c = TC_PROPOSED" for c ap
    unfolding wp_bind wp_modify
  proof (rule wp_insert_approval)
    assume new: "\<forall>x \<in> set (approvals d). ap_approval_id x \<noteq> ap_approval_id ap"
    have inv: "tools_inv (tool_calls d) (tool_attempts d) (approvals d)"
      using assms by (simp add: tools_ok_def)
    then have "distinct (map ap_approval_id (approvals d @ [ap]))"
      using new by (auto simp: tools_inv_def)
    then show "tools_ok (update_tool_call tc (\<lambda>c. c\<lparr>c_state := TC_WAITING_APPROVAL\<rparr>)
        (d\<lparr>approvals := approvals d @ [ap]\<rparr>))"
      using that get_tool_call_row_in [OF that(1)]
      by (simp add: tools_ok_def update_tool_call_def) (rule tools_inv_state [OF inv], auto)
  qed
  have rest: "pres tools_ok (bindT (append_event_in_transaction env eid now q) (\<lambda>e.
      bindT (touch_run k (e_seq e)) (\<lambda>_. returnT ((row, Some e), Some (e_seq e)))))" for q k row
    by (intro pres_tools tool_tables.keeps_rules)
  have tail: "wp (bindT (insert_approval ap) (\<lambda>_.
      bindT (modifyT (update_tool_call tc (\<lambda>c. c\<lparr>c_state := TC_WAITING_APPROVAL\<rparr>))) (\<lambda>_.
      bindT (append_event_in_transaction env eid now q) (\<lambda>e.
      bindT (touch_run k (e_seq e)) (\<lambda>_. returnT ((row, Some e), Some (e_seq e)))))))
      (\<lambda>_. tools_ok) d"
    if "get_tool_call_row d tc = Some c" "c_state c = TC_PROPOSED" for c ap q k row
    using upd [OF that, of ap] rest [of q k row] unfolding wp_bind [of "insert_approval _"]
      wp_bind [of "modifyT _"] wp_bind wp_modify pres_def
    by (blast intro: wp_mono)
  show ?thesis
    unfolding request_tool_approval_body_def wp_if wp_bind [of "getT _"]
      wp_bind [of "readT _"] wp_bind [of "returnT _"] wp_return wp_get wp_read wp_case_option wp_throw
    using assms by (intro conjI impI allI TrueI tail) simp_all
qed

text \<open>Deciding turns one undecided approval into a decided one.\<close>

lemma apply_decision_tools:
  assumes "tools_ok d" "get_approval_row d aid = Some ap" "ap_decision ap = None"
    and "ap_fingerprint ap = fp" "ap_subject_type ap = ''tool_call''"
    and "\<And>c. get_tool_call_row d (ap_subject_id ap) = Some c \<Longrightarrow> c_run_id c = ap_run_id ap"
  shows "wp (apply_decision env now eid ap fp dc ac re pid cc) (\<lambda>_. tools_ok) d"
proof -
  have inv: "tools_inv (tool_calls d) (tool_attempts d) (approvals d)"
    using assms(1) by (simp add: tools_ok_def)
  have ap: "ap \<in> set (approvals d)" "ap_approval_id ap = aid"
    using assms(2) by (auto simp: get_approval_row_def dest: row_get_SomeD)
  let ?aps = "row_upd ap_approval_id aid (decide_row dc now ac re) (approvals d)"
  have ids: "map ap_approval_id ?aps = map ap_approval_id (approvals d)"
    by (rule map_row_upd) (simp add: decide_row_def)
  have kept: "x \<in> set ?aps" if "x \<in> set (approvals d)" "ap_decision x = Some AD_ALLOW_ONCE" for x
  proof -
    have "x = ap" if "ap_approval_id x = aid"
      using that \<open>x \<in> set (approvals d)\<close> ap inv by (metis tools_inv_def distinct_map inj_onD)
    with that assms(3) have "ap_approval_id x \<noteq> aid" by auto
    with that(1) show ?thesis by (force simp: row_upd_def)
  qed
  have dec: "decide_row dc now ac re ap \<in> set ?aps" using ap by (force simp: row_upd_def)
  have step: "tools_ok (update_tool_call (c_tool_call_id c) (\<lambda>c. c\<lparr>c_state :=
        (if dc = AD_ALLOW_ONCE then TC_READY else TC_DENIED)\<rparr>)
        (update_approval aid (decide_row dc now ac re) d))"
    if c: "get_tool_call_row d (ap_subject_id ap) = Some c" "c_approval_fingerprint c = fp"
      "c_state c = TC_WAITING_APPROVAL" for c
  proof -
    note C = get_tool_call_row_in [OF c(1)]
    have "approved ?aps c" if "dc = AD_ALLOW_ONCE"
    proof -
      have "same_approval c (decide_row dc now ac re ap)" "ap_decision (decide_row dc now ac re ap) = Some AD_ALLOW_ONCE"
        using that c(2) C assms(4,5) assms(6) [OF c(1)] by (simp_all add: same_approval_def decide_row_def)
      with dec show ?thesis unfolding approved_def list_ex_iff by blast
    qed
    then have "tools_inv (row_upd c_tool_call_id (c_tool_call_id c) (\<lambda>c. c\<lparr>c_state :=
        (if dc = AD_ALLOW_ONCE then TC_READY else TC_DENIED)\<rparr>) (tool_calls d)) (tool_attempts d) ?aps"
      using C c inv by (intro tools_inv_state [OF inv _ _ _ kept])
        (auto simp: ids tools_inv_def split: if_splits)
    then show ?thesis by (simp add: tools_ok_def update_tool_call_def update_approval_def)
  qed
  have rest: "pres tools_ok (bindT (readT (require_run_row k)) (\<lambda>row.
      bindT (append_event_in_transaction env eid now (q row)) (\<lambda>e.
      bindT (touch_run (r_run_id row) (e_seq e)) (\<lambda>_.
      bindT (record_if_control env now (r_run_id row) ty pl cc (Some e)) (\<lambda>_.
      returnT ((x, Some e), Some (e_seq e)))))))" for k q ty pl x
    by (intro pres_tools tool_tables.keeps_rules)
  show ?thesis
    unfolding apply_decision_def wp_bind [of "getT _"] wp_get wp_case_option wp_if wp_throw
      wp_bind [of "modifyT _"] wp_modify ap(2)
    by (intro conjI impI allI TrueI wp_pres [OF rest] step) simp_all
qed

text \<open>Approvals are about tool calls of their run.\<close>

definition approvals_linked :: "db \<Rightarrow> bool" where
  "approvals_linked d \<longleftrightarrow> (\<forall>ap \<in> set (approvals d). ap_subject_type ap = ''tool_call'' \<and>
     (\<exists>c \<in> set (tool_calls d). c_tool_call_id c = ap_subject_id ap \<and> c_run_id c = ap_run_id ap))"

lemma decide_tool_approval_tools:
  assumes "tools_ok d" "approvals_linked d"
  shows "wp (decide_tool_approval_body env now eid aid fp dc ac re pid cc ctx) (\<lambda>_. tools_ok) d"
proof -
  have link: "ap_subject_type ap = ''tool_call'' \<and>
      (\<forall>c. get_tool_call_row d (ap_subject_id ap) = Some c \<longrightarrow> c_run_id c = ap_run_id ap)"
    if "get_approval_row d aid = Some ap" for ap
  proof -
    have "ap \<in> set (approvals d)" using that by (auto simp: get_approval_row_def dest: row_get_SomeD)
    then obtain c where c: "c \<in> set (tool_calls d)" "c_tool_call_id c = ap_subject_id ap"
        "c_run_id c = ap_run_id ap" and ty: "ap_subject_type ap = ''tool_call''"
      using assms(2) by (auto simp: approvals_linked_def)
    have "get_tool_call_row d (ap_subject_id ap) = Some c"
      unfolding get_tool_call_row_def c(2) [symmetric]
      using assms(1) c(1) by (intro row_get_member) (simp_all add: tools_ok_def tools_inv_def)
    with c ty show ?thesis by simp
  qed
  have ad: "wp (apply_decision env now eid ap fp dc ac re pid cc) (\<lambda>_. tools_ok) d"
    if "get_approval_row d aid = Some ap" "ap_decision ap = None" "ap_fingerprint ap = fp" for ap
    using that assms(1) link by (intro apply_decision_tools) auto
  have rc: "wp (record_if_control env now k ty pl cc ev) (\<lambda>_. tools_ok) d" for k ty pl ev
    by (intro wp_pres pres_tools tool_tables.keeps_rules assms)
  show ?thesis
    using assms(1) ad rc
    by (cases ctx) (simp_all add: decide_tool_approval_body_def wp_simps)
qed

lemma dispatch_tool_call_tools:
  assumes "tools_ok d"
  shows "wp (dispatch_tool_call_body env now eid fid tc plan ident pid att ctx) (\<lambda>_. tools_ok) d"
proof -
  have inv: "tools_inv (tool_calls d) (tool_attempts d) (approvals d)"
    using assms by (simp add: tools_ok_def)
  have step: "wp (insert_attempt a) (\<lambda>_ d'. tools_ok (update_tool_call tc
      (\<lambda>c. c\<lparr>c_state := TC_DISPATCHED, c_precondition := pre\<rparr>) d')) d"
    if c: "get_tool_call_row d tc = Some c" "c_state c = TC_READY" and a: "a_tool_call_id a = tc" "a_state a = TC_DISPATCHED"
    for c a pre
  proof (rule wp_insert_attempt)
    assume new: "\<forall>x \<in> set (tool_attempts d). a_attempt_id x \<noteq> a_attempt_id a"
    note C = get_tool_call_row_in [OF c(1)]
    then have ok: "call_ok (tool_attempts d) (approvals d) c" using inv by (simp add: tools_inv_def list_all_iff)
    have mem: "tc \<in> c_tool_call_id ` set (tool_calls d)" using C by blast
    have "tools_inv (row_upd c_tool_call_id tc (\<lambda>c. c\<lparr>c_state := TC_DISPATCHED, c_precondition := pre\<rparr>)
        (tool_calls d)) (tool_attempts d @ [a]) (approvals d)"
    proof (rule tools_inv_update_call [OF inv, of c])
      show "call_ok (tool_attempts d @ [a]) (approvals d) (c\<lparr>c_state := TC_DISPATCHED, c_precondition := pre\<rparr>)"
        using ok c(2) a C by (simp add: call_ok_def attempts_of_def approved_def same_approval_def)
      show "call_ok (tool_attempts d @ [a]) (approvals d) x"
        if "c_tool_call_id x \<noteq> tc" "call_ok (tool_attempts d) (approvals d) x" for x
        using that(2) by (rule call_ok_mono) (use that(1) a(1) in \<open>auto simp: attempts_of_def\<close>)
    qed (use inv new a C mem in \<open>auto simp: tools_inv_def\<close>)
    then show "tools_ok (update_tool_call tc (\<lambda>c. c\<lparr>c_state := TC_DISPATCHED, c_precondition := pre\<rparr>)
        (d\<lparr>tool_attempts := tool_attempts d @ [a]\<rparr>))"
      by (simp add: tools_ok_def update_tool_call_def)
  qed
  have rest: "pres tools_ok (bindT (append_event_in_transaction env eid now q) (\<lambda>e.
      bindT (touch_run k (e_seq e)) (\<lambda>_. returnT (r e, Some (e_seq e)))))" for q k and r :: "event_envelope \<Rightarrow> tool_attempt_record"
    by (intro pres_tools tool_tables.keeps_rules)
  have tail: "wp (bindT (insert_attempt a) (\<lambda>_. bindT (modifyT (update_tool_call tc
      (\<lambda>c. c\<lparr>c_state := TC_DISPATCHED, c_precondition := pre\<rparr>))) (\<lambda>_.
      bindT (append_event_in_transaction env eid now q) (\<lambda>e.
      bindT (touch_run k (e_seq e)) (\<lambda>_. returnT (r e, Some (e_seq e))))))) (\<lambda>_. tools_ok) d"
    if "get_tool_call_row d tc = Some c" "c_state c = TC_READY" "a_tool_call_id a = tc" "a_state a = TC_DISPATCHED"
    for c a pre q k and r :: "event_envelope \<Rightarrow> tool_attempt_record"
    unfolding wp_bind [of "insert_attempt _"] wp_bind [of "modifyT _"] wp_modify
    by (rule wp_mono [OF step [OF that]]) (rule wp_pres [OF rest])
  show ?thesis
    unfolding dispatch_tool_call_body_def wp_bind [of "returnT _"] wp_return wp_bind [of "getT _"] wp_get
      wp_case_option wp_if wp_bind [of "readT _"] wp_bind [of "liftT _"] wp_read wp_lift wp_throw
    using assms by (intro conjI impI allI TrueI tail) simp_all
qed

text \<open>A finished attempt takes its call along.\<close>

lemma finish_step_tools:
  assumes "tools_ok d" "get_attempt_row d atid = Some a" "a_state a = TC_DISPATCHED"
    and "outcome_state oc = Some target"
    and f: "keeps a_attempt_id f" "keeps a_tool_call_id f" "\<forall>x. a_state (f x) = target"
    and g: "keeps c_tool_call_id g" "keeps c_effect_class g" "keeps c_approval_fingerprint g" "keeps c_run_id g"
      "\<forall>x. c_state (g x) = target"
  shows "tools_ok (update_tool_call (a_tool_call_id a) g (update_attempt atid f d))"
proof -
  have inv: "tools_inv (tool_calls d) (tool_attempts d) (approvals d)"
    using assms(1) by (simp add: tools_ok_def)
  have a: "a \<in> set (tool_attempts d)" "a_attempt_id a = atid"
    using assms(2) by (auto simp: get_attempt_row_def dest: row_get_SomeD)
  then obtain c where c: "c \<in> set (tool_calls d)" "c_tool_call_id c = a_tool_call_id a"
    using inv by (auto simp: tools_inv_def list_all_iff)
  then have ok: "call_ok (tool_attempts d) (approvals d) c" using inv by (simp add: tools_inv_def list_all_iff)
  let ?ats = "row_upd a_attempt_id atid f (tool_attempts d)"
  have mem: "a \<in> set (attempts_of (tool_attempts d) (c_tool_call_id c))"
    using a c(2) by (simp add: attempts_of_def)
  then have st: "c_state c \<in> {TC_DISPATCHED, TC_SUCCEEDED, TC_FAILED, TC_UNCERTAIN}"
    and one: "map a_state (attempts_of (tool_attempts d) (c_tool_call_id c)) = [c_state c]"
    using ok by (auto simp: call_ok_def split: if_splits)
  then have only: "attempts_of (tool_attempts d) (c_tool_call_id c) = [a]"
    using mem by (auto simp: map_eq_Cons_conv)
  have of: "attempts_of ?ats k = row_upd a_attempt_id atid f (attempts_of (tool_attempts d) k)" for k
    using f(2) by (simp add: attempts_of_def row_upd_def filter_map comp_def if_distrib cong: if_cong)
  have tgt: "target \<in> {TC_SUCCEEDED, TC_FAILED, TC_UNCERTAIN}"
    using assms(4) by (auto simp: outcome_state_def split: if_splits)
  have ap: "approved aps (g c) = approved aps c" for aps
    using g by (simp add: approved_def same_approval_def)
  have "tools_inv (row_upd c_tool_call_id (a_tool_call_id a) g (tool_calls d)) ?ats (approvals d)"
  proof (rule tools_inv_update_call [OF inv c g(1)])
    have "map a_state (attempts_of ?ats (c_tool_call_id (g c))) = [target]"
      unfolding of using only a(2) f(3) g(1) by (simp add: row_upd_def)
    moreover have "c_effect_class c = TE_PURE \<or> approved (approvals d) c"
      using ok st by (auto simp: call_ok_def)
    ultimately show "call_ok ?ats (approvals d) (g c)"
      using tgt g ap by (auto simp: call_ok_def)
    show "call_ok ?ats (approvals d) x"
      if "c_tool_call_id x \<noteq> a_tool_call_id a" "call_ok (tool_attempts d) (approvals d) x" for x
    proof -
      have "\<forall>y \<in> set (attempts_of (tool_attempts d) (c_tool_call_id x)). a_attempt_id y \<noteq> atid"
      proof (intro ballI notI)
        fix y assume y: "y \<in> set (attempts_of (tool_attempts d) (c_tool_call_id x))" "a_attempt_id y = atid"
        then have "y = a" using a inv by (metis (no_types, lifting) attempts_of_def filter_is_subset
              subsetD tools_inv_def distinct_map inj_onD)
        with y that(1) show False by (auto simp: attempts_of_def)
      qed
      then have "row_upd a_attempt_id atid f (attempts_of (tool_attempts d) (c_tool_call_id x)) =
          attempts_of (tool_attempts d) (c_tool_call_id x)"
        by (auto simp: row_upd_def intro!: map_idI)
      with that(2) show ?thesis by (intro call_ok_mono [OF that(2)]) (simp_all add: of)
    qed
    show "list_all (\<lambda>a. a_tool_call_id a \<in> c_tool_call_id ` set (tool_calls d)) ?ats"
      using inv f(2) by (auto simp: tools_inv_def list_all_iff dest!: in_row_upd)
  qed (use inv f(1) in \<open>auto simp: tools_inv_def map_row_upd\<close>)
  then show ?thesis by (simp add: tools_ok_def update_tool_call_def update_attempt_def)
qed

lemma finish_tool_attempt_tools:
  assumes "tools_ok d"
  shows "wp (finish_tool_attempt_body env now eid atid oc pid rc out mt er rt ctx) (\<lambda>_. tools_ok) d"
proof -
  have rest: "pres tools_ok (bindT (liftT pl) (\<lambda>payload.
      bindT (append_event_in_transaction env eid now (q payload)) (\<lambda>e.
      bindT (touch_run k (e_seq e)) (\<lambda>_. returnT (r e, Some (e_seq e))))))"
    for q k pl and r :: "event_envelope \<Rightarrow> tool_attempt_record"
    by (intro pres_tools tool_tables.keeps_rules)
  have out: "wp (bindT (put_blob_in_transaction env now raw mt) (\<lambda>b. returnT (Some (o_sha256 b))))
      (\<lambda>_ d'. tool_view d' = tool_view d) d" for raw
    by (rule wp_pres) (intro tool_tables.keeps_rules, rule refl)
  have step: "tools_ok (update_tool_call (a_tool_call_id a) (\<lambda>c. c\<lparr>c_state := target,
        c_final_output_blob_sha256 := os, c_final_error := map_option JObj er\<rparr>)
      (update_attempt atid (finish_attempt_row target now (map_option JObj rc) os (map_option JObj er)) d'))"
    if "outcome_state oc = Some target" "get_attempt_row d atid = Some a" "a_state a = TC_DISPATCHED"
      "tool_view d' = tool_view d" for target a os d'
  proof (rule finish_step_tools)
    show "tools_ok d'" using assms tools_ok_view [OF that(4)] by simp
    show "get_attempt_row d' atid = Some a" using that(2,4) by (simp add: get_attempt_row_def tool_view_def)
  qed (use that in \<open>simp_all add: finish_attempt_row_def\<close>)
  show ?thesis
    unfolding finish_tool_attempt_body_def wp_bind [of "getT _"] wp_get wp_case_option wp_if
      wp_bind [of "readT _"] wp_read wp_throw wp_return wp_bind [of "case_option _ _ out"]
      wp_bind [of "modifyT _"] wp_modify
    using assms
    by (intro conjI impI allI TrueI wp_mono [OF out] wp_pres [OF rest] step) simp_all
qed

section \<open>Links between approvals and calls\<close>

lemma linked_view: "tool_view d' = tool_view d \<Longrightarrow> approvals_linked d' = approvals_linked d"
  by (simp add: tool_view_def approvals_linked_def)

lemma pres_linked_view:
  assumes "\<And>v. pres (\<lambda>d. tool_view d = v) m"
  shows "pres approvals_linked m"
  unfolding pres_def
proof (intro allI impI)
  fix d assume "approvals_linked d"
  from assms [of "tool_view d"] have "wp m (\<lambda>_ d'. tool_view d' = tool_view d) d"
    by (simp add: pres_def)
  then show "wp m (\<lambda>_. approvals_linked) d"
    by (rule wp_mono) (use \<open>approvals_linked d\<close> linked_view in blast)
qed

lemma linked_update_call:
  assumes "approvals_linked d" "keeps c_tool_call_id f" "keeps c_run_id f"
  shows "approvals_linked (update_tool_call k f d)"
proof -
  have "\<exists>y \<in> set (row_upd c_tool_call_id k f (tool_calls d)).
      c_tool_call_id y = c_tool_call_id c \<and> c_run_id y = c_run_id c" if "c \<in> set (tool_calls d)" for c
    using that assms(2,3) by (intro bexI [of _ "if c_tool_call_id c = k then f c else c"]) (auto simp: row_upd_def)
  with assms(1) show ?thesis
    unfolding approvals_linked_def update_tool_call_def by simp metis
qed

lemma pres_linked:
  "pres approvals_linked (insert_tool_call c)"
  "pres approvals_linked (insert_attempt a)"
  "pres approvals_linked (modifyT (update_attempt k1 f1))"
  "keeps c_tool_call_id f \<Longrightarrow> keeps c_run_id f \<Longrightarrow> pres approvals_linked (modifyT (update_tool_call k f))"
  "pres approvals_linked (modifyT (update_approval k2 (decide_row dc now ac re)))"
proof -
  show "pres approvals_linked (modifyT (update_approval k2 (decide_row dc now ac re)))"
    by (auto simp: pres_def wp_modify update_approval_def approvals_linked_def decide_row_def dest!: in_row_upd)
  show "pres approvals_linked (modifyT (update_tool_call k f))"
    if "keeps c_tool_call_id f" "keeps c_run_id f"
    using that by (simp add: pres_def wp_modify linked_update_call)
qed (auto simp: pres_def wp_def insert_defs update_attempt_def approvals_linked_def)

lemmas linked_rules = pres_basic pres_bind pres_if pres_case_option pres_linked
  pres_linked_view [OF tool_tables.keeps_append] pres_linked_view [OF tool_tables.keeps_touch]
  pres_linked_view [OF tool_tables.keeps_put_blob] pres_linked_view [OF tool_tables.keeps_record]

lemma tool_commands_linked:
  "pres approvals_linked (propose_tool_call_body env now eid fid k rsp n tn tv args ec tps pv pid ctx)"
  "pres approvals_linked (decide_tool_approval_body env now eid aid fp dc ac re pid cc ctx)"
  "pres approvals_linked (dispatch_tool_call_body env now eid fid tc plan ident pid att ctx)"
  "pres approvals_linked (finish_tool_attempt_body env now eid atid oc pid rc out mt er rt ctx)"
  unfolding propose_tool_call_body_def decide_tool_approval_body_def apply_decision_def
    dispatch_tool_call_body_def finish_tool_attempt_body_def
  by (intro linked_rules; simp)+

lemma request_tool_approval_linked:
  assumes "approvals_linked d"
  shows "wp (request_tool_approval_body env now eid fid tc pol pid ctx) (\<lambda>_. approvals_linked) d"
proof -
  have rest: "pres approvals_linked (bindT (modifyT (update_tool_call tc (\<lambda>c. c\<lparr>c_state := TC_WAITING_APPROVAL\<rparr>))) (\<lambda>_.
      bindT (append_event_in_transaction env eid now q) (\<lambda>e.
      bindT (touch_run k (e_seq e)) (\<lambda>_. returnT ((row, Some e), Some (e_seq e))))))" for q k row
    by (intro linked_rules; simp)
  have ins: "wp (insert_approval ap) (\<lambda>_. approvals_linked) d"
    if "get_tool_call_row d tc = Some c" "ap_subject_type ap = ''tool_call''" "ap_subject_id ap = tc"
      "ap_run_id ap = c_run_id c" for ap c
    using assms that get_tool_call_row_in [OF that(1)]
    by (intro wp_insert_approval) (auto simp: approvals_linked_def)
  have tail: "wp (bindT (insert_approval ap) (\<lambda>_.
      bindT (modifyT (update_tool_call tc (\<lambda>c. c\<lparr>c_state := TC_WAITING_APPROVAL\<rparr>))) (\<lambda>_.
      bindT (append_event_in_transaction env eid now q) (\<lambda>e.
      bindT (touch_run k (e_seq e)) (\<lambda>_. returnT ((row, Some e), Some (e_seq e)))))))
      (\<lambda>_. approvals_linked) d"
    if "get_tool_call_row d tc = Some c" "ap_subject_type ap = ''tool_call''" "ap_subject_id ap = tc"
      "ap_run_id ap = c_run_id c" for ap c q k row
    unfolding wp_bind [of "insert_approval _"]
    by (rule wp_mono [OF ins [OF that]]) (rule wp_pres [OF rest])
  show ?thesis
    unfolding request_tool_approval_body_def wp_if wp_bind [of "getT _"]
      wp_bind [of "readT _"] wp_bind [of "returnT _"] wp_return wp_get wp_read wp_case_option wp_throw
    using assms by (intro conjI impI allI TrueI tail) simp_all
qed

text \<open>Both invariants together, as the commands of the life cycle keep them.\<close>

definition tool_discipline :: "db \<Rightarrow> bool" where
  "tool_discipline d \<longleftrightarrow> tools_ok d \<and> approvals_linked d"

lemma tool_discipline_view: "tool_view d' = tool_view d \<Longrightarrow> tool_discipline d \<Longrightarrow> tool_discipline d'"
  unfolding tool_discipline_def using linked_view tools_ok_view by blast

lemma tool_commands_discipline:
  assumes "tool_discipline d"
  shows "wp (propose_tool_call_body env now eid fid k rsp n tn tv args ec tps pv pid ctx) (\<lambda>_. tool_discipline) d"
    and "wp (request_tool_approval_body env now eid fid tc pol pid ctx) (\<lambda>_. tool_discipline) d"
    and "wp (decide_tool_approval_body env now eid aid fp dc ac re pid cc ctx) (\<lambda>_. tool_discipline) d"
    and "wp (dispatch_tool_call_body env now eid fid tc plan ident pid att ctx) (\<lambda>_. tool_discipline) d"
    and "wp (finish_tool_attempt_body env now eid atid oc pid rc out mt er rt ctx) (\<lambda>_. tool_discipline) d"
  using assms unfolding tool_discipline_def
  by (auto intro!: wp_conj propose_tool_call_tools request_tool_approval_tools decide_tool_approval_tools
      dispatch_tool_call_tools finish_tool_attempt_tools request_tool_approval_linked
      wp_pres [OF tool_commands_linked(1)] wp_pres [OF tool_commands_linked(2)]
      wp_pres [OF tool_commands_linked(3)] wp_pres [OF tool_commands_linked(4)])

end
