(* ===== verification/Budgets.thy ===== *)
theory Budgets
  imports Views
begin

text \<open>
  Budget reservations of \<^verbatim>\<open>persistence/store.py\<close>: capacity is reserved before an external
  action and settled once afterwards. Amounts are integers (a finite float is not
  modelled); a dict of totals is its list of items.
\<close>

section \<open>Totals\<close>

definition total_of :: "string \<Rightarrow> (string \<times> int) list \<Rightarrow> int" where
  "total_of category totals = (case map_of totals category of None \<Rightarrow> 0 | Some n \<Rightarrow> n)"

fun total_put :: "string \<Rightarrow> int \<Rightarrow> (string \<times> int) list \<Rightarrow> (string \<times> int) list" where
  "total_put k v [] = [(k, v)]"
| "total_put k v ((k', v') # kvs) = (if k' = k then (k, v) # kvs else (k', v') # total_put k v kvs)"

lemma total_of_put: "total_of k (total_put c v ts) = (if k = c then v else total_of k ts)"
  by (induction ts) (auto simp: total_of_def)

definition outstanding :: "string \<Rightarrow> string \<Rightarrow> reservation_row list \<Rightarrow> int" where
  "outstanding run_id category rs = sum_list (map b_reserved
     (filter (\<lambda>b. b_run_id b = run_id \<and> b_category b = category \<and> b_state b = RS_reserved) rs))"

section \<open>Commands\<close>

type_synonym reservation_record = "reservation_row \<times> event_envelope option"

definition new_reservation :: "string \<Rightarrow> string \<Rightarrow> string \<Rightarrow> int \<Rightarrow> instant \<Rightarrow> reservation_row" where
  "new_reservation reservation_id run_id category amount now =
     \<lparr>b_reservation_id = reservation_id, b_run_id = run_id, b_category = category,
      b_reserved = amount, b_consumed = None, b_state = RS_reserved, b_created_at = now,
      b_settled_at = None\<rparr>"

definition reserve_budget_body ::
  "env \<Rightarrow> instant \<Rightarrow> string \<Rightarrow> string \<Rightarrow> string \<Rightarrow> string \<Rightarrow> int \<Rightarrow> string \<Rightarrow> execution_context option
     \<Rightarrow> (db, reservation_record \<times> int option) txn" where
  "reserve_budget_body env now eid run_id reservation_id category amount process_instance_id ctx =
     (if blank category \<or> blank reservation_id then throwT ValueError
      else if amount \<le> 0 then throwT ValueError
      else
        bindT (readT (require_execution_context now run_id ctx)) (\<lambda>run_row.
        bindT (getT (\<lambda>d. get_reservation_row d reservation_id)) (\<lambda>existing.
        case existing of
          Some b \<Rightarrow>
            if b_run_id b \<noteq> run_id \<or> b_category b \<noteq> category \<or> b_reserved b \<noteq> amount
            then throwT BudgetLimitError
            else returnT ((b, None), None)
        | None \<Rightarrow>
            (case map_of (r_budget_limits run_row) category of
               None \<Rightarrow> throwT BudgetLimitError
             | Some limit \<Rightarrow>
                 bindT (getT (\<lambda>d. outstanding run_id category (budget_reservations d))) (\<lambda>reserved.
                 if total_of category (r_budget_consumed run_row) + reserved + amount > limit
                 then throwT BudgetLimitError
                 else
                   bindT (insert_reservation (new_reservation reservation_id run_id category amount now)) (\<lambda>_.
                   bindT (append_event_in_transaction env eid now (run_event run_row process_instance_id None
                     (BudgetReservedPayload reservation_id category amount))) (\<lambda>event.
                   bindT (touch_run run_id (e_seq event)) (\<lambda>_.
                   returnT ((new_reservation reservation_id run_id category amount now, Some event),
                            Some (e_seq event)))))))))) "

definition reserve_budget ::
  "env \<Rightarrow> instant \<Rightarrow> string \<Rightarrow> string \<Rightarrow> string \<Rightarrow> string \<Rightarrow> int \<Rightarrow> string \<Rightarrow> execution_context option
     \<Rightarrow> db \<Rightarrow> (reservation_record \<times> execution_context option) result \<times> db" where
  "reserve_budget env now eid run_id reservation_id category amount process_instance_id ctx =
     run_command ctx (reserve_budget_body env now eid run_id reservation_id category amount
       process_instance_id ctx)"

definition settle_row :: "int \<Rightarrow> instant \<Rightarrow> reservation_row \<Rightarrow> reservation_row" where
  "settle_row consumed now b =
     b\<lparr>b_consumed := Some consumed, b_state := RS_settled, b_settled_at := Some now\<rparr>"

definition settle_budget_body ::
  "env \<Rightarrow> instant \<Rightarrow> string \<Rightarrow> string \<Rightarrow> int \<Rightarrow> string \<Rightarrow> execution_context option
     \<Rightarrow> (db, reservation_record \<times> int option) txn" where
  "settle_budget_body env now eid reservation_id consumed process_instance_id ctx =
     (if consumed < 0 then throwT ValueError
      else
        bindT (getT (\<lambda>d. get_reservation_row d reservation_id)) (\<lambda>found.
        case found of
          None \<Rightarrow> throwT BudgetLimitError
        | Some b \<Rightarrow>
            bindT (readT (require_execution_context now (b_run_id b) ctx)) (\<lambda>run_row.
            if b_state b = RS_settled then
              if b_consumed b \<noteq> Some consumed then throwT BudgetLimitError
              else returnT ((b, None), None)
            else if consumed > b_reserved b then throwT BudgetLimitError
            else
              bindT (returnT (total_put (b_category b)
                       (total_of (b_category b) (r_budget_consumed run_row) + consumed)
                       (r_budget_consumed run_row))) (\<lambda>totals.
              bindT (modifyT (update_reservation reservation_id (settle_row consumed now))) (\<lambda>_.
              bindT (append_event_in_transaction env eid now (run_event run_row process_instance_id None
                (BudgetSettledPayload reservation_id (b_category b) (b_reserved b) consumed))) (\<lambda>event.
              bindT (modifyT (update_run (b_run_id b) (\<lambda>r. r\<lparr>r_budget_consumed := totals,
                       r_last_event_seq := e_seq event\<rparr>))) (\<lambda>_.
              returnT ((settle_row consumed now b, Some event), Some (e_seq event)))))))))"

definition settle_budget ::
  "env \<Rightarrow> instant \<Rightarrow> string \<Rightarrow> string \<Rightarrow> int \<Rightarrow> string \<Rightarrow> execution_context option
     \<Rightarrow> db \<Rightarrow> (reservation_record \<times> execution_context option) result \<times> db" where
  "settle_budget env now eid reservation_id consumed process_instance_id ctx =
     run_command ctx (settle_budget_body env now eid reservation_id consumed process_instance_id ctx)"

section \<open>Integrity\<close>

lemma pres_budgets:
  "is_uuid eid \<Longrightarrow> pres (sound_from env d0) (reserve_budget_body env now eid k rid cat n pid ctx)"
  "is_uuid eid \<Longrightarrow> pres (sound_from env d0) (settle_budget_body env now eid rid n pid ctx)"
proof -
  have le: "run_le r (r\<lparr>r_budget_consumed := t, r_last_event_seq := s\<rparr>)" for r t s
    by (simp add: run_le_def run_identity_def)
  show "is_uuid eid \<Longrightarrow> pres (sound_from env d0) (reserve_budget_body env now eid k rid cat n pid ctx)"
    unfolding reserve_budget_body_def by (intro pres_rules; assumption)
  show "is_uuid eid \<Longrightarrow> pres (sound_from env d0) (settle_budget_body env now eid rid n pid ctx)"
    unfolding settle_budget_body_def by (intro pres_rules le; assumption)
qed

lemma reserve_budget_committed:
  assumes "store_ok env d" "is_uuid eid"
  shows "wp (reserve_budget_body env now eid k rid cat n pid ctx) (commits env d ctx) d"
  unfolding reserve_budget_body_def wp_if
proof (intro conjI impI, goal_cases)
  case 3
  show ?case
  proof (rule wp_fenced [OF assms(1)],
      unfold wp_bind [of "getT _"] wp_get wp_case_option wp_if, intro conjI impI allI, goal_cases)
    case (3 row limit)
    show ?case
      unfolding wp_bind [of "insert_reservation _"]
      by (intro wp_inserts, rule wp_append_neutral, simp, rule 3, rule assms, simp,
          rule wp_touch, assumption, use 3 in \<open>simp_all add: wp_return\<close>)
  qed (simp_all add: wp_throw wp_return committed_unchanged assms)
qed (simp_all add: wp_throw)

lemma settle_budget_committed:
  assumes "store_ok env d" "is_uuid eid"
  shows "wp (settle_budget_body env now eid rid n pid ctx) (commits env d ctx) d"
  unfolding settle_budget_body_def wp_if wp_bind [of "getT _"] wp_get wp_case_option
proof (intro conjI impI allI, goal_cases)
  case (3 b)
  show ?case
  proof (rule wp_fenced [OF assms(1)],
      unfold wp_bind [of "returnT _"] wp_return wp_if, intro conjI impI allI, goal_cases)
    case (4 row)
    show ?case
      unfolding wp_bind [of "modifyT (update_reservation _ _)"] wp_modify update_reservation_def
      by (rule wp_append_neutral, simp, rule 4, rule assms, simp,
          rule wp_catch_up, assumption, use 4 in \<open>simp_all add: wp_return run_identity_def proj_of_row_def\<close>)
  qed (simp_all add: wp_throw wp_return committed_unchanged assms)
qed (simp_all add: wp_throw)

interpretation reserve_fence: fenced_command
  "reserve_budget_body env now eid k rid cat n pid" "\<lambda>_. Some k" now for env now eid k rid cat n pid
  by unfold_locales (simp add: reserve_budget_body_def wp_simps)

interpretation settle_fence: fenced_command
  "settle_budget_body env now eid rid n pid" "\<lambda>d. map_option b_run_id (get_reservation_row d rid)" now
  for env now eid rid n pid
  by unfold_locales (auto simp: settle_budget_body_def wp_simps)

section \<open>The budget invariant\<close>

definition settled_total :: "string \<Rightarrow> string \<Rightarrow> reservation_row list \<Rightarrow> int" where
  "settled_total run_id category rs = sum_list (map (\<lambda>b. case b_consumed b of None \<Rightarrow> 0 | Some n \<Rightarrow> n)
     (filter (\<lambda>b. b_run_id b = run_id \<and> b_category b = category \<and> b_state b = RS_settled) rs))"

definition reservation_ok :: "reservation_row \<Rightarrow> bool" where
  "reservation_ok b \<longleftrightarrow> 0 < b_reserved b \<and>
     (b_state b = RS_settled \<longrightarrow> (case b_consumed b of None \<Rightarrow> False | Some n \<Rightarrow> 0 \<le> n \<and> n \<le> b_reserved b))"

text \<open>The capacity of a category; a negative limit admits nothing, like a missing one.\<close>

definition capacity :: "string \<Rightarrow> (string \<times> int) list \<Rightarrow> int" where
  "capacity category limits = (case map_of limits category of None \<Rightarrow> 0 | Some n \<Rightarrow> max 0 n)"

definition run_budget_ok :: "reservation_row list \<Rightarrow> string \<times> (string \<times> int) list \<times> (string \<times> int) list \<Rightarrow> bool" where
  "run_budget_ok rs r \<longleftrightarrow> (case r of (run_id, limits, consumed) \<Rightarrow>
     (\<forall>c. total_of c consumed = settled_total run_id c rs \<and>
        settled_total run_id c rs + outstanding run_id c rs \<le> capacity c limits))"

definition budget_cols :: "run_row \<Rightarrow> string \<times> (string \<times> int) list \<times> (string \<times> int) list" where
  "budget_cols r = (r_run_id r, r_budget_limits r, r_budget_consumed r)"

definition budgets_inv ::
  "reservation_row list \<Rightarrow> (string \<times> (string \<times> int) list \<times> (string \<times> int) list) list \<Rightarrow> bool" where
  "budgets_inv rs cols \<longleftrightarrow> distinct (map b_reservation_id rs) \<and> distinct (map fst cols) \<and>
     (\<forall>b \<in> set rs. reservation_ok b \<and> b_run_id b \<in> fst ` set cols) \<and> (\<forall>r \<in> set cols. run_budget_ok rs r)"

definition budget_view :: "db \<Rightarrow> reservation_row list \<times> (string \<times> (string \<times> int) list \<times> (string \<times> int) list) list" where
  "budget_view d = (budget_reservations d, map budget_cols (runs d))"

definition budgets_ok :: "db \<Rightarrow> bool" where
  "budgets_ok d \<longleftrightarrow> budgets_inv (budget_reservations d) (map budget_cols (runs d))"

interpretation budget_tables: run_view budget_view
  by unfold_locales (simp_all add: budget_view_def budget_cols_def)

lemma budgets_ok_view: "budget_view d' = budget_view d \<Longrightarrow> budgets_ok d' = budgets_ok d"
  by (simp add: budget_view_def budgets_ok_def)

lemma total_sums:
  "outstanding k c (rs @ [b]) = outstanding k c rs +
     (if b_run_id b = k \<and> b_category b = c \<and> b_state b = RS_reserved then b_reserved b else 0)"
  "settled_total k c (rs @ [b]) = settled_total k c rs +
     (if b_run_id b = k \<and> b_category b = c \<and> b_state b = RS_settled
      then (case b_consumed b of None \<Rightarrow> 0 | Some n \<Rightarrow> n) else 0)"
  by (simp_all add: outstanding_def settled_total_def)

lemma same_run_cols:
  "budgets_inv rs cols \<Longrightarrow> (k, x) \<in> set cols \<Longrightarrow> (k, y) \<in> set cols \<Longrightarrow> x = y"
  unfolding budgets_inv_def by (metis eq_key_imp_eq_value)

lemma budgets_inv_run:
  "budgets_inv rs cols \<Longrightarrow> (k, limits, consumed) \<in> set cols \<Longrightarrow>
     total_of c consumed = settled_total k c rs \<and>
     settled_total k c rs + outstanding k c rs \<le> capacity c limits"
  unfolding budgets_inv_def by (drule conjunct2)+ (drule (1) bspec, simp add: run_budget_ok_def)

lemma budgets_inv_reserve:
  assumes "budgets_inv rs cols" "(k, limits, consumed) \<in> set cols"
    and "b_reservation_id b \<notin> b_reservation_id ` set rs" "b_run_id b = k" "b_category b = c"
    and "b_state b = RS_reserved" "0 < b_reserved b" "map_of limits c = Some lim"
    and "total_of c consumed + outstanding k c rs + b_reserved b \<le> lim"
  shows "budgets_inv (rs @ [b]) cols"
proof -
  have runs: "run_budget_ok (rs @ [b]) r" if "r \<in> set cols" for r
  proof -
    obtain k' limits' consumed' where r: "r = (k', limits', consumed')" by (cases r)
    note old = budgets_inv_run [OF assms(1) that [unfolded r]]
    have same: "limits' = limits \<and> consumed' = consumed" if "k' = k"
      using same_run_cols [OF assms(1,2)] that r \<open>r \<in> set cols\<close> by blast
    have "settled_total k' x (rs @ [b]) + outstanding k' x (rs @ [b]) \<le> capacity x limits'" for x
      using old [of x] same assms(4-9) by (auto simp: total_sums capacity_def)
    then show ?thesis
      using old assms(6) by (simp add: r run_budget_ok_def) (simp add: total_sums)
  qed
  have "b_run_id b \<in> fst ` set cols" using assms(2,4) by (metis fst_conv image_eqI)
  moreover have "reservation_ok b" using assms(6,7) by (simp add: reservation_ok_def)
  ultimately show ?thesis using assms(1,3) runs by (simp add: budgets_inv_def)
qed

text \<open>Settling moves at most the reserved amount from outstanding to consumed.\<close>

lemma total_sums_upd:
  assumes "distinct (map b_reservation_id rs)" "b \<in> set rs" "b_state b = RS_reserved"
  shows "outstanding k c (row_upd b_reservation_id (b_reservation_id b) (settle_row n now) rs) =
      outstanding k c rs - (if b_run_id b = k \<and> b_category b = c then b_reserved b else 0)"
    and "settled_total k c (row_upd b_reservation_id (b_reservation_id b) (settle_row n now) rs) =
      settled_total k c rs + (if b_run_id b = k \<and> b_category b = c then n else 0)"
proof -
  obtain xs ys where rs: "rs = xs @ b # ys" using assms(2) by (meson split_list)
  with assms(1) have "b_reservation_id x \<noteq> b_reservation_id b" if "x \<in> set xs \<or> x \<in> set ys" for x
    using that by (auto simp: image_iff)
  then have upd: "row_upd b_reservation_id (b_reservation_id b) (settle_row n now) rs = xs @ settle_row n now b # ys"
    unfolding rs row_upd_def by (auto intro!: map_idI)
  note upd' = upd [unfolded rs]
  show "outstanding k c (row_upd b_reservation_id (b_reservation_id b) (settle_row n now) rs) =
      outstanding k c rs - (if b_run_id b = k \<and> b_category b = c then b_reserved b else 0)"
    unfolding rs upd' using assms(3) by (simp add: outstanding_def settle_row_def)
  show "settled_total k c (row_upd b_reservation_id (b_reservation_id b) (settle_row n now) rs) =
      settled_total k c rs + (if b_run_id b = k \<and> b_category b = c then n else 0)"
    unfolding rs upd' using assms(3) by (simp add: settled_total_def settle_row_def)
qed

lemma budgets_inv_settle:
  assumes inv: "budgets_inv rs cols" and b: "b \<in> set rs" "b_state b = RS_reserved"
    and n: "0 \<le> n" "n \<le> b_reserved b" and k: "(b_run_id b, limits, consumed) \<in> set cols"
    and totals: "totals = total_put (b_category b) (total_of (b_category b) consumed + n) consumed"
  shows "budgets_inv (row_upd b_reservation_id (b_reservation_id b) (settle_row n now) rs)
    (map (\<lambda>r. if fst r = b_run_id b then (fst r, fst (snd r), totals) else r) cols)"
    (is "budgets_inv ?rs (map ?f cols)")
proof -
  have rs: "distinct (map b_reservation_id rs)" using inv by (simp add: budgets_inv_def)
  note sums = total_sums_upd [OF rs b, of _ _ n now]
  have fst: "map fst (map ?f cols) = map fst cols" by simp
  have runs: "run_budget_ok ?rs (?f r)" if r: "r \<in> set cols" for r
  proof -
    obtain k' limits' consumed' where r': "r = (k', limits', consumed')" by (cases r)
    note old = budgets_inv_run [OF inv r [unfolded r']]
    have same: "consumed' = consumed" if "k' = b_run_id b"
      using same_run_cols [OF inv k] that r r' by blast
    have "settled_total k' x ?rs + outstanding k' x ?rs \<le> capacity x limits'" for x
      using old [of x] n by (simp add: sums)
    moreover have "total_of x (if k' = b_run_id b then totals else consumed') = settled_total k' x ?rs" for x
      using old [of x] same by (cases "k' = b_run_id b") (auto simp: sums totals total_of_put)
    ultimately show ?thesis by (cases "k' = b_run_id b") (simp_all add: r' run_budget_ok_def)
  qed
  have rows: "reservation_ok x \<and> b_run_id x \<in> fst ` set cols" if "x \<in> set ?rs" for x
  proof -
    from that obtain y where y: "y \<in> set rs"
      "x = (if b_reservation_id y = b_reservation_id b then settle_row n now y else y)"
      by (auto simp: row_upd_def)
    then have "reservation_ok y" "b_run_id y \<in> fst ` set cols" using inv by (simp_all add: budgets_inv_def)
    moreover have "y = b" if "b_reservation_id y = b_reservation_id b"
      using rs b(1) y(1) that by (auto simp: distinct_map dest: inj_onD)
    ultimately show ?thesis using y(2) n b by (auto simp: reservation_ok_def settle_row_def)
  qed
  have "distinct (map b_reservation_id ?rs)"
    using rs by (simp add: map_row_upd settle_row_def)
  moreover have "fst ` set (map ?f cols) = fst ` set cols" using fst by (metis set_map)
  moreover have "\<forall>r \<in> set (map ?f cols). run_budget_ok ?rs r" unfolding set_map using runs by blast
  moreover have "distinct (map fst cols)" using inv by (simp add: budgets_inv_def)
  moreover have "\<forall>x \<in> set ?rs. reservation_ok x \<and> b_run_id x \<in> fst ` set cols" using rows by blast
  ultimately show ?thesis unfolding budgets_inv_def fst by (intro conjI) (assumption | simp only:)+
qed

lemma get_run_cols:
  "get_run d k = Some r \<Longrightarrow> (k, r_budget_limits r, r_budget_consumed r) \<in> set (map budget_cols (runs d))"
  unfolding get_run_def by (drule row_get_SomeD) (auto simp: budget_cols_def)

lemma pres_budgets_view:
  assumes "\<And>v. pres (\<lambda>d. budget_view d = v) m"
  shows "pres budgets_ok m"
  unfolding pres_def
proof (intro allI impI)
  fix d assume "budgets_ok d"
  from assms [of "budget_view d"] have "wp m (\<lambda>_ d'. budget_view d' = budget_view d) d"
    by (simp add: pres_def)
  then show "wp m (\<lambda>_. budgets_ok) d"
    by (rule wp_mono) (use \<open>budgets_ok d\<close> budgets_ok_view in blast)
qed

lemma reserve_step_budgets:
  assumes "budgets_ok d" "get_run d k = Some row" "get_reservation_row d rid = None" "0 < n"
    and "map_of (r_budget_limits row) cat = Some lim"
    and "total_of cat (r_budget_consumed row) + outstanding k cat (budget_reservations d) + n \<le> lim"
  shows "budgets_ok (d\<lparr>budget_reservations := budget_reservations d @ [new_reservation rid k cat n now]\<rparr>)"
proof -
  have "(k, r_budget_limits row, r_budget_consumed row) \<in> set (map budget_cols (runs d))"
    using assms(2) by (rule get_run_cols)
  then show ?thesis
    using assms unfolding budgets_ok_def
    by simp (rule budgets_inv_reserve, auto simp: new_reservation_def get_reservation_row_def row_get_None)
qed

lemma reserve_budget_budgets:
  assumes "budgets_ok d"
  shows "wp (reserve_budget_body env now eid k rid cat n pid ctx) (\<lambda>_. budgets_ok) d"
proof -
  have rest: "pres budgets_ok (bindT (append_event_in_transaction env eid now q) (\<lambda>e.
      bindT (touch_run k (e_seq e)) (\<lambda>_. returnT ((b, Some e), Some (e_seq e)))))"
    for q and b :: reservation_row
    by (rule pres_budgets_view) (intro budget_tables.keeps_rules)
  have ins: "wp (insert_reservation (new_reservation rid k cat n now)) (\<lambda>_. budgets_ok) d"
    if "require_execution_context now k ctx d = Inr row" "get_reservation_row d rid = None" "\<not> n \<le> 0"
      "map_of (r_budget_limits row) cat = Some lim"
      "\<not> lim < total_of cat (r_budget_consumed row) + outstanding k cat (budget_reservations d) + n" for row lim
    using that require_fence_passed [OF that(1)]
    by (intro wp_inserts reserve_step_budgets [OF assms]) auto
  show ?thesis
    unfolding reserve_budget_body_def wp_if wp_bind [of "getT _"] wp_get wp_bind [of "readT _"] wp_read
      wp_case_option wp_throw wp_return wp_bind [of "insert_reservation _"]
    using assms by (intro conjI impI allI TrueI wp_mono [OF ins] wp_pres [OF rest]) simp_all
qed

lemma settle_step_budgets:
  assumes "budgets_ok d" "get_reservation_row d rid = Some b" "b_state b \<noteq> RS_settled"
    and "get_run d (b_run_id b) = Some row" "0 \<le> n" "n \<le> b_reserved b"
    and "totals = total_put (b_category b) (total_of (b_category b) (r_budget_consumed row) + n)
      (r_budget_consumed row)"
    and f: "\<And>r. r_run_id (f r) = r_run_id r \<and> r_budget_limits (f r) = r_budget_limits r \<and>
      r_budget_consumed (f r) = totals"
    and d': "budget_view d' = budget_view (update_reservation rid (settle_row n now) d)"
  shows "budgets_ok (update_run (b_run_id b) f d')"
proof -
  have b: "b \<in> set (budget_reservations d)" "b_reservation_id b = rid" "b_state b = RS_reserved"
    using assms(2,3) by (auto simp: get_reservation_row_def dest: row_get_SomeD intro: reservation_state.exhaust)
  have "(b_run_id b, r_budget_limits row, r_budget_consumed row) \<in> set (map budget_cols (runs d))"
    using assms(4) by (rule get_run_cols)
  from budgets_inv_settle [OF _ b(1,3) assms(5,6) this assms(7), of now] assms(1) b(2)
  have "budgets_inv (row_upd b_reservation_id rid (settle_row n now) (budget_reservations d))
    (map (\<lambda>r. if fst r = b_run_id b then (fst r, fst (snd r), totals) else r) (map budget_cols (runs d)))"
    by (simp add: budgets_ok_def)
  moreover have "map (\<lambda>r. if fst r = b_run_id b then (fst r, fst (snd r), totals) else r) (map budget_cols (runs d')) =
      map budget_cols (row_upd r_run_id (b_run_id b) f (runs d'))"
    using f by (simp add: row_upd_def budget_cols_def)
  moreover have "budget_reservations d' = row_upd b_reservation_id rid (settle_row n now) (budget_reservations d)"
    "map budget_cols (runs d') = map budget_cols (runs d)"
    using d' by (simp_all add: budget_view_def update_reservation_def)
  ultimately have "budgets_inv (budget_reservations d') (map budget_cols (row_upd r_run_id (b_run_id b) f (runs d')))"
    by (simp only:)
  then show ?thesis by (simp add: budgets_ok_def update_run_def)
qed

lemma settle_budget_budgets:
  assumes "budgets_ok d"
  shows "wp (settle_budget_body env now eid rid n pid ctx) (\<lambda>_. budgets_ok) d"
proof -
  have app: "wp (append_event_in_transaction env eid now q) (\<lambda>_ d'. budget_view d' = budget_view d0) d0" for q d0
    by (rule wp_pres [OF budget_tables.keeps_append]) simp
  show ?thesis
    unfolding settle_budget_body_def wp_if wp_bind [of "getT _"] wp_get wp_bind [of "readT _"] wp_read
      wp_case_option wp_throw wp_return wp_bind [of "returnT _"] wp_bind [of "modifyT _"] wp_modify
      wp_bind [of "append_event_in_transaction _ _ _ _"]
    using assms
    by (intro conjI impI allI TrueI wp_mono [OF app] settle_step_budgets [OF assms])
      (auto dest: require_fence_passed)
qed

end
