(* ===== verification/Store.thy ===== *)
theory Store
  imports Tool_Facts Budgets
begin

text \<open>
  The store as a machine: one rule per public command of \<^verbatim>\<open>SQLiteEventStore\<close>, each the
  whole command with its transaction. The invariant of the store is the integrity of the
  ledger and its projections, the discipline of tool calls and approvals, and the budget
  bounds; it holds in every state that commands reach, in any order and from any number
  of workers, and every step only evolves the database.
\<close>

section \<open>Views the tool and budget commands leave alone\<close>

locale tool_free_view = run_view +
  assumes view_tool_calls: "view (d\<lparr>tool_calls := cs\<rparr>) = view d"
    and view_tool_attempts: "view (d\<lparr>tool_attempts := ts\<rparr>) = view d"
    and view_approvals: "view (d\<lparr>approvals := aps\<rparr>) = view d"
begin

lemma keeps_tool_tables:
  "pres (\<lambda>d. view d = v) (insert_tool_call c)"
  "pres (\<lambda>d. view d = v) (insert_attempt a)"
  "pres (\<lambda>d. view d = v) (insert_approval ap)"
  "pres (\<lambda>d. view d = v) (modifyT (update_tool_call k1 f1))"
  "pres (\<lambda>d. view d = v) (modifyT (update_attempt k2 f2))"
  "pres (\<lambda>d. view d = v) (modifyT (update_approval k3 f3))"
  by (auto simp: pres_def wp_def insert_defs table_update_defs view_tool_calls view_tool_attempts view_approvals)

lemma keeps_tool_commands:
  "pres (\<lambda>d. view d = v) (propose_tool_call_body env now eid fid k rsp n tn tv args ec tps pv pid ctx)"
  "pres (\<lambda>d. view d = v) (request_tool_approval_body env now eid fid tc pol pid ctx)"
  "pres (\<lambda>d. view d = v) (decide_tool_approval_body env now eid aid fp dc ac re pid cc ctx)"
  "pres (\<lambda>d. view d = v) (dispatch_tool_call_body env now eid fid tc plan ident pid att ctx)"
  "pres (\<lambda>d. view d = v) (finish_tool_attempt_body env now eid atid oc pid rc out mt er rt ctx)"
  unfolding propose_tool_call_body_def request_tool_approval_body_def decide_tool_approval_body_def
    apply_decision_def dispatch_tool_call_body_def finish_tool_attempt_body_def
  by (intro keeps_rules keeps_tool_tables)+

end

locale budget_free_view = run_view +
  assumes view_reservations: "view (d\<lparr>budget_reservations := bs\<rparr>) = view d"
    and view_runs: "view (d\<lparr>runs := rs\<rparr>) = view d"
begin

lemma keeps_budget_commands:
  "pres (\<lambda>d. view d = v) (reserve_budget_body env now eid k rid cat n pid ctx)"
  "pres (\<lambda>d. view d = v) (settle_budget_body env now eid rid n pid ctx)"
proof -
  have "pres (\<lambda>d. view d = v) (insert_reservation b)"
    "pres (\<lambda>d. view d = v) (modifyT (update_reservation k1 f1))"
    "pres (\<lambda>d. view d = v) (modifyT (update_run k2 f2))" for b k1 f1 k2 f2
    by (auto simp: pres_def wp_def insert_defs table_update_defs view_reservations view_runs)
  note rules = keeps_rules this
  show "pres (\<lambda>d. view d = v) (reserve_budget_body env now eid k rid cat n pid ctx)"
    unfolding reserve_budget_body_def by (intro rules)
  show "pres (\<lambda>d. view d = v) (settle_budget_body env now eid rid n pid ctx)"
    unfolding settle_budget_body_def by (intro rules)
qed

lemma view_created:
  assumes "create_turn_and_run_body env now eid1 eid2 eid3 sid tid rid msg root commit limits pid d = Inr (x, d')"
  shows "view d' = view d"
proof -
  obtain blob e1 e2 e3 where x: "x = (blob, e1, e2, e3)" by (cases x) auto
  show ?thesis
    using assms unfolding x
    by (elim create_turn_and_run_steps)
      (auto simp: insert_turn_def insert_run_def update_run_def view_simps view_runs
        dest!: view_blob_stored view_appended split: if_splits)
qed

end

interpretation budget_tables: tool_free_view budget_view
  by unfold_locales (simp_all add: budget_view_def)

interpretation tool_tables: budget_free_view tool_view
  by unfold_locales (simp_all add: tool_view_def)

section \<open>The invariant\<close>

definition store_inv :: "env \<Rightarrow> db \<Rightarrow> bool" where
  "store_inv env d \<longleftrightarrow> store_ok env d \<and> tool_discipline d \<and> budgets_ok d"

definition advances :: "env \<Rightarrow> db \<Rightarrow> db \<Rightarrow> bool" where
  "advances env d d' \<longleftrightarrow> store_inv env d' \<and> evolves d d' \<and> status_step d d'"

lemma advances_refl: "store_inv env d \<Longrightarrow> advances env d d"
  by (simp add: advances_def)

text \<open>What the parts say of a command body, put together.\<close>

lemma body_advances:
  assumes "store_inv env d" "m d = Inr (x, d')"
    and "wp m (\<lambda>_ d'. store_ok env d' \<and> status_step d d') d" "pres (sound_from env d) m"
    and "wp m (\<lambda>_. tool_discipline) d" "wp m (\<lambda>_. budgets_ok) d"
  shows "advances env d d'"
proof -
  have "sound_from env d d" using assms(1) by (simp add: sound_from_def store_inv_def store_ok_def)
  then have "sound_from env d d'" using assms(4,2) by (blast dest: presD)
  with assms(2,3,5,6) show ?thesis by (auto simp: advances_def store_inv_def sound_from_def dest: wpD)
qed

lemma wp_committed: "wp m (commits env d ctx) d \<Longrightarrow> wp m (\<lambda>_ d'. store_ok env d' \<and> status_step d d') d"
  by (erule wp_mono) (simp add: committed_def)

lemma wp_committed': "wp m (\<lambda>_. committed env d ctx v) d \<Longrightarrow> wp m (\<lambda>_ d'. store_ok env d' \<and> status_step d d') d"
  by (erule wp_mono) (simp add: committed_def)

lemma wp_discipline_view:
  assumes "tool_discipline d" "\<And>v. pres (\<lambda>d. tool_view d = v) m"
  shows "wp m (\<lambda>_. tool_discipline) d"
  by (rule wp_mono [OF wp_pres [OF assms(2) refl]]) (rule tool_discipline_view [OF _ assms(1)])

lemma run_command_cases:
  assumes "run_command ctx m d = (r, d')"
  obtains "d' = d" "\<exists>e. r = Inl e" | x v where "m d = Inr ((x, v), d')"
  using assms unfolding run_command_def transact_def
  by (auto split: sum.splits prod.splits option.splits)

lemma transact_cases:
  assumes "transact m d = (r, d')"
  obtains "d' = d" "\<exists>e. r = Inl e" | x where "m d = Inr (x, d')"
  using assms unfolding transact_def by (auto split: sum.splits)

section \<open>New runs and migrations\<close>

lemma budgets_inv_new_run:
  assumes "budgets_inv rs cols" "k \<notin> fst ` set cols"
  shows "budgets_inv rs (cols @ [(k, limits, [])])"
proof -
  have "b_run_id b \<noteq> k" if "b \<in> set rs" for b
    using assms that by (auto simp: budgets_inv_def)
  then have "outstanding k c rs = 0" "settled_total k c rs = 0" for c
    by (auto simp: outstanding_def settled_total_def filter_False)
  then have "run_budget_ok rs (k, limits, [])"
    by (simp add: run_budget_ok_def total_of_def capacity_def split: option.splits)
  with assms show ?thesis unfolding budgets_inv_def by simp
qed

lemma create_turn_and_run_budgets:
  assumes "create_turn_and_run_body env now eid1 eid2 eid3 sid tid rid msg root commit limits pid d
      = Inr ((blob, e1, e2, e3), d')" "budgets_ok d"
  shows "budgets_ok d'"
  using assms(1)
proof (rule create_turn_and_run_steps)
  fix d1 d2 d3 q1 d4 q2 d5 q3 d6
  assume *: "blob_stored env msg d blob d1"
    "insert_turn (new_turn tid sid (e_event_id e1) rid now) d1 = Inr ((), d2)"
    "insert_run (new_run rid tid sid (resolve_path env root) commit limits now) d2 = Inr ((), d3)"
    "appended env eid1 now q1 d3 e1 d4" "appended env eid2 now q2 d4 e2 d5"
    "appended env eid3 now q3 d5 e3 d6"
    and d': "d' = update_run rid (\<lambda>r. r\<lparr>r_phase := Some RP_PREFLIGHTING, r_last_event_seq := e_seq e3\<rparr>) d6"
  have "budget_view d2 = budget_view d"
    using budget_tables.view_blob_stored [OF *(1)] *(2)
    by (auto simp: insert_turn_def budget_tables.view_simps split: if_splits)
  then have ok: "budgets_ok d2" using assms(2) budgets_ok_view by blast
  from *(3) have d3: "d3 = d2\<lparr>runs := runs d2 @ [new_run rid tid sid (resolve_path env root) commit limits now]\<rparr>"
    and new: "rid \<notin> r_run_id ` set (runs d2)"
    by (auto simp: insert_run_def new_run_def exists_iff split: if_splits)
  have "rid \<notin> fst ` set (map budget_cols (runs d2))" using new by (auto simp: budget_cols_def)
  then have "budgets_ok d3"
    using budgets_inv_new_run [OF ok [unfolded budgets_ok_def]]
    by (simp add: d3 budgets_ok_def new_run_def budget_cols_def)
  moreover have "budget_view d6 = budget_view d3"
    using *(4-6) by (simp add: budget_tables.view_appended)
  moreover have "pres (\<lambda>d. budget_view d = v) (modifyT (update_run rid
      (\<lambda>r. r\<lparr>r_phase := Some RP_PREFLIGHTING, r_last_event_seq := e_seq e3\<rparr>)))" for v
    by (rule budget_tables.keeps_update_run) simp
  then have "budget_view d' = budget_view d6"
    unfolding d' by (simp add: pres_def wp_modify)
  ultimately show ?thesis using budgets_ok_view [of d6 d3] budgets_ok_view [of d' d6] by simp
qed

lemma create_turn_and_run_advances:
  assumes "store_inv env d" "is_uuid eid1" "is_uuid eid2" "is_uuid eid3"
    and "create_turn_and_run env now eid1 eid2 eid3 sid tid rid msg root commit limits pid d = (r, d')"
  shows "advances env d d'"
proof (cases "create_turn_and_run_body env now eid1 eid2 eid3 sid tid rid msg root commit limits pid d")
  case (Inl e)
  with assms(1,5) show ?thesis by (simp add: create_turn_and_run_def transact_def advances_refl)
next
  case (Inr y)
  obtain blob e1 e2 e3 d1 where y: "y = ((blob, e1, e2, e3), d1)" by (cases y) auto
  with assms(5) Inr have d1: "d1 = d'" by (auto simp: create_turn_and_run_def transact_def)
  note C = Inr [unfolded y d1]
  have S: "store_ok env d" "tool_discipline d" "budgets_ok d" using assms(1) by (simp_all add: store_inv_def)
  then have L: "ledger_sound env d" by (simp add: store_ok_def)
  show ?thesis
    using create_turn_and_run_ok [OF S(1) assms(2-4) C] create_turn_and_run_budgets [OF C S(3)]
      create_turn_and_run_evolves [OF C L assms(2-4)] create_turn_and_run_status [OF C]
      tool_discipline_view [OF tool_tables.view_created [OF C] S(2)]
    by (simp add: advances_def store_inv_def)
qed

lemma create_session_advances:
  assumes "store_inv env d" "is_uuid eid" "create_session env now eid sid root config pid d = (r, d')"
  shows "advances env d d'"
proof (cases r)
  case (Inl e)
  then have "d' = d" using assms(3) unfolding create_session_def by (auto dest: transact_Inl)
  with assms(1) show ?thesis by (simp add: advances_refl)
next
  case (Inr e)
  note C = assms(3) [unfolded Inr]
  show ?thesis
    using assms(1) create_session_ok [OF assms(2) C] tool_tables.view_session [OF C] budget_tables.view_session [OF C]
      budgets_ok_view [of d' d] tool_discipline_view [of d' d]
    by (auto simp: advances_def store_inv_def store_ok_def)
qed

text \<open>
  Opening the store again: a migration that was applied must have the same statements, and
  rebuilding the model-call projection changes that table only.
\<close>

definition mc_frame :: "db \<Rightarrow> db" where
  "mc_frame d = d\<lparr>model_calls := [], schema_migrations := [], operational_projection_migrations := []\<rparr>"

definition mc_rebuilt :: "db \<Rightarrow> db \<Rightarrow> bool" where
  "mc_rebuilt d d' \<longleftrightarrow> model_calls_ok d' \<and> mc_frame d' = mc_frame d"

lemma mc_frame_tables:
  "mc_frame d' = mc_frame d \<Longrightarrow> sessions d' = sessions d \<and> runs d' = runs d \<and> events d' = events d \<and>
     tool_calls d' = tool_calls d \<and> tool_attempts d' = tool_attempts d \<and> approvals d' = approvals d \<and>
     budget_reservations d' = budget_reservations d \<and> checkpoints d' = checkpoints d \<and>
     blobs d' = blobs d \<and> control_commands d' = control_commands d"
  by (cases d; cases d') (simp add: mc_frame_def)

lemma mc_frame_simps [simp]:
  "mc_frame (d\<lparr>model_calls := m\<rparr>) = mc_frame d"
  "mc_frame (d\<lparr>schema_migrations := s\<rparr>) = mc_frame d"
  "mc_frame (d\<lparr>operational_projection_migrations := p\<rparr>) = mc_frame d"
  by (cases d; simp add: mc_frame_def)+

lemma mc_rebuilt_advances:
  assumes "store_inv env d" "mc_rebuilt d d'"
  shows "advances env d d'"
proof -
  have T: "sessions d' = sessions d" "runs d' = runs d" "events d' = events d" "tool_calls d' = tool_calls d"
    "tool_attempts d' = tool_attempts d" "approvals d' = approvals d" "blobs d' = blobs d"
    "budget_reservations d' = budget_reservations d" "checkpoints d' = checkpoints d"
    "control_commands d' = control_commands d" and m: "model_calls_ok d'"
    using assms(2) mc_frame_tables [of d' d] by (simp_all add: mc_rebuilt_def)
  have "ledger_ok env d' = ledger_ok env d" "blobs_ok env d' = blobs_ok env d"
    "checkpoints_ok env d' = checkpoints_ok env d" "\<And>k. history env d' k = history env d k"
    "budget_view d' = budget_view d" "tool_view d' = tool_view d"
    using T ledger_ok_cong [of d' d env] blobs_ok_cong [of d' d env] checkpoints_ok_cong [of d' d env]
      history_cong [of d' d env]
    by (simp_all add: budget_view_def tool_view_def)
  then show ?thesis
    using assms(1) m T budgets_ok_view [of d' d] tool_discipline_view [of d' d]
    by (simp add: advances_def store_inv_def store_ok_def ledger_sound_def runs_ok_def run_sessions_ok_def
        evolves_def status_step_def get_run_def)
qed

lemma pres_rebuilt:
  "pres (\<lambda>d. mc_rebuilt d0 d) (apply_migration env g)"
  "pres (\<lambda>d. mc_rebuilt d0 d) (backfill_model_call_projection env)"
proof -
  have mono: "mc_rebuilt d0 (d\<lparr>schema_migrations := s\<rparr>)" "mc_rebuilt d0 (d\<lparr>operational_projection_migrations := p\<rparr>)"
    "mc_rebuilt d0 (d\<lparr>model_calls := []\<rparr>)" if "mc_rebuilt d0 d" for d s p
    using that by (simp_all add: mc_rebuilt_def model_calls_ok_def active_calls_def)
  show "pres (\<lambda>d. mc_rebuilt d0 d) (apply_migration env g)"
    unfolding apply_migration_def by (intro pres_rules pres_modify mono)
  have proj: "pres (\<lambda>d. mc_rebuilt d0 d) (apply_operational_projection env e True)" for e
    unfolding pres_def
  proof (intro allI impI wpI)
    fix d x d' assume d: "mc_rebuilt d0 d" and x: "apply_operational_projection env e True d = Inr (x, d')"
    have "mc_only d d'" using wpD [OF apply_operational_projection_frame x] .
    moreover have "model_calls_ok d'"
      using d wpD [OF apply_operational_projection_ok x] by (simp add: mc_rebuilt_def)
    ultimately show "mc_rebuilt d0 d'" using d by (auto simp: mc_rebuilt_def mc_only_def)
  qed
  have loop: "pres (\<lambda>d. mc_rebuilt d0 d) (forT (\<lambda>row. bindT (liftT (event_from_row env row)) (\<lambda>e.
      apply_operational_projection env e True)) rows)" for rows
    unfolding pres_def
    by (intro allI impI wp_for) (auto intro!: wp_pres pres_bind pres_basic proj)
  show "pres (\<lambda>d. mc_rebuilt d0 d) (backfill_model_call_projection env)"
    unfolding backfill_model_call_projection_def by (intro pres_rules loop pres_modify mono)
qed

lemma apply_migrations_rebuilt: "mc_rebuilt d0 d \<Longrightarrow> apply_migrations env gs d = (r, d') \<Longrightarrow> mc_rebuilt d0 d'"
proof (induction gs arbitrary: d)
  case Nil
  then show ?case by (auto elim!: transact_cases dest: presD [OF pres_rebuilt(2)])
next
  case (Cons g gs)
  obtain r1 d1 where t: "transact (apply_migration env g) d = (r1, d1)" by fastforce
  then have "mc_rebuilt d0 d1"
    using Cons.prems(1) by (auto elim!: transact_cases dest: presD [OF pres_rebuilt(1)])
  with Cons t show ?case by (auto split: sum.splits)
qed

lemma apply_migrations_advances:
  assumes "store_inv env d" "apply_migrations env gs d = (r, d')"
  shows "advances env d d'"
proof (rule mc_rebuilt_advances [OF assms(1)])
  have "mc_rebuilt d d" using assms(1)
    by (simp add: mc_rebuilt_def store_inv_def store_ok_def ledger_sound_def)
  then show "mc_rebuilt d d'" using assms(2) by (rule apply_migrations_rebuilt)
qed

section \<open>The store machine\<close>

text \<open>
  The condition under which \<^const>\<open>append_event\<close> keeps the run projection: an event that
  does not change a run, in the run's own session.
\<close>

definition plain_event :: "event_request \<Rightarrow> db \<Rightarrow> bool" where
  "plain_event q d \<longleftrightarrow> neutral (q_payload q) \<and>
     (case q_run_id q of None \<Rightarrow> True | Some rid \<Rightarrow>
       (case get_run d rid of None \<Rightarrow> True | Some r \<Rightarrow> q_session_id q = r_session_id r))"

inductive store_step :: "env \<Rightarrow> db \<Rightarrow> db \<Rightarrow> bool" for env where
  step_open: "apply_migrations env gs d = (r, d') \<Longrightarrow> store_step env d d'"
| step_create_session:
    "is_uuid eid \<Longrightarrow> create_session env now eid sid root config pid d = (r, d') \<Longrightarrow> store_step env d d'"
| step_put_blob: "put_blob env now content mt d = (r, d') \<Longrightarrow> store_step env d d'"
| step_create_turn_and_run:
    "is_uuid eid1 \<Longrightarrow> is_uuid eid2 \<Longrightarrow> is_uuid eid3 \<Longrightarrow>
     create_turn_and_run env now eid1 eid2 eid3 sid tid rid msg root commit limits pid d = (r, d') \<Longrightarrow>
     store_step env d d'"
| step_acquire: "acquire_run_lease rid owner ttl now d = (r, d') \<Longrightarrow> store_step env d d'"
| step_renew: "renew_run_lease c ttl now d = (r, d') \<Longrightarrow> store_step env d d'"
| step_release: "release_run_lease lease d = (r, d') \<Longrightarrow> store_step env d d'"
| step_begin_workspace:
    "is_uuid eid1 \<Longrightarrow> is_uuid eid2 \<Longrightarrow>
     begin_workspace_provisioning env now eid1 eid2 rid dm pid ctx d = (r, d') \<Longrightarrow> store_step env d d'"
| step_attach_workspace:
    "is_uuid eid1 \<Longrightarrow> is_uuid eid2 \<Longrightarrow>
     attach_provisioned_workspace env now eid1 eid2 rid wt br bc om ot pid ctx d = (r, d') \<Longrightarrow>
     store_step env d d'"
| step_set_disposition:
    "is_uuid eid \<Longrightarrow> set_workspace_disposition env now eid rid ex ta re pid d = (r, d') \<Longrightarrow>
     store_step env d d'"
| step_checkpoint:
    "is_uuid eid \<Longrightarrow> commit_run_checkpoint env now eid rid ck pid ctx d = (r, d') \<Longrightarrow> store_step env d d'"
| step_propose:
    "is_uuid eid \<Longrightarrow>
     propose_tool_call env now eid fid rid rsp n tn tv args ec tps pv pid ctx d = (r, d') \<Longrightarrow>
     store_step env d d'"
| step_request_approval:
    "is_uuid eid \<Longrightarrow> request_tool_approval env now eid fid tc pol pid ctx d = (r, d') \<Longrightarrow> store_step env d d'"
| step_decide:
    "is_uuid eid \<Longrightarrow> decide_tool_approval env now eid aid fp dc ac re pid cc ctx d = (r, d') \<Longrightarrow>
     store_step env d d'"
| step_dispatch:
    "is_uuid eid \<Longrightarrow> dispatch_tool_call env now eid fid tc plan ident pid att ctx d = (r, d') \<Longrightarrow>
     store_step env d d'"
| step_finish:
    "is_uuid eid \<Longrightarrow> finish_tool_attempt env now eid atid oc pid rc out mt er rt ctx d = (r, d') \<Longrightarrow>
     store_step env d d'"
| step_reserve:
    "is_uuid eid \<Longrightarrow> reserve_budget env now eid rid bid cat n pid ctx d = (r, d') \<Longrightarrow> store_step env d d'"
| step_settle:
    "is_uuid eid \<Longrightarrow> settle_budget env now eid bid n pid ctx d = (r, d') \<Longrightarrow> store_step env d d'"
| step_cancel:
    "is_uuid eid \<Longrightarrow> request_cancellation env now eid rid ac re pid cc d = (r, d') \<Longrightarrow> store_step env d d'"
| step_transition:
    "is_uuid eid \<Longrightarrow> transition_run_phase env now eid rid pp np re pid ctx d = (r, d') \<Longrightarrow> store_step env d d'"
| step_final_answer:
    "is_uuid eid1 \<Longrightarrow> is_uuid eid2 \<Longrightarrow>
     commit_final_answer env now eid1 eid2 rid rsp an vs pid ctx d = (r, d') \<Longrightarrow> store_step env d d'"
| step_complete:
    "is_uuid eid \<Longrightarrow> complete_run env now eid rid vs pid ctx d = (r, d') \<Longrightarrow> store_step env d d'"
| step_terminate:
    "is_uuid eid \<Longrightarrow> terminate_run env now eid rid st re pid ctx d = (r, d') \<Longrightarrow> store_step env d d'"
| step_rebuild:
    "is_uuid eid \<Longrightarrow> rebuild_run_projection env now eid rid pid d = (r, d') \<Longrightarrow> store_step env d d'"
| step_append:
    "is_uuid eid \<Longrightarrow> plain_event q d \<Longrightarrow> append_event env now eid q ctx d = (r, d') \<Longrightarrow> store_step env d d'"

lemma command_advances:
  assumes "store_inv env d" "run_command ctx m d = (r, d')" "wp m (commits env d ctx') d"
    and "pres (sound_from env d) m" "wp m (\<lambda>_. tool_discipline) d" "wp m (\<lambda>_. budgets_ok) d"
  shows "advances env d d'"
  using assms(2)
proof (cases rule: run_command_cases)
  case 1
  then show ?thesis using assms(1) by (simp add: advances_refl)
next
  case (2 x v)
  then show ?thesis using assms by (blast intro: body_advances wp_committed)
qed

text \<open>A command that touches neither the tool tables nor the budgets.\<close>

lemma plain_command_advances:
  assumes "store_inv env d" "run_command ctx m d = (r, d')" "wp m (commits env d ctx') d"
    and "pres (sound_from env d) m" "\<And>v. pres (\<lambda>d. tool_view d = v) m" "\<And>v. pres (\<lambda>d. budget_view d = v) m"
  shows "advances env d d'"
  using assms
  by (intro command_advances [OF assms(1-4)] wp_discipline_view wp_pres [OF pres_budgets_view])
    (simp_all add: store_inv_def)

lemma plain_transact_advances:
  assumes "store_inv env d" "transact m d = (r, d')" "wp m (\<lambda>_ d'. store_ok env d' \<and> status_step d d') d"
    and "pres (sound_from env d) m" "\<And>v. pres (\<lambda>d. tool_view d = v) m" "\<And>v. pres (\<lambda>d. budget_view d = v) m"
  shows "advances env d d'"
  using assms(2)
proof (cases rule: transact_cases)
  case 1
  then show ?thesis using assms(1) by (simp add: advances_refl)
next
  case (2 x)
  have "wp m (\<lambda>_. tool_discipline) d" "wp m (\<lambda>_. budgets_ok) d"
    using assms by (auto intro!: wp_discipline_view wp_pres [OF pres_budgets_view] simp: store_inv_def)
  with 2 assms(1,3,4) show ?thesis by (rule_tac body_advances)
qed

lemma status_step_update:
  "keeps r_run_id f \<Longrightarrow> keeps r_execution_status f \<Longrightarrow> status_step d (update_run k f d)"
  by (simp add: status_step_def run_store.lookup_update)

lemma leases_status:
  "distinct (map r_run_id (runs d)) \<Longrightarrow> wp (acquire_run_lease_body k owner ttl now) (\<lambda>_. status_step d) d"
  "distinct (map r_run_id (runs d)) \<Longrightarrow> wp (renew_run_lease_body c ttl now) (\<lambda>_. status_step d) d"
  "distinct (map r_run_id (runs d)) \<Longrightarrow> wp (release_run_lease_body l) (\<lambda>_. status_step d) d"
  by (auto intro!: wp_acquire wp_renew wp_release status_step_update simp: set_lease_def)

lemma leases_advance:
  assumes "store_inv env d"
  shows "acquire_run_lease rid owner ttl now d = (r1, d') \<Longrightarrow> advances env d d'"
    and "renew_run_lease c ttl now d = (r1, d') \<Longrightarrow> advances env d d'"
    and "release_run_lease lease d = (r2, d') \<Longrightarrow> advances env d d'"
proof -
  have ok: "store_ok env d" "distinct (map r_run_id (runs d))"
    using assms by (simp_all add: store_inv_def store_ok_def ledger_sound_def)
  note keeps = pres_leases tool_tables.keeps_leases budget_tables.keeps_leases
  note plain = plain_transact_advances [OF assms _ wp_conj]
  show "acquire_run_lease rid owner ttl now d = (r1, d') \<Longrightarrow> advances env d d'"
    unfolding acquire_run_lease_def
    by (erule plain [OF _ leases_store_ok(1) [OF ok(1)] leases_status(1) [OF ok(2)]]) (intro keeps)+
  show "renew_run_lease c ttl now d = (r1, d') \<Longrightarrow> advances env d d'"
    unfolding renew_run_lease_def
    by (erule plain [OF _ leases_store_ok(2) [OF ok(1)] leases_status(2) [OF ok(2)]]) (intro keeps)+
  show "release_run_lease lease d = (r2, d') \<Longrightarrow> advances env d d'"
    unfolding release_run_lease_def
    by (erule plain [OF _ leases_store_ok(3) [OF ok(1)] leases_status(3) [OF ok(2)]]) (intro keeps)+
qed

lemma put_blob_advances:
  assumes "store_inv env d" "put_blob env now content mt d = (r, d')"
  shows "advances env d d'"
proof (rule plain_transact_advances [OF assms(1) assms(2) [unfolded put_blob_def]])
  show "wp (put_blob_in_transaction env now content mt) (\<lambda>_ d'. store_ok env d' \<and> status_step d d') d"
    using assms(1)
    by (intro wp_put_blob)
      (auto simp: store_inv_def status_step_def get_run_def dest: blob_stored_store_ok blob_stored_tables)
qed (intro pres_put_blob tool_tables.keeps_put_blob budget_tables.keeps_put_blob)+

lemmas command_defs = begin_workspace_provisioning_def attach_provisioned_workspace_def
  set_workspace_disposition_def commit_run_checkpoint_def propose_tool_call_def
  request_tool_approval_def decide_tool_approval_def dispatch_tool_call_def finish_tool_attempt_def
  reserve_budget_def settle_budget_def transition_run_phase_def commit_final_answer_def
  complete_run_def terminate_run_def append_event_def

lemma lifecycle_advances:
  assumes "store_inv env d"
  shows "is_uuid eid1 \<Longrightarrow> is_uuid eid2 \<Longrightarrow>
      begin_workspace_provisioning env now eid1 eid2 rid dm pid ctx d = (r1, d') \<Longrightarrow> advances env d d'"
    and "is_uuid eid1 \<Longrightarrow> is_uuid eid2 \<Longrightarrow>
      attach_provisioned_workspace env now eid1 eid2 rid wt br bc om ot pid ctx d = (r2, d') \<Longrightarrow>
      advances env d d'"
    and "is_uuid eid1 \<Longrightarrow> set_workspace_disposition env now eid1 rid ex ta re pid d = (r2, d') \<Longrightarrow>
      advances env d d'"
    and "is_uuid eid1 \<Longrightarrow> commit_run_checkpoint env now eid1 rid ck pid ctx d = (r3, d') \<Longrightarrow>
      advances env d d'"
    and "is_uuid eid1 \<Longrightarrow> transition_run_phase env now eid1 rid pp np re pid ctx d = (r4, d') \<Longrightarrow>
      advances env d d'"
    and "is_uuid eid1 \<Longrightarrow> is_uuid eid2 \<Longrightarrow>
      commit_final_answer env now eid1 eid2 rid rsp an vs pid ctx d = (r4, d') \<Longrightarrow> advances env d d'"
    and "is_uuid eid1 \<Longrightarrow> complete_run env now eid1 rid vs pid ctx d = (r4, d') \<Longrightarrow> advances env d d'"
    and "is_uuid eid1 \<Longrightarrow> terminate_run env now eid1 rid st re pid ctx d = (r4, d') \<Longrightarrow> advances env d d'"
    and "is_uuid eid1 \<Longrightarrow> plain_event q d \<Longrightarrow> append_event env now eid1 q ctx d = (r5, d') \<Longrightarrow>
      advances env d d'"
proof -
  have ok: "store_ok env d" using assms by (simp add: store_inv_def)
  note plain = plain_command_advances [OF assms]
  note keeps = tool_tables.keeps_lifecycle budget_tables.keeps_lifecycle tool_tables.keeps_append_event
    budget_tables.keeps_append_event pres_lifecycle pres_append_event
  show "begin_workspace_provisioning env now eid1 eid2 rid dm pid ctx d = (r1, d') \<Longrightarrow> advances env d d'"
    if "is_uuid eid1" "is_uuid eid2"
    unfolding command_defs by (erule plain [OF _ begin_workspace_provisioning_committed [OF ok that]]) (intro keeps that)+
  show "attach_provisioned_workspace env now eid1 eid2 rid wt br bc om ot pid ctx d = (r2, d') \<Longrightarrow>
      advances env d d'" if "is_uuid eid1" "is_uuid eid2"
    unfolding command_defs by (erule plain [OF _ attach_provisioned_workspace_committed [OF ok that]]) (intro keeps that)+
  show "set_workspace_disposition env now eid1 rid ex ta re pid d = (r2, d') \<Longrightarrow> advances env d d'"
    if "is_uuid eid1"
    unfolding command_defs by (erule plain [OF _ set_workspace_disposition_committed [OF ok that]]) (intro keeps that)+
  show "commit_run_checkpoint env now eid1 rid ck pid ctx d = (r3, d') \<Longrightarrow> advances env d d'"
    if "is_uuid eid1"
    unfolding command_defs by (erule plain [OF _ commit_run_checkpoint_committed [OF ok that]]) (intro keeps that)+
  show "transition_run_phase env now eid1 rid pp np re pid ctx d = (r4, d') \<Longrightarrow> advances env d d'"
    if "is_uuid eid1"
    unfolding command_defs by (erule plain [OF _ transition_run_phase_committed [OF ok that]]) (intro keeps that)+
  show "commit_final_answer env now eid1 eid2 rid rsp an vs pid ctx d = (r4, d') \<Longrightarrow> advances env d d'"
    if "is_uuid eid1" "is_uuid eid2"
    unfolding command_defs by (erule plain [OF _ commit_final_answer_committed [OF ok that]]) (intro keeps that)+
  show "complete_run env now eid1 rid vs pid ctx d = (r4, d') \<Longrightarrow> advances env d d'" if "is_uuid eid1"
    unfolding command_defs by (erule plain [OF _ complete_run_committed [OF ok that]]) (intro keeps that)+
  show "terminate_run env now eid1 rid st re pid ctx d = (r4, d') \<Longrightarrow> advances env d d'" if "is_uuid eid1"
    unfolding command_defs by (erule plain [OF _ terminate_run_committed [OF ok that]]) (intro keeps that)+
  show "append_event env now eid1 q ctx d = (r5, d') \<Longrightarrow> advances env d d'"
    if "is_uuid eid1" "plain_event q d"
  proof -
    have "wp (append_event_body env now eid1 q ctx) (commits env d ctx) d"
      using that(2) by (intro append_event_committed [OF ok that(1)]) (auto simp: plain_event_def)
    note committed = this
    show "append_event env now eid1 q ctx d = (r5, d') \<Longrightarrow> advances env d d'"
      unfolding command_defs by (erule plain [OF _ committed]) (intro keeps that)+
  qed
qed

lemma tool_commands_advance:
  assumes "store_inv env d" "is_uuid eid"
  shows "propose_tool_call env now eid fid rid rsp n tn tv args ec tps pv pid ctx d = (r1, d') \<Longrightarrow>
      advances env d d'"
    and "request_tool_approval env now eid fid tc pol pid ctx d = (r2, d') \<Longrightarrow> advances env d d'"
    and "decide_tool_approval env now eid aid fp dc ac re pid cc ctx d = (r2, d') \<Longrightarrow> advances env d d'"
    and "dispatch_tool_call env now eid fid tc plan ident pid att ctx d = (r3, d') \<Longrightarrow> advances env d d'"
    and "finish_tool_attempt env now eid atid oc pid rc out mt er rt ctx d = (r3, d') \<Longrightarrow> advances env d d'"
proof -
  have ok: "store_ok env d" "tool_discipline d" "budgets_ok d" using assms(1) by (simp_all add: store_inv_def)
  note tool = command_advances [OF assms(1)]
  note keeps = pres_tool_calls [OF assms(2)] tool_commands_discipline [OF ok(2)]
    wp_pres [OF pres_budgets_view [OF budget_tables.keeps_tool_commands(1)] ok(3)]
    wp_pres [OF pres_budgets_view [OF budget_tables.keeps_tool_commands(2)] ok(3)]
    wp_pres [OF pres_budgets_view [OF budget_tables.keeps_tool_commands(3)] ok(3)]
    wp_pres [OF pres_budgets_view [OF budget_tables.keeps_tool_commands(4)] ok(3)]
    wp_pres [OF pres_budgets_view [OF budget_tables.keeps_tool_commands(5)] ok(3)]
  show "propose_tool_call env now eid fid rid rsp n tn tv args ec tps pv pid ctx d = (r1, d') \<Longrightarrow>
      advances env d d'"
    unfolding command_defs by (erule tool [OF _ propose_tool_call_committed [OF ok(1) assms(2)]]) (rule keeps)+
  show "request_tool_approval env now eid fid tc pol pid ctx d = (r2, d') \<Longrightarrow> advances env d d'"
    unfolding command_defs by (erule tool [OF _ request_tool_approval_committed [OF ok(1) assms(2)]]) (rule keeps)+
  show "decide_tool_approval env now eid aid fp dc ac re pid cc ctx d = (r2, d') \<Longrightarrow> advances env d d'"
    unfolding command_defs by (erule tool [OF _ decide_tool_approval_committed [OF ok(1) assms(2)]]) (rule keeps)+
  show "dispatch_tool_call env now eid fid tc plan ident pid att ctx d = (r3, d') \<Longrightarrow> advances env d d'"
    unfolding command_defs by (erule tool [OF _ dispatch_tool_call_committed [OF ok(1) assms(2)]]) (rule keeps)+
  show "finish_tool_attempt env now eid atid oc pid rc out mt er rt ctx d = (r3, d') \<Longrightarrow> advances env d d'"
    unfolding command_defs by (erule tool [OF _ finish_tool_attempt_committed [OF ok(1) assms(2)]]) (rule keeps)+
qed

lemma budget_commands_advance:
  assumes "store_inv env d" "is_uuid eid"
  shows "reserve_budget env now eid rid bid cat n pid ctx d = (r, d') \<Longrightarrow> advances env d d'"
    and "settle_budget env now eid bid n pid ctx d = (r, d') \<Longrightarrow> advances env d d'"
proof -
  have ok: "store_ok env d" "tool_discipline d" "budgets_ok d" using assms(1) by (simp_all add: store_inv_def)
  note budget = command_advances [OF assms(1)]
  note keeps = pres_budgets [OF assms(2)] reserve_budget_budgets [OF ok(3)] settle_budget_budgets [OF ok(3)]
    wp_discipline_view [OF ok(2) tool_tables.keeps_budget_commands(1)]
    wp_discipline_view [OF ok(2) tool_tables.keeps_budget_commands(2)]
  show "reserve_budget env now eid rid bid cat n pid ctx d = (r, d') \<Longrightarrow> advances env d d'"
    unfolding command_defs by (erule budget [OF _ reserve_budget_committed [OF ok(1) assms(2)]]) (rule keeps)+
  show "settle_budget env now eid bid n pid ctx d = (r, d') \<Longrightarrow> advances env d d'"
    unfolding command_defs by (erule budget [OF _ settle_budget_committed [OF ok(1) assms(2)]]) (rule keeps)+
qed

lemma repair_advances:
  assumes "store_inv env d" "is_uuid eid"
  shows "request_cancellation env now eid rid ac re pid cc d = (r1, d') \<Longrightarrow> advances env d d'"
    and "rebuild_run_projection env now eid rid pid d = (r2, d') \<Longrightarrow> advances env d d'"
proof -
  have ok: "store_ok env d" using assms(1) by (simp add: store_inv_def)
  note keeps = pres_lifecycle tool_tables.keeps_lifecycle budget_tables.keeps_lifecycle assms(2)
  note plain = plain_transact_advances [OF assms(1) _ wp_committed']
  show "request_cancellation env now eid rid ac re pid cc d = (r1, d') \<Longrightarrow> advances env d d'"
    unfolding request_cancellation_def
    by (erule plain [OF _ request_cancellation_committed [OF ok assms(2)]]) (intro keeps)+
  show "rebuild_run_projection env now eid rid pid d = (r2, d') \<Longrightarrow> advances env d d'"
    unfolding rebuild_run_projection_def
    by (erule plain [OF _ rebuild_run_projection_committed [OF ok assms(2)]]) (intro keeps)+
qed

text \<open>Every step keeps the invariant and only evolves the database.\<close>

lemma store_step_advances:
  assumes "store_step env d d'" "store_inv env d"
  shows "advances env d d'"
  using assms(1)
proof cases
qed (blast intro: assms(2) apply_migrations_advances create_session_advances put_blob_advances
  create_turn_and_run_advances leases_advance lifecycle_advances tool_commands_advance
  budget_commands_advance repair_advances)+

section \<open>Reachable states\<close>

text \<open>
  A machine with an invariant and a preorder its steps follow; both carry over to
  sequences of steps.
\<close>

locale evolving_machine =
  fixes machine_step :: "'s \<Rightarrow> 's \<Rightarrow> bool"
    and inv :: "'s \<Rightarrow> bool"
    and follows :: "'s \<Rightarrow> 's \<Rightarrow> bool"
  assumes step_inv: "machine_step s t \<Longrightarrow> inv s \<Longrightarrow> inv t"
    and step_follows: "machine_step s t \<Longrightarrow> inv s \<Longrightarrow> follows s t"
    and follows_refl: "follows s s"
    and follows_trans: "follows s t \<Longrightarrow> follows t u \<Longrightarrow> follows s u"
begin

lemma steps_inv_follows: "machine_step\<^sup>*\<^sup>* s t \<Longrightarrow> inv s \<Longrightarrow> inv t \<and> follows s t"
proof (induction rule: rtranclp_induct)
  case (step t u)
  then show ?case by (blast intro: step_inv step_follows follows_trans)
qed (simp add: follows_refl)

end

lemma status_step_trans: "status_step a b \<Longrightarrow> status_step b c \<Longrightarrow> status_step a c"
  unfolding status_step_def by metis

interpretation machine: evolving_machine "store_step env" "store_inv env" evolves for env
  by unfold_locales (auto dest: store_step_advances simp: advances_def intro: evolves_trans)

interpretation status_machine: evolving_machine "store_step env" "store_inv env" status_step for env
  by unfold_locales (auto dest: store_step_advances simp: advances_def intro: status_step_trans)

text \<open>The states of a store that started empty with a sensible quota.\<close>

inductive reachable :: "env \<Rightarrow> db \<Rightarrow> bool" for env where
  reachable_empty: "0 \<le> max_total_bytes env \<Longrightarrow> reachable env empty_db"
| reachable_step: "reachable env d \<Longrightarrow> store_step env d d' \<Longrightarrow> reachable env d'"

lemma store_inv_empty: "0 \<le> max_total_bytes env \<Longrightarrow> store_inv env empty_db"
  using store_ok_empty [of env]
  by (simp add: store_inv_def tool_discipline_def tools_ok_def tools_inv_def approvals_linked_def
      budgets_ok_def budgets_inv_def empty_db_def)

lemma reachable_inv: "reachable env d \<Longrightarrow> store_inv env d"
  by (induction rule: reachable.induct) (blast intro: store_inv_empty machine.step_inv)+

end
