(* ===== verification/Scenario.thy ===== *)
theory Scenario
  imports Store
begin

text \<open>
  A concrete run of the store: a session, a run leased by a worker, a model call that
  proposes a tool call, its approval and dispatch, and a budget reservation that is
  settled. The commands are executed symbolically by the simplifier; the states serve as
  concrete instances of the theorems of the development. The digest of the instance is a
  constant function: no theorem assumes more of \<^const>\<open>sha256\<close> than that it is a function.
\<close>

section \<open>Environment and identifiers\<close>

definition demo_env :: env where
  "demo_env = \<lparr>sha256 = (\<lambda>s. ''d''), nfc = (\<lambda>s. s), resolve_path = (\<lambda>p. p), resolve_strict = Some,
     max_blob_bytes = 1000, max_total_bytes = 5000\<rparr>"

lemma demo_env_simps [simp]:
  "sha256 demo_env s = ''d''" "nfc demo_env s = s" "resolve_path demo_env p = p"
  "resolve_strict demo_env p = Some p" "max_blob_bytes demo_env = 1000" "max_total_bytes demo_env = 5000"
  by (simp_all add: demo_env_def)

definition uid :: "char \<Rightarrow> string" where
  "uid c = ''00000000-0000-4000-8000-00000000000'' @ [c]"

lemma uid_inj [simp]: "uid a = uid b \<longleftrightarrow> a = b"
  by (simp add: uid_def)

lemma uid_nonempty [simp]: "uid a \<noteq> []"
  by (simp add: uid_def)

lemma uid_parse [simp]:
  "parse_uuid (uid CHR ''1'') = Inr (uid CHR ''1'')" "parse_uuid (uid CHR ''2'') = Inr (uid CHR ''2'')"
  "parse_uuid (uid CHR ''3'') = Inr (uid CHR ''3'')" "parse_uuid (uid CHR ''4'') = Inr (uid CHR ''4'')"
  "parse_uuid (uid CHR ''5'') = Inr (uid CHR ''5'')" "parse_uuid (uid CHR ''6'') = Inr (uid CHR ''6'')"
  "parse_uuid (uid CHR ''7'') = Inr (uid CHR ''7'')" "parse_uuid (uid CHR ''8'') = Inr (uid CHR ''8'')"
  "parse_uuid (uid CHR ''9'') = Inr (uid CHR ''9'')" "parse_uuid (uid CHR ''a'') = Inr (uid CHR ''a'')"
  "parse_uuid (uid CHR ''b'') = Inr (uid CHR ''b'')" "parse_uuid (uid CHR ''c'') = Inr (uid CHR ''c'')"
  by code_simp+

lemma uid_is_uuid [simp]:
  "is_uuid (uid CHR ''1'')" "is_uuid (uid CHR ''2'')" "is_uuid (uid CHR ''3'')" "is_uuid (uid CHR ''4'')"
  "is_uuid (uid CHR ''5'')" "is_uuid (uid CHR ''6'')" "is_uuid (uid CHR ''7'')" "is_uuid (uid CHR ''8'')"
  "is_uuid (uid CHR ''9'')" "is_uuid (uid CHR ''a'')" "is_uuid (uid CHR ''b'')" "is_uuid (uid CHR ''c'')"
  by (simp_all add: is_uuid_def)

lemmas exec_simps = transact_def run_command_def bindT_apply insert_defs append_event_in_transaction_def
  readT_def prepare_event_def get_defs insert_event_def new_event_def envelope_check_def parse_opt_uuid_def
  apply_operational_projection_def exists_iff opt_exists_def sha256_json_def tbl_simps
  advance_session_def blank_def is_space_def table_update_defs row_upd_def require_run_row_def
  advance_execution_context_def observe_def

section \<open>A session and a run\<close>

definition demo_blob :: blob_row where
  "demo_blob = \<lparr>o_sha256 = ''d'', o_byte_length = 5, o_media_type = ''text/plain; charset=utf-8'',
     o_content = ''do it'', o_created_at = 101\<rparr>"

definition demo_event ::
  "char \<Rightarrow> int \<Rightarrow> instant \<Rightarrow> string option \<Rightarrow> string option \<Rightarrow> string option \<Rightarrow> string option \<Rightarrow> payload
     \<Rightarrow> event_row" where
  "demo_event c sq at tid rid cause corr p = row_of_event demo_env
     \<lparr>e_event_id = uid c, e_schema_version = 1, e_session_id = ''s'', e_turn_id = tid, e_run_id = rid,
      e_seq = sq, e_occurred_at = at, e_process_instance_id = ''p'', e_boot_id = None,
      e_causation_event_id = cause, e_correlation_id = corr, e_payload = p\<rparr>"

definition demo_run :: run_row where
  "demo_run = \<lparr>r_run_id = ''r'', r_turn_id = ''t'', r_session_id = ''s'', r_execution_status = ES_ACTIVE,
     r_phase = Some RP_PREFLIGHTING, r_workspace_disposition = WD_NONE, r_base_repo_root = ''/repo'',
     r_base_commit_sha = ''abc'', r_worktree_path = None, r_worktree_branch = None, r_created_at = 101,
     r_finished_at = None, r_last_event_seq = 4, r_lease_owner = None, r_lease_epoch = 0,
     r_lease_expires_at = None, r_cancel_requested_at = None, r_cancel_reason = None,
     r_budget_limits = [(''tokens'', 10)], r_budget_consumed = [], r_terminal_reason = None\<rparr>"

definition demo_session :: "int \<Rightarrow> char \<Rightarrow> session_row" where
  "demo_session n c = \<lparr>s_session_id = ''s'', s_workspace_root = ''/repo'', s_created_at = 100,
     s_status = ''active'', s_next_seq = n, s_config = JObj [], s_last_event_id = Some (uid c)\<rparr>"

definition demo_turn :: turn_row where
  "demo_turn = \<lparr>t_turn_id = ''t'', t_session_id = ''s'', t_user_event_id = uid CHR ''2'',
     t_created_at = 101, t_status = ''active'', t_active_run_id = Some ''r''\<rparr>"

definition ev1 :: event_row where
  "ev1 = demo_event CHR ''1'' 1 100 None None None None (SessionCreatedPayload ''/repo'' ''d'')"

definition ev2 :: event_row where
  "ev2 = demo_event CHR ''2'' 2 101 (Some ''t'') None None None (UserMessageReceivedPayload ''d'')"

definition ev3 :: event_row where
  "ev3 = demo_event CHR ''3'' 3 101 (Some ''t'') (Some ''r'') (Some (uid CHR ''2'')) (Some ''r'')
     (RunCreatedPayload ''/repo'' ''abc'' [(''tokens'', 10)])"

definition ev4 :: event_row where
  "ev4 = demo_event CHR ''4'' 4 101 (Some ''t'') (Some ''r'') (Some (uid CHR ''3'')) (Some ''r'')
     (RunPhaseChangedPayload None RP_PREFLIGHTING ''run created'')"

definition s_session :: db where
  "s_session = snd (create_session demo_env 100 (uid CHR ''1'') ''s'' ''/repo'' (JObj []) ''p'' empty_db)"

definition s_run :: db where
  "s_run = snd (create_turn_and_run demo_env 101 (uid CHR ''2'') (uid CHR ''3'') (uid CHR ''4'')
     ''s'' ''t'' ''r'' ''do it'' ''/repo'' ''abc'' [(''tokens'', 10)] ''p'' s_session)"

lemma s_session_eq: "s_session = empty_db\<lparr>sessions := [demo_session 2 CHR ''1''], events := [ev1]\<rparr>"
  by (simp add: s_session_def create_session_def exec_simps empty_db_def demo_session_def ev1_def demo_event_def)

lemma s_run_eq: "s_run = empty_db\<lparr>sessions := [demo_session 5 CHR ''4''], turns := [demo_turn],
    runs := [demo_run], events := [ev1, ev2, ev3, ev4], blobs := [demo_blob]\<rparr>"
  by (simp add: s_run_def create_turn_and_run_def create_turn_and_run_body_def s_session_eq exec_simps
      empty_db_def demo_session_def ev1_def ev2_def ev3_def ev4_def demo_event_def demo_turn_def demo_run_def
      demo_blob_def put_blob_in_transaction_def new_turn_def new_run_def total_blob_bytes_def)

lemma reachable_s_session: "reachable demo_env s_session"
  unfolding s_session_def
  by (rule reachable_step [OF reachable_empty step_create_session [OF _ prod.collapse [symmetric]]]) simp_all

lemma reachable_s_run: "reachable demo_env s_run"
  unfolding s_run_def
  by (rule reachable_step [OF reachable_s_session step_create_turn_and_run [OF _ _ _ prod.collapse [symmetric]]])
    simp_all

section \<open>A lease and a model call\<close>

definition demo_context :: "int \<Rightarrow> execution_context" where
  "demo_context v = \<lparr>ctx_run_id = ''r'', ctx_worker_id = ''w'', ctx_lease_epoch = 1,
     ctx_lease_expires_at = Aware 60000200, ctx_stream_version = v\<rparr>"

definition leased_run :: "int \<Rightarrow> run_row" where
  "leased_run sq = demo_run\<lparr>r_lease_owner := Some ''w'', r_lease_epoch := 1,
     r_lease_expires_at := Some 60000200, r_last_event_seq := sq\<rparr>"

definition run_request :: "string option \<Rightarrow> payload \<Rightarrow> event_request" where
  "run_request cause p = \<lparr>q_session_id = ''s'', q_process_instance_id = ''p'', q_payload = p,
     q_turn_id = Some ''t'', q_run_id = Some ''r'', q_causation_event_id = cause, q_correlation_id = None\<rparr>"

definition call_id :: string where
  "call_id = ''model-call:r:0''"

definition demo_call :: "model_call_status \<Rightarrow> model_call_row" where
  "demo_call st = (new_model_call call_id ''r'' 0 ''m'' 5)\<lparr>mc_attempt_count := 1, mc_latest_attempt_no := 1,
     mc_first_started_event_id := Some (uid CHR ''5''), mc_latest_attempt_event_id := Some (uid CHR ''5''),
     mc_status := st\<rparr>"

definition ev5 :: event_row where
  "ev5 = demo_event CHR ''5'' 5 300 (Some ''t'') (Some ''r'') None None (ModelCallStartedPayload call_id ''m'' 1 (Some 0))"

definition ev6 :: event_row where
  "ev6 = demo_event CHR ''6'' 6 301 (Some ''t'') (Some ''r'') (Some (uid CHR ''5'')) None
     (ModelResponseReceivedPayload call_id ''d'' None None)"

definition s_leased :: db where
  "s_leased = snd (acquire_run_lease ''r'' ''w'' 60 200 s_run)"

definition s_started :: db where
  "s_started = snd (append_event demo_env 300 (uid CHR ''5'')
     (run_request None (ModelCallStartedPayload call_id ''m'' 1 (Some 0))) (Some (demo_context 4)) s_leased)"

definition s_responded :: db where
  "s_responded = snd (append_event demo_env 301 (uid CHR ''6'')
     (run_request (Some (uid CHR ''5'')) (ModelResponseReceivedPayload call_id ''d'' None None))
     (Some (demo_context 5)) s_started)"

lemmas row_defs = demo_session_def ev1_def ev2_def ev3_def ev4_def ev5_def ev6_def demo_event_def demo_turn_def
  demo_run_def demo_blob_def leased_run_def demo_context_def run_request_def demo_call_def empty_db_def

lemma s_leased_eq: "s_leased = s_run\<lparr>runs := [leased_run 4]\<rparr>"
  by (simp add: s_leased_def acquire_run_lease_def acquire_run_lease_body_def s_run_eq exec_simps row_defs
      has_owner_def expires_after_def lease_expiry_def set_lease_def)

lemmas fence_simps = require_execution_context_def lease_stale_def expires_after_def touch_run_def

lemma int_text_zero: "int_text 0 = ''0''"
  by code_simp

lemma s_started_eq: "s_started = s_leased\<lparr>sessions := [demo_session 6 CHR ''5''], runs := [leased_run 5],
    events := [ev1, ev2, ev3, ev4, ev5], model_calls := [demo_call MS_started]\<rparr>"
  by (simp add: s_started_def append_event_def append_event_body_def s_leased_eq s_run_eq exec_simps row_defs
      fence_simps project_model_call_started_def event_run_id_def resolve_model_step_def run_has_active_call_def
      model_call_prefix_def int_text_zero call_id_def new_model_call_def model_call_active_def opt_ge_def)

lemma s_responded_eq: "s_responded = s_started\<lparr>sessions := [demo_session 7 CHR ''6''], runs := [leased_run 6],
    events := [ev1, ev2, ev3, ev4, ev5, ev6],
    model_calls := [(demo_call MS_responded)\<lparr>mc_response_event_id := Some (uid CHR ''6''),
      mc_response_blob_sha256 := Some ''d'', mc_response_seq := Some 6, mc_updated_seq := 6\<rparr>]\<rparr>"
  by (simp add: s_responded_def append_event_def append_event_body_def s_started_eq s_leased_eq s_run_eq exec_simps
      row_defs fence_simps project_model_response_def record_response_def event_run_id_def new_model_call_def
      opt_ge_def)

lemma reachable_s_leased: "reachable demo_env s_leased"
  unfolding s_leased_def
  by (rule reachable_step [OF reachable_s_run step_acquire [OF prod.collapse [symmetric]]])

lemma reachable_s_started: "reachable demo_env s_started"
  unfolding s_started_def
  by (rule reachable_step [OF reachable_s_leased step_append [OF _ _ prod.collapse [symmetric]]])
    (simp_all add: plain_event_def s_leased_eq row_defs get_run_def tbl_simps)

lemma reachable_s_responded: "reachable demo_env s_responded"
  unfolding s_responded_def
  by (rule reachable_step [OF reachable_s_started step_append [OF _ _ prod.collapse [symmetric]]])
    (simp_all add: plain_event_def s_started_eq row_defs get_run_def tbl_simps)

section \<open>A tool call and its approval\<close>

definition s_proposed :: db where
  "s_proposed = snd (propose_tool_call demo_env 302 (uid CHR ''7'') (uid CHR ''8'') ''r'' (uid CHR ''6'') 0
     ''write'' ''1'' (PyDict []) TE_NON_IDEMPOTENT [''a.txt''] ''v'' ''p'' (Some (demo_context 6)) s_responded)"

definition s_requested :: db where
  "s_requested = snd (request_tool_approval demo_env 303 (uid CHR ''9'') (uid CHR ''a'') (uid CHR ''8'')
     ''ask'' ''p'' (Some (demo_context 7)) s_proposed)"

definition s_approved :: db where
  "s_approved = snd (decide_tool_approval demo_env 304 (uid CHR ''b'') (uid CHR ''a'') ''d'' AD_ALLOW_ONCE
     ''u'' ''fine'' ''p'' None (Some (demo_context 8)) s_requested)"

definition s_dispatched :: db where
  "s_dispatched = snd (dispatch_tool_call demo_env 305 (uid CHR ''c'') ''attempt'' (uid CHR ''8'') [] []
     ''p'' None (Some (demo_context 9)) s_approved)"

definition demo_tool :: "tool_call_state \<Rightarrow> json \<Rightarrow> tool_call_row" where
  "demo_tool st pre = \<lparr>c_tool_call_id = uid CHR ''8'', c_run_id = ''r'', c_response_event_id = uid CHR ''6'',
     c_ordinal = 0, c_tool_name = ''write'', c_tool_version = ''1'', c_args_json = canonical_json (JObj []),
     c_args_sha256 = ''d'', c_approval_fingerprint = ''d'', c_effect_class = TE_NON_IDEMPOTENT, c_state = st,
     c_precondition = pre, c_final_output_blob_sha256 = None, c_final_error = None\<rparr>"

definition demo_pre :: "(string \<times> json) list" where
  "demo_pre = [(''policy_version'', JStr ''v''), (''target_paths'', JArr [JStr ''a.txt''])]"

definition demo_approval :: approval_row where
  "demo_approval = \<lparr>ap_approval_id = uid CHR ''a'', ap_run_id = ''r'', ap_subject_type = ''tool_call'',
     ap_subject_id = uid CHR ''8'', ap_fingerprint = ''d'', ap_policy = ''ask'', ap_decision = None,
     ap_requested_at = 303, ap_decided_at = None, ap_actor = None, ap_reason = None\<rparr>"

definition ev7 :: event_row where
  "ev7 = demo_event CHR ''7'' 7 302 (Some ''t'') (Some ''r'') (Some (uid CHR ''6'')) (Some ''r'')
     (ToolCallProposedPayload (uid CHR ''8'') ''write'' ''1'' ''d'' TE_NON_IDEMPOTENT)"

definition ev8 :: event_row where
  "ev8 = demo_event CHR ''9'' 8 303 (Some ''t'') (Some ''r'') None (Some ''r'')
     (ApprovalRequestedPayload (uid CHR ''a'') (uid CHR ''8'') ''d'' ''ask'')"

definition ev9 :: event_row where
  "ev9 = demo_event CHR ''b'' 9 304 (Some ''t'') (Some ''r'') None (Some ''r'')
     (ApprovalDecidedPayload (uid CHR ''a'') (uid CHR ''8'') ''d'' (approval_decision_value AD_ALLOW_ONCE) ''u'')"

definition ev10 :: event_row where
  "ev10 = demo_event CHR ''c'' 10 305 (Some ''t'') (Some ''r'') None (Some ''r'')
     (ToolExecutionDispatchedPayload (uid CHR ''8'') ''attempt'' 1 ''d'')"

definition demo_attempt :: tool_attempt_row where
  "demo_attempt = \<lparr>a_attempt_id = ''attempt'', a_tool_call_id = uid CHR ''8'', a_attempt_no = 1,
     a_state = TC_DISPATCHED, a_executor_identity = JObj [(''action_digest'', JStr ''d'')],
     a_dispatched_at = 305, a_completed_at = None, a_receipt = None, a_output_blob_sha256 = None, a_error = None\<rparr>"

lemma normalize_demo_path: "normalize_target_path demo_env ''a.txt'' = Inr ''a.txt''"
  by code_simp

lemmas state_eqs = s_responded_eq s_started_eq s_leased_eq s_run_eq

lemmas tool_row_defs = row_defs ev7_def ev8_def ev9_def ev10_def demo_tool_def demo_pre_def demo_approval_def
  demo_attempt_def

lemma s_proposed_eq: "s_proposed = s_responded\<lparr>sessions := [demo_session 8 CHR ''7''], runs := [leased_run 7],
    events := [ev1, ev2, ev3, ev4, ev5, ev6, ev7], tool_calls := [demo_tool TC_PROPOSED (JObj demo_pre)],
    model_calls := [(demo_call MS_consumed)\<lparr>mc_response_event_id := Some (uid CHR ''6''),
      mc_response_blob_sha256 := Some ''d'', mc_response_seq := Some 6, mc_updated_seq := 7,
      mc_consumed_event_id := Some (uid CHR ''7''), mc_consumed_seq := Some 7,
      mc_consumption_kind := Some CK_tool_batch\<rparr>]\<rparr>"
  by (simp add: s_proposed_def propose_tool_call_def propose_tool_call_body_def state_eqs exec_simps tool_row_defs
      fence_simps canonicalize_tool_args_def normalize_targets_def normalize_demo_path build_approval_fingerprint_def
      fingerprint_of_def event_from_row_of_event event_wf_def run_event_def new_model_call_def
      project_model_response_consumption_def consumption_source_def event_run_id_def check_response_event_def
      find_by_response_def consume_call_def tool_call_from_row_def json_get_def opt_ge_def del: canonical_json.simps)

lemma s_requested_eq: "s_requested = s_proposed\<lparr>sessions := [demo_session 9 CHR ''9''], runs := [leased_run 8],
    events := [ev1, ev2, ev3, ev4, ev5, ev6, ev7, ev8],
    tool_calls := [demo_tool TC_WAITING_APPROVAL (JObj demo_pre)], approvals := [demo_approval]\<rparr>"
  by (simp add: s_requested_def request_tool_approval_def request_tool_approval_body_def s_proposed_eq state_eqs
      exec_simps tool_row_defs fence_simps run_event_def same_approval_def del: canonical_json.simps)

lemma s_approved_eq: "s_approved = s_requested\<lparr>sessions := [demo_session 10 CHR ''b''], runs := [leased_run 9],
    events := [ev1, ev2, ev3, ev4, ev5, ev6, ev7, ev8, ev9],
    tool_calls := [demo_tool TC_READY (JObj demo_pre)],
    approvals := [decide_row AD_ALLOW_ONCE 304 ''u'' ''fine'' demo_approval]\<rparr>"
  by (simp add: s_approved_def decide_tool_approval_def decide_tool_approval_body_def apply_decision_def
      s_requested_eq s_proposed_eq state_eqs exec_simps tool_row_defs fence_simps run_event_def decide_row_def
      begin_if_control_def record_if_control_def del: canonical_json.simps)

lemma s_dispatched_eq: "s_dispatched = s_approved\<lparr>sessions := [demo_session 11 CHR ''c''], runs := [leased_run 10],
    events := [ev1, ev2, ev3, ev4, ev5, ev6, ev7, ev8, ev9, ev10],
    tool_calls := [demo_tool TC_DISPATCHED (JObj (demo_pre @ [(''action_plan'', JObj [])]))],
    tool_attempts := [demo_attempt]\<rparr>"
  by (simp add: s_dispatched_def dispatch_tool_call_def dispatch_tool_call_body_def chosen_attempt_id_def
      next_attempt_no_def s_approved_eq s_requested_eq s_proposed_eq state_eqs exec_simps tool_row_defs fence_simps
      run_event_def decide_row_def del: canonical_json.simps)

lemma reachable_s_proposed: "reachable demo_env s_proposed"
  unfolding s_proposed_def
  by (rule reachable_step [OF reachable_s_responded step_propose [OF _ prod.collapse [symmetric]]]) simp

lemma reachable_s_requested: "reachable demo_env s_requested"
  unfolding s_requested_def
  by (rule reachable_step [OF reachable_s_proposed step_request_approval [OF _ prod.collapse [symmetric]]]) simp

lemma reachable_s_approved: "reachable demo_env s_approved"
  unfolding s_approved_def
  by (rule reachable_step [OF reachable_s_requested step_decide [OF _ prod.collapse [symmetric]]]) simp

lemma reachable_s_dispatched: "reachable demo_env s_dispatched"
  unfolding s_dispatched_def
  by (rule reachable_step [OF reachable_s_approved step_dispatch [OF _ prod.collapse [symmetric]]]) simp

section \<open>A reservation and its settlement\<close>

definition ev_reserved :: event_row where
  "ev_reserved = demo_event CHR ''5'' 5 400 (Some ''t'') (Some ''r'') None (Some ''r'')
     (BudgetReservedPayload ''b'' ''tokens'' 6)"

definition ev_settled :: event_row where
  "ev_settled = demo_event CHR ''6'' 6 401 (Some ''t'') (Some ''r'') None (Some ''r'')
     (BudgetSettledPayload ''b'' ''tokens'' 6 4)"

definition s_reserved :: db where
  "s_reserved = snd (reserve_budget demo_env 400 (uid CHR ''5'') ''r'' ''b'' ''tokens'' 6 ''p''
     (Some (demo_context 4)) s_leased)"

definition s_settled :: db where
  "s_settled = snd (settle_budget demo_env 401 (uid CHR ''6'') ''b'' 4 ''p'' (Some (demo_context 5)) s_reserved)"

definition demo_reservation :: reservation_row where
  "demo_reservation = new_reservation ''b'' ''r'' ''tokens'' 6 400"

lemma s_reserved_eq: "s_reserved = s_leased\<lparr>sessions := [demo_session 6 CHR ''5''], runs := [leased_run 5],
    events := [ev1, ev2, ev3, ev4, ev_reserved], budget_reservations := [demo_reservation]\<rparr>"
  by (simp add: s_reserved_def reserve_budget_def reserve_budget_body_def s_leased_eq s_run_eq exec_simps row_defs
      fence_simps run_event_def total_of_def outstanding_def demo_reservation_def new_reservation_def ev_reserved_def)

lemma s_settled_eq: "s_settled = s_reserved\<lparr>sessions := [demo_session 7 CHR ''6''],
    runs := [(leased_run 6)\<lparr>r_budget_consumed := [(''tokens'', 4)]\<rparr>],
    events := [ev1, ev2, ev3, ev4, ev_reserved, ev_settled],
    budget_reservations := [settle_row 4 401 demo_reservation]\<rparr>"
  by (simp add: s_settled_def settle_budget_def settle_budget_body_def s_reserved_eq s_leased_eq s_run_eq exec_simps
      row_defs fence_simps run_event_def total_of_def demo_reservation_def new_reservation_def ev_reserved_def
      ev_settled_def settle_row_def)

lemma reachable_s_reserved: "reachable demo_env s_reserved"
  unfolding s_reserved_def
  by (rule reachable_step [OF reachable_s_leased step_reserve [OF _ prod.collapse [symmetric]]]) simp

lemma reachable_s_settled: "reachable demo_env s_settled"
  unfolding s_settled_def
  by (rule reachable_step [OF reachable_s_reserved step_settle [OF _ prod.collapse [symmetric]]]) simp

section \<open>A terminated run\<close>

definition s_failed :: db where
  "s_failed = snd (terminate_run demo_env 500 (uid CHR ''5'') ''r'' ES_FAILED ''gone'' ''p''
     (Some (demo_context 4)) s_leased)"

definition ev_failed :: event_row where
  "ev_failed = demo_event CHR ''5'' 5 500 (Some ''t'') (Some ''r'') None (Some ''r'')
     (RunTerminatedPayload ES_FAILED ''gone'')"

lemma s_failed_eq: "s_failed = s_leased\<lparr>sessions := [demo_session 6 CHR ''5''],
    runs := [terminate_row ES_FAILED ''gone'' 500 5 (leased_run 5)], events := [ev1, ev2, ev3, ev4, ev_failed]\<rparr>"
  by (simp add: s_failed_def recover_run_projection_in_transaction_def load_run_events_in_transaction_def
      event_from_row_of_event event_wf_def reduce_run_events_def reduce_start_def reduce_step_def opt_ge_def
      terminate_run_def termination_statuses_def terminate_run_body_def s_leased_eq s_run_eq
      exec_simps row_defs fence_simps run_event_def terminate_row_def proj_of_row_def ev_failed_def
      can_transition_execution_def)

lemma reachable_s_failed: "reachable demo_env s_failed"
  unfolding s_failed_def
  by (rule reachable_step [OF reachable_s_leased step_terminate [OF _ prod.collapse [symmetric]]]) simp

end
