(* ===== verification/Outcomes.thy ===== *)
theory Outcomes
  imports Store
begin

text \<open>
  What a caller can conclude from the outcome of a command: an error means that nothing
  changed (also when the error is raised after the commit, where the caller's context is
  advanced), and success leaves the caller's context at the stored stream version.
\<close>

definition atomic :: "(db \<Rightarrow> 'a result \<times> db) \<Rightarrow> db \<Rightarrow> bool" where
  "atomic command d \<longleftrightarrow> (\<forall>e d'. command d = (Inl e, d') \<longrightarrow> d' = d)"

definition keeps_pace ::
  "(db \<Rightarrow> ('a \<times> execution_context option) result \<times> db) \<Rightarrow> execution_context \<Rightarrow> db \<Rightarrow> bool" where
  "keeps_pace command c d \<longleftrightarrow> (\<forall>x c' d'. command d = (Inr (x, c'), d') \<longrightarrow>
     c' = Some c \<or>
     (\<exists>c1 row. c' = Some c1 \<and> ctx_run_id c1 = ctx_run_id c \<and> ctx_worker_id c1 = ctx_worker_id c \<and>
        ctx_lease_epoch c1 = ctx_lease_epoch c \<and> get_run d' (ctx_run_id c) = Some row \<and>
        r_last_event_seq row = ctx_stream_version c1))"

lemma run_command_snd: "snd (run_command ctx m d) = snd (transact m d)"
  unfolding run_command_def by (simp split: prod.splits sum.splits option.splits)

lemma atomic_transact: "atomic (transact m) d"
  unfolding atomic_def by (auto dest: transact_Inl)

text \<open>The update after the commit cannot fail: the new stream version is not older.\<close>

lemma atomic_run_command:
  assumes "wp m (commits env d ctx) d"
  shows "atomic (run_command ctx m) d"
proof (unfold atomic_def, intro allI impI)
  fix e d' assume R: "run_command ctx m d = (Inl e, d')"
  show "d' = d"
  proof (cases "m d")
    case (Inr y)
    obtain x v d1 where y: "y = ((x, v), d1)" by (cases y) auto
    have "in_sync ctx v d1" using wpD [OF assms Inr [unfolded y]] by (simp add: committed_def)
    then show ?thesis
      using R Inr y
      by (auto simp: run_command_def transact_def advance_execution_context_def observe_def in_sync_def
          split: option.splits if_splits)
  qed (use R in \<open>simp add: run_command_def transact_def\<close>)
qed

lemma keeps_pace_run_command:
  assumes "wp m (commits env d (Some c)) d"
  shows "keeps_pace (run_command (Some c) m) c d"
proof (unfold keeps_pace_def, intro allI impI)
  fix x c' d' assume R: "run_command (Some c) m d = (Inr (x, c'), d')"
  show "c' = Some c \<or> (\<exists>c1 row. c' = Some c1 \<and> ctx_run_id c1 = ctx_run_id c \<and>
      ctx_worker_id c1 = ctx_worker_id c \<and> ctx_lease_epoch c1 = ctx_lease_epoch c \<and>
      get_run d' (ctx_run_id c) = Some row \<and> r_last_event_seq row = ctx_stream_version c1)"
  proof (cases "m d")
    case (Inr y)
    obtain x1 v d1 where y: "y = ((x1, v), d1)" by (cases y) auto
    have "in_sync (Some c) v d1" using wpD [OF assms Inr [unfolded y]] by (simp add: committed_def)
    then show ?thesis
      using R Inr y
      by (auto simp: run_command_def transact_def advance_execution_context_def observe_def in_sync_def
          split: option.splits if_splits)
  qed (use R in \<open>simp add: run_command_def transact_def\<close>)
qed

lemma atomic_create_turn_and_run:
  assumes "store_ok env d" "is_uuid eid1" "is_uuid eid2" "is_uuid eid3"
  shows "atomic (create_turn_and_run env now eid1 eid2 eid3 sid tid rid msg root commit limits pid) d"
proof (unfold atomic_def, intro allI impI)
  fix e d' assume R: "create_turn_and_run env now eid1 eid2 eid3 sid tid rid msg root commit limits pid d = (Inl e, d')"
  show "d' = d"
  proof (cases "create_turn_and_run_body env now eid1 eid2 eid3 sid tid rid msg root commit limits pid d")
    case (Inr y)
    obtain blob e1 e2 e3 d1 where y: "y = ((blob, e1, e2, e3), d1)" by (cases y) auto
    with create_turn_and_run_ok [OF assms Inr [unfolded y]] R Inr show ?thesis
      by (auto simp: create_turn_and_run_def transact_def)
  qed (use R in \<open>simp add: create_turn_and_run_def transact_def\<close>)
qed

text \<open>The commands that take a caller's context, as \<open>commits\<close> facts.\<close>

lemmas lifecycle_commits = begin_workspace_provisioning_committed attach_provisioned_workspace_committed
  set_workspace_disposition_committed commit_run_checkpoint_committed transition_run_phase_committed
  commit_final_answer_committed complete_run_committed terminate_run_committed

lemmas tool_commits = propose_tool_call_committed request_tool_approval_committed
  decide_tool_approval_committed dispatch_tool_call_committed finish_tool_attempt_committed

lemmas budget_commits = reserve_budget_committed settle_budget_committed

text \<open>What a successful command returned, from the contract of its body.\<close>

lemma run_command_Inr:
  assumes "run_command ctx m d = (Inr (x, ctx'), d')" "wp m Q d"
  shows "\<exists>v. Q (x, v) d'"
  using assms unfolding run_command_def transact_def wp_def
  by (auto simp: bindE_eq_Inr split: sum.splits prod.splits option.splits)

lemma checkpoint_of_decodes:
  "r_run_id row = k \<Longrightarrow> projection_from_checkpoint_row env (checkpoint_of env now cid k (proj_of_row row)) row = Inr (proj_of_row row)"
  by (simp add: projection_from_checkpoint_row_def checkpoint_of_def)
    (simp add: from_projection_def proj_of_row_def)

lemma wp_touch_after_append:
  assumes "\<And>e d'. checkpoints d' = checkpoints d \<Longrightarrow> Q (f e) d'"
  shows "wp (bindT (append_event_in_transaction env eid now q) (\<lambda>e.
    bindT (touch_run k (e_seq e)) (\<lambda>_. returnT (f e)))) Q d"
  unfolding wp_bind wp_return touch_run_def wp_modify
  by (rule wp_append, drule appended_tables, rule assms) (simp add: update_run_def)

lemma commit_run_checkpoint_row:
  assumes "ledger_ok env d" "runs_ok env d" "checkpoints_ok env d"
  shows "wp (commit_run_checkpoint_body env now eid k cid pid ctx) (\<lambda>_ d'. \<exists>row ck. get_run d k = Some row \<and>
    checkpoints d' = checkpoints d @ [ck] \<and> k_checkpoint_id ck = cid \<and> k_through_seq ck = r_last_event_seq row \<and>
    projection_from_checkpoint_row env ck row = Inr (proj_of_row row)) d"
  unfolding commit_run_checkpoint_body_def wp_if wp_throw wp_bind [of "readT _"] wp_read
    wp_bind [of "returnT _"] wp_return
proof (intro conjI impI allI TrueI, goal_cases)
  case (1 row rec)
  then have row: "get_run d k = Some row" by (auto dest: require_fence_passed)
  let ?ck = "checkpoint_of env now cid k (proj_of_row row)"
  have p: "rec_projection rec = proj_of_row row"
    using recover_in_transaction [OF assms row] 1(3) by auto
  have "projection_from_checkpoint_row env ?ck row = Inr (proj_of_row row)"
    using get_run_in [OF row] by (intro checkpoint_of_decodes) simp
  moreover have "k_checkpoint_id ?ck = cid" "k_through_seq ?ck = r_last_event_seq row"
    by (simp_all add: checkpoint_of_def proj_of_row_def)
  ultimately show ?case
    unfolding p wp_bind [of "insert_checkpoint _"]
    by (intro wpI wp_touch_after_append exI [of _ row] exI [of _ ?ck])
      (auto simp: row insert_checkpoint_def split: if_splits)
qed

end
