(* ===== verification/Idempotency.thy ===== *)
theory Idempotency
  imports Outcomes
begin

text \<open>
  Retries. A worker that does not learn whether a command was committed repeats it with the
  same identifier; the store then answers with the row it recorded, appends nothing and
  returns the context unchanged. The contract is a locale; the commands that take a
  caller-supplied identifier, or find their row by one, are its interpretations.
\<close>

locale retryable =
  fixes body :: "'i \<Rightarrow> execution_context option \<Rightarrow> (db, 'rec \<times> int option) txn"
    and lookup :: "db \<Rightarrow> 'row option"
    and fits :: "'row \<Rightarrow> bool"
    and admitted :: "'i \<Rightarrow> execution_context option \<Rightarrow> 'row \<Rightarrow> db \<Rightarrow> bool"
    and answer :: "event_envelope option \<Rightarrow> 'row \<Rightarrow> 'rec"
  assumes recorded: "wp (body i ctx) (\<lambda>x d'. \<exists>row ev. fst x = answer ev row \<and> lookup d' = Some row \<and> fits row) d"
    and replayed: "lookup d = Some row \<Longrightarrow> fits row \<Longrightarrow> admitted i ctx row d \<Longrightarrow>
      body i ctx d = Inr ((answer None row, None), d)"
begin

lemma retry:
  assumes "run_command ctx (body i ctx) d = (Inr (rec, ctx'), d')"
  shows "\<exists>row ev. rec = answer ev row \<and> lookup d' = Some row \<and>
    (\<forall>j c. admitted j c row d' \<longrightarrow> run_command c (body j c) d' = (Inr (answer None row, c), d'))"
proof -
  obtain v where "body i ctx d = Inr ((rec, v), d')"
    using assms
    by (auto simp: run_command_def transact_def bindE_eq_Inr split: sum.splits prod.splits option.splits)
  from wpD [OF recorded this] obtain row ev where
    row: "rec = answer ev row" "lookup d' = Some row" "fits row" by auto
  moreover have "run_command c (body j c) d' = (Inr (answer None row, c), d')"
    if "admitted j c row d'" for j c
    using replayed [OF row(2,3) that] by (simp add: run_command_def transact_def)
  ultimately show ?thesis by blast
qed

end

section \<open>The rows a command leaves behind\<close>

text \<open>The tables of tool calls, attempts, approvals and reservations, and what is read of them.\<close>

definition side_tables ::
  "db \<Rightarrow> tool_call_row list \<times> tool_attempt_row list \<times> approval_row list \<times> reservation_row list" where
  "side_tables d = (tool_calls d, tool_attempts d, approvals d, budget_reservations d)"

interpretation side: run_view side_tables
  by unfold_locales (simp_all add: side_tables_def)

definition same_side :: "db \<Rightarrow> db \<Rightarrow> bool" where
  "same_side d d' \<longleftrightarrow> get_tool_call_row d' = get_tool_call_row d \<and> get_attempt_row d' = get_attempt_row d \<and>
     get_reservation_row d' = get_reservation_row d \<and> approvals d' = approvals d"

lemma same_sideI: "side_tables d' = side_tables d \<Longrightarrow> same_side d d'"
  by (simp add: side_tables_def get_defs fun_eq_iff same_side_def)

lemma wp_append_side:
  assumes "\<And>e d'. same_side d d' \<Longrightarrow> wp (K e) Q d'"
  shows "wp (bindT (append_event_in_transaction env eid now q) K) Q d"
  unfolding wp_bind
  by (rule wp_mono [OF wp_pres [OF side.keeps_append, of d "side_tables d"]]) (simp_all add: assms same_sideI)

lemma wp_touch_side:
  assumes "\<And>d'. same_side d d' \<Longrightarrow> wp (K ()) Q d'"
  shows "wp (bindT (touch_run k sq) K) Q d"
  unfolding wp_bind
  by (rule wp_mono [OF wp_pres [OF side.keeps_touch, of d "side_tables d"]]) (simp_all add: assms same_sideI)

lemma side_lookups:
  "get_reservation_row (d\<lparr>budget_reservations := budget_reservations d @ [b]\<rparr>) i =
     (case get_reservation_row d i of None \<Rightarrow> if b_reservation_id b = i then Some b else None | Some x \<Rightarrow> Some x)"
  "get_attempt_row (d\<lparr>tool_attempts := tool_attempts d @ [a]\<rparr>) i =
     (case get_attempt_row d i of None \<Rightarrow> if a_attempt_id a = i then Some a else None | Some x \<Rightarrow> Some x)"
  "get_reservation_row (update_run k f d) = get_reservation_row d"
  "get_attempt_row (update_tool_call k g d) = get_attempt_row d"
  "get_tool_call_row (d\<lparr>tool_attempts := as\<rparr>) = get_tool_call_row d"
  "get_tool_call_row (d\<lparr>approvals := aps\<rparr>) = get_tool_call_row d"
  "get_tool_call_row (update_attempt k h d) = get_tool_call_row d"
  "approvals (update_tool_call k g d) = approvals d"
  by (simp_all add: get_defs table_update_defs tbl_simps fun_eq_iff split: option.splits)

lemma wp_insert_reservation_new: "Q () (d\<lparr>budget_reservations := budget_reservations d @ [b]\<rparr>) \<Longrightarrow> wp (insert_reservation b) Q d"
  by (simp add: wp_def insert_reservation_def)

section \<open>Budgets\<close>

interpretation reserve_retry: retryable
  "\<lambda>(now, eid, pid). reserve_budget_body env now eid k rid cat n pid"
  "\<lambda>d. get_reservation_row d rid"
  "\<lambda>b. b_run_id b = k \<and> b_category b = cat \<and> b_reserved b = n \<and> 0 < n \<and> \<not> blank cat \<and> \<not> blank rid"
  "\<lambda>(now, eid, pid) ctx b d. \<exists>row. require_execution_context now k ctx d = Inr row"
  "\<lambda>ev b. (b, ev)" for env k rid cat n
proof (unfold_locales, unfold split_paired_all case_prod_conv, goal_cases)
  case (1 now eid pid ctx d)
  show ?case
    unfolding reserve_budget_body_def wp_if wp_bind [of "getT _"] wp_get wp_bind [of "readT _"] wp_read
      wp_case_option wp_throw wp_return wp_bind [of "insert_reservation _"]
    by (intro conjI impI allI TrueI wp_insert_reservation_new wp_append_side wp_touch_side)
      (simp_all add: wp_return same_side_def side_lookups new_reservation_def)
next
  case (2 d b now eid pid ctx)
  then show ?case by (auto simp: reserve_budget_body_def bindT_apply readT_def)
qed

interpretation settle_retry: retryable
  "\<lambda>(now, eid, pid). settle_budget_body env now eid rid n pid"
  "\<lambda>d. get_reservation_row d rid"
  "\<lambda>b. b_state b = RS_settled \<and> b_consumed b = Some n \<and> 0 \<le> n"
  "\<lambda>(now, eid, pid) ctx b d. \<exists>row. require_execution_context now (b_run_id b) ctx d = Inr row"
  "\<lambda>ev b. (b, ev)" for env rid n
proof (unfold_locales, unfold split_paired_all case_prod_conv, goal_cases)
  case (1 now eid pid ctx d)
  show ?case
    unfolding settle_budget_body_def wp_if wp_bind [of "getT _"] wp_get wp_bind [of "readT _"] wp_read
      wp_case_option wp_throw wp_return wp_bind [of "returnT _"] wp_bind [of "modifyT _"] wp_modify
    by (intro conjI impI allI TrueI wp_append_side)
      (simp_all add: wp_simps same_side_def reservation_store.lookup_update settle_row_def side_lookups)
next
  case (2 d b now eid pid ctx)
  then show ?case by (auto simp: settle_budget_body_def bindT_apply readT_def)
qed

section \<open>Approval requests, dispatch and results\<close>

lemma same_approval_upd:
  "keeps c_tool_call_id f \<Longrightarrow> keeps c_run_id f \<Longrightarrow> keeps c_approval_fingerprint f \<Longrightarrow>
     same_approval (f c) = same_approval c"
  by (simp add: same_approval_def fun_eq_iff)

lemma find_snoc: "find P (xs @ [x]) = (case find P xs of None \<Rightarrow> if P x then Some x else None | Some y \<Rightarrow> Some y)"
  by (induction xs) auto

interpretation request_retry: retryable
  "\<lambda>(now, eid, fid, pid). request_tool_approval_body env now eid fid tc pol pid"
  "\<lambda>d. Option.bind (get_tool_call_row d tc) (\<lambda>t. find (same_approval t) (approvals d))"
  "\<lambda>_. \<not> blank pol"
  "\<lambda>(now, eid, fid, pid) ctx ap d. \<exists>t row. get_tool_call_row d tc = Some t \<and>
     require_execution_context now (c_run_id t) ctx d = Inr row"
  "\<lambda>ev ap. (ap, ev)" for env tc pol
proof (unfold_locales, unfold split_paired_all case_prod_conv, goal_cases)
  case (1 now eid fid pid ctx d)
  show ?case
    unfolding request_tool_approval_body_def wp_if wp_bind [of "getT _"] wp_get wp_bind [of "readT _"] wp_read
      wp_case_option wp_throw wp_return wp_bind [of "returnT _"] wp_bind [of "modifyT _"] wp_modify
      wp_bind [of "insert_approval _"]
    by (intro conjI impI allI TrueI wp_insert_approval wp_append_side wp_touch_side)
      (auto simp: wp_return same_side_def side_lookups tool_call_store.lookup_update find_snoc same_approval_def
        dest: tool_call_store.lookup_key)
next
  case (2 d b now eid fid pid ctx)
  then show ?case by (auto simp: request_tool_approval_body_def bindT_apply readT_def)
qed

lemma map_of_items_put: "map_of (items_put k v kvs) k = Some v"
  by (induction kvs) auto

text \<open>A dispatch is retried under the attempt id the caller chose, which is not empty.\<close>

interpretation dispatch_retry: retryable
  "\<lambda>(now, eid, fid, pid). dispatch_tool_call_body env now eid fid tc plan idn pid (Some (x # xs))"
  "\<lambda>d. case get_tool_call_row d tc of None \<Rightarrow> None | Some t \<Rightarrow> get_attempt_row d (x # xs)"
  "\<lambda>a. a_tool_call_id a = tc \<and>
     json_get ''action_digest'' (a_executor_identity a) = Some (JStr (sha256_json env (JObj plan)))"
  "\<lambda>_ _ _ _. True"
  tool_attempt_from_row for env tc plan idn x xs
proof (unfold_locales, unfold split_paired_all case_prod_conv, goal_cases)
  case (1 now eid fid pid ctx d)
  show ?case
    unfolding dispatch_tool_call_body_def wp_if wp_bind [of "getT _"] wp_get wp_bind [of "readT _"] wp_read
      wp_case_option wp_throw wp_return wp_bind [of "returnT _"] wp_bind [of "modifyT _"] wp_modify
      wp_bind [of "insert_attempt _"] wp_bind [of "liftT _"] wp_lift
    by (intro conjI impI allI TrueI wp_insert_attempt wp_append_side wp_touch_side)
      (auto simp: wp_return same_side_def side_lookups tool_call_store.lookup_update chosen_attempt_id_def
         tool_attempt_from_row_def json_get_def map_of_items_put)
next
  case (2 d b now eid fid pid ctx)
  then show ?case
    by (auto simp: dispatch_tool_call_body_def bindT_apply chosen_attempt_id_def tool_attempt_from_row_def
        split: option.splits)
qed

lemma outcome_state_final: "outcome_state oc = Some t \<Longrightarrow> t \<noteq> TC_DISPATCHED"
  by (auto simp: outcome_state_def split: if_splits)

lemma wp_store_output_side:
  assumes "\<And>os d'. same_side d d' \<Longrightarrow> wp (K os) Q d'"
  shows "wp (bindT (case out of None \<Rightarrow> returnT None
     | Some raw \<Rightarrow> bindT (put_blob_in_transaction env now raw mt) (\<lambda>b. returnT (Some (o_sha256 b)))) K) Q d"
proof -
  have "pres (\<lambda>d'. side_tables d' = side_tables d) (case out of None \<Rightarrow> returnT None
     | Some raw \<Rightarrow> bindT (put_blob_in_transaction env now raw mt) (\<lambda>b. returnT (Some (o_sha256 b))))"
    by (intro side.keeps_rules)
  from wp_pres [OF this] show ?thesis
    unfolding wp_bind by (rule wp_mono) (simp_all add: assms same_sideI)
qed

interpretation finish_retry: retryable
  "\<lambda>(now, eid, pid). finish_tool_attempt_body env now eid atid oc pid rcpt out mt er rt"
  "\<lambda>d. get_attempt_row d atid"
  "\<lambda>a. outcome_state oc = Some (a_state a) \<and> (oc = ''succeeded'' \<longrightarrow> rcpt \<noteq> None)"
  "\<lambda>_ _ _ _. True"
  tool_attempt_from_row for env atid oc rcpt out mt er rt
proof (unfold_locales, unfold split_paired_all case_prod_conv, goal_cases)
  case (1 now eid pid ctx d)
  have "oc = ''succeeded'' \<Longrightarrow> rcpt \<noteq> None" if "outcome_state oc = Some t" "\<not> (t = TC_SUCCEEDED \<and> rcpt = None)" for t
    using that by (auto simp: outcome_state_def)
  then show ?case
    unfolding finish_tool_attempt_body_def wp_if wp_bind [of "getT _"] wp_get wp_bind [of "readT _"] wp_read
      wp_case_option wp_throw wp_return
    by (intro conjI impI allI TrueI wp_store_output_side;
        (unfold wp_bind [of "modifyT _"] wp_modify wp_bind [of "liftT _"] wp_lift)?;
        (intro allI impI wp_append_side wp_touch_side)?)
      (auto simp: wp_return same_side_def side_lookups attempt_store.lookup_update finish_attempt_row_def)
next
  case (2 d b now eid pid ctx)
  then show ?case
    using outcome_state_final by (auto simp: finish_tool_attempt_body_def bindT_apply outcome_state_def split: if_splits)
qed

section \<open>Control commands\<close>

text \<open>What was recorded under a command id is what the next command with this id finds.\<close>

lemma wp_record_replay:
  assumes "\<And>e. ev = Some e \<Longrightarrow> event_wf e \<and> get_event d (e_event_id e) = Some (row_of_event env e)"
    and "\<And>d'. begin_if_control env k ty pl (Some cc) d' = Inr (True, ev) \<Longrightarrow> runs d' = runs d \<Longrightarrow> Q () d'"
  shows "wp (record_if_control env now k ty pl (Some cc) ev) Q d"
proof -
  let ?r = "\<lparr>m_command_id = cc_command_id cc, m_run_id = k, m_command_type = ty, m_actor = cc_actor cc,
       m_expected_stream_version = cc_expected_stream_version cc, m_payload_sha256 = sha256_json env pl,
       m_committed_event_id = map_option e_event_id ev, m_created_at = now\<rparr>"
  let ?d = "d\<lparr>control_commands := control_commands d @ [?r]\<rparr>"
  have "Q () ?d" if "\<forall>x \<in> set (control_commands d). m_command_id x \<noteq> cc_command_id cc"
  proof (rule assms(2))
    have "get_command_row ?d (cc_command_id cc) = Some ?r"
      using that by (auto simp: get_command_row_def row_get_append row_get_Cons row_get_Nil row_get_None split: option.split)
        (metis option.distinct(1) row_get_SomeD)
    moreover have "get_event ?d = get_event d" by (simp add: get_event_def fun_eq_iff)
    ultimately show "begin_if_control env k ty pl (Some cc) ?d = Inr (True, ev)"
      using assms(1) by (cases ev) (auto simp: begin_if_control_def begin_control_command_def event_from_row_of_event)
  qed simp
  then show ?thesis
    by (auto simp: record_if_control_def record_control_command_def insert_control_command_def wp_def list_ex_iff)
qed

lemma appended_lookup:
  assumes "appended env eid now q d e d'" "is_uuid eid"
  shows "event_wf e" "get_event d' (e_event_id e) = Some (row_of_event env e)"
proof -
  show "event_wf e" using assms by (rule appended_event_wf)
  have "eid \<notin> v_event_id ` set (events d)" using assms(1) by (auto simp: appended_def exists_iff)
  then show "get_event d' (e_event_id e) = Some (row_of_event env e)"
    using appended_tables [OF assms(1)] appended_fields [OF assms(1)]
    by (simp add: get_event_def tbl_simps row_get_None [THEN iffD2])
qed

text \<open>A second cancellation with the same command id gives the answer of the first.\<close>

lemma cancellation_replay:
  assumes "is_uuid eid"
  shows "wp (request_cancellation_body env now eid k ac re pid (Some cc)) (\<lambda>ev d'.
    request_cancellation_body env now2 eid2 k ac re pid2 (Some cc) d' = Inr (ev, d')) d"
proof -
  let ?pl = "JObj [(''actor'', JStr ac), (''reason'', JStr re)]"
  have again: "request_cancellation_body env now2 eid2 k ac re pid2 (Some cc) d' = Inr (ev, d')"
    if "begin_if_control env k ''request_cancellation'' ?pl (Some cc) d' = Inr (True, ev)"
      "get_run d' k \<noteq> None" "\<not> (blank ac \<or> blank re)" "cc_actor cc = ac" for d' ev
    using that by (auto simp: request_cancellation_body_def bindT_apply readT_def require_run_row_def)
  show ?thesis
    unfolding request_cancellation_body_def [of env now] wp_if wp_throw wp_bind [of "readT _"] wp_read
      wp_bind [of "returnT _"] wp_return
  proof (intro conjI impI allI TrueI, goal_cases)
    case (1 row begun)
    then show ?case by (cases begun) (simp add: again require_run_row_Inr)
  next
    case (2 row begun)
    then show ?case
      unfolding wp_bind wp_return
      by (intro wp_record_replay) (simp_all add: again require_run_row_Inr get_run_def)
  next
    case (3 row begun)
    then show ?case
      unfolding wp_bind wp_return wp_modify
      by (intro wp_append wp_record_replay, goal_cases)
        (use appended_lookup [OF _ assms] in \<open>fastforce simp: get_event_def update_run_def\<close>,
         use appended_tables in \<open>fastforce simp: again require_run_row_Inr get_run_def update_run_def tbl_simps\<close>)
  qed
qed

end
