(* ===== verification/Session_Log.thy ===== *)
theory Session_Log
  imports Outcomes
begin

text \<open>
  The ledger as its readers see it: every session is a list of events, an append adds one
  event at the end of one list. \<open>session_log\<close> is the abstraction; the lemmas show that
  loading returns it and that appending is list append.
\<close>

definition session_log :: "env \<Rightarrow> db \<Rightarrow> string \<Rightarrow> event_envelope list" where
  "session_log env d sid = map (decode env) (filter (\<lambda>v. v_session_id v = sid) (events d))"

definition log_append :: "event_envelope \<Rightarrow> (string \<Rightarrow> event_envelope list) \<Rightarrow> string \<Rightarrow> event_envelope list" where
  "log_append e \<sigma> = \<sigma>(e_session_id e := \<sigma> (e_session_id e) @ [e])"

lemma session_rows_upto:
  assumes "ledger_ok env d"
  shows "\<exists>n. session_seqs d sid = [1..n]"
proof (cases "\<exists>s \<in> set (sessions d). s_session_id s = sid")
  case True
  then show ?thesis using assms by (auto simp: ledger_ok_def)
next
  case False
  then have "session_seqs d sid = []"
    using assms unfolding ledger_ok_def session_seqs_def by (fastforce simp: filter_empty_conv)
  then show ?thesis by (auto intro: exI [of _ 0])
qed

lemma load_events_log:
  assumes "ledger_ok env d"
  shows "load_events env d sid 0 = Inr (session_log env d sid)"
proof -
  let ?rows = "filter (\<lambda>v. v_session_id v = sid) (events d)"
  obtain n where n: "map v_seq ?rows = [1..n]"
    using session_rows_upto [OF assms, of sid] by (auto simp: session_seqs_def)
  then have pos: "0 < v_seq v" if "v \<in> set ?rows" for v
    using that by (metis atLeastAtMost_iff image_eqI image_set set_upto zero_less_one less_le_trans)
  have all: "filter (\<lambda>v. v_session_id v = sid \<and> 0 < v_seq v) (events d) = ?rows"
    by (rule filter_cong) (use pos in auto)
  have "sort_key v_seq ?rows = ?rows" by (rule sort_key_id) (simp add: n)
  moreover have "mapE (event_from_row env) ?rows = Inr (map (decode env) ?rows)"
  proof (rule mapE_Inr)
    fix v assume "v \<in> set ?rows"
    then obtain e where "event_wf e" "v = row_of_event env e" using assms by (auto simp: ledger_ok_def)
    then show "event_from_row env v = Inr (decode env v)"
      by (simp add: event_from_row_of_event decode_row_of_event)
  qed
  ultimately show ?thesis unfolding load_events_def session_log_def all by simp
qed

lemma appended_log:
  assumes "appended env eid now q d e d'" "is_uuid eid" "ledger_ok env d"
  shows "session_log env d' = log_append e (session_log env d)"
    and "e_seq e = int (length (session_log env d (e_session_id e))) + 1"
proof -
  note T = appended_tables [OF assms(1)]
  have "decode env (row_of_event env e) = e"
    using appended_event_wf [OF assms(1,2)] by (rule decode_row_of_event)
  then show "session_log env d' = log_append e (session_log env d)"
    using T by (auto simp: session_log_def log_append_def fun_eq_iff)
  obtain s where s: "get_session d (e_session_id e) = Some s" "e_seq e = s_next_seq s"
    using appended_fields [OF assms(1)] by auto
  then have "s \<in> set (sessions d)" "s_session_id s = e_session_id e"
    by (auto simp: get_session_def dest: row_get_SomeD)
  then have seqs: "map v_seq (filter (\<lambda>v. v_session_id v = e_session_id e) (events d)) = [1..e_seq e - 1]"
    and pos: "1 \<le> e_seq e"
    using assms(3) s(2) unfolding ledger_ok_def session_seqs_def by auto
  show "e_seq e = int (length (session_log env d (e_session_id e))) + 1"
    using arg_cong [OF seqs, of length] pos by (simp add: session_log_def)
qed

lemma append_event_body_log:
  assumes "is_uuid eid" "ledger_ok env d"
  shows "wp (append_event_body env now eid q ctx) (\<lambda>x d'. e_session_id (fst x) = q_session_id q \<and>
    session_log env d' = log_append (fst x) (session_log env d) \<and>
    e_seq (fst x) = int (length (session_log env d (e_session_id (fst x)))) + 1 \<and> ledger_ok env d') d"
proof -
  have log: "session_log env (update_run k f d') = session_log env d'" for k f d'
    by (simp add: session_log_def update_run_def fun_eq_iff)
  have ok: "ledger_ok env (update_run k f d') = ledger_ok env d'" for k f d'
    by (rule ledger_ok_cong) (simp_all add: update_run_def)
  have "wp (append_event_in_transaction env eid now q) (\<lambda>e d'. e_session_id e = q_session_id q \<and>
      session_log env d' = log_append e (session_log env d) \<and>
      e_seq e = int (length (session_log env d (e_session_id e))) + 1 \<and> ledger_ok env d') d"
    by (rule wp_append, intro conjI appended_log [OF _ assms] appended_ledger_ok [OF assms(2) _ assms(1)])
      (simp_all add: appended_fields)
  then show ?thesis
    by (auto simp: append_event_body_def wp_simps touch_run_def log ok elim: wp_mono)
qed

end
