(* ===== verification/Identity_Facts.thy ===== *)
theory Identity_Facts
  imports Tool_Identity
begin

text \<open>
  Facts about tool identities: the fields of a version 7 UUID, the shape of a normalised
  target path, and the independence of canonical arguments from the order of dict items.
\<close>

section \<open>UUID fields\<close>

lemma uuid7_fields:
  assumes "new_uuid7 t a b = Inr v" "0 \<le> a" "a < 2 ^ 12" "0 \<le> b" "b < 2 ^ 62"
  shows "v div 2 ^ 80 = t" "v div 2 ^ 76 mod 16 = 7" "v div 2 ^ 62 mod 4 = 2"
    "v div 2 ^ 64 mod 2 ^ 12 = a" "v mod 2 ^ 62 = b" "0 \<le> v" "v < 2 ^ 128"
proof -
  from assms(1) have t: "0 \<le> t" "t < 2 ^ 48" and v: "v = uuid7_value t a b"
    by (auto simp: new_uuid7_def split: if_splits)
  have sum: "v = t * 2 ^ 80 + 7 * 2 ^ 76 + a * 2 ^ 64 + 2 * 2 ^ 62 + b"
    unfolding v using assms(2-5) by (rule uuid7_value_sum)
  note bounds = t assms(2-5)
  show "v div 2 ^ 80 = t"
    by (rule int_div_pos_eq [of _ _ _ "7 * 2 ^ 76 + a * 2 ^ 64 + 2 * 2 ^ 62 + b"]) (use bounds in \<open>simp_all add: sum\<close>)
  have "v div 2 ^ 76 = 16 * t + 7"
    by (rule int_div_pos_eq [of _ _ _ "a * 2 ^ 64 + 2 * 2 ^ 62 + b"]) (use bounds in \<open>simp_all add: sum\<close>)
  then show "v div 2 ^ 76 mod 16 = 7" by simp
  have "v div 2 ^ 62 = 4 * ((t * 16 + 7) * 4096 + a) + 2"
    by (rule int_div_pos_eq [of _ _ _ b]) (use bounds in \<open>simp_all add: sum\<close>)
  moreover have "(4 * x + 2) mod 4 = 2" for x :: int by presburger
  ultimately show "v div 2 ^ 62 mod 4 = 2" by (simp only:)
  have "v div 2 ^ 64 = 2 ^ 12 * (t * 16 + 7) + a"
    by (rule int_div_pos_eq [of _ _ _ "2 * 2 ^ 62 + b"]) (use bounds in \<open>simp_all add: sum\<close>)
  moreover have "(2 ^ 12 * x + a) mod 2 ^ 12 = a" for x using bounds by (simp add: mod_pos_pos_trivial)
  ultimately show "v div 2 ^ 64 mod 2 ^ 12 = a" by (simp only:)
  show "v mod 2 ^ 62 = b"
    by (rule int_mod_pos_eq [of _ _ "4 * ((t * 16 + 7) * 4096 + a) + 2"]) (use bounds in \<open>simp_all add: sum\<close>)
  show "0 \<le> v" using bounds by (simp add: sum)
  show "v < 2 ^ 128" using bounds by (simp add: sum)
qed

section \<open>Target paths\<close>

lemma split_on_nonempty: "split_on c s \<noteq> []"
  by (induction s) (auto split: list.splits)

lemma split_on_parts: "p \<in> set (split_on c s) \<Longrightarrow> c \<notin> set p \<and> set p \<subseteq> set s"
proof (induction s arbitrary: p)
  case (Cons x s)
  show ?case
  proof (cases "split_on c s")
    case Nil
    then show ?thesis using Cons.prems by (auto split: if_splits)
  next
    case (Cons q qs)
    with Cons.IH [of q] Cons.IH [of p] Cons.prems show ?thesis by (auto split: if_splits)
  qed
qed simp

lemma split_on_self: "c \<notin> set p \<Longrightarrow> split_on c p = [p]"
  by (induction p) auto

lemma split_on_append: "c \<notin> set p \<Longrightarrow> split_on c (p @ c # s) = p # split_on c s"
  by (induction p) auto

lemma split_on_join: "ps \<noteq> [] \<Longrightarrow> \<forall>p \<in> set ps. c \<notin> set p \<Longrightarrow> split_on c (join_with c ps) = ps"
  by (induction c ps rule: join_with.induct) (simp_all add: split_on_self split_on_append)

lemma set_join_with: "set (join_with c ps) \<subseteq> insert c (\<Union> (set ` set ps))"
  by (induction c ps rule: join_with.induct) auto

lemma path_chars: "backslash \<noteq> CHR ''/''" "char_of (0 :: nat) \<noteq> CHR ''/''" "backslash \<noteq> char_of (0 :: nat)"
  by code_simp+

definition plain_part :: "string \<Rightarrow> bool" where
  "plain_part p \<longleftrightarrow> p \<noteq> [] \<and> p \<noteq> ''.'' \<and> p \<noteq> ''..''"

lemma path_parts_Inr:
  "path_parts ps = Inr qs \<Longrightarrow> set qs \<subseteq> set ps \<and> list_all plain_part qs"
  by (induction ps arbitrary: qs) (auto simp: bindE_eq_Inr plain_part_def split: if_splits)

lemma path_parts_plain: "list_all plain_part ps \<Longrightarrow> path_parts ps = Inr ps"
  by (induction ps) (simp_all add: plain_part_def)

lemma hd_join_with: "p \<noteq> [] \<Longrightarrow> hd (join_with c (p # ps)) = hd p"
  by (cases ps) simp_all

text \<open>A normalised path is a non-empty list of plain parts joined by slashes.\<close>

lemma normalize_target_path_parts:
  assumes "normalize_target_path env raw = Inr q"
  obtains ps where "q = join_with (CHR ''/'') ps" "ps \<noteq> []" "list_all plain_part ps"
    "\<forall>p \<in> set ps. CHR ''/'' \<notin> set p \<and> backslash \<notin> set p \<and> char_of (0 :: nat) \<notin> set p"
proof -
  let ?n = "slash_path env raw"
  from assms obtain ps where ps: "path_parts (split_on (CHR ''/'') ?n) = Inr ps" "ps \<noteq> []"
      "q = join_with (CHR ''/'') ps" "char_of (0 :: nat) \<notin> set ?n"
    by (auto simp: normalize_target_path_def Let_def bindE_eq_Inr split: if_splits)
  have "backslash \<notin> set ?n" using path_chars by (auto simp: slash_path_def)
  then have "\<forall>p \<in> set ps. CHR ''/'' \<notin> set p \<and> backslash \<notin> set p \<and> char_of (0 :: nat) \<notin> set p"
    using path_parts_Inr [OF ps(1)] ps(4) split_on_parts [of _ "CHR ''/''" ?n] by blast
  with ps path_parts_Inr [OF ps(1)] that show ?thesis by blast
qed

lemma slash_path_id: "nfc env q = q \<Longrightarrow> backslash \<notin> set q \<Longrightarrow> slash_path env q = q"
  unfolding slash_path_def by (auto intro!: map_idI)

lemma normalize_target_path_again:
  assumes "normalize_target_path env raw = Inr q" "nfc env q = q" "\<not> windows_drive q"
  shows "normalize_target_path env q = Inr q"
proof -
  obtain ps where ps: "q = join_with (CHR ''/'') ps" "ps \<noteq> []" "list_all plain_part ps"
    "\<forall>p \<in> set ps. CHR ''/'' \<notin> set p \<and> backslash \<notin> set p \<and> char_of (0 :: nat) \<notin> set p"
    using assms(1) by (rule normalize_target_path_parts)
  then obtain p ps' where p: "ps = p # ps'" "p \<noteq> []" by (cases ps) (auto simp: plain_part_def)
  have "hd q = hd p" using p ps(1) by (simp add: hd_join_with)
  moreover have "hd p \<noteq> CHR ''/''" using ps(4) p hd_in_set [of p] by (metis list.set_intros(1))
  moreover have chars: "c \<noteq> backslash \<and> c \<noteq> char_of (0 :: nat)" if "c \<in> set q" for c
    using that set_join_with [of "CHR ''/''" ps] ps(1,4) path_chars by blast
  moreover have "q \<noteq> []" using p ps(1) by (cases ps') simp_all
  moreover have "split_on (CHR ''/'') q = ps" unfolding ps(1) using ps(2,4) by (intro split_on_join) auto
  moreover have "slash_path env q = q" using assms(2) chars by (intro slash_path_id) auto
  ultimately show ?thesis
    using assms(3) ps(1-3) by (auto simp: normalize_target_path_def Let_def path_parts_plain)
qed

section \<open>Canonical arguments\<close>

definition item_norm :: "(string \<Rightarrow> string) \<Rightarrow> py_value \<times> py_value \<Rightarrow> string \<times> json \<Rightarrow> bool" where
  "item_norm norm kv sj \<longleftrightarrow> (\<exists>t. fst kv = PyStr t \<and> fst sj = norm t \<and> normalize_json_value norm (snd kv) = Inr (snd sj))"

lemma normalize_items_iff:
  assumes "distinct (map fst acc)"
  shows "normalize_items norm acc kvs = Inr res \<longleftrightarrow>
    (\<exists>js. res = acc @ js \<and> list_all2 (item_norm norm) kvs js \<and> distinct (map fst (acc @ js)))"
  using assms
proof (induction kvs arbitrary: acc)
  case (Cons kv kvs)
  obtain k v where kv: "kv = (k, v)" by (cases kv)
  show ?case
  proof (cases "\<exists>t j. k = PyStr t \<and> normalize_json_value norm v = Inr j \<and> norm t \<notin> fst ` set acc")
    case True
    then obtain t j where tj: "k = PyStr t" "normalize_json_value norm v = Inr j" "norm t \<notin> fst ` set acc"
      by blast
    then have "normalize_items norm acc (kv # kvs) = normalize_items norm (acc @ [(norm t, j)]) kvs"
      by (simp add: kv)
    with Cons.IH [of "acc @ [(norm t, j)]"] Cons.prems tj show ?thesis
      by (auto simp: kv item_norm_def list_all2_Cons1)
  next
    case False
    then have "normalize_items norm acc (kv # kvs) \<noteq> Inr res"
      by (cases k) (auto simp: kv bindE_eq_Inr)
    with False show ?thesis by (auto simp: kv item_norm_def list_all2_Cons1)
  qed
qed auto

lemma normalize_dict_order:
  assumes "mset xs = mset ys" "normalize_json_value norm (PyDict xs) = Inr (JObj js)"
  shows "\<exists>js'. normalize_json_value norm (PyDict ys) = Inr (JObj js') \<and> mset js = mset js' \<and> distinct (map fst js)"
proof -
  have js: "list_all2 (item_norm norm) xs js" "distinct (map fst js)"
    using assms(2) normalize_items_iff [of "[]" norm xs js] by (auto simp: bindE_eq_Inr)
  obtain js' where js': "list_all2 (item_norm norm) ys js'" "mset js' = mset js"
    using list_all2_reorder_left_invariance [OF js(1) assms(1) [symmetric]] by blast
  then have "distinct (map fst js')" using js(2) by (metis mset_eq_imp_distinct_iff mset_map)
  with js' have "normalize_items norm [] ys = Inr js'" by (auto simp: normalize_items_iff)
  with js js' show ?thesis by auto
qed

lemma canonicalize_order:
  assumes "mset xs = mset ys" "canonicalize_tool_args env (PyDict xs) = Inr ca"
  shows "\<exists>ca'. canonicalize_tool_args env (PyDict ys) = Inr ca' \<and> ca_json ca' = ca_json ca \<and>
    ca_sha256 ca' = ca_sha256 ca"
proof -
  from assms(2) obtain js where js: "normalize_json_value (nfc env) (PyDict xs) = Inr (JObj js)"
      and ca: "ca_json ca = canonical_json (JObj js)" "ca_sha256 ca = sha256 env (canonical_json (JObj js))"
    unfolding canonicalize_tool_args_def bindE_eq_Inr
    by (elim exE conjE, rename_tac j, case_tac j) (auto simp del: canonical_json.simps normalize_json_value.simps)
  from normalize_dict_order [OF assms(1) js] obtain js' where
    js': "normalize_json_value (nfc env) (PyDict ys) = Inr (JObj js')" "mset js = mset js'" "distinct (map fst js)"
    by blast
  have "canonical_json (JObj js') = canonical_json (JObj js)"
    using canonical_json_item_order [OF js'(2,3)] by simp
  then show ?thesis unfolding canonicalize_tool_args_def js'(1) by (simp add: ca)
qed

end
