(* ===== verification/Path_Guard.thy ===== *)
theory Path_Guard
  imports Identity_Facts "HOL-Library.Sublist"
begin

text \<open>
  The workspace boundary (\<^verbatim>\<open>workspace/path_guard.py\<close>) over a model of a POSIX file system:
  an absolute path is its list of components, a file system maps paths to nodes, and
  symbolic links are followed component by component with the kernel's limit.
\<close>

section \<open>File systems\<close>

type_synonym fs_path = "string list"

record node_meta =
  nd_device :: int
  nd_inode :: int
  nd_mode :: int
  nd_nlink :: int

text \<open>A link holds whether its target is absolute and the components of the target.\<close>

datatype fs_node =
    FileNode node_meta string
  | DirNode node_meta int
  | LinkNode bool fs_path

type_synonym fs_map = "fs_path \<Rightarrow> fs_node option"

fun is_link :: "fs_node \<Rightarrow> bool" where
  "is_link (LinkNode a t) = True"
| "is_link _ = False"

fun is_regular :: "fs_node \<Rightarrow> bool" where
  "is_regular (FileNode m c) = True"
| "is_regular _ = False"

fun node_links :: "fs_node \<Rightarrow> int" where
  "node_links (FileNode m c) = nd_nlink m"
| "node_links (DirNode m s) = nd_nlink m"
| "node_links (LinkNode a t) = 1"

definition MAXSYMLINKS :: nat where
  "MAXSYMLINKS = 40"

text \<open>Resolution of \<open>todo\<close> from the resolved directory \<open>at\<close>; \<open>None\<close> when there are too many links.\<close>

function (sequential) follow :: "nat \<Rightarrow> fs_map \<Rightarrow> fs_path \<Rightarrow> fs_path \<Rightarrow> fs_path option" where
  "follow n fs at [] = Some at"
| "follow n fs at (c # todo) =
     (if c = ''..'' then follow n fs (butlast at) todo
      else case fs (at @ [c]) of
        Some (LinkNode ab target) \<Rightarrow>
          (case n of 0 \<Rightarrow> None | Suc m \<Rightarrow> follow m fs (if ab then [] else at) (target @ todo))
      | _ \<Rightarrow> follow n fs (at @ [c]) todo)"
  by pat_completeness auto

termination
  by (relation "measures [\<lambda>(n, fs, at, todo). n, \<lambda>(n, fs, at, todo). length todo]") auto

definition real_path :: "fs_map \<Rightarrow> fs_path \<Rightarrow> fs_path option" where
  "real_path fs p = follow MAXSYMLINKS fs [] p"

text \<open>\<^verbatim>\<open>Path.exists\<close> follows links; \<^verbatim>\<open>lstat\<close> and \<^verbatim>\<open>is_symlink\<close> do not follow the last component.\<close>

definition stat_node :: "fs_map \<Rightarrow> fs_path \<Rightarrow> fs_node option" where
  "stat_node fs p = Option.bind (real_path fs p) fs"

definition lstat_node :: "fs_map \<Rightarrow> fs_path \<Rightarrow> fs_node option" where
  "lstat_node fs p = Option.bind (real_path fs (butlast p)) (\<lambda>q. fs (q @ [last p]))"

definition path_exists :: "fs_map \<Rightarrow> fs_path \<Rightarrow> bool" where
  "path_exists fs p \<longleftrightarrow> stat_node fs p \<noteq> None"

definition path_is_symlink :: "fs_map \<Rightarrow> fs_path \<Rightarrow> bool" where
  "path_is_symlink fs p = (case lstat_node fs p of Some n \<Rightarrow> is_link n | None \<Rightarrow> False)"

section \<open>The guard\<close>

record path_guard =
  wg_workspace_root :: fs_path
  wg_harness_state_root :: "fs_path option"
  wg_max_depth :: int

record guarded_path =
  gp_relative :: string
  gp_absolute :: fs_path
  gp_exists :: bool

text \<open>
  The constructor: the workspace root is resolved strictly, the state root (if any) is not
  required to exist.
\<close>

definition path_guard_new ::
  "fs_map \<Rightarrow> fs_path \<Rightarrow> fs_path option \<Rightarrow> int \<Rightarrow> path_guard result" where
  "path_guard_new fs root state_root max_depth =
     (case real_path fs root of
        None \<Rightarrow> Inl RuntimeError
      | Some r \<Rightarrow>
          if fs r = None then Inl FileNotFoundError
          else (case state_root of
              None \<Rightarrow> Inr \<lparr>wg_workspace_root = r, wg_harness_state_root = None, wg_max_depth = max_depth\<rparr>
            | Some sr \<Rightarrow> (case real_path fs sr of
                 None \<Rightarrow> Inl RuntimeError
               | Some s \<Rightarrow> Inr \<lparr>wg_workspace_root = r, wg_harness_state_root = Some s,
                              wg_max_depth = max_depth\<rparr>)))"

definition upper_ascii :: "char \<Rightarrow> char" where
  "upper_ascii c = (let n = (of_char c :: nat) in if 97 \<le> n \<and> n \<le> 122 then char_of (n - 32) else c)"

definition WINDOWS_RESERVED :: "string list" where
  "WINDOWS_RESERVED = [''CON'', ''PRN'', ''AUX'', ''NUL''] @
     map (\<lambda>d. ''COM'' @ [d]) ''123456789'' @ map (\<lambda>d. ''LPT'' @ [d]) ''123456789''"

fun lexical_loop :: "string list \<Rightarrow> string list result" where
  "lexical_loop [] = Inr []"
| "lexical_loop (part # rest) =
     (if part = [] \<or> part = ''.'' then lexical_loop rest
      else if part = ''..'' then Inl PathGuardError
      else if last part = CHR ''.'' \<or> last part = CHR '' '' then Inl PathGuardError
      else if CHR '':'' \<in> set part then Inl PathGuardError
      else if map upper_ascii (takeWhile (\<lambda>c. c \<noteq> CHR ''.'') part) \<in> set WINDOWS_RESERVED
      then Inl PathGuardError
      else bindE (lexical_loop rest) (\<lambda>parts. Inr (part # parts)))"

definition lexical_parts :: "path_guard \<Rightarrow> string \<Rightarrow> string list result" where
  "lexical_parts g raw =
     (if raw = [] \<or> char_of (0 :: nat) \<in> set raw then Inl PathGuardError
      else if hd raw = CHR ''/'' \<or> hd raw = backslash \<or> windows_drive raw then Inl PathGuardError
      else
        bindE (lexical_loop (split_on (CHR ''/'')
                 (map (\<lambda>c. if c = backslash then CHR ''/'' else c) raw))) (\<lambda>parts.
        if parts = [] \<or> int (length parts) > wg_max_depth g then Inl PathGuardError
        else if map ascii_lower (hd parts) = ''.git'' then Inl PathGuardError
        else Inr parts))"

text \<open>The loop over the components, from \<open>current\<close> on.\<close>

fun check_components :: "fs_map \<Rightarrow> bool \<Rightarrow> fs_path \<Rightarrow> string list \<Rightarrow> unit result" where
  "check_components fs for_write current [] = Inr ()"
| "check_components fs for_write current (part # rest) =
     (let p = current @ [part] in
      if \<not> path_exists fs p \<and> \<not> path_is_symlink fs p then
        (if rest \<noteq> [] \<and> for_write then Inl PathGuardError else check_components fs for_write p rest)
      else case lstat_node fs p of
          None \<Rightarrow> Inl FileNotFoundError
        | Some n \<Rightarrow>
            if is_link n then Inl PathGuardError
            else if for_write \<and> 1 < node_links n \<and> is_regular n then Inl PathGuardError
            else check_components fs for_write p rest)"

text \<open>\<^verbatim>\<open>_is_within\<close>\<close>

definition is_within :: "fs_path \<Rightarrow> fs_path \<Rightarrow> bool" where
  "is_within candidate parent \<longleftrightarrow> prefix parent candidate"

definition guard_resolve :: "fs_map \<Rightarrow> path_guard \<Rightarrow> bool \<Rightarrow> string \<Rightarrow> guarded_path result" where
  "guard_resolve fs g for_write untrusted_path =
     bindE (lexical_parts g untrusted_path) (\<lambda>parts.
     bindE (check_components fs for_write (wg_workspace_root g) parts) (\<lambda>_.
     case real_path fs (wg_workspace_root g @ parts) of
       None \<Rightarrow> Inl RuntimeError
     | Some resolved \<Rightarrow>
         if \<not> is_within resolved (wg_workspace_root g) then Inl PathGuardError
         else if (case wg_harness_state_root g of None \<Rightarrow> False | Some s \<Rightarrow> is_within resolved s)
         then Inl PathGuardError
         else Inr \<lparr>gp_relative = join_with (CHR ''/'') parts, gp_absolute = resolved,
                   gp_exists = path_exists fs (wg_workspace_root g @ parts)\<rparr>))"

definition resolve_for_read :: "fs_map \<Rightarrow> path_guard \<Rightarrow> string \<Rightarrow> guarded_path result" where
  "resolve_for_read fs g p = guard_resolve fs g False p"

definition resolve_for_write :: "fs_map \<Rightarrow> path_guard \<Rightarrow> string \<Rightarrow> guarded_path result" where
  "resolve_for_write fs g p = guard_resolve fs g True p"

section \<open>Paths without links\<close>

definition link_at :: "fs_map \<Rightarrow> fs_path \<Rightarrow> bool" where
  "link_at fs p = (case fs p of Some n \<Rightarrow> is_link n | None \<Rightarrow> False)"

definition canonical :: "fs_map \<Rightarrow> fs_path \<Rightarrow> bool" where
  "canonical fs p \<longleftrightarrow> ''..'' \<notin> set p \<and> (\<forall>q. prefix q p \<longrightarrow> q \<noteq> [] \<longrightarrow> \<not> link_at fs q)"

lemma canonical_Nil [simp]: "canonical fs []"
  by (simp add: canonical_def)

lemma canonical_snoc: "canonical fs (p @ [c]) \<longleftrightarrow> canonical fs p \<and> c \<noteq> ''..'' \<and> \<not> link_at fs (p @ [c])"
  by (auto simp: canonical_def)

lemma canonical_butlast: "canonical fs p \<Longrightarrow> canonical fs (butlast p)"
  by (cases p rule: rev_cases) (auto simp: canonical_snoc)

lemma follow_canonical: "canonical fs at \<Longrightarrow> follow n fs at todo = Some q \<Longrightarrow> canonical fs q"
proof (induction n fs at todo rule: follow.induct)
  case (2 n fs at c todo)
  show ?case
  proof (cases "c = ''..''")
    case True
    with 2 show ?thesis by (simp add: canonical_butlast)
  next
    case False
    then show ?thesis
      using 2 by (auto simp: canonical_snoc link_at_def split: option.splits fs_node.splits nat.splits if_splits)
  qed
qed simp

lemma follow_plain: "canonical fs (at @ todo) \<Longrightarrow> follow n fs at todo = Some (at @ todo)"
proof (induction todo arbitrary: at)
  case (Cons c todo)
  then have "\<not> link_at fs (at @ [c])" "c \<noteq> ''..''"
    by (auto simp: canonical_def)
  moreover have "follow n fs (at @ [c]) todo = Some (at @ c # todo)"
    using Cons.IH [of "at @ [c]"] Cons.prems by simp
  ultimately show ?case
    by (auto simp: link_at_def split: option.splits fs_node.splits)
qed simp

lemma real_path_canonical:
  "real_path fs p = Some q \<Longrightarrow> canonical fs q"
  "canonical fs p \<Longrightarrow> real_path fs p = Some p"
  unfolding real_path_def using follow_canonical [of fs "[]"] follow_plain [of fs "[]" p] by auto

lemma canonical_stat:
  assumes "canonical fs p"
  shows "stat_node fs p = fs p" "p \<noteq> [] \<Longrightarrow> lstat_node fs p = fs p"
  using real_path_canonical(2) [OF assms] real_path_canonical(2) [OF canonical_butlast [OF assms]]
  by (simp_all add: stat_node_def lstat_node_def)

section \<open>Confinement\<close>

lemma check_components_canonical:
  assumes "check_components fs w current parts = Inr ()" "canonical fs current" "''..'' \<notin> set parts"
  shows "canonical fs (current @ parts)"
  using assms
proof (induction parts arbitrary: current)
  case (Cons part parts)
  let ?p = "current @ [part]"
  have l: "lstat_node fs ?p = fs ?p"
    using real_path_canonical(2) [OF Cons.prems(2)] by (simp add: lstat_node_def)
  have "\<not> link_at fs ?p"
    using Cons.prems(1) by (auto simp: link_at_def path_is_symlink_def l Let_def split: option.splits if_splits)
  then have "canonical fs ?p" using Cons.prems(2,3) by (auto simp: canonical_snoc)
  moreover have "check_components fs w ?p parts = Inr ()"
    using Cons.prems(1) by (auto simp: Let_def split: option.splits if_splits)
  ultimately show ?case using Cons.IH [of ?p] Cons.prems(3) by simp
qed simp

text \<open>A write target that exists as a regular file has one name only; its parent exists.\<close>

lemma check_components_step:
  assumes "check_components fs True current (part # rest) = Inr ()" "canonical fs (current @ part # rest)"
  shows "check_components fs True (current @ [part]) rest = Inr ()" "rest \<noteq> [] \<Longrightarrow> fs (current @ [part]) \<noteq> None"
    "fs (current @ [part]) = Some (FileNode m c) \<Longrightarrow> nd_nlink m \<le> 1"
proof -
  have "canonical fs (current @ [part])"
    using assms(2) by (auto simp: canonical_def)
  note s = canonical_stat [OF this]
  show "check_components fs True (current @ [part]) rest = Inr ()"
    using assms(1) by (auto simp: Let_def split: option.splits if_splits)
  show "rest \<noteq> [] \<Longrightarrow> fs (current @ [part]) \<noteq> None"
    using assms(1) by (auto simp: Let_def s path_exists_def path_is_symlink_def split: option.splits if_splits)
  show "fs (current @ [part]) = Some (FileNode m c) \<Longrightarrow> nd_nlink m \<le> 1"
    using assms(1) by (auto simp: Let_def s path_exists_def path_is_symlink_def split: if_splits)
qed

lemma check_components_links:
  assumes "check_components fs True current parts = Inr ()" "canonical fs (current @ parts)" "parts \<noteq> []"
    "fs (current @ parts) = Some (FileNode m c)"
  shows "nd_nlink m \<le> 1"
  using assms
proof (induction parts arbitrary: current)
  case (Cons part rest)
  note step = check_components_step [OF Cons.prems(1,2)]
  show ?case
    using Cons.IH [OF step(1)] Cons.prems(2,4) step(3) by (cases "rest = []") auto
qed simp

lemma check_components_parent:
  assumes "check_components fs True current parts = Inr ()" "canonical fs (current @ parts)" "parts \<noteq> []"
    "fs current \<noteq> None"
  shows "fs (butlast (current @ parts)) \<noteq> None"
  using assms
proof (induction parts arbitrary: current)
  case (Cons part rest)
  note step = check_components_step [OF Cons.prems(1,2)]
  show ?case
    using Cons.IH [OF step(1) _ _ step(2)] Cons.prems(2,4) by (cases "rest = []") (auto simp: butlast_append)
qed simp

lemma lexical_loop_Inr:
  "lexical_loop ps = Inr qs \<Longrightarrow> set qs \<subseteq> set ps \<and>
     (\<forall>q \<in> set qs. plain_part q \<and> CHR '':'' \<notin> set q \<and> last q \<noteq> CHR ''.'' \<and> last q \<noteq> CHR '' '')"
proof (induction ps arbitrary: qs)
  case (Cons p ps)
  then show ?case by (auto simp: bindE_eq_Inr plain_part_def split: if_splits)
qed simp

lemma lexical_parts_Inr:
  assumes "lexical_parts g raw = Inr parts"
  shows "parts \<noteq> []" "int (length parts) \<le> wg_max_depth g" "map ascii_lower (hd parts) \<noteq> ''.git''"
    "\<forall>p \<in> set parts. plain_part p \<and> CHR ''/'' \<notin> set p \<and> CHR '':'' \<notin> set p"
proof -
  let ?raw = "map (\<lambda>c. if c = backslash then CHR ''/'' else c) raw"
  from assms have l: "lexical_loop (split_on (CHR ''/'') ?raw) = Inr parts" "parts \<noteq> []"
      "int (length parts) \<le> wg_max_depth g" "map ascii_lower (hd parts) \<noteq> ''.git''"
    by (auto simp: lexical_parts_def bindE_eq_Inr split: if_splits)
  then show "parts \<noteq> []" "int (length parts) \<le> wg_max_depth g" "map ascii_lower (hd parts) \<noteq> ''.git''" by auto
  show "\<forall>p \<in> set parts. plain_part p \<and> CHR ''/'' \<notin> set p \<and> CHR '':'' \<notin> set p"
    using lexical_loop_Inr [OF l(1)] split_on_parts [of _ "CHR ''/''" ?raw] by blast
qed

lemma guard_resolve_Inr:
  assumes "guard_resolve fs g w raw = Inr gp" "canonical fs (wg_workspace_root g)"
  obtains parts where "lexical_parts g raw = Inr parts"
    "check_components fs w (wg_workspace_root g) parts = Inr ()"
    "gp = \<lparr>gp_relative = join_with (CHR ''/'') parts, gp_absolute = wg_workspace_root g @ parts,
       gp_exists = (fs (wg_workspace_root g @ parts) \<noteq> None)\<rparr>"
    "canonical fs (wg_workspace_root g @ parts)"
    "\<forall>s. wg_harness_state_root g = Some s \<longrightarrow> \<not> prefix s (wg_workspace_root g @ parts)"
proof -
  from assms(1) obtain parts where parts: "lexical_parts g raw = Inr parts"
      "check_components fs w (wg_workspace_root g) parts = Inr ()"
    by (auto simp: guard_resolve_def bindE_eq_Inr)
  have "''..'' \<notin> set parts" using lexical_parts_Inr(4) [OF parts(1)] by (auto simp: plain_part_def)
  with check_components_canonical [OF parts(2) assms(2)]
  have c: "canonical fs (wg_workspace_root g @ parts)" by blast
  show ?thesis
    using that [OF parts _ c] assms(1) parts real_path_canonical(2) [OF c] canonical_stat(1) [OF c]
    by (auto simp: guard_resolve_def path_exists_def is_within_def split: if_splits option.splits)
qed

lemma path_guard_new_canonical: "path_guard_new fs root sr n = Inr g \<Longrightarrow> canonical fs (wg_workspace_root g)"
  by (auto simp: path_guard_new_def split: option.splits if_splits dest: real_path_canonical(1))

end
