(* ===== verification/File_Tools.thy ===== *)
theory File_Tools
  imports Path_Guard
begin

text \<open>
  Replay-safe file mutations (\<^verbatim>\<open>tools/file_tools.py\<close>): a write is planned against the digest
  and identity of what is there, carried out by writing a temporary file and renaming it,
  and reconciled by digest after a crash. Listing and searching directories are in
  \<open>File_Search\<close>. Text is its UTF-8 bytes.
\<close>

section \<open>Disks\<close>

record disk =
  dk_nodes :: fs_map
  dk_next_inode :: int

text \<open>
  What the operating system decides: the mode of a new file, and the size it reports of a
  directory after an entry was added or removed.
\<close>

record os_rules =
  os_new_mode :: int
  os_dir_added :: "int \<Rightarrow> int"
  os_dir_removed :: "int \<Rightarrow> int"

fun resize_dir :: "(int \<Rightarrow> int) \<Rightarrow> fs_node option \<Rightarrow> fs_node option" where
  "resize_dir f (Some (DirNode m n)) = Some (DirNode m (f n))"
| "resize_dir f x = x"

fun dir_device :: "fs_node option \<Rightarrow> int" where
  "dir_device (Some (DirNode m n)) = nd_device m"
| "dir_device _ = 0"

definition add_entry :: "os_rules \<Rightarrow> fs_path \<Rightarrow> fs_node \<Rightarrow> fs_map \<Rightarrow> fs_map" where
  "add_entry os p n fs = (fs(butlast p := resize_dir (os_dir_added os) (fs (butlast p))))(p := Some n)"

definition remove_entry :: "os_rules \<Rightarrow> fs_path \<Rightarrow> fs_map \<Rightarrow> fs_map" where
  "remove_entry os p fs = (fs(butlast p := resize_dir (os_dir_removed os) (fs (butlast p))))(p := None)"

text \<open>\<^verbatim>\<open>open("xb")\<close> and writing \<open>content\<close>: a new inode on the device of the directory.\<close>

definition create_file :: "os_rules \<Rightarrow> fs_path \<Rightarrow> string \<Rightarrow> disk \<Rightarrow> disk result" where
  "create_file os p content d =
     (if dk_nodes d p \<noteq> None then Inl OSError
      else Inr \<lparr>dk_nodes = add_entry os p (FileNode \<lparr>nd_device = dir_device (dk_nodes d (butlast p)),
             nd_inode = dk_next_inode d, nd_mode = os_new_mode os, nd_nlink = 1\<rparr> content) (dk_nodes d),
           dk_next_inode = dk_next_inode d + 1\<rparr>)"

definition chmod_file :: "fs_path \<Rightarrow> int \<Rightarrow> disk \<Rightarrow> disk" where
  "chmod_file p mode d = (case dk_nodes d p of
       Some (FileNode m c) \<Rightarrow> d\<lparr>dk_nodes := (dk_nodes d)(p \<mapsto> FileNode (m\<lparr>nd_mode := mode\<rparr>) c)\<rparr>
     | _ \<Rightarrow> d)"

text \<open>\<^verbatim>\<open>os.replace\<close> within one directory.\<close>

definition os_replace :: "os_rules \<Rightarrow> fs_path \<Rightarrow> fs_path \<Rightarrow> disk \<Rightarrow> disk result" where
  "os_replace os src dst d = (case dk_nodes d src of
       None \<Rightarrow> Inl FileNotFoundError
     | Some n \<Rightarrow>
         (case dk_nodes d dst of
            Some (DirNode m s) \<Rightarrow> Inl OSError
          | Some _ \<Rightarrow> Inr (d\<lparr>dk_nodes := remove_entry os src ((dk_nodes d)(dst \<mapsto> n))\<rparr>)
          | None \<Rightarrow> Inr (d\<lparr>dk_nodes := (dk_nodes d)(dst \<mapsto> n, src := None)\<rparr>)))"

definition unlink_if_exists :: "os_rules \<Rightarrow> fs_path \<Rightarrow> disk \<Rightarrow> disk" where
  "unlink_if_exists os p d =
     (if path_exists (dk_nodes d) p then d\<lparr>dk_nodes := remove_entry os p (dk_nodes d)\<rparr> else d)"

section \<open>Text\<close>

definition cont_byte :: "nat \<Rightarrow> bool" where
  "cont_byte b \<longleftrightarrow> 128 \<le> b \<and> b \<le> 191"

text \<open>\<^verbatim>\<open>bytes.decode("utf-8")\<close> succeeds: no overlong form, no surrogate, at most U+10FFFF.\<close>

fun utf8_bytes :: "nat list \<Rightarrow> bool" where
  "utf8_bytes [] = True"
| "utf8_bytes (a # s) =
     (if a < 128 then utf8_bytes s
      else if 194 \<le> a \<and> a \<le> 223 then
        (case s of b # s' \<Rightarrow> cont_byte b \<and> utf8_bytes s' | _ \<Rightarrow> False)
      else if 224 \<le> a \<and> a \<le> 239 then
        (case s of b # c # s' \<Rightarrow> cont_byte b \<and> cont_byte c \<and> (a = 224 \<longrightarrow> 160 \<le> b) \<and> (a = 237 \<longrightarrow> b \<le> 159)
           \<and> utf8_bytes s' | _ \<Rightarrow> False)
      else if 240 \<le> a \<and> a \<le> 244 then
        (case s of b # c # e # s' \<Rightarrow> cont_byte b \<and> cont_byte c \<and> cont_byte e \<and> (a = 240 \<longrightarrow> 144 \<le> b)
           \<and> (a = 244 \<longrightarrow> b \<le> 143) \<and> utf8_bytes s' | _ \<Rightarrow> False)
      else False)"

definition valid_utf8 :: "string \<Rightarrow> bool" where
  "valid_utf8 s = utf8_bytes (map of_char s)"

text \<open>\<^verbatim>\<open>str.count\<close>, without overlaps; an empty pattern occurs before every character and at the end.\<close>

function py_count :: "string \<Rightarrow> string \<Rightarrow> nat" where
  "py_count pat s =
     (if pat = [] then length s + 1
      else if s = [] then 0
      else if take (length pat) s = pat then Suc (py_count pat (drop (length pat) s))
      else py_count pat (tl s))"
  by pat_completeness auto

termination
  by (relation "measure (\<lambda>(pat, s). length s)") auto

declare py_count.simps [simp del]

text \<open>\<^verbatim>\<open>str.replace(old, new, 1)\<close>\<close>

fun replace_first :: "string \<Rightarrow> string \<Rightarrow> string \<Rightarrow> string" where
  "replace_first pat rep [] = (if pat = [] then rep else [])"
| "replace_first pat rep (c # s) =
     (if take (length pat) (c # s) = pat then rep @ drop (length pat) (c # s)
      else c # replace_first pat rep s)"

definition CRLF :: string where
  "CRLF = [char_of (13 :: nat), char_of (10 :: nat)]"

definition LF :: string where
  "LF = [char_of (10 :: nat)]"

section \<open>Plans\<close>

record file_identity =
  fid_device :: int
  fid_inode :: int
  fid_size :: int
  fid_mode :: int

record file_mutation_plan =
  pl_relative_path :: string
  pl_pre_sha256 :: string
  pl_post_sha256 :: string
  pl_post_content :: string
  pl_pre_identity :: "file_identity option"
  pl_parent_identity :: file_identity

record file_mutation_receipt =
  rc_relative_path :: string
  rc_pre_sha256 :: string
  rc_post_sha256 :: string
  rc_byte_length :: int
  rc_already_applied :: bool

datatype reconcile_decision = RD_COMPLETED | RD_RETRY_SAFE | RD_CONFLICT

record file_tools =
  ft_guard :: path_guard
  ft_max_file_bytes :: int

definition ABSENT_SHA256 :: string where
  "ABSENT_SHA256 = ''ABSENT''"

definition file_identity_of :: "fs_map \<Rightarrow> fs_path \<Rightarrow> file_identity result" where
  "file_identity_of fs p = (case stat_node fs p of
       None \<Rightarrow> Inl FileNotFoundError
     | Some (FileNode m c) \<Rightarrow> Inr \<lparr>fid_device = nd_device m, fid_inode = nd_inode m,
         fid_size = int (length c), fid_mode = nd_mode m\<rparr>
     | Some (DirNode m n) \<Rightarrow> Inr \<lparr>fid_device = nd_device m, fid_inode = nd_inode m,
         fid_size = n, fid_mode = nd_mode m\<rparr>
     | Some (LinkNode a t) \<Rightarrow> Inl OSError)"

definition read_bytes :: "fs_map \<Rightarrow> fs_path \<Rightarrow> string result" where
  "read_bytes fs p = (case stat_node fs p of
       None \<Rightarrow> Inl FileNotFoundError
     | Some (FileNode m c) \<Rightarrow> Inr c
     | Some _ \<Rightarrow> Inl OSError)"

definition is_file_at :: "fs_map \<Rightarrow> fs_path \<Rightarrow> bool" where
  "is_file_at fs p = (case stat_node fs p of Some n \<Rightarrow> is_regular n | None \<Rightarrow> False)"

definition check_size :: "file_tools \<Rightarrow> string \<Rightarrow> unit result" where
  "check_size ft content =
     (if int (length content) > ft_max_file_bytes ft then Inl ValueError else Inr ())"

definition read_text :: "env \<Rightarrow> file_tools \<Rightarrow> fs_map \<Rightarrow> string \<Rightarrow> (string \<times> string) result" where
  "read_text env ft fs relative_path =
     bindE (resolve_for_read fs (ft_guard ft) relative_path) (\<lambda>guarded.
     if \<not> gp_exists guarded \<or> \<not> is_file_at fs (gp_absolute guarded) then Inl FileNotFoundError
     else
       bindE (read_bytes fs (gp_absolute guarded)) (\<lambda>content.
       bindE (check_size ft content) (\<lambda>_.
       if \<not> valid_utf8 content then Inl UnicodeDecodeError
       else Inr (content, sha256 env content))))"

definition plan_write :: "env \<Rightarrow> file_tools \<Rightarrow> fs_map \<Rightarrow> string \<Rightarrow> string \<Rightarrow> file_mutation_plan result" where
  "plan_write env ft fs relative_path post_content =
     bindE (check_size ft post_content) (\<lambda>_.
     bindE (resolve_for_write fs (ft_guard ft) relative_path) (\<lambda>guarded.
     bindE (file_identity_of fs (butlast (gp_absolute guarded))) (\<lambda>parent_identity.
     bindE (if gp_exists guarded then
              (if \<not> is_file_at fs (gp_absolute guarded) then Inl FileConflictError
               else
                 bindE (read_bytes fs (gp_absolute guarded)) (\<lambda>before.
                 bindE (check_size ft before) (\<lambda>_.
                 bindE (file_identity_of fs (gp_absolute guarded)) (\<lambda>i.
                 Inr (Some i, sha256 env before)))))
            else Inr (None, ABSENT_SHA256)) (\<lambda>pre.
     Inr \<lparr>pl_relative_path = gp_relative guarded, pl_pre_sha256 = snd pre,
          pl_post_sha256 = sha256 env post_content, pl_post_content = post_content,
          pl_pre_identity = fst pre, pl_parent_identity = parent_identity\<rparr>))))"

definition plan_patch ::
  "env \<Rightarrow> file_tools \<Rightarrow> fs_map \<Rightarrow> string \<Rightarrow> string \<Rightarrow> string \<Rightarrow> file_mutation_plan result" where
  "plan_patch env ft fs relative_path old_text new_text =
     bindE (read_text env ft fs relative_path) (\<lambda>(current, _).
     let (effective_old, effective_new) =
       (if py_count old_text current = 0 \<and> 0 < py_count CRLF current \<and> py_count CRLF old_text = 0
        then (py_replace LF CRLF old_text, py_replace LF CRLF new_text)
        else if py_count old_text current = 0 \<and> py_count CRLF current = 0 \<and> 0 < py_count CRLF old_text
        then (py_replace CRLF LF old_text, py_replace CRLF LF new_text)
        else (old_text, new_text))
     in if py_count effective_old current \<noteq> 1 then Inl FileConflictError
        else plan_write env ft fs relative_path (replace_first effective_old effective_new current))"

section \<open>Reconciliation and execution\<close>

definition reconcile :: "env \<Rightarrow> file_tools \<Rightarrow> file_mutation_plan \<Rightarrow> fs_map \<Rightarrow> reconcile_decision result" where
  "reconcile env ft plan fs =
     bindE (resolve_for_write fs (ft_guard ft) (pl_relative_path plan)) (\<lambda>guarded.
     bindE (if gp_exists guarded
            then bindE (read_bytes fs (gp_absolute guarded)) (\<lambda>c. Inr (sha256 env c))
            else Inr ABSENT_SHA256) (\<lambda>current_sha256.
     if current_sha256 = pl_post_sha256 plan then Inr RD_COMPLETED
     else if current_sha256 \<noteq> pl_pre_sha256 plan then Inr RD_CONFLICT
     else case pl_pre_identity plan of
         None \<Rightarrow> Inr RD_RETRY_SAFE
       | Some pre \<Rightarrow>
           (case file_identity_of fs (gp_absolute guarded) of
              Inl FileNotFoundError \<Rightarrow> Inr RD_CONFLICT
            | Inl e \<Rightarrow> Inl e
            | Inr i \<Rightarrow> Inr (if i = pre then RD_RETRY_SAFE else RD_CONFLICT))))"

definition receipt_of :: "file_mutation_plan \<Rightarrow> bool \<Rightarrow> file_mutation_receipt" where
  "receipt_of plan already =
     \<lparr>rc_relative_path = pl_relative_path plan, rc_pre_sha256 = pl_pre_sha256 plan,
      rc_post_sha256 = pl_post_sha256 plan, rc_byte_length = int (length (pl_post_content plan)),
      rc_already_applied = already\<rparr>"

text \<open>The name of the temporary file; \<open>token\<close> is \<^verbatim>\<open>secrets.token_hex(8)\<close>.\<close>

definition temp_path :: "fs_path \<Rightarrow> string \<Rightarrow> fs_path" where
  "temp_path target token = butlast target @ [''.'' @ last target @ ''.forge-replay-'' @ token @ ''.tmp'']"

definition plan_mode :: "file_mutation_plan \<Rightarrow> int" where
  "plan_mode plan = (case pl_pre_identity plan of None \<Rightarrow> 420 | Some i \<Rightarrow> fid_mode i)"

text \<open>The disk once the temporary file is written and its mode set.\<close>

definition prepare_temp :: "os_rules \<Rightarrow> file_mutation_plan \<Rightarrow> fs_path \<Rightarrow> disk \<Rightarrow> disk result" where
  "prepare_temp os plan tmp d =
     bindE (create_file os tmp (pl_post_content plan) d) (\<lambda>d1. Inr (chmod_file tmp (plan_mode plan) d1))"

text \<open>
  \<open>others1\<close> and \<open>others2\<close> are what other processes do to the disk before the second and before
  the third reconciliation.
\<close>

definition replace_checked ::
  "env \<Rightarrow> os_rules \<Rightarrow> file_tools \<Rightarrow> file_mutation_plan \<Rightarrow> fs_path \<Rightarrow> fs_path \<Rightarrow> disk \<Rightarrow> unit result \<times> disk" where
  "replace_checked env os ft plan tmp target d =
     (case reconcile env ft plan (dk_nodes d) of
        Inl e \<Rightarrow> (Inl e, unlink_if_exists os tmp d)
      | Inr r \<Rightarrow>
          if r \<noteq> RD_RETRY_SAFE then (Inl FileConflictError, unlink_if_exists os tmp d)
          else (case os_replace os tmp target d of
              Inl e \<Rightarrow> (Inl e, unlink_if_exists os tmp d)
            | Inr d' \<Rightarrow> (Inr (), unlink_if_exists os tmp d')))"

definition execute_plan ::
  "env \<Rightarrow> os_rules \<Rightarrow> file_tools \<Rightarrow> file_mutation_plan \<Rightarrow> string \<Rightarrow> (disk \<Rightarrow> disk) \<Rightarrow> (disk \<Rightarrow> disk)
     \<Rightarrow> disk \<Rightarrow> file_mutation_receipt result \<times> disk" where
  "execute_plan env os ft plan token others1 others2 d =
     (case resolve_for_write (dk_nodes d) (ft_guard ft) (pl_relative_path plan) of
        Inl e \<Rightarrow> (Inl e, d)
      | Inr guarded \<Rightarrow>
          let target = gp_absolute guarded; tmp = temp_path target token in
          (case reconcile env ft plan (dk_nodes d) of
             Inl e \<Rightarrow> (Inl e, d)
           | Inr RD_COMPLETED \<Rightarrow> (Inr (receipt_of plan True), d)
           | Inr RD_CONFLICT \<Rightarrow> (Inl FileConflictError, d)
           | Inr RD_RETRY_SAFE \<Rightarrow>
               (case file_identity_of (dk_nodes d) (butlast target) of
                  Inl e \<Rightarrow> (Inl e, d)
                | Inr i \<Rightarrow>
                    if i \<noteq> pl_parent_identity plan then (Inl FileConflictError, d)
                    else (case prepare_temp os plan tmp d of
                        Inl e \<Rightarrow> (Inl e, unlink_if_exists os tmp d)
                      | Inr d1 \<Rightarrow>
                          (case replace_checked env os ft plan tmp target (others1 d1) of
                             (Inl e, d2) \<Rightarrow> (Inl e, d2)
                           | (Inr _, d2) \<Rightarrow>
                               let d3 = others2 d2 in
                               (case reconcile env ft plan (dk_nodes d3) of
                                  Inl e \<Rightarrow> (Inl e, d3)
                                | Inr r \<Rightarrow>
                                    if r \<noteq> RD_COMPLETED then (Inl FileConflictError, d3)
                                    else (Inr (receipt_of plan False), d3)))))))"

end
