(* ===== verification/File_Facts.thy ===== *)
theory File_Facts
  imports File_Tools
begin

text \<open>
  Crash safety of file mutations: at whatever point an execution of a plan stops, the target
  holds the old or the new content, reconciliation never reports a conflict, and a second
  execution completes.
\<close>

section \<open>The guard on a touched disk\<close>

lemma lexical_loop_plain:
  "lexical_loop ps = Inr qs \<Longrightarrow> lexical_loop qs = Inr qs"
  by (induction ps arbitrary: qs) (auto simp: bindE_eq_Inr split: if_splits)

lemma lexical_parts_again:
  assumes "lexical_parts g raw = Inr parts"
  shows "lexical_parts g (join_with (CHR ''/'') parts) = Inr parts"
proof -
  let ?raw = "map (\<lambda>c. if c = backslash then CHR ''/'' else c) raw"
  let ?q = "join_with (CHR ''/'') parts"
  from assms have l: "lexical_loop (split_on (CHR ''/'') ?raw) = Inr parts" and nul: "char_of (0 :: nat) \<notin> set raw"
    by (auto simp: lexical_parts_def bindE_eq_Inr split: if_splits)
  note L = lexical_parts_Inr [OF assms]
  have chars: "backslash \<notin> set p \<and> char_of (0 :: nat) \<notin> set p" if "p \<in> set parts" for p
  proof -
    have "set p \<subseteq> set ?raw"
      using that lexical_loop_Inr [OF l] split_on_parts [of p "CHR ''/''" ?raw] by blast
    then show ?thesis using nul path_chars by auto
  qed
  obtain p ps where p: "parts = p # ps" "p \<noteq> []"
    using L(1,4) by (cases parts) (auto simp: plain_part_def)
  have q: "c \<noteq> backslash \<and> c \<noteq> char_of (0 :: nat)" if "c \<in> set ?q" for c
    using that set_join_with [of "CHR ''/''" parts] chars path_chars by blast
  have hd: "hd ?q = hd p" using p by (simp add: hd_join_with)
  have "c \<noteq> CHR ''/'' \<and> c \<noteq> backslash" if "c \<in> set p" for c
    using that L(4) chars [of p] p(1) by auto
  from this [OF hd_in_set [OF p(2)]] have "hd ?q \<noteq> CHR ''/''" "hd ?q \<noteq> backslash" by (simp_all add: hd)
  moreover have "\<not> windows_drive ?q"
  proof
    assume "windows_drive ?q"
    then obtain a b s where w: "?q = a # b # s" "b = CHR '':''" by (cases ?q rule: windows_drive.cases) auto
    then have "CHR '':'' \<in> set ?q" by simp
    then show False using set_join_with [of "CHR ''/''" parts] L(4) by auto
  qed
  moreover have "?q \<noteq> []" using p by (cases ps) simp_all
  moreover have "map (\<lambda>c. if c = backslash then CHR ''/'' else c) ?q = ?q"
    using q by (intro map_idI) auto
  moreover have "split_on (CHR ''/'') ?q = parts" using L(1,4) by (intro split_on_join) auto
  moreover have "lexical_loop parts = Inr parts" using lexical_loop_plain [OF l] .
  ultimately show ?thesis using q L by (auto simp: lexical_parts_def)
qed

text \<open>Two disks that agree, up to the sizes of directories, on the way to a target.\<close>

definition same_kind :: "fs_node option \<Rightarrow> fs_node option \<Rightarrow> bool" where
  "same_kind a b \<longleftrightarrow> a = b \<or> (\<exists>m n n'. a = Some (DirNode m n) \<and> b = Some (DirNode m n'))"

definition plain_target :: "fs_node option \<Rightarrow> bool" where
  "plain_target n \<longleftrightarrow> (case n of None \<Rightarrow> True | Some (FileNode m c) \<Rightarrow> nd_nlink m \<le> 1
     | Some (DirNode m s) \<Rightarrow> True | Some (LinkNode a t) \<Rightarrow> False)"

definition touched :: "fs_path \<Rightarrow> fs_map \<Rightarrow> fs_map \<Rightarrow> bool" where
  "touched target fs fs' \<longleftrightarrow> (\<forall>p. prefix p target \<and> p \<noteq> target \<longrightarrow> same_kind (fs p) (fs' p)) \<and>
     plain_target (fs' target)"

lemma touched_canonical:
  assumes "touched target fs fs'" "canonical fs target"
  shows "canonical fs' target"
proof -
  have "\<not> link_at fs' p" if "prefix p target" "p \<noteq> []" for p
  proof (cases "p = target")
    case True
    then show ?thesis using assms(1) by (auto simp: touched_def plain_target_def link_at_def split: option.splits fs_node.splits)
  next
    case False
    then have "same_kind (fs p) (fs' p)" "\<not> link_at fs p"
      using assms that by (auto simp: touched_def canonical_def)
    then show ?thesis by (auto simp: same_kind_def link_at_def)
  qed
  then show ?thesis using assms(2) by (simp add: canonical_def)
qed

lemma check_components_touched:
  assumes "check_components fs True current parts = Inr ()" "canonical fs (current @ parts)"
    "touched (current @ parts) fs fs'"
  shows "check_components fs' True current parts = Inr ()"
  using assms
proof (induction parts arbitrary: current)
  case (Cons part rest)
  let ?p = "current @ [part]"
  note step = check_components_step [OF Cons.prems(1,2)]
  have "canonical fs' (current @ part # rest)" using touched_canonical [OF Cons.prems(3,2)] .
  then have c: "canonical fs' ?p" by (auto simp: canonical_def)
  note s = canonical_stat [OF c]
  have IH: "check_components fs' True ?p rest = Inr ()"
    using Cons.IH [of ?p] step(1) Cons.prems(2,3) by simp
  have nl: "\<not> link_at fs' ?p" using c by (simp add: canonical_def)
  have ex: "fs' ?p \<noteq> None" if "rest \<noteq> []"
  proof -
    have "same_kind (fs ?p) (fs' ?p)" using Cons.prems(3) that by (auto simp: touched_def)
    with step(2) [OF that] show ?thesis by (auto simp: same_kind_def)
  qed
  have one: "nd_nlink m \<le> 1" if "fs' ?p = Some (FileNode m c)" for m c
  proof (cases "rest = []")
    case True
    with that Cons.prems(3) show ?thesis by (auto simp: touched_def plain_target_def)
  next
    case False
    then have "same_kind (fs ?p) (fs' ?p)" using Cons.prems(3) by (auto simp: touched_def)
    with that step(3) show ?thesis by (auto simp: same_kind_def)
  qed
  show ?case
  proof (cases "fs' ?p")
    case None
    with IH ex s show ?thesis by (auto simp: Let_def path_exists_def path_is_symlink_def)
  next
    case (Some n)
    with IH s nl one show ?thesis
      by (cases n) (auto simp: Let_def path_exists_def path_is_symlink_def link_at_def not_le [symmetric])
  qed
qed simp

lemma resolve_touched:
  assumes "resolve_for_write fs g raw = Inr gp" "canonical fs (wg_workspace_root g)"
    "touched (gp_absolute gp) fs fs'"
  shows "resolve_for_write fs' g (gp_relative gp) = Inr (gp\<lparr>gp_exists := (fs' (gp_absolute gp) \<noteq> None)\<rparr>)"
    "canonical fs' (gp_absolute gp)"
proof -
  obtain parts where p: "lexical_parts g raw = Inr parts"
    "check_components fs True (wg_workspace_root g) parts = Inr ()"
    "gp = \<lparr>gp_relative = join_with (CHR ''/'') parts, gp_absolute = wg_workspace_root g @ parts,
       gp_exists = (fs (wg_workspace_root g @ parts) \<noteq> None)\<rparr>"
    "canonical fs (wg_workspace_root g @ parts)"
    "\<forall>s. wg_harness_state_root g = Some s \<longrightarrow> \<not> prefix s (wg_workspace_root g @ parts)"
    using assms(1,2) unfolding resolve_for_write_def by (rule guard_resolve_Inr)
  have T: "touched (wg_workspace_root g @ parts) fs fs'" using assms(3) p(3) by simp
  have c: "canonical fs' (wg_workspace_root g @ parts)" using touched_canonical [OF T p(4)] .
  then show "canonical fs' (gp_absolute gp)" using p(3) by simp
  have "check_components fs' True (wg_workspace_root g) parts = Inr ()"
    using check_components_touched [OF p(2,4) T] .
  then show "resolve_for_write fs' g (gp_relative gp) = Inr (gp\<lparr>gp_exists := (fs' (gp_absolute gp) \<noteq> None)\<rparr>)"
    using p real_path_canonical(2) [OF c] canonical_stat(1) [OF c] lexical_parts_again [OF p(1)]
    by (auto simp: resolve_for_write_def guard_resolve_def path_exists_def is_within_def split: option.splits)
qed

section \<open>Crashes\<close>

text \<open>
  The disks a crash can leave behind while a plan is executed with the temporary file \<open>tmp\<close>: the
  original one, one with a temporary file of any content, with the finished one, or the
  one after the rename.
\<close>

definition crash_disk :: "os_rules \<Rightarrow> file_mutation_plan \<Rightarrow> fs_path \<Rightarrow> fs_path \<Rightarrow> disk \<Rightarrow> disk \<Rightarrow> bool" where
  "crash_disk os plan target tmp d d' \<longleftrightarrow> d' = d \<or> (\<exists>c. create_file os tmp c d = Inr d') \<or>
     prepare_temp os plan tmp d = Inr d' \<or>
     (\<exists>d1. prepare_temp os plan tmp d = Inr d1 \<and> os_replace os tmp target d1 = Inr d')"

lemma temp_path_props:
  assumes "target \<noteq> []"
  shows "temp_path target token \<noteq> target" "butlast (temp_path target token) = butlast target"
    "\<not> prefix (temp_path target token) target" "temp_path target token \<noteq> butlast target"
    "target \<noteq> butlast (temp_path target token)"
proof -
  have l: "length (temp_path target token) = length target" using assms by (simp add: temp_path_def)
  have "last (temp_path target token) \<noteq> last target"
    by (simp add: temp_path_def)
  then show ne: "temp_path target token \<noteq> target" by auto
  show "butlast (temp_path target token) = butlast target" by (simp add: temp_path_def)
  show "\<not> prefix (temp_path target token) target" using not_equal_is_parallel [OF ne l] by blast
  show "temp_path target token \<noteq> butlast target" "target \<noteq> butlast (temp_path target token)"
    using l assms by (metis length_butlast diff_less length_greater_0_conv less_irrefl zero_less_one)+
qed

lemma same_kind_resize: "same_kind n (resize_dir f n)" "same_kind n n"
  by (cases "(f, n)" rule: resize_dir.cases; simp add: same_kind_def)+

lemma same_kind_trans: "same_kind a b \<Longrightarrow> same_kind b c \<Longrightarrow> same_kind a c"
  by (auto simp: same_kind_def)

lemma add_entry_node: "p \<noteq> butlast p \<Longrightarrow> add_entry os p n fs p = Some n"
  "q \<noteq> p \<Longrightarrow> same_kind (fs q) (add_entry os p n fs q)"
  "q \<noteq> p \<Longrightarrow> q \<noteq> butlast p \<Longrightarrow> add_entry os p n fs q = fs q"
  by (auto simp: add_entry_def same_kind_resize)

lemma create_file_nodes:
  "create_file os p c d = Inr d' \<Longrightarrow>
     \<exists>m. dk_nodes d' = add_entry os p (FileNode m c) (dk_nodes d) \<and> nd_nlink m = 1"
  by (auto simp: create_file_def split: if_splits)

lemma prepare_temp_nodes:
  assumes "prepare_temp os plan p d = Inr d'" "p \<noteq> butlast p"
  shows "\<exists>m. dk_nodes d' = add_entry os p (FileNode m (pl_post_content plan)) (dk_nodes d) \<and> nd_nlink m = 1"
proof -
  obtain d1 where d1: "create_file os p (pl_post_content plan) d = Inr d1" "d' = chmod_file p (plan_mode plan) d1"
    using assms(1) by (auto simp: prepare_temp_def bindE_eq_Inr)
  from create_file_nodes [OF d1(1)] obtain m where
    m: "dk_nodes d1 = add_entry os p (FileNode m (pl_post_content plan)) (dk_nodes d)" "nd_nlink m = 1" by blast
  then have "dk_nodes d1 p = Some (FileNode m (pl_post_content plan))"
    using add_entry_node(1) [OF assms(2)] by simp
  with d1(2) m have "dk_nodes d' = add_entry os p (FileNode (m\<lparr>nd_mode := plan_mode plan\<rparr>) (pl_post_content plan)) (dk_nodes d)"
    by (simp add: chmod_file_def add_entry_def)
  moreover have "nd_nlink (m\<lparr>nd_mode := plan_mode plan\<rparr>) = 1" using m(2) by simp
  ultimately show ?thesis by blast
qed

lemma os_replace_nodes:
  assumes "os_replace os src dst d = Inr d'" "dk_nodes d src = Some n" "dst \<noteq> src" "dst \<noteq> butlast src"
  shows "dk_nodes d' dst = Some n" "q \<noteq> src \<Longrightarrow> q \<noteq> dst \<Longrightarrow> same_kind (dk_nodes d q) (dk_nodes d' q)"
  using assms
  by (auto simp: os_replace_def remove_entry_def same_kind_resize split: option.splits fs_node.splits)

text \<open>What a crash leaves at the target and on the way to it.\<close>

lemma crash_disk_target:
  assumes "crash_disk os plan target tmp d d'" "target \<noteq> []" "tmp = temp_path target token"
    and "plain_target (dk_nodes d target)"
  shows "touched target (dk_nodes d) (dk_nodes d') \<and> (dk_nodes d' target = dk_nodes d target \<or>
    (\<exists>m. dk_nodes d' target = Some (FileNode m (pl_post_content plan)) \<and> nd_nlink m = 1))"
proof -
  note T = temp_path_props [OF assms(2), of token, folded assms(3)]
  have tmp: "tmp \<noteq> butlast tmp" using T(2,4) by simp
  have entry: "touched target (dk_nodes d) (add_entry os tmp n (dk_nodes d)) \<and>
      add_entry os tmp n (dk_nodes d) target = dk_nodes d target" for n
  proof -
    have "add_entry os tmp n (dk_nodes d) target = dk_nodes d target"
      using T by (intro add_entry_node(3)) auto
    moreover have "same_kind (dk_nodes d p) (add_entry os tmp n (dk_nodes d) p)" if "prefix p target" for p
      using that T(3) by (intro add_entry_node(2)) auto
    ultimately show ?thesis using assms(4) by (simp add: touched_def)
  qed
  show ?thesis
    using assms(1) unfolding crash_disk_def
  proof (elim disjE exE conjE)
    assume "d' = d"
    then show ?thesis using assms(4) by (simp add: touched_def same_kind_resize)
  next
    fix c assume "create_file os tmp c d = Inr d'"
    from create_file_nodes [OF this] show ?thesis using entry by metis
  next
    assume "prepare_temp os plan tmp d = Inr d'"
    from prepare_temp_nodes [OF this tmp] show ?thesis using entry by metis
  next
    fix d1 assume p: "prepare_temp os plan tmp d = Inr d1" and r: "os_replace os tmp target d1 = Inr d'"
    from prepare_temp_nodes [OF p tmp] obtain m where
      m: "dk_nodes d1 = add_entry os tmp (FileNode m (pl_post_content plan)) (dk_nodes d)" "nd_nlink m = 1" by blast
    have n: "dk_nodes d1 tmp = Some (FileNode m (pl_post_content plan))"
      using m(1) add_entry_node(1) [OF tmp] by simp
    have tgt: "target \<noteq> butlast tmp" using T(5) .
    note R = os_replace_nodes [OF r n T(1) [symmetric] tgt]
    have "same_kind (dk_nodes d q) (dk_nodes d' q)" if "prefix q target" "q \<noteq> target" for q
    proof -
      have "q \<noteq> tmp" using that(1) T(3) by auto
      then show ?thesis
        using add_entry_node(2) [of q tmp "dk_nodes d" os] m(1) R(2) that(2) same_kind_trans by metis
    qed
    then show ?thesis using R(1) m(2) by (simp add: touched_def plain_target_def)
  qed
qed

section \<open>Reconciliation after a crash\<close>

lemma plan_write_Inr:
  assumes "plan_write env ft fs rel content = Inr plan"
  obtains gp where "resolve_for_write fs (ft_guard ft) rel = Inr gp" "pl_relative_path plan = gp_relative gp"
    "pl_post_content plan = content" "pl_post_sha256 plan = sha256 env content"
    "file_identity_of fs (butlast (gp_absolute gp)) = Inr (pl_parent_identity plan)"
    "if gp_exists gp then (\<exists>c i. is_file_at fs (gp_absolute gp) \<and> read_bytes fs (gp_absolute gp) = Inr c \<and>
         file_identity_of fs (gp_absolute gp) = Inr i \<and> pl_pre_identity plan = Some i \<and> pl_pre_sha256 plan = sha256 env c)
     else pl_pre_identity plan = None \<and> pl_pre_sha256 plan = ABSENT_SHA256"
  using assms by (auto simp: plan_write_def bindE_eq_Inr split: if_splits)

lemma reconcile_touched:
  assumes "resolve_for_write fs g raw = Inr gp" "canonical fs (wg_workspace_root g)"
    and "touched (gp_absolute gp) fs fs'" "pl_relative_path plan = gp_relative gp" "ft_guard ft = g"
  shows "reconcile env ft plan fs' =
    (case fs' (gp_absolute gp) of
       Some (FileNode m c) \<Rightarrow>
         if sha256 env c = pl_post_sha256 plan then Inr RD_COMPLETED
         else if sha256 env c \<noteq> pl_pre_sha256 plan then Inr RD_CONFLICT
         else (case pl_pre_identity plan of None \<Rightarrow> Inr RD_RETRY_SAFE
           | Some pre \<Rightarrow> Inr (if \<lparr>fid_device = nd_device m, fid_inode = nd_inode m, fid_size = int (length c),
               fid_mode = nd_mode m\<rparr> = pre then RD_RETRY_SAFE else RD_CONFLICT))
     | None \<Rightarrow>
         if ABSENT_SHA256 = pl_post_sha256 plan then Inr RD_COMPLETED
         else if ABSENT_SHA256 \<noteq> pl_pre_sha256 plan then Inr RD_CONFLICT
         else (case pl_pre_identity plan of None \<Rightarrow> Inr RD_RETRY_SAFE | Some pre \<Rightarrow> Inr RD_CONFLICT)
     | Some _ \<Rightarrow> Inl OSError)"
proof -
  note R = resolve_touched [OF assms(1-3)]
  have s: "stat_node fs' (gp_absolute gp) = fs' (gp_absolute gp)" using canonical_stat(1) [OF R(2)] .
  show ?thesis
    unfolding reconcile_def assms(4,5) R(1)
    by (auto simp: s read_bytes_def file_identity_of_def split: option.splits fs_node.splits)
qed

lemma resolve_write_target:
  assumes "resolve_for_write fs g raw = Inr gp" "canonical fs (wg_workspace_root g)"
  shows "gp_absolute gp \<noteq> []" "canonical fs (gp_absolute gp)" "plain_target (fs (gp_absolute gp))"
    "gp_exists gp = (fs (gp_absolute gp) \<noteq> None)" "touched (gp_absolute gp) fs fs"
proof -
  obtain parts where p: "lexical_parts g raw = Inr parts"
    "check_components fs True (wg_workspace_root g) parts = Inr ()"
    "gp = \<lparr>gp_relative = join_with (CHR ''/'') parts, gp_absolute = wg_workspace_root g @ parts,
       gp_exists = (fs (wg_workspace_root g @ parts) \<noteq> None)\<rparr>"
    "canonical fs (wg_workspace_root g @ parts)"
    using assms unfolding resolve_for_write_def by (rule guard_resolve_Inr)
  note ne = lexical_parts_Inr(1) [OF p(1)]
  show "gp_absolute gp \<noteq> []" "canonical fs (gp_absolute gp)" "gp_exists gp = (fs (gp_absolute gp) \<noteq> None)"
    using p ne by simp_all
  have "\<not> link_at fs (wg_workspace_root g @ parts)" using p(4) ne by (auto simp: canonical_def)
  then show "plain_target (fs (gp_absolute gp))"
    using check_components_links [OF p(2,4) ne] p(3)
    by (auto simp: plain_target_def link_at_def split: option.splits fs_node.splits)
  then show "touched (gp_absolute gp) fs fs" by (simp add: touched_def same_kind_resize)
qed

lemma crash_reconcile:
  assumes "plan_write env ft (dk_nodes d) rel content = Inr plan"
    and "resolve_for_write (dk_nodes d) (ft_guard ft) rel = Inr gp"
    and "canonical (dk_nodes d) (wg_workspace_root (ft_guard ft))"
    and "crash_disk os plan (gp_absolute gp) (temp_path (gp_absolute gp) token) d d'"
  shows "reconcile env ft plan (dk_nodes d') = Inr RD_COMPLETED \<or>
    reconcile env ft plan (dk_nodes d') = Inr RD_RETRY_SAFE"
proof -
  obtain gp2 where P: "resolve_for_write (dk_nodes d) (ft_guard ft) rel = Inr gp2" "pl_relative_path plan = gp_relative gp2"
    "pl_post_content plan = content" "pl_post_sha256 plan = sha256 env content"
    "if gp_exists gp2 then (\<exists>c i. is_file_at (dk_nodes d) (gp_absolute gp2) \<and> read_bytes (dk_nodes d) (gp_absolute gp2) = Inr c \<and>
         file_identity_of (dk_nodes d) (gp_absolute gp2) = Inr i \<and> pl_pre_identity plan = Some i \<and> pl_pre_sha256 plan = sha256 env c)
     else pl_pre_identity plan = None \<and> pl_pre_sha256 plan = ABSENT_SHA256"
    using assms(1) by (rule plan_write_Inr)
  have [simp]: "gp2 = gp" using P(1) assms(2) by simp
  note W = resolve_write_target [OF assms(2,3)]
  note C = crash_disk_target [OF assms(4) W(1) refl W(3)]
  note s = canonical_stat(1) [OF W(2)]
  have "pl_relative_path plan = gp_relative gp" using P(2) by simp
  note R = reconcile_touched [OF assms(2,3) C [THEN conjunct1] this refl, of env]
  from C [THEN conjunct2] show ?thesis
  proof
    assume same: "dk_nodes d' (gp_absolute gp) = dk_nodes d (gp_absolute gp)"
    show ?thesis
      unfolding R same using P(5) W(4) s
      by (auto simp: is_file_at_def read_bytes_def file_identity_of_def split: option.splits fs_node.splits)
  next
    assume "\<exists>m. dk_nodes d' (gp_absolute gp) = Some (FileNode m (pl_post_content plan)) \<and> nd_nlink m = 1"
    then show ?thesis unfolding R using P(3,4) by auto
  qed
qed

section \<open>Execution\<close>

lemma canonical_temp:
  assumes "canonical fs target" "target \<noteq> []" "\<not> link_at fs (temp_path target token)"
  shows "canonical fs (temp_path target token)"
  using assms canonical_butlast [OF assms(1)] by (simp add: temp_path_def canonical_snoc)

text \<open>From a disk on which the plan may be retried, an undisturbed execution completes.\<close>

lemma execute_retry_safe:
  assumes res: "resolve_for_write (dk_nodes d) (ft_guard ft) (pl_relative_path plan) = Inr gp"
    and rel: "gp_relative gp = pl_relative_path plan"
    and can: "canonical (dk_nodes d) (wg_workspace_root (ft_guard ft))"
    and rec: "reconcile env ft plan (dk_nodes d) = Inr RD_RETRY_SAFE"
    and par: "file_identity_of (dk_nodes d) (butlast (gp_absolute gp)) = Inr (pl_parent_identity plan)"
    and tmp: "dk_nodes d (temp_path (gp_absolute gp) token) = None"
    and sha: "pl_post_sha256 plan = sha256 env (pl_post_content plan)"
  shows "\<exists>d' m. execute_plan env os ft plan token id id d = (Inr (receipt_of plan False), d') \<and>
    dk_nodes d' (gp_absolute gp) = Some (FileNode m (pl_post_content plan))"
proof -
  let ?t = "gp_absolute gp" and ?tmp = "temp_path (gp_absolute gp) token"
  note W = resolve_write_target [OF res can]
  note T = temp_path_props [OF W(1), of token]
  have bt: "?tmp \<noteq> butlast ?tmp" using T(2,4) by simp
  obtain d1 where d1: "prepare_temp os plan ?tmp d = Inr d1"
    using tmp by (simp add: prepare_temp_def create_file_def)
  from prepare_temp_nodes [OF d1 bt] obtain m where
    m: "dk_nodes d1 = add_entry os ?tmp (FileNode m (pl_post_content plan)) (dk_nodes d)" "nd_nlink m = 1" by blast
  have n1: "dk_nodes d1 ?tmp = Some (FileNode m (pl_post_content plan))"
    using m(1) add_entry_node(1) [OF bt] by simp
  have t1: "dk_nodes d1 ?t = dk_nodes d ?t" unfolding m(1) by (intro add_entry_node(3)) (use T in auto)
  have touch: "crash_disk os plan ?t ?tmp d d2 \<Longrightarrow> touched ?t (dk_nodes d) (dk_nodes d2)" for d2
    using crash_disk_target [OF _ W(1) refl W(3)] by blast
  note rt = reconcile_touched [OF res can _ rel [symmetric] refl, of _ env]
  have rec1: "reconcile env ft plan (dk_nodes d1) = Inr RD_RETRY_SAFE"
    using rec rt [OF W(5)] rt [OF touch [of d1]] d1 t1 by (simp add: crash_disk_def)
  have "\<nexists>m s. dk_nodes d ?t = Some (DirNode m s)" using rec rt [OF W(5)] by (auto split: fs_node.splits)
  then have "\<exists>d2. os_replace os ?tmp ?t d1 = Inr d2"
    using n1 t1 by (auto simp: os_replace_def split: option.split fs_node.split)
  then obtain d2 where d2: "os_replace os ?tmp ?t d1 = Inr d2" ..
  note R = os_replace_nodes [OF d2 n1 T(1) [symmetric] T(5)]
  have touch2: "touched ?t (dk_nodes d) (dk_nodes d2)"
    using d1 d2 by (intro touch) (auto simp: crash_disk_def)
  have gone: "dk_nodes d2 ?tmp = None"
    using d2 n1 T(1) by (auto simp: os_replace_def remove_entry_def split: option.splits fs_node.splits)
  have "canonical (dk_nodes d2) ?tmp"
    using canonical_temp [OF resolve_touched(2) [OF res can touch2] W(1)] gone by (simp add: link_at_def)
  then have unl: "unlink_if_exists os ?tmp d2 = d2"
    using canonical_stat(1) gone by (simp add: unlink_if_exists_def path_exists_def)
  have rec2: "reconcile env ft plan (dk_nodes d2) = Inr RD_COMPLETED"
    using rt [OF touch2] R(1) sha by simp
  have "execute_plan env os ft plan token id id d = (Inr (receipt_of plan False), d2)"
    by (simp add: execute_plan_def res Let_def rec par d1 replace_checked_def rec1 d2 unl rec2)
  with R(1) show ?thesis by blast
qed

text \<open>
  Whatever a crash left behind, a second execution with a fresh temporary name completes,
  provided the directory still reports the identity recorded in the plan.
\<close>

lemma execute_after_crash:
  assumes plan: "plan_write env ft (dk_nodes d) rel content = Inr plan"
    and res: "resolve_for_write (dk_nodes d) (ft_guard ft) rel = Inr gp"
    and can: "canonical (dk_nodes d) (wg_workspace_root (ft_guard ft))"
    and crash: "crash_disk os plan (gp_absolute gp) (temp_path (gp_absolute gp) token) d d'"
    and par: "file_identity_of (dk_nodes d') (butlast (gp_absolute gp)) = Inr (pl_parent_identity plan)"
    and tmp: "dk_nodes d' (temp_path (gp_absolute gp) token') = None"
    and sha: "sha256 env content \<noteq> ABSENT_SHA256"
  shows "\<exists>already d'' m c. execute_plan env os ft plan token' id id d' = (Inr (receipt_of plan already), d'') \<and>
    dk_nodes d'' (gp_absolute gp) = Some (FileNode m c) \<and> sha256 env c = sha256 env content \<and>
    (\<not> already \<longrightarrow> c = content)"
proof -
  obtain gp2 where P: "resolve_for_write (dk_nodes d) (ft_guard ft) rel = Inr gp2" "pl_relative_path plan = gp_relative gp2"
    "pl_post_content plan = content" "pl_post_sha256 plan = sha256 env content"
    using plan by (rule plan_write_Inr)
  then have rel: "pl_relative_path plan = gp_relative gp" using res by simp
  note W = resolve_write_target [OF res can]
  note C = crash_disk_target [OF crash W(1) refl W(3), THEN conjunct1]
  note R = resolve_touched [OF res can C]
  note rt = reconcile_touched [OF res can C rel refl, of env]
  obtain parts where "gp_absolute gp = wg_workspace_root (ft_guard ft) @ parts"
    using res can unfolding resolve_for_write_def by (rule guard_resolve_Inr) simp
  then have can': "canonical (dk_nodes d') (wg_workspace_root (ft_guard ft))"
    using R(2) by (auto simp: canonical_def)
  from crash_reconcile [OF plan res can crash] show ?thesis
  proof
    assume c: "reconcile env ft plan (dk_nodes d') = Inr RD_COMPLETED"
    then obtain m x where "dk_nodes d' (gp_absolute gp) = Some (FileNode m x)" "sha256 env x = sha256 env content"
      using sha P(4) unfolding rt by (auto split: option.splits fs_node.splits if_splits)
    moreover have "execute_plan env os ft plan token' id id d' = (Inr (receipt_of plan True), d')"
      by (simp add: execute_plan_def rel R(1) c Let_def)
    ultimately show ?thesis by blast
  next
    assume c: "reconcile env ft plan (dk_nodes d') = Inr RD_RETRY_SAFE"
    from execute_retry_safe [of d' ft plan "gp\<lparr>gp_exists := dk_nodes d' (gp_absolute gp) \<noteq> None\<rparr>" env token' os]
    show ?thesis using R(1) rel can' c par tmp P(3,4) by fastforce
  qed
qed

end
