(* ===== verification/Prompt.thy ===== *)
theory Prompt
  imports File_Tools Lifecycle
begin

text \<open>
  The prompt working set (\<^verbatim>\<open>runtime/prompt_working_set.py\<close>): the last transcript entries of a run,
  each derived from one durable event, with texts read from blobs or taken from a cached
  candidate that is bound to the same events. Receipt digests are ASCII text, so their
  JSON form is that of \<^const>\<open>json_string\<close>.
\<close>

definition PROMPT_RECENT_EVENT_LIMIT :: int where
  "PROMPT_RECENT_EVENT_LIMIT = 64"

definition PROMPT_TRANSCRIPT_ENTRY_LIMIT :: int where
  "PROMPT_TRANSCRIPT_ENTRY_LIMIT = 12"

section \<open>Text\<close>

definition three_byte_ok :: "nat \<Rightarrow> nat \<Rightarrow> bool" where
  "three_byte_ok a b \<longleftrightarrow> cont_byte b \<and> (a = 224 \<longrightarrow> 160 \<le> b) \<and> (a = 237 \<longrightarrow> b \<le> 159)"

definition four_byte_ok :: "nat \<Rightarrow> nat \<Rightarrow> bool" where
  "four_byte_ok a b \<longleftrightarrow> cont_byte b \<and> (a = 240 \<longrightarrow> 144 \<le> b) \<and> (a = 244 \<longrightarrow> b \<le> 143)"

definition REPLACEMENT :: "nat list" where
  "REPLACEMENT = [239, 191, 189]"

text \<open>\<^verbatim>\<open>bytes.decode("utf-8", errors="replace")\<close>: every maximal ill-formed prefix becomes U+FFFD.\<close>

fun utf8_replace :: "nat list \<Rightarrow> nat list" where
  "utf8_replace [] = []"
| "utf8_replace (a # s) =
     (if a < 128 then a # utf8_replace s
      else if 194 \<le> a \<and> a \<le> 223 then
        (case s of
           b # s1 \<Rightarrow> if cont_byte b then a # b # utf8_replace s1 else REPLACEMENT @ utf8_replace s
         | [] \<Rightarrow> REPLACEMENT)
      else if 224 \<le> a \<and> a \<le> 239 then
        (case s of
           b # s1 \<Rightarrow>
             if \<not> three_byte_ok a b then REPLACEMENT @ utf8_replace s
             else (case s1 of
                 c # s2 \<Rightarrow> if cont_byte c then a # b # c # utf8_replace s2 else REPLACEMENT @ utf8_replace s1
               | [] \<Rightarrow> REPLACEMENT)
         | [] \<Rightarrow> REPLACEMENT)
      else if 240 \<le> a \<and> a \<le> 244 then
        (case s of
           b # s1 \<Rightarrow>
             if \<not> four_byte_ok a b then REPLACEMENT @ utf8_replace s
             else (case s1 of
                 c # s2 \<Rightarrow>
                   if \<not> cont_byte c then REPLACEMENT @ utf8_replace s1
                   else (case s2 of
                       e # s3 \<Rightarrow> if cont_byte e then a # b # c # e # utf8_replace s3
                                 else REPLACEMENT @ utf8_replace s2
                     | [] \<Rightarrow> REPLACEMENT)
               | [] \<Rightarrow> REPLACEMENT)
         | [] \<Rightarrow> REPLACEMENT)
      else REPLACEMENT @ utf8_replace s)"

definition decode_replace :: "string \<Rightarrow> string" where
  "decode_replace s = map char_of (utf8_replace (map of_char s))"

definition sha256_text :: "string \<Rightarrow> bool" where
  "sha256_text s \<longleftrightarrow> length s = 64 \<and>
     list_all (\<lambda>c. let n = (of_char c :: nat) in 48 \<le> n \<and> n \<le> 57 \<or> 97 \<le> n \<and> n \<le> 102) s"

text \<open>JSON as pydantic writes it: compact, fields in the order of the class.\<close>

fun model_json :: "json \<Rightarrow> string" where
  "model_json (JObj kvs) =
     CHR ''{'' # comma_join (map (\<lambda>kv. json_string (fst kv) @ CHR '':'' # canonical_json (snd kv)) kvs) @ ''}''"
| "model_json j = canonical_json j"

section \<open>Entries and working sets\<close>

datatype prompt_role = PR_assistant | PR_tool | PR_approval

fun prompt_role_value :: "prompt_role \<Rightarrow> string" where
  "prompt_role_value PR_assistant = ''assistant''"
| "prompt_role_value PR_tool = ''tool''"
| "prompt_role_value PR_approval = ''approval''"

record prompt_entry =
  pe_event_id :: string
  pe_seq :: int
  pe_event_type :: event_type
  pe_role :: prompt_role
  pe_text :: string
  pe_source_blob_sha256 :: "string option"

definition prompt_entry_new :: "prompt_entry \<Rightarrow> prompt_entry result" where
  "prompt_entry_new e =
     (if pe_event_id e = [] then Inl ValueError
      else if pe_seq e < 1 then Inl ValueError
      else if (case pe_source_blob_sha256 e of None \<Rightarrow> False | Some s \<Rightarrow> \<not> sha256_text s) then Inl ValueError
      else Inr e)"

definition rendered_line :: "prompt_entry \<Rightarrow> string" where
  "rendered_line e = prompt_role_value (pe_role e) @ '': '' @ pe_text e"

record prompt_working_set =
  pw_run_id :: string
  pw_user_message :: string
  pw_entries :: "prompt_entry list"

definition prompt_working_set_new :: "prompt_working_set \<Rightarrow> prompt_working_set result" where
  "prompt_working_set_new w =
     (if pw_run_id w = [] \<or> char_of (0 :: nat) \<in> set (pw_run_id w) then Inl ValueError
      else if int (length (pw_entries w)) > PROMPT_TRANSCRIPT_ENTRY_LIMIT then Inl ValueError
      else if list_ex (\<lambda>(p, c). pe_seq c \<le> pe_seq p) (zip (pw_entries w) (tl (pw_entries w))) then Inl ValueError
      else Inr w)"

section \<open>Building\<close>

definition validate_limits :: "int \<Rightarrow> int \<Rightarrow> unit result" where
  "validate_limits event_limit transcript_limit =
     (if \<not> (1 \<le> event_limit \<and> event_limit \<le> 10000) then Inl ValueError
      else if \<not> (1 \<le> transcript_limit \<and> transcript_limit \<le> PROMPT_TRANSCRIPT_ENTRY_LIMIT) then Inl ValueError
      else if transcript_limit > event_limit then Inl ValueError
      else Inr ())"

fun validate_window_loop :: "string \<Rightarrow> bool \<Rightarrow> int option \<Rightarrow> event_envelope list \<Rightarrow> unit result" where
  "validate_window_loop run_id contiguous prev [] = Inr ()"
| "validate_window_loop run_id contiguous prev (e # es) =
     (if e_run_id e \<noteq> Some run_id then Inl PromptWorkingSetIntegrityError
      else if (case prev of None \<Rightarrow> False | Some p \<Rightarrow> e_seq e \<le> p) then Inl PromptWorkingSetIntegrityError
      else if (case prev of None \<Rightarrow> False | Some p \<Rightarrow> contiguous \<and> e_seq e \<noteq> p + 1)
      then Inl PromptWorkingSetIntegrityError
      else validate_window_loop run_id contiguous (Some (e_seq e)) es)"

definition validate_event_window ::
  "event_envelope list \<Rightarrow> string \<Rightarrow> int option \<Rightarrow> int \<Rightarrow> bool \<Rightarrow> unit result" where
  "validate_event_window es run_id expected_through_seq event_limit contiguous =
     bindE (validate_window_loop run_id contiguous None es) (\<lambda>_.
     case expected_through_seq of
       None \<Rightarrow> Inr ()
     | Some x \<Rightarrow>
         if es = [] \<or> e_seq (last es) \<noteq> x then Inl PromptWorkingSetIntegrityError
         else if contiguous \<and> int (length es) = event_limit \<and> e_seq (hd es) \<noteq> x - event_limit + 1
         then Inl PromptWorkingSetIntegrityError
         else Inr ())"

fun prompt_relevant :: "payload \<Rightarrow> bool" where
  "prompt_relevant (ModelResponseReceivedPayload a b c d) = True"
| "prompt_relevant (ToolExecutionSucceededPayload a b c d e) = True"
| "prompt_relevant (ToolExecutionFailedPayload a b c d) = True"
| "prompt_relevant (ToolExecutionUncertainPayload a b c) = True"
| "prompt_relevant (ModelOutputRejectedPayload a b) = True"
| "prompt_relevant (ApprovalDecidedPayload a b c d e) = True"
| "prompt_relevant _ = False"

text \<open>\<^verbatim>\<open>payload.output_blob_sha256\<close> as a condition: neither \<^verbatim>\<open>None\<close> nor empty.\<close>

definition truthy :: "string option \<Rightarrow> bool" where
  "truthy s \<longleftrightarrow> s \<noteq> None \<and> s \<noteq> Some []"

fun entry_contract :: "payload \<Rightarrow> (prompt_role \<times> string option \<times> string option) result" where
  "entry_contract (ModelResponseReceivedPayload call sha i out) = Inr (PR_assistant, Some sha, None)"
| "entry_contract (ToolExecutionSucceededPayload tc att rcpt sha tr) =
     Inr (PR_tool, sha, if truthy sha then None
       else Some (''{'' @ json_string ''receipt'' @ '': '' @ json_string rcpt @ ''}''))"
| "entry_contract (ToolExecutionFailedPayload tc att ec re) =
     Inr (PR_tool, None, Some (model_json (payload_dump (ToolExecutionFailedPayload tc att ec re))))"
| "entry_contract (ToolExecutionUncertainPayload tc att ev) =
     Inr (PR_tool, None, Some (model_json (payload_dump (ToolExecutionUncertainPayload tc att ev))))"
| "entry_contract (ModelOutputRejectedPayload ev reason) =
     Inr (PR_tool, None, Some (''the previous model tool call was rejected; '' @ reason))"
| "entry_contract (ApprovalDecidedPayload a tc fp decision ac) = Inr (PR_approval, None, Some decision)"
| "entry_contract _ = Inl PromptWorkingSetIntegrityError"

definition validate_text_media_type :: "string \<Rightarrow> unit result" where
  "validate_text_media_type value =
     (if blank value then Inl PromptWorkingSetIntegrityError
      else
        let base = map ascii_lower (py_strip is_space (takeWhile (\<lambda>c. c \<noteq> CHR '';'') value)) in
        if prefix ''text/'' base \<or> base = ''application/json'' \<or> (prefix ''application/'' base \<and> suffix ''+json'' base)
        then Inr () else Inl PromptWorkingSetIntegrityError)"

definition blob_bytes :: "env \<Rightarrow> db \<Rightarrow> string \<Rightarrow> string result" where
  "blob_bytes env d sha =
     (if \<not> sha256_text sha then Inl PromptWorkingSetIntegrityError
      else
        bindE (get_blob env d sha) (\<lambda>blob.
        if o_sha256 blob \<noteq> sha then Inl PromptWorkingSetIntegrityError
        else if o_byte_length blob \<noteq> int (length (o_content blob)) then Inl PromptWorkingSetIntegrityError
        else
          bindE (validate_text_media_type (o_media_type blob)) (\<lambda>_.
          if sha256 env (o_content blob) \<noteq> sha then Inl PromptWorkingSetIntegrityError
          else Inr (o_content blob))))"

definition hydrate_text :: "env \<Rightarrow> db \<Rightarrow> payload \<Rightarrow> string option \<Rightarrow> string result" where
  "hydrate_text env d payload inline_text = (case payload of
       ModelResponseReceivedPayload call sha i out \<Rightarrow>
         bindE (blob_bytes env d sha) (\<lambda>c. if valid_utf8 c then Inr c else Inl UnicodeDecodeError)
     | ToolExecutionSucceededPayload tc att rcpt sha tr \<Rightarrow>
         (if truthy sha then bindE (blob_bytes env d (the sha)) (\<lambda>c. Inr (decode_replace c))
          else (case inline_text of None \<Rightarrow> Inl PromptWorkingSetIntegrityError | Some t \<Rightarrow> Inr t))
     | _ \<Rightarrow> (case inline_text of None \<Rightarrow> Inl PromptWorkingSetIntegrityError | Some t \<Rightarrow> Inr t))"

definition hydrate_entry :: "env \<Rightarrow> db \<Rightarrow> event_envelope \<Rightarrow> prompt_entry result" where
  "hydrate_entry env d e =
     bindE (entry_contract (e_payload e)) (\<lambda>(role, source, inline_text).
     bindE (hydrate_text env d (e_payload e) inline_text) (\<lambda>text.
     prompt_entry_new \<lparr>pe_event_id = e_event_id e, pe_seq = e_seq e,
       pe_event_type = payload_event_type (e_payload e), pe_role = role, pe_text = text,
       pe_source_blob_sha256 = source\<rparr>))"

type_synonym candidate_key = "string \<times> int \<times> event_type \<times> string option"

text \<open>The dict of a candidate's entries; of equal keys the last one wins.\<close>

definition candidate_entries :: "prompt_working_set option \<Rightarrow> (candidate_key \<times> prompt_entry) list" where
  "candidate_entries candidate = (case candidate of
       None \<Rightarrow> []
     | Some w \<Rightarrow> rev (map (\<lambda>e. ((pe_event_id e, pe_seq e, pe_event_type e, pe_source_blob_sha256 e), e)) (pw_entries w)))"

definition reuse_or_hydrate_entry ::
  "env \<Rightarrow> db \<Rightarrow> (candidate_key \<times> prompt_entry) list \<Rightarrow> event_envelope \<Rightarrow> prompt_entry result" where
  "reuse_or_hydrate_entry env d candidates e =
     bindE (entry_contract (e_payload e)) (\<lambda>(role, blob_sha256, inline_text).
     case map_of candidates (e_event_id e, e_seq e, payload_event_type (e_payload e), blob_sha256) of
       None \<Rightarrow> hydrate_entry env d e
     | Some c \<Rightarrow>
         if pe_role c = role \<and> (case inline_text of None \<Rightarrow> True | Some t \<Rightarrow> pe_text c = t)
         then Inr c else hydrate_entry env d e)"

definition last_n :: "nat \<Rightarrow> 'a list \<Rightarrow> 'a list" where
  "last_n n xs = drop (length xs - n) xs"

definition build_authoritative_prompt_working_set ::
  "env \<Rightarrow> db \<Rightarrow> string \<Rightarrow> int option \<Rightarrow> prompt_working_set option \<Rightarrow> int \<Rightarrow> int \<Rightarrow> bool
     \<Rightarrow> prompt_working_set result" where
  "build_authoritative_prompt_working_set env d run_id expected_through_seq cached_candidate event_limit transcript_limit contiguous =
     (if run_id = [] \<or> char_of (0 :: nat) \<in> set run_id then Inl ValueError
      else
        bindE (validate_limits event_limit transcript_limit) (\<lambda>_.
        if (case expected_through_seq of None \<Rightarrow> False | Some x \<Rightarrow> x < 1) then Inl ValueError
        else
          bindE (load_recent_run_events env d run_id event_limit) (\<lambda>events.
          if int (length events) > event_limit then Inl PromptWorkingSetIntegrityError
          else
            bindE (validate_event_window events run_id expected_through_seq event_limit contiguous) (\<lambda>_.
            let selected = last_n (nat transcript_limit) (filter (\<lambda>e. prompt_relevant (e_payload e)) events);
                usable = (case cached_candidate of
                   None \<Rightarrow> None | Some w \<Rightarrow> if pw_run_id w = run_id then Some w else None) in
            bindE (mapE (reuse_or_hydrate_entry env d (candidate_entries usable)) selected) (\<lambda>entries.
            bindE (case usable of None \<Rightarrow> get_run_user_message env d run_id
                   | Some w \<Rightarrow> Inr (pw_user_message w)) (\<lambda>user_message.
            prompt_working_set_new \<lparr>pw_run_id = run_id, pw_user_message = user_message, pw_entries = entries\<rparr>))))))"

section \<open>Rendering\<close>

definition quoted :: "string \<Rightarrow> string" where
  "quoted s = CHR 0x27 # s @ [CHR 0x27]"

definition newline :: char where
  "newline = char_of (10 :: nat)"

definition render_agent_prompt :: "prompt_working_set \<Rightarrow> int \<Rightarrow> bool \<Rightarrow> string result" where
  "render_agent_prompt w step process_tools_enabled =
     (if step < 0 then Inl ValueError
      else
        let process_tool = (if process_tools_enabled
              then '', run_process(argv, cwd='' @ quoted ''.'' @ '', timeout_seconds=30)'' else []);
            process_rule = (if process_tools_enabled
              then '' run_process argv must be a JSON list and is not a shell string.''
              else '' Process execution is disabled; edit files without invoking commands.'');
            transcript = newline_join (map rendered_line (pw_entries w))
        in Inr (''You are ForgeReplay, a coding agent. Return exactly one JSON <tool> call or one '' @
             ''<final> answer. Available tools: list_files(path='' @ quoted ''.'' @ ''), read_file(path), '' @
             ''search(pattern, path='' @ quoted ''.'' @ ''), write_file(path, content), '' @
             ''patch_file(path, old_text, new_text)'' @ process_tool @ ''.'' @ process_rule @
             [newline, newline] @ ''User request:'' @ [newline] @ pw_user_message w @ [newline, newline] @
             ''Step: '' @ int_text step @ [newline] @ ''Transcript:'' @ [newline] @ transcript))"

section \<open>Entries do not depend on the cache\<close>

lemma utf8_replace_valid: "utf8_bytes s \<Longrightarrow> utf8_replace s = s"
proof (induction "length s" arbitrary: s rule: less_induct)
  case less
  show ?case
  proof (cases s)
    case (Cons a t)
    note ok = less.prems [unfolded Cons]
    have shorter: "utf8_replace u = u" if "utf8_bytes u" "length u < length s" for u
      using that(2,1) by (rule less.hyps)
    consider "a < 128" | "194 \<le> a" "a \<le> 223" | "224 \<le> a" "a \<le> 239" | "240 \<le> a" "a \<le> 244"
      using ok by (fastforce split: if_splits)
    then show ?thesis
    proof cases
      case 1
      then show ?thesis using ok shorter [of t] by (simp add: Cons)
    next
      case 2
      then obtain b u where "t = b # u" "cont_byte b" "utf8_bytes u" using ok by (cases t) auto
      then show ?thesis using 2 shorter [of u] by (simp add: Cons)
    next
      case 3
      then obtain b c u where "t = b # c # u" "three_byte_ok a b" "cont_byte c" "utf8_bytes u"
        using ok by (auto simp: three_byte_ok_def split: list.splits)
      then show ?thesis using 3 shorter [of u] by (simp add: Cons)
    next
      case 4
      then obtain b c e u where "t = b # c # e # u" "four_byte_ok a b" "cont_byte c" "cont_byte e" "utf8_bytes u"
        using ok by (auto simp: four_byte_ok_def split: list.splits)
      then show ?thesis using 4 shorter [of u] by (simp add: Cons)
    qed
  qed simp
qed

lemma decode_replace_valid: "valid_utf8 s \<Longrightarrow> decode_replace s = s"
  by (simp add: valid_utf8_def decode_replace_def utf8_replace_valid comp_def)

lemma hydrate_entry_key:
  assumes "hydrate_entry env d e = Inr x"
  shows "pe_event_id x = e_event_id e" "pe_seq x = e_seq e" "pe_event_type x = payload_event_type (e_payload e)"
    "\<exists>inline. entry_contract (e_payload e) = Inr (pe_role x, pe_source_blob_sha256 x, inline)"
  using assms by (auto simp: hydrate_entry_def bindE_eq_Inr prompt_entry_new_def split: prod.splits if_splits)

lemma get_blob_grows:
  assumes "prefix (blobs d0) (blobs d)" "get_blob env d0 sha = Inr b"
  shows "get_blob env d sha = Inr b"
proof -
  obtain bs where "blobs d = blobs d0 @ bs" using assms(1) by (auto simp: prefix_def)
  with assms(2) show ?thesis
    by (auto simp: get_blob_def get_blob_row_def tbl_simps bindE_eq_Inr split: option.splits)
qed

lemma blob_bytes_grows:
  "prefix (blobs d0) (blobs d) \<Longrightarrow> blob_bytes env d0 sha = Inr c \<Longrightarrow> blob_bytes env d sha = Inr c"
  by (auto simp: blob_bytes_def bindE_eq_Inr split: if_splits dest: get_blob_grows)

lemma hydrate_entry_grows:
  assumes "prefix (blobs d0) (blobs d)" "hydrate_entry env d0 e = Inr x"
  shows "hydrate_entry env d e = Inr x"
proof -
  have "hydrate_text env d p i = Inr t" if "hydrate_text env d0 p i = Inr t" for p i t
    using that blob_bytes_grows [OF assms(1)]
    by (cases p) (auto simp: hydrate_text_def bindE_eq_Inr split: if_splits)
  then show ?thesis
    using assms(2) by (auto simp: hydrate_entry_def bindE_eq_Inr split: prod.splits)
qed

text \<open>A candidate is truthful when its entries are hydrations of events of the ledger.\<close>

definition truthful :: "env \<Rightarrow> db \<Rightarrow> event_envelope list \<Rightarrow> prompt_working_set \<Rightarrow> bool" where
  "truthful env d es w \<longleftrightarrow> (\<forall>x \<in> set (pw_entries w). \<exists>e \<in> set es. hydrate_entry env d e = Inr x)"

lemma reuse_truthful:
  assumes "truthful env d es w" "e \<in> set es" "inj_on e_event_id (set es)"
  shows "reuse_or_hydrate_entry env d (candidate_entries (Some w)) e = hydrate_entry env d e"
proof (cases "entry_contract (e_payload e)")
  case (Inr r)
  obtain role sha inline where r: "r = (role, sha, inline)" by (cases r)
  let ?key = "(e_event_id e, e_seq e, payload_event_type (e_payload e), sha)"
  show ?thesis
  proof (cases "map_of (candidate_entries (Some w)) ?key")
    case (Some c)
    then have c: "c \<in> set (pw_entries w)" "pe_event_id c = e_event_id e"
      by (auto simp: candidate_entries_def dest!: map_of_SomeD)
    then obtain e' where e': "e' \<in> set es" "hydrate_entry env d e' = Inr c"
      using assms(1) by (auto simp: truthful_def)
    then have "e' = e" using c(2) hydrate_entry_key(1) [OF e'(2)] assms(2,3) by (simp add: inj_on_def)
    with e' Inr r Some show ?thesis by (simp add: reuse_or_hydrate_entry_def)
  qed (simp add: reuse_or_hydrate_entry_def Inr r)
qed (simp add: reuse_or_hydrate_entry_def hydrate_entry_def)

lemma reuse_nothing: "reuse_or_hydrate_entry env d [] e = hydrate_entry env d e"
  by (cases "entry_contract (e_payload e)") (auto simp: reuse_or_hydrate_entry_def hydrate_entry_def)

lemma mapE_cong: "(\<And>x. x \<in> set xs \<Longrightarrow> f x = g x) \<Longrightarrow> mapE f xs = mapE g xs"
  by (induction xs) simp_all

lemma mapE_result: "mapE f xs = Inr ys \<Longrightarrow> y \<in> set ys \<Longrightarrow> \<exists>x \<in> set xs. f x = Inr y"
  by (induction xs arbitrary: ys) (auto simp: bindE_eq_Inr)

lemma set_last_n: "set (last_n n xs) \<subseteq> set xs"
  by (simp add: last_n_def set_drop_subset)

lemma build_Inr:
  assumes "build_authoritative_prompt_working_set env d k exp cand el trl cont = Inr w"
  obtains events where "load_recent_run_events env d k el = Inr events" "pw_run_id w = k"
    "mapE (reuse_or_hydrate_entry env d (candidate_entries
       (case cand of None \<Rightarrow> None | Some w \<Rightarrow> if pw_run_id w = k then Some w else None)))
       (last_n (nat trl) (filter (\<lambda>e. prompt_relevant (e_payload e)) events)) = Inr (pw_entries w)"
    "prompt_working_set_new w = Inr w"
  using assms
  by (auto simp: build_authoritative_prompt_working_set_def bindE_eq_Inr Let_def prompt_working_set_new_def split: if_splits)

lemma increasing_entries:
  assumes "\<not> list_ex (\<lambda>(p, c). f c \<le> f p) (zip xs (tl xs))"
  shows "sorted_wrt (<) (map f xs :: int list)"
  using assms
proof (induction xs)
  case (Cons x xs)
  show ?case
  proof (cases xs)
    case (Cons y ys)
    with Cons.prems Cons.IH have "f x < f y" "sorted_wrt (<) (map f xs)" by auto
    with Cons show ?thesis by (auto dest: less_trans)
  qed simp
qed simp

lemma build_bounds:
  assumes "build_authoritative_prompt_working_set env d k exp cand el trl cont = Inr w"
  shows "int (length (pw_entries w)) \<le> trl" "sorted_wrt (<) (map pe_seq (pw_entries w))"
proof -
  have trl: "1 \<le> trl"
    using assms by (auto simp: build_authoritative_prompt_working_set_def validate_limits_def bindE_eq_Inr split: if_splits)
  from assms show "int (length (pw_entries w)) \<le> trl"
    by (rule build_Inr) (drule mapE_length, use trl in \<open>simp add: last_n_def\<close>)
  from assms show "sorted_wrt (<) (map pe_seq (pw_entries w))"
    by (rule build_Inr) (auto intro!: increasing_entries simp: prompt_working_set_new_def split: if_splits)
qed

section \<open>A working set as a cache\<close>

definition all_events :: "env \<Rightarrow> db \<Rightarrow> event_envelope list" where
  "all_events env d = map (decode env) (events d)"

lemma all_events_inj: "ledger_ok env d \<Longrightarrow> inj_on e_event_id (set (all_events env d))"
proof -
  assume L: "ledger_ok env d"
  have "e_event_id (decode env v) = v_event_id v" if "v \<in> set (events d)" for v
  proof -
    from L that obtain e where e: "event_wf e" "v = row_of_event env e" unfolding ledger_ok_def by blast
    then show ?thesis by (simp add: decode_row_of_event)
  qed
  moreover have "inj_on v_event_id (set (events d))" using L by (simp add: ledger_ok_def distinct_map)
  ultimately show ?thesis unfolding all_events_def set_map inj_on_def by fastforce
qed

lemma load_recent_events_all:
  assumes "load_recent_run_events env d k n = Inr es" "e \<in> set es"
  shows "e \<in> set (all_events env d)"
proof -
  from assms(1) have "mapE (event_from_row env) (rev (take (nat n)
      (rev (sort_key v_seq (filter (\<lambda>r. v_run_id r = Some k) (events d)))))) = Inr es"
    by (auto simp: load_recent_run_events_def bindE_eq_Inr split: if_splits)
  from mapE_result [OF this assms(2)] obtain v where "v \<in> set (events d)" "event_from_row env v = Inr e"
    by (auto dest!: in_set_takeD)
  then show ?thesis unfolding all_events_def by (auto simp: decode_def intro!: image_eqI [of e])
qed

lemma built_truthful:
  assumes "build_authoritative_prompt_working_set env d0 k exp None el trl cont = Inr w"
    and "prefix (events d0) (events d)" "prefix (blobs d0) (blobs d)"
  shows "truthful env d (all_events env d) w"
proof -
  obtain es where es: "load_recent_run_events env d0 k el = Inr es"
    "mapE (hydrate_entry env d0) (last_n (nat trl) (filter (\<lambda>e. prompt_relevant (e_payload e)) es)) = Inr (pw_entries w)"
    using assms(1) by (rule build_Inr) (simp add: candidate_entries_def reuse_nothing [abs_def])
  have "\<exists>e \<in> set (all_events env d). hydrate_entry env d e = Inr x" if "x \<in> set (pw_entries w)" for x
  proof -
    from mapE_result [OF es(2) that] obtain e where e: "e \<in> set es" "hydrate_entry env d0 e = Inr x"
      using set_last_n [of "nat trl" "filter (\<lambda>e. prompt_relevant (e_payload e)) es"] by auto
    have "e \<in> set (all_events env d)"
      using load_recent_events_all [OF es(1) e(1)] set_mono_prefix [OF assms(2)] by (auto simp: all_events_def)
    with hydrate_entry_grows [OF assms(3) e(2)] show ?thesis by blast
  qed
  then show ?thesis by (simp add: truthful_def)
qed

definition run_id_ok :: "string \<Rightarrow> bool" where
  "run_id_ok k \<longleftrightarrow> k \<noteq> [] \<and> char_of (0 :: nat) \<notin> set k"

lemma build_with_cache:
  assumes "truthful env d (all_events env d) w0" "pw_run_id w0 = k" "ledger_ok env d"
    and "build_authoritative_prompt_working_set env d k exp None el trl cont = Inr w"
  shows "build_authoritative_prompt_working_set env d k exp (Some w0) el trl cont = Inr (w\<lparr>pw_user_message := pw_user_message w0\<rparr>)"
proof -
  have cache: "mapE (reuse_or_hydrate_entry env d (candidate_entries (Some w0)))
      (last_n n (filter (\<lambda>e. prompt_relevant (e_payload e)) es)) =
    mapE (hydrate_entry env d) (last_n n (filter (\<lambda>e. prompt_relevant (e_payload e)) es))"
    if "load_recent_run_events env d k el = Inr es" for es n
  proof (rule mapE_cong)
    fix e assume "e \<in> set (last_n n (filter (\<lambda>e. prompt_relevant (e_payload e)) es))"
    then have "e \<in> set es" using set_last_n by fastforce
    with that have "e \<in> set (all_events env d)" by (rule load_recent_events_all)
    then show "reuse_or_hydrate_entry env d (candidate_entries (Some w0)) e = hydrate_entry env d e"
      by (rule reuse_truthful [OF assms(1) _ all_events_inj [OF assms(3)]])
  qed
  have none: "reuse_or_hydrate_entry env d (candidate_entries None) = hydrate_entry env d"
    by (rule ext) (simp add: candidate_entries_def reuse_nothing)
  from assms(4) obtain es where
    run: "run_id_ok k" "validate_limits el trl = Inr ()" "\<not> (case exp of None \<Rightarrow> False | Some x \<Rightarrow> x < 1)" and
    es: "load_recent_run_events env d k el = Inr es" "\<not> el < int (length es)"
      "validate_event_window es k exp el cont = Inr ()" and
    entries: "mapE (hydrate_entry env d)
      (last_n (nat trl) (filter (\<lambda>e. prompt_relevant (e_payload e)) es)) = Inr (pw_entries w)" and
    new: "prompt_working_set_new w = Inr w" "pw_run_id w = k"
    by (auto simp: build_authoritative_prompt_working_set_def bindE_eq_Inr Let_def none prompt_working_set_new_def run_id_ok_def
        split: if_splits)
  have w: "w\<lparr>pw_user_message := u\<rparr> = \<lparr>pw_run_id = k, pw_user_message = u, pw_entries = pw_entries w\<rparr>" for u
    using new(2) by simp
  show ?thesis
    using run es entries new assms(2)
    by (simp add: build_authoritative_prompt_working_set_def cache [OF es(1)] w prompt_working_set_new_def run_id_ok_def
        split: if_splits)
qed

end
