(* ===== verification/Json_Loads.thy ===== *)
theory Json_Loads
  imports Prompt Tool_Calls
begin

text \<open>
  \<^verbatim>\<open>json.loads\<close> as the runtime uses it, on model output and on stored tool arguments: a
  recursive-descent reader over UTF-8 bytes. \<open>fl\<close> gives the \<^verbatim>\<open>repr\<close> of the float a literal
  denotes (\<^verbatim>\<open>inf\<close> where it overflows). Every failure is a \<^verbatim>\<open>JSONDecodeError\<close>, which is a
  \<^const>\<open>ValueError\<close>. A lone surrogate escape is kept as its three bytes.
\<close>

definition json_space :: "char \<Rightarrow> bool" where
  "json_space c \<longleftrightarrow> of_char c \<in> {9, 10, 13, 32 :: nat}"

definition skip_ws :: "string \<Rightarrow> string" where
  "skip_ws s = dropWhile json_space s"

definition json_digit :: "char \<Rightarrow> bool" where
  "json_digit c \<longleftrightarrow> (let n = (of_char c :: nat) in 48 \<le> n \<and> n \<le> 57)"

definition hex_value :: "char \<Rightarrow> nat option" where
  "hex_value c = (let n = (of_char c :: nat) in
     if 48 \<le> n \<and> n \<le> 57 then Some (n - 48)
     else if 97 \<le> n \<and> n \<le> 102 then Some (n - 87)
     else if 65 \<le> n \<and> n \<le> 70 then Some (n - 55)
     else None)"

fun hex4 :: "string \<Rightarrow> (nat \<times> string) option" where
  "hex4 (a # b # c # d # s) = (case (hex_value a, hex_value b, hex_value c, hex_value d) of
       (Some w, Some x, Some y, Some z) \<Rightarrow> Some (((w * 16 + x) * 16 + y) * 16 + z, s)
     | _ \<Rightarrow> None)"
| "hex4 _ = None"

definition utf8_encode :: "nat \<Rightarrow> string" where
  "utf8_encode u =
     (if u < 128 then [char_of u]
      else if u < 2048 then [char_of (192 + u div 64), char_of (128 + u mod 64)]
      else if u < 65536 then
        [char_of (224 + u div 4096), char_of (128 + u div 64 mod 64), char_of (128 + u mod 64)]
      else [char_of (240 + u div 262144), char_of (128 + u div 4096 mod 64),
            char_of (128 + u div 64 mod 64), char_of (128 + u mod 64)])"

definition high_surrogate :: "nat \<Rightarrow> bool" where
  "high_surrogate u \<longleftrightarrow> 55296 \<le> u \<and> u \<le> 56319"

definition low_surrogate :: "nat \<Rightarrow> bool" where
  "low_surrogate u \<longleftrightarrow> 56320 \<le> u \<and> u \<le> 57343"

text \<open>What follows \<^verbatim>\<open>\u\<close>: one code unit, or a surrogate pair.\<close>

definition unicode_escape :: "string \<Rightarrow> (string \<times> string) option" where
  "unicode_escape s = (case hex4 s of
       None \<Rightarrow> None
     | Some (u, r) \<Rightarrow>
         (case r of
            x # y # r1 \<Rightarrow>
              if high_surrogate u \<and> of_char x = (92 :: nat) \<and> y = CHR ''u'' then
                (case hex4 r1 of
                   Some (v, r2) \<Rightarrow>
                     if low_surrogate v
                     then Some (utf8_encode (65536 + (u - 55296) * 1024 + (v - 56320)), r2)
                     else Some (utf8_encode u, r)
                 | None \<Rightarrow> Some (utf8_encode u, r))
              else Some (utf8_encode u, r)
          | _ \<Rightarrow> Some (utf8_encode u, r)))"

definition simple_escape :: "char \<Rightarrow> char option" where
  "simple_escape c = (let n = (of_char c :: nat) in
     if n = 34 \<or> n = 92 \<or> n = 47 then Some c
     else if c = CHR ''n'' then Some (char_of (10 :: nat))
     else if c = CHR ''r'' then Some (char_of (13 :: nat))
     else if c = CHR ''t'' then Some (char_of (9 :: nat))
     else if c = CHR ''f'' then Some (char_of (12 :: nat))
     else if c = CHR ''b'' then Some (char_of (8 :: nat))
     else None)"

lemma hex4_shrinks: "hex4 s = Some (u, r) \<Longrightarrow> length r < length s"
  by (cases s rule: hex4.cases) (auto split: option.splits)

lemma unicode_escape_shrinks: "unicode_escape s = Some (t, r) \<Longrightarrow> length r < length s"
  by (auto simp: unicode_escape_def split: option.splits list.splits if_splits dest!: hex4_shrinks)

text \<open>The rest of a string literal after its opening quotation mark.\<close>

function scan_string :: "string \<Rightarrow> (string \<times> string) result" where
  "scan_string s = (case s of
       [] \<Rightarrow> Inl ValueError
     | c # r \<Rightarrow>
         let n = (of_char c :: nat) in
         if n = 34 then Inr ([], r)
         else if n = 92 then
           (case r of
              [] \<Rightarrow> Inl ValueError
            | e # r1 \<Rightarrow>
                if e = CHR ''u'' then
                  (case unicode_escape r1 of
                     None \<Rightarrow> Inl ValueError
                   | Some (t, r2) \<Rightarrow> bindE (scan_string r2) (\<lambda>(u, r3). Inr (t @ u, r3)))
                else (case simple_escape e of
                    None \<Rightarrow> Inl ValueError
                  | Some x \<Rightarrow> bindE (scan_string r1) (\<lambda>(u, r3). Inr (x # u, r3))))
         else if n < 32 then Inl ValueError
         else bindE (scan_string r) (\<lambda>(u, r3). Inr (c # u, r3)))"
  by pat_completeness auto

termination
  by (relation "measure length") (auto dest!: unicode_escape_shrinks)

declare scan_string.simps [simp del]

section \<open>Numbers\<close>

definition read_nat :: "string \<Rightarrow> nat" where
  "read_nat s = foldl (\<lambda>n c. n * 10 + (of_char c - 48)) 0 s"

text \<open>An optional fraction or exponent: its text and what follows.\<close>

definition scan_frac :: "string \<Rightarrow> string \<times> string" where
  "scan_frac s = (case s of
       c # r \<Rightarrow>
         if c = CHR ''.'' \<and> takeWhile json_digit r \<noteq> [] then (c # takeWhile json_digit r, dropWhile json_digit r)
         else ([], s)
     | [] \<Rightarrow> ([], s))"

definition scan_exp :: "string \<Rightarrow> string \<times> string" where
  "scan_exp s = (case s of
       c # r \<Rightarrow>
         if c = CHR ''e'' \<or> c = CHR ''E'' then
           (let (sg, r1) = (case r of x # y \<Rightarrow> if x = CHR ''+'' \<or> x = CHR ''-'' then ([x], y) else ([], r) | [] \<Rightarrow> ([], r))
            in if takeWhile json_digit r1 \<noteq> [] then (c # sg @ takeWhile json_digit r1, dropWhile json_digit r1) else ([], s))
         else ([], s)
     | [] \<Rightarrow> ([], s))"

text \<open>CPython refuses to convert more than 4300 digits.\<close>

definition scan_sign :: "string \<Rightarrow> bool \<times> string" where
  "scan_sign s = (case s of x # y \<Rightarrow> if x = CHR ''-'' then (True, y) else (False, s) | [] \<Rightarrow> (False, s))"

definition int_part :: "string \<Rightarrow> string" where
  "int_part ds = (if ds \<noteq> [] \<and> hd ds = CHR ''0'' then [CHR ''0''] else ds)"

definition scan_number :: "(string \<Rightarrow> string) \<Rightarrow> string \<Rightarrow> (json \<times> string) result" where
  "scan_number fl s =
     (let (neg, r) = scan_sign s;
          ip = int_part (takeWhile json_digit r);
          r1 = drop (length ip) r;
          (fr, r2) = scan_frac r1;
          (ex, r3) = scan_exp r2 in
      if ip = [] then Inl ValueError
      else if fr = [] \<and> ex = [] then
        (if length ip > 4300 then Inl ValueError
         else Inr (JInt (if neg then - int (read_nat ip) else int (read_nat ip)), r1))
      else Inr (JFloat (fl ((if neg then ''-'' else []) @ ip @ fr @ ex)), r3))"

section \<open>Values\<close>

definition scan_literal :: "(string \<Rightarrow> string) \<Rightarrow> string \<Rightarrow> (json \<times> string) result" where
  "scan_literal fl s =
     (if take 4 s = ''null'' then Inr (JNull, drop 4 s)
      else if take 4 s = ''true'' then Inr (JBool True, drop 4 s)
      else if take 5 s = ''false'' then Inr (JBool False, drop 5 s)
      else if take 3 s = ''NaN'' then Inr (JFloat ''nan'', drop 3 s)
      else if take 8 s = ''Infinity'' then Inr (JFloat ''inf'', drop 8 s)
      else if take 9 s = ''-Infinity'' then Inr (JFloat ''-inf'', drop 9 s)
      else scan_number fl s)"

text \<open>Items into a dict: a repeated key keeps its place and takes the last value.\<close>

definition dict_of :: "(string \<times> json) list \<Rightarrow> (string \<times> json) list" where
  "dict_of kvs = foldl (\<lambda>d (k, v). items_put k v d) [] kvs"

text \<open>
  The number is fuel: one unit per nested call. A value of \<open>n\<close> characters needs at most
  \<open>2 * n + 1\<close> (\<open>json_fuel\<close> below).
\<close>

fun json_value :: "(string \<Rightarrow> string) \<Rightarrow> nat \<Rightarrow> string \<Rightarrow> (json \<times> string) result"
  and json_elements :: "(string \<Rightarrow> string) \<Rightarrow> nat \<Rightarrow> string \<Rightarrow> (json list \<times> string) result"
  and json_members :: "(string \<Rightarrow> string) \<Rightarrow> nat \<Rightarrow> string \<Rightarrow> ((string \<times> json) list \<times> string) result" where
  "json_value fl 0 s = Inl ValueError"
| "json_value fl (Suc n) s = (case s of
       [] \<Rightarrow> Inl ValueError
     | c # r \<Rightarrow>
         if of_char c = (34 :: nat) then bindE (scan_string r) (\<lambda>(t, r1). Inr (JStr t, r1))
         else if c = CHR ''{'' then
           (case skip_ws r of
              [] \<Rightarrow> Inl ValueError
            | x # r1 \<Rightarrow>
                if x = CHR ''}'' then Inr (JObj [], r1)
                else bindE (json_members fl n (x # r1)) (\<lambda>(kvs, r2). Inr (JObj (dict_of kvs), r2)))
         else if c = CHR ''['' then
           (case skip_ws r of
              [] \<Rightarrow> Inl ValueError
            | x # r1 \<Rightarrow>
                if x = CHR '']'' then Inr (JArr [], r1)
                else bindE (json_elements fl n (x # r1)) (\<lambda>(vs, r2). Inr (JArr vs, r2)))
         else scan_literal fl s)"
| "json_elements fl 0 s = Inl ValueError"
| "json_elements fl (Suc n) s =
     bindE (json_value fl n s) (\<lambda>(v, r).
     case skip_ws r of
       [] \<Rightarrow> Inl ValueError
     | x # r1 \<Rightarrow>
         if x = CHR '']'' then Inr ([v], r1)
         else if x = CHR '','' then
           bindE (json_elements fl n (skip_ws r1)) (\<lambda>(vs, r2). Inr (v # vs, r2))
         else Inl ValueError)"
| "json_members fl 0 s = Inl ValueError"
| "json_members fl (Suc n) s = (case s of
       [] \<Rightarrow> Inl ValueError
     | q # r \<Rightarrow>
         if of_char q \<noteq> (34 :: nat) then Inl ValueError
         else
           bindE (scan_string r) (\<lambda>(k, r1).
           case skip_ws r1 of
             [] \<Rightarrow> Inl ValueError
           | x # r2 \<Rightarrow>
               if x \<noteq> CHR '':'' then Inl ValueError
               else
                 bindE (json_value fl n (skip_ws r2)) (\<lambda>(v, r3).
                 case skip_ws r3 of
                   [] \<Rightarrow> Inl ValueError
                 | y # r4 \<Rightarrow>
                     if y = CHR ''}'' then Inr ([(k, v)], r4)
                     else if y = CHR '','' then
                       bindE (json_members fl n (skip_ws r4)) (\<lambda>(kvs, r5). Inr ((k, v) # kvs, r5))
                     else Inl ValueError)))"

definition json_loads :: "(string \<Rightarrow> string) \<Rightarrow> string \<Rightarrow> json result" where
  "json_loads fl s =
     bindE (json_value fl (2 * length s + 1) (skip_ws s)) (\<lambda>(v, r).
     if skip_ws r = [] then Inr v else Inl ValueError)"

section \<open>The fuel is enough\<close>

lemma skip_ws_length: "length (skip_ws s) \<le> length s"
  by (simp add: skip_ws_def length_dropWhile_le)

lemma skip_ws_Cons: "skip_ws s = x # r \<Longrightarrow> length r < length s"
  using skip_ws_length [of s] by simp

lemma scan_string_shrinks: "scan_string s = Inr (t, r) \<Longrightarrow> length r < length s"
proof (induction "length s" arbitrary: s t r rule: less_induct)
  case less
  show ?case
  proof (cases s)
    case (Cons c q)
    have step: "length r' < length s" if "scan_string q' = Inr (t', r')" "length q' < length s" for q' t' r'
      using less.hyps [OF that(2,1)] that(2) by simp
    show ?thesis
      using less.prems step [unfolded Cons]
      unfolding Cons
      by (subst (asm) scan_string.simps)
        (fastforce simp: bindE_eq_Inr Let_def split: if_splits list.splits option.splits
          dest!: unicode_escape_shrinks)
  qed (use less.prems in \<open>simp add: scan_string.simps [of "[]"]\<close>)
qed

lemma scan_frac_length: "length (snd (scan_frac s)) \<le> length s"
  by (auto simp: scan_frac_def le_SucI length_dropWhile_le split: list.splits)

lemma scan_exp_length: "length (snd (scan_exp s)) \<le> length s"
  by (auto simp: scan_exp_def le_SucI length_dropWhile_le Suc_leI less_Suc_eq_le split: list.splits)

lemma scan_number_shrinks:
  assumes "scan_number fl s = Inr (v, r)"
  shows "length r < length s"
proof -
  let ?q = "snd (scan_sign s)"
  let ?ip = "int_part (takeWhile json_digit ?q)"
  let ?r1 = "drop (length ?ip) ?q"
  have "?ip \<noteq> []" "r = ?r1 \<or> r = snd (scan_exp (snd (scan_frac ?r1)))"
    using assms unfolding scan_number_def Let_def by (auto split: prod.splits if_splits)
  moreover have "length ?ip \<le> length ?q"
    using length_takeWhile_le [of json_digit ?q] by (cases ?q) (auto simp: int_part_def)
  moreover have "length (snd (scan_exp (snd (scan_frac ?r1)))) \<le> length ?r1"
    using scan_exp_length scan_frac_length le_trans by blast
  moreover have "length ?q \<le> length s" by (auto simp: scan_sign_def split: list.splits)
  ultimately show ?thesis by (cases ?ip) auto
qed

lemma scan_literal_shrinks: "scan_literal fl s = Inr (v, r) \<Longrightarrow> length r < length s"
  by (cases s) (auto simp: scan_literal_def split: if_splits dest: scan_number_shrinks)

lemma json_elements_Inr:
  assumes "json_elements fl (Suc n) s = Inr (vs, r)"
  obtains v q x q1 where "json_value fl n s = Inr (v, q)" "skip_ws q = x # q1"
    "r = q1 \<or> (\<exists>us. json_elements fl n (skip_ws q1) = Inr (us, r))"
proof -
  obtain v q where v: "json_value fl n s = Inr (v, q)" using assms by (auto simp: bindE_eq_Inr)
  show ?thesis
  proof (cases "skip_ws q")
    case Nil
    with assms v show ?thesis by simp
  next
    case (Cons x q1)
    have "r = q1 \<or> (\<exists>us. json_elements fl n (skip_ws q1) = Inr (us, r))"
      using assms v Cons by (auto simp: bindE_eq_Inr split: if_splits)
    with v Cons show ?thesis by (rule that)
  qed
qed

lemma json_members_Inr:
  assumes "json_members fl (Suc n) s = Inr (kvs, r)"
  obtains c q k q1 x q2 v q3 y q4 where "s = c # q" "scan_string q = Inr (k, q1)" "skip_ws q1 = x # q2"
    "json_value fl n (skip_ws q2) = Inr (v, q3)" "skip_ws q3 = y # q4"
    "r = q4 \<or> (\<exists>us. json_members fl n (skip_ws q4) = Inr (us, r))"
proof -
  obtain c q where s: "s = c # q" using assms by (cases s) auto
  obtain k q1 where k: "scan_string q = Inr (k, q1)" "of_char c = (34 :: nat)"
    using assms s by (auto simp: bindE_eq_Inr split: if_splits)
  obtain x q2 where x: "skip_ws q1 = x # q2" using assms s k by (cases "skip_ws q1") auto
  obtain v q3 where v: "json_value fl n (skip_ws q2) = Inr (v, q3)" "x = CHR '':''"
    using assms s k x by (auto simp: bindE_eq_Inr split: if_splits)
  obtain y q4 where y: "skip_ws q3 = y # q4" using assms s k x v by (cases "skip_ws q3") auto
  have "r = q4 \<or> (\<exists>us. json_members fl n (skip_ws q4) = Inr (us, r))"
    using assms s k x v y by (auto simp: bindE_eq_Inr split: if_splits)
  with s k(1) x v(1) y show ?thesis by (rule that)
qed

lemma json_shrinks:
  "(\<forall>s v r. json_value fl n s = Inr (v, r) \<longrightarrow> length r < length s) \<and>
   (\<forall>s v r. json_elements fl n s = Inr (v, r) \<longrightarrow> length r < length s) \<and>
   (\<forall>s v r. json_members fl n s = Inr (v, r) \<longrightarrow> length r < length s)"
proof (induction n)
  case (Suc n)
  then have IH: "json_value fl n s = Inr (v, r) \<Longrightarrow> length r < length s"
    "json_elements fl n s = Inr (vs, r) \<Longrightarrow> length r < length s"
    "json_members fl n s = Inr (kvs, r) \<Longrightarrow> length r < length s" for s v r vs kvs
    by blast+
  show ?case
  proof (intro conjI allI impI)
    show "length r < length s" if "json_value fl (Suc n) s = Inr (v, r)" for s v r
    proof (cases s)
      case (Cons c q)
      then show ?thesis
        using that
        by (fastforce simp: bindE_eq_Inr split: if_splits list.splits
            dest!: scan_string_shrinks scan_literal_shrinks IH(2,3) dest: skip_ws_Cons)
    qed (use that in simp)
    show "length r < length s" if "json_elements fl (Suc n) s = Inr (v, r)" for s v r
    proof (rule json_elements_Inr [OF that])
      fix v q x q1
      assume a: "json_value fl n s = Inr (v, q)" "skip_ws q = x # q1"
        "r = q1 \<or> (\<exists>us. json_elements fl n (skip_ws q1) = Inr (us, r))"
      show ?thesis
        using IH(1) [OF a(1)] skip_ws_Cons [OF a(2)] skip_ws_length [of q1] a(3) by (auto dest!: IH(2))
    qed
    show "length r < length s" if "json_members fl (Suc n) s = Inr (v, r)" for s v r
    proof (rule json_members_Inr [OF that])
      fix c q k q1 x q2 v q3 y q4
      assume a: "s = c # q" "scan_string q = Inr (k, q1)" "skip_ws q1 = x # q2"
        "json_value fl n (skip_ws q2) = Inr (v, q3)" "skip_ws q3 = y # q4"
        "r = q4 \<or> (\<exists>us. json_members fl n (skip_ws q4) = Inr (us, r))"
      show ?thesis
        using scan_string_shrinks [OF a(2)] skip_ws_Cons [OF a(3)] IH(1) [OF a(4)] skip_ws_Cons [OF a(5)]
          skip_ws_length [of q2] skip_ws_length [of q4] a(1,6) by (auto dest!: IH(3))
    qed
  qed
qed simp

lemma bindE_cong: "m = m' \<Longrightarrow> (\<And>x. m' = Inr x \<Longrightarrow> f x = g x) \<Longrightarrow> bindE m f = bindE m' g"
  by (cases m') simp_all

text \<open>With one unit for each of two calls per character, more fuel changes nothing.\<close>

lemma json_fuel:
  "(\<forall>s. 2 * length s < n \<longrightarrow> json_value fl (Suc n) s = json_value fl n s) \<and>
   (\<forall>s. 2 * length s + 1 < n \<longrightarrow> json_elements fl (Suc n) s = json_elements fl n s) \<and>
   (\<forall>s. 2 * length s + 1 < n \<longrightarrow> json_members fl (Suc n) s = json_members fl n s)"
proof (induction n)
  case (Suc n)
  then have IH: "2 * length s < n \<Longrightarrow> json_value fl (Suc n) s = json_value fl n s"
    "2 * length s + 1 < n \<Longrightarrow> json_elements fl (Suc n) s = json_elements fl n s"
    "2 * length s + 1 < n \<Longrightarrow> json_members fl (Suc n) s = json_members fl n s" for s
    by blast+
  show ?case
  proof (intro conjI allI impI)
    fix s :: string assume s: "2 * length s < Suc n"
    show "json_value fl (Suc (Suc n)) s = json_value fl (Suc n) s"
    proof (cases s)
      case (Cons c q)
      have "2 * length (x # q1) + 1 < n" if "skip_ws q = x # q1" for x q1
        using skip_ws_length [of q] that s Cons by simp
      then show ?thesis
        by (simp only: Cons json_value.simps(2) list.case)
          (auto split: list.splits simp del: json_elements.simps json_members.simps simp: IH(2,3))
    qed simp
  next
    fix s :: string assume s: "2 * length s + 1 < Suc n"
    have 1: "json_value fl (Suc n) s = json_value fl n s" using s by (intro IH(1)) simp
    have 2: "json_elements fl (Suc n) (skip_ws q1) = json_elements fl n (skip_ws q1)"
      if "json_value fl n s = Inr (v, q)" "skip_ws q = x # q1" for v q x q1
    proof (rule IH(2))
      have "length q < length s" using json_shrinks that(1) by blast
      then show "2 * length (skip_ws q1) + 1 < n"
        using skip_ws_length [of q1] skip_ws_Cons [OF that(2)] s by simp
    qed
    show "json_elements fl (Suc (Suc n)) s = json_elements fl (Suc n) s"
      unfolding json_elements.simps(2) [of fl "Suc n" s] json_elements.simps(2) [of fl n s] 1
      by (rule bindE_cong [OF refl]) (auto simp: 2 split: list.splits simp del: json_elements.simps)
  next
    fix s :: string assume s: "2 * length s + 1 < Suc n"
    have 1: "json_value fl (Suc n) (skip_ws q2) = json_value fl n (skip_ws q2)"
      if "s = c # q" "scan_string q = Inr (k, q1)" "skip_ws q1 = x # q2" for c q k q1 x q2
      using scan_string_shrinks [OF that(2)] skip_ws_Cons [OF that(3)] skip_ws_length [of q2] s that(1)
      by (intro IH(1)) simp
    have 2: "json_members fl (Suc n) (skip_ws q4) = json_members fl n (skip_ws q4)"
      if "s = c # q" "scan_string q = Inr (k, q1)" "skip_ws q1 = x # q2"
        "json_value fl n (skip_ws q2) = Inr (v, q3)" "skip_ws q3 = y # q4" for c q k q1 x q2 v q3 y q4
    proof (rule IH(3))
      have "length q3 < length (skip_ws q2)" using json_shrinks that(4) by blast
      then show "2 * length (skip_ws q4) + 1 < n"
        using scan_string_shrinks [OF that(2)] skip_ws_Cons [OF that(3)] skip_ws_length [of q2]
          skip_ws_Cons [OF that(5)] skip_ws_length [of q4] s that(1) by simp
    qed
    show "json_members fl (Suc (Suc n)) s = json_members fl (Suc n) s"
    proof (cases s)
      case (Cons c q)
      show ?thesis
        unfolding Cons json_members.simps(2) [of fl "Suc n" "c # q"] json_members.simps(2) [of fl n "c # q"] list.case
        by (intro if_cong refl bindE_cong)
          (auto simp: 1 [OF Cons] split: list.splits simp del: json_members.simps json_value.simps
            intro!: bindE_cong, rule 2 [OF Cons])
    qed simp
  qed
qed simp

end
