(* ===== verification/File_Search.thy ===== *)
theory File_Search
  imports Json_Loads
begin

text \<open>
  Listing and searching the workspace (\<^verbatim>\<open>list_files\<close>, \<^verbatim>\<open>search\<close> and \<^verbatim>\<open>_directory\<close> of
  \<^verbatim>\<open>tools/file_tools.py\<close>). The directory walk \<^verbatim>\<open>sorted(root.rglob("*"))\<close> of the operating system
  and the compiled regular expression are arguments.
\<close>

section \<open>Text in characters\<close>

definition starts_char :: "char \<Rightarrow> bool" where
  "starts_char c \<longleftrightarrow> \<not> cont_byte (of_char c)"

definition str_length :: "string \<Rightarrow> nat" where
  "str_length s = length (filter starts_char s)"

text \<open>\<^verbatim>\<open>s[:n]\<close>\<close>

fun take_chars :: "nat \<Rightarrow> string \<Rightarrow> string" where
  "take_chars n [] = []"
| "take_chars n (c # s) =
     (if starts_char c then (case n of 0 \<Rightarrow> [] | Suc m \<Rightarrow> c # take_chars m s)
      else c # take_chars n s)"

text \<open>The length in bytes of a line boundary of \<^verbatim>\<open>str.splitlines\<close> at the start of the text.\<close>

definition line_break :: "nat list \<Rightarrow> nat" where
  "line_break s =
     (if take 2 s = [13, 10] \<or> take 2 s = [194, 133] then 2
      else if take 3 s = [226, 128, 168] \<or> take 3 s = [226, 128, 169] then 3
      else if s \<noteq> [] \<and> hd s \<in> {10, 11, 12, 13, 28, 29, 30} then 1
      else 0)"

function lines_from :: "string \<Rightarrow> string \<Rightarrow> string list" where
  "lines_from cur s = (case s of
       [] \<Rightarrow> if cur = [] then [] else [cur]
     | c # t \<Rightarrow>
         let k = line_break (map of_char s) in
         if k = 0 then lines_from (cur @ [c]) t else cur # lines_from [] (drop k s))"
  by pat_completeness auto

termination
  by (relation "measure (\<lambda>(cur, s). length s)") auto

declare lines_from.simps [simp del]

definition splitlines :: "string \<Rightarrow> string list" where
  "splitlines s = lines_from [] s"

text \<open>\<^verbatim>\<open>json.dumps(value, ensure_ascii=False)\<close>: items in order, a blank after comma and colon.\<close>

fun spaced_join :: "string list \<Rightarrow> string" where
  "spaced_join [] = []"
| "spaced_join [x] = x"
| "spaced_join (x # y # xs) = x @ '', '' @ spaced_join (y # xs)"

fun json_dumps :: "json \<Rightarrow> string" where
  "json_dumps (JArr xs) = ''['' @ spaced_join (map json_dumps xs) @ '']''"
| "json_dumps (JObj kvs) =
     ''{'' @ spaced_join (map (\<lambda>kv. json_string (fst kv) @ '': '' @ json_dumps (snd kv)) kvs) @ ''}''"
| "json_dumps j = canonical_json j"

section \<open>Directories\<close>

definition is_dir_at :: "fs_map \<Rightarrow> fs_path \<Rightarrow> bool" where
  "is_dir_at fs p = (case stat_node fs p of Some (DirNode m n) \<Rightarrow> True | _ \<Rightarrow> False)"

definition directory_of :: "file_tools \<Rightarrow> fs_map \<Rightarrow> string \<Rightarrow> fs_path result" where
  "directory_of ft fs relative_path =
     (if relative_path = [] \<or> relative_path = ''.'' then Inr (wg_workspace_root (ft_guard ft))
      else
        bindE (resolve_for_read fs (ft_guard ft) relative_path) (\<lambda>guarded.
        if \<not> gp_exists guarded \<or> \<not> is_dir_at fs (gp_absolute guarded) then Inl FileNotFoundError
        else Inr (gp_absolute guarded)))"

text \<open>\<^verbatim>\<open>path.relative_to(workspace_root)\<close> of a path below the root.\<close>

definition relative_parts :: "file_tools \<Rightarrow> fs_path \<Rightarrow> string list" where
  "relative_parts ft p = drop (length (wg_workspace_root (ft_guard ft))) p"

fun list_loop :: "file_tools \<Rightarrow> fs_map \<Rightarrow> int \<Rightarrow> string list \<Rightarrow> fs_path list \<Rightarrow> string list" where
  "list_loop ft fs max_entries entries [] = entries"
| "list_loop ft fs max_entries entries (p # ps) =
     (if path_is_symlink fs p \<or> ''.git'' \<in> set (relative_parts ft p) \<or> \<not> is_file_at fs p
      then list_loop ft fs max_entries entries ps
      else
        let entries1 = entries @ [join_with (CHR ''/'') (relative_parts ft p)] in
        if int (length entries1) \<ge> max_entries then entries1
        else list_loop ft fs max_entries entries1 ps)"

definition list_files ::
  "file_tools \<Rightarrow> (fs_map \<Rightarrow> fs_path \<Rightarrow> fs_path list) \<Rightarrow> fs_map \<Rightarrow> string \<Rightarrow> int \<Rightarrow> string list result" where
  "list_files ft walk fs relative_path max_entries =
     bindE (directory_of ft fs relative_path) (\<lambda>root.
     Inr (list_loop ft fs max_entries [] (walk fs root)))"

section \<open>Searching\<close>

fun match_lines :: "(string \<Rightarrow> bool) \<Rightarrow> int \<Rightarrow> string \<Rightarrow> json list \<Rightarrow> int \<Rightarrow> string list \<Rightarrow> json list" where
  "match_lines expr max_results rel results n [] = results"
| "match_lines expr max_results rel results n (line # rest) =
     (if expr line then
        let results1 = results @ [JObj [(''path'', JStr rel), (''line'', JInt n), (''text'', JStr (take_chars 500 line))]] in
        if int (length results1) \<ge> max_results then results1
        else match_lines expr max_results rel results1 (n + 1) rest
      else match_lines expr max_results rel results (n + 1) rest)"

text \<open>The text of a file, or nothing when reading it raises an error that is skipped.\<close>

definition searchable_text :: "file_tools \<Rightarrow> fs_map \<Rightarrow> fs_path \<Rightarrow> string option" where
  "searchable_text ft fs p = (case read_bytes fs p of
       Inl e \<Rightarrow> None
     | Inr content \<Rightarrow>
         (case check_size ft content of
            Inl e \<Rightarrow> None
          | Inr _ \<Rightarrow> if valid_utf8 content then Some content else None))"

fun search_loop ::
  "file_tools \<Rightarrow> fs_map \<Rightarrow> (string \<Rightarrow> bool) \<Rightarrow> int \<Rightarrow> int \<Rightarrow> int \<Rightarrow> json list \<Rightarrow> fs_path list \<Rightarrow> json list" where
  "search_loop ft fs expr max_results max_scanned scanned results [] = results"
| "search_loop ft fs expr max_results max_scanned scanned results (p # ps) =
     (if scanned \<ge> max_scanned \<or> int (length results) \<ge> max_results then results
      else if path_is_symlink fs p \<or> \<not> is_file_at fs p \<or> ''.git'' \<in> set (relative_parts ft p)
      then search_loop ft fs expr max_results max_scanned scanned results ps
      else (case searchable_text ft fs p of
          None \<Rightarrow> search_loop ft fs expr max_results max_scanned (scanned + 1) results ps
        | Some text \<Rightarrow>
            search_loop ft fs expr max_results max_scanned (scanned + 1)
              (match_lines expr max_results (join_with (CHR ''/'') (relative_parts ft p)) results 1 (splitlines text)) ps))"

definition search_files ::
  "file_tools \<Rightarrow> (fs_map \<Rightarrow> fs_path \<Rightarrow> fs_path list) \<Rightarrow> (string \<Rightarrow> (string \<Rightarrow> bool) option) \<Rightarrow> fs_map
     \<Rightarrow> string \<Rightarrow> string \<Rightarrow> int \<Rightarrow> int \<Rightarrow> json list result" where
  "search_files ft walk regex fs pattern relative_path max_results max_scanned_files =
     (if pattern = [] \<or> str_length pattern > 256 then Inl ValueError
      else (case regex pattern of
          None \<Rightarrow> Inl ReError
        | Some expr \<Rightarrow>
            bindE (directory_of ft fs relative_path) (\<lambda>root.
            Inr (search_loop ft fs expr max_results max_scanned_files 0 [] (walk fs root)))))"

section \<open>Bounds and confinement\<close>

lemma list_loop_bound:
  "int (length entries) < m \<Longrightarrow> int (length (list_loop ft fs m entries ps)) \<le> m"
  by (induction ps arbitrary: entries) (auto simp: Let_def)

lemma match_lines_bound:
  "int (length rs) < m \<Longrightarrow> int (length (match_lines expr m rel rs n ls)) \<le> m"
  by (induction ls arbitrary: rs n) (auto simp: Let_def)

lemma search_loop_bound:
  "int (length rs) \<le> m \<Longrightarrow> int (length (search_loop ft fs expr m k c rs ps)) \<le> m"
proof (induction ps arbitrary: rs c)
  case (Cons p ps)
  then show ?case by (auto split: option.splits intro!: Cons.IH match_lines_bound)
qed simp

text \<open>Every entry listed is a file the walk found, over no symbolic link and outside Git's directory.\<close>

lemma list_loop_entries:
  "x \<in> set (list_loop ft fs m entries ps) \<Longrightarrow> x \<in> set entries \<or>
     (\<exists>p \<in> set ps. x = join_with (CHR ''/'') (relative_parts ft p) \<and> is_file_at fs p \<and>
        \<not> path_is_symlink fs p \<and> ''.git'' \<notin> set (relative_parts ft p))"
  by (induction ps arbitrary: entries) (fastforce simp: Let_def split: if_splits)+

text \<open>Joining the lines of a text without other boundaries gives the text.\<close>

lemma splitlines_single: "(\<And>k. line_break (drop k (map of_char s)) = 0) \<Longrightarrow> s \<noteq> [] \<Longrightarrow> splitlines s = [s]"
proof -
  have "(\<And>k. line_break (drop k (map of_char s)) = 0) \<Longrightarrow> cur @ s \<noteq> [] \<Longrightarrow> lines_from cur s = [cur @ s]" for cur
  proof (induction s arbitrary: cur)
    case (Cons c s)
    have "line_break (map of_char (c # s)) = 0" using Cons.prems(1) [of 0] by simp
    moreover have "line_break (drop k (map of_char s)) = 0" for k using Cons.prems(1) [of "Suc k"] by simp
    ultimately show ?case using Cons.IH [of "cur @ [c]"] by (subst lines_from.simps) simp
  qed (simp add: lines_from.simps)
  from this [of "[]"] show "(\<And>k. line_break (drop k (map of_char s)) = 0) \<Longrightarrow> s \<noteq> [] \<Longrightarrow> splitlines s = [s]"
    by (simp add: splitlines_def)
qed

end
