(* ===== verification/Json_Roundtrip.thy ===== *)
theory Json_Roundtrip
  imports Json_Loads Identity_Facts
begin

text \<open>
  Reading back canonical text: \<^const>\<open>json_loads\<close> of \<^const>\<open>canonical_json\<close> of a document gives the
  document with the keys of every object sorted.
\<close>

fun sort_keys :: "json \<Rightarrow> json" where
  "sort_keys (JArr xs) = JArr (map sort_keys xs)"
| "sort_keys (JObj kvs) = JObj (sort_key fst (map (\<lambda>kv. (fst kv, sort_keys (snd kv))) kvs))"
| "sort_keys j = j"

text \<open>
  Documents the program can hold: dicts have distinct keys, floats are finite and print
  as the text that reads as them, and no integer has more digits than CPython converts.
\<close>

fun json_ok :: "(string \<Rightarrow> string) \<Rightarrow> json \<Rightarrow> bool" where
  "json_ok fl (JInt i) = (length (nat_digits (nat \<bar>i\<bar>)) \<le> 4300)"
| "json_ok fl (JFloat r) = (scan_number fl r = Inr (JFloat r, []))"
| "json_ok fl (JArr xs) = list_all (json_ok fl) xs"
| "json_ok fl (JObj kvs) = (distinct (map fst kvs) \<and> list_all (\<lambda>kv. json_ok fl (snd kv)) kvs)"
| "json_ok fl j = True"

text \<open>What may follow a value inside a canonical document.\<close>

definition delim :: "string \<Rightarrow> bool" where
  "delim r \<longleftrightarrow> r = [] \<or> hd r \<in> {CHR '','', CHR ''}'', CHR '']''}"

section \<open>Strings\<close>

lemma char_of_digit: "n < 10 \<Longrightarrow> of_char (digit_char n) = 48 + n"
  by (simp add: digit_char_def)

lemma hex_value_digit: "n < 16 \<Longrightarrow> hex_value (digit_char n) = Some n"
  by (auto simp: digit_char_def hex_value_def Let_def)

lemma hex_value_zero: "hex_value CHR ''0'' = Some 0"
  by code_simp

lemma control_escape:
  assumes "n < 32"
  shows "unicode_escape (CHR ''0'' # CHR ''0'' # digit_char (n div 16) # digit_char (n mod 16) # r) = Some ([char_of n], r)"
proof -
  have "hex4 (CHR ''0'' # CHR ''0'' # digit_char (n div 16) # digit_char (n mod 16) # r) = Some (n, r)"
    using assms by (simp add: hex_value_digit hex_value_zero)
  then show ?thesis
    using assms by (auto simp: unicode_escape_def high_surrogate_def utf8_encode_def split: list.splits)
qed

lemma scan_escape_char:
  "scan_string (escape_char c @ r) = bindE (scan_string r) (\<lambda>(u, q). Inr (c # u, q))"
proof -
  let ?n = "of_char c :: nat"
  have c: "char_of ?n = c" by simp
  have bs: "of_char (char_of (92 :: nat) :: char) = (92 :: nat)" by simp
  have short: "simple_escape e = Some c \<Longrightarrow> e \<noteq> CHR ''u'' \<Longrightarrow>
      scan_string (char_of (92 :: nat) # e # r) = bindE (scan_string r) (\<lambda>(u, q). Inr (c # u, q))" for e
    by (subst scan_string.simps) simp
  have eq: "char_of m = c" if "?n = m" for m using c that by simp
  consider "?n \<in> {34, 92}" | "?n \<in> {10, 13, 9, 12, 8}" | "?n < 32" "?n \<notin> {10, 13, 9, 12, 8}" | "32 \<le> ?n" "?n \<notin> {34, 92}"
    by force
  then show ?thesis
  proof cases
    case 1
    then have "escape_char c = [char_of (92 :: nat), c]" using eq [of 34] eq [of 92] by (auto simp: escape_char_def)
    moreover have "simple_escape c = Some c" "c \<noteq> CHR ''u''" using 1 by (auto simp: simple_escape_def Let_def)
    ultimately show ?thesis using short [of c] by simp
  next
    case 2
    have e: "simple_escape CHR ''n'' = Some (char_of (10 :: nat))" "simple_escape CHR ''r'' = Some (char_of (13 :: nat))"
      "simple_escape CHR ''t'' = Some (char_of (9 :: nat))" "simple_escape CHR ''f'' = Some (char_of (12 :: nat))"
      "simple_escape CHR ''b'' = Some (char_of (8 :: nat))"
      by (simp_all add: simple_escape_def)
    from 2 show ?thesis
      using short [of "CHR ''n''"] short [of "CHR ''r''"] short [of "CHR ''t''"] short [of "CHR ''f''"]
        short [of "CHR ''b''"] eq [of 10] eq [of 13] eq [of 9] eq [of 12] eq [of 8] e by (auto simp: escape_char_def Let_def)
  next
    case 3
    then have "escape_char c = [char_of (92 :: nat), CHR ''u'', CHR ''0'', CHR ''0'', digit_char (?n div 16), digit_char (?n mod 16)]"
      by (auto simp: escape_char_def Let_def)
    then show ?thesis using control_escape [OF 3(1), of r] by (simp add: scan_string.simps [of "char_of (92 :: nat) # _"])
  next
    case 4
    then have "escape_char c = [c]" by (auto simp: escape_char_def Let_def)
    then show ?thesis using 4 by (simp add: scan_string.simps [of "c # _"])
  qed
qed

lemma scan_json_string: "scan_string (concat (map escape_char s) @ char_of (34 :: nat) # r) = Inr (s, r)"
proof (induction s)
  case Nil
  show ?case by (simp add: scan_string.simps)
next
  case (Cons c s)
  then show ?case by (simp add: scan_escape_char)
qed

section \<open>Numbers\<close>

lemma zero_char: "char_of (48 :: nat) = CHR ''0''"
  by code_simp

lemma nat_digits_digits: "list_all json_digit (nat_digits n) \<and> nat_digits n \<noteq> [] \<and> read_nat (nat_digits n) = n \<and>
    (hd (nat_digits n) = CHR ''0'' \<longrightarrow> n = 0)"
proof (induction n rule: nat_digits.induct)
  case (1 n)
  have d: "json_digit (digit_char k)" "of_char (digit_char k) = 48 + k" "digit_char k = CHR ''0'' \<longleftrightarrow> k = 0" if "k < 10" for k :: nat
  proof -
    show v: "of_char (digit_char k) = 48 + k" using that by (rule char_of_digit)
    show "json_digit (digit_char k)" using that by (simp add: json_digit_def v)
    show "digit_char k = CHR ''0'' \<longleftrightarrow> k = 0"
    proof
      assume "digit_char k = CHR ''0''"
      then have "48 + k = (of_char CHR ''0'' :: nat)" using v by simp
      then show "k = 0" by simp
    qed (simp add: digit_char_def zero_char)
  qed
  show ?case
  proof (cases "n < 10")
    case True
    then show ?thesis by (subst (1 2 3 4) nat_digits.simps) (simp add: d read_nat_def)
  next
    case False
    have "n mod 10 < 10" "n div 10 \<noteq> 0" using False by auto
    then show ?thesis
      using False 1 by (subst (1 2 3 4) nat_digits.simps) (auto simp: d read_nat_def hd_append)
  qed
qed

lemma takeWhile_delim: "delim r \<Longrightarrow> takeWhile json_digit r = [] \<and> dropWhile json_digit r = r"
  by (cases r) (auto simp: delim_def json_digit_def)

lemma takeWhile_digits:
  "list_all json_digit ds \<Longrightarrow> delim r \<Longrightarrow> takeWhile json_digit (ds @ r) = ds \<and> dropWhile json_digit (ds @ r) = r"
  using takeWhile_delim [of r] by (auto simp: list_all_iff takeWhile_append2 dropWhile_append2)

lemma scan_tail_delim: "delim r \<Longrightarrow> scan_frac r = ([], r) \<and> scan_exp r = ([], r)"
  by (cases r) (auto simp: delim_def scan_frac_def scan_exp_def)

lemma json_digit_minus: "\<not> json_digit CHR ''-''"
  by (simp add: json_digit_def)

lemma scan_int:
  assumes "length (nat_digits (nat \<bar>i\<bar>)) \<le> 4300" "delim r"
  shows "scan_number fl (int_text i @ r) = Inr (JInt i, r)"
proof -
  define ds where "ds = nat_digits (nat \<bar>i\<bar>)"
  note d = nat_digits_digits [of "nat \<bar>i\<bar>", folded ds_def]
  have sign: "scan_sign (int_text i @ r) = (i < 0, ds @ r)"
    using d json_digit_minus by (cases ds) (auto simp: scan_sign_def int_text_def ds_def)
  have zero: "ds = [CHR ''0'']" if "hd ds = CHR ''0''"
    using d that by (simp add: ds_def nat_digits.simps [of 0] digit_char_def zero_char)
  then have "int_part (takeWhile json_digit (ds @ r)) = ds"
    using d takeWhile_digits [OF _ assms(2)] by (auto simp: int_part_def)
  then show ?thesis
    using sign d scan_tail_delim [OF assms(2)] assms(1) [folded ds_def] by (simp add: scan_number_def Let_def)
qed

lemma takeWhile_app:
  "delim r \<Longrightarrow> takeWhile json_digit (s @ r) = takeWhile json_digit s \<and> dropWhile json_digit (s @ r) = dropWhile json_digit s @ r"
  using takeWhile_delim [of r] by (induction s) auto

lemma scan_frac_app: "delim r \<Longrightarrow> scan_frac (s @ r) = (fst (scan_frac s), snd (scan_frac s) @ r)"
  using scan_tail_delim [of r] takeWhile_app [of r] by (cases s) (auto simp: scan_frac_def)

lemma scan_exp_app: "delim r \<Longrightarrow> scan_exp (s @ r) = (fst (scan_exp s), snd (scan_exp s) @ r)"
proof (cases s)
  case (Cons c t)
  assume d: "delim r"
  show ?thesis
    using takeWhile_app [OF d] takeWhile_delim [OF d] d
    by (cases t; cases r) (auto simp: scan_exp_def Cons delim_def)
qed (use scan_tail_delim [of r] in \<open>simp add: scan_exp_def\<close>)

lemma scan_number_app:
  assumes "scan_number fl s = Inr (v, [])" "delim r"
  shows "scan_number fl (s @ r) = Inr (v, r)"
proof -
  let ?q = "snd (scan_sign s)"
  let ?ip = "int_part (takeWhile json_digit ?q)"
  have ne: "s \<noteq> []" using scan_number_shrinks [OF assms(1)] by simp
  then have sign: "scan_sign (s @ r) = (fst (scan_sign s), ?q @ r)" by (cases s) (auto simp: scan_sign_def)
  have "length ?ip \<le> length ?q"
    using length_takeWhile_le [of json_digit ?q] by (cases ?q) (auto simp: int_part_def)
  then have drop: "drop (length ?ip) (?q @ r) = drop (length ?ip) ?q @ r" by simp
  have "scan_number fl (s @ r) = (case scan_number fl s of Inl e \<Rightarrow> Inl e | Inr (v, q) \<Rightarrow> Inr (v, q @ r))"
    unfolding scan_number_def Let_def sign case_prod_unfold fst_conv snd_conv conjunct1 [OF takeWhile_app [OF assms(2)]]
      drop scan_frac_app [OF assms(2)] scan_exp_app [OF assms(2)]
    by (simp split: if_splits)
  then show ?thesis using assms(1) by simp
qed

lemma scan_number_start:
  "scan_number fl s = Inr (v, r) \<Longrightarrow> \<exists>c t. s = c # t \<and> (json_digit c \<or> c = CHR ''-'' \<and> (\<exists>x u. t = x # u \<and> json_digit x))"
proof -
  assume a: "scan_number fl s = Inr (v, r)"
  then have "takeWhile json_digit (snd (scan_sign s)) \<noteq> []"
    by (auto simp: scan_number_def Let_def int_part_def split: prod.splits if_splits)
  then show ?thesis
    by (cases s; cases "snd (scan_sign s)") (auto simp: scan_sign_def split: if_splits)
qed

lemma scan_literal_number:
  assumes "scan_number fl s = Inr (v, r)"
  shows "scan_literal fl s = Inr (v, r)"
proof -
  obtain c t where c: "s = c # t" "json_digit c \<or> c = CHR ''-'' \<and> (\<exists>x u. t = x # u \<and> json_digit x)"
    using scan_number_start [OF assms] by blast
  then have "take 4 s \<noteq> ''null''" "take 4 s \<noteq> ''true''" "take 5 s \<noteq> ''false''" "take 3 s \<noteq> ''NaN''"
    "take 8 s \<noteq> ''Infinity''" "take 9 s \<noteq> ''-Infinity''"
    by (auto simp: json_digit_def)
  then show ?thesis using assms by (simp add: scan_literal_def)
qed

section \<open>Documents\<close>

text \<open>\<open>reads fl t j\<close>: with enough fuel, the text \<open>t\<close> in front of a delimiter reads as \<open>j\<close>.\<close>

definition opens :: "string \<Rightarrow> bool" where
  "opens t \<longleftrightarrow> t \<noteq> [] \<and> \<not> json_space (hd t) \<and> hd t \<noteq> CHR '']''"

definition reads :: "(string \<Rightarrow> string) \<Rightarrow> string \<Rightarrow> json \<Rightarrow> bool" where
  "reads fl t j \<longleftrightarrow> opens t \<and> (\<exists>m. \<forall>n\<ge>m. \<forall>r. delim r \<longrightarrow> json_value fl n (t @ r) = Inr (j, r))"

lemma readsI:
  assumes "opens t" "\<And>n r. m \<le> n \<Longrightarrow> delim r \<Longrightarrow> json_value fl (Suc n) (t @ r) = Inr (j, r)"
  shows "reads fl t j"
proof -
  have "json_value fl n (t @ r) = Inr (j, r)" if "Suc m \<le> n" "delim r" for n r
    using assms(2) [of "n - 1" r] that by (cases n) auto
  then show ?thesis using assms(1) by (auto simp: reads_def)
qed

lemma skip_ws_char: "\<not> json_space c \<Longrightarrow> skip_ws (c # s) = c # s"
  by (simp add: skip_ws_def)

lemma not_space [simp]:
  "\<not> json_space CHR '',''" "\<not> json_space CHR '']''" "\<not> json_space CHR ''}''" "\<not> json_space CHR ''[''"
  "\<not> json_space CHR ''{''" "\<not> json_space CHR '':''" "\<not> json_space (char_of (34 :: nat))"
  by (simp_all add: json_space_def)

lemma quote_char [simp]: "char_of (34 :: nat) \<noteq> CHR '']''" "char_of (34 :: nat) \<noteq> CHR ''}''"
  by code_simp+

lemma skip_ws_app: "opens t \<Longrightarrow> skip_ws (t @ r) = t @ r"
  by (cases t) (auto simp: opens_def skip_ws_def)

lemma elements_read:
  assumes "ts \<noteq> []" "list_all2 (reads fl) ts js"
  shows "\<exists>m. \<forall>n\<ge>m. \<forall>r. json_elements fl n (comma_join ts @ CHR '']'' # r) = Inr (js, r)"
  using assms(2,1)
proof (induction rule: list_all2_induct)
  case (Cons t ts j js)
  obtain m where m: "\<And>n r. m \<le> n \<Longrightarrow> delim r \<Longrightarrow> json_value fl n (t @ r) = Inr (j, r)"
    using Cons.hyps(1) unfolding reads_def by blast
  show ?case
  proof (cases ts)
    case Nil
    have "json_elements fl n (comma_join [t] @ CHR '']'' # r) = Inr ([j], r)" if "Suc m \<le> n" for n r
      using that m [of "n - 1" "CHR '']'' # r"] by (cases n) (auto simp: delim_def skip_ws_char)
    with Nil Cons.hyps(2) show ?thesis by auto
  next
    case (Cons t1 ts1)
    then obtain m1 where m1: "\<And>n r. m1 \<le> n \<Longrightarrow> json_elements fl n (comma_join ts @ CHR '']'' # r) = Inr (js, r)"
      using Cons.IH by blast
    have t1: "opens t1" using Cons.hyps(2) Cons by (auto simp: list_all2_Cons1 reads_def)
    obtain w where w: "comma_join ts = t1 @ w" using Cons by (cases ts1) auto
    have "json_elements fl n (comma_join (t # ts) @ CHR '']'' # r) = Inr (j # js, r)" if "Suc (max m m1) \<le> n" for n r
      using that m [of "n - 1" "CHR '','' # comma_join ts @ CHR '']'' # r"] m1 [of "n - 1" r] Cons
        skip_ws_app [OF t1, of "w @ CHR '']'' # r"] w
      by (cases n) (auto simp: delim_def skip_ws_char)
    then show ?thesis by blast
  qed
qed simp

lemma members_read:
  assumes "kts \<noteq> []" "list_all2 (\<lambda>kt kv. fst kt = fst kv \<and> reads fl (snd kt) (snd kv)) kts kvs"
  shows "\<exists>m. \<forall>n\<ge>m. \<forall>r. json_members fl n
    (comma_join (map (\<lambda>(k, t). json_string k @ CHR '':'' # t) kts) @ CHR ''}'' # r) = Inr (kvs, r)"
  using assms(2,1)
proof (induction rule: list_all2_induct)
  case (Cons kt kts kv kvs)
  obtain k t j where kt: "kt = (k, t)" "kv = (k, j)" using Cons.hyps(1) by (cases kt; cases kv) auto
  let ?f = "\<lambda>(k, t). json_string k @ CHR '':'' # t"
  have t: "opens t" using Cons.hyps(1) kt by (auto simp: reads_def)
  obtain m where m: "\<And>n r. m \<le> n \<Longrightarrow> delim r \<Longrightarrow> json_value fl n (t @ r) = Inr (j, r)"
    using Cons.hyps(1) kt unfolding reads_def by auto
  show ?case
  proof (cases kts)
    case Nil
    have "json_members fl n (comma_join (map ?f [kt]) @ CHR ''}'' # r) = Inr ([(k, j)], r)" if "Suc m \<le> n" for n r
      using that m [of "n - 1" "CHR ''}'' # r"] skip_ws_app [OF t, of "CHR ''}'' # r"]
      by (cases n) (auto simp: kt json_string_def scan_json_string delim_def skip_ws_char)
    with Nil Cons.hyps(2) kt show ?thesis by auto
  next
    case (Cons kt1 kts1)
    then obtain m1 where m1: "\<And>n r. m1 \<le> n \<Longrightarrow> json_members fl n (comma_join (map ?f kts) @ CHR ''}'' # r) = Inr (kvs, r)"
      using Cons.IH by blast
    define J where "J = comma_join (map ?f kts)"
    have "\<exists>w. J = char_of (34 :: nat) # w"
      using Cons by (cases kt1; cases kts1) (auto simp: J_def json_string_def)
    then have ws: "skip_ws (J @ q) = J @ q" for q by (auto simp: skip_ws_char)
    have "json_members fl n (comma_join (map ?f (kt # kts)) @ CHR ''}'' # r) = Inr (kv # kvs, r)"
      if "Suc (max m m1) \<le> n" for n r
    proof -
      let ?rest = "CHR '','' # J @ CHR ''}'' # r"
      have *: "comma_join (map ?f (kt # kts)) @ CHR ''}'' # r = json_string k @ CHR '':'' # t @ ?rest"
        using Cons kt by (simp add: J_def)
      have "json_members fl n (json_string k @ CHR '':'' # t @ ?rest) = Inr ((k, j) # kvs, r)"
        using that m [of "n - 1" ?rest] m1 [of "n - 1" r, folded J_def] skip_ws_app [OF t, of ?rest]
        by (cases n) (auto simp: json_string_def scan_json_string delim_def skip_ws_char ws)
      then show ?thesis unfolding * kt(2) .
    qed
    then show ?thesis by blast
  qed
qed simp

lemma items_put_new: "k \<notin> fst ` set d \<Longrightarrow> items_put k v d = d @ [(k, v)]"
  by (induction d) auto

lemma dict_of_distinct: "distinct (map fst kvs) \<Longrightarrow> dict_of kvs = kvs"
proof -
  have "distinct (map fst (d @ kvs)) \<Longrightarrow> foldl (\<lambda>d (k, v). items_put k v d) d kvs = d @ kvs" for d
    by (induction kvs arbitrary: d) (auto simp: items_put_new)
  from this [of "[]"] show "distinct (map fst kvs) \<Longrightarrow> dict_of kvs = kvs" by (simp add: dict_of_def)
qed

lemma insort_key_map_snd:
  "insort_key fst (fst x, f (snd x)) (map (\<lambda>kv. (fst kv, f (snd kv))) ys) =
     map (\<lambda>kv. (fst kv, f (snd kv))) (insort_key fst x ys)"
  by (induction ys) auto

lemma sort_key_map_snd:
  "sort_key fst (map (\<lambda>kv. (fst kv, f (snd kv))) kvs) = map (\<lambda>kv. (fst kv, f (snd kv))) (sort_key fst kvs)"
  by (induction kvs) (simp_all add: insort_key_map_snd)

lemma number_reads:
  assumes "\<And>r. delim r \<Longrightarrow> scan_number fl (t @ r) = Inr (j, r)"
  shows "reads fl t j"
proof -
  have n: "scan_number fl t = Inr (j, [])" using assms [of "[]"] by (simp add: delim_def)
  obtain c u where c: "t = c # u" "json_digit c \<or> c = CHR ''-''"
    using scan_number_start [OF n] by blast
  then have "of_char c \<noteq> (34 :: nat)" "c \<noteq> CHR ''{''" "c \<noteq> CHR ''[''" "opens t"
    by (auto simp: json_digit_def json_space_def opens_def)
  then show ?thesis
    using c scan_literal_number [OF assms] by (intro readsI [of t 0]) auto
qed

lemma array_reads:
  assumes "list_all2 (reads fl) ts js"
  shows "reads fl (CHR ''['' # comma_join ts @ '']'') (JArr js)"
proof (cases ts)
  case Nil
  then have "js = []" using assms by simp
  then show ?thesis unfolding Nil by (intro readsI [of _ 0]) (auto simp: skip_ws_char opens_def)
next
  case (Cons t ts1)
  then obtain m where m: "\<And>n r. m \<le> n \<Longrightarrow> json_elements fl n (comma_join ts @ CHR '']'' # r) = Inr (js, r)"
    using elements_read [OF _ assms] by blast
  have "opens t" using assms Cons by (auto simp: reads_def list_all2_Cons1)
  then obtain c u where c: "t = c # u" "\<not> json_space c" "c \<noteq> CHR '']''" by (cases t) (auto simp: opens_def)
  then obtain w where w: "comma_join ts = c # w" using Cons by (cases ts1) auto
  show ?thesis
  proof (rule readsI [of _ m])
    fix n r assume "m \<le> n"
    from m [OF this, of r] show "json_value fl (Suc n) ((CHR ''['' # comma_join ts @ '']'') @ r) = Inr (JArr js, r)"
      using c w by (simp add: skip_ws_char del: json_elements.simps)
  qed (simp add: opens_def)
qed

lemma object_reads:
  assumes "list_all2 (\<lambda>kt kv. fst kt = fst kv \<and> reads fl (snd kt) (snd kv)) kts kvs" "distinct (map fst kvs)"
  shows "reads fl (CHR ''{'' # comma_join (map (\<lambda>(k, t). json_string k @ CHR '':'' # t) kts) @ ''}'') (JObj kvs)"
proof (cases kts)
  case Nil
  then have "kvs = []" using assms by simp
  then show ?thesis unfolding Nil by (intro readsI [of _ 0]) (auto simp: skip_ws_char opens_def)
next
  case (Cons kt kts1)
  let ?J = "comma_join (map (\<lambda>(k, t). json_string k @ CHR '':'' # t) kts)"
  obtain m where m: "\<And>n r. m \<le> n \<Longrightarrow> json_members fl n (?J @ CHR ''}'' # r) = Inr (kvs, r)"
    using members_read [OF _ assms(1)] Cons by blast
  obtain w where w: "?J = char_of (34 :: nat) # w"
    using Cons by (cases kt; cases kts1) (auto simp: json_string_def)
  show ?thesis
  proof (rule readsI [of _ m])
    fix n r assume "m \<le> n"
    from m [OF this, of r] show "json_value fl (Suc n) ((CHR ''{'' # ?J @ ''}'') @ r) = Inr (JObj kvs, r)"
      unfolding w by (simp add: skip_ws_char dict_of_distinct [OF assms(2)] del: json_members.simps)
  qed (simp add: opens_def)
qed

lemma canonical_reads: "json_ok fl j \<Longrightarrow> reads fl (canonical_json j) (sort_keys j)"
proof (induction j)
  case JNull
  show ?case by (rule readsI [of _ 0]) (auto simp: json_space_def scan_literal_def opens_def)
next
  case (JBool b)
  show ?case by (cases b) (auto intro!: readsI [of _ 0] simp: json_space_def scan_literal_def opens_def)
next
  case (JInt i)
  then show ?case by (auto intro!: number_reads scan_int)
next
  case (JFloat r)
  then show ?case by (auto intro!: number_reads scan_number_app)
next
  case (JStr s)
  show ?case by (rule readsI [of _ 0]) (auto simp: json_string_def scan_json_string opens_def)
next
  case (JArr js)
  then show ?case by (auto intro!: array_reads list.rel_refl_strong simp: list_all2_map1 list_all2_map2 list_all_iff)
next
  case (JObj kvs)
  have "reads fl (canonical_json (snd kv)) (sort_keys (snd kv))" if "kv \<in> set kvs" for kv
    using JObj that by (cases kv) (auto simp: list_all_iff)
  then have "list_all2 (\<lambda>kt kv. fst kt = fst kv \<and> reads fl (snd kt) (snd kv))
      (map (\<lambda>kv. (fst kv, canonical_json (snd kv))) (sort_key fst kvs))
      (map (\<lambda>kv. (fst kv, sort_keys (snd kv))) (sort_key fst kvs))"
    by (auto simp: list_all2_map1 list_all2_map2 intro!: list.rel_refl_strong)
  moreover have "distinct (map fst (map (\<lambda>kv. (fst kv, sort_keys (snd kv))) (sort_key fst kvs)))"
    using JObj.prems by (simp add: comp_def distinct_map inj_on_def)
  ultimately show ?case
    unfolding canonical_json.simps sort_keys.simps sort_key_map_snd by (rule object_reads)
qed

text \<open>The fuel \<^const>\<open>json_loads\<close> gives is enough for every text.\<close>

lemma json_value_fuel:
  "2 * length s + 1 \<le> n \<Longrightarrow> json_value fl n s = json_value fl (2 * length s + 1) s"
proof (induction n rule: dec_induct)
  case (step n)
  then have "json_value fl (Suc n) s = json_value fl n s" using json_fuel [of n fl] by simp
  with step.IH show ?case by simp
qed simp

theorem loads_canonical:
  assumes "json_ok fl j"
  shows "json_loads fl (canonical_json j) = Inr (sort_keys j)"
proof -
  let ?t = "canonical_json j"
  obtain m where o: "opens ?t" and m: "\<And>n r. m \<le> n \<Longrightarrow> delim r \<Longrightarrow> json_value fl n (?t @ r) = Inr (sort_keys j, r)"
    using canonical_reads [OF assms] by (auto simp: reads_def)
  have "json_value fl (max m (2 * length ?t + 1)) ?t = Inr (sort_keys j, [])"
    using m [of "max m (2 * length ?t + 1)" "[]"] by (simp add: delim_def)
  then have "json_value fl (2 * length ?t + 1) ?t = Inr (sort_keys j, [])"
    using json_value_fuel [of ?t "max m (2 * length ?t + 1)" fl] by simp
  then show ?thesis
    using skip_ws_app [OF o, of "[]"] by (simp add: json_loads_def skip_ws_def)
qed

section \<open>Stored arguments\<close>

text \<open>The part of \<^const>\<open>json_ok\<close> that normalisation does not establish.\<close>

fun numbers_ok :: "(string \<Rightarrow> string) \<Rightarrow> json \<Rightarrow> bool" where
  "numbers_ok fl (JInt i) = (length (nat_digits (nat \<bar>i\<bar>)) \<le> 4300)"
| "numbers_ok fl (JFloat r) = (scan_number fl r = Inr (JFloat r, []))"
| "numbers_ok fl (JArr xs) = list_all (numbers_ok fl) xs"
| "numbers_ok fl (JObj kvs) = list_all (\<lambda>kv. numbers_ok fl (snd kv)) kvs"
| "numbers_ok fl j = True"

lemma normalized_ok:
  "normalize_json_value norm v = Inr j \<Longrightarrow> numbers_ok fl j \<longrightarrow> json_ok fl j"
  "normalize_values norm vs = Inr js \<Longrightarrow> list_all (numbers_ok fl) js \<longrightarrow> list_all (json_ok fl) js"
  "normalize_items norm acc kvs = Inr items \<Longrightarrow> distinct (map fst acc) \<Longrightarrow>
     \<forall>kv \<in> set acc. numbers_ok fl (snd kv) \<longrightarrow> json_ok fl (snd kv) \<Longrightarrow>
     distinct (map fst items) \<and> (\<forall>kv \<in> set items. numbers_ok fl (snd kv) \<longrightarrow> json_ok fl (snd kv))"
proof (induction norm v and norm vs and norm acc kvs arbitrary: j and js and items
    rule: normalize_json_value_normalize_values_normalize_items.induct)
  case (14 norm acc k v kvs)
  from "14.prems"(1) obtain s j where k: "k = PyStr s" "norm s \<notin> fst ` set acc"
      "normalize_json_value norm v = Inr j" "normalize_items norm (acc @ [(norm s, j)]) kvs = Inr items"
    by (auto simp: bindE_eq_Inr split: py_value.splits if_splits)
  show ?case
    by (rule "14.IH"(2) [OF k(1,2) k(4)]) (use k "14.prems"(2,3) "14.IH"(1) [OF k(1-3)] in auto)
qed (auto simp: bindE_eq_Inr list_all_iff)

lemma canonical_json_sort_keys: "json_ok fl j \<Longrightarrow> canonical_json (sort_keys j) = canonical_json j"
proof (induction j)
  case (JArr js)
  then have "map canonical_json (map sort_keys js) = map canonical_json js" by (simp add: list_all_iff)
  then show ?case by (simp only: sort_keys.simps canonical_json.simps)
next
  case (JObj kvs)
  let ?c = "\<lambda>kv. (fst kv, canonical_json (snd kv))" and ?s = "\<lambda>kv. (fst kv, sort_keys (snd kv))"
  have "sort_key fst (map ?c (sort_key fst (map ?s kvs))) = sort_key fst (map ?c (map ?s kvs))"
    unfolding sort_key_map_snd [of canonical_json] by (simp add: sort_key_id_if_sorted)
  also have "map ?c (map ?s kvs) = map ?c kvs" using JObj by (auto simp: list_all_iff)
  finally have "sort_key fst (map ?c (sort_key fst (map ?s kvs))) = sort_key fst (map ?c kvs)" .
  then show ?case by (simp only: sort_keys.simps canonical_json.simps)
qed simp_all

lemma distinct_sorted_items: "distinct (map fst (sort_key fst kvs)) = distinct (map fst kvs)"
  by (rule mset_eq_imp_distinct_iff) simp

lemma map_of_sorted_items:
  assumes "distinct (map fst kvs)"
  shows "map_of (sort_key fst (map (\<lambda>kv. (fst kv, f (snd kv))) kvs)) k = map_option f (map_of kvs k)"
proof -
  let ?m = "map (\<lambda>kv. (fst kv, f (snd kv))) kvs"
  have d: "distinct (map fst ?m)" using assms by (simp add: comp_def)
  then have "distinct (map fst (sort_key fst ?m))" by (simp only: distinct_sorted_items)
  with d have "map_of (sort_key fst ?m) = map_of ?m" by (intro map_of_inject_set [THEN iffD2]) simp_all
  moreover have "map_of ?m k = map_option f (map_of kvs k)" by (induction kvs) auto
  ultimately show ?thesis by simp
qed

lemma canonicalize_Inr:
  assumes "canonicalize_tool_args env args = Inr ca"
  shows "normalize_json_value (nfc env) args = Inr (JObj (ca_value ca))"
    "ca_json ca = canonical_json (JObj (ca_value ca))"
proof -
  from assms obtain j where j: "normalize_json_value (nfc env) args = Inr j"
    by (auto simp: canonicalize_tool_args_def bindE_eq_Inr)
  with assms show "normalize_json_value (nfc env) args = Inr (JObj (ca_value ca))"
    "ca_json ca = canonical_json (JObj (ca_value ca))"
    by (cases j; auto simp: canonicalize_tool_args_def simp del: canonical_json.simps)+
qed

lemma stored_items:
  assumes "canonicalize_tool_args env args = Inr ca" "numbers_ok fl (JObj (ca_value ca))"
  shows "\<exists>kvs. json_loads fl (ca_json ca) = Inr (JObj kvs) \<and> canonical_json (JObj kvs) = ca_json ca \<and>
    (\<forall>k. map_of kvs k = map_option sort_keys (map_of (ca_value ca) k))"
proof -
  note ca = canonicalize_Inr [OF assms(1)]
  have ok: "json_ok fl (JObj (ca_value ca))" using normalized_ok(1) [OF ca(1)] assms(2) by blast
  then have "distinct (map fst (ca_value ca))" by simp
  with loads_canonical [OF ok] canonical_json_sort_keys [OF ok] map_of_sorted_items show ?thesis
    unfolding ca(2) sort_keys.simps by blast
qed

end
