(* ===== verification/Model_Output.thy ===== *)
theory Model_Output
  imports Json_Roundtrip
begin

text \<open>
  Reading what the model wrote (\<^verbatim>\<open>MiniAgent.parse\<close> and its helpers in
  \<^verbatim>\<open>mini_coding_agent.py\<close>): a JSON tool call in \<^verbatim>\<open><tool>\<close>, a tool call as an XML element, a
  final answer, or text that is sent back with a notice. The two regular expressions are
  written out as scanners.
\<close>

section \<open>Searching text\<close>

text \<open>\<^verbatim>\<open>str.find\<close>: the text before and after the first occurrence.\<close>

fun split_at :: "string \<Rightarrow> string \<Rightarrow> (string \<times> string) option" where
  "split_at pat [] = (if pat = [] then Some ([], []) else None)"
| "split_at pat (c # s) =
     (if prefix pat (c # s) then Some ([], drop (length pat) (c # s))
      else map_option (\<lambda>(a, b). (c # a, b)) (split_at pat s))"

definition contains :: "string \<Rightarrow> string \<Rightarrow> bool" where
  "contains pat s \<longleftrightarrow> split_at pat s \<noteq> None"

definition find_pos :: "string \<Rightarrow> string \<Rightarrow> int" where
  "find_pos pat s = (case split_at pat s of None \<Rightarrow> - 1 | Some (a, b) \<Rightarrow> int (length a))"

definition start_tag :: "string \<Rightarrow> string" where
  "start_tag tag = ''<'' @ tag @ ''>''"

definition end_tag :: "string \<Rightarrow> string" where
  "end_tag tag = ''</'' @ tag @ ''>''"

definition extract_raw :: "string \<Rightarrow> string \<Rightarrow> string" where
  "extract_raw text tag = (case split_at (start_tag tag) text of
       None \<Rightarrow> text
     | Some (before, after) \<Rightarrow>
         (case split_at (end_tag tag) after of None \<Rightarrow> after | Some (body, rest) \<Rightarrow> body))"

definition extract_tag :: "string \<Rightarrow> string \<Rightarrow> string" where
  "extract_tag text tag = (case split_at (start_tag tag) text of
       None \<Rightarrow> text
     | Some (before, after) \<Rightarrow>
         (case split_at (end_tag tag) after of
            None \<Rightarrow> py_strip is_space after
          | Some (body, rest) \<Rightarrow> py_strip is_space body))"

section \<open>Notices\<close>

definition dquote :: char where
  "dquote = char_of (34 :: nat)"

definition retry_notice :: "string option \<Rightarrow> string" where
  "retry_notice problem =
     ''Runtime notice'' @
     (case problem of
        None \<Rightarrow> '': model returned malformed tool output''
      | Some p \<Rightarrow> if p = [] then '': model returned malformed tool output'' else '': '' @ p) @
     ''. Reply with a valid <tool> call or a non-empty <final> answer. '' @
     ''For multi-line files, prefer <tool name='' @ [dquote] @ ''write_file'' @ [dquote] @
     '' path='' @ [dquote] @ ''file.py'' @ [dquote] @ ''><content>...</content></tool>.''"

section \<open>XML tool calls\<close>

definition name_start :: "char \<Rightarrow> bool" where
  "name_start c \<longleftrightarrow> is_letter c \<or> c = CHR ''_''"

definition name_char :: "char \<Rightarrow> bool" where
  "name_char c \<longleftrightarrow> name_start c \<or> json_digit c"

text \<open>
  One match of \<^verbatim>\<open>([A-Za-z_][A-Za-z0-9_]*)\s*=\s*(?:"([^"]*)"|'([^']*)')\<close> at the start of the
  text: name, value, rest. The name is as long as possible, since what follows it is
  neither a name character nor optional.
\<close>

definition match_attr :: "string \<Rightarrow> (string \<times> string \<times> string) option" where
  "match_attr s = (case s of
       [] \<Rightarrow> None
     | c # _ \<Rightarrow>
         if \<not> name_start c then None
         else (case dropWhile is_space (dropWhile name_char s) of
             e # r \<Rightarrow>
               if e \<noteq> CHR ''='' then None
               else (case dropWhile is_space r of
                   q # v \<Rightarrow>
                     if (q = dquote \<or> q = CHR 0x27) \<and> q \<in> set v
                     then Some (takeWhile name_char s, takeWhile (\<lambda>x. x \<noteq> q) v, tl (dropWhile (\<lambda>x. x \<noteq> q) v))
                     else None
                 | [] \<Rightarrow> None)
           | [] \<Rightarrow> None))"

lemma length_tl_dropWhile: "length (tl (dropWhile P s)) \<le> length s"
  by (induction s) auto

lemma match_attr_shrinks: "match_attr s = Some (k, v, r) \<Longrightarrow> length r < length s"
proof -
  assume m: "match_attr s = Some (k, v, r)"
  obtain c t where s: "s = c # t" using m by (cases s) (auto simp: match_attr_def)
  obtain e r1 where e: "dropWhile is_space (dropWhile name_char s) = e # r1"
    using m s by (auto simp: match_attr_def split: if_splits list.splits)
  obtain q w where q: "dropWhile is_space r1 = q # w" "r = tl (dropWhile (\<lambda>x. x \<noteq> q) w)"
    using m s e by (auto simp: match_attr_def split: if_splits list.splits)
  have "length (e # r1) \<le> length s"
    using length_dropWhile_le [of is_space "dropWhile name_char s"] length_dropWhile_le [of name_char s] e by simp
  moreover have "length (q # w) \<le> length r1" using length_dropWhile_le [of is_space r1] q(1) by simp
  ultimately show ?thesis using q(2) length_tl_dropWhile [of "\<lambda>x. x \<noteq> q" w] by simp
qed

text \<open>\<^verbatim>\<open>re.finditer\<close>: leftmost matches that do not overlap.\<close>

function find_attrs :: "string \<Rightarrow> (string \<times> string) list" where
  "find_attrs s = (case s of
       [] \<Rightarrow> []
     | c # t \<Rightarrow>
         (case match_attr s of
            None \<Rightarrow> find_attrs t
          | Some (k, v, r) \<Rightarrow> (k, v) # find_attrs r))"
  by pat_completeness auto

termination
  by (relation "measure length") (auto dest!: match_attr_shrinks)

declare find_attrs.simps [simp del]

definition parse_attrs :: "string \<Rightarrow> (string \<times> json) list" where
  "parse_attrs text = dict_of (map (\<lambda>(k, v). (k, JStr v)) (find_attrs text))"

definition body_keys :: "string list" where
  "body_keys = [''content'', ''old_text'', ''new_text'', ''command'', ''task'', ''pattern'', ''path'']"

definition strip_newlines :: "string \<Rightarrow> string" where
  "strip_newlines s = py_strip (\<lambda>c. c = newline) s"

definition json_object :: "string \<Rightarrow> (string \<times> json) list \<Rightarrow> (string \<times> json) list" where
  "json_object name args = [(''name'', JStr name), (''args'', JObj args)]"

text \<open>
  \<^verbatim>\<open><tool(?P<attrs>[^>]*)>(?P<body>.*?)</tool>\<close>: the attributes end at the next \<^verbatim>\<open>>\<close>, the body
  at the next end tag, so that only the first \<^verbatim>\<open><tool\<close> can match.
\<close>

definition parse_xml_tool :: "string \<Rightarrow> (string \<times> json) list option" where
  "parse_xml_tool raw =
     (case split_at ''<tool'' raw of
        None \<Rightarrow> None
      | Some (b, r) \<Rightarrow>
          (case split_at ''>'' r of
             None \<Rightarrow> None
           | Some (attr_text, r1) \<Rightarrow>
               (case split_at (end_tag ''tool'') r1 of
                  None \<Rightarrow> None
                | Some (body, r2) \<Rightarrow>
                    let attrs = parse_attrs attr_text;
                        name = (case map_of attrs ''name'' of Some (JStr n) \<Rightarrow> py_strip is_space n | _ \<Rightarrow> []);
                        args0 = filter (\<lambda>kv. fst kv \<noteq> ''name'') attrs;
                        args1 = foldl (\<lambda>args key. if contains (start_tag key) body
                                  then items_put key (JStr (extract_raw body key)) args else args) args0 body_keys;
                        body_text = strip_newlines body;
                        args2 = (if name = ''write_file'' \<and> map_of args1 ''content'' = None \<and> body_text \<noteq> []
                                 then items_put ''content'' (JStr body_text) args1 else args1);
                        args3 = (if name = ''delegate'' \<and> map_of args2 ''task'' = None \<and> body_text \<noteq> []
                                 then items_put ''task'' (JStr (py_strip is_space body_text)) args2 else args2)
                    in if name = [] then None else Some (json_object name args3))))"

section \<open>Parsing\<close>

datatype model_output =
    ToolOutput "(string \<times> json) list"
  | FinalOutput string
  | RetryOutput string

text \<open>\<^verbatim>\<open>not str(value).strip()\<close> for a JSON value: only blank text is empty as text.\<close>

definition blank_text :: "json \<Rightarrow> bool" where
  "blank_text j = (case j of JStr s \<Rightarrow> blank s | _ \<Rightarrow> False)"

definition parse_json_tool :: "(string \<Rightarrow> string) \<Rightarrow> string \<Rightarrow> model_output" where
  "parse_json_tool fl body = (case json_loads fl body of
       Inl e \<Rightarrow> RetryOutput (retry_notice (Some ''model returned malformed tool JSON''))
     | Inr (JObj payload) \<Rightarrow>
         if (case map_of payload ''name'' of None \<Rightarrow> True | Some j \<Rightarrow> blank_text j)
         then RetryOutput (retry_notice (Some ''tool payload is missing a tool name''))
         else (case map_of payload ''args'' of
             None \<Rightarrow> ToolOutput payload
           | Some JNull \<Rightarrow> ToolOutput (items_put ''args'' (JObj []) payload)
           | Some (JObj a) \<Rightarrow> ToolOutput payload
           | Some _ \<Rightarrow> RetryOutput (retry_notice None))
     | Inr _ \<Rightarrow> RetryOutput (retry_notice (Some ''tool payload must be a JSON object'')))"

definition parse :: "(string \<Rightarrow> string) \<Rightarrow> string \<Rightarrow> model_output" where
  "parse fl raw =
     (if contains ''<tool>'' raw \<and>
         (\<not> contains ''<final>'' raw \<or> find_pos ''<tool>'' raw < find_pos ''<final>'' raw)
      then parse_json_tool fl (extract_tag raw ''tool'')
      else if contains ''<tool'' raw \<and>
         (\<not> contains ''<final>'' raw \<or> find_pos ''<tool'' raw < find_pos ''<final>'' raw)
      then (case parse_xml_tool raw of
          Some payload \<Rightarrow> ToolOutput payload
        | None \<Rightarrow> RetryOutput (retry_notice None))
      else if contains ''<final>'' raw then
        (let final = py_strip is_space (extract_tag raw ''final'') in
         if final \<noteq> [] then FinalOutput final
         else RetryOutput (retry_notice (Some ''model returned an empty <final> answer'')))
      else if py_strip is_space raw \<noteq> [] then FinalOutput (py_strip is_space raw)
      else RetryOutput (retry_notice (Some ''model returned an empty response'')))"

end
