(* ===== verification/Runtime.thy ===== *)
theory Runtime
  imports File_Search Model_Output Outcomes
begin

text \<open>
  The world a worker runs in. A worker performs one action after another: a call of the
  store, a look at the disk, a call of the model. Before each action other workers may use
  the store and other processes the disk; the clock, drawn identifiers and texts of
  exceptions are those of the action's number. An exception keeps what was done so far.
\<close>

section \<open>Worlds\<close>

record world =
  w_db :: db
  w_disk :: disk
  w_ctx :: "execution_context option"
  w_tick :: nat

record model_result =
  mr_text :: string
  mr_input_tokens :: "int option"
  mr_output_tokens :: "int option"

text \<open>
  A provider reports its physical attempts to the observer it is given and ends with a
  result or with an exception, of which the name of the class is kept.
\<close>

datatype provider_report = PStarted int | PFailed int string bool

type_synonym provider_run = "provider_report list \<times> (string + model_result)"

record process_receipt =
  px_argv :: "string list"
  px_cwd :: string
  px_exit_code :: int
  px_timed_out :: bool
  px_duration_ms :: int
  px_stdout :: string
  px_stderr :: string
  px_stdout_sha256 :: string
  px_stderr_sha256 :: string
  px_stdout_truncated :: bool
  px_stderr_truncated :: bool

text \<open>
  The parameters of a worker. \<open>rt_others\<close> is what other workers do to the store before an
  action, \<open>rt_touch\<close> what other processes do to the disk, at its several windows;
  \<open>rt_walk\<close>, \<open>rt_regex\<close>, \<open>rt_float\<close> and \<open>rt_process\<close> stand for directory walks, regular
  expressions, float literals and the process supervisor (with the effect of the process on
  the disk), \<open>rt_model\<close> for the model port.
\<close>

record runtime =
  rt_env :: env
  rt_pid :: string
  rt_now :: "nat \<Rightarrow> instant"
  rt_uuid :: "nat \<Rightarrow> nat \<Rightarrow> string"
  rt_others :: "nat \<Rightarrow> db \<Rightarrow> db"
  rt_touch :: "nat \<Rightarrow> nat \<Rightarrow> disk \<Rightarrow> disk"
  rt_text :: "nat \<Rightarrow> string"
  rt_class :: "nat \<Rightarrow> error \<Rightarrow> string"
  rt_token :: "nat \<Rightarrow> string"
  rt_os :: os_rules
  rt_tools :: file_tools
  rt_walk :: "fs_map \<Rightarrow> fs_path \<Rightarrow> fs_path list"
  rt_regex :: "string \<Rightarrow> (string \<Rightarrow> bool) option"
  rt_float :: "string \<Rightarrow> string"
  rt_process :: "nat \<Rightarrow> json \<Rightarrow> fs_path \<Rightarrow> json \<Rightarrow> process_receipt result \<times> (disk \<Rightarrow> disk)"
  rt_model_name :: string
  rt_model :: "nat \<Rightarrow> string \<Rightarrow> int \<Rightarrow> provider_run"
  rt_prompt_reader :: "(nat \<Rightarrow> string \<Rightarrow> int \<Rightarrow> db \<Rightarrow> prompt_working_set result) option"
  rt_contiguous :: bool
  rt_max_steps :: int
  rt_max_output_tokens :: int
  rt_auto_approve_files :: bool
  rt_auto_approve_processes :: bool
  rt_process_tools_enabled :: bool
  rt_checkpoint_interval :: int

section \<open>Actions\<close>

type_synonym 'a action = "world \<Rightarrow> 'a result \<times> world"

definition returnR :: "'a \<Rightarrow> 'a action" where
  "returnR x = (\<lambda>w. (Inr x, w))"

definition throwR :: "error \<Rightarrow> 'a action" where
  "throwR e = (\<lambda>w. (Inl e, w))"

definition liftR :: "'a result \<Rightarrow> 'a action" where
  "liftR r = (\<lambda>w. (r, w))"

definition bindR :: "'a action \<Rightarrow> ('a \<Rightarrow> 'b action) \<Rightarrow> 'b action" where
  "bindR m f = (\<lambda>w. case m w of (Inl e, w') \<Rightarrow> (Inl e, w') | (Inr x, w') \<Rightarrow> f x w')"

text \<open>\<^verbatim>\<open>try: m except Exception as e: h\<close>\<close>

definition catchR :: "'a action \<Rightarrow> (error \<Rightarrow> 'a action) \<Rightarrow> 'a action" where
  "catchR m h = (\<lambda>w. case m w of (Inl e, w') \<Rightarrow> h e w' | (Inr x, w') \<Rightarrow> (Inr x, w'))"

text \<open>\<^verbatim>\<open>try: m finally: c\<close>: an exception of \<open>c\<close> replaces the outcome of \<open>m\<close>.\<close>

definition finallyR :: "'a action \<Rightarrow> unit action \<Rightarrow> 'a action" where
  "finallyR m c = (\<lambda>w. let (r, w') = m w in case c w' of (Inl e, w'') \<Rightarrow> (Inl e, w'') | (Inr _, w'') \<Rightarrow> (r, w''))"

definition getR :: "(world \<Rightarrow> 'a) \<Rightarrow> 'a action" where
  "getR f = (\<lambda>w. (Inr (f w), w))"

definition set_ctx :: "execution_context option \<Rightarrow> unit action" where
  "set_ctx c = (\<lambda>w. (Inr (), w\<lparr>w_ctx := c\<rparr>))"

text \<open>A command of the store: the clock, fresh identifiers, then the database as it is by then.\<close>

definition call :: "runtime \<Rightarrow> (instant \<Rightarrow> (nat \<Rightarrow> string) \<Rightarrow> db \<Rightarrow> 'a result \<times> db) \<Rightarrow> 'a action" where
  "call rt f = (\<lambda>w.
     let n = w_tick w; (r, d) = f (rt_now rt n) (rt_uuid rt n) (rt_others rt n (w_db w)) in
     (r, w\<lparr>w_db := d, w_tick := Suc n\<rparr>))"

text \<open>A command that takes the worker's context and hands it back advanced.\<close>

definition fenced ::
  "runtime \<Rightarrow> (instant \<Rightarrow> (nat \<Rightarrow> string) \<Rightarrow> execution_context option \<Rightarrow> db
     \<Rightarrow> ('a \<times> execution_context option) result \<times> db) \<Rightarrow> 'a action" where
  "fenced rt f =
     bindR (getR w_ctx) (\<lambda>ctx.
     bindR (call rt (\<lambda>now u d. f now u ctx d)) (\<lambda>(x, ctx').
     bindR (set_ctx ctx') (\<lambda>_. returnR x)))"

definition timed_query :: "runtime \<Rightarrow> (instant \<Rightarrow> db \<Rightarrow> 'a result) \<Rightarrow> 'a action" where
  "timed_query rt f = call rt (\<lambda>now u d. (f now d, d))"

definition query :: "runtime \<Rightarrow> (db \<Rightarrow> 'a result) \<Rightarrow> 'a action" where
  "query rt f = timed_query rt (\<lambda>now. f)"

text \<open>An action on the disk; the window numbers tell the interferences of one action apart.\<close>

definition disk_op :: "runtime \<Rightarrow> (nat \<Rightarrow> disk \<Rightarrow> 'a result \<times> disk) \<Rightarrow> 'a action" where
  "disk_op rt f = (\<lambda>w.
     let n = w_tick w; (r, d) = f n (rt_touch rt n 0 (w_disk w)) in
     (r, w\<lparr>w_disk := d, w_tick := Suc n\<rparr>))"

definition disk_read :: "runtime \<Rightarrow> (fs_map \<Rightarrow> 'a result) \<Rightarrow> 'a action" where
  "disk_read rt f = disk_op rt (\<lambda>n d. (f (dk_nodes d), d))"

section \<open>What actions keep\<close>

named_theorems keeps_rules \<open>structural rules for predicates that actions keep\<close>

definition keepsR :: "(world \<Rightarrow> bool) \<Rightarrow> 'a action \<Rightarrow> bool" where
  "keepsR P m \<longleftrightarrow> (\<forall>w. P w \<longrightarrow> P (snd (m w)))"

lemma keepsRD: "keepsR P m \<Longrightarrow> P w \<Longrightarrow> m w = (r, w') \<Longrightarrow> P w'"
  by (auto simp: keepsR_def dest: spec [of _ w])

lemma keeps_basic [keeps_rules]:
  "keepsR P (returnR x)" "keepsR P (throwR e)" "keepsR P (liftR r)" "keepsR P (getR f)"
  by (simp_all add: keepsR_def returnR_def throwR_def liftR_def getR_def)

lemma keeps_bind [keeps_rules]:
  assumes "keepsR P m" "\<And>x. keepsR P (f x)"
  shows "keepsR P (bindR m f)"
  unfolding keepsR_def bindR_def
  using assms by (auto simp: keepsR_def split: prod.splits sum.splits)

lemma keeps_catch [keeps_rules]:
  assumes "keepsR P m" "\<And>e. keepsR P (h e)"
  shows "keepsR P (catchR m h)"
  unfolding keepsR_def catchR_def
  using assms by (auto simp: keepsR_def split: prod.splits sum.splits)

lemma keeps_finally [keeps_rules]:
  assumes "keepsR P m" "keepsR P c"
  shows "keepsR P (finallyR m c)"
  unfolding keepsR_def finallyR_def
  using assms by (auto simp: keepsR_def Let_def split: prod.splits sum.splits)

lemma keeps_if [keeps_rules]: "keepsR P m \<Longrightarrow> keepsR P n \<Longrightarrow> keepsR P (if c then m else n)"
  by simp

lemma keeps_case_option [keeps_rules]:
  "keepsR P m \<Longrightarrow> (\<And>y. keepsR P (f y)) \<Longrightarrow> keepsR P (case x of None \<Rightarrow> m | Some y \<Rightarrow> f y)"
  by (cases x) simp_all

lemma keeps_case_prod [keeps_rules]: "(\<And>a b. keepsR P (f a b)) \<Longrightarrow> keepsR P (case x of (a, b) \<Rightarrow> f a b)"
  by (cases x) simp

lemma keeps_case_sum [keeps_rules]:
  "(\<And>a. keepsR P (f a)) \<Longrightarrow> (\<And>b. keepsR P (g b)) \<Longrightarrow> keepsR P (case x of Inl a \<Rightarrow> f a | Inr b \<Rightarrow> g b)"
  by (cases x) simp_all

text \<open>
  Assumptions on the surroundings of a worker: identifiers are UUIDs, and other workers act
  on the database through the commands of the store only.
\<close>

definition well_behaved :: "runtime \<Rightarrow> bool" where
  "well_behaved rt \<longleftrightarrow> (\<forall>n i. is_uuid (rt_uuid rt n i)) \<and>
     (\<forall>n d. (store_step (rt_env rt))\<^sup>*\<^sup>* d (rt_others rt n d))"

definition sound_start :: "runtime \<Rightarrow> db \<Rightarrow> bool" where
  "sound_start rt d0 \<longleftrightarrow> well_behaved rt \<and> reachable (rt_env rt) d0"

text \<open>
  The interface between a worker and its surroundings: a predicate on worlds that survives
  whatever the store machine can do in well-behaved surroundings, and what other processes
  do to the disk.
\<close>

locale runtime_invariant =
  fixes rt :: runtime and d0 :: db and P :: "world \<Rightarrow> bool"
  assumes stable: "P w \<Longrightarrow> w_disk w' = w_disk w \<Longrightarrow>
      (sound_start rt d0 \<Longrightarrow> (store_step (rt_env rt))\<^sup>*\<^sup>* (w_db w) (w_db w')) \<Longrightarrow> P w'"
    and touched: "P w \<Longrightarrow> P (w\<lparr>w_disk := rt_touch rt n i (w_disk w)\<rparr>)"
    and unsound: "\<not> sound_start rt d0 \<Longrightarrow> P w"
begin

lemma keeps_call:
  assumes "\<And>now u w r d'. sound_start rt d0 \<Longrightarrow> P w \<Longrightarrow> (\<And>i. is_uuid (u i)) \<Longrightarrow> f now u (w_db w) = (r, d') \<Longrightarrow>
    (store_step (rt_env rt))\<^sup>*\<^sup>* (w_db w) d'"
  shows "keepsR P (call rt f)"
proof (unfold keepsR_def, intro allI impI)
  fix w assume P: "P w"
  let ?n = "w_tick w"
  let ?w = "w\<lparr>w_db := rt_others rt ?n (w_db w)\<rparr>"
  obtain r d where f: "f (rt_now rt ?n) (rt_uuid rt ?n) (w_db ?w) = (r, d)" by fastforce
  have s: "(store_step (rt_env rt))\<^sup>*\<^sup>* (w_db w) (w_db ?w)" "is_uuid (rt_uuid rt ?n i)" if "sound_start rt d0" for i
    using that by (auto simp: sound_start_def well_behaved_def)
  from P have "P ?w" by (rule stable) (simp_all add: s(1) [simplified])
  from P show "P (snd (call rt f w))"
  proof (rule stable)
    show "w_disk (snd (call rt f w)) = w_disk w" by (simp add: call_def Let_def split: prod.split)
    assume b: "sound_start rt d0"
    have "(store_step (rt_env rt))\<^sup>*\<^sup>* (w_db ?w) d" using b \<open>P ?w\<close> s(2) [OF b] f by (rule assms)
    with s(1) [OF b] show "(store_step (rt_env rt))\<^sup>*\<^sup>* (w_db w) (w_db (snd (call rt f w)))"
      using f by (simp add: call_def)
  qed
qed

lemma keeps_step:
  assumes "\<And>now u d r d'. (\<And>i. is_uuid (u i)) \<Longrightarrow> f now u d = (r, d') \<Longrightarrow> store_step (rt_env rt) d d'"
  shows "keepsR P (call rt f)"
  using assms by (intro keeps_call) blast

lemma keeps_set_ctx: "keepsR P (set_ctx c)"
  unfolding keepsR_def set_ctx_def by (auto intro: stable)

lemma keeps_fenced:
  assumes "\<And>now u ctx d r d'. (\<And>i. is_uuid (u i)) \<Longrightarrow> f now u ctx d = (r, d') \<Longrightarrow> store_step (rt_env rt) d d'"
  shows "keepsR P (fenced rt f)"
  unfolding fenced_def
  by (intro keeps_rules keeps_set_ctx keeps_step) (rule assms)

lemma keeps_timed_query: "keepsR P (timed_query rt f)"
  unfolding timed_query_def by (rule keeps_call) auto

lemma keeps_query: "keepsR P (query rt f)"
  unfolding query_def by (rule keeps_timed_query)

lemma keeps_disk_read: "keepsR P (disk_read rt f)"
proof (unfold keepsR_def, intro allI impI)
  fix w assume "P w"
  then have "P (w\<lparr>w_disk := rt_touch rt (w_tick w) 0 (w_disk w)\<rparr>)" by (rule touched)
  then show "P (snd (disk_read rt f w))"
    by (rule stable) (simp_all add: disk_read_def disk_op_def Let_def)
qed

lemma keeps_unsound: "\<not> sound_start rt d0 \<Longrightarrow> keepsR P m"
  unfolding keepsR_def using unsound by blast

end

text \<open>A predicate that says nothing about the disk.\<close>

locale disk_free_invariant = runtime_invariant +
  assumes disk_free: "P w \<Longrightarrow> P (w\<lparr>w_disk := dk\<rparr>)"
begin

lemma keeps_disk_op: "keepsR P (disk_op rt f)"
proof (unfold keepsR_def, intro allI impI)
  fix w assume "P w"
  then have "P (w\<lparr>w_disk := w_disk (snd (disk_op rt f w))\<rparr>)" by (rule disk_free)
  then show "P (snd (disk_op rt f w))"
    by (rule stable) (simp_all add: disk_op_def Let_def split: prod.split)
qed

end

end
