(* ===== verification/Executors.thy ===== *)
theory Executors
  imports Runtime
begin

text \<open>
  The durable executors (\<^verbatim>\<open>runtime/file_executor.py\<close>, \<^verbatim>\<open>runtime/shell_executor.py\<close>): the intent is
  dispatched in the store, the effect happens outside it, and the receipt is recorded. The
  execution hook, a seam for fault injection, is absent.
\<close>

section \<open>Store calls of the executors\<close>

definition do_dispatch ::
  "runtime \<Rightarrow> string \<Rightarrow> (string \<times> json) list \<Rightarrow> (string \<times> json) list \<Rightarrow> tool_attempt_record action" where
  "do_dispatch rt tool_call_id action_plan identity =
     fenced rt (\<lambda>now u ctx. dispatch_tool_call (rt_env rt) now (u 0) (u 1) tool_call_id action_plan identity
       (rt_pid rt) None ctx)"

definition do_finish ::
  "runtime \<Rightarrow> string \<Rightarrow> string \<Rightarrow> (string \<times> json) list option \<Rightarrow> string option \<Rightarrow> string
     \<Rightarrow> (string \<times> json) list option \<Rightarrow> tool_attempt_record action" where
  "do_finish rt attempt_id outcome receipt out media_type err =
     fenced rt (\<lambda>now u ctx. finish_tool_attempt (rt_env rt) now (u 0) attempt_id outcome (rt_pid rt) receipt
       out media_type err False ctx)"

definition do_put_blob :: "runtime \<Rightarrow> string \<Rightarrow> string \<Rightarrow> blob_row action" where
  "do_put_blob rt content media_type = call rt (\<lambda>now u. put_blob (rt_env rt) now content media_type)"

definition TEXT_MEDIA :: string where
  "TEXT_MEDIA = ''text/plain; charset=utf-8''"

text \<open>\<^verbatim>\<open>{"class": type(exc).__name__, "message": str(exc)}\<close>\<close>

definition exception_document :: "runtime \<Rightarrow> error \<Rightarrow> (string \<times> json) list action" where
  "exception_document rt e = getR (\<lambda>w.
     [(''class'', JStr (rt_class rt (w_tick w) e)), (''message'', JStr (rt_text rt (w_tick w)))])"

definition attempt_id_of :: "tool_attempt_record \<Rightarrow> string" where
  "attempt_id_of a = a_attempt_id (ta_row a)"

section \<open>Arguments\<close>

text \<open>\<^verbatim>\<open>json.loads(call.args_json)\<close>\<close>

definition stored_args :: "runtime \<Rightarrow> tool_call_record \<Rightarrow> (string \<times> json) list result" where
  "stored_args rt c =
     bindE (json_loads (rt_float rt) (c_args_json (tr_row c))) (\<lambda>j.
     case j of JObj kvs \<Rightarrow> Inr kvs | _ \<Rightarrow> Inl TypeError)"

definition arg :: "string \<Rightarrow> (string \<times> json) list \<Rightarrow> json result" where
  "arg k args = (case map_of args k of None \<Rightarrow> Inl KeyError | Some j \<Rightarrow> Inr j)"

definition as_text :: "json \<Rightarrow> string result" where
  "as_text j = (case j of JStr s \<Rightarrow> Inr s | _ \<Rightarrow> Inl TypeError)"

definition arg_text :: "string \<Rightarrow> (string \<times> json) list \<Rightarrow> string result" where
  "arg_text k args = bindE (arg k args) as_text"

text \<open>\<^verbatim>\<open>args.get("path", ".")\<close>\<close>

definition path_arg :: "(string \<times> json) list \<Rightarrow> string result" where
  "path_arg args = (case map_of args ''path'' of None \<Rightarrow> Inr ''.'' | Some j \<Rightarrow> as_text j)"

definition falsy :: "json \<Rightarrow> bool" where
  "falsy j \<longleftrightarrow> j \<in> {JNull, JBool False, JInt 0, JFloat ''0.0'', JFloat ''-0.0'', JStr [], JArr [], JObj []}"

text \<open>\<^verbatim>\<open>search\<close> tests its pattern for truth and length before it is compiled.\<close>

definition pattern_arg :: "(string \<times> json) list \<Rightarrow> string result" where
  "pattern_arg args =
     bindE (arg ''pattern'' args) (\<lambda>j.
     case j of JStr s \<Rightarrow> Inr s | _ \<Rightarrow> Inl (if falsy j then ValueError else TypeError))"

text \<open>\<^verbatim>\<open>bytes(content)\<close> of a value that is not text: zeros, or the numbers of a list.\<close>

definition byte_of :: "json \<Rightarrow> char result" where
  "byte_of j = (case j of
       JInt i \<Rightarrow> if 0 \<le> i \<and> i < 256 then Inr (char_of (nat i)) else Inl ValueError
     | JBool b \<Rightarrow> Inr (char_of (if b then 1 else 0 :: nat))
     | _ \<Rightarrow> Inl TypeError)"

definition as_bytes :: "json \<Rightarrow> string result" where
  "as_bytes j = (case j of
       JStr s \<Rightarrow> Inr s
     | JInt i \<Rightarrow> if i < 0 then Inl ValueError else Inr (replicate (nat i) (char_of (0 :: nat)))
     | JBool b \<Rightarrow> Inr (if b then [char_of (0 :: nat)] else [])
     | JArr js \<Rightarrow> mapE byte_of js
     | JObj [] \<Rightarrow> Inr []
     | _ \<Rightarrow> Inl TypeError)"

section \<open>Plans as documents\<close>

definition identity_document :: "file_identity \<Rightarrow> json" where
  "identity_document i = JObj [(''device'', JInt (fid_device i)), (''inode'', JInt (fid_inode i)),
     (''size'', JInt (fid_size i)), (''mode'', JInt (fid_mode i))]"

definition plan_document :: "string \<Rightarrow> string \<Rightarrow> file_mutation_plan \<Rightarrow> (string \<times> json) list" where
  "plan_document tool_name content_sha plan =
     [(''kind'', JStr tool_name), (''relative_path'', JStr (pl_relative_path plan)),
      (''pre_sha256'', JStr (pl_pre_sha256 plan)), (''post_sha256'', JStr (pl_post_sha256 plan)),
      (''post_content_blob_sha256'', JStr content_sha),
      (''pre_identity'', case pl_pre_identity plan of None \<Rightarrow> JNull | Some i \<Rightarrow> identity_document i),
      (''parent_identity'', identity_document (pl_parent_identity plan))]"

definition item_text :: "string \<Rightarrow> (string \<times> json) list \<Rightarrow> string result" where
  "item_text k kvs = bindE (arg k kvs) as_text"

definition item_int :: "string \<Rightarrow> (string \<times> json) list \<Rightarrow> int result" where
  "item_int k kvs = bindE (arg k kvs) (\<lambda>j. case j of JInt i \<Rightarrow> Inr i | _ \<Rightarrow> Inl TypeError)"

text \<open>\<^verbatim>\<open>FileIdentity(**d)\<close>: exactly its four fields.\<close>

definition identity_of_document :: "json \<Rightarrow> file_identity result" where
  "identity_of_document j = (case j of
       JObj kvs \<Rightarrow>
         if set (map fst kvs) \<noteq> {''device'', ''inode'', ''size'', ''mode''} then Inl TypeError
         else
           bindE (item_int ''device'' kvs) (\<lambda>dv. bindE (item_int ''inode'' kvs) (\<lambda>ino.
           bindE (item_int ''size'' kvs) (\<lambda>sz. bindE (item_int ''mode'' kvs) (\<lambda>md.
           Inr \<lparr>fid_device = dv, fid_inode = ino, fid_size = sz, fid_mode = md\<rparr>))))
     | _ \<Rightarrow> Inl TypeError)"

definition restore_plan :: "env \<Rightarrow> db \<Rightarrow> json \<Rightarrow> file_mutation_plan result" where
  "restore_plan env d j = (case j of
       JObj kvs \<Rightarrow>
         bindE (arg ''pre_identity'' kvs) (\<lambda>pre.
         bindE (item_text ''relative_path'' kvs) (\<lambda>rel.
         bindE (item_text ''pre_sha256'' kvs) (\<lambda>pre_sha.
         bindE (item_text ''post_sha256'' kvs) (\<lambda>post_sha.
         bindE (item_text ''post_content_blob_sha256'' kvs) (\<lambda>blob_sha.
         bindE (get_blob env d blob_sha) (\<lambda>blob.
         bindE (if falsy pre then Inr None else bindE (identity_of_document pre) (\<lambda>i. Inr (Some i))) (\<lambda>pre_id.
         bindE (bindE (arg ''parent_identity'' kvs) identity_of_document) (\<lambda>parent.
         Inr \<lparr>pl_relative_path = rel, pl_pre_sha256 = pre_sha, pl_post_sha256 = post_sha,
              pl_post_content = o_content blob, pl_pre_identity = pre_id, pl_parent_identity = parent\<rparr>))))))))
     | _ \<Rightarrow> Inl TypeError)"

section \<open>The file executor\<close>

definition file_identity_doc :: "(string \<times> json) list" where
  "file_identity_doc = [(''kind'', JStr ''in_process_file_executor''), (''version'', JInt 1)]"

definition read_tool :: "string \<Rightarrow> bool" where
  "read_tool name \<longleftrightarrow> name \<in> {''read_file'', ''list_files'', ''search''}"

definition plan_action ::
  "runtime \<Rightarrow> string \<Rightarrow> (string \<times> json) list \<Rightarrow> ((string \<times> json) list \<times> file_mutation_plan option) action" where
  "plan_action rt tool_name args =
     (if read_tool tool_name then
        returnR (foldl (\<lambda>d (k, v). items_put k v d) [(''kind'', JStr tool_name)] args, None)
      else
        bindR (if tool_name = ''write_file'' then
                 bindR (liftR (arg ''path'' args)) (\<lambda>p.
                 bindR (liftR (arg ''content'' args)) (\<lambda>c.
                 bindR (liftR (as_bytes c)) (\<lambda>content.
                 disk_read rt (\<lambda>fs. bindE (check_size (rt_tools rt) content) (\<lambda>_.
                   bindE (as_text p) (\<lambda>path. plan_write (rt_env rt) (rt_tools rt) fs path content))))))
               else if tool_name = ''patch_file'' then
                 bindR (liftR (arg ''path'' args)) (\<lambda>p.
                 bindR (liftR (arg ''old_text'' args)) (\<lambda>old_text.
                 bindR (liftR (arg ''new_text'' args)) (\<lambda>new_text.
                 disk_read rt (\<lambda>fs.
                   bindE (as_text p) (\<lambda>path.
                   bindE (read_text (rt_env rt) (rt_tools rt) fs path) (\<lambda>_.
                   bindE (as_text old_text) (\<lambda>old1. bindE (as_text new_text) (\<lambda>new1.
                   plan_patch (rt_env rt) (rt_tools rt) fs path old1 new1))))))))
               else throwR ValueError) (\<lambda>plan.
        bindR (do_put_blob rt (pl_post_content plan) ''application/octet-stream'') (\<lambda>blob.
        returnR (plan_document tool_name (o_sha256 blob) plan, Some plan))))"

definition receipt_document :: "file_mutation_receipt \<Rightarrow> (string \<times> json) list" where
  "receipt_document r =
     [(''relative_path'', JStr (rc_relative_path r)), (''pre_sha256'', JStr (rc_pre_sha256 r)),
      (''post_sha256'', JStr (rc_post_sha256 r)), (''byte_length'', JInt (rc_byte_length r)),
      (''already_applied'', JBool (rc_already_applied r))]"

text \<open>The effect of a dispatched call: its receipt and output.\<close>

definition file_effect ::
  "runtime \<Rightarrow> string \<Rightarrow> (string \<times> json) list \<Rightarrow> file_mutation_plan option
     \<Rightarrow> ((string \<times> json) list \<times> string option) action" where
  "file_effect rt tool_name args mutation_plan =
     (if tool_name = ''read_file'' then
        bindR (liftR (arg_text ''path'' args)) (\<lambda>path.
        bindR (disk_read rt (\<lambda>fs. read_text (rt_env rt) (rt_tools rt) fs path)) (\<lambda>(content, digest).
        returnR ([(''path'', JStr path), (''sha256'', JStr digest), (''bytes'', JInt (int (length content)))],
                 Some content)))
      else if tool_name = ''list_files'' then
        bindR (liftR (path_arg args)) (\<lambda>path.
        bindR (disk_read rt (\<lambda>fs. list_files (rt_tools rt) (rt_walk rt) fs path 500)) (\<lambda>entries.
        returnR ([(''entries'', JInt (int (length entries)))], Some (json_dumps (JArr (map JStr entries))))))
      else if tool_name = ''search'' then
        bindR (liftR (pattern_arg args)) (\<lambda>pattern.
        bindR (liftR (path_arg args)) (\<lambda>path.
        bindR (disk_read rt (\<lambda>fs. search_files (rt_tools rt) (rt_walk rt) (rt_regex rt) fs pattern path 100 1000))
          (\<lambda>matches.
        returnR ([(''matches'', JInt (int (length matches)))], Some (json_dumps (JArr matches))))))
      else case mutation_plan of
        Some plan \<Rightarrow>
          bindR (disk_op rt (\<lambda>n. execute_plan (rt_env rt) (rt_os rt) (rt_tools rt) plan (rt_token rt n)
            (rt_touch rt n 1) (rt_touch rt n 2))) (\<lambda>r.
          returnR (receipt_document r, None))
      | None \<Rightarrow> throwR ValueError)"

definition execute_dispatched ::
  "runtime \<Rightarrow> tool_attempt_record \<Rightarrow> string \<Rightarrow> (string \<times> json) list \<Rightarrow> file_mutation_plan option
     \<Rightarrow> tool_attempt_record action" where
  "execute_dispatched rt attempt tool_name args mutation_plan =
     catchR
       (bindR (file_effect rt tool_name args mutation_plan) (\<lambda>(receipt, out).
        do_finish rt (attempt_id_of attempt) ''succeeded'' (Some receipt) out TEXT_MEDIA None))
       (\<lambda>e.
        if e = FileConflictError then
          bindR (getR (\<lambda>w. rt_text rt (w_tick w))) (\<lambda>evidence.
          do_finish rt (attempt_id_of attempt) ''uncertain'' None None TEXT_MEDIA
            (Some [(''evidence'', JStr evidence)]))
        else
          bindR (exception_document rt e) (\<lambda>doc.
          do_finish rt (attempt_id_of attempt) ''failed'' None None TEXT_MEDIA (Some doc)))"

definition file_execute :: "runtime \<Rightarrow> string \<Rightarrow> tool_attempt_record action" where
  "file_execute rt tool_call_id =
     bindR (query rt (\<lambda>d. get_tool_call (rt_env rt) d tool_call_id)) (\<lambda>c.
     bindR (liftR (stored_args rt c)) (\<lambda>args.
     bindR (catchR (bindR (plan_action rt (c_tool_name (tr_row c)) args) (\<lambda>p. returnR (Inr p)))
                   (\<lambda>e. returnR (Inl e))) (\<lambda>planned.
     case planned of
       Inl e \<Rightarrow>
         bindR (exception_document rt e) (\<lambda>doc.
         bindR (do_dispatch rt tool_call_id
           [(''kind'', JStr ''planning_failed''), (''error_class'', the (map_of doc ''class''))] file_identity_doc) (\<lambda>attempt.
         do_finish rt (attempt_id_of attempt) ''failed'' None None TEXT_MEDIA (Some doc)))
     | Inr (action_plan, mutation_plan) \<Rightarrow>
         bindR (do_dispatch rt tool_call_id action_plan file_identity_doc) (\<lambda>attempt.
         execute_dispatched rt attempt (c_tool_name (tr_row c)) args mutation_plan))))"

definition do_uncertain :: "runtime \<Rightarrow> string \<Rightarrow> string \<Rightarrow> tool_attempt_record action" where
  "do_uncertain rt attempt_id evidence =
     do_finish rt attempt_id ''uncertain'' None None TEXT_MEDIA (Some [(''evidence'', JStr evidence)])"

definition file_recover :: "runtime \<Rightarrow> string \<Rightarrow> tool_attempt_record action" where
  "file_recover rt attempt_id =
     bindR (query rt (\<lambda>d. get_tool_attempt d attempt_id)) (\<lambda>attempt.
     bindR (query rt (\<lambda>d. get_tool_call (rt_env rt) d (a_tool_call_id (ta_row attempt)))) (\<lambda>c.
     if a_state (ta_row attempt) \<noteq> TC_DISPATCHED then returnR attempt
     else
       bindR (liftR (stored_args rt c)) (\<lambda>args.
       if read_tool (c_tool_name (tr_row c)) then
         execute_dispatched rt attempt (c_tool_name (tr_row c)) args None
       else (case tr_action_plan c of
           None \<Rightarrow> do_uncertain rt attempt_id ''durable file action plan is missing''
         | Some document \<Rightarrow>
             bindR (query rt (\<lambda>d. restore_plan (rt_env rt) d document)) (\<lambda>plan.
             bindR (disk_read rt (reconcile (rt_env rt) (rt_tools rt) plan)) (\<lambda>decision.
             if decision = RD_CONFLICT
             then do_uncertain rt attempt_id ''workspace no longer matches pre or post hash''
             else execute_dispatched rt attempt (c_tool_name (tr_row c)) args (Some plan)))))))"

section \<open>The process executor\<close>

definition process_cwd :: "file_tools \<Rightarrow> fs_map \<Rightarrow> json option \<Rightarrow> fs_path result" where
  "process_cwd ft fs relative = (case relative of
       None \<Rightarrow> Inr (wg_workspace_root (ft_guard ft))
     | Some JNull \<Rightarrow> Inr (wg_workspace_root (ft_guard ft))
     | Some (JStr s) \<Rightarrow>
         if s = [] \<or> s = ''.'' then Inr (wg_workspace_root (ft_guard ft))
         else
           bindE (resolve_for_read fs (ft_guard ft) s) (\<lambda>guarded.
           if \<not> gp_exists guarded \<or> \<not> is_dir_at fs (gp_absolute guarded) then Inl ValueError
           else Inr (gp_absolute guarded))
     | Some j \<Rightarrow> Inl (if falsy j then PathGuardError else TypeError))"

definition path_text :: "fs_path \<Rightarrow> string" where
  "path_text p = ''/'' @ join_with (CHR ''/'') p"

definition process_document :: "process_receipt \<Rightarrow> (string \<times> json) list" where
  "process_document r =
     [(''argv'', JArr (map JStr (px_argv r))), (''cwd'', JStr (px_cwd r)), (''exit_code'', JInt (px_exit_code r)),
      (''timed_out'', JBool (px_timed_out r)), (''duration_ms'', JInt (px_duration_ms r)),
      (''stdout_sha256'', JStr (px_stdout_sha256 r)), (''stderr_sha256'', JStr (px_stderr_sha256 r)),
      (''stdout_truncated'', JBool (px_stdout_truncated r)), (''stderr_truncated'', JBool (px_stderr_truncated r))]"

definition process_output :: "process_receipt \<Rightarrow> string" where
  "process_output r = json_dumps (JObj [(''stderr'', JStr (decode_replace (px_stderr r))),
     (''stdout'', JStr (decode_replace (px_stdout r)))])"

definition timeout_arg :: "(string \<times> json) list \<Rightarrow> json" where
  "timeout_arg args = (case map_of args ''timeout_seconds'' of None \<Rightarrow> JInt 30 | Some j \<Rightarrow> j)"

definition shell_execute :: "runtime \<Rightarrow> string \<Rightarrow> tool_attempt_record action" where
  "shell_execute rt tool_call_id =
     bindR (query rt (\<lambda>d. get_tool_call (rt_env rt) d tool_call_id)) (\<lambda>c.
     if c_tool_name (tr_row c) \<noteq> ''run_process'' then throwR ValueError
     else
       bindR (liftR (stored_args rt c)) (\<lambda>args.
       bindR (disk_read rt (\<lambda>fs. process_cwd (rt_tools rt) fs (map_of args ''cwd''))) (\<lambda>cwd.
       bindR (liftR (arg ''argv'' args)) (\<lambda>argv.
       bindR (do_dispatch rt tool_call_id
         [(''kind'', JStr ''run_process''), (''argv'', argv), (''cwd'', JStr (path_text cwd)),
          (''timeout_seconds'', timeout_arg args)]
         [(''kind'', JStr ''process_supervisor''), (''version'', JInt 1)]) (\<lambda>attempt.
       catchR
         (bindR (disk_op rt (\<lambda>n d. let (r, effect) = rt_process rt n argv cwd (timeout_arg args) in (r, effect d))) (\<lambda>receipt.
          do_finish rt (attempt_id_of attempt) ''succeeded'' (Some (process_document receipt))
            (Some (process_output receipt)) ''application/json'' None))
         (\<lambda>e.
          bindR (exception_document rt e) (\<lambda>doc.
          do_finish rt (attempt_id_of attempt) ''failed'' None None TEXT_MEDIA (Some doc))))))))"

definition shell_recover :: "runtime \<Rightarrow> string \<Rightarrow> tool_attempt_record action" where
  "shell_recover rt attempt_id =
     bindR (query rt (\<lambda>d. get_tool_attempt d attempt_id)) (\<lambda>attempt.
     if a_state (ta_row attempt) \<noteq> TC_DISPATCHED then returnR attempt
     else do_uncertain rt attempt_id
       (''process dispatch was durable but no terminal receipt exists; '' @
        ''arbitrary commands are not automatically replayed''))"

end
