(* ===== verification/Agent.thy ===== *)
theory Agent
  imports Executors
begin

text \<open>
  The durable agent loop (\<^verbatim>\<open>runtime/agent.py\<close>): under a lease, the worker renews it, takes a
  checkpoint when one is due, finishes the tool call that is open, or asks the model for
  the next step and records what it answered, until the run is completed, waits for an
  approval, fails or reaches the limit of steps.
\<close>

section \<open>Outcomes\<close>

datatype outcome_status =
  OC_completed | OC_waiting_approval | OC_needs_attention | OC_step_limit | OC_cancelled | OC_budget_exceeded

record agent_outcome =
  oc_status :: outcome_status
  oc_final_answer :: "string option"
  oc_approval_id :: "string option"
  oc_tool_call_id :: "string option"
  oc_detail :: "string option"

definition outcome :: "outcome_status \<Rightarrow> string option \<Rightarrow> agent_outcome" where
  "outcome st detail = \<lparr>oc_status = st, oc_final_answer = None, oc_approval_id = None,
     oc_tool_call_id = None, oc_detail = detail\<rparr>"

definition tool_outcome :: "outcome_status \<Rightarrow> string option \<Rightarrow> string \<Rightarrow> string option \<Rightarrow> agent_outcome" where
  "tool_outcome st approval tool_call_id detail = \<lparr>oc_status = st, oc_final_answer = None,
     oc_approval_id = approval, oc_tool_call_id = Some tool_call_id, oc_detail = detail\<rparr>"

section \<open>Store calls of the loop\<close>

definition tryR :: "'a action \<Rightarrow> (error + 'a) action" where
  "tryR m = catchR (bindR m (\<lambda>x. returnR (Inr x))) (\<lambda>e. returnR (Inl e))"

definition get_projection :: "runtime \<Rightarrow> string \<Rightarrow> run_projection action" where
  "get_projection rt k = query rt (\<lambda>d. get_run_projection (rt_env rt) d k)"

definition agent_event :: "runtime \<Rightarrow> run_projection \<Rightarrow> string \<Rightarrow> string option \<Rightarrow> payload \<Rightarrow> event_request" where
  "agent_event rt p k cause pl = \<lparr>q_session_id = p_session_id p, q_process_instance_id = rt_pid rt,
     q_payload = pl, q_turn_id = Some (p_turn_id p), q_run_id = Some k, q_causation_event_id = cause,
     q_correlation_id = None\<rparr>"

definition do_append ::
  "runtime \<Rightarrow> run_projection \<Rightarrow> string \<Rightarrow> string option \<Rightarrow> payload \<Rightarrow> event_envelope action" where
  "do_append rt p k cause pl =
     fenced rt (\<lambda>now u ctx. append_event (rt_env rt) now (u 0) (agent_event rt p k cause pl) ctx)"

definition do_terminate :: "runtime \<Rightarrow> string \<Rightarrow> execution_status \<Rightarrow> string \<Rightarrow> unit action" where
  "do_terminate rt k st reason =
     bindR (fenced rt (\<lambda>now u ctx. terminate_run (rt_env rt) now (u 0) k st reason (rt_pid rt) ctx))
       (\<lambda>_. returnR ())"

definition do_settle :: "runtime \<Rightarrow> bool \<Rightarrow> string \<Rightarrow> int \<Rightarrow> unit action" where
  "do_settle rt reserved reservation_id consumed =
     (if reserved then
        bindR (fenced rt (\<lambda>now u ctx. settle_budget (rt_env rt) now (u 0) reservation_id consumed (rt_pid rt) ctx))
          (\<lambda>_. returnR ())
      else returnR ())"

text \<open>\<^verbatim>\<open>store.synchronize_execution_context(execution_context)\<close>\<close>

definition do_synchronize :: "runtime \<Rightarrow> unit action" where
  "do_synchronize rt =
     bindR (getR w_ctx) (\<lambda>c. case c of
         None \<Rightarrow> throwR TypeError
       | Some ctx \<Rightarrow>
           bindR (timed_query rt (\<lambda>now. synchronize_execution_context now ctx)) (\<lambda>(version, ctx').
           set_ctx (Some ctx')))"

definition LEASE_TTL :: int where
  "LEASE_TTL = 300"

definition renew_lease :: "runtime \<Rightarrow> unit action" where
  "renew_lease rt =
     bindR (getR w_ctx) (\<lambda>c. case c of
         None \<Rightarrow> throwR TypeError
       | Some ctx \<Rightarrow>
           bindR (call rt (\<lambda>now u. renew_run_lease ctx LEASE_TTL now)) (\<lambda>renewed.
           bindR (liftR (renew ctx (Aware (l_expires_at renewed)) (l_epoch renewed))) (\<lambda>ctx'.
           bindR (set_ctx (Some ctx')) (\<lambda>_. do_synchronize rt))))"

definition stream_version :: "world \<Rightarrow> int" where
  "stream_version w = (case w_ctx w of None \<Rightarrow> 0 | Some c \<Rightarrow> ctx_stream_version c)"

definition maybe_checkpoint :: "runtime \<Rightarrow> string \<Rightarrow> unit action" where
  "maybe_checkpoint rt k =
     bindR (query rt (\<lambda>d. latest_checkpoint_through_seq (rt_env rt) d k)) (\<lambda>latest.
     bindR (getR stream_version) (\<lambda>version.
     if version - latest < rt_checkpoint_interval rt then returnR ()
     else
       bindR (fenced rt (\<lambda>now u ctx. commit_run_checkpoint (rt_env rt) now (u 0) k
         (''auto:'' @ k @ '':'' @ int_text version) (rt_pid rt) ctx)) (\<lambda>_. returnR ())))"

section \<open>The observer of model attempts\<close>

record observer =
  ob_offset :: int
  ob_last_started :: "event_envelope option"
  ob_last_attempt :: "int option"
  ob_failed :: "int list"

definition observer_new :: "int \<Rightarrow> observer" where
  "observer_new offset = \<lparr>ob_offset = offset, ob_last_started = None, ob_last_attempt = None, ob_failed = []\<rparr>"

definition started_id :: "observer \<Rightarrow> string option" where
  "started_id ob = map_option e_event_id (ob_last_started ob)"

text \<open>\<^verbatim>\<open>except Exception as exc: raise DurableObservationError(...) from exc\<close>\<close>

definition durable :: "'a action \<Rightarrow> 'a action" where
  "durable m = catchR m (\<lambda>e. throwR DurableObservationError)"

definition observe_started :: "runtime \<Rightarrow> string \<Rightarrow> string \<Rightarrow> int \<Rightarrow> observer \<Rightarrow> int \<Rightarrow> observer action" where
  "observe_started rt k model_call_id step ob attempt_no =
     bindR (get_projection rt k) (\<lambda>p.
     bindR (durable (do_append rt p k None
       (ModelCallStartedPayload model_call_id (rt_model_name rt) (ob_offset ob + attempt_no) (Some step)))) (\<lambda>started.
     returnR (ob\<lparr>ob_last_attempt := Some (ob_offset ob + attempt_no), ob_last_started := Some started\<rparr>)))"

definition observe_failed :: "runtime \<Rightarrow> string \<Rightarrow> string \<Rightarrow> observer \<Rightarrow> int \<Rightarrow> string \<Rightarrow> bool \<Rightarrow> observer action" where
  "observe_failed rt k model_call_id ob attempt_no error_class retryable =
     bindR (get_projection rt k) (\<lambda>p.
     bindR (durable (do_append rt p k (started_id ob)
       (ModelCallFailedPayload model_call_id error_class retryable))) (\<lambda>_.
     returnR (ob\<lparr>ob_failed := (ob_offset ob + attempt_no) # ob_failed ob\<rparr>)))"

text \<open>
  The reports of one call of the model port. An exception of the observer ends the call;
  the observer keeps what it recorded.
\<close>

fun run_reports ::
  "runtime \<Rightarrow> string \<Rightarrow> string \<Rightarrow> int \<Rightarrow> observer \<Rightarrow> provider_report list \<Rightarrow> (observer \<times> error option) action" where
  "run_reports rt k mc step ob [] = returnR (ob, None)"
| "run_reports rt k mc step ob (rep # reps) =
     bindR (tryR (case rep of
         PStarted n \<Rightarrow> observe_started rt k mc step ob n
       | PFailed n c retryable \<Rightarrow> observe_failed rt k mc ob n c retryable)) (\<lambda>r.
     case r of
       Inl e \<Rightarrow> returnR (ob, Some e)
     | Inr ob' \<Rightarrow> run_reports rt k mc step ob' reps)"

section \<open>Calling the model\<close>

definition agent_prompt :: "runtime \<Rightarrow> string \<Rightarrow> int \<Rightarrow> int option \<Rightarrow> string action" where
  "agent_prompt rt k step expected_through_seq =
     (case rt_prompt_reader rt of
        Some reader \<Rightarrow>
          (case expected_through_seq of
             None \<Rightarrow> throwR ValueError
           | Some v \<Rightarrow>
               bindR (getR w_tick) (\<lambda>n.
               bindR (query rt (reader n k v)) (\<lambda>ws.
               liftR (render_agent_prompt ws step (rt_process_tools_enabled rt)))))
      | None \<Rightarrow>
          bindR (query rt (\<lambda>d. build_authoritative_prompt_working_set (rt_env rt) d k None None
            PROMPT_RECENT_EVENT_LIMIT PROMPT_TRANSCRIPT_ENTRY_LIMIT (rt_contiguous rt))) (\<lambda>ws.
          liftR (render_agent_prompt ws step (rt_process_tools_enabled rt))))"

datatype model_outcome = MReturned model_result | MRaised string | MObservation

definition complete_model :: "runtime \<Rightarrow> string \<Rightarrow> string \<Rightarrow> int \<Rightarrow> observer \<Rightarrow> (observer \<times> model_outcome) action" where
  "complete_model rt k mc step ob =
     bindR (getR stream_version) (\<lambda>version.
     bindR (tryR (agent_prompt rt k step (Some version))) (\<lambda>prompt.
     case prompt of
       Inl e \<Rightarrow> bindR (getR (\<lambda>w. rt_class rt (w_tick w) e)) (\<lambda>c. returnR (ob, MRaised c))
     | Inr text \<Rightarrow>
         bindR (getR (\<lambda>w. rt_model rt (w_tick w) text (rt_max_output_tokens rt))) (\<lambda>(reports, result).
         bindR (run_reports rt k mc step ob reports) (\<lambda>(ob', failure).
         bindR (getR w_tick) (\<lambda>n.
         returnR (ob', case failure of
             Some e \<Rightarrow> if e = DurableObservationError then MObservation else MRaised (rt_class rt n e)
           | None \<Rightarrow> (case result of Inl c \<Rightarrow> MRaised c | Inr r \<Rightarrow> MReturned r)))))))"

text \<open>After the provider raised: make sure that the attempt and its failure are recorded.\<close>

definition record_failure :: "runtime \<Rightarrow> string \<Rightarrow> string \<Rightarrow> int \<Rightarrow> observer \<Rightarrow> string \<Rightarrow> unit action" where
  "record_failure rt k mc step ob error_class =
     bindR (if ob_last_attempt ob = None then observe_started rt k mc step ob 1 else returnR ob) (\<lambda>ob1.
     case ob_last_attempt ob1 of
       None \<Rightarrow> throwR RuntimeError
     | Some n \<Rightarrow>
         if n \<in> set (ob_failed ob1) then returnR ()
         else bindR (observe_failed rt k mc ob1 (n - ob_offset ob) error_class False) (\<lambda>_. returnR ()))"

definition model_budget_id :: "string \<Rightarrow> int \<Rightarrow> string" where
  "model_budget_id k step = ''model-budget:'' @ k @ '':'' @ int_text step"

definition model_call_id_of :: "string \<Rightarrow> int \<Rightarrow> string" where
  "model_call_id_of k step = ''model-call:'' @ k @ '':'' @ int_text step"

definition call_model :: "runtime \<Rightarrow> string \<Rightarrow> int \<Rightarrow> (event_envelope \<times> string) action" where
  "call_model rt k step =
     bindR (renew_lease rt) (\<lambda>_.
     bindR (get_projection rt k) (\<lambda>p.
     bindR (query rt (\<lambda>d. Inr (get_model_call d (model_call_id_of k step)))) (\<lambda>existing.
     if (case existing of None \<Rightarrow> False | Some m \<Rightarrow> mc_run_id m \<noteq> k \<or> mc_step m \<noteq> step)
     then throwR ModelInvocationError
     else if (case existing of None \<Rightarrow> False
         | Some m \<Rightarrow> mc_model_name m \<noteq> rt_model_name rt \<and> mc_model_name m \<noteq> ''legacy-unknown'')
     then throwR ModelInvocationError
     else
       let reserved = (map_of (p_budget_limits p) ''model_calls'' \<noteq> None);
           rid = model_budget_id k step; mc = model_call_id_of k step;
           previous = (case existing of None \<Rightarrow> 0 | Some m \<Rightarrow> mc_latest_attempt_no m) in
       bindR (if reserved then
                bindR (fenced rt (\<lambda>now u ctx. reserve_budget (rt_env rt) now (u 0) k rid ''model_calls'' 1 (rt_pid rt) ctx))
                  (\<lambda>_. returnR ())
              else returnR ()) (\<lambda>_.
       bindR (complete_model rt k mc step (observer_new previous)) (\<lambda>(ob, oc).
       case oc of
         MObservation \<Rightarrow>
           bindR (do_settle rt reserved rid (if ob_last_started ob \<noteq> None then 1 else 0)) (\<lambda>_.
           throwR ModelInvocationError)
       | MRaised error_class \<Rightarrow>
           bindR (catchR (record_failure rt k mc step ob error_class) (\<lambda>e.
             if e = DurableObservationError
             then bindR (do_settle rt reserved rid 1) (\<lambda>_. throwR ModelInvocationError)
             else throwR e)) (\<lambda>_.
           bindR (do_settle rt reserved rid 1) (\<lambda>_. throwR ModelInvocationError))
       | MReturned result \<Rightarrow>
           bindR (do_put_blob rt (mr_text result) TEXT_MEDIA) (\<lambda>blob.
           bindR (do_append rt p k (started_id ob)
             (ModelResponseReceivedPayload mc (o_sha256 blob) (mr_input_tokens result) (mr_output_tokens result))) (\<lambda>event.
           bindR (do_settle rt reserved rid 1) (\<lambda>_.
           returnR (event, mr_text result)))))))))"

definition settle_model_budget :: "runtime \<Rightarrow> string \<Rightarrow> int \<Rightarrow> unit action" where
  "settle_model_budget rt k step =
     bindR (get_projection rt k) (\<lambda>p.
     do_settle rt (map_of (p_budget_limits p) ''model_calls'' \<noteq> None) (model_budget_id k step) 1)"

definition latest_unconsumed_model_response ::
  "runtime \<Rightarrow> string \<Rightarrow> (event_envelope \<times> string \<times> int) option action" where
  "latest_unconsumed_model_response rt k =
     bindR (query rt (\<lambda>d. get_latest_unconsumed_model_response (rt_env rt) d k)) (\<lambda>pending.
     case pending of
       None \<Rightarrow> returnR None
     | Some pm \<Rightarrow>
         bindR (query rt (\<lambda>d. get_blob (rt_env rt) d (pm_response_blob_sha256 pm))) (\<lambda>b.
         if valid_utf8 (o_content b) then returnR (Some (pm_event pm, o_content b, pm_step pm))
         else throwR UnicodeDecodeError))"

section \<open>Tool calls\<close>

definition FILE_TOOLS :: "string list" where
  "FILE_TOOLS = [''read_file'', ''list_files'', ''search'', ''write_file'', ''patch_file'']"

definition classify :: "bool \<Rightarrow> string \<Rightarrow> (string \<times> json) list \<Rightarrow> (tool_effect_class \<times> json list) result" where
  "classify process_tools_enabled name args =
     (if name = ''read_file'' then bindE (arg ''path'' args) (\<lambda>p. Inr (TE_PURE, [p]))
      else if name = ''list_files'' \<or> name = ''search'' then
        (let path = (case map_of args ''path'' of None \<Rightarrow> JStr ''.'' | Some j \<Rightarrow> j) in
         Inr (TE_PURE, if path = JStr [] \<or> path = JStr ''.'' then [] else [path]))
      else if name = ''write_file'' \<or> name = ''patch_file'' then
        bindE (arg ''path'' args) (\<lambda>p. Inr (TE_DETECTABLE_IDEMPOTENT, [p]))
      else if name = ''run_process'' then
        (if \<not> process_tools_enabled then Inl ValueError else Inr (TE_NON_IDEMPOTENT, []))
      else Inl ValueError)"

text \<open>The call a payload of the model describes: name, arguments, effect and targets.\<close>

definition tool_request ::
  "bool \<Rightarrow> (string \<times> json) list \<Rightarrow> (string \<times> (string \<times> json) list \<times> tool_effect_class \<times> json list) result" where
  "tool_request process_tools_enabled payload =
     bindE (arg ''name'' payload) (\<lambda>name.
     let args = (case map_of payload ''args'' of
           Some a \<Rightarrow> a
         | None \<Rightarrow> (case map_of payload ''arguments'' of Some a \<Rightarrow> a | None \<Rightarrow> JObj [])) in
     case (name, args) of
       (JStr n, JObj a) \<Rightarrow> bindE (classify process_tools_enabled n a) (\<lambda>(effect, targets). Inr (n, a, effect, targets))
     | _ \<Rightarrow> Inl TypeError)"

fun py_of_json :: "json \<Rightarrow> py_value" where
  "py_of_json JNull = PyNone"
| "py_of_json (JBool b) = PyBool b"
| "py_of_json (JInt i) = PyInt i"
| "py_of_json (JFloat r) =
     (if r \<in> {''nan'', ''inf'', ''-inf''} then PyNonFinite else PyFloat r (r = ''0.0'' \<or> r = ''-0.0''))"
| "py_of_json (JStr s) = PyStr s"
| "py_of_json (JArr js) = PyList (map py_of_json js)"
| "py_of_json (JObj kvs) = PyDict (map (\<lambda>kv. (PyStr (fst kv), py_of_json (snd kv))) kvs)"

text \<open>
  \<^verbatim>\<open>propose_tool_call\<close> normalises its arguments before its targets; a target that is not text
  makes \<^verbatim>\<open>unicodedata.normalize\<close> raise \<^const>\<open>TypeError\<close>.
\<close>

definition do_propose ::
  "runtime \<Rightarrow> string \<Rightarrow> string \<Rightarrow> string \<Rightarrow> (string \<times> json) list \<Rightarrow> tool_effect_class \<Rightarrow> json list
     \<Rightarrow> tool_call_record action" where
  "do_propose rt k response_event_id name args effect targets =
     (case mapE as_text targets of
        Inl e \<Rightarrow> liftR (bindE (canonicalize_tool_args (rt_env rt) (py_of_json (JObj args))) (\<lambda>_. Inl e))
      | Inr paths \<Rightarrow>
          fenced rt (\<lambda>now u ctx. propose_tool_call (rt_env rt) now (u 0) (u 1) k response_event_id 0 name ''1''
            (py_of_json (JObj args)) effect paths ''policy-v1'' (rt_pid rt) ctx))"

definition auto_approved :: "runtime \<Rightarrow> tool_effect_class \<Rightarrow> bool" where
  "auto_approved rt effect \<longleftrightarrow>
     effect = TE_DETECTABLE_IDEMPOTENT \<and> rt_auto_approve_files rt \<or>
     effect = TE_NON_IDEMPOTENT \<and> rt_auto_approve_processes rt"

text \<open>The approval of a proposed call: the call to go on with, or the outcome to stop with.\<close>

definition approve_tool :: "runtime \<Rightarrow> string \<Rightarrow> tool_call_record \<Rightarrow> (tool_call_record + agent_outcome) action" where
  "approve_tool rt tool_call_id c =
     (if c_state (tr_row c) \<noteq> TC_PROPOSED then returnR (Inl c)
      else
        bindR (fenced rt (\<lambda>now u ctx. request_tool_approval (rt_env rt) now (u 0) (u 1) tool_call_id
          ''runtime-policy-v1'' (rt_pid rt) ctx)) (\<lambda>approval.
        if \<not> auto_approved rt (c_effect_class (tr_row c)) then
          returnR (Inr (tool_outcome OC_waiting_approval (Some (ap_approval_id (fst approval))) tool_call_id None))
        else
          bindR (fenced rt (\<lambda>now u ctx. decide_tool_approval (rt_env rt) now (u 0) (ap_approval_id (fst approval))
            (c_approval_fingerprint (tr_row c)) AD_ALLOW_ONCE ''runtime:auto-policy''
            ''explicit runtime auto-approval configuration'' (rt_pid rt) None ctx)) (\<lambda>_.
          bindR (query rt (\<lambda>d. get_tool_call (rt_env rt) d tool_call_id)) (\<lambda>c'. returnR (Inl c')))))"

definition after_effect ::
  "runtime \<Rightarrow> string \<Rightarrow> string \<Rightarrow> string \<Rightarrow> string \<Rightarrow> tool_attempt_record \<Rightarrow> agent_outcome option action" where
  "after_effect rt k tool_call_id reason detail result =
     (if a_state (ta_row result) = TC_UNCERTAIN then
        bindR (do_terminate rt k ES_NEEDS_ATTENTION reason) (\<lambda>_.
        returnR (Some (tool_outcome OC_needs_attention None tool_call_id (Some detail))))
      else returnR None)"

definition continue_tool :: "runtime \<Rightarrow> string \<Rightarrow> string \<Rightarrow> agent_outcome option action" where
  "continue_tool rt k tool_call_id =
     bindR (renew_lease rt) (\<lambda>_.
     bindR (query rt (\<lambda>d. get_tool_call (rt_env rt) d tool_call_id)) (\<lambda>c0.
     bindR (approve_tool rt tool_call_id c0) (\<lambda>r.
     case r of
       Inr oc \<Rightarrow> returnR (Some oc)
     | Inl c \<Rightarrow>
         if c_state (tr_row c) = TC_WAITING_APPROVAL then
           bindR (query rt (\<lambda>d. Inr (get_pending_approval_for_tool d tool_call_id))) (\<lambda>pending.
           returnR (Some (tool_outcome OC_waiting_approval (map_option (\<lambda>a. ap_approval_id (fst a)) pending)
             tool_call_id None)))
         else if c_state (tr_row c) = TC_READY then
           (if c_tool_name (tr_row c) \<in> set FILE_TOOLS then
              bindR (file_execute rt tool_call_id)
                (after_effect rt k tool_call_id ''tool outcome is uncertain'' ''tool uncertain'')
            else if c_tool_name (tr_row c) = ''run_process'' then
              bindR (shell_execute rt tool_call_id)
                (after_effect rt k tool_call_id ''tool outcome is uncertain'' ''tool uncertain'')
            else returnR (Some (outcome OC_needs_attention (Some ''unsupported tool''))))
         else if c_state (tr_row c) = TC_DISPATCHED then
           bindR (query rt (\<lambda>d. get_dispatched_attempt d tool_call_id)) (\<lambda>attempt.
           case attempt of
             None \<Rightarrow> returnR (Some (tool_outcome OC_needs_attention None tool_call_id
               (Some ''dispatched tool is missing its attempt state'')))
           | Some a \<Rightarrow>
               bindR (if c_tool_name (tr_row c) \<in> set FILE_TOOLS then file_recover rt (attempt_id_of a)
                      else shell_recover rt (attempt_id_of a))
                 (after_effect rt k tool_call_id ''recovered tool outcome is uncertain'' ''tool recovery is uncertain''))
         else returnR None)))"

section \<open>The loop\<close>

definition reject_output :: "runtime \<Rightarrow> string \<Rightarrow> event_envelope \<Rightarrow> string \<Rightarrow> unit action" where
  "reject_output rt k response reason =
     bindR (get_projection rt k) (\<lambda>p.
     bindR (do_append rt p k (Some (e_event_id response))
       (ModelOutputRejectedPayload (e_event_id response) reason)) (\<lambda>_. returnR ()))"

definition commit_answer :: "runtime \<Rightarrow> string \<Rightarrow> event_envelope \<Rightarrow> string \<Rightarrow> agent_outcome action" where
  "commit_answer rt k response answer =
     bindR (do_put_blob rt answer TEXT_MEDIA) (\<lambda>blob.
     bindR (fenced rt (\<lambda>now u ctx. commit_final_answer (rt_env rt) now (u 0) (u 1) k (e_event_id response)
       (o_sha256 blob) VS_not_configured (rt_pid rt) ctx)) (\<lambda>_.
     returnR ((outcome OC_completed None)\<lparr>oc_final_answer := Some answer\<rparr>)))"

definition act_on_response :: "runtime \<Rightarrow> string \<Rightarrow> event_envelope \<Rightarrow> string \<Rightarrow> agent_outcome option action" where
  "act_on_response rt k response raw =
     (case parse (rt_float rt) raw of
        RetryOutput notice \<Rightarrow> bindR (reject_output rt k response (take_chars 1000 notice)) (\<lambda>_. returnR None)
      | FinalOutput text \<Rightarrow>
          bindR (commit_answer rt k response (py_strip is_space text)) (\<lambda>oc. returnR (Some oc))
      | ToolOutput payload \<Rightarrow>
          (case tool_request (rt_process_tools_enabled rt) payload of
             Inl e \<Rightarrow>
               bindR (getR (\<lambda>w. ''invalid tool call: '' @ rt_class rt (w_tick w) e @ '': '' @ rt_text rt (w_tick w))) (\<lambda>reason.
               bindR (reject_output rt k response reason) (\<lambda>_. returnR None))
           | Inr (name, args, effect, targets) \<Rightarrow>
               bindR (do_propose rt k (e_event_id response) name args effect targets) (\<lambda>c.
               continue_tool rt k (c_tool_call_id (tr_row c)))))"

definition model_step :: "runtime \<Rightarrow> string \<Rightarrow> agent_outcome option action" where
  "model_step rt k =
     bindR (latest_unconsumed_model_response rt k) (\<lambda>recovered.
     case recovered of
       Some (response, raw, step) \<Rightarrow>
         bindR (settle_model_budget rt k step) (\<lambda>_. act_on_response rt k response raw)
     | None \<Rightarrow>
         bindR (query rt (\<lambda>d. get_next_model_step d k)) (\<lambda>step.
         if step \<ge> rt_max_steps rt then
           returnR (Some (outcome OC_step_limit
             (Some (''reached '' @ int_text (rt_max_steps rt) @ '' model steps''))))
         else bindR (call_model rt k step) (\<lambda>(response, raw). act_on_response rt k response raw)))"

definition loop_body :: "runtime \<Rightarrow> string \<Rightarrow> agent_outcome option action" where
  "loop_body rt k =
     bindR (renew_lease rt) (\<lambda>_.
     bindR (maybe_checkpoint rt k) (\<lambda>_.
     bindR (query rt (\<lambda>d. is_cancellation_requested d k)) (\<lambda>cancelled.
     if cancelled then
       bindR (do_terminate rt k ES_CANCELLED ''durable cancellation observed by runtime'') (\<lambda>_.
       returnR (Some (outcome OC_cancelled (Some ''cancellation requested''))))
     else
       bindR (query rt (\<lambda>d. get_unfinished_tool_call (rt_env rt) d k)) (\<lambda>pending.
       case pending of
         Some c \<Rightarrow> continue_tool rt k (c_tool_call_id (tr_row c))
       | None \<Rightarrow> model_step rt k))))"

fun agent_loop :: "runtime \<Rightarrow> string \<Rightarrow> nat \<Rightarrow> agent_outcome action" where
  "agent_loop rt k 0 = returnR (outcome OC_step_limit (Some ''reached the bounded runtime action limit''))"
| "agent_loop rt k (Suc n) =
     bindR (loop_body rt k) (\<lambda>r. case r of Some oc \<Rightarrow> returnR oc | None \<Rightarrow> agent_loop rt k n)"

definition run_with_lease :: "runtime \<Rightarrow> string \<Rightarrow> agent_outcome action" where
  "run_with_lease rt k =
     bindR (get_projection rt k) (\<lambda>p.
     if p_execution_status p = ES_COMPLETED then
       returnR (outcome OC_completed (Some ''run was already completed''))
     else if p_execution_status p \<noteq> ES_ACTIVE then
       returnR (outcome (if p_execution_status p = ES_CANCELLED then OC_cancelled else OC_needs_attention)
         (Some (''run status is '' @ execution_status_value (p_execution_status p))))
     else if p_phase p \<noteq> Some RP_AWAITING_MODEL then throwR RunStateConflictError
     else agent_loop rt k (nat (rt_max_steps rt * 2)))"

text \<open>The two exceptions of the loop that end the run.\<close>

definition guarded_run :: "runtime \<Rightarrow> string \<Rightarrow> agent_outcome action" where
  "guarded_run rt k =
     catchR (run_with_lease rt k) (\<lambda>e.
     bindR (getR (\<lambda>w. rt_text rt (w_tick w))) (\<lambda>text.
     if e = BudgetLimitError then
       bindR (do_terminate rt k ES_BUDGET_EXCEEDED text) (\<lambda>_. returnR (outcome OC_budget_exceeded (Some text)))
     else if e = ModelInvocationError then
       bindR (do_terminate rt k ES_NEEDS_ATTENTION text) (\<lambda>_. returnR (outcome OC_needs_attention (Some text)))
     else throwR e))"

definition release_owned :: "runtime \<Rightarrow> run_lease \<Rightarrow> unit action" where
  "release_owned rt lease =
     catchR (call rt (\<lambda>now u. release_run_lease lease)) (\<lambda>e. if e = LeaseConflictError then returnR () else throwR e)"

text \<open>The check of \<^verbatim>\<open>DurableAgentRuntime.__init__\<close>.\<close>

definition runtime_new :: "runtime \<Rightarrow> runtime result" where
  "runtime_new rt = (if rt_checkpoint_interval rt < 1 then Inl ValueError else Inr rt)"

definition agent_run :: "runtime \<Rightarrow> string \<Rightarrow> execution_context option \<Rightarrow> agent_outcome action" where
  "agent_run rt k execution_context = (case execution_context of
       None \<Rightarrow>
         bindR (call rt (\<lambda>now u. acquire_run_lease k (rt_pid rt) LEASE_TTL now)) (\<lambda>lease.
         finallyR
           (bindR (get_projection rt k) (\<lambda>p.
            bindR (liftR (execution_context_new k (rt_pid rt) (l_epoch lease) (Aware (l_expires_at lease))
              (p_last_event_seq p))) (\<lambda>ctx.
            bindR (set_ctx (Some ctx)) (\<lambda>_. guarded_run rt k))))
           (release_owned rt lease))
     | Some ctx \<Rightarrow>
         if ctx_run_id ctx \<noteq> k then throwR ValueError
         else if ctx_worker_id ctx \<noteq> rt_pid rt then throwR ValueError
         else
           bindR (set_ctx (Some ctx)) (\<lambda>_.
           bindR (do_synchronize rt) (\<lambda>_. guarded_run rt k)))"

end
