(* ===== verification/Agent_Facts.thy ===== *)
theory Agent_Facts
  imports Agent
begin

text \<open>
  A worker is a client of the store: whatever the model answers, whatever other workers do
  in between and wherever it stops, what it does to the database is a sequence of steps of
  the store machine.
\<close>

lemma reachable_projection:
  assumes "reachable env d" "get_run d k = Some r"
  shows "get_run_projection env d k = Inr (proj_of_row r)"
proof -
  have "ledger_ok env d" "runs_ok env d" "checkpoints_ok env d"
    using reachable_inv [OF assms(1)] by (auto simp: store_inv_def store_ok_def ledger_sound_def)
  from recover_in_transaction [OF this assms(2)] show ?thesis
    using assms(2) by (auto simp: get_run_projection_def recover_run_projection_def require_run_row_def)
qed

lemma steps_reachable: "(store_step env)\<^sup>*\<^sup>* d d' \<Longrightarrow> reachable env d \<Longrightarrow> reachable env d'"
  by (induction rule: rtranclp_induct) (auto intro: reachable_step)

lemma keeps_case_model_outcome [keeps_rules]:
  "(\<And>r. keepsR P (f r)) \<Longrightarrow> (\<And>c. keepsR P (g c)) \<Longrightarrow> keepsR P h \<Longrightarrow>
     keepsR P (case oc of MReturned r \<Rightarrow> f r | MRaised c \<Rightarrow> g c | MObservation \<Rightarrow> h)"
  by (cases oc) simp_all

section \<open>Executors\<close>

context runtime_invariant
begin

lemma keeps_dispatch: "keepsR P (do_dispatch rt tc plan idn)"
  unfolding do_dispatch_def by (rule keeps_fenced, erule step_dispatch [rotated]) simp

lemma keeps_finish: "keepsR P (do_finish rt at oc rc out mt er)"
  unfolding do_finish_def by (rule keeps_fenced, erule step_finish [rotated]) simp

lemma keeps_put_blob: "keepsR P (do_put_blob rt content mt)"
  unfolding do_put_blob_def by (rule keeps_step, erule step_put_blob)

lemma keeps_terminate: "keepsR P (do_terminate rt k st re)"
  unfolding do_terminate_def
  by (intro keeps_rules keeps_fenced, erule step_terminate [rotated]) simp

lemma keeps_settle: "keepsR P (do_settle rt b rid n)"
  unfolding do_settle_def by (intro keeps_rules keeps_fenced, erule step_settle [rotated]) simp

lemma keeps_synchronize: "keepsR P (do_synchronize rt)"
  unfolding do_synchronize_def by (intro keeps_rules keeps_timed_query keeps_set_ctx)

lemma keeps_renew: "keepsR P (renew_lease rt)"
  unfolding renew_lease_def
  by (intro keeps_rules keeps_set_ctx keeps_synchronize keeps_step, erule step_renew)

lemma keeps_checkpoint: "keepsR P (maybe_checkpoint rt k)"
  unfolding maybe_checkpoint_def
  by (intro keeps_rules keeps_query keeps_fenced, erule step_checkpoint [rotated]) simp

lemma keeps_propose: "keepsR P (do_propose rt k rsp name args eff tg)"
  unfolding do_propose_def by (intro keeps_rules keeps_fenced, erule step_propose [rotated]) simp

lemma keeps_projection: "keepsR P (get_projection rt k)"
  unfolding get_projection_def by (rule keeps_query)

lemma keeps_release: "keepsR P (release_owned rt lease)"
  unfolding release_owned_def by (intro keeps_rules keeps_step, erule step_release)

lemma keeps_acquire: "keepsR P (call rt (\<lambda>now u. acquire_run_lease k owner ttl now))"
  by (rule keeps_step, erule step_acquire)

lemma keeps_document: "keepsR P (exception_document rt e)"
  unfolding exception_document_def by (rule keeps_rules)

lemma keeps_try: "keepsR P m \<Longrightarrow> keepsR P (tryR m)"
  unfolding tryR_def by (intro keeps_rules)

lemmas keeps_actions = keeps_rules keeps_query keeps_disk_read keeps_set_ctx keeps_dispatch
  keeps_finish keeps_put_blob keeps_terminate keeps_settle keeps_renew keeps_checkpoint keeps_propose
  keeps_projection keeps_release keeps_document keeps_try

lemma keeps_plan_action: "keepsR P (plan_action rt tn args)"
  unfolding plan_action_def by (intro keeps_actions)

lemma keeps_shell_recover: "keepsR P (shell_recover rt at)"
  unfolding shell_recover_def do_uncertain_def by (intro keeps_actions)

end

text \<open>What the loop needs of its executors; a predicate that says nothing about the disk has it.\<close>

locale effect_invariant = runtime_invariant +
  assumes keeps_file_execute: "keepsR P (file_execute rt tc)"
    and keeps_file_recover: "keepsR P (file_recover rt at)"
    and keeps_shell_execute: "keepsR P (shell_execute rt tc)"

context disk_free_invariant
begin

lemma keeps_file_effect: "keepsR P (file_effect rt tn args plan)"
  unfolding file_effect_def by (intro keeps_actions keeps_disk_op)

lemma keeps_execute_dispatched: "keepsR P (execute_dispatched rt a tn args plan)"
  unfolding execute_dispatched_def by (intro keeps_actions keeps_file_effect)

end

sublocale disk_free_invariant \<subseteq> effect_invariant
proof
  fix tc at
  show "keepsR P (file_execute rt tc)"
    unfolding file_execute_def by (intro keeps_actions keeps_plan_action keeps_execute_dispatched)
  show "keepsR P (file_recover rt at)"
    unfolding file_recover_def do_uncertain_def by (intro keeps_actions keeps_execute_dispatched)
  show "keepsR P (shell_execute rt tc)"
    unfolding shell_execute_def by (intro keeps_actions keeps_disk_op)
qed

section \<open>Tool calls\<close>

context effect_invariant
begin

lemma keeps_request_approval: "keepsR P (fenced rt (\<lambda>now u ctx. request_tool_approval (rt_env rt) now (u 0) (u 1) tc pol pid ctx))"
  by (rule keeps_fenced, erule step_request_approval [rotated]) simp

lemma keeps_decide:
  "keepsR P (fenced rt (\<lambda>now u ctx. decide_tool_approval (rt_env rt) now (u 0) aid fp dc ac re pid cc ctx))"
  by (rule keeps_fenced, erule step_decide [rotated]) simp

lemma keeps_approve_tool: "keepsR P (approve_tool rt tc c)"
  unfolding approve_tool_def by (intro keeps_actions keeps_request_approval keeps_decide)

lemma keeps_after_effect: "keepsR P (after_effect rt k tc re de r)"
  unfolding after_effect_def by (intro keeps_actions)

lemma keeps_continue_tool: "keepsR P (continue_tool rt k tc)"
  unfolding continue_tool_def
  by (intro keeps_actions keeps_approve_tool keeps_after_effect keeps_file_execute keeps_file_recover
      keeps_shell_execute keeps_shell_recover)

lemma keeps_reserve:
  "keepsR P (fenced rt (\<lambda>now u ctx. reserve_budget (rt_env rt) now (u 0) k rid cat n pid ctx))"
  by (rule keeps_fenced, erule step_reserve [rotated]) simp

lemma keeps_commit_answer: "keepsR P (commit_answer rt k rsp answer)"
  unfolding commit_answer_def
  by (intro keeps_actions keeps_fenced, erule step_final_answer [rotated 2]) simp_all

lemma keeps_prompt: "keepsR P (agent_prompt rt k step v)"
  unfolding agent_prompt_def by (intro keeps_actions)

lemma keeps_unconsumed: "keepsR P (latest_unconsumed_model_response rt k)"
  unfolding latest_unconsumed_model_response_def by (intro keeps_actions)

end

section \<open>Events of the loop\<close>

text \<open>A predicate that only holds of databases the store machine can reach.\<close>

locale reachable_invariant = effect_invariant +
  assumes at_reachable: "P w \<Longrightarrow> sound_start rt d0 \<Longrightarrow> reachable (rt_env rt) (w_db w)"

text \<open>
  Events appended by the loop name the session of the run, as the projection had it; a run
  never changes its session.
\<close>

locale session_invariant = reachable_invariant +
  fixes k sid :: string
  assumes in_session: "P w \<Longrightarrow> sound_start rt d0 \<Longrightarrow> \<exists>r. get_run (w_db w) k = Some r \<and> r_session_id r = sid"
begin

lemma projection_in_session:
  assumes "P w" "sound_start rt d0" "get_run_projection (rt_env rt) (w_db w) k = Inr p"
  shows "p_session_id p = sid"
proof -
  obtain r where r: "get_run (w_db w) k = Some r" "r_session_id r = sid" using in_session [OF assms(1,2)] by blast
  from reachable_projection [OF at_reachable [OF assms(1,2)] r(1)] assms(3) r(2) show ?thesis
    by (auto simp: proj_of_row_def)
qed

lemma keeps_get_projection:
  assumes "\<And>p. p_session_id p = sid \<Longrightarrow> keepsR P (f p)"
  shows "keepsR P (bindR (get_projection rt k) f)"
proof (cases "sound_start rt d0")
  case True
  show ?thesis
  proof (unfold keepsR_def, intro allI impI)
    fix w assume "P w"
    obtain r w' where m: "get_projection rt k w = (r, w')" by fastforce
    have w': "P w'" using keeps_projection \<open>P w\<close> m by (rule keepsRD)
    have "get_run_projection (rt_env rt) (w_db w') k = r"
      using m by (auto simp: get_projection_def query_def timed_query_def call_def Let_def)
    with w' show "P (snd (bindR (get_projection rt k) f w))"
      using m assms projection_in_session [OF w' True] by (cases r) (auto simp: bindR_def keepsR_def)
  qed
qed (rule keeps_unsound)

lemma keeps_append:
  assumes "neutral pl" "p_session_id p = sid"
  shows "keepsR P (do_append rt p k cause pl)"
  unfolding do_append_def fenced_def
proof (intro keeps_rules keeps_set_ctx keeps_call)
  fix ctx now u w r d'
  assume a: "sound_start rt d0" "P w" "\<And>i :: nat. is_uuid (u i)"
    "append_event (rt_env rt) now (u 0) (agent_event rt p k cause pl) ctx (w_db w) = (r, d')"
  have "plain_event (agent_event rt p k cause pl) (w_db w)"
    using in_session [OF a(2,1)] assms by (auto simp: plain_event_def agent_event_def)
  then show "(store_step (rt_env rt))\<^sup>*\<^sup>* (w_db w) d'"
    using step_append [OF a(3) _ a(4)] by blast
qed

lemma keeps_observe_started: "keepsR P (observe_started rt k mc step ob n)"
  unfolding observe_started_def durable_def
  by (intro keeps_get_projection keeps_rules keeps_append) simp_all

lemma keeps_observe_failed: "keepsR P (observe_failed rt k mc ob n c re)"
  unfolding observe_failed_def durable_def
  by (intro keeps_get_projection keeps_rules keeps_append) simp_all

lemma keeps_run_reports: "keepsR P (run_reports rt k mc step ob reps)"
proof (induction reps arbitrary: ob)
  case (Cons rep reps)
  show ?case
    unfolding run_reports.simps
    by (cases rep) (auto intro!: keeps_rules keeps_try keeps_observe_started keeps_observe_failed Cons.IH)
qed (simp add: keeps_rules)

lemma keeps_complete_model: "keepsR P (complete_model rt k mc step ob)"
  unfolding complete_model_def by (intro keeps_actions keeps_prompt keeps_run_reports)

lemma keeps_record_failure: "keepsR P (record_failure rt k mc step ob c)"
  unfolding record_failure_def by (intro keeps_actions keeps_observe_started keeps_observe_failed)

lemma keeps_call_model: "keepsR P (call_model rt k step)"
  unfolding call_model_def Let_def
  by (intro keeps_get_projection keeps_actions keeps_reserve keeps_complete_model keeps_record_failure
      keeps_append) simp_all

lemma keeps_settle_model_budget: "keepsR P (settle_model_budget rt k step)"
  unfolding settle_model_budget_def by (intro keeps_actions)

lemma keeps_reject: "keepsR P (reject_output rt k rsp reason)"
  unfolding reject_output_def by (intro keeps_get_projection keeps_rules keeps_append) simp_all

lemma keeps_act_on_response: "keepsR P (act_on_response rt k rsp raw)"
  unfolding act_on_response_def
  by (auto split: model_output.split sum.split prod.split
      intro!: keeps_actions keeps_reject keeps_commit_answer keeps_continue_tool)

lemma keeps_model_step: "keepsR P (model_step rt k)"
  unfolding model_step_def
  by (intro keeps_actions keeps_unconsumed keeps_settle_model_budget keeps_act_on_response keeps_call_model)

lemma keeps_agent_loop: "keepsR P (agent_loop rt k n)"
proof (induction n)
  case (Suc n)
  then show ?case
    unfolding agent_loop.simps loop_body_def
    by (intro keeps_actions keeps_continue_tool keeps_model_step)
qed (simp add: keeps_rules)

end

section \<open>The worker as a client\<close>

definition steps_inv :: "runtime \<Rightarrow> db \<Rightarrow> world \<Rightarrow> bool" where
  "steps_inv rt d0 w \<longleftrightarrow> (sound_start rt d0 \<longrightarrow> (store_step (rt_env rt))\<^sup>*\<^sup>* d0 (w_db w))"

definition session_inv :: "runtime \<Rightarrow> db \<Rightarrow> string \<Rightarrow> string \<Rightarrow> world \<Rightarrow> bool" where
  "session_inv rt d0 k sid w \<longleftrightarrow> (sound_start rt d0 \<longrightarrow> (store_step (rt_env rt))\<^sup>*\<^sup>* d0 (w_db w) \<and>
     (\<exists>r. get_run (w_db w) k = Some r \<and> r_session_id r = sid))"

lemma session_inv_stable:
  assumes "session_inv rt d0 k sid w" "sound_start rt d0 \<Longrightarrow> (store_step (rt_env rt))\<^sup>*\<^sup>* (w_db w) (w_db w')"
  shows "session_inv rt d0 k sid w'"
  unfolding session_inv_def
proof (intro impI conjI)
  assume s: "sound_start rt d0"
  have steps: "(store_step (rt_env rt))\<^sup>*\<^sup>* d0 (w_db w)" using assms(1) s by (simp add: session_inv_def)
  with assms(2) [OF s] show "(store_step (rt_env rt))\<^sup>*\<^sup>* d0 (w_db w')" by simp
  have "reachable (rt_env rt) (w_db w)" using steps_reachable [OF steps] s by (simp add: sound_start_def)
  then have "evolves (w_db w) (w_db w')"
    using machine.steps_inv_follows [OF assms(2) [OF s] reachable_inv] by blast
  moreover obtain r where "get_run (w_db w) k = Some r" "r_session_id r = sid"
    using assms(1) s by (auto simp: session_inv_def)
  ultimately show "\<exists>r. get_run (w_db w') k = Some r \<and> r_session_id r = sid"
    using evolves_run [of "w_db w" "w_db w'" k r] by (auto simp: run_le_def run_identity_def)
qed

interpretation client: disk_free_invariant rt d0 "steps_inv rt d0" for rt d0
  by unfold_locales (auto simp: steps_inv_def)

interpretation client: reachable_invariant rt d0 "steps_inv rt d0" for rt d0
  by unfold_locales (auto simp: steps_inv_def sound_start_def intro: steps_reachable)

interpretation loop_client: disk_free_invariant rt d0 "session_inv rt d0 k sid" for rt d0 k sid
proof
  fix w w' :: world
  assume "session_inv rt d0 k sid w" "sound_start rt d0 \<Longrightarrow> (store_step (rt_env rt))\<^sup>*\<^sup>* (w_db w) (w_db w')"
  then show "session_inv rt d0 k sid w'" by (rule session_inv_stable)
qed (simp_all add: session_inv_def)

interpretation loop_client: session_invariant rt d0 "session_inv rt d0 k sid" k sid for rt d0 k sid
  by unfold_locales (auto simp: session_inv_def sound_start_def intro: steps_reachable)

text \<open>Once the projection was read, the run exists and its session is known.\<close>

lemma projection_opens_session:
  assumes "steps_inv rt d0 w" "get_projection rt k w = (Inr p, w')"
  shows "session_inv rt d0 k (p_session_id p) w'"
  unfolding session_inv_def
proof (intro impI conjI)
  assume s: "sound_start rt d0"
  have w': "steps_inv rt d0 w'" using client.keeps_projection assms by (rule keepsRD)
  then show steps: "(store_step (rt_env rt))\<^sup>*\<^sup>* d0 (w_db w')" using s by (simp add: steps_inv_def)
  have p: "get_run_projection (rt_env rt) (w_db w') k = Inr p"
    using assms(2) by (auto simp: get_projection_def query_def timed_query_def call_def Let_def)
  then obtain r where r: "get_run (w_db w') k = Some r"
    by (auto simp: get_run_projection_def recover_run_projection_def bindE_eq_Inr require_run_row_Inr)
  have "reachable (rt_env rt) (w_db w')" using steps_reachable [OF steps] s by (simp add: sound_start_def)
  from reachable_projection [OF this r] p r
  show "\<exists>r. get_run (w_db w') k = Some r \<and> r_session_id r = p_session_id p" by (auto simp: proj_of_row_def)
qed

lemma session_steps: "session_inv rt d0 k sid w \<Longrightarrow> steps_inv rt d0 w"
  by (simp add: session_inv_def steps_inv_def)

lemma keepsR_conj: "keepsR P m \<Longrightarrow> keepsR Q m \<Longrightarrow> keepsR (\<lambda>w. P w \<and> Q w) m"
  by (simp add: keepsR_def)

text \<open>Whatever else a worker keeps, it keeps while it is a client of the store.\<close>

context effect_invariant
begin

lemma with_session: "session_invariant rt d0 (\<lambda>w. session_inv rt d0 k sid w \<and> P w) k sid"
proof (unfold_locales, goal_cases)
  case (1 w w')
  then show ?case using loop_client.stable [of rt d0 k sid w w'] stable [of w w'] by blast
next
  case (2 w n i)
  then show ?case using loop_client.touched touched by blast
next
  case (3 w)
  then show ?case using loop_client.unsound unsound by blast
next
  case (4 tc)
  show ?case by (rule keepsR_conj [OF loop_client.keeps_file_execute keeps_file_execute])
next
  case (5 at)
  show ?case by (rule keepsR_conj [OF loop_client.keeps_file_recover keeps_file_recover])
next
  case (6 tc)
  show ?case by (rule keepsR_conj [OF loop_client.keeps_shell_execute keeps_shell_execute])
next
  case (7 w)
  then show ?case using loop_client.at_reachable by blast
next
  case (8 w)
  then show ?case using loop_client.in_session by blast
qed

lemma keeps_leased: "keepsR (\<lambda>w. steps_inv rt d0 w \<and> P w) (run_with_lease rt k)"
  unfolding keepsR_def
proof (intro allI impI)
  fix w assume w: "steps_inv rt d0 w \<and> P w"
  obtain r w' where m: "get_projection rt k w = (r, w')" by fastforce
  have w': "steps_inv rt d0 w' \<and> P w'"
    using keepsR_conj [OF client.keeps_projection keeps_projection] w m by (rule keepsRD)
  show "steps_inv rt d0 (snd (run_with_lease rt k w)) \<and> P (snd (run_with_lease rt k w))"
  proof (cases r)
    case (Inr p)
    have "session_inv rt d0 k (p_session_id p) w'" using projection_opens_session w m Inr by blast
    then have "session_inv rt d0 k (p_session_id p) (snd (agent_loop rt k n w')) \<and> P (snd (agent_loop rt k n w'))" for n
      using session_invariant.keeps_agent_loop [OF with_session, of k "p_session_id p" n] w' by (simp add: keepsR_def)
    with w' m Inr show ?thesis by (auto simp: run_with_lease_def bindR_def returnR_def throwR_def dest: session_steps)
  qed (use w' m in \<open>simp add: run_with_lease_def bindR_def\<close>)
qed

lemma with_steps: "effect_invariant rt d0 (\<lambda>w. steps_inv rt d0 w \<and> P w)"
proof (unfold_locales, goal_cases)
  case (1 w w')
  then show ?case using client.stable [of rt d0 w w'] stable [of w w'] by blast
next
  case (2 w n i)
  then show ?case using client.touched touched by blast
next
  case (3 w)
  then show ?case using client.unsound unsound by blast
next
  case (4 tc)
  show ?case by (rule keepsR_conj [OF client.keeps_file_execute keeps_file_execute])
next
  case (5 at)
  show ?case by (rule keepsR_conj [OF client.keeps_file_recover keeps_file_recover])
next
  case (6 tc)
  show ?case by (rule keepsR_conj [OF client.keeps_shell_execute keeps_shell_execute])
qed

lemma keeps_guarded: "keepsR (\<lambda>w. steps_inv rt d0 w \<and> P w) (guarded_run rt k)"
  unfolding guarded_run_def
  by (intro runtime_invariant.keeps_actions [OF effect_invariant.axioms(1) [OF with_steps]] keeps_leased)

lemma keeps_run: "keepsR (\<lambda>w. steps_inv rt d0 w \<and> P w) (agent_run rt k ctx)"
proof -
  note base = effect_invariant.axioms(1) [OF with_steps]
  show ?thesis
    unfolding agent_run_def
    by (intro runtime_invariant.keeps_actions [OF base] runtime_invariant.keeps_acquire [OF base]
        runtime_invariant.keeps_synchronize [OF base] keeps_guarded)
qed

end

lemma keeps_run_with_lease: "keepsR (steps_inv rt d0) (run_with_lease rt k)"
  and keeps_guarded_run: "keepsR (steps_inv rt d0) (guarded_run rt k)"
  and keeps_agent_run: "keepsR (steps_inv rt d0) (agent_run rt k ctx)"
  using client.keeps_leased client.keeps_guarded client.keeps_run by simp_all

lemma agent_run_steps:
  assumes "sound_start rt (w_db w)"
  shows "(store_step (rt_env rt))\<^sup>*\<^sup>* (w_db w) (w_db (snd (agent_run rt k ctx w)))"
  using keeps_agent_run [of rt "w_db w" k ctx] assms by (auto simp: keepsR_def steps_inv_def)

end
