(* ===== verification/Agent_Outcomes.thy ===== *)
theory Agent_Outcomes
  imports Agent_Facts
begin

text \<open>
  What the outcome of the agent loop says about the store: a run reported as completed,
  cancelled or over budget has that status in the database, and keeps it.
\<close>

section \<open>Terminal commands\<close>

definition run_status :: "db \<Rightarrow> string \<Rightarrow> execution_status \<Rightarrow> bool" where
  "run_status d k st \<longleftrightarrow> (\<exists>r. get_run d k = Some r \<and> r_execution_status r = st)"

lemma run_status_update:
  "get_run d k = Some r \<Longrightarrow> (\<And>x. run_identity x (f x)) \<Longrightarrow> r_execution_status (f r) = st \<Longrightarrow>
     run_status (update_run k f d) k st"
  by (auto simp: run_status_def get_update_run)

lemma terminate_run_status:
  assumes "store_ok env d"
  shows "wp (terminate_run_body env now eid k st re pid ctx) (\<lambda>_ d'. run_status d' k st) d"
  unfolding terminate_run_body_def wp_if
proof (intro conjI impI, goal_cases)
  case 2
  show ?case
  proof (rule wp_fenced [OF assms(1)], rule wp_recover [OF assms(1)], assumption,
      unfold wp_bind [of "returnT _"] wp_return wp_if, intro conjI impI, goal_cases)
    case (1 row rec)
    then show ?case by (auto simp: run_status_def proj_of_row_def wp_return)
  next
    case (3 row rec)
    show ?case
      unfolding wp_bind wp_modify wp_return
      by (rule wp_append, rule run_status_update)
        (use 3 in \<open>auto simp: get_run_appended terminate_row_def run_identity_def\<close>)
  qed (simp_all add: wp_throw)
qed (simp add: wp_throw)

lemma commit_final_answer_status:
  assumes "store_ok env d"
  shows "wp (commit_final_answer_body env now eid eid2 k rsp an vs pid ctx) (\<lambda>_ d'. run_status d' k ES_COMPLETED) d"
  unfolding commit_final_answer_body_def
proof (rule wp_fenced [OF assms(1)], rule wp_recover [OF assms(1)], assumption,
    unfold wp_bind [of "returnT _"] wp_bind [of "getT _"] wp_return wp_get wp_if, intro conjI impI, goal_cases)
  case (3 row rec)
  show ?case
    unfolding wp_bind wp_modify wp_return
  proof (rule wp_append, rule wp_append)
    fix e1 d1 e2 d2
    assume "appended env eid now (run_event row pid (Some rsp) (FinalAnswerCommittedPayload an)) d e1 d1"
      "appended env eid2 now (run_event row pid (Some (e_event_id e1)) (RunCompletedPayload vs)) d1 e2 d2"
    then have "get_run d2 k = Some row" using 3 by (simp add: get_run_appended)
    then have "run_status (update_run k (complete_row now (e_seq e2)) d2) k ES_COMPLETED"
      by (rule run_status_update) (simp_all add: complete_row_def run_identity_def)
    then show "run_status (update_turn (r_turn_id row) complete_turn (update_run k (complete_row now (e_seq e2)) d2)) k ES_COMPLETED"
      by (simp add: run_status_def get_run_def update_turn_def)
  qed
qed (simp_all add: wp_throw)

section \<open>What an outcome promises\<close>

definition durable_outcome :: "env \<Rightarrow> db \<Rightarrow> string \<Rightarrow> agent_outcome \<Rightarrow> bool" where
  "durable_outcome env d k oc \<longleftrightarrow>
     (oc_status oc = OC_completed \<longrightarrow> run_status d k ES_COMPLETED) \<and>
     (oc_status oc = OC_cancelled \<longrightarrow> run_status d k ES_CANCELLED) \<and>
     (oc_status oc = OC_budget_exceeded \<longrightarrow> run_status d k ES_BUDGET_EXCEEDED) \<and>
     (\<forall>a. oc_final_answer oc = Some a \<longrightarrow> oc_status oc = OC_completed \<and>
        (\<exists>b. get_blob env d (sha256 env a) = Inr b \<and> o_content b = a))"

lemma run_status_steps:
  assumes "reachable env d" "(store_step env)\<^sup>*\<^sup>* d d'" "run_status d k st" "st \<noteq> ES_ACTIVE"
  shows "run_status d' k st"
  using status_machine.steps_inv_follows [OF assms(2) reachable_inv [OF assms(1)]] assms(3,4)
  unfolding status_step_def run_status_def by blast

lemma get_blob_steps:
  assumes "reachable env d" "(store_step env)\<^sup>*\<^sup>* d d'" "get_blob env d sha = Inr b"
  shows "get_blob env d' sha = Inr b"
proof -
  have "evolves d d'" using machine.steps_inv_follows [OF assms(2) reachable_inv [OF assms(1)]] by blast
  then show ?thesis using get_blob_grows [OF _ assms(3)] by (simp add: evolves_def)
qed

lemma durable_outcome_steps:
  assumes "reachable env d" "(store_step env)\<^sup>*\<^sup>* d d'" "durable_outcome env d k oc"
  shows "durable_outcome env d' k oc"
  using run_status_steps [OF assms(1,2), of k] get_blob_steps [OF assms(1,2)] assms(3)
  unfolding durable_outcome_def by (metis execution_status.distinct(1,5,7))

text \<open>\<open>ensures\<close>: when \<open>m\<close> returns a value from a world of the invariant, the value and the world satisfy \<open>Q\<close>.\<close>

definition ensures :: "(world \<Rightarrow> bool) \<Rightarrow> 'a action \<Rightarrow> ('a \<Rightarrow> world \<Rightarrow> bool) \<Rightarrow> bool" where
  "ensures P m Q \<longleftrightarrow> (\<forall>w x w'. P w \<longrightarrow> m w = (Inr x, w') \<longrightarrow> Q x w')"

lemma ensuresD: "ensures P m Q \<Longrightarrow> P w \<Longrightarrow> m w = (Inr x, w') \<Longrightarrow> Q x w'"
  by (simp add: ensures_def)

lemma ensures_throw: "ensures P (throwR e) Q"
  by (simp add: ensures_def throwR_def)

lemma ensures_return: "(\<And>w. P w \<Longrightarrow> Q x w) \<Longrightarrow> ensures P (returnR x) Q"
  by (simp add: ensures_def returnR_def)

lemma ensures_bind:
  assumes "keepsR P m" "\<And>x. ensures P (f x) Q"
  shows "ensures P (bindR m f) Q"
  unfolding ensures_def
proof (intro allI impI)
  fix w y w' assume a: "P w" "bindR m f w = (Inr y, w')"
  then obtain x w1 where m: "m w = (Inr x, w1)" "f x w1 = (Inr y, w')"
    by (auto simp: bindR_def split: prod.splits sum.splits)
  have "P w1" using assms(1) a(1) m(1) by (rule keepsRD)
  with assms(2) m(2) show "Q y w'" by (blast intro: ensuresD)
qed

lemma ensures_bind_value:
  assumes "keepsR P m" "ensures P m (\<lambda>x _. R x)" "\<And>x. R x \<Longrightarrow> ensures P (f x) Q"
  shows "ensures P (bindR m f) Q"
  unfolding ensures_def
proof (intro allI impI)
  fix w y w' assume a: "P w" "bindR m f w = (Inr y, w')"
  then obtain x w1 where m: "m w = (Inr x, w1)" "f x w1 = (Inr y, w')"
    by (auto simp: bindR_def split: prod.splits sum.splits)
  have "P w1" using assms(1) a(1) m(1) by (rule keepsRD)
  moreover have "R x" using assms(2) a(1) m(1) by (rule ensuresD)
  ultimately show "Q y w'" using assms(3) m(2) by (blast intro: ensuresD)
qed

lemma ensures_after:
  assumes "ensures P m R" "\<And>x w. R x w \<Longrightarrow> Q (g x) w"
  shows "ensures P (bindR m (\<lambda>x. returnR (g x))) Q"
  using assms by (auto simp: ensures_def bindR_def returnR_def split: prod.splits sum.splits)

lemma ensures_if: "ensures P m Q \<Longrightarrow> ensures P n Q \<Longrightarrow> ensures P (if c then m else n) Q"
  by simp

lemma ensures_case_option:
  "ensures P m Q \<Longrightarrow> (\<And>y. ensures P (f y) Q) \<Longrightarrow> ensures P (case x of None \<Rightarrow> m | Some y \<Rightarrow> f y) Q"
  by (cases x) simp_all

lemma ensures_case_prod: "(\<And>a b. ensures P (f a b) Q) \<Longrightarrow> ensures P (case x of (a, b) \<Rightarrow> f a b) Q"
  by (cases x) simp

lemma ensures_case_sum:
  "(\<And>a. ensures P (f a) Q) \<Longrightarrow> (\<And>b. ensures P (g b) Q) \<Longrightarrow> ensures P (case x of Inl a \<Rightarrow> f a | Inr b \<Rightarrow> g b) Q"
  by (cases x) simp_all

lemma ensures_weaken: "ensures P m Q \<Longrightarrow> (\<And>x w. Q x w \<Longrightarrow> R x w) \<Longrightarrow> ensures P m R"
  by (auto simp: ensures_def)

lemmas ensures_rules = ensures_throw ensures_bind ensures_if ensures_case_option ensures_case_prod ensures_case_sum

section \<open>Commands and what they ensure\<close>

context runtime_invariant
begin

lemma ensures_call:
  assumes "\<And>now n w x d'. sound_start rt d0 \<Longrightarrow> P w \<Longrightarrow> f now (rt_uuid rt n) (w_db w) = (Inr x, d') \<Longrightarrow> R x d'"
  shows "ensures P (call rt f) (\<lambda>x w. sound_start rt d0 \<longrightarrow> R x (w_db w))"
  unfolding ensures_def
proof (intro allI impI)
  fix w x w' assume P: "P w" and c: "call rt f w = (Inr x, w')" and s: "sound_start rt d0"
  let ?n = "w_tick w"
  let ?w = "w\<lparr>w_db := rt_others rt ?n (w_db w)\<rparr>"
  have "P ?w" using P by (rule stable) (simp_all add: sound_start_def well_behaved_def)
  moreover have "f (rt_now rt ?n) (rt_uuid rt ?n) (w_db ?w) = (Inr x, w_db w')"
    using c by (auto simp: call_def Let_def split: prod.splits)
  ultimately show "R x (w_db w')" by (rule assms [OF s])
qed

lemma ensures_fenced:
  assumes "\<And>now n ctx w x c d'. sound_start rt d0 \<Longrightarrow> P w \<Longrightarrow>
    f now (rt_uuid rt n) ctx (w_db w) = (Inr (x, c), d') \<Longrightarrow> R x d'"
  shows "ensures P (fenced rt f) (\<lambda>x w. sound_start rt d0 \<longrightarrow> R x (w_db w))"
proof -
  have "ensures P (call rt (\<lambda>now u d. f now u ctx d)) (\<lambda>xc w. sound_start rt d0 \<longrightarrow> R (fst xc) (w_db w))" for ctx
    using assms by (intro ensures_call) auto
  then show ?thesis
    unfolding ensures_def fenced_def
    by (auto simp: bindR_def getR_def set_ctx_def returnR_def split: prod.splits sum.splits)
qed

end

context reachable_invariant
begin

lemma reachable_store_ok: "P w \<Longrightarrow> sound_start rt d0 \<Longrightarrow> store_ok (rt_env rt) (w_db w)"
  using reachable_inv [OF at_reachable] by (simp add: store_inv_def)

lemma ensures_terminate:
  "ensures P (do_terminate rt k st re) (\<lambda>_ w. sound_start rt d0 \<longrightarrow> run_status (w_db w) k st)"
proof -
  have "ensures P (fenced rt (\<lambda>now u ctx. terminate_run (rt_env rt) now (u 0) k st re (rt_pid rt) ctx))
      (\<lambda>_ w. sound_start rt d0 \<longrightarrow> run_status (w_db w) k st)"
    by (rule ensures_fenced) (auto simp: terminate_run_def dest: reachable_store_ok
        dest!: run_command_Inr [OF _ terminate_run_status])
  then show ?thesis unfolding do_terminate_def by (rule ensures_after)
qed

lemma ensures_put_blob:
  "ensures P (do_put_blob rt a mt) (\<lambda>b w. sound_start rt d0 \<longrightarrow>
     get_blob (rt_env rt) (w_db w) (sha256 (rt_env rt) a) = Inr b \<and> o_content b = a)"
  unfolding do_put_blob_def
proof (rule ensures_call)
  fix now u w b d' assume "put_blob (rt_env rt) now a mt (w_db w) = (Inr b, d')"
  then have "blob_stored (rt_env rt) a (w_db w) b d'"
    by (intro put_blob_stored) (simp add: put_blob_def transact_Inr)
  then show "get_blob (rt_env rt) d' (sha256 (rt_env rt) a) = Inr b \<and> o_content b = a"
    by (simp add: blob_stored_def get_blob_def)
qed

end

text \<open>The outcome \<open>oc\<close> of the run \<open>k\<close> is true of the database; there may be no outcome yet.\<close>

definition promise :: "runtime \<Rightarrow> db \<Rightarrow> string \<Rightarrow> agent_outcome \<Rightarrow> world \<Rightarrow> bool" where
  "promise rt d0 k oc w \<longleftrightarrow> (sound_start rt d0 \<longrightarrow> durable_outcome (rt_env rt) (w_db w) k oc)"

definition promised :: "runtime \<Rightarrow> db \<Rightarrow> string \<Rightarrow> agent_outcome option \<Rightarrow> world \<Rightarrow> bool" where
  "promised rt d0 k r w \<longleftrightarrow> (case r of None \<Rightarrow> True | Some oc \<Rightarrow> promise rt d0 k oc w)"

lemma promised_simps [simp]:
  "promised rt d0 k None w" "promised rt d0 k (Some oc) w = promise rt d0 k oc w"
  by (simp_all add: promised_def)

lemma promise_open:
  "oc_status oc \<in> {OC_waiting_approval, OC_needs_attention, OC_step_limit} \<Longrightarrow> oc_final_answer oc = None \<Longrightarrow>
     promise rt d0 k oc w"
  by (auto simp: promise_def durable_outcome_def)

lemma blob_kept:
  assumes "reachable_invariant rt d0 P"
  shows "runtime_invariant rt d0 (\<lambda>w. P w \<and> (sound_start rt d0 \<longrightarrow> get_blob (rt_env rt) (w_db w) sha = Inr b))"
proof
  note base = effect_invariant.axioms(1) [OF reachable_invariant.axioms(1) [OF assms]]
  fix w w' :: world
  assume a: "P w \<and> (sound_start rt d0 \<longrightarrow> get_blob (rt_env rt) (w_db w) sha = Inr b)" "w_disk w' = w_disk w"
    "sound_start rt d0 \<Longrightarrow> (store_step (rt_env rt))\<^sup>*\<^sup>* (w_db w) (w_db w')"
  have "P w'" using a by (blast intro: runtime_invariant.stable [OF base])
  moreover have "get_blob (rt_env rt) (w_db w') sha = Inr b" if s: "sound_start rt d0"
    using get_blob_steps [OF reachable_invariant.at_reachable [OF assms] a(3)] a(1) s by blast
  ultimately show "P w' \<and> (sound_start rt d0 \<longrightarrow> get_blob (rt_env rt) (w_db w') sha = Inr b)" by blast
qed (use runtime_invariant.touched runtime_invariant.unsound effect_invariant.axioms(1) [OF reachable_invariant.axioms(1) [OF assms]]
    in \<open>auto\<close>)

context session_invariant
begin

lemma keeps_commit_blob:
  "keepsR (\<lambda>w. P w \<and> (sound_start rt d0 \<longrightarrow> get_blob (rt_env rt) (w_db w) sha = Inr b))
     (fenced rt (\<lambda>now u ctx. commit_final_answer (rt_env rt) now (u 0) (u 1) k rsp an vs pid ctx))"
  by (rule runtime_invariant.keeps_fenced [OF blob_kept [OF reachable_invariant_axioms]],
      erule step_final_answer [rotated 2]) simp_all

lemma ensures_commit:
  "ensures P (fenced rt (\<lambda>now u ctx. commit_final_answer (rt_env rt) now (u 0) (u 1) k rsp an vs pid ctx))
     (\<lambda>_ w. sound_start rt d0 \<longrightarrow> run_status (w_db w) k ES_COMPLETED)"
  by (rule ensures_fenced) (auto simp: commit_final_answer_def dest: reachable_store_ok
      dest!: run_command_Inr [OF _ commit_final_answer_status])

lemma ensures_commit_answer: "ensures P (commit_answer rt k rsp a) (promise rt d0 k)"
  unfolding ensures_def
proof (intro allI impI)
  fix w oc w' assume P: "P w" and m: "commit_answer rt k rsp a w = (Inr oc, w')"
  let ?commit = "\<lambda>b. fenced rt (\<lambda>now u ctx. commit_final_answer (rt_env rt) now (u 0) (u 1) k (e_event_id rsp)
       (o_sha256 b) VS_not_configured (rt_pid rt) ctx)"
  obtain b w1 x where 1: "do_put_blob rt a TEXT_MEDIA w = (Inr b, w1)" and 2: "?commit b w1 = (Inr x, w')"
    and oc: "oc = (outcome OC_completed None)\<lparr>oc_final_answer := Some a\<rparr>"
    using m by (auto simp: commit_answer_def bindR_def returnR_def split: prod.splits sum.splits)
  have P1: "P w1" using keeps_put_blob P 1 by (rule keepsRD)
  have blob: "sound_start rt d0 \<longrightarrow> get_blob (rt_env rt) (w_db w1) (sha256 (rt_env rt) a) = Inr b \<and> o_content b = a"
    using ensures_put_blob P 1 by (rule ensuresD)
  have "sound_start rt d0 \<longrightarrow> run_status (w_db w') k ES_COMPLETED" using ensures_commit P1 2 by (rule ensuresD)
  moreover have "P w' \<and> (sound_start rt d0 \<longrightarrow> get_blob (rt_env rt) (w_db w') (sha256 (rt_env rt) a) = Inr b)"
    using keeps_commit_blob _ 2 by (rule keepsRD) (use P1 blob in blast)
  ultimately show "promise rt d0 k oc w'"
    using blob by (auto simp: promise_def durable_outcome_def oc outcome_def)
qed

lemma ensures_approve_tool:
  "ensures P (approve_tool rt tc c)
     (\<lambda>r _. \<forall>oc. r = Inr oc \<longrightarrow> oc_status oc = OC_waiting_approval \<and> oc_final_answer oc = None)"
  unfolding approve_tool_def
  by (intro ensures_rules ensures_return keeps_actions keeps_request_approval keeps_decide)
    (auto simp: tool_outcome_def)

lemma ensures_after_effect: "ensures P (after_effect rt k' tc re de r) (promised rt d0 k)"
  unfolding after_effect_def
  by (intro ensures_rules ensures_return keeps_actions) (auto simp: tool_outcome_def intro!: promise_open)

lemma ensures_continue_tool: "ensures P (continue_tool rt k' tc) (promised rt d0 k)"
  unfolding continue_tool_def
proof (rule ensures_bind [OF keeps_renew], rule ensures_bind [OF keeps_query],
    rule ensures_bind_value [OF keeps_approve_tool ensures_approve_tool], goal_cases)
  case (1 _ c0 r)
  then show ?case
    by (cases r)
      (auto simp: tool_outcome_def outcome_def
        intro!: ensures_rules ensures_return keeps_actions keeps_file_execute keeps_file_recover keeps_shell_execute
          keeps_shell_recover ensures_after_effect promise_open)
qed

lemma ensures_act_on_response: "ensures P (act_on_response rt k rsp raw) (promised rt d0 k)"
proof (cases "parse (rt_float rt) raw")
  case (ToolOutput payload)
  show ?thesis
    unfolding act_on_response_def ToolOutput model_output.case
    by (intro ensures_rules ensures_return ensures_continue_tool keeps_actions keeps_reject) simp
next
  case (FinalOutput ans)
  show ?thesis
    unfolding act_on_response_def FinalOutput model_output.case
    by (rule ensures_after [OF ensures_commit_answer]) simp
next
  case (RetryOutput notice)
  show ?thesis
    unfolding act_on_response_def RetryOutput model_output.case
    by (intro ensures_rules ensures_return keeps_reject) simp
qed

lemma ensures_model_step: "ensures P (model_step rt k) (promised rt d0 k)"
  unfolding model_step_def
  by (intro ensures_rules ensures_return ensures_act_on_response keeps_query keeps_unconsumed
      keeps_settle_model_budget keeps_call_model) (simp add: outcome_def promise_open)

lemma ensures_loop_body: "ensures P (loop_body rt k) (promised rt d0 k)"
proof -
  have cancel: "ensures P (bindR (do_terminate rt k ES_CANCELLED re) (\<lambda>_. returnR (Some (outcome OC_cancelled dt)))) (promised rt d0 k)" for re dt
    by (rule ensures_after [OF ensures_terminate]) (auto simp: outcome_def promise_def durable_outcome_def)
  show ?thesis
    unfolding loop_body_def
    by (intro ensures_bind ensures_if ensures_case_option cancel ensures_continue_tool ensures_model_step
        keeps_renew keeps_checkpoint keeps_query)
qed

lemma ensures_agent_loop: "ensures P (agent_loop rt k n) (promise rt d0 k)"
proof (induction n)
  case 0
  show ?case by (auto simp: outcome_def intro!: ensures_return promise_open)
next
  case (Suc n)
  have body: "keepsR P (loop_body rt k)"
    unfolding loop_body_def by (intro keeps_actions keeps_continue_tool keeps_model_step)
  show ?case
    unfolding ensures_def
  proof (intro allI impI)
    fix w oc w' assume P: "P w" and m: "agent_loop rt k (Suc n) w = (Inr oc, w')"
    then obtain r w1 where b: "loop_body rt k w = (Inr r, w1)"
      by (auto simp: bindR_def split: prod.splits sum.splits)
    have P1: "P w1" using body P b by (rule keepsRD)
    have r: "promised rt d0 k r w1" using ensures_loop_body P b by (rule ensuresD)
    show "promise rt d0 k oc w'"
    proof (cases r)
      case None
      then have "agent_loop rt k n w1 = (Inr oc, w')" using m b by (simp add: bindR_def)
      with Suc P1 show ?thesis by (rule ensuresD)
    next
      case (Some oc1)
      with m b r show ?thesis by (auto simp: bindR_def returnR_def)
    qed
  qed
qed

end

section \<open>The outcome of a worker\<close>

lemma ensures_run_with_lease: "ensures (steps_inv rt d0) (run_with_lease rt k) (promise rt d0 k)"
  unfolding ensures_def
proof (intro allI impI)
  fix w oc w' assume w: "steps_inv rt d0 w" and m: "run_with_lease rt k w = (Inr oc, w')"
  then obtain p w1 where p: "get_projection rt k w = (Inr p, w1)"
    by (auto simp: run_with_lease_def bindR_def split: prod.splits sum.splits)
  have S: "session_inv rt d0 k (p_session_id p) w1" using w p by (rule projection_opens_session)
  have status: "run_status (w_db w1) k (p_execution_status p)" if s: "sound_start rt d0"
  proof -
    have "reachable (rt_env rt) (w_db w1)" using client.at_reachable [OF session_steps [OF S] s] .
    moreover obtain r where r: "get_run (w_db w1) k = Some r" using S s by (auto simp: session_inv_def)
    moreover have "get_run_projection (rt_env rt) (w_db w1) k = Inr p"
      using p by (auto simp: get_projection_def query_def timed_query_def call_def Let_def)
    ultimately show ?thesis using reachable_projection by (fastforce simp: run_status_def proj_of_row_def)
  qed
  consider (loop) "agent_loop rt k (nat (rt_max_steps rt * 2)) w1 = (Inr oc, w')"
    | (ended) "w' = w1" "oc_final_answer oc = None" "oc_status oc = OC_completed \<and> p_execution_status p = ES_COMPLETED \<or>
        oc_status oc = OC_cancelled \<and> p_execution_status p = ES_CANCELLED \<or> oc_status oc = OC_needs_attention"
    using m p by (auto simp: run_with_lease_def bindR_def returnR_def throwR_def outcome_def split: if_splits)
  then show "promise rt d0 k oc w'"
  proof cases
    case loop
    with loop_client.ensures_agent_loop S show ?thesis by (rule ensuresD)
  next
    case ended
    with status show ?thesis by (auto simp: promise_def durable_outcome_def)
  qed
qed

lemma ensures_catch:
  assumes "keepsR P m" "ensures P m Q" "\<And>e. ensures P (h e) Q"
  shows "ensures P (catchR m h) Q"
  unfolding ensures_def
proof (intro allI impI)
  fix w x w' assume P: "P w" and c: "catchR m h w = (Inr x, w')"
  obtain r w1 where m: "m w = (r, w1)" by fastforce
  have P1: "P w1" using assms(1) P m by (rule keepsRD)
  show "Q x w'"
  proof (cases r)
    case (Inl e)
    then have "h e w1 = (Inr x, w')" using c m by (simp add: catchR_def)
    with assms(3) P1 show ?thesis by (rule ensuresD)
  next
    case (Inr y)
    then have "m w = (Inr x, w')" using c m by (simp add: catchR_def)
    with assms(2) P show ?thesis by (rule ensuresD)
  qed
qed

lemma ensures_guarded_run: "ensures (steps_inv rt d0) (guarded_run rt k) (promise rt d0 k)"
proof -
  have budget: "ensures (steps_inv rt d0) (bindR (do_terminate rt k ES_BUDGET_EXCEEDED t)
      (\<lambda>_. returnR (outcome OC_budget_exceeded (Some t)))) (promise rt d0 k)" for t
    by (rule ensures_after [OF client.ensures_terminate]) (auto simp: outcome_def promise_def durable_outcome_def)
  have attention: "ensures (steps_inv rt d0) (bindR (do_terminate rt k ES_NEEDS_ATTENTION t)
      (\<lambda>_. returnR (outcome OC_needs_attention (Some t)))) (promise rt d0 k)" for t
    by (rule ensures_after [OF client.ensures_terminate]) (simp add: outcome_def promise_open)
  show ?thesis
    unfolding guarded_run_def
    by (intro ensures_catch keeps_run_with_lease ensures_run_with_lease ensures_bind keeps_basic ensures_if budget
        attention ensures_throw)
qed

lemma promise_kept: "runtime_invariant rt d0 (\<lambda>w. steps_inv rt d0 w \<and> promise rt d0 k oc w)"
proof
  fix w w' :: world
  assume a: "steps_inv rt d0 w \<and> promise rt d0 k oc w" "w_disk w' = w_disk w"
    "sound_start rt d0 \<Longrightarrow> (store_step (rt_env rt))\<^sup>*\<^sup>* (w_db w) (w_db w')"
  have "steps_inv rt d0 w'" using a by (blast intro: client.stable)
  moreover have "promise rt d0 k oc w'"
    using durable_outcome_steps [OF client.at_reachable a(3)] a(1) unfolding promise_def by blast
  ultimately show "steps_inv rt d0 w' \<and> promise rt d0 k oc w'" by blast
qed (simp_all add: steps_inv_def promise_def)

lemma ensures_finally:
  assumes "keepsR (steps_inv rt d0) m" "ensures (steps_inv rt d0) m (promise rt d0 k)"
    and "\<And>oc. keepsR (\<lambda>w. steps_inv rt d0 w \<and> promise rt d0 k oc w) c"
  shows "ensures (steps_inv rt d0) (finallyR m c) (promise rt d0 k)"
  unfolding ensures_def
proof (intro allI impI)
  fix w oc w' assume P: "steps_inv rt d0 w" and f: "finallyR m c w = (Inr oc, w')"
  then obtain w1 u where m: "m w = (Inr oc, w1)" and c: "c w1 = (Inr u, w')"
    by (auto simp: finallyR_def Let_def split: prod.splits sum.splits)
  have "steps_inv rt d0 w1 \<and> promise rt d0 k oc w1"
    using keepsRD [OF assms(1) P m] ensuresD [OF assms(2) P m] by blast
  with assms(3) have "steps_inv rt d0 w' \<and> promise rt d0 k oc w'" using c by (rule keepsRD)
  then show "promise rt d0 k oc w'" by blast
qed

lemma ensures_agent_run: "ensures (steps_inv rt d0) (agent_run rt k ctx) (promise rt d0 k)"
  unfolding agent_run_def
  by (intro ensures_case_option ensures_bind ensures_finally ensures_if ensures_throw ensures_guarded_run
      client.keeps_acquire client.keeps_projection client.keeps_set_ctx client.keeps_synchronize keeps_guarded_run
      keeps_rules runtime_invariant.keeps_release [OF promise_kept])

end
