(* ===== verification/Tool_History.thy ===== *)
theory Tool_History
  imports Store
begin

text \<open>
  What becomes of tool calls and attempts: no row disappears, a call keeps its run and its
  tool, and a finished attempt never changes again.
\<close>

definition tools_le :: "db \<Rightarrow> db \<Rightarrow> bool" where
  "tools_le d d' \<longleftrightarrow>
     (\<forall>k a. get_attempt_row d k = Some a \<longrightarrow> (\<exists>a'. get_attempt_row d' k = Some a' \<and>
        a_tool_call_id a' = a_tool_call_id a \<and> (a_state a \<noteq> TC_DISPATCHED \<longrightarrow> a' = a))) \<and>
     (\<forall>k c. get_tool_call_row d k = Some c \<longrightarrow> (\<exists>c'. get_tool_call_row d' k = Some c' \<and>
        c_tool_name c' = c_tool_name c \<and> c_run_id c' = c_run_id c))"

lemma tools_le_refl [simp]: "tools_le d d"
  by (simp add: tools_le_def)

lemma tools_le_trans:
  assumes "tools_le d d'" "tools_le d' d''"
  shows "tools_le d d''"
  unfolding tools_le_def
proof (intro conjI allI impI)
  fix k a assume a: "get_attempt_row d k = Some a"
  then obtain a' where a': "get_attempt_row d' k = Some a'" "a_tool_call_id a' = a_tool_call_id a"
      "a_state a \<noteq> TC_DISPATCHED \<longrightarrow> a' = a" using assms(1) unfolding tools_le_def by blast
  then obtain a'' where "get_attempt_row d'' k = Some a''" "a_tool_call_id a'' = a_tool_call_id a'"
      "a_state a' \<noteq> TC_DISPATCHED \<longrightarrow> a'' = a'" using assms(2) unfolding tools_le_def by blast
  with a' show "\<exists>a''. get_attempt_row d'' k = Some a'' \<and> a_tool_call_id a'' = a_tool_call_id a \<and>
      (a_state a \<noteq> TC_DISPATCHED \<longrightarrow> a'' = a)" by auto
next
  fix k c assume "get_tool_call_row d k = Some c"
  with assms show "\<exists>c''. get_tool_call_row d'' k = Some c'' \<and> c_tool_name c'' = c_tool_name c \<and>
      c_run_id c'' = c_run_id c" unfolding tools_le_def by metis
qed

lemma tools_le_view:
  assumes "tool_view d' = tool_view d"
  shows "tools_le d d'"
proof -
  have "tool_calls d' = tool_calls d" "tool_attempts d' = tool_attempts d" using assms by (simp_all add: tool_view_def)
  then show ?thesis by (simp add: tools_le_def get_attempt_row_def get_tool_call_row_def)
qed

section \<open>Tool commands\<close>

lemma row_get_app_old: "row_get key k rows = Some r \<Longrightarrow> row_get key k (rows @ xs) = Some r"
  by (induction rows) (auto simp: row_get_def)

lemma tools_le_update_call:
  assumes "keeps c_tool_call_id f" "keeps c_tool_name f" "keeps c_run_id f"
  shows "tools_le d (update_tool_call k f d)"
proof -
  have "get_attempt_row (update_tool_call k f d) k' = get_attempt_row d k'" for k'
    by (simp add: get_attempt_row_def update_tool_call_def)
  then show ?thesis using assms by (auto simp: tools_le_def tool_call_store.lookup_update)
qed

lemma pres_tools_le_view: "(\<And>v. pres (\<lambda>d. tool_view d = v) m) \<Longrightarrow> pres (tools_le d0) m"
  unfolding pres_def by (fast intro: wp_mono tools_le_trans tools_le_view)

lemma pres_tools_le:
  "pres (tools_le d0) (insert_tool_call c)"
  "pres (tools_le d0) (insert_attempt a)"
  "pres (tools_le d0) (insert_approval ap)"
  "keeps c_tool_call_id f \<Longrightarrow> keeps c_tool_name f \<Longrightarrow> keeps c_run_id f \<Longrightarrow>
     pres (tools_le d0) (modifyT (update_tool_call k f))"
  "pres (tools_le d0) (modifyT (update_approval k2 f2))"
proof -
  have "tools_le d (d\<lparr>tool_calls := tool_calls d @ [c]\<rparr>)" "tools_le d (d\<lparr>tool_attempts := tool_attempts d @ [a]\<rparr>)"
    "tools_le d (d\<lparr>approvals := aps\<rparr>)" for d aps
    by (auto simp: tools_le_def get_attempt_row_def get_tool_call_row_def intro: row_get_app_old)
  then show "pres (tools_le d0) (insert_tool_call c)" "pres (tools_le d0) (insert_attempt a)"
    "pres (tools_le d0) (insert_approval ap)" "pres (tools_le d0) (modifyT (update_approval k2 f2))"
    by (auto simp: pres_def wp_def insert_defs update_approval_def intro: tools_le_trans)
  show "pres (tools_le d0) (modifyT (update_tool_call k f))"
    if "keeps c_tool_call_id f" "keeps c_tool_name f" "keeps c_run_id f"
    using that by (auto simp: pres_def wp_modify intro: tools_le_trans tools_le_update_call)
qed

lemmas tools_le_rules = pres_basic pres_bind pres_if pres_case_option pres_tools_le
  pres_tools_le_view [OF tool_tables.keeps_append] pres_tools_le_view [OF tool_tables.keeps_touch]
  pres_tools_le_view [OF tool_tables.keeps_put_blob] pres_tools_le_view [OF tool_tables.keeps_record]

lemma tool_commands_le:
  "pres (tools_le d0) (propose_tool_call_body env now eid fid k rsp n tn tv args ec tps pv pid ctx)"
  "pres (tools_le d0) (request_tool_approval_body env now eid fid tc pol pid ctx)"
  "pres (tools_le d0) (decide_tool_approval_body env now eid aid fp dc ac re pid cc ctx)"
  "pres (tools_le d0) (dispatch_tool_call_body env now eid fid tc plan ident pid att ctx)"
  unfolding propose_tool_call_body_def request_tool_approval_body_def decide_tool_approval_body_def apply_decision_def
    dispatch_tool_call_body_def
  by (intro tools_le_rules; simp)+

text \<open>Only an attempt that is still dispatched is finished.\<close>

lemma finish_tool_attempt_le:
  "wp (finish_tool_attempt_body env now eid atid oc pid rc out mt er rt ctx) (\<lambda>_. tools_le d) d"
proof -
  have step: "tools_le d (update_attempt atid (finish_attempt_row target now rc' os er') d')"
    if "get_attempt_row d atid = Some a" "a_state a = TC_DISPATCHED" "tool_view d' = tool_view d" for target a os d' rc' er'
  proof -
    have "get_attempt_row d' k = get_attempt_row d k" "get_tool_call_row (update_attempt atid f d') k = get_tool_call_row d k" for k f
      using that(3) by (simp_all add: tool_view_def get_attempt_row_def get_tool_call_row_def update_attempt_def)
    then show ?thesis
      using that(1,2) by (auto simp: tools_le_def attempt_store.lookup_update finish_attempt_row_def)
  qed
  have rest: "pres (tools_le d) (bindT (modifyT (update_tool_call tc (\<lambda>c. c\<lparr>c_state := target,
        c_final_output_blob_sha256 := os, c_final_error := er'\<rparr>))) (\<lambda>_. bindT (liftT pl) (\<lambda>payload.
      bindT (append_event_in_transaction env eid now (q payload)) (\<lambda>e.
      bindT (touch_run k (e_seq e)) (\<lambda>_. returnT (r e, Some (e_seq e)))))))"
    for q k pl tc target os er' and r :: "event_envelope \<Rightarrow> tool_attempt_record"
    by (intro tools_le_rules; simp)
  have out: "wp (bindT (put_blob_in_transaction env now raw mt) (\<lambda>b. returnT (Some (o_sha256 b))))
      (\<lambda>_ d'. tool_view d' = tool_view d) d" for raw
    by (rule wp_pres) (intro tool_tables.keeps_rules, rule refl)
  show ?thesis
    unfolding finish_tool_attempt_body_def wp_bind [of "getT _"] wp_get wp_case_option wp_if
      wp_bind [of "readT _"] wp_read wp_throw wp_return wp_bind [of "case_option _ _ out"]
      wp_bind [of "modifyT (update_attempt _ _)"] wp_modify
    by (intro conjI impI allI TrueI wp_mono [OF out] wp_pres [OF rest] step) simp_all
qed

section \<open>All commands\<close>

lemma run_command_le: "run_command ctx m d = (r, d') \<Longrightarrow> wp m (\<lambda>_. tools_le d) d \<Longrightarrow> tools_le d d'"
  by (erule run_command_cases) (auto dest: wpD)

lemma transact_le:
  assumes "transact m d = (r, d')" "wp m (\<lambda>_. tools_le d) d"
  shows "tools_le d d'"
  using assms(1) by (cases rule: transact_cases) (use assms(2) in \<open>auto dest: wpD\<close>)

lemma wp_view_le: "(\<And>v. pres (\<lambda>d. tool_view d = v) m) \<Longrightarrow> wp m (\<lambda>_. tools_le d) d"
  by (intro wp_pres pres_tools_le_view) simp_all

lemma wp_tools_le: "(\<And>d0. pres (tools_le d0) m) \<Longrightarrow> wp m (\<lambda>_. tools_le d) d"
  by (rule wp_pres) simp_all

lemmas commands_le = tool_tables.keeps_lifecycle [THEN wp_view_le] tool_tables.keeps_leases [THEN wp_view_le]
  tool_tables.keeps_append_event [THEN wp_view_le] tool_tables.keeps_budget_commands [THEN wp_view_le]
  tool_tables.keeps_put_blob [THEN wp_view_le] tool_commands_le [THEN wp_tools_le] finish_tool_attempt_le

lemma store_step_tools_le:
  assumes "store_step env d d'" "store_inv env d"
  shows "tools_le d d'"
  using assms(1)
proof cases
  case (step_open gs r)
  have "mc_rebuilt d d" using assms(2) by (simp add: mc_rebuilt_def store_inv_def store_ok_def ledger_sound_def)
  then have "mc_rebuilt d d'" using step_open by (rule apply_migrations_rebuilt)
  then show ?thesis by (intro tools_le_view) (auto simp: mc_rebuilt_def tool_view_def dest: mc_frame_tables)
next
  case (step_create_session eid now sid root config pid r)
  from this(2) show ?thesis
    by (cases r) (auto simp: create_session_def transact_def split: sum.splits
        dest!: tool_tables.view_session [unfolded create_session_def transact_Inr] intro!: tools_le_view)
next
  case (step_create_turn_and_run eid1 eid2 eid3 now sid tid rid msg root commit limits pid r)
  from this(4) show ?thesis
    unfolding create_turn_and_run_def
    by (auto simp: transact_def split: sum.splits prod.splits dest!: tool_tables.view_created intro: tools_le_view)
qed (auto simp: command_defs acquire_run_lease_def renew_run_lease_def release_run_lease_def put_blob_def
    request_cancellation_def rebuild_run_projection_def
    elim!: transact_le run_command_le intro: commands_le)

interpretation tool_machine: evolving_machine "store_step env" "store_inv env" tools_le for env
  by unfold_locales (auto intro: store_step_tools_le machine.step_inv tools_le_trans)

lemma reachable_tools_le: "reachable env d \<Longrightarrow> (store_step env)\<^sup>*\<^sup>* d d' \<Longrightarrow> tools_le d d'"
  using tool_machine.steps_inv_follows reachable_inv by blast

end
