(* ===== verification/Agent_Effects.thy ===== *)
theory Agent_Effects
  imports Agent_Outcomes Tool_History Idempotency
begin

text \<open>
  Durable facts come before effects (\<^verbatim>\<open>runtime/agent.py\<close>): a worker changes the disk only
  while the store holds an unfinished attempt of a call to a tool that is not a read.
\<close>

section \<open>Evidence in the store\<close>

text \<open>What the disk becomes by other processes alone.\<close>

definition touched_disk :: "runtime \<Rightarrow> disk \<Rightarrow> disk \<Rightarrow> bool" where
  "touched_disk rt = (\<lambda>x y. \<exists>n i. y = rt_touch rt n i x)\<^sup>*\<^sup>*"

text \<open>An attempt of the call \<open>tc\<close> that was not finished when the worker began.\<close>

definition unfinished :: "db \<Rightarrow> db \<Rightarrow> string \<Rightarrow> string \<Rightarrow> bool" where
  "unfinished d0 d aid tc \<longleftrightarrow> (\<exists>a. get_attempt_row d aid = Some a \<and> a_tool_call_id a = tc) \<and>
     (\<forall>a. get_attempt_row d0 aid = Some a \<longrightarrow> a_state a = TC_DISPATCHED)"

definition named :: "db \<Rightarrow> string \<Rightarrow> string \<Rightarrow> bool" where
  "named d tc nm \<longleftrightarrow> (\<exists>c. get_tool_call_row d tc = Some c \<and> c_tool_name c = nm)"

definition evidence :: "db \<Rightarrow> db \<Rightarrow> bool" where
  "evidence d0 d \<longleftrightarrow> (\<exists>aid tc nm. unfinished d0 d aid tc \<and> named d tc nm \<and> \<not> read_tool nm)"

text \<open>Identifiers the worker draws are new: none of them names an attempt of the store it starts from.\<close>

definition fresh_ids :: "runtime \<Rightarrow> db \<Rightarrow> bool" where
  "fresh_ids rt d0 \<longleftrightarrow> (\<forall>n i. get_attempt_row d0 (rt_uuid rt n i) = None)"

lemma unfinished_le: "unfinished d0 d aid tc \<Longrightarrow> tools_le d d' \<Longrightarrow> unfinished d0 d' aid tc"
  unfolding unfinished_def tools_le_def by blast

lemma named_le: "named d tc nm \<Longrightarrow> tools_le d d' \<Longrightarrow> named d' tc nm"
  unfolding named_def tools_le_def by metis

lemma evidence_le: "evidence d0 d \<Longrightarrow> tools_le d d' \<Longrightarrow> evidence d0 d'"
  unfolding evidence_def using unfinished_le named_le by meson

section \<open>Facts that a worker keeps\<close>

text \<open>A fact about the store, known from some moment on.\<close>

definition knows :: "runtime \<Rightarrow> db \<Rightarrow> (db \<Rightarrow> bool) \<Rightarrow> world \<Rightarrow> bool" where
  "knows rt d0 F w \<longleftrightarrow> (sound_start rt d0 \<and> fresh_ids rt d0 \<longrightarrow>
     (store_step (rt_env rt))\<^sup>*\<^sup>* d0 (w_db w) \<and> (\<forall>d. tools_le (w_db w) d \<longrightarrow> F d))"

lemma knows_stable:
  assumes "knows rt d0 F w" "sound_start rt d0 \<Longrightarrow> (store_step (rt_env rt))\<^sup>*\<^sup>* (w_db w) (w_db w')"
  shows "knows rt d0 F w'"
  unfolding knows_def
proof (intro impI, elim conjE, intro conjI allI impI)
  assume s: "sound_start rt d0" "fresh_ids rt d0"
  then have w: "(store_step (rt_env rt))\<^sup>*\<^sup>* d0 (w_db w)" "tools_le (w_db w) d \<Longrightarrow> F d" for d
    using assms(1) by (simp_all add: knows_def)
  from w(1) assms(2) [OF s(1)] show "(store_step (rt_env rt))\<^sup>*\<^sup>* d0 (w_db w')" by simp
  fix d assume "tools_le (w_db w') d"
  moreover have "reachable (rt_env rt) (w_db w)" using steps_reachable [OF w(1)] s by (simp add: sound_start_def)
  ultimately show "F d" using w(2) tools_le_trans reachable_tools_le [OF _ assms(2) [OF s(1)]] by blast
qed

interpretation knowledge: disk_free_invariant rt d0 "knows rt d0 F" for rt d0 F
proof
  fix w w' :: world
  assume "knows rt d0 F w" "sound_start rt d0 \<Longrightarrow> (store_step (rt_env rt))\<^sup>*\<^sup>* (w_db w) (w_db w')"
  then show "knows rt d0 F w'" by (rule knows_stable)
qed (simp_all add: knows_def)

text \<open>The disk is as other processes left it, or the store holds the evidence.\<close>

definition effects_inv :: "runtime \<Rightarrow> db \<Rightarrow> disk \<Rightarrow> world \<Rightarrow> bool" where
  "effects_inv rt d0 dk w \<longleftrightarrow> knows rt d0 (\<lambda>_. True) w \<and> (touched_disk rt dk (w_disk w) \<or> knows rt d0 (evidence d0) w)"

lemma effects_inv_evident: "knows rt d0 (evidence d0) w \<Longrightarrow> effects_inv rt d0 dk w"
  by (auto simp: effects_inv_def knows_def)

interpretation effects: runtime_invariant rt d0 "effects_inv rt d0 dk" for rt d0 dk
proof
  fix w w' :: world
  assume "effects_inv rt d0 dk w" "w_disk w' = w_disk w"
    "sound_start rt d0 \<Longrightarrow> (store_step (rt_env rt))\<^sup>*\<^sup>* (w_db w) (w_db w')"
  then show "effects_inv rt d0 dk w'" unfolding effects_inv_def by (metis knows_stable)
next
  fix w n i assume "effects_inv rt d0 dk w"
  moreover have "touched_disk rt dk x \<Longrightarrow> touched_disk rt dk (rt_touch rt n i x)" for x
    unfolding touched_disk_def by (rule rtranclp.rtrancl_into_rtrancl) auto
  ultimately show "effects_inv rt d0 dk (w\<lparr>w_disk := rt_touch rt n i (w_disk w)\<rparr>)"
    by (auto simp: effects_inv_def knows_def)
qed (auto simp: effects_inv_def knows_def)

section \<open>Executors\<close>

text \<open>Every execution from \<open>P\<close> ends in \<open>R\<close>, whether it returns or raises.\<close>

definition leads :: "(world \<Rightarrow> bool) \<Rightarrow> 'a action \<Rightarrow> (world \<Rightarrow> bool) \<Rightarrow> bool" where
  "leads P m R \<longleftrightarrow> (\<forall>w. P w \<longrightarrow> R (snd (m w)))"

lemma leads_keeps: "keepsR Q m \<Longrightarrow> (\<And>w. P w \<Longrightarrow> Q w) \<Longrightarrow> (\<And>w. Q w \<Longrightarrow> R w) \<Longrightarrow> leads P m R"
  by (simp add: leads_def keepsR_def)

lemma leads_learn:
  assumes "\<And>w. P w \<Longrightarrow> R w" "keepsR P m" "ensures P m Q" "\<And>x. leads (\<lambda>w. P w \<and> Q x w) (f x) R"
  shows "leads P (bindR m f) R"
  unfolding leads_def
proof (intro allI impI)
  fix w assume P: "P w"
  obtain r w' where m: "m w = (r, w')" by fastforce
  have P': "P w'" using assms(2) P m by (rule keepsRD)
  show "R (snd (bindR m f w))"
  proof (cases r)
    case (Inl e)
    then show ?thesis using assms(1) [OF P'] m by (simp add: bindR_def)
  next
    case (Inr x)
    then have "Q x w'" using ensuresD [OF assms(3) P] m by blast
    then show ?thesis using assms(4) P' m Inr by (simp add: leads_def bindR_def)
  qed
qed

lemma leads_step:
  assumes "\<And>w. P w \<Longrightarrow> R w" "keepsR P m" "\<And>x. leads P (f x) R"
  shows "leads P (bindR m f) R"
  using assms(1,2) by (rule leads_learn [where Q = "\<lambda>_ _. True"]) (simp_all add: ensures_def assms(3))

lemma leads_if: "leads P m R \<Longrightarrow> leads P n R \<Longrightarrow> leads P (if c then m else n) R"
  by simp

lemma ensures_strengthen: "ensures P m Q \<Longrightarrow> (\<And>w. P' w \<Longrightarrow> P w) \<Longrightarrow> ensures P' m Q"
  by (auto simp: ensures_def)

text \<open>A dispatch that returns left an attempt of the call behind, under the identifier it was given.\<close>

lemma dispatch_inserts:
  "wp (dispatch_tool_call_body env now eid fid tc plan idn pid None ctx)
     (\<lambda>_ d'. \<exists>a. get_attempt_row d' fid = Some a \<and> a_tool_call_id a = tc) d"
  unfolding dispatch_tool_call_body_def wp_if wp_bind [of "getT _"] wp_get wp_bind [of "readT _"] wp_read
    wp_case_option wp_throw wp_return wp_bind [of "returnT _"] wp_bind [of "modifyT _"] wp_modify
    wp_bind [of "insert_attempt _"] wp_bind [of "liftT _"] wp_lift
  by (intro conjI impI allI TrueI wp_insert_attempt wp_append_side wp_touch_side)
    (auto simp: wp_return same_side_def side_lookups chosen_attempt_id_def)

lemma ensures_dispatch:
  "ensures (knows rt d0 (\<lambda>d. named d tc nm)) (do_dispatch rt tc plan idn)
     (\<lambda>_ w. \<not> read_tool nm \<longrightarrow> knows rt d0 (evidence d0) w)"
proof -
  let ?K = "knows rt d0 (\<lambda>d. named d tc nm)"
  have dispatched: "ensures ?K (do_dispatch rt tc plan idn)
      (\<lambda>_ w. sound_start rt d0 \<longrightarrow> (\<exists>n. fresh_ids rt d0 \<longrightarrow> unfinished d0 (w_db w) (rt_uuid rt n 1) tc))"
    unfolding do_dispatch_def
  proof (rule knowledge.ensures_fenced)
    fix now n ctx w x c d'
    assume "dispatch_tool_call (rt_env rt) now (rt_uuid rt n 0) (rt_uuid rt n 1) tc plan idn (rt_pid rt) None ctx (w_db w) =
      (Inr (x, c), d')"
    then have "\<exists>a. get_attempt_row d' (rt_uuid rt n 1) = Some a \<and> a_tool_call_id a = tc"
      unfolding dispatch_tool_call_def
      by (elim run_command_cases) (auto dest: wpD [OF dispatch_inserts])
    then show "\<exists>n. fresh_ids rt d0 \<longrightarrow> unfinished d0 d' (rt_uuid rt n 1) tc"
      by (auto simp: unfinished_def fresh_ids_def)
  qed
  have kept: "keepsR ?K (do_dispatch rt tc plan idn)" by (rule knowledge.keeps_dispatch)
  show ?thesis
    unfolding ensures_def
  proof (intro allI impI)
    fix w x w' assume w: "?K w" and m: "do_dispatch rt tc plan idn w = (Inr x, w')" and nm: "\<not> read_tool nm"
    have "?K w'" using kept w m by (rule keepsRD)
    moreover have "sound_start rt d0 \<Longrightarrow> fresh_ids rt d0 \<Longrightarrow> \<exists>aid. unfinished d0 (w_db w') aid tc"
      using ensuresD [OF dispatched w m] by blast
    ultimately show "knows rt d0 (evidence d0) w'"
      unfolding knows_def evidence_def using nm unfinished_le by blast
  qed
qed

text \<open>What the executors read of a call or an attempt stays true of it.\<close>

lemma ensures_get_tool_call:
  "ensures (effects_inv rt d0 dk) (query rt (\<lambda>d. get_tool_call (rt_env rt) d tc))
     (\<lambda>c. knows rt d0 (\<lambda>d. named d tc (c_tool_name (tr_row c))))"
proof -
  let ?q = "query rt (\<lambda>d. get_tool_call (rt_env rt) d tc)"
  have "ensures (effects_inv rt d0 dk) ?q (\<lambda>c w. sound_start rt d0 \<longrightarrow> named (w_db w) tc (c_tool_name (tr_row c)))"
    unfolding query_def timed_query_def
    by (rule effects.ensures_call)
      (auto simp: get_tool_call_def named_def tool_call_from_row_def bindE_eq_Inr split: option.splits if_splits)
  then show ?thesis
    using effects.keeps_query [of rt d0 dk "\<lambda>d. get_tool_call (rt_env rt) d tc"]
    unfolding ensures_def keepsR_def effects_inv_def knows_def by (metis named_le snd_conv)
qed

lemma ensures_get_tool_attempt:
  "ensures (effects_inv rt d0 dk) (query rt (\<lambda>d. get_tool_attempt d aid))
     (\<lambda>a w. a_state (ta_row a) = TC_DISPATCHED \<longrightarrow>
        knows rt d0 (\<lambda>d. unfinished d0 d aid (a_tool_call_id (ta_row a))) w)"
proof -
  let ?q = "query rt (\<lambda>d. get_tool_attempt d aid)"
  have read: "ensures (effects_inv rt d0 dk) ?q (\<lambda>a w. sound_start rt d0 \<longrightarrow> get_attempt_row (w_db w) aid = Some (ta_row a))"
    unfolding query_def timed_query_def
    by (rule effects.ensures_call) (auto simp: get_tool_attempt_def tool_attempt_from_row_def split: option.splits)
  show ?thesis
    unfolding ensures_def
  proof (intro allI impI)
    fix w a w' assume w: "effects_inv rt d0 dk w" and m: "?q w = (Inr a, w')" and a: "a_state (ta_row a) = TC_DISPATCHED"
    have row: "sound_start rt d0 \<longrightarrow> get_attempt_row (w_db w') aid = Some (ta_row a)" using read w m by (rule ensuresD)
    have w': "knows rt d0 (\<lambda>_. True) w'"
      using keepsRD [OF effects.keeps_query w m] by (simp add: effects_inv_def)
    have "unfinished d0 (w_db w') aid (a_tool_call_id (ta_row a))" if s: "sound_start rt d0" "fresh_ids rt d0"
    proof -
      have "tools_le d0 (w_db w')"
        using w' s reachable_tools_le by (auto simp: knows_def sound_start_def)
      then show ?thesis using row s(1) a unfolding unfinished_def tools_le_def by (metis option.inject)
    qed
    with w' show "knows rt d0 (\<lambda>d. unfinished d0 d aid (a_tool_call_id (ta_row a))) w'"
      by (auto simp: knows_def intro: unfinished_le)
  qed
qed

text \<open>Reading tools leave the disk alone.\<close>

lemma keeps_read_effect: "read_tool nm \<Longrightarrow> keepsR (effects_inv rt d0 dk) (execute_dispatched rt a nm args plan)"
  unfolding execute_dispatched_def file_effect_def
  by (auto simp: read_tool_def intro!: effects.keeps_actions)

lemma leads_execute:
  assumes "\<And>w. P w \<Longrightarrow> effects_inv rt d0 dk w" "\<And>w. P w \<Longrightarrow> \<not> read_tool nm \<Longrightarrow> knows rt d0 (evidence d0) w"
  shows "leads P (execute_dispatched rt a nm args plan) (effects_inv rt d0 dk)"
proof (cases "read_tool nm")
  case True
  then show ?thesis using keeps_read_effect assms(1) by (blast intro: leads_keeps)
next
  case False
  then show ?thesis
    by (intro leads_keeps [OF knowledge.keeps_execute_dispatched [of rt d0 "evidence d0"]])
      (simp_all add: assms(2) effects_inv_evident)
qed

lemma keeps_both:
  "keepsR (effects_inv rt d0 dk) m \<Longrightarrow> keepsR (knows rt d0 F) m \<Longrightarrow> keepsR (\<lambda>w. effects_inv rt d0 dk w \<and> knows rt d0 F w) m"
  by (rule keepsR_conj)

lemma dispatch_learns:
  "keepsR (\<lambda>w. effects_inv rt d0 dk w \<and> knows rt d0 (\<lambda>d. named d tc nm) w) (do_dispatch rt tc p i)"
  "ensures (\<lambda>w. effects_inv rt d0 dk w \<and> knows rt d0 (\<lambda>d. named d tc nm) w) (do_dispatch rt tc p i)
     (\<lambda>_ w. \<not> read_tool nm \<longrightarrow> knows rt d0 (evidence d0) w)"
  by (intro keepsR_conj effects.keeps_dispatch knowledge.keeps_dispatch ensures_strengthen [OF ensures_dispatch]; simp)+

lemma file_execute_effects: "keepsR (effects_inv rt d0 dk) (file_execute rt tc)"
proof -
  let ?E = "effects_inv rt d0 dk"
  have "leads ?E (file_execute rt tc) ?E"
    unfolding file_execute_def
  proof (rule leads_learn [OF _ effects.keeps_query ensures_get_tool_call], assumption,
      (rule leads_step, blast, intro keeps_both effects.keeps_actions effects.keeps_plan_action
        knowledge.keeps_actions knowledge.keeps_plan_action)+, goal_cases)
    case (1 c args planned)
    let ?nm = "c_tool_name (tr_row c)"
    let ?K = "\<lambda>w. ?E w \<and> knows rt d0 (\<lambda>d. named d tc ?nm) w"
    show ?case
    proof (cases planned)
      case (Inl e)
      then show ?thesis
        by (auto intro!: leads_keeps [where Q = ?E] effects.keeps_actions)
    next
      case (Inr p)
      then show ?thesis
        by (cases p) (auto intro!: leads_learn [OF _ dispatch_learns] leads_execute)
    qed
  qed
  then show ?thesis by (simp add: leads_def keepsR_def)
qed

lemma file_recover_effects: "keepsR (effects_inv rt d0 dk) (file_recover rt aid)"
proof -
  let ?E = "effects_inv rt d0 dk"
  have "leads ?E (file_recover rt aid) ?E"
    unfolding file_recover_def
  proof (rule leads_learn [OF _ effects.keeps_query ensures_get_tool_attempt], assumption, goal_cases)
    case (1 a)
    let ?tc = "a_tool_call_id (ta_row a)"
    show ?case
    proof (cases "a_state (ta_row a) = TC_DISPATCHED")
      case False
      then show ?thesis by (auto intro!: leads_keeps [where Q = ?E] effects.keeps_actions)
    next
      case True
      let ?U = "\<lambda>w. ?E w \<and> knows rt d0 (\<lambda>d. unfinished d0 d aid ?tc) w"
      have evident: "knows rt d0 (evidence d0) w"
        if "knows rt d0 (\<lambda>d. unfinished d0 d aid ?tc) w" "knows rt d0 (\<lambda>d. named d ?tc nm) w" "\<not> read_tool nm" for w nm
        using that unfolding knows_def evidence_def by blast
      have uncertain: "leads P (do_uncertain rt aid t) ?E" if "\<And>w. P w \<Longrightarrow> ?E w" for P t
        unfolding do_uncertain_def using effects.keeps_finish that by (rule leads_keeps) simp
      have q: "keepsR ?U (query rt f)" "ensures ?U (query rt (\<lambda>d. get_tool_call (rt_env rt) d ?tc))
        (\<lambda>c. knows rt d0 (\<lambda>d. named d ?tc (c_tool_name (tr_row c))))" for f :: "db \<Rightarrow> tool_call_record result"
        by (intro keepsR_conj effects.keeps_query knowledge.keeps_query
            ensures_strengthen [OF ensures_get_tool_call [of rt d0 dk]]; simp)+
      show ?thesis
        using True
        by (auto intro!: leads_learn [OF _ q] leads_step leads_if leads_execute uncertain
            keepsR_conj effects.keeps_actions knowledge.keeps_actions split: option.split elim: evident)
    qed
  qed
  then show ?thesis by (simp add: leads_def keepsR_def)
qed

lemma shell_execute_effects: "keepsR (effects_inv rt d0 dk) (shell_execute rt tc)"
proof -
  let ?E = "effects_inv rt d0 dk"
  have "leads ?E (shell_execute rt tc) ?E"
    unfolding shell_execute_def
  proof (rule leads_learn [OF _ effects.keeps_query ensures_get_tool_call], assumption, goal_cases)
    case (1 c)
    let ?nm = "c_tool_name (tr_row c)"
    let ?K = "\<lambda>w. ?E w \<and> knows rt d0 (\<lambda>d. named d tc ?nm) w"
    show ?case
    proof (cases "?nm = ''run_process''")
      case True
      have run: "leads (\<lambda>w. ?K w \<and> (\<not> read_tool ?nm \<longrightarrow> knows rt d0 (evidence d0) w))
        (catchR (bindR (disk_op rt f) (\<lambda>receipt. do_finish rt aid ''succeeded'' (g receipt) (h receipt) mt None))
          (\<lambda>e. bindR (exception_document rt e) (\<lambda>doc. do_finish rt aid ''failed'' None None mt2 (Some doc)))) ?E"
        for f aid g h mt mt2
        by (rule leads_keeps [where Q = "knows rt d0 (evidence d0)"])
          (auto simp: True read_tool_def effects_inv_evident intro!: knowledge.keeps_actions knowledge.keeps_disk_op)
      have E: "?E w" if "?K w" for w using that by blast
      have lifts: "leads ?K (bindR (liftR r) f) ?E" if "\<And>x. leads ?K (f x) ?E" for r and f :: "'a \<Rightarrow> tool_attempt_record action"
        using that by (intro leads_step [OF E]) (assumption, rule keeps_rules)
      have reads: "leads ?K (bindR (disk_read rt g) f) ?E" if "\<And>x. leads ?K (f x) ?E" for g and f :: "'a \<Rightarrow> tool_attempt_record action"
        using that by (intro leads_step [OF E]) (assumption, intro keepsR_conj effects.keeps_disk_read knowledge.keeps_disk_read)
      have if_run: "(if ?nm \<noteq> ''run_process'' then m else n) = n" for m n :: "'x action" by (simp add: True)
      show ?thesis
        unfolding if_run
        by (rule lifts, rule reads, rule lifts, rule leads_learn [OF E dispatch_learns], assumption, rule run)
    qed (auto intro!: leads_keeps [where Q = ?E] effects.keeps_actions)
  qed
  then show ?thesis by (simp add: leads_def keepsR_def)
qed

interpretation effects: effect_invariant rt d0 "effects_inv rt d0 dk" for rt d0 dk
  by unfold_locales (rule file_execute_effects file_recover_effects shell_execute_effects)+

lemma attempt_row_stored: "get_attempt_row d k = Some a \<Longrightarrow> a \<in> set (tool_attempts d) \<and> a_attempt_id a = k"
  by (auto simp: get_attempt_row_def dest: row_get_SomeD)

lemma call_row_stored: "get_tool_call_row d k = Some c \<Longrightarrow> c \<in> set (tool_calls d) \<and> c_tool_call_id c = k"
  by (auto simp: get_tool_call_row_def dest: row_get_SomeD)

section \<open>The worker\<close>

lemma agent_run_effects:
  assumes "sound_start rt (w_db w)" "fresh_ids rt (w_db w)"
  shows "touched_disk rt (w_disk w) (w_disk (snd (agent_run rt k ctx w))) \<or>
    evidence (w_db w) (w_db (snd (agent_run rt k ctx w)))"
proof -
  have "steps_inv rt (w_db w) w \<and> effects_inv rt (w_db w) (w_disk w) w"
    by (simp add: steps_inv_def effects_inv_def knows_def touched_disk_def)
  then have "effects_inv rt (w_db w) (w_disk w) (snd (agent_run rt k ctx w))"
    using effects.keeps_run [of rt "w_db w" "w_disk w" k ctx] by (simp add: keepsR_def)
  then show ?thesis using assms by (auto simp: effects_inv_def knows_def)
qed

end
