(* ===== verification/Shadow.thy ===== *)
theory Shadow
  imports Tables Prompt Json_Loads File_Search
begin

text \<open>
  The run projection in Redis, a disposable copy of what SQL says
  (\<^verbatim>\<open>production/shadow_projection.py\<close>, \<^verbatim>\<open>production/redis_shadow.py\<close>): snapshots and their
  canonical form, keys, decimal versions, and the Lua script that guards every write. Redis
  is its hashes by key; it executes a script atomically.
\<close>

section \<open>Text helpers\<close>

text \<open>\<^verbatim>\<open>s.isascii() and s.isdecimal()\<close>\<close>

definition ascii_decimal :: "string \<Rightarrow> bool" where
  "ascii_decimal s \<longleftrightarrow> s \<noteq> [] \<and> list_all json_digit s"

definition leading_zero :: "string \<Rightarrow> bool" where
  "leading_zero s \<longleftrightarrow> 1 < length s \<and> hd s = CHR ''0''"

text \<open>\<^verbatim>\<open>f"{n:0wd}"\<close> for a number that is not negative.\<close>

definition zero_padded :: "nat \<Rightarrow> nat \<Rightarrow> string" where
  "zero_padded w n = (let s = nat_digits n in replicate (w - length s) (CHR ''0'') @ s)"

text \<open>\<^verbatim>\<open>base64.urlsafe_b64encode(s).rstrip("=")\<close>\<close>

definition b64_char :: "nat \<Rightarrow> char" where
  "b64_char n =
     (if n < 26 then char_of (65 + n) else if n < 52 then char_of (71 + n)
      else if n < 62 then char_of (n - 4) else if n = 62 then CHR ''-'' else CHR ''_'')"

fun base64url :: "nat list \<Rightarrow> string" where
  "base64url [] = []"
| "base64url [a] = [b64_char (a div 4), b64_char (a mod 4 * 16)]"
| "base64url [a, b] = [b64_char (a div 4), b64_char (a mod 4 * 16 + b div 16), b64_char (b mod 16 * 4)]"
| "base64url (a # b # c # s) =
     b64_char (a div 4) # b64_char (a mod 4 * 16 + b div 16) # b64_char (b mod 16 * 4 + c div 64) #
     b64_char (c mod 64) # base64url s"

text \<open>
  \<^verbatim>\<open>datetime.astimezone(utc).isoformat(timespec="microseconds")\<close> with the suffix \<open>Z\<close>: the date of
  a day number in the Gregorian calendar, by eras of 400 years that start in March.
\<close>

definition civil_date :: "int \<Rightarrow> int \<times> int \<times> int" where
  "civil_date day =
     (let z = day + 719468; era = z div 146097; doe = z mod 146097;
          yoe = (doe - doe div 1460 + doe div 36524 - doe div 146096) div 365;
          doy = doe - (365 * yoe + yoe div 4 - yoe div 100);
          mp = (5 * doy + 2) div 153;
          d = doy - (153 * mp + 2) div 5 + 1;
          m = (if mp < 10 then mp + 3 else mp - 9)
      in (yoe + era * 400 + (if m \<le> 2 then 1 else 0), m, d))"

definition iso_timestamp :: "instant \<Rightarrow> string" where
  "iso_timestamp t =
     (let (y, m, d) = civil_date (t div 86400000000); r = t mod 86400000000;
          pad = (\<lambda>w i. zero_padded w (nat i))
      in pad 4 y @ ''-'' @ pad 2 m @ ''-'' @ pad 2 d @ ''T'' @ pad 2 (r div 3600000000) @ '':'' @
         pad 2 (r div 60000000 mod 60) @ '':'' @ pad 2 (r div 1000000 mod 60) @ ''.'' @ pad 6 (r mod 1000000) @ ''Z'')"

section \<open>Snapshots\<close>

definition SHADOW_PROJECTION_SCHEMA_VERSION :: int where
  "SHADOW_PROJECTION_SCHEMA_VERSION = 1"

datatype write_status = WS_APPLIED | WS_STALE | WS_DUPLICATE | WS_CONFLICT

fun write_status_value :: "write_status \<Rightarrow> string" where
  "write_status_value WS_APPLIED = ''applied''"
| "write_status_value WS_STALE = ''stale''"
| "write_status_value WS_DUPLICATE = ''duplicate''"
| "write_status_value WS_CONFLICT = ''conflict''"

definition validate_identity :: "nat \<Rightarrow> string \<Rightarrow> unit result" where
  "validate_identity maximum value =
     (if value = [] \<or> maximum < str_length value \<or> char_of (0 :: nat) \<in> set value then Inl ValueError else Inr ())"

definition validate_version :: "int \<Rightarrow> unit result" where
  "validate_version value = (if value < 0 then Inl ValueError else Inr ())"

record projection_write_result =
  pw_status :: write_status
  pw_incoming_version :: int
  pw_stored_version :: int

definition projection_write_result_new :: "write_status \<Rightarrow> int \<Rightarrow> int \<Rightarrow> projection_write_result result" where
  "projection_write_result_new status incoming stored =
     bindE (validate_version incoming) (\<lambda>_.
     bindE (validate_version stored) (\<lambda>_.
     Inr \<lparr>pw_status = status, pw_incoming_version = incoming, pw_stored_version = stored\<rparr>))"

record snapshot =
  sn_tenant_id :: string
  sn_run_id :: string
  sn_stream_version :: int
  sn_execution_status :: execution_status
  sn_phase :: "string option"
  sn_last_event_seq :: int
  sn_updated_at :: datetime

text \<open>\<^verbatim>\<open>ShadowProjectionSnapshot.__post_init__\<close>\<close>

definition snapshot_new :: "snapshot \<Rightarrow> snapshot result" where
  "snapshot_new s =
     bindE (validate_identity 512 (sn_tenant_id s)) (\<lambda>_.
     bindE (validate_identity 512 (sn_run_id s)) (\<lambda>_.
     bindE (validate_version (sn_stream_version s)) (\<lambda>_.
     bindE (validate_version (sn_last_event_seq s)) (\<lambda>_.
     if sn_stream_version s \<noteq> sn_last_event_seq s then Inl ValueError
     else if sn_phase s = Some [] then Inl ValueError
     else if is_naive (sn_updated_at s) then Inl ValueError
     else Inr s))))"

definition is_terminal :: "snapshot \<Rightarrow> bool" where
  "is_terminal s \<longleftrightarrow> sn_execution_status s \<in> set TERMINAL_EXECUTION_STATUSES"

fun instant_of :: "datetime \<Rightarrow> instant" where
  "instant_of (Aware t) = t"
| "instant_of (Naive t) = t"

definition canonical_timestamp :: "datetime \<Rightarrow> string" where
  "canonical_timestamp t = iso_timestamp (instant_of t)"

definition canonical_mapping :: "snapshot \<Rightarrow> (string \<times> string option) list" where
  "canonical_mapping s =
     [(''execution_status'', Some (execution_status_value (sn_execution_status s))),
      (''last_event_seq'', Some (int_text (sn_last_event_seq s))),
      (''phase'', sn_phase s),
      (''run_id'', Some (sn_run_id s)),
      (''schema_version'', Some (int_text SHADOW_PROJECTION_SCHEMA_VERSION)),
      (''stream_version'', Some (int_text (sn_stream_version s))),
      (''tenant_id'', Some (sn_tenant_id s)),
      (''updated_at'', Some (canonical_timestamp (sn_updated_at s)))]"

definition text_document :: "(string \<times> string option) list \<Rightarrow> json" where
  "text_document items = JObj (map (\<lambda>(k, v). (k, case v of None \<Rightarrow> JNull | Some t \<Rightarrow> JStr t)) items)"

definition canonical_bytes :: "snapshot \<Rightarrow> string" where
  "canonical_bytes s = canonical_json (text_document (canonical_mapping s))"

definition canonical_sha256 :: "env \<Rightarrow> snapshot \<Rightarrow> string" where
  "canonical_sha256 env s = sha256 env (canonical_bytes s)"

section \<open>Decimal versions\<close>

definition canonical_decimal :: "string \<Rightarrow> string result" where
  "canonical_decimal value =
     (if \<not> ascii_decimal value then Inl ValueError
      else if leading_zero value then Inl ValueError
      else Inr value)"

definition compare_decimal_versions :: "string \<Rightarrow> string \<Rightarrow> int result" where
  "compare_decimal_versions left right =
     bindE (canonical_decimal left) (\<lambda>l.
     bindE (canonical_decimal right) (\<lambda>r.
     if length l \<noteq> length r then Inr (if length l < length r then - 1 else 1)
     else Inr ((if l > r then 1 else 0) - (if l < r then 1 else 0))))"

definition VERSION_FIELDS :: "string list" where
  "VERSION_FIELDS = [''last_event_seq'', ''schema_version'', ''stream_version'']"

definition canonical_projection_hash :: "env \<Rightarrow> (string \<times> string option) list \<Rightarrow> string result" where
  "canonical_projection_hash env items =
     bindE (mapE (\<lambda>(k, v).
       if k = [] then Inl ValueError
       else case v of
         Some t \<Rightarrow> if k \<in> set VERSION_FIELDS then bindE (canonical_decimal t) (\<lambda>_. Inr (k, v)) else Inr (k, v)
       | None \<Rightarrow> Inr (k, v)) items) (\<lambda>normalized.
     Inr (sha256 env (canonical_json (text_document normalized))))"

section \<open>Keys\<close>

definition environment_char :: "bool \<Rightarrow> char \<Rightarrow> bool" where
  "environment_char first c \<longleftrightarrow> (let n = (of_char c :: nat) in
     97 \<le> n \<and> n \<le> 122 \<or> 48 \<le> n \<and> n \<le> 57 \<or> \<not> first \<and> (n = 95 \<or> n = 45))"

text \<open>\<^verbatim>\<open>[a-z0-9][a-z0-9_-]{0,31}\<close>\<close>

definition environment_ok :: "string \<Rightarrow> bool" where
  "environment_ok e \<longleftrightarrow> (case e of [] \<Rightarrow> False
     | c # cs \<Rightarrow> environment_char True c \<and> list_all (environment_char False) cs \<and> length cs \<le> 31)"

definition base64url_identity :: "string \<Rightarrow> string result" where
  "base64url_identity value = bindE (validate_identity 512 value) (\<lambda>_. Inr (base64url (map of_char value)))"

definition projection_key :: "string \<Rightarrow> string \<Rightarrow> string \<Rightarrow> string result" where
  "projection_key environment tenant_id run_id =
     (if \<not> environment_ok environment then Inl ValueError
      else
        bindE (base64url_identity tenant_id) (\<lambda>tenant_token.
        bindE (base64url_identity run_id) (\<lambda>run_token.
        Inr (''fr:'' @ environment @ '':v'' @ int_text SHADOW_PROJECTION_SCHEMA_VERSION @ '':{t:'' @ tenant_token @
             '':r:'' @ run_token @ ''}:projection''))))"

section \<open>The Lua script\<close>

record redis_entry =
  re_fields :: "string \<rightharpoonup> string"
  re_ttl :: string

type_synonym redis = "string \<rightharpoonup> redis_entry"

datatype lua_reply = LuaError | LuaPair string string

text \<open>\<^verbatim>\<open>HGET\<close> of a missing field is \<open>false\<close>, here \<^const>\<open>None\<close>.\<close>

definition lua_is_canonical_decimal :: "string option \<Rightarrow> bool" where
  "lua_is_canonical_decimal value = (case value of
       None \<Rightarrow> False
     | Some v \<Rightarrow> if v = [] then False else if \<not> list_all json_digit v then False
         else \<not> (1 < length v \<and> hd v = CHR ''0''))"

definition lua_compare_decimal :: "string \<Rightarrow> string \<Rightarrow> int" where
  "lua_compare_decimal left right =
     (if length left < length right then - 1
      else if length left > length right then 1
      else if left < right then - 1
      else if left > right then 1
      else 0)"

fun hset_pairs :: "string list \<Rightarrow> (string \<rightharpoonup> string) \<Rightarrow> (string \<rightharpoonup> string)" where
  "hset_pairs (k # v # args) m = hset_pairs args (m(k \<mapsto> v))"
| "hset_pairs _ m = m"

definition apply_projection :: "string \<Rightarrow> string list \<Rightarrow> redis \<Rightarrow> redis" where
  "apply_projection key argv r =
     r(key \<mapsto> \<lparr>re_fields = hset_pairs (drop 3 argv) (case r key of None \<Rightarrow> Map.empty | Some e \<Rightarrow> re_fields e),
              re_ttl = argv ! 2\<rparr>)"

text \<open>
  \<^verbatim>\<open>REDIS_PROJECTION_CAS_LUA\<close>; an index past the end of \<^verbatim>\<open>ARGV\<close> is \<open>nil\<close>, and an \<^verbatim>\<open>EXPIRE\<close> without its
  argument is an error.
\<close>

definition projection_cas :: "string \<Rightarrow> string list \<Rightarrow> redis \<Rightarrow> lua_reply \<times> redis" where
  "projection_cas key argv r =
     (let incoming_version = (if 0 < length argv then Some (argv ! 0) else None);
          incoming_hash = (if 1 < length argv then Some (argv ! 1) else None) in
      if \<not> lua_is_canonical_decimal incoming_version then (LuaError, r)
      else if incoming_hash = None \<or> \<not> sha256_text (the incoming_hash) then (LuaError, r)
      else if length argv < 3 \<or> (length argv - 3) mod 2 \<noteq> 0 then (LuaError, r)
      else case r key of
        None \<Rightarrow> (LuaPair ''applied'' (the incoming_version), apply_projection key argv r)
      | Some e \<Rightarrow>
          if \<not> lua_is_canonical_decimal (re_fields e ''stream_version'') then (LuaError, r)
          else
            let stored_version = the (re_fields e ''stream_version'');
                ordering = lua_compare_decimal (the incoming_version) stored_version in
            if ordering > 0 then (LuaPair ''applied'' (the incoming_version), apply_projection key argv r)
            else if ordering < 0 then (LuaPair ''stale'' stored_version, r)
            else if re_fields e ''canonical_sha256'' = incoming_hash then (LuaPair ''duplicate'' stored_version, r)
            else (LuaPair ''conflict'' stored_version, r))"

section \<open>The sink\<close>

text \<open>What a Redis client hands back: the driver decodes replies to text or leaves them bytes.\<close>

datatype redis_value = RStr string | RBytes string | RInt int | RNone | RSeq "redis_value list"

datatype redis_answer = RedisRaised | RedisAnswer redis_value

definition is_ascii :: "string \<Rightarrow> bool" where
  "is_ascii s \<longleftrightarrow> list_all (\<lambda>c. of_char c < (128 :: nat)) s"

definition decode_response_text :: "redis_value \<Rightarrow> string result" where
  "decode_response_text v = (case v of
       RBytes b \<Rightarrow> if is_ascii b then Inr b else Inl ShadowProjectionProtocolError
     | RStr s \<Rightarrow> Inr s
     | _ \<Rightarrow> Inl ShadowProjectionProtocolError)"

definition write_status_of :: "string \<Rightarrow> write_status option" where
  "write_status_of s = find (\<lambda>x. write_status_value x = s) [WS_APPLIED, WS_STALE, WS_DUPLICATE, WS_CONFLICT]"

text \<open>The versions a status allows, as both adapters and the relay check them.\<close>

definition status_versions_ok :: "write_status \<Rightarrow> int \<Rightarrow> int \<Rightarrow> bool" where
  "status_versions_ok status incoming stored \<longleftrightarrow> (case status of
       WS_APPLIED \<Rightarrow> stored = incoming
     | WS_STALE \<Rightarrow> stored > incoming
     | WS_DUPLICATE \<Rightarrow> stored = incoming
     | WS_CONFLICT \<Rightarrow> stored = incoming)"

definition parse_write_response :: "redis_value \<Rightarrow> int \<Rightarrow> projection_write_result result" where
  "parse_write_response response incoming_version = (case response of
       RSeq [s, v] \<Rightarrow>
         bindE (decode_response_text s) (\<lambda>status_text.
         bindE (decode_response_text v) (\<lambda>version_text.
         case write_status_of status_text of
           None \<Rightarrow> Inl ShadowProjectionProtocolError
         | Some status \<Rightarrow>
             if \<not> ascii_decimal version_text \<or> leading_zero version_text then Inl ShadowProjectionProtocolError
             else
               let stored_version = int (read_nat version_text) in
               if \<not> status_versions_ok status incoming_version stored_version then Inl ShadowProjectionProtocolError
               else projection_write_result_new status incoming_version stored_version))
     | _ \<Rightarrow> Inl ShadowProjectionProtocolError)"

definition cas_arguments :: "env \<Rightarrow> snapshot \<Rightarrow> int \<Rightarrow> string list" where
  "cas_arguments env s ttl_seconds =
     [int_text (sn_stream_version s), canonical_sha256 env s, int_text ttl_seconds] @
     concat (map (\<lambda>(k, v). [k, case v of None \<Rightarrow> [] | Some t \<Rightarrow> t]) (canonical_mapping s)) @
     [''canonical_sha256'', canonical_sha256 env s]"

text \<open>The client is any function; \<open>redis_eval\<close> is the one that executes the script.\<close>

definition write_projection ::
  "env \<Rightarrow> string \<Rightarrow> (string \<Rightarrow> string list \<Rightarrow> 'r \<Rightarrow> redis_answer \<times> 'r) \<Rightarrow> snapshot \<Rightarrow> int \<Rightarrow> 'r
     \<Rightarrow> projection_write_result result \<times> 'r" where
  "write_projection env environment client s ttl_seconds r =
     (if ttl_seconds \<le> 0 then (Inl ValueError, r)
      else case projection_key environment (sn_tenant_id s) (sn_run_id s) of
        Inl e \<Rightarrow> (Inl e, r)
      | Inr key \<Rightarrow>
          (case client key (cas_arguments env s ttl_seconds) r of
             (RedisRaised, r') \<Rightarrow> (Inl ShadowProjectionUnavailableError, r')
           | (RedisAnswer response, r') \<Rightarrow> (parse_write_response response (sn_stream_version s), r')))"

definition redis_eval :: "string \<Rightarrow> string list \<Rightarrow> redis \<Rightarrow> redis_answer \<times> redis" where
  "redis_eval key argv r = (case projection_cas key argv r of
       (LuaError, r') \<Rightarrow> (RedisRaised, r')
     | (LuaPair s v, r') \<Rightarrow> (RedisAnswer (RSeq [RBytes s, RBytes v]), r'))"

end
