(* ===== verification/Shadow_Config.thy ===== *)
theory Shadow_Config
  imports Shadow Complex_Main
begin

text \<open>
  The configuration of the Redis layer (\<^verbatim>\<open>production/shadow_config.py\<close>): retention, feature flags
  of the two rollout phases and the evidence that admits a feature. Every record has the
  constructor that validates it. A measured number is a rational or not finite; fields
  declared \<^verbatim>\<open>bool\<close> are booleans.
\<close>

section \<open>Numbers\<close>

datatype measure = Finite rat | NotFinite

fun amount_of :: "measure \<Rightarrow> rat" where
  "amount_of (Finite x) = x"
| "amount_of NotFinite = 0"

definition finite_non_negative :: "measure \<Rightarrow> unit result" where
  "finite_non_negative m = (case m of NotFinite \<Rightarrow> Inl ValueError | Finite x \<Rightarrow> if x < 0 then Inl ValueError else Inr ())"

definition finite_percent :: "measure \<Rightarrow> unit result" where
  "finite_percent m = bindE (finite_non_negative m) (\<lambda>_. if amount_of m > 100 then Inl ValueError else Inr ())"

definition positive_seconds :: "int \<Rightarrow> unit result" where
  "positive_seconds n = (if n \<le> 0 then Inl ValueError else Inr ())"

definition positive_bounded_int :: "int \<Rightarrow> int \<Rightarrow> unit result" where
  "positive_bounded_int maximum n = (if 1 \<le> n \<and> n \<le> maximum then Inr () else Inl ValueError)"

definition refuse_if :: "bool \<Rightarrow> unit result" where
  "refuse_if b = (if b then Inl ValueError else Inr ())"

section \<open>Retention\<close>

record ttl_config =
  tc_active_seconds :: int
  tc_terminal_seconds :: int

definition ttl_config_new :: "ttl_config \<Rightarrow> ttl_config result" where
  "ttl_config_new c =
     bindE (positive_seconds (tc_active_seconds c)) (\<lambda>_.
     bindE (positive_seconds (tc_terminal_seconds c)) (\<lambda>_.
     bindE (refuse_if (tc_terminal_seconds c < tc_active_seconds c)) (\<lambda>_. Inr c)))"

definition for_snapshot :: "ttl_config \<Rightarrow> snapshot \<Rightarrow> int" where
  "for_snapshot c s = (if is_terminal s then tc_terminal_seconds c else tc_active_seconds c)"

record prompt_cache_config =
  pk_ttl_seconds :: int
  pk_max_plaintext_bytes :: int
  pk_event_limit :: int
  pk_transcript_limit :: int

definition prompt_cache_config_new :: "prompt_cache_config \<Rightarrow> prompt_cache_config result" where
  "prompt_cache_config_new c =
     bindE (positive_bounded_int 3600 (pk_ttl_seconds c)) (\<lambda>_.
     bindE (positive_bounded_int 262144 (pk_max_plaintext_bytes c)) (\<lambda>_.
     bindE (positive_bounded_int 10000 (pk_event_limit c)) (\<lambda>_.
     bindE (positive_bounded_int 10000 (pk_transcript_limit c)) (\<lambda>_.
     bindE (refuse_if (pk_transcript_limit c > pk_event_limit c)) (\<lambda>_.
     bindE (refuse_if (pk_event_limit c \<noteq> 64)) (\<lambda>_.
     bindE (refuse_if (pk_transcript_limit c \<noteq> 12)) (\<lambda>_. Inr c)))))))"

section \<open>Phase 2\<close>

record phase2_flags =
  p2_cache_write :: bool
  p2_cache_read :: bool
  p2_fanout :: bool
  p2_queue_publish :: bool
  p2_queue_consume :: bool
  p2_postgres_queue_fallback :: bool

definition phase2_flags_new :: "phase2_flags \<Rightarrow> phase2_flags result" where
  "phase2_flags_new f =
     bindE (refuse_if (p2_cache_read f \<or> p2_fanout f \<or> p2_queue_publish f \<or> p2_queue_consume f)) (\<lambda>_.
     bindE (refuse_if (\<not> p2_postgres_queue_fallback f)) (\<lambda>_. Inr f))"

section \<open>Admission evidence\<close>

record read_evidence =
  rv_load_multiplier :: measure
  rv_sql_query_p95_ms :: measure
  rv_database_cpu_percent :: measure
  rv_hot_read_write_ratio :: measure
  rv_expected_cache_hit_percent :: measure

definition read_evidence_new :: "read_evidence \<Rightarrow> read_evidence result" where
  "read_evidence_new v =
     bindE (finite_non_negative (rv_load_multiplier v)) (\<lambda>_.
     bindE (finite_non_negative (rv_sql_query_p95_ms v)) (\<lambda>_.
     bindE (finite_percent (rv_database_cpu_percent v)) (\<lambda>_.
     bindE (finite_non_negative (rv_hot_read_write_ratio v)) (\<lambda>_.
     bindE (finite_percent (rv_expected_cache_hit_percent v)) (\<lambda>_.
     bindE (refuse_if (amount_of (rv_load_multiplier v) = 0)) (\<lambda>_. Inr v))))))"

definition read_qualifies :: "read_evidence \<Rightarrow> bool" where
  "read_qualifies v \<longleftrightarrow>
     (let database_pressure = amount_of (rv_sql_query_p95_ms v) > 20 \<or> amount_of (rv_database_cpu_percent v) > 65 in
      amount_of (rv_load_multiplier v) \<ge> 2 \<and> database_pressure \<and> amount_of (rv_hot_read_write_ratio v) \<ge> 10 \<and>
      amount_of (rv_expected_cache_hit_percent v) \<ge> 80)"

record fanout_evidence =
  fv_sql_gap_fill_tested :: bool
  fv_redis_disconnect_tested :: bool
  fv_duplicate_hint_tested :: bool
  fv_canary_percent :: measure

definition fanout_evidence_new :: "fanout_evidence \<Rightarrow> fanout_evidence result" where
  "fanout_evidence_new v =
     bindE (finite_percent (fv_canary_percent v)) (\<lambda>_.
     bindE (refuse_if (amount_of (fv_canary_percent v) = 0)) (\<lambda>_. Inr v))"

definition fanout_qualifies :: "fanout_evidence \<Rightarrow> bool" where
  "fanout_qualifies v \<longleftrightarrow> fv_sql_gap_fill_tested v \<and> fv_redis_disconnect_tested v \<and> fv_duplicate_hint_tested v"

record index_evidence =
  iv_redis_flush_rebuild_tested :: bool
  iv_out_of_order_tested :: bool
  iv_duplicate_tested :: bool
  iv_terminal_removal_tested :: bool
  iv_redis_disconnect_fallback_tested :: bool
  iv_pagination_fallback_tested :: bool
  iv_canary_percent :: measure

definition index_evidence_new :: "index_evidence \<Rightarrow> index_evidence result" where
  "index_evidence_new v =
     bindE (finite_percent (iv_canary_percent v)) (\<lambda>_.
     bindE (refuse_if (amount_of (iv_canary_percent v) = 0)) (\<lambda>_. Inr v))"

definition index_qualifies :: "index_evidence \<Rightarrow> bool" where
  "index_qualifies v \<longleftrightarrow> iv_redis_flush_rebuild_tested v \<and> iv_out_of_order_tested v \<and> iv_duplicate_tested v \<and>
     iv_terminal_removal_tested v \<and> iv_redis_disconnect_fallback_tested v \<and> iv_pagination_fallback_tested v"

record prompt_evidence =
  qv_load_multiplier :: measure
  qv_sql_query_p95_ms :: measure
  qv_database_cpu_percent :: measure
  qv_hot_read_write_ratio :: measure
  qv_expected_cache_hit_percent :: measure
  qv_aead_encryption_tested :: bool
  qv_key_provider_configured :: bool
  qv_redis_tls_tested :: bool
  qv_redis_acl_tested :: bool
  qv_redis_flush_rebuild_tested :: bool
  qv_redis_eviction_fallback_tested :: bool
  qv_ciphertext_tamper_rejection_tested :: bool
  qv_cross_tenant_isolation_tested :: bool
  qv_kms_outage_fallback_tested :: bool
  qv_semantic_shadow_compare_tested :: bool
  qv_canary_percent :: measure

definition prompt_evidence_new :: "prompt_evidence \<Rightarrow> prompt_evidence result" where
  "prompt_evidence_new v =
     bindE (finite_non_negative (qv_load_multiplier v)) (\<lambda>_.
     bindE (finite_non_negative (qv_sql_query_p95_ms v)) (\<lambda>_.
     bindE (finite_percent (qv_database_cpu_percent v)) (\<lambda>_.
     bindE (finite_non_negative (qv_hot_read_write_ratio v)) (\<lambda>_.
     bindE (finite_percent (qv_expected_cache_hit_percent v)) (\<lambda>_.
     bindE (refuse_if (amount_of (qv_load_multiplier v) = 0)) (\<lambda>_.
     bindE (finite_percent (qv_canary_percent v)) (\<lambda>_.
     bindE (refuse_if (amount_of (qv_canary_percent v) = 0)) (\<lambda>_. Inr v))))))))"

definition prompt_qualifies :: "prompt_evidence \<Rightarrow> bool" where
  "prompt_qualifies v \<longleftrightarrow>
     (let database_pressure = amount_of (qv_sql_query_p95_ms v) > 20 \<or> amount_of (qv_database_cpu_percent v) > 65;
          performance_qualifies = amount_of (qv_load_multiplier v) \<ge> 2 \<and> database_pressure \<and>
            amount_of (qv_hot_read_write_ratio v) \<ge> 10 \<and> amount_of (qv_expected_cache_hit_percent v) \<ge> 80;
          safety_qualifies = list_all id
            [qv_aead_encryption_tested v, qv_key_provider_configured v, qv_redis_tls_tested v, qv_redis_acl_tested v,
             qv_redis_flush_rebuild_tested v, qv_redis_eviction_fallback_tested v,
             qv_ciphertext_tamper_rejection_tested v, qv_cross_tenant_isolation_tested v,
             qv_kms_outage_fallback_tested v, qv_semantic_shadow_compare_tested v]
      in performance_qualifies \<and> safety_qualifies)"

section \<open>Phase 3\<close>

record phase3_flags =
  p3_cache_write :: bool
  p3_cache_read :: bool
  p3_fanout :: bool
  p3_active_index_write :: bool
  p3_active_index_read :: bool
  p3_queue_publish :: bool
  p3_queue_consume :: bool
  p3_postgres_read_fallback :: bool
  p3_postgres_queue_fallback :: bool
  p3_read_evidence :: "read_evidence option"
  p3_fanout_evidence :: "fanout_evidence option"
  p3_index_evidence :: "index_evidence option"
  p3_prompt_cache_write :: bool
  p3_prompt_cache_read :: bool
  p3_prompt_cache_shadow_compare :: bool
  p3_postgres_prompt_fallback :: bool
  p3_blob_store_prompt_fallback :: bool
  p3_prompt_cache_rollout_percent :: measure
  p3_prompt_evidence :: "prompt_evidence option"

definition require_evidence :: "'a option \<Rightarrow> ('a \<Rightarrow> bool) \<Rightarrow> unit result" where
  "require_evidence v qualifies = (case v of None \<Rightarrow> Inl ValueError | Some x \<Rightarrow> refuse_if (\<not> qualifies x))"

text \<open>The checks of \<^verbatim>\<open>Phase3RedisFeatureFlags.__post_init__\<close>, feature by feature.\<close>

definition check_fanout :: "phase3_flags \<Rightarrow> unit result" where
  "check_fanout f =
     (if p3_fanout f then
        bindE (refuse_if (\<not> p3_cache_write f \<or> \<not> p3_cache_read f)) (\<lambda>_.
        require_evidence (p3_fanout_evidence f) fanout_qualifies)
      else Inr ())"

definition check_cache_read :: "phase3_flags \<Rightarrow> unit result" where
  "check_cache_read f =
     (if p3_cache_read f then
        bindE (refuse_if (\<not> p3_cache_write f)) (\<lambda>_. require_evidence (p3_read_evidence f) read_qualifies)
      else Inr ())"

definition check_index_read :: "phase3_flags \<Rightarrow> unit result" where
  "check_index_read f =
     (if p3_active_index_read f then
        bindE (refuse_if (\<not> p3_active_index_write f)) (\<lambda>_.
        bindE (require_evidence (p3_read_evidence f) read_qualifies) (\<lambda>_.
        require_evidence (p3_index_evidence f) index_qualifies))
      else Inr ())"

definition check_prompt_cache :: "phase3_flags \<Rightarrow> unit result" where
  "check_prompt_cache f =
     (let fallbacks = p3_postgres_prompt_fallback f \<and> p3_blob_store_prompt_fallback f in
      bindE (if p3_prompt_cache_shadow_compare f then
               bindE (refuse_if (\<not> p3_prompt_cache_write f)) (\<lambda>_. refuse_if (\<not> fallbacks))
             else Inr ()) (\<lambda>_.
      if p3_prompt_cache_read f then
        bindE (refuse_if (\<not> p3_prompt_cache_write f)) (\<lambda>_.
        bindE (refuse_if (\<not> p3_prompt_cache_shadow_compare f)) (\<lambda>_.
        bindE (refuse_if (\<not> fallbacks)) (\<lambda>_.
        bindE (require_evidence (p3_prompt_evidence f) prompt_qualifies) (\<lambda>_.
        bindE (finite_percent (p3_prompt_cache_rollout_percent f)) (\<lambda>_.
        bindE (refuse_if (amount_of (p3_prompt_cache_rollout_percent f) = 0)) (\<lambda>_.
        refuse_if (amount_of (p3_prompt_cache_rollout_percent f) > amount_of (qv_canary_percent (the (p3_prompt_evidence f))))))))))
      else refuse_if (p3_prompt_cache_rollout_percent f \<noteq> Finite 0)))"

definition phase3_flags_new :: "phase3_flags \<Rightarrow> phase3_flags result" where
  "phase3_flags_new f =
     bindE (refuse_if (p3_queue_publish f \<or> p3_queue_consume f)) (\<lambda>_.
     bindE (refuse_if (\<not> p3_postgres_read_fallback f \<or> \<not> p3_postgres_queue_fallback f)) (\<lambda>_.
     bindE (refuse_if (p3_active_index_write f \<and> \<not> p3_cache_write f)) (\<lambda>_.
     bindE (check_fanout f) (\<lambda>_.
     bindE (check_cache_read f) (\<lambda>_.
     bindE (check_index_read f) (\<lambda>_.
     bindE (check_prompt_cache f) (\<lambda>_. Inr f)))))))"

text \<open>The rollouts the program offers as class methods.\<close>

definition default_flags :: phase3_flags where
  "default_flags = \<lparr>p3_cache_write = False, p3_cache_read = False, p3_fanout = False, p3_active_index_write = False,
     p3_active_index_read = False, p3_queue_publish = False, p3_queue_consume = False, p3_postgres_read_fallback = True,
     p3_postgres_queue_fallback = True, p3_read_evidence = None, p3_fanout_evidence = None, p3_index_evidence = None,
     p3_prompt_cache_write = False, p3_prompt_cache_read = False, p3_prompt_cache_shadow_compare = False,
     p3_postgres_prompt_fallback = True, p3_blob_store_prompt_fallback = True,
     p3_prompt_cache_rollout_percent = Finite 0, p3_prompt_evidence = None\<rparr>"

definition ui_status_reads :: "read_evidence \<Rightarrow> phase3_flags result" where
  "ui_status_reads v = phase3_flags_new (default_flags\<lparr>p3_cache_write := True, p3_cache_read := True, p3_read_evidence := Some v\<rparr>)"

definition ui_status_with_fanout :: "read_evidence \<Rightarrow> fanout_evidence \<Rightarrow> phase3_flags result" where
  "ui_status_with_fanout v fv = phase3_flags_new (default_flags\<lparr>p3_cache_write := True, p3_cache_read := True,
     p3_fanout := True, p3_read_evidence := Some v, p3_fanout_evidence := Some fv\<rparr>)"

definition active_run_index_reads :: "read_evidence \<Rightarrow> index_evidence \<Rightarrow> phase3_flags result" where
  "active_run_index_reads v iv = phase3_flags_new (default_flags\<lparr>p3_cache_write := True, p3_active_index_write := True,
     p3_active_index_read := True, p3_read_evidence := Some v, p3_index_evidence := Some iv\<rparr>)"

definition active_run_index_shadow_writes :: "phase3_flags result" where
  "active_run_index_shadow_writes = phase3_flags_new (default_flags\<lparr>p3_cache_write := True, p3_active_index_write := True\<rparr>)"

definition prompt_cache_shadow_writes :: "phase3_flags result" where
  "prompt_cache_shadow_writes =
     phase3_flags_new (default_flags\<lparr>p3_prompt_cache_write := True, p3_prompt_cache_shadow_compare := True\<rparr>)"

definition prompt_cache_gated_reads :: "prompt_evidence \<Rightarrow> phase3_flags result" where
  "prompt_cache_gated_reads v = phase3_flags_new (default_flags\<lparr>p3_prompt_cache_write := True, p3_prompt_cache_read := True,
     p3_prompt_cache_shadow_compare := True, p3_prompt_cache_rollout_percent := qv_canary_percent v,
     p3_prompt_evidence := Some v\<rparr>)"

section \<open>The whole configuration\<close>

datatype feature_flags = Phase2 phase2_flags | Phase3 phase3_flags

fun redis_cache_write :: "feature_flags \<Rightarrow> bool" where
  "redis_cache_write (Phase2 f) = p2_cache_write f"
| "redis_cache_write (Phase3 f) = p3_cache_write f"

fun redis_fanout :: "feature_flags \<Rightarrow> bool" where
  "redis_fanout (Phase2 f) = p2_fanout f"
| "redis_fanout (Phase3 f) = p3_fanout f"

text \<open>\<^verbatim>\<open>getattr(features, "redis_active_index_write", False)\<close>\<close>

fun redis_active_index_write :: "feature_flags \<Rightarrow> bool" where
  "redis_active_index_write (Phase2 f) = False"
| "redis_active_index_write (Phase3 f) = p3_active_index_write f"

record shadow_config =
  sc_environment :: string
  sc_ttl :: ttl_config
  sc_features :: feature_flags
  sc_prompt_working_set :: prompt_cache_config

definition shadow_config_new :: "shadow_config \<Rightarrow> shadow_config result" where
  "shadow_config_new c =
     bindE (projection_key (sc_environment c) ''validation'' ''validation'') (\<lambda>_. Inr c)"

section \<open>What an accepted configuration is\<close>

lemma refuse_if_Inr [simp]: "refuse_if b = Inr () \<longleftrightarrow> \<not> b"
  by (simp add: refuse_if_def)

lemma require_evidence_Inr: "require_evidence v q = Inr () \<longleftrightarrow> (\<exists>x. v = Some x \<and> q x)"
  by (auto simp: require_evidence_def split: option.splits)

text \<open>
  SQL stays the fallback of every accepted phase 3 configuration, and what serves users from
  Redis has its evidence: no feature is on by configuration alone.
\<close>

lemma phase3_fails_closed:
  assumes "phase3_flags_new f = Inr g"
  shows "g = f \<and> \<not> p3_queue_publish f \<and> \<not> p3_queue_consume f \<and> p3_postgres_read_fallback f \<and> p3_postgres_queue_fallback f \<and>
    (p3_cache_read f \<or> p3_active_index_read f \<longrightarrow> p3_cache_write f \<and> (\<exists>v. p3_read_evidence f = Some v \<and> read_qualifies v)) \<and>
    (p3_fanout f \<longrightarrow> p3_cache_read f \<and> (\<exists>v. p3_fanout_evidence f = Some v \<and> fanout_qualifies v)) \<and>
    (p3_prompt_cache_read f \<longrightarrow> p3_postgres_prompt_fallback f \<and> p3_blob_store_prompt_fallback f \<and>
       (\<exists>v. p3_prompt_evidence f = Some v \<and> prompt_qualifies v \<and>
          amount_of (p3_prompt_cache_rollout_percent f) \<le> amount_of (qv_canary_percent v)))"
  using assms
  by (auto simp: phase3_flags_new_def bindE_eq_Inr check_fanout_def check_cache_read_def check_index_read_def
      check_prompt_cache_def require_evidence_Inr Let_def split: if_splits)

end
