(* ===== verification/Relay.thy ===== *)
theory Relay
  imports Shadow_Config
begin

text \<open>
  The outbox relay and the rebuilder of the Redis shadow (\<^verbatim>\<open>production/outbox_relay.py\<close>). Their
  adapters (the outbox store, the SQL source, the Redis sinks, the hint publisher and the
  tenant policy) are interfaces in the program, and arbitrary here: a record of functions
  that may answer anything, and differently each time, since they are given the history of
  all calls so far. What the relay did is this history.
\<close>

section \<open>Adapters and their answers\<close>

definition RUN_PROJECTION_DESTINATION :: string where
  "RUN_PROJECTION_DESTINATION = ''run-projection-v1''"

text \<open>A column of a claimed row as the driver hands it over.\<close>

datatype column = ColText string | ColInt int | ColOther

text \<open>A claimed row: a mapping, or something else.\<close>

type_synonym claimed_row = "(string \<times> column) list option"

text \<open>An answer that is not of the declared type is \<^const>\<open>None\<close>.\<close>

datatype port_event =
    EvClaim "(claimed_row list option) result"
  | EvLoad string string "(snapshot option option) result"
  | EvWrite snapshot int "(projection_write_result option) result"
  | EvIndex snapshot int "(projection_write_result option) result"
  | EvAllows string "(bool option) result"
  | EvPublish snapshot "(int option) result"
  | EvMark string string string "(bool option) result"
  | EvReset string "unit result"
  | EvScan "(string \<times> string) option" int "(snapshot option list option) result"
  | EvReady string "unit result"

type_synonym history = "port_event list"

record ports =
  po_claim :: "history \<Rightarrow> (claimed_row list option) result"
  po_load :: "history \<Rightarrow> string \<Rightarrow> string \<Rightarrow> (snapshot option option) result"
  po_write :: "history \<Rightarrow> snapshot \<Rightarrow> int \<Rightarrow> (projection_write_result option) result"
  po_index :: "history \<Rightarrow> snapshot \<Rightarrow> int \<Rightarrow> (projection_write_result option) result"
  po_allows :: "history \<Rightarrow> string \<Rightarrow> (bool option) result"
  po_publish :: "history \<Rightarrow> snapshot \<Rightarrow> (int option) result"
  po_mark :: "history \<Rightarrow> string \<Rightarrow> string \<Rightarrow> string \<Rightarrow> (bool option) result"
  po_reset :: "history \<Rightarrow> string \<Rightarrow> unit result"
  po_scan :: "history \<Rightarrow> (string \<times> string) option \<Rightarrow> int \<Rightarrow> (snapshot option list option) result"
  po_ready :: "history \<Rightarrow> string \<Rightarrow> unit result"

section \<open>Diagnostics and counters\<close>

datatype error_type = TypeOf error | Diagnosed string

record relay_error =
  er_stage :: string
  er_error_type :: error_type
  er_tenant_id :: "string option"
  er_run_id :: "string option"
  er_outbox_id :: "string option"

definition diagnostic :: "string \<Rightarrow> error_type \<Rightarrow> string option \<Rightarrow> string option \<Rightarrow> string option \<Rightarrow> relay_error" where
  "diagnostic stage t tenant_id run_id outbox_id =
     \<lparr>er_stage = stage, er_error_type = t, er_tenant_id = tenant_id, er_run_id = run_id, er_outbox_id = outbox_id\<rparr>"

record relay_counters =
  rc_claimed :: nat
  rc_snapshots_loaded :: nat
  rc_applied :: nat
  rc_stale :: nat
  rc_duplicate :: nat
  rc_conflicts :: nat
  rc_marked_published :: nat
  rc_missing_projections :: nat
  rc_malformed_claims :: nat
  rc_claim_errors :: nat
  rc_source_errors :: nat
  rc_sink_errors :: nat
  rc_protocol_errors :: nat
  rc_index_applied :: nat
  rc_index_stale :: nat
  rc_index_duplicate :: nat
  rc_index_conflicts :: nat
  rc_index_errors :: nat
  rc_fanout_published :: nat
  rc_fanout_outside_canary :: nat
  rc_fanout_errors :: nat
  rc_fanout_subscriber_deliveries :: int
  rc_mark_lost :: nat
  rc_errors :: "relay_error list"

definition relay_zero :: relay_counters where
  "relay_zero = \<lparr>rc_claimed = 0, rc_snapshots_loaded = 0, rc_applied = 0, rc_stale = 0, rc_duplicate = 0, rc_conflicts = 0,
     rc_marked_published = 0, rc_missing_projections = 0, rc_malformed_claims = 0, rc_claim_errors = 0, rc_source_errors = 0,
     rc_sink_errors = 0, rc_protocol_errors = 0, rc_index_applied = 0, rc_index_stale = 0, rc_index_duplicate = 0,
     rc_index_conflicts = 0, rc_index_errors = 0, rc_fanout_published = 0, rc_fanout_outside_canary = 0, rc_fanout_errors = 0,
     rc_fanout_subscriber_deliveries = 0, rc_mark_lost = 0, rc_errors = []\<rparr>"

text \<open>\<^const>\<open>None\<close> stands for the result \<^verbatim>\<open>ShadowRelayResult(disabled=True)\<close>.\<close>

type_synonym relay_state = "relay_counters \<times> history"

record relay_config =
  rl_tenant_id :: string
  rl_publisher_id :: string
  rl_limit :: int
  rl_visibility_timeout_seconds :: int

definition relay_config_new :: "relay_config \<Rightarrow> relay_config result" where
  "relay_config_new c =
     bindE (validate_identity 512 (rl_tenant_id c)) (\<lambda>_.
     bindE (validate_identity 128 (rl_publisher_id c)) (\<lambda>_.
     bindE (refuse_if (\<not> (1 \<le> rl_limit c \<and> rl_limit c \<le> 100))) (\<lambda>_.
     bindE (refuse_if (\<not> (5 \<le> rl_visibility_timeout_seconds c \<and> rl_visibility_timeout_seconds c \<le> 3600))) (\<lambda>_. Inr c))))"

text \<open>A relay: its adapters, its configuration, and which optional adapters it has.\<close>

record relay =
  ry_ports :: ports
  ry_projection_config :: shadow_config
  ry_relay_config :: relay_config
  ry_has_publisher :: bool
  ry_has_index_sink :: bool
  ry_has_policy :: bool

definition relay_new :: "relay \<Rightarrow> relay result" where
  "relay_new y =
     bindE (refuse_if (redis_fanout (sc_features (ry_projection_config y)) \<and> \<not> ry_has_publisher y)) (\<lambda>_.
     bindE (refuse_if (redis_active_index_write (sc_features (ry_projection_config y)) \<and> \<not> ry_has_index_sink y)) (\<lambda>_. Inr y))"

section \<open>Checks of the adapters\<close>

definition text_column :: "nat \<Rightarrow> string \<Rightarrow> (string \<times> column) list \<Rightarrow> string result" where
  "text_column maximum name row = (case map_of row name of
       Some (ColText t) \<Rightarrow> bindE (validate_identity maximum t) (\<lambda>_. Inr t)
     | _ \<Rightarrow> Inl ValueError)"

definition claimed_identity :: "string \<Rightarrow> string \<Rightarrow> claimed_row \<Rightarrow> (string \<times> string \<times> string \<times> int) result" where
  "claimed_identity tenant_id publisher_id claimed = (case claimed of
       None \<Rightarrow> Inl TypeError
     | Some row \<Rightarrow>
         bindE (text_column 512 ''tenant_id'' row) (\<lambda>row_tenant_id.
         bindE (text_column 512 ''run_id'' row) (\<lambda>run_id.
         bindE (text_column 512 ''outbox_id'' row) (\<lambda>outbox_id.
         case map_of row ''stream_version'' of
           Some (ColInt stream_version) \<Rightarrow>
             if stream_version < 0 then Inl ValueError
             else if row_tenant_id \<noteq> tenant_id then Inl ValueError
             else if map_of row ''destination'' \<noteq> Some (ColText RUN_PROJECTION_DESTINATION) then Inl ValueError
             else if map_of row ''claimed_by'' \<noteq> Some (ColText publisher_id) then Inl ValueError
             else Inr (row_tenant_id, run_id, outbox_id, stream_version)
         | _ \<Rightarrow> Inl ValueError))))"

definition validate_write_result :: "snapshot \<Rightarrow> projection_write_result option \<Rightarrow> projection_write_result result" where
  "validate_write_result s result = (case result of
       None \<Rightarrow> Inl RelayProtocolError
     | Some w \<Rightarrow>
         if pw_incoming_version w \<noteq> sn_stream_version s then Inl RelayProtocolError
         else if \<not> status_versions_ok (pw_status w) (pw_incoming_version w) (pw_stored_version w) then Inl RelayProtocolError
         else Inr w)"

definition is_protocol_error :: "error \<Rightarrow> bool" where
  "is_protocol_error e \<longleftrightarrow> e \<in> {RelayProtocolError, ProjectionSourceConsistencyError}"

text \<open>\<^verbatim>\<open>_increment_status\<close> and \<^verbatim>\<open>_increment_active_index_status\<close>.\<close>

definition count_status :: "write_status \<Rightarrow> relay_counters \<Rightarrow> relay_counters" where
  "count_status st c = (case st of
       WS_APPLIED \<Rightarrow> c\<lparr>rc_applied := rc_applied c + 1\<rparr>
     | WS_STALE \<Rightarrow> c\<lparr>rc_stale := rc_stale c + 1\<rparr>
     | WS_DUPLICATE \<Rightarrow> c\<lparr>rc_duplicate := rc_duplicate c + 1\<rparr>
     | WS_CONFLICT \<Rightarrow> c\<lparr>rc_conflicts := rc_conflicts c + 1\<rparr>)"

definition count_index_status :: "write_status \<Rightarrow> relay_counters \<Rightarrow> relay_counters" where
  "count_index_status st c = (case st of
       WS_APPLIED \<Rightarrow> c\<lparr>rc_index_applied := rc_index_applied c + 1\<rparr>
     | WS_STALE \<Rightarrow> c\<lparr>rc_index_stale := rc_index_stale c + 1\<rparr>
     | WS_DUPLICATE \<Rightarrow> c\<lparr>rc_index_duplicate := rc_index_duplicate c + 1\<rparr>
     | WS_CONFLICT \<Rightarrow> c\<lparr>rc_index_conflicts := rc_index_conflicts c + 1\<rparr>)"

definition relay_fail :: "relay_error \<Rightarrow> relay_counters \<Rightarrow> relay_counters" where
  "relay_fail e c = c\<lparr>rc_errors := rc_errors c @ [e]\<rparr>"

definition count_protocol :: "bool \<Rightarrow> relay_counters \<Rightarrow> relay_counters" where
  "count_protocol b c = (if b then c\<lparr>rc_protocol_errors := rc_protocol_errors c + 1\<rparr> else c)"

section \<open>One claimed row\<close>

text \<open>
  The stages of the loop body of \<^verbatim>\<open>run_once\<close>. Each either goes on or leaves the row unacknowledged
  (\<^verbatim>\<open>continue\<close>) with the counters and the history it has by then.
\<close>

datatype 'a stage = Next 'a relay_state | Leave relay_state

definition source_stage :: "relay \<Rightarrow> string \<Rightarrow> string \<Rightarrow> string \<Rightarrow> int \<Rightarrow> relay_state \<Rightarrow> snapshot stage" where
  "source_stage y tenant_id run_id outbox_id claimed_version st =
     (let (c, h) = st; r = po_load (ry_ports y) h tenant_id run_id; h' = h @ [EvLoad tenant_id run_id r];
          diag = (\<lambda>stage t. diagnostic stage t (Some tenant_id) (Some run_id) (Some outbox_id)) in
      case r of
        Inl e \<Rightarrow>
          if is_protocol_error e
          then Leave (relay_fail (diag (if e = ProjectionSourceConsistencyError then ''source_consistency'' else ''source_protocol'')
                 (TypeOf e)) (count_protocol True c), h')
          else Leave (relay_fail (diag ''source'' (TypeOf e)) (c\<lparr>rc_source_errors := rc_source_errors c + 1\<rparr>), h')
      | Inr None \<Rightarrow> Leave (relay_fail (diag ''source_protocol'' (TypeOf RelayProtocolError)) (count_protocol True c), h')
      | Inr (Some None) \<Rightarrow>
          Leave (relay_fail (diag ''source'' (Diagnosed ''ProjectionMissing''))
            (c\<lparr>rc_missing_projections := rc_missing_projections c + 1\<rparr>), h')
      | Inr (Some (Some s)) \<Rightarrow>
          if sn_tenant_id s \<noteq> tenant_id \<or> sn_run_id s \<noteq> run_id
          then Leave (relay_fail (diag ''source_protocol'' (TypeOf RelayProtocolError)) (count_protocol True c), h')
          else if sn_stream_version s < claimed_version
          then Leave (relay_fail (diag ''source_consistency'' (TypeOf ProjectionSourceConsistencyError)) (count_protocol True c), h')
          else Next s (c\<lparr>rc_snapshots_loaded := rc_snapshots_loaded c + 1\<rparr>, h'))"

definition write_stage :: "relay \<Rightarrow> string option \<Rightarrow> snapshot \<Rightarrow> relay_state \<Rightarrow> unit stage" where
  "write_stage y outbox_id s st =
     (let (c, h) = st; ttl = for_snapshot (sc_ttl (ry_projection_config y)) s; r = po_write (ry_ports y) h s ttl;
          h' = h @ [EvWrite s ttl r];
          diag = (\<lambda>stage t. diagnostic stage t (Some (sn_tenant_id s)) (Some (sn_run_id s)) outbox_id) in
      case bindE r (validate_write_result s) of
        Inl e \<Rightarrow>
          if e = ShadowProjectionProtocolError \<or> is_protocol_error e
          then Leave (relay_fail (diag ''sink_protocol'' (TypeOf e)) (count_protocol True c), h')
          else Leave (relay_fail (diag ''sink'' (TypeOf e)) (c\<lparr>rc_sink_errors := rc_sink_errors c + 1\<rparr>), h')
      | Inr w \<Rightarrow>
          if pw_status w = WS_CONFLICT
          then Leave (relay_fail (diag ''sink_conflict'' (Diagnosed ''ProjectionConflict'')) (count_status WS_CONFLICT c), h')
          else Next () (count_status (pw_status w) c, h'))"

definition index_stage :: "relay \<Rightarrow> string option \<Rightarrow> snapshot \<Rightarrow> relay_state \<Rightarrow> unit stage" where
  "index_stage y outbox_id s st =
     (if \<not> redis_active_index_write (sc_features (ry_projection_config y)) then Next () st
      else
        let (c, h) = st;
            diag = (\<lambda>stage t. diagnostic stage t (Some (sn_tenant_id s)) (Some (sn_run_id s)) outbox_id);
            failed = (\<lambda>c. c\<lparr>rc_index_errors := rc_index_errors c + 1\<rparr>) in
        if \<not> ry_has_index_sink y
        then Leave (relay_fail (diag ''active_index_protocol'' (Diagnosed ''MissingActiveRunIndexSink''))
               (count_protocol True (failed c)), h)
        else
          let ttl = tc_terminal_seconds (sc_ttl (ry_projection_config y)); r = po_index (ry_ports y) h s ttl;
              h' = h @ [EvIndex s ttl r] in
          case bindE r (validate_write_result s) of
            Inl e \<Rightarrow>
              if e = ActiveRunIndexProtocolError \<or> is_protocol_error e
              then Leave (relay_fail (diag ''active_index_protocol'' (TypeOf e)) (count_protocol True (failed c)), h')
              else Leave (relay_fail (diag ''active_index'' (TypeOf e)) (failed c), h')
          | Inr w \<Rightarrow>
              if pw_status w = WS_CONFLICT
              then Leave (relay_fail (diag ''active_index_conflict'' (Diagnosed ''ActiveRunIndexConflict''))
                     (failed (count_index_status WS_CONFLICT c)), h')
              else Next () (count_index_status (pw_status w) c, h'))"

text \<open>Whether the hint may be published; a policy that fails denies it, and the row goes on.\<close>

definition policy_stage :: "relay \<Rightarrow> string \<Rightarrow> string \<Rightarrow> string \<Rightarrow> relay_state \<Rightarrow> bool \<times> relay_state" where
  "policy_stage y tenant_id run_id outbox_id st =
     (let (c, h) = st; outside = (\<lambda>c. c\<lparr>rc_fanout_outside_canary := rc_fanout_outside_canary c + 1\<rparr>);
          failed = (\<lambda>e c. relay_fail (diagnostic ''fanout_policy'' (TypeOf e) (Some tenant_id) (Some run_id) (Some outbox_id))
            (count_protocol (is_protocol_error e) ((outside c)\<lparr>rc_fanout_errors := rc_fanout_errors c + 1\<rparr>))) in
      if \<not> redis_fanout (sc_features (ry_projection_config y)) then (False, st)
      else if \<not> ry_has_policy y then (False, (outside c, h))
      else
        let r = po_allows (ry_ports y) h tenant_id; h' = h @ [EvAllows tenant_id r] in
        case r of
          Inl e \<Rightarrow> (False, (failed e c, h'))
        | Inr None \<Rightarrow> (False, (failed RelayProtocolError c, h'))
        | Inr (Some False) \<Rightarrow> (False, (outside c, h'))
        | Inr (Some True) \<Rightarrow> (True, (c, h')))"

definition publish_stage :: "relay \<Rightarrow> string \<Rightarrow> snapshot \<Rightarrow> bool \<Rightarrow> relay_state \<Rightarrow> unit stage" where
  "publish_stage y outbox_id s allowed st =
     (if \<not> allowed then Next () st
      else
        let (c, h) = st;
            diag = (\<lambda>stage t. diagnostic stage t (Some (sn_tenant_id s)) (Some (sn_run_id s)) (Some outbox_id));
            failed = (\<lambda>c. c\<lparr>rc_fanout_errors := rc_fanout_errors c + 1\<rparr>) in
        if \<not> ry_has_publisher y
        then Leave (relay_fail (diag ''fanout_protocol'' (Diagnosed ''MissingFanoutPublisher'')) (count_protocol True (failed c)), h)
        else
          let r = po_publish (ry_ports y) h s; h' = h @ [EvPublish s r] in
          case r of
            Inl e \<Rightarrow>
              if is_protocol_error e
              then Leave (relay_fail (diag ''fanout_protocol'' (TypeOf e)) (count_protocol True (failed c)), h')
              else Leave (relay_fail (diag ''fanout'' (TypeOf e)) (failed c), h')
          | Inr None \<Rightarrow>
              Leave (relay_fail (diag ''fanout_protocol'' (TypeOf RelayProtocolError)) (count_protocol True (failed c)), h')
          | Inr (Some n) \<Rightarrow>
              if n < 0
              then Leave (relay_fail (diag ''fanout_protocol'' (TypeOf RelayProtocolError)) (count_protocol True (failed c)), h')
              else Next () (c\<lparr>rc_fanout_published := rc_fanout_published c + 1,
                     rc_fanout_subscriber_deliveries := rc_fanout_subscriber_deliveries c + n\<rparr>, h'))"

definition mark_stage :: "relay \<Rightarrow> string \<Rightarrow> string \<Rightarrow> string \<Rightarrow> relay_state \<Rightarrow> relay_state" where
  "mark_stage y tenant_id run_id outbox_id st =
     (let (c, h) = st; publisher = rl_publisher_id (ry_relay_config y);
          r = po_mark (ry_ports y) h tenant_id outbox_id publisher; h' = h @ [EvMark tenant_id outbox_id publisher r];
          diag = (\<lambda>t. diagnostic ''mark'' t (Some tenant_id) (Some run_id) (Some outbox_id));
          lost = (\<lambda>c. c\<lparr>rc_mark_lost := rc_mark_lost c + 1\<rparr>) in
      case r of
        Inl e \<Rightarrow> (relay_fail (diag (TypeOf e)) (lost (count_protocol (is_protocol_error e) c)), h')
      | Inr None \<Rightarrow> (relay_fail (diag (TypeOf RelayProtocolError)) (lost (count_protocol True c)), h')
      | Inr (Some True) \<Rightarrow> (c\<lparr>rc_marked_published := rc_marked_published c + 1\<rparr>, h')
      | Inr (Some False) \<Rightarrow> (relay_fail (diag (Diagnosed ''ClaimOwnershipLost'')) (lost c), h'))"

fun and_then :: "'a stage \<Rightarrow> ('a \<Rightarrow> relay_state \<Rightarrow> relay_state) \<Rightarrow> relay_state" where
  "and_then (Next x st) f = f x st"
| "and_then (Leave st) f = st"

definition relay_row :: "relay \<Rightarrow> claimed_row \<Rightarrow> relay_state \<Rightarrow> relay_state" where
  "relay_row y row st =
     (case claimed_identity (rl_tenant_id (ry_relay_config y)) (rl_publisher_id (ry_relay_config y)) row of
        Inl e \<Rightarrow> (relay_fail (diagnostic ''claim_row'' (TypeOf e) None None None)
          ((fst st)\<lparr>rc_malformed_claims := rc_malformed_claims (fst st) + 1\<rparr>), snd st)
      | Inr (tenant_id, run_id, outbox_id, claimed_version) \<Rightarrow>
          and_then (source_stage y tenant_id run_id outbox_id claimed_version st) (\<lambda>s st.
          and_then (write_stage y (Some outbox_id) s st) (\<lambda>_ st.
          and_then (index_stage y (Some outbox_id) s st) (\<lambda>_ st.
          let (allowed, st) = policy_stage y tenant_id run_id outbox_id st in
          and_then (publish_stage y outbox_id s allowed st) (\<lambda>_ st.
          mark_stage y tenant_id run_id outbox_id st)))))"

section \<open>One polling cycle\<close>

definition claim_batch :: "relay \<Rightarrow> claimed_row list result \<times> history" where
  "claim_batch y =
     (let r = po_claim (ry_ports y) [] in
      (bindE r (\<lambda>rows. case rows of
         None \<Rightarrow> Inl RelayProtocolError
       | Some rows \<Rightarrow> if int (length rows) > rl_limit (ry_relay_config y) then Inl RelayProtocolError else Inr rows),
       [EvClaim r]))"

definition run_once :: "relay \<Rightarrow> relay_counters option \<times> history" where
  "run_once y =
     (if \<not> redis_cache_write (sc_features (ry_projection_config y)) then (None, [])
      else case claim_batch y of
        (Inl e, h) \<Rightarrow>
          (Some (relay_fail (diagnostic ''claim'' (TypeOf e) None None None)
             (count_protocol (is_protocol_error e) (relay_zero\<lparr>rc_claim_errors := 1\<rparr>))), h)
      | (Inr rows, h) \<Rightarrow>
          map_prod Some id (foldl (\<lambda>st row. relay_row y row st) (relay_zero\<lparr>rc_claimed := length rows\<rparr>, h) rows))"

section \<open>The rebuilder\<close>

record rebuild_counters =
  rb_pages :: nat
  rb_scanned :: nat
  rb_applied :: nat
  rb_stale :: nat
  rb_duplicate :: nat
  rb_conflicts :: nat
  rb_source_errors :: nat
  rb_sink_errors :: nat
  rb_protocol_errors :: nat
  rb_pagination_errors :: nat
  rb_index_reset :: nat
  rb_index_ready :: nat
  rb_index_applied :: nat
  rb_index_stale :: nat
  rb_index_duplicate :: nat
  rb_index_conflicts :: nat
  rb_index_errors :: nat
  rb_errors :: "relay_error list"

definition rebuild_zero :: rebuild_counters where
  "rebuild_zero = \<lparr>rb_pages = 0, rb_scanned = 0, rb_applied = 0, rb_stale = 0, rb_duplicate = 0, rb_conflicts = 0,
     rb_source_errors = 0, rb_sink_errors = 0, rb_protocol_errors = 0, rb_pagination_errors = 0, rb_index_reset = 0,
     rb_index_ready = 0, rb_index_applied = 0, rb_index_stale = 0, rb_index_duplicate = 0, rb_index_conflicts = 0,
     rb_index_errors = 0, rb_errors = []\<rparr>"

type_synonym rebuild_state = "rebuild_counters \<times> history"

record rebuilder =
  bd_ports :: ports
  bd_tenant_id :: string
  bd_projection_config :: shadow_config
  bd_page_size :: int
  bd_has_index_sink :: bool

definition index_enabled :: "rebuilder \<Rightarrow> bool" where
  "index_enabled b = redis_active_index_write (sc_features (bd_projection_config b))"

definition rebuilder_new :: "rebuilder \<Rightarrow> rebuilder result" where
  "rebuilder_new b =
     bindE (validate_identity 512 (bd_tenant_id b)) (\<lambda>_.
     bindE (refuse_if (\<not> (1 \<le> bd_page_size b \<and> bd_page_size b \<le> 1000))) (\<lambda>_.
     bindE (refuse_if (index_enabled b \<and> \<not> bd_has_index_sink b)) (\<lambda>_. Inr b)))"

definition rebuild_fail :: "string \<Rightarrow> error_type \<Rightarrow> string option \<Rightarrow> string option \<Rightarrow> rebuild_counters \<Rightarrow> rebuild_counters" where
  "rebuild_fail stage t tenant_id run_id c = c\<lparr>rb_errors := rb_errors c @ [diagnostic stage t tenant_id run_id None]\<rparr>"

definition rebuild_protocol :: "rebuild_counters \<Rightarrow> rebuild_counters" where
  "rebuild_protocol c = c\<lparr>rb_protocol_errors := rb_protocol_errors c + 1\<rparr>"

definition index_failed :: "rebuild_counters \<Rightarrow> rebuild_counters" where
  "index_failed c = c\<lparr>rb_index_errors := rb_index_errors c + 1\<rparr>"

definition rebuild_status :: "write_status \<Rightarrow> rebuild_counters \<Rightarrow> rebuild_counters" where
  "rebuild_status st c = (case st of
       WS_APPLIED \<Rightarrow> c\<lparr>rb_applied := rb_applied c + 1\<rparr>
     | WS_STALE \<Rightarrow> c\<lparr>rb_stale := rb_stale c + 1\<rparr>
     | WS_DUPLICATE \<Rightarrow> c\<lparr>rb_duplicate := rb_duplicate c + 1\<rparr>
     | WS_CONFLICT \<Rightarrow> c\<lparr>rb_conflicts := rb_conflicts c + 1\<rparr>)"

definition rebuild_index_status :: "write_status \<Rightarrow> rebuild_counters \<Rightarrow> rebuild_counters" where
  "rebuild_index_status st c = (case st of
       WS_APPLIED \<Rightarrow> c\<lparr>rb_index_applied := rb_index_applied c + 1\<rparr>
     | WS_STALE \<Rightarrow> c\<lparr>rb_index_stale := rb_index_stale c + 1\<rparr>
     | WS_DUPLICATE \<Rightarrow> c\<lparr>rb_index_duplicate := rb_index_duplicate c + 1\<rparr>
     | WS_CONFLICT \<Rightarrow> c\<lparr>rb_index_conflicts := rb_index_conflicts c + 1\<rparr>)"

text \<open>The index part of the body of the loop over a page.\<close>

definition rebuild_index_row :: "rebuilder \<Rightarrow> snapshot \<Rightarrow> rebuild_state \<Rightarrow> rebuild_state" where
  "rebuild_index_row b s st =
     (if \<not> index_enabled b then st
      else
        let (c, h) = st; fail = (\<lambda>stage t. rebuild_fail stage t (Some (sn_tenant_id s)) (Some (sn_run_id s))) in
        if \<not> bd_has_index_sink b
        then (fail ''active_index_protocol'' (Diagnosed ''MissingActiveRunIndexSink'') (rebuild_protocol (index_failed c)), h)
        else
          let ttl = tc_terminal_seconds (sc_ttl (bd_projection_config b)); r = po_index (bd_ports b) h s ttl;
              h' = h @ [EvIndex s ttl r] in
          case bindE r (validate_write_result s) of
            Inl e \<Rightarrow>
              if e = ActiveRunIndexProtocolError \<or> is_protocol_error e
              then (fail ''active_index_protocol'' (TypeOf e) (rebuild_protocol (index_failed c)), h')
              else (fail ''active_index'' (TypeOf e) (index_failed c), h')
          | Inr w \<Rightarrow>
              if pw_status w = WS_CONFLICT
              then (fail ''active_index_conflict'' (Diagnosed ''ActiveRunIndexConflict'')
                     (index_failed (rebuild_index_status WS_CONFLICT c)), h')
              else (rebuild_index_status (pw_status w) c, h'))"

definition rebuild_row :: "rebuilder \<Rightarrow> snapshot \<Rightarrow> rebuild_state \<Rightarrow> rebuild_state" where
  "rebuild_row b s st =
     (let c = (fst st)\<lparr>rb_scanned := rb_scanned (fst st) + 1\<rparr>; h = snd st;
          ttl = for_snapshot (sc_ttl (bd_projection_config b)) s; r = po_write (bd_ports b) h s ttl;
          h' = h @ [EvWrite s ttl r];
          fail = (\<lambda>stage t. rebuild_fail stage t (Some (sn_tenant_id s)) (Some (sn_run_id s))) in
      case bindE r (validate_write_result s) of
        Inl e \<Rightarrow>
          if e = ShadowProjectionProtocolError \<or> is_protocol_error e
          then (fail ''sink_protocol'' (TypeOf e) (rebuild_protocol c), h')
          else (fail ''sink'' (TypeOf e) (c\<lparr>rb_sink_errors := rb_sink_errors c + 1\<rparr>), h')
      | Inr w \<Rightarrow>
          if pw_status w = WS_CONFLICT
          then (fail ''sink_conflict'' (Diagnosed ''ProjectionConflict'') (rebuild_status WS_CONFLICT c), h')
          else rebuild_index_row b s (rebuild_status (pw_status w) c, h'))"

text \<open>\<^verbatim>\<open>key <= previous\<close> on pairs of text.\<close>

definition key_less :: "string \<times> string \<Rightarrow> string \<times> string \<Rightarrow> bool" where
  "key_less p k \<longleftrightarrow> fst p < fst k \<or> fst p = fst k \<and> snd p < snd k"

definition key_of :: "snapshot \<Rightarrow> string \<times> string" where
  "key_of s = (sn_tenant_id s, sn_run_id s)"

fun page_cursor :: "string \<Rightarrow> (string \<times> string) option \<Rightarrow> snapshot option list \<Rightarrow> (string \<times> string) option result" where
  "page_cursor tenant_id previous [] = Inr previous"
| "page_cursor tenant_id previous (None # page) = Inl RelayProtocolError"
| "page_cursor tenant_id previous (Some s # page) =
     (if sn_tenant_id s \<noteq> tenant_id then Inl RelayProtocolError
      else if (case previous of None \<Rightarrow> False | Some p \<Rightarrow> \<not> key_less p (key_of s)) then Inl ValueError
      else page_cursor tenant_id (Some (key_of s)) page)"

definition validate_page :: "string \<Rightarrow> (string \<times> string) option \<Rightarrow> snapshot option list \<Rightarrow> (string \<times> string) result" where
  "validate_page tenant_id after page =
     bindE (page_cursor tenant_id after page) (\<lambda>previous.
     case previous of None \<Rightarrow> Inl RelayProtocolError | Some k \<Rightarrow> Inr k)"

text \<open>One page is read, checked and written; the cursor of the next one, or the end of the loop.\<close>

definition rebuild_page :: "rebuilder \<Rightarrow> (string \<times> string) option \<Rightarrow> rebuild_state \<Rightarrow> (string \<times> string) option \<times> rebuild_state" where
  "rebuild_page b after st =
     (let (c, h) = st; r = po_scan (bd_ports b) h after (bd_page_size b); h' = h @ [EvScan after (bd_page_size b) r];
          read = bindE r (\<lambda>page. case page of None \<Rightarrow> Inl RelayProtocolError
            | Some page \<Rightarrow> if int (length page) > bd_page_size b then Inl RelayProtocolError else Inr page) in
      case read of
        Inl e \<Rightarrow>
          if is_protocol_error e then (None, (rebuild_fail ''scan_protocol'' (TypeOf e) None None (rebuild_protocol c), h'))
          else (None, (rebuild_fail ''scan'' (TypeOf e) None None (c\<lparr>rb_source_errors := rb_source_errors c + 1\<rparr>), h'))
      | Inr page \<Rightarrow>
          if page = [] then (None, (c, h'))
          else case validate_page (bd_tenant_id b) after page of
            Inl e \<Rightarrow>
              if is_protocol_error e then (None, (rebuild_fail ''scan_protocol'' (TypeOf e) None None (rebuild_protocol c), h'))
              else (None, (rebuild_fail ''pagination'' (TypeOf e) None None
                     (c\<lparr>rb_pagination_errors := rb_pagination_errors c + 1\<rparr>), h'))
          | Inr next_after \<Rightarrow>
              (if int (length page) < bd_page_size b then None else Some next_after,
               foldl (\<lambda>st s. rebuild_row b (the s) st) (c\<lparr>rb_pages := rb_pages c + 1\<rparr>, h') page))"

text \<open>The \<^verbatim>\<open>while True\<close> of \<^verbatim>\<open>run\<close>: not returning is the value \<^const>\<open>None\<close>.\<close>

partial_function (option) rebuild_loop ::
  "rebuilder \<Rightarrow> (string \<times> string) option \<Rightarrow> rebuild_state \<Rightarrow> rebuild_state option" where
  "rebuild_loop b after st =
     (case rebuild_page b after st of
        (None, st') \<Rightarrow> Some st'
      | (Some next_after, st') \<Rightarrow> rebuild_loop b (Some next_after) st')"

definition rebuild_reset :: "rebuilder \<Rightarrow> rebuild_state + rebuild_state" where
  "rebuild_reset b =
     (let c = rebuild_zero; fail = (\<lambda>stage t. rebuild_fail stage t (Some (bd_tenant_id b)) None) in
      if \<not> index_enabled b then Inr (c, [])
      else if \<not> bd_has_index_sink b
      then Inl (fail ''active_index_reset_protocol'' (Diagnosed ''MissingActiveRunIndexSink'') (rebuild_protocol (index_failed c)), [])
      else
        let r = po_reset (bd_ports b) [] (bd_tenant_id b); h = [EvReset (bd_tenant_id b) r] in
        case r of
          Inl e \<Rightarrow>
            if e = ActiveRunIndexProtocolError
            then Inl (fail ''active_index_reset_protocol'' (TypeOf e) (rebuild_protocol (index_failed c)), h)
            else Inl (fail ''active_index_reset'' (TypeOf e) (index_failed c), h)
        | Inr _ \<Rightarrow> Inr (c\<lparr>rb_index_reset := 1\<rparr>, h))"

definition rebuild_ready :: "rebuilder \<Rightarrow> rebuild_state \<Rightarrow> rebuild_state" where
  "rebuild_ready b st =
     (let (c, h) = st; fail = (\<lambda>stage t. rebuild_fail stage t (Some (bd_tenant_id b)) None) in
      if \<not> (index_enabled b \<and> rb_errors c = []) then st
      else if \<not> bd_has_index_sink b
      then (fail ''active_index_ready_protocol'' (Diagnosed ''MissingActiveRunIndexSink'') (rebuild_protocol (index_failed c)), h)
      else
        let r = po_ready (bd_ports b) h (bd_tenant_id b); h' = h @ [EvReady (bd_tenant_id b) r] in
        case r of
          Inl e \<Rightarrow>
            if e = ActiveRunIndexProtocolError
            then (fail ''active_index_ready_protocol'' (TypeOf e) (rebuild_protocol (index_failed c)), h')
            else (fail ''active_index_ready'' (TypeOf e) (index_failed c), h')
        | Inr _ \<Rightarrow> (c\<lparr>rb_index_ready := rb_index_ready c + 1\<rparr>, h'))"

text \<open>The counters are \<^const>\<open>None\<close> when the rebuild is disabled.\<close>

definition rebuild_run :: "rebuilder \<Rightarrow> (rebuild_counters option \<times> history) option" where
  "rebuild_run b =
     (if \<not> redis_cache_write (sc_features (bd_projection_config b)) then Some (None, [])
      else case rebuild_reset b of
        Inl (c, h) \<Rightarrow> Some (Some c, h)
      | Inr st \<Rightarrow> map_option (\<lambda>st. map_prod Some id (rebuild_ready b st)) (rebuild_loop b None st))"

end
