(* ===== verification/Relay_Facts.thy ===== *)
theory Relay_Facts
  imports Relay
begin

text \<open>
  What the relay and the rebuilder did, read off the history of their calls.
\<close>

section \<open>Acknowledgements\<close>

text \<open>The write of a snapshot that leaves the stored version at least as new.\<close>

definition accepted_write :: "snapshot \<Rightarrow> projection_write_result \<Rightarrow> bool" where
  "accepted_write s w \<longleftrightarrow> pw_status w \<noteq> WS_CONFLICT \<and> sn_stream_version s \<le> pw_stored_version w"

definition justified :: "relay \<Rightarrow> claimed_row \<Rightarrow> port_event set \<Rightarrow> string \<Rightarrow> string \<Rightarrow> bool" where
  "justified y row E tenant_id outbox_id \<longleftrightarrow> (\<exists>run_id v s.
     claimed_identity (rl_tenant_id (ry_relay_config y)) (rl_publisher_id (ry_relay_config y)) row =
       Inr (tenant_id, run_id, outbox_id, v) \<and>
     sn_tenant_id s = tenant_id \<and> sn_run_id s = run_id \<and> v \<le> sn_stream_version s \<and>
     EvLoad tenant_id run_id (Inr (Some (Some s))) \<in> E \<and>
     (\<exists>ttl w. EvWrite s ttl (Inr (Some w)) \<in> E \<and> accepted_write s w) \<and>
     (redis_active_index_write (sc_features (ry_projection_config y)) \<longrightarrow>
        (\<exists>ttl w. EvIndex s ttl (Inr (Some w)) \<in> E \<and> accepted_write s w)))"

lemma justified_mono: "justified y row E t oid \<Longrightarrow> E \<subseteq> F \<Longrightarrow> justified y row F t oid"
  unfolding justified_def by blast

definition is_mark :: "port_event \<Rightarrow> bool" where
  "is_mark e \<longleftrightarrow> (\<exists>t oid p r. e = EvMark t oid p r)"

text \<open>How a stage that goes on or leaves changes errors, acknowledgements and history.\<close>

definition quiet :: "relay_state \<Rightarrow> relay_state \<Rightarrow> port_event list \<Rightarrow> nat \<Rightarrow> bool" where
  "quiet st st' es n \<longleftrightarrow> snd st' = snd st @ es \<and> list_all (\<lambda>e. \<not> is_mark e) es \<and>
     length (rc_errors (fst st)) + n \<le> length (rc_errors (fst st')) \<and>
     rc_marked_published (fst st') = rc_marked_published (fst st) \<and> rc_claimed (fst st') = rc_claimed (fst st)"

lemmas counter_defs = relay_fail_def count_protocol_def count_status_def count_index_status_def

lemma count_frames [simp]:
  "rc_errors (count_protocol b c) = rc_errors c" "rc_errors (count_status w c) = rc_errors c"
  "rc_errors (count_index_status w c) = rc_errors c" "rc_errors (relay_fail e c) = rc_errors c @ [e]"
  "rc_marked_published (count_protocol b c) = rc_marked_published c" "rc_marked_published (count_status w c) = rc_marked_published c"
  "rc_marked_published (count_index_status w c) = rc_marked_published c" "rc_marked_published (relay_fail e c) = rc_marked_published c"
  "rc_claimed (count_protocol b c) = rc_claimed c" "rc_claimed (count_status w c) = rc_claimed c"
  "rc_claimed (count_index_status w c) = rc_claimed c" "rc_claimed (relay_fail e c) = rc_claimed c"
  by (simp_all add: counter_defs split: write_status.split)

lemma quiet_simp: "quiet (c, h) (c', h @ es) es n \<longleftrightarrow> list_all (\<lambda>e. \<not> is_mark e) es \<and>
     length (rc_errors c) + n \<le> length (rc_errors c') \<and>
     rc_marked_published c' = rc_marked_published c \<and> rc_claimed c' = rc_claimed c"
  by (simp add: quiet_def)

lemma quiet_trans: "quiet st st' es n \<Longrightarrow> quiet st' st'' es' m \<Longrightarrow> quiet st st'' (es @ es') (n + m)"
  by (auto simp: quiet_def)

lemma source_stage_cases:
  obtains (Next) s st' where "source_stage y t r oid v st = Next s st'"
      "quiet st st' [EvLoad t r (Inr (Some (Some s)))] 0" "sn_tenant_id s = t" "sn_run_id s = r" "v \<le> sn_stream_version s"
  | (Leave) st' x where "source_stage y t r oid v st = Leave st'" "quiet st st' [EvLoad t r x] 1"
proof (cases st)
  case (Pair c h)
  let ?x = "po_load (ry_ports y) h t r"
  show thesis
  proof (cases "\<exists>s. ?x = Inr (Some (Some s)) \<and> sn_tenant_id s = t \<and> sn_run_id s = r \<and> v \<le> sn_stream_version s")
    case True
    then obtain s where s: "?x = Inr (Some (Some s))" "sn_tenant_id s = t" "sn_run_id s = r" "v \<le> sn_stream_version s" by blast
    then show thesis by (intro Next [of s]) (simp add: source_stage_def Pair, simp_all add: Pair quiet_simp is_mark_def)
  next
    case False
    have "\<exists>c'. source_stage y t r oid v st = Leave (c', h @ [EvLoad t r ?x]) \<and> quiet (c, h) (c', h @ [EvLoad t r ?x]) [EvLoad t r ?x] 1"
      using False
      by (cases ?x rule: sum.exhaust; cases "projr ?x"; cases "the (projr ?x)")
        (auto simp: source_stage_def Pair quiet_simp is_mark_def Let_def)
    then show thesis using Leave [of _ ?x] Pair by blast
  qed
qed

lemma validated_accepted: "validate_write_result s r = Inr w \<Longrightarrow> pw_status w \<noteq> WS_CONFLICT \<Longrightarrow> r = Some w \<and> accepted_write s w"
  by (auto simp: validate_write_result_def accepted_write_def status_versions_ok_def split: option.splits if_splits write_status.splits)

lemma write_stage_cases:
  obtains (Next) st' ttl w where "write_stage y oid s st = Next () st'"
      "quiet st st' [EvWrite s ttl (Inr (Some w))] 0" "accepted_write s w"
  | (Leave) st' ttl x where "write_stage y oid s st = Leave st'" "quiet st st' [EvWrite s ttl x] 1"
proof (cases st)
  case (Pair c h)
  let ?ttl = "for_snapshot (sc_ttl (ry_projection_config y)) s"
  let ?x = "po_write (ry_ports y) h s ?ttl"
  show thesis
  proof (cases "\<exists>w. bindE ?x (validate_write_result s) = Inr w \<and> pw_status w \<noteq> WS_CONFLICT")
    case True
    then obtain r w where w: "?x = Inr r" "validate_write_result s r = Inr w" "pw_status w \<noteq> WS_CONFLICT"
      by (auto simp: bindE_eq_Inr)
    then have "r = Some w" "accepted_write s w" by (auto dest: validated_accepted)
    with w show thesis 
      by (intro Next [of _ ?ttl w]) (simp add: write_stage_def Pair bindE_def, simp_all add: Pair quiet_simp is_mark_def)
  next
    case False
    then have "\<exists>c'. write_stage y oid s st = Leave (c', h @ [EvWrite s ?ttl ?x]) \<and>
        quiet (c, h) (c', h @ [EvWrite s ?ttl ?x]) [EvWrite s ?ttl ?x] 1"
      by (cases "bindE ?x (validate_write_result s)") (auto simp: write_stage_def Pair quiet_simp is_mark_def Let_def)
    then show thesis using Leave [of _ ?ttl ?x] Pair by blast
  qed
qed

lemma index_stage_cases:
  obtains (Next) st' es where "index_stage y oid s st = Next () st'" "quiet st st' es 0"
      "redis_active_index_write (sc_features (ry_projection_config y)) \<Longrightarrow> \<exists>ttl w. es = [EvIndex s ttl (Inr (Some w))] \<and> accepted_write s w"
  | (Leave) st' es where "index_stage y oid s st = Leave st'" "quiet st st' es 1"
proof (cases st)
  case (Pair c h)
  let ?on = "redis_active_index_write (sc_features (ry_projection_config y))"
  let ?ttl = "tc_terminal_seconds (sc_ttl (ry_projection_config y))"
  let ?x = "po_index (ry_ports y) h s ?ttl"
  have off: thesis if "\<not> ?on"
    using that by (intro Next [of _ "[]"]) (simp add: index_stage_def Pair, simp_all add: Pair quiet_def)
  have missing: thesis if "?on" "\<not> ry_has_index_sink y"
  proof -
    have "\<exists>c'. index_stage y oid s st = Leave (c', h) \<and> quiet (c, h) (c', h) [] 1"
      using that by (auto simp: index_stage_def Pair quiet_def Let_def)
    then show thesis using Leave Pair by blast
  qed
  have asked: thesis if "?on" "ry_has_index_sink y"
  proof (cases "\<exists>w. bindE ?x (validate_write_result s) = Inr w \<and> pw_status w \<noteq> WS_CONFLICT")
    case True
    then obtain r w where w: "?x = Inr r" "validate_write_result s r = Inr w" "pw_status w \<noteq> WS_CONFLICT"
      by (auto simp: bindE_eq_Inr)
    then have "r = Some w" "accepted_write s w" by (auto dest: validated_accepted)
    with w that show thesis
      by (intro Next [of _ "[EvIndex s ?ttl (Inr (Some w))]"])
        (simp add: index_stage_def Pair bindE_def, simp_all add: Pair quiet_simp is_mark_def)
  next
    case False
    then have "\<exists>c'. index_stage y oid s st = Leave (c', h @ [EvIndex s ?ttl ?x]) \<and>
        quiet (c, h) (c', h @ [EvIndex s ?ttl ?x]) [EvIndex s ?ttl ?x] 1"
      using that by (cases "bindE ?x (validate_write_result s)") (auto simp: index_stage_def Pair quiet_simp is_mark_def Let_def)
    then show thesis using Leave Pair by blast
  qed
  show thesis using off missing asked by blast
qed

lemma policy_stage_quiet: "\<exists>es. quiet st (snd (policy_stage y t r oid st)) es 0"
proof (cases st)
  case (Pair c h)
  let ?x = "po_allows (ry_ports y) h t"
  consider (skip) "\<not> redis_fanout (sc_features (ry_projection_config y)) \<or> \<not> ry_has_policy y"
    | (ask) "redis_fanout (sc_features (ry_projection_config y))" "ry_has_policy y" by blast
  then show ?thesis
  proof cases
    case skip
    then have "quiet st (snd (policy_stage y t r oid st)) [] 0" by (auto simp: policy_stage_def Pair quiet_def Let_def)
    then show ?thesis by blast
  next
    case ask
    then have "quiet st (snd (policy_stage y t r oid st)) [EvAllows t ?x] 0"
      by (cases ?x rule: sum.exhaust; cases "projr ?x"; cases "the (projr ?x)")
        (auto simp: policy_stage_def Pair quiet_simp is_mark_def Let_def)
    then show ?thesis by blast
  qed
qed

lemma publish_stage_cases:
  obtains (Next) st' es where "publish_stage y oid s a st = Next () st'" "quiet st st' es 0"
  | (Leave) st' es where "publish_stage y oid s a st = Leave st'" "quiet st st' es 1"
proof (cases st)
  case (Pair c h)
  let ?x = "po_publish (ry_ports y) h s"
  have "(\<exists>c' es. publish_stage y oid s a st = Next () (c', h @ es) \<and> quiet (c, h) (c', h @ es) es 0) \<or>
    (\<exists>c' es. publish_stage y oid s a st = Leave (c', h @ es) \<and> quiet (c, h) (c', h @ es) es 1)"
  proof (cases "a \<and> ry_has_publisher y")
    case True
    then show ?thesis
      by (cases ?x rule: sum.exhaust; cases "projr ?x")
        (auto simp: publish_stage_def Pair quiet_simp is_mark_def Let_def intro!: exI [of _ "[EvPublish s ?x]"])
  next
    case False
    then show ?thesis by (auto simp: publish_stage_def Pair quiet_def Let_def intro!: exI [of _ "[]"])
  qed
  then show thesis using Next Leave Pair by blast
qed

lemma mark_stage_effect:
  obtains x c' where "mark_stage y t r oid (c, h) = (c', h @ [EvMark t oid (rl_publisher_id (ry_relay_config y)) x])"
    "length (rc_errors c) + rc_marked_published c + 1 \<le> length (rc_errors c') + rc_marked_published c'"
    "rc_claimed c' = rc_claimed c"
proof -
  let ?x = "po_mark (ry_ports y) h t oid (rl_publisher_id (ry_relay_config y))"
  have "\<exists>c'. mark_stage y t r oid (c, h) = (c', h @ [EvMark t oid (rl_publisher_id (ry_relay_config y)) ?x]) \<and>
    length (rc_errors c) + rc_marked_published c + 1 \<le> length (rc_errors c') + rc_marked_published c' \<and> rc_claimed c' = rc_claimed c"
    by (cases ?x rule: sum.exhaust; cases "projr ?x"; cases "the (projr ?x)") (auto simp: mark_stage_def Let_def)
  then show thesis using that by blast
qed

text \<open>
  One row: a row that is not acknowledged leaves a diagnostic, and the only acknowledgement
  comes last, after what justifies it.
\<close>

definition row_effect :: "relay \<Rightarrow> claimed_row \<Rightarrow> relay_state \<Rightarrow> relay_state \<Rightarrow> bool" where
  "row_effect y row st st' \<longleftrightarrow> rc_claimed (fst st') = rc_claimed (fst st) \<and>
     length (rc_errors (fst st)) + rc_marked_published (fst st) + 1 \<le> length (rc_errors (fst st')) + rc_marked_published (fst st') \<and>
     (\<exists>es. list_all (\<lambda>e. \<not> is_mark e) es \<and> (snd st' = snd st @ es \<or>
        (\<exists>t oid r. snd st' = snd st @ es @ [EvMark t oid (rl_publisher_id (ry_relay_config y)) r] \<and>
          justified y row (set es) t oid)))"

lemma quiet_row_effect: "quiet st st' es n \<Longrightarrow> 1 \<le> n \<Longrightarrow> row_effect y row st st'"
  unfolding row_effect_def quiet_def by auto

lemma relay_row_effect: "row_effect y row st (relay_row y row st)"
proof (cases "claimed_identity (rl_tenant_id (ry_relay_config y)) (rl_publisher_id (ry_relay_config y)) row")
  case (Inl e)
  then have "quiet st (relay_row y row st) [] 1" by (simp add: relay_row_def quiet_def)
  then show ?thesis by (rule quiet_row_effect) simp
next
  case (Inr i)
  then obtain t r oid v where i: "claimed_identity (rl_tenant_id (ry_relay_config y)) (rl_publisher_id (ry_relay_config y)) row =
      Inr (t, r, oid, v)" by (cases i) auto
  show ?thesis
  proof (cases rule: source_stage_cases [of y t r oid v st])
    case (Leave st1)
    then have "relay_row y row st = st1" by (simp add: relay_row_def i)
    with quiet_row_effect [OF Leave(2)] show ?thesis by simp
  next
    case 1: (Next s st1)
    show ?thesis
    proof (cases rule: write_stage_cases [of y "Some oid" s st1])
      case (Leave st2)
      then have "relay_row y row st = st2" by (simp add: relay_row_def i 1(1))
      with quiet_row_effect [OF quiet_trans [OF 1(2) Leave(2)]] show ?thesis by simp
    next
      case 2: (Next st2 ttl w)
      note q2 = quiet_trans [OF 1(2) 2(2)]
      show ?thesis
      proof (cases rule: index_stage_cases [of y "Some oid" s st2])
        case (Leave st3)
        then have "relay_row y row st = st3" by (simp add: relay_row_def i 1(1) 2(1))
        with quiet_row_effect [OF quiet_trans [OF q2 Leave(2)]] show ?thesis by simp
      next
        case 3: (Next st3 es3)
        obtain a st4 where p: "policy_stage y t r oid st3 = (a, st4)" by (rule prod.exhaust)
        then obtain es4 where "quiet st3 st4 es4 0" using policy_stage_quiet [of st3 y t r oid] by auto
        note q4 = quiet_trans [OF quiet_trans [OF q2 3(2)] this]
        show ?thesis
        proof (cases rule: publish_stage_cases [of y oid s a st4])
          case (Leave st5)
          then have "relay_row y row st = st5" by (simp add: relay_row_def i 1(1) 2(1) 3(1) p)
          with quiet_row_effect [OF quiet_trans [OF q4 Leave(2)]] show ?thesis by simp
        next
          case 5: (Next st5 es5)
          note q = quiet_trans [OF q4 5(2)]
          obtain c h where st5: "st5 = (c, h)" by (rule prod.exhaust)
          obtain x c' where m: "mark_stage y t r oid (c, h) = (c', h @ [EvMark t oid (rl_publisher_id (ry_relay_config y)) x])"
            "length (rc_errors c) + rc_marked_published c + 1 \<le> length (rc_errors c') + rc_marked_published c'"
            "rc_claimed c' = rc_claimed c" by (rule mark_stage_effect)
          have row: "relay_row y row st = (c', h @ [EvMark t oid (rl_publisher_id (ry_relay_config y)) x])"
            using m(1) by (simp add: relay_row_def i 1(1) 2(1) 3(1) p 5(1) st5)
          have "justified y row (set ((([EvLoad t r (Inr (Some (Some s)))] @ [EvWrite s ttl (Inr (Some w))]) @ es3) @ es4 @ es5)) t oid"
            unfolding justified_def using i 1(3-5) 2(3) 3(3) by fastforce
          then show ?thesis
            unfolding row_effect_def row using q m(2,3)
            by (auto simp: quiet_def st5 intro!: exI [of _ "EvLoad t r (Inr (Some (Some s))) # EvWrite s ttl (Inr (Some w)) # es3 @ es4 @ es5"])
        qed
      qed
    qed
  qed
qed

section \<open>A polling cycle\<close>

definition marks_justified :: "relay \<Rightarrow> claimed_row list \<Rightarrow> history \<Rightarrow> bool" where
  "marks_justified y rows h \<longleftrightarrow> (\<forall>h1 t oid p r h2. h = h1 @ EvMark t oid p r # h2 \<longrightarrow>
     p = rl_publisher_id (ry_relay_config y) \<and> (\<exists>row\<in>set rows. justified y row (set h1) t oid))"

lemma no_mark_split: "list_all (\<lambda>e. \<not> is_mark e) es \<Longrightarrow> EvMark t oid p r \<notin> set es"
  by (auto simp: list_all_iff is_mark_def)

lemma marks_justified_append:
  assumes "marks_justified y rows h" "list_all (\<lambda>e. \<not> is_mark e) es"
  shows "marks_justified y rows (h @ es)"
  unfolding marks_justified_def
proof (intro allI impI)
  fix h1 t oid p r h2 assume e: "h @ es = h1 @ EvMark t oid p r # h2"
  have "EvMark t oid p r \<notin> set es" using assms(2) by (rule no_mark_split)
  with e obtain u where "h = h1 @ EvMark t oid p r # u"
    by (auto simp: append_eq_append_conv2 Cons_eq_append_conv append_eq_Cons_conv)
  with assms(1) show "p = rl_publisher_id (ry_relay_config y) \<and> (\<exists>row\<in>set rows. justified y row (set h1) t oid)"
    unfolding marks_justified_def by blast
qed

lemma marks_justified_mark:
  assumes "marks_justified y rows h" "row \<in> set rows" "justified y row (set h) t oid"
  shows "marks_justified y rows (h @ [EvMark t oid (rl_publisher_id (ry_relay_config y)) r])"
  unfolding marks_justified_def
proof (intro allI impI)
  fix h1 t' oid' p r' h2
  assume e: "h @ [EvMark t oid (rl_publisher_id (ry_relay_config y)) r] = h1 @ EvMark t' oid' p r' # h2"
  show "p = rl_publisher_id (ry_relay_config y) \<and> (\<exists>row\<in>set rows. justified y row (set h1) t' oid')"
  proof (cases h2 rule: rev_cases)
    case Nil
    with e assms show ?thesis by auto
  next
    case (snoc u z)
    with e have "h = h1 @ EvMark t' oid' p r' # u" by auto
    with assms(1) show ?thesis unfolding marks_justified_def by blast
  qed
qed

lemma relay_rows_effect:
  assumes "marks_justified y rows (snd st)" "set done \<subseteq> set rows"
  defines "st' \<equiv> foldl (\<lambda>st row. relay_row y row st) st done"
  shows "marks_justified y rows (snd st') \<and> rc_claimed (fst st') = rc_claimed (fst st) \<and>
    length (rc_errors (fst st)) + rc_marked_published (fst st) + length done \<le> length (rc_errors (fst st')) + rc_marked_published (fst st') \<and>
    (\<exists>es. snd st' = snd st @ es)"
  using assms(1,2) unfolding st'_def
proof (induction "done" arbitrary: st)
  case (Cons row rest)
  let ?st = "relay_row y row st"
  from relay_row_effect [of y row st] obtain es where
    c: "rc_claimed (fst ?st) = rc_claimed (fst st)"
      "length (rc_errors (fst st)) + rc_marked_published (fst st) + 1 \<le> length (rc_errors (fst ?st)) + rc_marked_published (fst ?st)"
    and es: "list_all (\<lambda>e. \<not> is_mark e) es" "snd ?st = snd st @ es \<or>
        (\<exists>t oid r. snd ?st = snd st @ es @ [EvMark t oid (rl_publisher_id (ry_relay_config y)) r] \<and> justified y row (set es) t oid)"
    unfolding row_effect_def by auto
  have q: "marks_justified y rows (snd st @ es)" using Cons.prems(1) es(1) by (rule marks_justified_append)
  have "marks_justified y rows (snd ?st)"
    using es(2)
  proof
    assume "\<exists>t oid r. snd ?st = snd st @ es @ [EvMark t oid (rl_publisher_id (ry_relay_config y)) r] \<and> justified y row (set es) t oid"
    then show ?thesis
      using marks_justified_mark [OF q, of row] Cons.prems(2) justified_mono [of y row "set es" _ _ "set (snd st @ es)"] by auto
  qed (use q in simp)
  from Cons.IH [OF this] Cons.prems(2) c es(2) show ?case by fastforce
qed simp

lemma run_once_cases:
  obtains (none) c h where "run_once y = (c, h)" "\<And>t oid p r. EvMark t oid p r \<notin> set h" "\<And>x. c = Some x \<Longrightarrow> rc_claimed x = 0"
  | (batch) c h rows where "run_once y = (Some c, h)" "marks_justified y rows h" "hd h = EvClaim (Inr (Some rows))" "h \<noteq> []"
      "rc_claimed c = length rows" "length rows \<le> length (rc_errors c) + rc_marked_published c"
proof (cases "redis_cache_write (sc_features (ry_projection_config y))")
  case False
  then show thesis by (intro none [of None "[]"]) (simp_all add: run_once_def)
next
  case True
  let ?r = "po_claim (ry_ports y) []"
  show thesis
  proof (cases "fst (claim_batch y)")
    case (Inl e)
    then have "claim_batch y = (Inl e, [EvClaim ?r])" by (simp add: claim_batch_def Let_def)
    with True show thesis
      by (intro none) (simp add: run_once_def, auto simp: relay_zero_def)
  next
    case (Inr rows)
    then have b: "claim_batch y = (Inr rows, [EvClaim ?r])" "?r = Inr (Some rows)"
      by (auto simp: claim_batch_def Let_def bindE_eq_Inr split: option.splits if_splits)
    let ?init = "(relay_zero\<lparr>rc_claimed := length rows\<rparr>, [EvClaim ?r])"
    let ?st = "foldl (\<lambda>st row. relay_row y row st) ?init rows"
    have "marks_justified y rows (snd ?init)" by (auto simp: marks_justified_def Cons_eq_append_conv)
    note effect = relay_rows_effect [OF this subset_refl]
    have "run_once y = (Some (fst ?st), snd ?st)" using True b(1) by (simp add: run_once_def map_prod_def case_prod_beta)
    moreover have "marks_justified y rows (snd ?st)" using effect by blast
    moreover have "rc_claimed (fst ?st) = length rows"
      "length rows \<le> length (rc_errors (fst ?st)) + rc_marked_published (fst ?st)" "\<exists>es. snd ?st = EvClaim ?r # es"
      using effect by (simp_all add: relay_zero_def)
    ultimately show thesis using b(2) by (intro batch [of "fst ?st" "snd ?st" rows]) auto
  qed
qed

section \<open>The rebuild returns\<close>

lemma key_less_irrefl [simp]: "\<not> key_less k k"
  by (simp add: key_less_def)

lemma key_less_trans: "key_less a b \<Longrightarrow> key_less b c \<Longrightarrow> key_less a c"
  unfolding key_less_def by (elim disjE conjE) (auto dest: less_trans)

text \<open>Keys behind a cursor; there is no cursor before the first page.\<close>

definition beyond :: "(string \<times> string) option \<Rightarrow> (string \<times> string) \<Rightarrow> bool" where
  "beyond after k \<longleftrightarrow> (case after of None \<Rightarrow> True | Some p \<Rightarrow> key_less p k)"

lemma page_cursor_Inr:
  "page_cursor t previous page = Inr after \<Longrightarrow>
     (page = [] \<longrightarrow> after = previous) \<and>
     (page \<noteq> [] \<longrightarrow> (\<exists>s. last page = Some s \<and> after = Some (key_of s) \<and> beyond previous (key_of s)))"
proof (induction t previous page arbitrary: after rule: page_cursor.induct)
  case (3 t previous s page)
  then have p: "page_cursor t (Some (key_of s)) page = Inr after" "beyond previous (key_of s)"
    by (auto simp: beyond_def split: if_splits option.splits)
  have IH: "(page = [] \<longrightarrow> after = Some (key_of s)) \<and>
      (page \<noteq> [] \<longrightarrow> (\<exists>s'. last page = Some s' \<and> after = Some (key_of s') \<and> beyond (Some (key_of s)) (key_of s')))"
    using 3 p(1) by (auto split: if_splits)
  show ?case
  proof (cases page)
    case Nil
    with IH p(2) show ?thesis by simp
  next
    case (Cons x xs)
    with IH p(2) show ?thesis
      by (auto simp: beyond_def split: option.splits intro: key_less_trans)
  qed
qed auto

lemma rebuild_page_cursor:
  assumes "rebuild_page b after st = (Some next, st')"
  obtains page s h where "po_scan (bd_ports b) h after (bd_page_size b) = Inr (Some page)" "Some s \<in> set page"
    "next = key_of s" "beyond after next"
proof -
  obtain page where page: "po_scan (bd_ports b) (snd st) after (bd_page_size b) = Inr (Some page)" "page \<noteq> []"
    "validate_page (bd_tenant_id b) after page = Inr next"
    using assms
    by (auto simp: rebuild_page_def Let_def bindE_eq_Inr bindE_def split: prod.splits sum.splits if_splits option.splits)
  then have "page_cursor (bd_tenant_id b) after page = Inr (Some next)"
    by (auto simp: validate_page_def bindE_eq_Inr split: option.splits)
  from page_cursor_Inr [OF this] page(2) obtain s where "last page = Some s" "next = key_of s" "beyond after next" by auto
  moreover have "last page \<in> set page" using page(2) by simp
  ultimately show thesis using that page(1) by metis
qed

lemma rebuild_loop_returns:
  assumes "finite K"
    and "\<And>h after page s. po_scan (bd_ports b) h after (bd_page_size b) = Inr (Some page) \<Longrightarrow> Some s \<in> set page \<Longrightarrow> key_of s \<in> K"
  shows "\<exists>st'. rebuild_loop b after st = Some st'"
proof (induction "card {k \<in> K. beyond after k}" arbitrary: after st rule: less_induct)
  case less
  obtain n st1 where p: "rebuild_page b after st = (n, st1)" by (rule prod.exhaust)
  show ?case
  proof (cases n)
    case None
    with p show ?thesis by (simp add: rebuild_loop.simps)
  next
    case (Some k)
    with p have "rebuild_page b after st = (Some k, st1)" by simp
    then obtain page s h where "po_scan (bd_ports b) h after (bd_page_size b) = Inr (Some page)" "Some s \<in> set page"
        "k = key_of s" "beyond after k" by (rule rebuild_page_cursor)
    then have k: "k \<in> K" "beyond after k" using assms(2) by auto
    have "{x \<in> K. beyond (Some k) x} \<subseteq> {x \<in> K. beyond after x}"
      using k(2) by (auto simp: beyond_def split: option.splits intro: key_less_trans)
    moreover have "k \<in> {x \<in> K. beyond after x}" "k \<notin> {x \<in> K. beyond (Some k) x}" using k by (auto simp: beyond_def)
    ultimately have "{x \<in> K. beyond (Some k) x} \<subset> {x \<in> K. beyond after x}" by blast
    then have "card {x \<in> K. beyond (Some k) x} < card {x \<in> K. beyond after x}"
      using assms(1) by (intro psubset_card_mono) auto
    from less [OF this, of st1] p Some show ?thesis by (simp add: rebuild_loop.simps [of b after])
  qed
qed

lemma rebuild_run_returns:
  assumes "finite K"
    and "\<And>h after page s. po_scan (bd_ports b) h after (bd_page_size b) = Inr (Some page) \<Longrightarrow> Some s \<in> set page \<Longrightarrow> key_of s \<in> K"
  shows "\<exists>c h. rebuild_run b = Some (c, h)"
proof -
  have "\<exists>st'. rebuild_loop b None st = Some st'" for st using assms by (rule rebuild_loop_returns)
  then have "\<exists>x. rebuild_run b = Some x"
    unfolding rebuild_run_def by (cases "rebuild_reset b") (metis (no_types) map_option_eq_Some sum.case old.prod.exhaust prod.case)+
  then show ?thesis by auto
qed

end
