(* ===== verification/Shadow_Source.thy ===== *)
theory Shadow_Source
  imports Relay_Facts
begin

text \<open>
  The SQL source of projections (\<^verbatim>\<open>production/postgres_shadow.py\<close>) over the rows of the table
  \<^verbatim>\<open>runs\<close>, and what a rebuild from it writes. The database orders text by code point.
\<close>

record pg_run =
  pr_tenant_id :: string
  pr_run_id :: string
  pr_execution_status :: string
  pr_phase :: "string option"
  pr_stream_version :: int
  pr_last_event_seq :: int
  pr_updated_at :: datetime

record shadow_source =
  ss_dsn :: string
  ss_tenant_id :: string

definition shadow_source_new :: "shadow_source \<Rightarrow> shadow_source result" where
  "shadow_source_new src =
     (if blank (ss_dsn src) then Inl ValueError else bindE (validate_identity 512 (ss_tenant_id src)) (\<lambda>_. Inr src))"

definition require_configured_tenant :: "shadow_source \<Rightarrow> string \<Rightarrow> unit result" where
  "require_configured_tenant src tenant_id =
     bindE (validate_identity 512 tenant_id) (\<lambda>_. if tenant_id \<noteq> ss_tenant_id src then Inl ValueError else Inr ())"

text \<open>Whatever is wrong with the row, the projection is reported as invalid.\<close>

definition snapshot_from_row :: "shadow_source \<Rightarrow> pg_run \<Rightarrow> snapshot result" where
  "snapshot_from_row src row = (case
     (if pr_tenant_id row \<noteq> ss_tenant_id src then Inl ValueError
      else
        bindE (validate_identity 512 (pr_run_id row)) (\<lambda>_.
        bindE (validate_version (pr_stream_version row)) (\<lambda>_.
        bindE (validate_version (pr_last_event_seq row)) (\<lambda>_.
        if pr_stream_version row \<noteq> pr_last_event_seq row then Inl ValueError
        else if pr_phase row = Some [] then Inl ValueError
        else if is_naive (pr_updated_at row) then Inl ValueError
        else
          bindE (enum_of execution_status_value all_execution_status (pr_execution_status row)) (\<lambda>status.
          snapshot_new \<lparr>sn_tenant_id = pr_tenant_id row, sn_run_id = pr_run_id row, sn_stream_version = pr_stream_version row,
            sn_execution_status = status, sn_phase = pr_phase row, sn_last_event_seq = pr_last_event_seq row,
            sn_updated_at = pr_updated_at row\<rparr>))))) of
     Inl e \<Rightarrow> Inl LedgerIntegrityError | Inr s \<Rightarrow> Inr s)"

definition load_projection :: "shadow_source \<Rightarrow> string \<Rightarrow> string \<Rightarrow> pg_run list \<Rightarrow> snapshot option result" where
  "load_projection src tenant_id run_id table =
     bindE (require_configured_tenant src tenant_id) (\<lambda>_.
     bindE (validate_identity 512 run_id) (\<lambda>_.
     case find (\<lambda>row. pr_tenant_id row = ss_tenant_id src \<and> pr_run_id row = run_id) table of
       None \<Rightarrow> Inr None
     | Some row \<Rightarrow> bindE (snapshot_from_row src row) (\<lambda>s. Inr (Some s))))"

definition tenant_runs :: "shadow_source \<Rightarrow> pg_run list \<Rightarrow> pg_run list" where
  "tenant_runs src table = sort_key pr_run_id (filter (\<lambda>row. pr_tenant_id row = ss_tenant_id src) table)"

definition scan_projections ::
  "shadow_source \<Rightarrow> (string \<times> string) option \<Rightarrow> int \<Rightarrow> pg_run list \<Rightarrow> snapshot list result" where
  "scan_projections src after limit table =
     (if \<not> (1 \<le> limit \<and> limit \<le> 1000) then Inl ValueError
      else
        bindE (case after of None \<Rightarrow> Inr None
          | Some (cursor_tenant_id, after_run_id) \<Rightarrow>
              bindE (require_configured_tenant src cursor_tenant_id) (\<lambda>_.
              bindE (validate_identity 512 after_run_id) (\<lambda>_. Inr (Some after_run_id)))) (\<lambda>after_run_id.
        let rows = (case after_run_id of None \<Rightarrow> tenant_runs src table
              | Some k \<Rightarrow> filter (\<lambda>row. k < pr_run_id row) (tenant_runs src table)) in
        mapE (snapshot_from_row src) (take (nat limit) rows)))"

section \<open>Paging through the table\<close>

definition written :: "history \<Rightarrow> snapshot list" where
  "written h = concat (map (\<lambda>e. case e of EvWrite s ttl r \<Rightarrow> [s] | _ \<Rightarrow> []) h)"

lemma written_append [simp]: "written (h @ h') = written h @ written h'"
  by (simp add: written_def)

lemma written_events [simp]:
  "written [] = []" "written [EvWrite s ttl r] = [s]" "written [EvIndex s ttl r] = []" "written [EvScan a n x] = []"
  "written [EvReset t u] = []" "written [EvReady t u] = []"
  by (simp_all add: written_def)

lemma rebuild_frames [simp]:
  "rb_scanned (rebuild_fail st t a b c) = rb_scanned c" "rb_scanned (rebuild_protocol c) = rb_scanned c"
  "rb_scanned (index_failed c) = rb_scanned c" "rb_scanned (rebuild_status w c) = rb_scanned c"
  "rb_scanned (rebuild_index_status w c) = rb_scanned c"
  by (simp_all add: rebuild_fail_def rebuild_protocol_def index_failed_def rebuild_status_def rebuild_index_status_def
      split: write_status.split)

lemma rebuild_index_row_written:
  "written (snd (rebuild_index_row b s st)) = written (snd st) \<and> rb_scanned (fst (rebuild_index_row b s st)) = rb_scanned (fst st)"
  by (cases st) (auto simp: rebuild_index_row_def Let_def split: sum.split)

lemma rebuild_row_written:
  "written (snd (rebuild_row b s st)) = written (snd st) @ [s] \<and> rb_scanned (fst (rebuild_row b s st)) = rb_scanned (fst st) + 1"
  by (auto simp: rebuild_row_def Let_def rebuild_index_row_written split: sum.split)

lemma rebuild_rows_written:
  "written (snd (foldl (\<lambda>st s. rebuild_row b (the s) st) st (map Some ss))) = written (snd st) @ ss \<and>
   rb_scanned (fst (foldl (\<lambda>st s. rebuild_row b (the s) st) st (map Some ss))) = rb_scanned (fst st) + length ss"
  by (induction ss arbitrary: st) (simp_all add: rebuild_row_written)

text \<open>Keys that strictly increase, from behind a cursor on.\<close>

fun ascending :: "(string \<times> string) option \<Rightarrow> snapshot list \<Rightarrow> bool" where
  "ascending after [] = True"
| "ascending after (s # ss) \<longleftrightarrow> beyond after (key_of s) \<and> ascending (Some (key_of s)) ss"

lemma ascending_beyond: "ascending after ss \<Longrightarrow> s \<in> set ss \<Longrightarrow> beyond after (key_of s)"
proof (induction after ss rule: ascending.induct)
  case (2 after x ss)
  then show ?case by (auto simp: beyond_def split: option.splits intro: key_less_trans)
qed simp

lemma ascending_append:
  "ascending after (xs @ ys) \<longleftrightarrow> ascending after xs \<and> ascending (if xs = [] then after else Some (key_of (last xs))) ys"
  by (induction xs arbitrary: after) auto

lemma page_cursor_ascending:
  assumes "ascending after page" "\<And>s. s \<in> set page \<Longrightarrow> sn_tenant_id s = t" "page \<noteq> []"
  shows "page_cursor t after (map Some page) = Inr (Some (key_of (last page)))"
  using assms
proof (induction page arbitrary: after)
  case (Cons s page)
  have ok: "\<not> (case after of None \<Rightarrow> False | Some p \<Rightarrow> \<not> key_less p (key_of s))"
    using Cons.prems(1) by (auto simp: beyond_def split: option.splits)
  show ?case
  proof (cases "page = []")
    case True
    with ok Cons.prems(2) show ?thesis by simp
  next
    case False
    with ok Cons show ?thesis by simp
  qed
qed simp

text \<open>A source that pages through a fixed list of snapshots.\<close>

definition pages_through :: "rebuilder \<Rightarrow> snapshot list \<Rightarrow> bool" where
  "pages_through b T \<longleftrightarrow> (\<forall>h after. (\<forall>k. after = Some k \<longrightarrow> k \<in> key_of ` set T) \<longrightarrow> po_scan (bd_ports b) h after (bd_page_size b) =
     Inr (Some (map Some (take (nat (bd_page_size b)) (filter (\<lambda>s. beyond after (key_of s)) T)))))"

lemma filter_behind_cursor:
  assumes "ascending None (pre @ rest)" "pre \<noteq> []"
  shows "filter (\<lambda>s. beyond (Some (key_of (last pre))) (key_of s)) (pre @ rest) = rest"
proof -
  have "beyond (Some (key_of (last pre))) (key_of s)" if "s \<in> set rest" for s
    using assms that by (auto simp: ascending_append intro: ascending_beyond)
  moreover have "\<not> beyond (Some (key_of (last pre))) (key_of s)" if s: "s \<in> set pre" for s
  proof -
    obtain xs ys where pre: "pre = xs @ s # ys" using s by (auto simp: in_set_conv_decomp)
    show ?thesis
    proof (cases "ys = []")
      case False
      have "ascending (Some (key_of s)) ys" using assms(1) by (simp add: pre ascending_append)
      then have "key_less (key_of s) (key_of (last ys))"
        using ascending_beyond [of "Some (key_of s)" ys "last ys"] False by (simp add: beyond_def)
      then show ?thesis using False by (auto simp: pre beyond_def dest: key_less_trans)
    qed (simp add: pre beyond_def)
  qed
  ultimately show ?thesis by (simp add: filter_empty_conv)
qed

lemma rebuild_loop_pages:
  assumes "pages_through b T" "ascending None T" "\<And>s. s \<in> set T \<Longrightarrow> sn_tenant_id s = bd_tenant_id b" "1 \<le> bd_page_size b"
    and "T = pre @ rest" "after = (if pre = [] then None else Some (key_of (last pre)))"
  shows "\<exists>st'. rebuild_loop b after st = Some st' \<and> written (snd st') = written (snd st) @ rest \<and>
    rb_scanned (fst st') = rb_scanned (fst st) + length rest"
  using assms(5,6)
proof (induction "length rest" arbitrary: pre rest after st rule: less_induct)
  case less
  obtain c h where st: "st = (c, h)" by (rule prod.exhaust)
  let ?n = "nat (bd_page_size b)"
  let ?page = "take ?n rest"
  have rest: "filter (\<lambda>s. beyond after (key_of s)) T = rest"
    using filter_behind_cursor [of pre rest] assms(2) less.prems by (auto simp: beyond_def)
  have cursor: "after = Some k \<Longrightarrow> k \<in> key_of ` set T" for k using less.prems by (auto split: if_splits)
  have scan: "po_scan (bd_ports b) h after (bd_page_size b) = Inr (Some (map Some ?page))" for h
    using assms(1) cursor rest unfolding pages_through_def by fastforce
  have n: "0 < ?n" "int (length ?page) \<le> bd_page_size b" using assms(4) by auto
  show ?case
  proof (cases "rest = []")
    case True
    then have "rebuild_page b after st = (None, (c, h @ [EvScan after (bd_page_size b) (Inr (Some []))]))"
      using scan assms(4) by (simp add: rebuild_page_def st bindE_def)
    with True show ?thesis by (simp add: rebuild_loop.simps [of b after] st)
  next
    case False
    then have page: "?page \<noteq> []" using n(1) by simp
    have "ascending after (?page @ drop ?n rest)"
      using assms(2) less.prems by (auto simp: ascending_append)
    then have "ascending after ?page" unfolding ascending_append by blast
    moreover have "sn_tenant_id s = bd_tenant_id b" if "s \<in> set ?page" for s
      using assms(3) less.prems(1) in_set_takeD [OF that] by simp
    ultimately have "page_cursor (bd_tenant_id b) after (map Some ?page) = Inr (Some (key_of (last ?page)))"
      using page by (rule page_cursor_ascending)
    then have valid: "validate_page (bd_tenant_id b) after (map Some ?page) = Inr (key_of (last ?page))"
      by (simp add: validate_page_def bindE_def)
    let ?h = "h @ [EvScan after (bd_page_size b) (Inr (Some (map Some ?page)))]"
    let ?st = "foldl (\<lambda>st s. rebuild_row b (the s) st) (c\<lparr>rb_pages := rb_pages c + 1\<rparr>, ?h) (map Some ?page)"
    have p: "rebuild_page b after st =
        (if int (length ?page) < bd_page_size b then None else Some (key_of (last ?page)), ?st)"
      using scan valid page n(2) by (simp add: rebuild_page_def st bindE_def)
    have w: "written (snd ?st) = written h @ ?page" "rb_scanned (fst ?st) = rb_scanned c + length ?page"
      using rebuild_rows_written [of b "(c\<lparr>rb_pages := rb_pages c + 1\<rparr>, ?h)" ?page] by simp_all
    show ?thesis
    proof (cases "int (length ?page) < bd_page_size b")
      case True
      then have "?page = rest" by auto
      with True p w show ?thesis by (simp add: rebuild_loop.simps [of b after] st)
    next
      case short: False
      have split: "T = (pre @ ?page) @ drop ?n rest" using less.prems(1) by simp
      have "length (drop ?n rest) < length rest" using False n(1) by simp
      from less.hyps [OF this split refl, of ?st] page obtain st' where
        "rebuild_loop b (Some (key_of (last ?page))) ?st = Some st'" "written (snd st') = written (snd ?st) @ drop ?n rest"
        "rb_scanned (fst st') = rb_scanned (fst ?st) + length (drop ?n rest)" by auto
      note loop = this
      from short p have "rebuild_page b after st = (Some (key_of (last ?page)), ?st)" by argo
      then have "rebuild_loop b after st = Some st'" using loop(1) by (simp add: rebuild_loop.simps [of b after])
      moreover have "?page @ drop ?n rest = rest" "length ?page + length (drop ?n rest) = length rest" by simp_all
      ultimately show ?thesis using loop(2,3) w by (auto simp: st simp del: length_take)
    qed
  qed
qed

section \<open>A rebuild from the table\<close>

text \<open>The rows of the tenant are valid projections, and run ids are unique (the primary key).\<close>

definition sound_table :: "shadow_source \<Rightarrow> pg_run list \<Rightarrow> bool" where
  "sound_table src table \<longleftrightarrow> validate_identity 512 (ss_tenant_id src) = Inr () \<and>
     distinct (map pr_run_id (filter (\<lambda>row. pr_tenant_id row = ss_tenant_id src) table)) \<and>
     (\<forall>row\<in>set table. pr_tenant_id row = ss_tenant_id src \<longrightarrow> (\<exists>s. snapshot_from_row src row = Inr s))"

definition table_snapshots :: "shadow_source \<Rightarrow> pg_run list \<Rightarrow> snapshot list" where
  "table_snapshots src table = map (\<lambda>row. projr (snapshot_from_row src row)) (tenant_runs src table)"

lemma snapshot_from_row_key:
  assumes "snapshot_from_row src row = Inr s"
  shows "sn_tenant_id s = ss_tenant_id src \<and> sn_run_id s = pr_run_id row \<and> validate_identity 512 (pr_run_id row) = Inr ()"
  using assms
  by (auto simp: snapshot_from_row_def bindE_eq_Inr snapshot_new_def split: sum.splits if_splits)

lemma tenant_runs_sound:
  assumes "sound_table src table" "row \<in> set (tenant_runs src table)"
  shows "snapshot_from_row src row = Inr (projr (snapshot_from_row src row))"
  using assms by (auto simp: sound_table_def tenant_runs_def)

lemma sorted_ascending:
  assumes "sorted_wrt (<) (map sn_run_id ss)" "\<And>s. s \<in> set ss \<Longrightarrow> sn_tenant_id s = t"
    and "\<And>s. s \<in> set ss \<Longrightarrow> beyond after (key_of s)"
  shows "ascending after ss"
  using assms
proof (induction ss arbitrary: after)
  case (Cons s ss)
  have "beyond (Some (key_of s)) (key_of s')" if "s' \<in> set ss" for s'
    using Cons.prems(1,2) that by (auto simp: beyond_def key_less_def key_of_def)
  with Cons show ?case by auto
qed simp

lemma table_snapshots_facts:
  assumes "sound_table src table"
  shows "ascending None (table_snapshots src table)"
    and "s \<in> set (table_snapshots src table) \<Longrightarrow> sn_tenant_id s = ss_tenant_id src \<and> validate_identity 512 (sn_run_id s) = Inr ()"
    and "map sn_run_id (table_snapshots src table) = map pr_run_id (tenant_runs src table)"
proof -
  have row: "sn_tenant_id (projr (snapshot_from_row src row)) = ss_tenant_id src \<and>
      sn_run_id (projr (snapshot_from_row src row)) = pr_run_id row \<and> validate_identity 512 (pr_run_id row) = Inr ()"
    if "row \<in> set (tenant_runs src table)" for row
    using tenant_runs_sound [OF assms that] by (rule snapshot_from_row_key)
  show ids: "map sn_run_id (table_snapshots src table) = map pr_run_id (tenant_runs src table)"
    using row by (simp add: table_snapshots_def)
  show facts: "sn_tenant_id s = ss_tenant_id src \<and> validate_identity 512 (sn_run_id s) = Inr ()"
    if "s \<in> set (table_snapshots src table)" for s
    using that row by (auto simp: table_snapshots_def)
  have "mset (map pr_run_id (tenant_runs src table)) =
      mset (map pr_run_id (filter (\<lambda>row. pr_tenant_id row = ss_tenant_id src) table))"
    by (simp add: tenant_runs_def)
  from mset_eq_imp_distinct_iff [OF this] have "distinct (map pr_run_id (tenant_runs src table))"
    using assms by (simp add: sound_table_def)
  then have "sorted_wrt (<) (map sn_run_id (table_snapshots src table))"
    by (simp add: ids strict_sorted_iff tenant_runs_def)
  then show "ascending None (table_snapshots src table)"
    using facts by (intro sorted_ascending [of _ "ss_tenant_id src"]) (auto simp: beyond_def)
qed

lemma scan_pages:
  assumes "sound_table src table" "1 \<le> limit" "limit \<le> 1000" "\<And>k. after = Some k \<Longrightarrow> k \<in> key_of ` set (table_snapshots src table)"
  shows "scan_projections src after limit table =
    Inr (take (nat limit) (filter (\<lambda>s. beyond after (key_of s)) (table_snapshots src table)))"
proof -
  let ?f = "\<lambda>row. projr (snapshot_from_row src row)"
  have key: "key_of (?f row) = (ss_tenant_id src, pr_run_id row)" if "row \<in> set (tenant_runs src table)" for row
    using snapshot_from_row_key [OF tenant_runs_sound [OF assms(1) that]] by (simp add: key_of_def)
  have page: "mapE (snapshot_from_row src) (take n (filter P (tenant_runs src table))) =
      Inr (take n (map ?f (filter P (tenant_runs src table))))" for n P
    by (subst mapE_Inr [where g = ?f]) (auto simp: take_map dest!: in_set_takeD intro: tenant_runs_sound [OF assms(1)])
  show ?thesis
  proof (cases after)
    case None
    then show ?thesis using assms(2,3) page [of "nat limit" "\<lambda>_. True"]
      by (simp add: scan_projections_def bindE_def beyond_def table_snapshots_def)
  next
    case (Some k)
    then obtain row where row: "row \<in> set (tenant_runs src table)" "k = (ss_tenant_id src, pr_run_id row)"
      using assms(4) [OF Some] key by (auto simp: table_snapshots_def)
    have valid: "require_configured_tenant src (fst k) = Inr ()" "validate_identity 512 (snd k) = Inr ()"
      using assms(1) snapshot_from_row_key [OF tenant_runs_sound [OF assms(1) row(1)]] row(2)
      by (simp_all add: require_configured_tenant_def sound_table_def bindE_def)
    have "filter (\<lambda>s. beyond after (key_of s)) (table_snapshots src table) =
        map ?f (filter (\<lambda>r. snd k < pr_run_id r) (tenant_runs src table))"
      unfolding table_snapshots_def filter_map comp_def
      by (intro arg_cong [of _ _ "map ?f"] filter_cong) (auto simp: Some beyond_def key key_less_def row(2))
    then show ?thesis using Some assms(2,3) valid page [of "nat limit" "\<lambda>r. snd k < pr_run_id r"]
      by (cases k) (simp add: scan_projections_def bindE_def)
  qed
qed

text \<open>The source answers a scan from the table.\<close>

definition scans_table :: "rebuilder \<Rightarrow> shadow_source \<Rightarrow> pg_run list \<Rightarrow> bool" where
  "scans_table b src table \<longleftrightarrow> (\<forall>h after. po_scan (bd_ports b) h after (bd_page_size b) =
     bindE (scan_projections src after (bd_page_size b) table) (\<lambda>ss. Inr (Some (map Some ss))))"

lemma rebuild_ready_frame:
  "written (snd (rebuild_ready b st)) = written (snd st) \<and> rb_scanned (fst (rebuild_ready b st)) = rb_scanned (fst st)"
  by (cases st) (auto simp: rebuild_ready_def Let_def split: sum.split)

lemma rebuild_writes_table:
  assumes "scans_table b src table" "sound_table src table" "ss_tenant_id src = bd_tenant_id b"
    and "1 \<le> bd_page_size b" "bd_page_size b \<le> 1000" "redis_cache_write (sc_features (bd_projection_config b))"
    and "index_enabled b \<Longrightarrow> bd_has_index_sink b \<and> po_reset (bd_ports b) [] (bd_tenant_id b) = Inr ()"
  shows "\<exists>c h. rebuild_run b = Some (Some c, h) \<and> written h = table_snapshots src table \<and>
    rb_scanned c = length (table_snapshots src table)"
proof -
  let ?T = "table_snapshots src table"
  have "pages_through b ?T"
    unfolding pages_through_def
    using assms(1) scan_pages [OF assms(2,4,5)] by (auto simp: scans_table_def bindE_def)
  then have loop: "\<exists>st'. rebuild_loop b None st = Some st' \<and> written (snd st') = written (snd st) @ ?T \<and>
      rb_scanned (fst st') = rb_scanned (fst st) + length ?T" for st
    using table_snapshots_facts [OF assms(2)] assms(3,4)
    by (intro rebuild_loop_pages [where pre = "[]" and T = ?T]) auto
  obtain c0 h0 where reset: "rebuild_reset b = Inr (c0, h0)" "written h0 = []" "rb_scanned c0 = 0"
    using assms(7) by (cases "index_enabled b") (auto simp: rebuild_reset_def rebuild_zero_def)
  from loop [of "(c0, h0)"] obtain st' where st': "rebuild_loop b None (c0, h0) = Some st'" "written (snd st') = ?T"
      "rb_scanned (fst st') = length ?T" using reset by auto
  obtain c h where r: "rebuild_ready b st' = (c, h)" by (rule prod.exhaust)
  then have "rebuild_run b = Some (Some c, h)" using assms(6) reset(1) st'(1) by (simp add: rebuild_run_def)
  moreover have "written h = ?T" "rb_scanned c = length ?T" using rebuild_ready_frame [of b st'] st' r by simp_all
  ultimately show ?thesis by blast
qed

end
