(* ===== verification/Shadow_Facts.thy ===== *)
theory Shadow_Facts
  imports Shadow Json_Roundtrip
begin

text \<open>
  Decimal texts compare as the numbers they stand for, keys of different runs differ, and
  writes through the script keep the newest version whatever the order of deliveries.
\<close>

section \<open>Decimal texts\<close>

abbreviation digits :: "string \<Rightarrow> bool" where
  "digits s \<equiv> list_all json_digit s"

definition canonical_version :: "string \<Rightarrow> bool" where
  "canonical_version s \<longleftrightarrow> ascii_decimal s \<and> \<not> leading_zero s"

lemma foldl_digits:
  "foldl (\<lambda>n c. n * 10 + (of_char c - 48)) m s = m * 10 ^ length s + (read_nat s :: nat)"
proof (induction s arbitrary: m)
  case (Cons c s)
  show ?case using Cons [of "m * 10 + (of_char c - 48)"] Cons [of "of_char c - 48"]
    by (simp add: read_nat_def algebra_simps)
qed (simp add: read_nat_def)

lemma read_nat_Nil [simp]: "read_nat [] = 0"
  by (simp add: read_nat_def)

lemma read_nat_Cons: "read_nat (c # s) = (of_char c - 48) * 10 ^ length s + read_nat s"
  using foldl_digits [of "of_char c - 48" s] by (simp add: read_nat_def)

lemma digit_value: "json_digit c \<Longrightarrow> 48 \<le> (of_char c :: nat) \<and> (of_char c :: nat) - 48 \<le> 9"
  by (auto simp: json_digit_def Let_def)

lemma read_nat_less: "digits s \<Longrightarrow> read_nat s < 10 ^ length s"
proof (induction s)
  case (Cons c s)
  have "(of_char c - 48) * 10 ^ length s \<le> 9 * (10 :: nat) ^ length s"
    using digit_value [of c] Cons.prems by (intro mult_right_mono) auto
  moreover have "read_nat s < 10 ^ length s" using Cons by simp
  ultimately have "(of_char c - 48) * 10 ^ length s + read_nat s < 10 * 10 ^ length s" by linarith
  then show ?case by (simp add: read_nat_Cons)
qed simp

lemma digits_step:
  fixes a b x y n :: nat
  assumes "x < n" "y < n"
  shows "a * n + x < b * n + y \<longleftrightarrow> a < b \<or> a = b \<and> x < y"
proof (rule linorder_cases [of a b])
  assume "a < b"
  then have "Suc a * n \<le> b * n" by (intro mult_right_mono) auto
  with \<open>a < b\<close> assms show ?thesis by auto
next
  assume "b < a"
  then have "Suc b * n \<le> a * n" by (intro mult_right_mono) auto
  with \<open>b < a\<close> assms show ?thesis by auto
qed simp

lemma lex_numeric: "digits s \<Longrightarrow> digits t \<Longrightarrow> length s = length t \<Longrightarrow> s < t \<longleftrightarrow> read_nat s < read_nat t"
proof (induction s arbitrary: t)
  case (Cons c s)
  then obtain d u where t: "t = d # u" by (cases t) auto
  have v: "48 \<le> (of_char c :: nat)" "48 \<le> (of_char d :: nat)"
    using digit_value [of c] digit_value [of d] Cons.prems t by auto
  have "of_char c - 48 = (of_char d - 48 :: nat) \<longleftrightarrow> c = d"
  proof
    assume "of_char c - 48 = (of_char d - 48 :: nat)"
    then have "of_char c = (of_char d :: nat)" using v by linarith
    then show "c = d" by simp
  qed simp
  moreover have "of_char c - 48 < (of_char d - 48 :: nat) \<longleftrightarrow> c < d" using v unfolding less_char_def by linarith
  moreover have "s < u \<longleftrightarrow> read_nat s < read_nat u" using Cons t by simp
  moreover have "read_nat s < 10 ^ length u" "read_nat u < 10 ^ length u"
    using read_nat_less [of s] read_nat_less [of u] Cons.prems t by auto
  ultimately show ?case
    using Cons.prems by (simp add: t read_nat_Cons digits_step)
qed simp

lemma canonical_lower: "canonical_version s \<Longrightarrow> 1 < length s \<Longrightarrow> 10 ^ (length s - 1) \<le> read_nat s"
proof (cases s)
  case (Cons c t)
  assume a: "canonical_version s" "1 < length s"
  then have "c \<noteq> CHR ''0''" "json_digit c" by (auto simp: canonical_version_def leading_zero_def ascii_decimal_def Cons)
  then have "1 \<le> (of_char c - 48 :: nat)"
    using of_char_eq_iff [of c "CHR ''0''", where ?'a = nat] by (auto simp: json_digit_def Let_def)
  then have "1 * 10 ^ length t \<le> (of_char c - 48 :: nat) * 10 ^ length t" by (rule mult_right_mono) simp
  then have "10 ^ length t \<le> read_nat s" unfolding Cons read_nat_Cons by linarith
  then show ?thesis by (simp add: Cons)
qed simp

lemma canonical_shorter:
  assumes "canonical_version s" "canonical_version t" "length s < length t"
  shows "read_nat s < read_nat t"
proof -
  have s: "s \<noteq> []" using assms(1) by (simp add: canonical_version_def ascii_decimal_def)
  then have "1 < length t" using assms(3) by (cases s) auto
  then have "10 ^ (length t - 1) \<le> read_nat t" by (rule canonical_lower [OF assms(2)])
  moreover have "read_nat s < 10 ^ length s"
    using assms(1) by (simp add: canonical_version_def ascii_decimal_def read_nat_less)
  moreover have "(10 :: nat) ^ length s \<le> 10 ^ (length t - 1)" using assms(3) by (intro power_increasing) auto
  ultimately show ?thesis by linarith
qed

lemma lua_compare_numeric:
  assumes "canonical_version s" "canonical_version t"
  shows "lua_compare_decimal s t = sgn (int (read_nat s) - int (read_nat t))"
proof -
  have "s < t \<longleftrightarrow> read_nat s < read_nat t" "t < s \<longleftrightarrow> read_nat t < read_nat s" if "length s = length t"
    using assms lex_numeric [of s t] lex_numeric [of t s] that by (auto simp: canonical_version_def ascii_decimal_def)
  then show ?thesis
    using canonical_shorter [OF assms] canonical_shorter [OF assms(2,1)]
    by (auto simp: lua_compare_decimal_def sgn_if)
qed

lemma lua_canonical: "lua_is_canonical_decimal (Some s) \<longleftrightarrow> canonical_version s"
  by (auto simp: lua_is_canonical_decimal_def canonical_version_def ascii_decimal_def leading_zero_def)

lemma compare_is_lua:
  assumes "canonical_version s" "canonical_version t"
  shows "compare_decimal_versions s t = Inr (lua_compare_decimal s t)"
  using assms
  by (auto simp: compare_decimal_versions_def canonical_decimal_def canonical_version_def bindE_def lua_compare_decimal_def)

lemma canonical_int_text: "0 \<le> i \<Longrightarrow> canonical_version (int_text i)"
  using nat_digits_digits [of "nat i"]
  by (auto simp: canonical_version_def ascii_decimal_def leading_zero_def int_text_def nat_digits.simps [of 0])

lemma read_int_text: "0 \<le> i \<Longrightarrow> int (read_nat (int_text i)) = i"
  using nat_digits_digits [of "nat i"] by (simp add: int_text_def)

section \<open>Keys\<close>

lemma b64_alphabet:
  "distinct (map b64_char [0..<64])"
  "list_all (\<lambda>n. b64_char n \<notin> set '':}'') [0..<64]"
  by code_simp+

lemma sextet_listed: "n < 64 \<Longrightarrow> n \<in> set [0..<64]"
  unfolding set_upt by simp

lemma b64_char_inj: "m < 64 \<Longrightarrow> n < 64 \<Longrightarrow> b64_char m = b64_char n \<longleftrightarrow> m = n"
  using b64_alphabet(1) unfolding distinct_map by (blast intro: sextet_listed dest: inj_onD)

lemma b64_char_plain:
  assumes "n < 64"
  shows "CHR '':'' \<noteq> b64_char n" "CHR ''}'' \<noteq> b64_char n"
proof -
  have "b64_char n \<notin> set '':}''"
    using b64_alphabet(2) [unfolded list_all_iff] sextet_listed [OF assms] by (rule bspec)
  then show "CHR '':'' \<noteq> b64_char n" "CHR ''}'' \<noteq> b64_char n" by auto
qed

definition bytes :: "nat list \<Rightarrow> bool" where
  "bytes xs \<longleftrightarrow> list_all (\<lambda>n. n < 256) xs"

lemma sextets:
  fixes a b c :: nat
  shows "a < 256 \<Longrightarrow> a div 4 < 64" "a mod 4 * 16 < 64" "b < 256 \<Longrightarrow> a mod 4 * 16 + b div 16 < 64" "b mod 16 * 4 < 64"
    "c < 256 \<Longrightarrow> b mod 16 * 4 + c div 64 < 64" "c mod 64 < 64"
  by auto

lemma base64url_plain:
  assumes "bytes xs"
  shows "CHR '':'' \<notin> set (base64url xs)" "CHR ''}'' \<notin> set (base64url xs)"
  using assms
  by (induction xs rule: base64url.induct) (simp_all only: base64url.simps list.set insert_iff empty_iff bytes_def
      list.pred_inject not_False_eq_True simp_thms b64_char_plain sextets)

lemma base64url_length: "length (base64url xs) = (4 * length xs + 2) div 3"
  by (induction xs rule: base64url.induct) auto

lemma pack_eq:
  fixes u u' x x' n :: nat
  assumes "u < n" "u' < n"
  shows "x * n + u = x' * n + u' \<longleftrightarrow> x = x' \<and> u = u'"
proof
  assume "x * n + u = x' * n + u'"
  then show "x = x' \<and> u = u'" using digits_step [OF assms, of x x'] digits_step [OF assms(2,1), of x' x] by auto
qed simp

lemma div_mod_eq: "a div n = b div n \<Longrightarrow> a mod n = b mod n \<Longrightarrow> a = (b :: nat)"
  by (metis div_mult_mod_eq)

lemma sextet_packs:
  fixes a b c :: nat
  shows "b < 256 \<Longrightarrow> b' < 256 \<Longrightarrow>
      a mod 4 * 16 + b div 16 = a' mod 4 * 16 + b' div 16 \<longleftrightarrow> a mod 4 = a' mod 4 \<and> b div 16 = b' div 16"
    "c < 256 \<Longrightarrow> c' < 256 \<Longrightarrow>
      b mod 16 * 4 + c div 64 = b' mod 16 * 4 + c' div 64 \<longleftrightarrow> b mod 16 = b' mod 16 \<and> c div 64 = c' div 64"
  by (rule pack_eq; simp)+

lemma length_code_inj: "(4 * m + 2) div 3 = (4 * n + 2) div (3 :: nat) \<Longrightarrow> m = n"
proof (induction m n rule: linorder_wlog)
  case (le m n)
  then show ?case by (cases "m = n") linarith+
qed simp

lemma base64url_inj:
  assumes "bytes xs" "bytes ys" "base64url xs = base64url ys"
  shows "xs = ys"
proof -
  have "(4 * length xs + 2) div 3 = (4 * length ys + 2) div 3"
    using arg_cong [OF assms(3), of length] by (simp add: base64url_length)
  then have "length xs = length ys" by (rule length_code_inj)
  then show ?thesis
    using assms
  proof (induction xs arbitrary: ys rule: base64url.induct)
    case (2 a)
    then obtain a' where "ys = [a']" by (cases ys) auto
    with 2 show ?case
      by (simp add: bytes_def b64_char_inj sextets sextet_packs) (blast intro: div_mod_eq)
  next
    case (3 a b)
    then obtain a' b' where "ys = [a', b']" by (cases ys; cases "tl ys") auto
    with 3 show ?case
      by (simp add: bytes_def b64_char_inj sextets sextet_packs) (blast intro: div_mod_eq)
  next
    case (4 a b c s)
    then obtain a' b' c' s' where "ys = a' # b' # c' # s'"
      by (cases ys; cases "tl ys"; cases "tl (tl ys)") auto
    with 4 show ?case
      by (simp add: bytes_def b64_char_inj sextets sextet_packs) (blast intro: div_mod_eq)
  qed simp
qed

lemma split_unique: "x \<notin> set a \<Longrightarrow> x \<notin> set b \<Longrightarrow> a @ x # s = b @ x # t \<longleftrightarrow> a = b \<and> s = t"
proof (induction a arbitrary: b)
  case Nil
  then show ?case by (cases b) auto
next
  case (Cons c a)
  then show ?case by (cases b) auto
qed

lemma environment_plain: "environment_ok e \<Longrightarrow> CHR '':'' \<notin> set e"
  by (auto simp: environment_ok_def environment_char_def list_all_iff split: list.splits)

lemma char_bytes: "bytes (map of_char s)"
  by (simp add: bytes_def list_all_iff)

lemma of_char_map_inj: "map of_char s = (map of_char t :: nat list) \<Longrightarrow> s = t"
  by (metis list.inj_map_strong of_char_eq_iff)

lemma base64url_identity_Inr:
  "base64url_identity v = Inr t \<longleftrightarrow> validate_identity 512 v = Inr () \<and> t = base64url (map of_char v)"
  by (auto simp: base64url_identity_def bindE_eq_Inr)

lemma projection_key_inj:
  assumes "projection_key e t r = Inr k" "projection_key e' t' r' = Inr k"
  shows "e = e' \<and> t = t' \<and> r = r'"
proof -
  let ?b = "\<lambda>s. base64url (map of_char s)"
  let ?tail = "\<lambda>t r. ''v'' @ int_text 1 @ '':{t:'' @ ?b t @ '':r:'' @ ?b r @ ''}:projection''"
  have eqs: "''fr:'' @ e @ CHR '':'' # ?tail t r = ''fr:'' @ e' @ CHR '':'' # ?tail t' r'"
    and env: "environment_ok e" "environment_ok e'"
    using assms
    by (auto simp: projection_key_def bindE_eq_Inr base64url_identity_Inr SHADOW_PROJECTION_SCHEMA_VERSION_def split: if_splits)
  from eqs have "e = e' \<and> ?tail t r = ?tail t' r'"
    using split_unique [OF environment_plain [OF env(1)] environment_plain [OF env(2)]] by simp
  then have e: "e = e'" and "?b t @ CHR '':'' # ''r:'' @ ?b r @ ''}:projection'' = ?b t' @ CHR '':'' # ''r:'' @ ?b r' @ ''}:projection''"
    by simp_all
  then have "?b t = ?b t'" "?b r @ CHR ''}'' # '':projection'' = ?b r' @ CHR ''}'' # '':projection''"
    using split_unique [OF base64url_plain(1) [OF char_bytes] base64url_plain(1) [OF char_bytes]] by simp_all
  then have "?b t = ?b t'" "?b r = ?b r'"
    using split_unique [OF base64url_plain(2) [OF char_bytes] base64url_plain(2) [OF char_bytes]] by simp_all
  then show ?thesis using e base64url_inj [OF char_bytes char_bytes] of_char_map_inj by blast
qed

section \<open>Writes through the script\<close>

definition valid_snapshot :: "snapshot \<Rightarrow> bool" where
  "valid_snapshot s \<longleftrightarrow> snapshot_new s = Inr s"

definition shadow_key :: "string \<Rightarrow> snapshot \<Rightarrow> string result" where
  "shadow_key environment s = projection_key environment (sn_tenant_id s) (sn_run_id s)"

text \<open>The hash that a snapshot is written as.\<close>

definition fields_of :: "env \<Rightarrow> snapshot \<Rightarrow> string \<rightharpoonup> string" where
  "fields_of env s = hset_pairs (drop 3 (cas_arguments env s 1)) Map.empty"

lemma fields_over: "hset_pairs (drop 3 (cas_arguments env s n)) (fields_of env s0) = fields_of env s"
  by (auto simp: fields_of_def cas_arguments_def canonical_mapping_def)

lemma fields_fresh: "hset_pairs (drop 3 (cas_arguments env s n)) Map.empty = fields_of env s"
  by (simp add: fields_of_def cas_arguments_def canonical_mapping_def)

lemma fields_version: "fields_of env s ''stream_version'' = Some (int_text (sn_stream_version s))"
  "fields_of env s ''canonical_sha256'' = Some (canonical_sha256 env s)"
  by (simp_all add: fields_of_def cas_arguments_def canonical_mapping_def)

lemma valid_version: "valid_snapshot s \<Longrightarrow> 0 \<le> sn_stream_version s"
  by (auto simp: valid_snapshot_def snapshot_new_def bindE_eq_Inr validate_version_def split: if_splits)

definition entry_holds :: "env \<Rightarrow> redis_entry \<Rightarrow> snapshot \<Rightarrow> bool" where
  "entry_holds env e s \<longleftrightarrow> valid_snapshot s \<and> re_fields e = fields_of env s"

text \<open>The script on an entry that an earlier snapshot of the run was written to.\<close>

definition cas_result :: "snapshot \<Rightarrow> snapshot option \<Rightarrow> env \<Rightarrow> projection_write_result" where
  "cas_result s old env = (case old of
       None \<Rightarrow> \<lparr>pw_status = WS_APPLIED, pw_incoming_version = sn_stream_version s, pw_stored_version = sn_stream_version s\<rparr>
     | Some s0 \<Rightarrow> \<lparr>pw_status =
           (if sn_stream_version s0 < sn_stream_version s then WS_APPLIED
            else if sn_stream_version s < sn_stream_version s0 then WS_STALE
            else if canonical_sha256 env s0 = canonical_sha256 env s then WS_DUPLICATE else WS_CONFLICT),
         pw_incoming_version = sn_stream_version s,
         pw_stored_version = max (sn_stream_version s0) (sn_stream_version s)\<rparr>)"

definition takes_over :: "snapshot \<Rightarrow> snapshot option \<Rightarrow> bool" where
  "takes_over s old \<longleftrightarrow> (case old of None \<Rightarrow> True | Some s0 \<Rightarrow> sn_stream_version s0 < sn_stream_version s)"

lemma sha256_text_ascii: "sha256_text t \<Longrightarrow> t \<noteq> []"
  by (auto simp: sha256_text_def)

lemma digits_ascii: "digits t \<Longrightarrow> is_ascii t"
  by (auto simp: is_ascii_def json_digit_def Let_def list_all_iff)

lemma status_ascii: "is_ascii (write_status_value st)" "write_status_of (write_status_value st) = Some st"
  by (cases st; simp add: is_ascii_def write_status_of_def)+

lemma parse_reply:
  assumes "0 \<le> incoming" "0 \<le> stored" "status_versions_ok st incoming stored"
  shows "parse_write_response (RSeq [RBytes (write_status_value st), RBytes (int_text stored)]) incoming =
    Inr \<lparr>pw_status = st, pw_incoming_version = incoming, pw_stored_version = stored\<rparr>"
proof -
  have "canonical_version (int_text stored)" using assms(2) by (rule canonical_int_text)
  then show ?thesis
    using assms digits_ascii [of "int_text stored"] status_ascii [of st] read_int_text [OF assms(2)]
    by (simp add: parse_write_response_def decode_response_text_def bindE_def canonical_version_def ascii_decimal_def
        projection_write_result_new_def validate_version_def)
qed

lemma cas_arguments_shape:
  "length (cas_arguments env s n) = 21" "cas_arguments env s n ! 0 = int_text (sn_stream_version s)"
  "cas_arguments env s n ! Suc 0 = canonical_sha256 env s" "cas_arguments env s n ! 2 = int_text n"
  by (simp_all add: cas_arguments_def canonical_mapping_def)

lemma cas_fresh:
  assumes "r k = None" "valid_snapshot s" "sha256_text (canonical_sha256 env s)"
  shows "projection_cas k (cas_arguments env s n) r =
    (LuaPair ''applied'' (int_text (sn_stream_version s)), r(k \<mapsto> \<lparr>re_fields = fields_of env s, re_ttl = int_text n\<rparr>))"
  using assms canonical_int_text [OF valid_version [OF assms(2)]]
  by (simp add: projection_cas_def Let_def lua_canonical cas_arguments_shape apply_projection_def fields_fresh)

lemma cas_over:
  assumes "r k = Some e" "entry_holds env e s0" "valid_snapshot s" "sha256_text (canonical_sha256 env s)"
  shows "projection_cas k (cas_arguments env s n) r =
    (LuaPair (write_status_value (pw_status (cas_result s (Some s0) env))) (int_text (pw_stored_version (cas_result s (Some s0) env))),
     if takes_over s (Some s0) then r(k \<mapsto> \<lparr>re_fields = fields_of env s, re_ttl = int_text n\<rparr>) else r)"
proof -
  have v: "0 \<le> sn_stream_version s" "0 \<le> sn_stream_version s0"
    using assms(2,3) by (simp_all add: valid_version entry_holds_def)
  have c: "canonical_version (int_text (sn_stream_version s))" "canonical_version (int_text (sn_stream_version s0))"
    using v by (simp_all add: canonical_int_text)
  have "lua_compare_decimal (int_text (sn_stream_version s)) (int_text (sn_stream_version s0)) =
      sgn (sn_stream_version s - sn_stream_version s0)"
    using lua_compare_numeric [OF c] v by (simp add: read_int_text)
  then show ?thesis
    using assms c
    by (auto simp: projection_cas_def Let_def lua_canonical cas_arguments_shape apply_projection_def entry_holds_def
        fields_version fields_over cas_result_def takes_over_def sgn_if max_def)
qed

lemma write_projection_redis:
  assumes "shadow_key environment s = Inr k" "valid_snapshot s" "sha256_text (canonical_sha256 env s)" "0 < ttl"
    and "case r k of None \<Rightarrow> old = None | Some e \<Rightarrow> \<exists>s0. old = Some s0 \<and> entry_holds env e s0"
  shows "write_projection env environment redis_eval s ttl r =
    (Inr (cas_result s old env),
     if takes_over s old then r(k \<mapsto> \<lparr>re_fields = fields_of env s, re_ttl = int_text ttl\<rparr>) else r)"
proof (cases "r k")
  case None
  have "status_versions_ok WS_APPLIED (sn_stream_version s) (sn_stream_version s)" by (simp add: status_versions_ok_def)
  from parse_reply [OF _ _ this] None assms show ?thesis
    by (simp add: write_projection_def shadow_key_def redis_eval_def cas_fresh valid_version cas_result_def takes_over_def)
next
  case (Some e)
  then obtain s0 where old: "old = Some s0" and e: "entry_holds env e s0" using assms(5) by auto
  let ?c = "cas_result s (Some s0) env"
  have "0 \<le> sn_stream_version s0" using e by (simp add: entry_holds_def valid_version)
  moreover have "status_versions_ok (pw_status ?c) (sn_stream_version s) (pw_stored_version ?c)"
    by (auto simp: status_versions_ok_def cas_result_def)
  ultimately have "parse_write_response (RSeq [RBytes (write_status_value (pw_status ?c)), RBytes (int_text (pw_stored_version ?c))])
      (sn_stream_version s) = Inr ?c"
    using parse_reply [of "sn_stream_version s" "pw_stored_version ?c" "pw_status ?c"] assms(2)
    by (simp add: valid_version cas_result_def)
  then show ?thesis
    using assms(1-4) old cas_over [where r = r and k = k and n = ttl, OF Some e assms(2,3)]
    by (simp add: write_projection_def shadow_key_def redis_eval_def)
qed

section \<open>Deliveries in any order\<close>

definition deliver :: "env \<Rightarrow> string \<Rightarrow> (snapshot \<times> int) list \<Rightarrow> redis \<Rightarrow> redis" where
  "deliver env environment ss r = foldl (\<lambda>r (s, ttl). snd (write_projection env environment redis_eval s ttl r)) r ss"

text \<open>Redis holds, for every run, the newest of the snapshots delivered so far, and nothing else.\<close>

definition newest_at :: "env \<Rightarrow> string \<Rightarrow> snapshot set \<Rightarrow> string \<Rightarrow> redis_entry option \<Rightarrow> bool" where
  "newest_at env environment S k stored \<longleftrightarrow> (case stored of
       None \<Rightarrow> \<forall>s\<in>S. shadow_key environment s \<noteq> Inr k
     | Some e \<Rightarrow> \<exists>s\<in>S. shadow_key environment s = Inr k \<and> entry_holds env e s \<and>
         (\<forall>s'\<in>S. shadow_key environment s' = Inr k \<longrightarrow> sn_stream_version s' \<le> sn_stream_version s))"

definition newest :: "env \<Rightarrow> string \<Rightarrow> snapshot set \<Rightarrow> redis \<Rightarrow> bool" where
  "newest env environment S r \<longleftrightarrow> (\<forall>k. newest_at env environment S k (r k))"

lemma newest_empty: "newest env environment {} Map.empty"
  by (simp add: newest_def newest_at_def)

lemma newest_at_other: "shadow_key environment s \<noteq> Inr k \<Longrightarrow> newest_at env environment S k eo \<Longrightarrow>
    newest_at env environment (insert s S) k eo"
  unfolding newest_at_def by (cases eo) auto

lemma newest_at_write:
  assumes "newest_at env environment S k (r k)" "shadow_key environment s = Inr k" "valid_snapshot s"
    and "sha256_text (canonical_sha256 env s)" "0 < ttl"
  shows "newest_at env environment (insert s S) k (snd (write_projection env environment redis_eval s ttl r) k)"
    and "k' \<noteq> k \<Longrightarrow> snd (write_projection env environment redis_eval s ttl r) k' = r k'"
proof -
  let ?e = "\<lparr>re_fields = fields_of env s, re_ttl = int_text ttl\<rparr>"
  have e: "entry_holds env ?e s" using assms(3) by (simp add: entry_holds_def)
  have "newest_at env environment (insert s S) k (snd (write_projection env environment redis_eval s ttl r) k) \<and>
    (k' \<noteq> k \<longrightarrow> snd (write_projection env environment redis_eval s ttl r) k' = r k')"
  proof (cases "r k")
    case None
    then have "write_projection env environment redis_eval s ttl r = (Inr (cas_result s None env), r(k \<mapsto> ?e))"
      using write_projection_redis [where r = r and old = None, OF assms(2-5)] by (simp add: takes_over_def)
    with None assms(1,2) e show ?thesis by (auto simp: newest_at_def)
  next
    case (Some e0)
    then obtain s0 where s0: "s0 \<in> S" "shadow_key environment s0 = Inr k" "entry_holds env e0 s0"
        "\<And>s'. s' \<in> S \<Longrightarrow> shadow_key environment s' = Inr k \<Longrightarrow> sn_stream_version s' \<le> sn_stream_version s0"
      using assms(1) by (auto simp: newest_at_def)
    have w: "write_projection env environment redis_eval s ttl r = (Inr (cas_result s (Some s0) env),
        if sn_stream_version s0 < sn_stream_version s then r(k \<mapsto> ?e) else r)"
      using write_projection_redis [where r = r and old = "Some s0", OF assms(2-5)] Some s0(3) by (simp add: takes_over_def)
    show ?thesis
    proof (cases "sn_stream_version s0 < sn_stream_version s")
      case True
      then show ?thesis using w e assms(2) s0(4) by (auto simp: newest_at_def) force
    next
      case False
      then show ?thesis using w Some s0 by (auto simp: newest_at_def)
    qed
  qed
  then show "newest_at env environment (insert s S) k (snd (write_projection env environment redis_eval s ttl r) k)"
    "k' \<noteq> k \<Longrightarrow> snd (write_projection env environment redis_eval s ttl r) k' = r k'" by blast+
qed

lemma newest_write:
  assumes "newest env environment S r" "shadow_key environment s = Inr k" "valid_snapshot s"
    and "sha256_text (canonical_sha256 env s)" "0 < ttl"
  shows "newest env environment (insert s S) (snd (write_projection env environment redis_eval s ttl r))"
  unfolding newest_def
proof
  fix k'
  have k: "newest_at env environment S k (r k)" "newest_at env environment S k' (r k')"
    using assms(1) by (simp_all add: newest_def)
  show "newest_at env environment (insert s S) k' (snd (write_projection env environment redis_eval s ttl r) k')"
    using newest_at_write [where r = r, OF k(1) assms(2-5)] newest_at_other [OF _ k(2), of s] assms(2) by (cases "k' = k") auto
qed

lemma newest_deliver:
  assumes "newest env environment S r"
    and "\<And>s ttl. (s, ttl) \<in> set ss \<Longrightarrow> valid_snapshot s \<and> sha256_text (canonical_sha256 env s) \<and> 0 < ttl \<and>
      (\<exists>k. shadow_key environment s = Inr k)"
  shows "newest env environment (S \<union> fst ` set ss) (deliver env environment ss r)"
  using assms
proof (induction ss arbitrary: S r)
  case (Cons x ss)
  obtain s ttl where x: "x = (s, ttl)" by fastforce
  obtain k where k: "valid_snapshot s" "sha256_text (canonical_sha256 env s)" "0 < ttl" "shadow_key environment s = Inr k"
    using Cons.prems(2) [of s ttl] x by auto
  have "newest env environment (insert s S) (snd (write_projection env environment redis_eval s ttl r))"
    using Cons.prems(1) k(4,1-3) by (rule newest_write)
  then have "newest env environment (insert s S \<union> fst ` set ss)
      (deliver env environment ss (snd (write_projection env environment redis_eval s ttl r)))"
    by (rule Cons.IH) (rule Cons.prems(2), simp)
  then show ?case by (simp add: deliver_def x)
qed (simp add: deliver_def)

lemma newest_fields:
  assumes "newest env environment S r" "s \<in> S" "shadow_key environment s = Inr k"
    and "\<And>s'. s' \<in> S \<Longrightarrow> sn_tenant_id s' = sn_tenant_id s \<Longrightarrow> sn_run_id s' = sn_run_id s \<Longrightarrow> s' \<noteq> s \<Longrightarrow>
      sn_stream_version s' < sn_stream_version s"
  shows "map_option re_fields (r k) = Some (fields_of env s)"
proof -
  obtain e s0 where e: "r k = Some e" and s0: "s0 \<in> S" "shadow_key environment s0 = Inr k" "entry_holds env e s0"
      "sn_stream_version s \<le> sn_stream_version s0"
    using assms(1) [unfolded newest_def, rule_format, of k] assms(2,3) unfolding newest_at_def by (cases "r k") auto
  have "sn_tenant_id s0 = sn_tenant_id s" "sn_run_id s0 = sn_run_id s"
    using s0(2) assms(3) by (auto simp: shadow_key_def dest: projection_key_inj)
  with assms(4) s0 have "s0 = s" by fastforce
  with e s0(3) show ?thesis by (simp add: entry_holds_def)
qed

end
