(* ===== verification/Shadow_Rebuild.thy ===== *)
theory Shadow_Rebuild
  imports Shadow_Source Shadow_Facts
begin

text \<open>
  A rebuild from the SQL table into Redis, end to end: the pages read, the writes made, and the
  hashes that the script of the sink leaves.
\<close>

section \<open>The writes of a rebuild\<close>

definition writes :: "history \<Rightarrow> (snapshot \<times> int) list" where
  "writes h = concat (map (\<lambda>e. case e of EvWrite s ttl r \<Rightarrow> [(s, ttl)] | _ \<Rightarrow> []) h)"

lemma writes_append [simp]: "writes (h @ h') = writes h @ writes h'"
  by (simp add: writes_def)

lemma writes_events [simp]:
  "writes [] = []" "writes [EvWrite s ttl r] = [(s, ttl)]" "writes [EvIndex s ttl r] = []" "writes [EvScan a n x] = []"
  "writes [EvReset t u] = []" "writes [EvReady t u] = []"
  by (simp_all add: writes_def)

lemma writes_written: "map fst (writes h) = written h"
proof -
  have "map fst (case e of EvWrite s ttl r \<Rightarrow> [(s, ttl)] | _ \<Rightarrow> []) = (case e of EvWrite s ttl r \<Rightarrow> [s] | _ \<Rightarrow> [])" for e
    by (simp split: port_event.split)
  then show ?thesis by (simp add: writes_def written_def map_concat comp_def)
qed

text \<open>Every write has the retention that is configured for its snapshot.\<close>

definition retained :: "rebuilder \<Rightarrow> history \<Rightarrow> bool" where
  "retained b h \<longleftrightarrow> (\<forall>(s, ttl)\<in>set (writes h). ttl = for_snapshot (sc_ttl (bd_projection_config b)) s)"

lemma retained_append [simp]: "retained b (h @ h') \<longleftrightarrow> retained b h \<and> retained b h'"
  by (auto simp: retained_def)

lemma retained_events [simp]:
  "retained b []" "retained b [EvWrite s (for_snapshot (sc_ttl (bd_projection_config b)) s) r]" "retained b [EvIndex s n r]"
  "retained b [EvScan a m x]" "retained b [EvReset t u]" "retained b [EvReady t u]"
  by (simp_all add: retained_def)

lemma retained_row: "retained b (snd (rebuild_row b s st)) \<longleftrightarrow> retained b (snd st)"
proof -
  have "retained b (snd (rebuild_index_row b s st)) \<longleftrightarrow> retained b (snd st)" for st
    by (cases st) (auto simp: rebuild_index_row_def Let_def split: sum.split)
  then show ?thesis by (auto simp: rebuild_row_def Let_def split: sum.split)
qed

lemma retained_rows: "retained b (snd (foldl (\<lambda>st s. rebuild_row b (the s) st) st ss)) \<longleftrightarrow> retained b (snd st)"
  by (induction ss arbitrary: st) (simp_all add: retained_row)

lemma retained_page: "retained b (snd (snd (rebuild_page b after st))) \<longleftrightarrow> retained b (snd st)"
  by (cases st) (auto simp: rebuild_page_def Let_def retained_rows split: sum.split)

lemma retained_loop: "rebuild_loop b after st = Some st' \<Longrightarrow> retained b (snd st) \<Longrightarrow> retained b (snd st')"
proof (induction rule: rebuild_loop.raw_induct [rotated, consumes 1])
  case (1 rebuild_loop b after st st')
  from \<open>(case rebuild_page b after st of (None, st') \<Rightarrow> Some st' | (Some next_after, st') \<Rightarrow> rebuild_loop b (Some next_after) st') = Some st'\<close>
    retained_page [of b after st] 1 show ?case
    by (auto split: prod.splits option.splits)
qed

lemma retained_run:
  assumes "rebuild_run b = Some (c, h)"
  shows "retained b h"
proof -
  have reset: "retained b (snd st)" if "rebuild_reset b = Inl st \<or> rebuild_reset b = Inr st" for st
    using that by (auto simp: rebuild_reset_def Let_def split: sum.splits if_splits)
  have ready: "retained b (snd (rebuild_ready b st)) \<longleftrightarrow> retained b (snd st)" for st
    by (cases st) (auto simp: rebuild_ready_def Let_def split: sum.split)
  show ?thesis
  proof (cases "redis_cache_write (sc_features (bd_projection_config b))")
    case True
    show ?thesis
    proof (cases "rebuild_reset b")
      case (Inl st)
      with True assms reset [of st] show ?thesis by (cases st) (auto simp: rebuild_run_def)
    next
      case (Inr st)
      with True assms obtain st' where "rebuild_loop b None st = Some st'" "map_prod Some id (rebuild_ready b st') = (c, h)"
        by (auto simp: rebuild_run_def)
      moreover from this(2) have "h = snd (rebuild_ready b st')" by (cases "rebuild_ready b st'") simp
      ultimately show ?thesis using ready [of st'] retained_loop [of b None st st'] reset [of st] Inr by simp
    qed
  qed (use assms in \<open>simp add: rebuild_run_def\<close>)
qed

section \<open>Redis after a rebuild\<close>

lemma table_snapshot_valid:
  assumes "sound_table src table" "s \<in> set (table_snapshots src table)"
  shows "valid_snapshot s"
proof -
  obtain row where "row \<in> set (tenant_runs src table)" "snapshot_from_row src row = Inr s"
    using assms tenant_runs_sound by (auto simp: table_snapshots_def)
  then show ?thesis
    by (auto simp: snapshot_from_row_def valid_snapshot_def snapshot_new_def bindE_eq_Inr split: sum.splits if_splits)
qed

lemma shadow_key_defined:
  assumes "valid_snapshot s" "environment_ok environment"
  obtains k where "shadow_key environment s = Inr k"
proof -
  have "validate_identity 512 (sn_tenant_id s) = Inr ()" "validate_identity 512 (sn_run_id s) = Inr ()"
    using assms(1) by (auto simp: valid_snapshot_def snapshot_new_def bindE_eq_Inr)
  with assms(2) that show thesis by (simp add: shadow_key_def projection_key_def base64url_identity_def bindE_def)
qed

lemma table_snapshots_unique:
  assumes "sound_table src table" "s \<in> set (table_snapshots src table)" "s' \<in> set (table_snapshots src table)"
    and "sn_run_id s' = sn_run_id s"
  shows "s' = s"
proof -
  have "mset (map pr_run_id (tenant_runs src table)) =
      mset (map pr_run_id (filter (\<lambda>row. pr_tenant_id row = ss_tenant_id src) table))"
    by (simp add: tenant_runs_def)
  from mset_eq_imp_distinct_iff [OF this] have "distinct (map pr_run_id (tenant_runs src table))"
    using assms(1) by (simp add: sound_table_def)
  then have "distinct (map sn_run_id (table_snapshots src table))" by (simp add: table_snapshots_facts(3) [OF assms(1)])
  with assms(2-4) show ?thesis by (metis distinct_map inj_onD)
qed

lemma rebuild_fills_redis:
  assumes "scans_table b src table" "sound_table src table" "ss_tenant_id src = bd_tenant_id b"
    and "1 \<le> bd_page_size b" "bd_page_size b \<le> 1000" "redis_cache_write (sc_features (bd_projection_config b))"
    and "index_enabled b \<Longrightarrow> bd_has_index_sink b \<and> po_reset (bd_ports b) [] (bd_tenant_id b) = Inr ()"
    and "ttl_config_new (sc_ttl (bd_projection_config b)) = Inr tc" "environment_ok environment"
    and "\<And>s. s \<in> set (table_snapshots src table) \<Longrightarrow> sha256_text (canonical_sha256 env s)"
  obtains c h where "rebuild_run b = Some (Some c, h)" "rb_scanned c = length (table_snapshots src table)"
    "\<And>s. s \<in> set (table_snapshots src table) \<Longrightarrow>
       \<exists>k. shadow_key environment s = Inr k \<and> map_option re_fields (deliver env environment (writes h) Map.empty k) = Some (fields_of env s)"
proof -
  let ?T = "table_snapshots src table"
  obtain c h where run: "rebuild_run b = Some (Some c, h)" "written h = ?T" "rb_scanned c = length ?T"
    using rebuild_writes_table [OF assms(1-7)] by blast
  have ttl: "0 < for_snapshot (sc_ttl (bd_projection_config b)) s" for s
    using assms(8) by (auto simp: ttl_config_new_def for_snapshot_def bindE_eq_Inr positive_seconds_def split: if_splits)
  have "newest env environment ({} \<union> fst ` set (writes h)) (deliver env environment (writes h) Map.empty)"
  proof (rule newest_deliver [OF newest_empty])
    fix s t assume "(s, t) \<in> set (writes h)"
    then have s: "s \<in> set ?T" "t = for_snapshot (sc_ttl (bd_projection_config b)) s"
      using retained_run [OF run(1)] image_eqI [of s fst "(s, t)" "set (writes h)"] run(2) writes_written [of h]
      by (auto simp: retained_def simp flip: list.set_map)
    have "valid_snapshot s" using assms(2) s(1) by (rule table_snapshot_valid)
    then show "valid_snapshot s \<and> sha256_text (canonical_sha256 env s) \<and> 0 < t \<and> (\<exists>k. shadow_key environment s = Inr k)"
      using s(2) ttl assms(10) [OF s(1)] shadow_key_defined [OF _ assms(9), of s] by metis
  qed
  moreover have "fst ` set (writes h) = set ?T" using writes_written [of h] run(2) by (metis list.set_map)
  ultimately have new: "newest env environment (set ?T) (deliver env environment (writes h) Map.empty)" by simp
  show thesis
  proof (rule that [OF run(1,3)])
    fix s assume s: "s \<in> set ?T"
    obtain k where k: "shadow_key environment s = Inr k"
      using table_snapshot_valid [OF assms(2) s] assms(9) by (rule shadow_key_defined)
    have "map_option re_fields (deliver env environment (writes h) Map.empty k) = Some (fields_of env s)"
      by (rule newest_fields [OF new s k]) (use table_snapshots_unique [OF assms(2) s] in blast)
    with k show "\<exists>k. shadow_key environment s = Inr k \<and>
        map_option re_fields (deliver env environment (writes h) Map.empty k) = Some (fields_of env s)" by blast
  qed
qed

end
