(* ===== verification/Delivery.thy ===== *)
theory Delivery
  imports Shadow
begin

text \<open>
  The durable queue of commands, the transactional outbox, worker leases and worker presence of
  the control plane (\<^verbatim>\<open>control_plane/postgres.py\<close>), over the tables \<^verbatim>\<open>run_commands\<close>, \<^verbatim>\<open>run_outbox\<close>,
  \<^verbatim>\<open>runs\<close> (its lease columns) and \<^verbatim>\<open>worker_registry\<close> of \<^verbatim>\<open>persistence/postgres_schema.py\<close>. Each
  method is one transaction; concurrent ones skip each other's locked rows, so that a
  transaction acts on the rows it selects as if alone. Rows an update returns are in table order.
\<close>

section \<open>Tables\<close>

datatype command_status = CQ_QUEUED | CQ_CLAIMED | CQ_DONE | CQ_FAILED | CQ_CANCELLED

record command_row =
  cq_tenant_id :: string
  cq_worker_pool :: string
  cq_command_id :: string
  cq_run_id :: string
  cq_command_type :: string
  cq_idempotency_key :: "string option"
  cq_expected_stream_version :: int
  cq_payload :: json
  cq_available_at :: instant
  cq_status :: command_status
  cq_claimed_by :: "string option"
  cq_claimed_at :: "instant option"
  cq_claim_expires_at :: "instant option"
  cq_attempt_count :: int
  cq_last_error :: "json option"
  cq_completed_at :: "instant option"
  cq_updated_at :: instant

record outbox_row =
  x_tenant_id :: string
  x_outbox_id :: string
  x_run_id :: string
  x_destination :: string
  x_dedupe_key :: "string option"
  x_stream_version :: int
  x_source_event_id :: "string option"
  x_payload :: json
  x_created_at :: instant
  x_published_at :: "instant option"
  x_claimed_by :: "string option"
  x_claimed_at :: "instant option"
  x_claim_expires_at :: "instant option"
  x_publish_attempts :: int
  x_last_error :: "json option"

record worker_lease_row =
  wl_tenant_id :: string
  wl_run_id :: string
  wl_stream_version :: int
  wl_lease_owner :: "string option"
  wl_lease_epoch :: int
  wl_lease_expires_at :: "instant option"

record worker_row =
  wk_tenant_id :: string
  wk_worker_id :: string
  wk_capabilities :: json
  wk_last_heartbeat_at :: instant
  wk_draining :: bool

record delivery =
  dl_commands :: "command_row list"
  dl_outbox :: "outbox_row list"
  dl_leases :: "worker_lease_row list"
  dl_workers :: "worker_row list"

section \<open>Statements\<close>

text \<open>\<^verbatim>\<open>UPDATE ... WHERE ... RETURNING\<close>\<close>

definition update_where :: "('r \<Rightarrow> bool) \<Rightarrow> ('r \<Rightarrow> 'r) \<Rightarrow> 'r list \<Rightarrow> 'r list" where
  "update_where P f rows = map (\<lambda>r. if P r then f r else r) rows"

definition returning :: "('r \<Rightarrow> bool) \<Rightarrow> ('r \<Rightarrow> 'r) \<Rightarrow> 'r list \<Rightarrow> 'r list" where
  "returning P f rows = map f (filter P rows)"

text \<open>\<^verbatim>\<open>SELECT key ... WHERE ... ORDER BY ... LIMIT\<close>\<close>

definition select_keys :: "('r \<Rightarrow> 'k) \<Rightarrow> ('r \<Rightarrow> bool) \<Rightarrow> ('r \<Rightarrow> 'o::linorder) \<Rightarrow> int \<Rightarrow> 'r list \<Rightarrow> 'k list" where
  "select_keys key P order limit rows = map key (take (nat limit) (sort_key order (filter P rows)))"

definition seconds :: "int \<Rightarrow> int" where
  "seconds n = n * 1000000"

text \<open>\<^verbatim>\<open>claim_expires_at IS NULL OR claim_expires_at <= clock_timestamp()\<close>\<close>

definition lapsed :: "instant \<Rightarrow> instant option \<Rightarrow> bool" where
  "lapsed now expires \<longleftrightarrow> (case expires of None \<Rightarrow> True | Some e \<Rightarrow> e \<le> now)"

definition live :: "instant \<Rightarrow> instant option \<Rightarrow> bool" where
  "live now expires \<longleftrightarrow> (case expires of None \<Rightarrow> False | Some e \<Rightarrow> now < e)"

definition visibility_timeout_error :: json where
  "visibility_timeout_error = JObj [(''reason'', JStr ''visibility_timeout'')]"

definition refuse :: "bool \<Rightarrow> unit result" where
  "refuse b = (if b then Inl ValueError else Inr ())"

definition check_tenant :: "string \<Rightarrow> unit result" where
  "check_tenant tenant_id = refuse (tenant_id = [] \<or> str_length tenant_id > 128)"

definition validate_limit :: "int \<Rightarrow> unit result" where
  "validate_limit limit = refuse (limit < 1 \<or> limit > 100)"

definition validate_visibility_timeout :: "int \<Rightarrow> unit result" where
  "validate_visibility_timeout n = refuse (\<not> (5 \<le> n \<and> n \<le> 3600))"

definition validate_retry_delay :: "int \<Rightarrow> unit result" where
  "validate_retry_delay n = refuse (\<not> (0 \<le> n \<and> n \<le> 86400))"

definition validate_lease_ttl :: "int \<Rightarrow> unit result" where
  "validate_lease_ttl n = refuse (\<not> (5 \<le> n \<and> n \<le> 300))"

definition validate_worker_id :: "string \<Rightarrow> unit result" where
  "validate_worker_id worker_id = refuse (worker_id = [] \<or> str_length worker_id > 128)"

definition validate_worker_pool :: "string \<Rightarrow> unit result" where
  "validate_worker_pool pool = refuse (blank pool \<or> str_length pool > 64)"

text \<open>A method: its checks, then one transaction on the tables.\<close>

definition checked :: "unit result \<Rightarrow> (delivery \<Rightarrow> 'a result \<times> delivery) \<Rightarrow> delivery \<Rightarrow> 'a result \<times> delivery" where
  "checked c m d = (case c of Inl e \<Rightarrow> (Inl e, d) | Inr _ \<Rightarrow> m d)"

section \<open>Commands\<close>

definition command_key :: "command_row \<Rightarrow> string \<times> string" where
  "command_key r = (cq_tenant_id r, cq_command_id r)"

definition command_ready :: "string \<Rightarrow> string \<Rightarrow> instant \<Rightarrow> command_row \<Rightarrow> bool" where
  "command_ready tenant_id worker_pool now r \<longleftrightarrow> cq_tenant_id r = tenant_id \<and> cq_worker_pool r = worker_pool \<and>
     (cq_status r = CQ_QUEUED \<or> cq_status r = CQ_CLAIMED \<and> lapsed now (cq_claim_expires_at r)) \<and> cq_available_at r \<le> now"

definition claim_row :: "string \<Rightarrow> int \<Rightarrow> instant \<Rightarrow> command_row \<Rightarrow> command_row" where
  "claim_row worker_id timeout now r = r\<lparr>cq_status := CQ_CLAIMED, cq_claimed_by := Some worker_id, cq_claimed_at := Some now,
     cq_claim_expires_at := Some (now + seconds timeout),
     cq_last_error := (if cq_status r = CQ_CLAIMED then Some visibility_timeout_error else cq_last_error r),
     cq_attempt_count := cq_attempt_count r + 1, cq_updated_at := now\<rparr>"

definition claim_commands ::
  "string \<Rightarrow> string \<Rightarrow> int \<Rightarrow> string \<Rightarrow> int \<Rightarrow> instant \<Rightarrow> delivery \<Rightarrow> command_row list result \<times> delivery" where
  "claim_commands tenant_id worker_id limit worker_pool timeout now =
     checked (bindE (validate_limit limit) (\<lambda>_. bindE (validate_worker_pool worker_pool) (\<lambda>_.
       bindE (validate_visibility_timeout timeout) (\<lambda>_. check_tenant tenant_id)))) (\<lambda>d.
       let keys = select_keys command_key (command_ready tenant_id worker_pool now) cq_available_at limit (dl_commands d);
           P = (\<lambda>r. command_key r \<in> set keys); f = claim_row worker_id timeout now in
       (Inr (returning P f (dl_commands d)), d\<lparr>dl_commands := update_where P f (dl_commands d)\<rparr>))"

text \<open>The claim of a worker that has not run out.\<close>

definition owns_claim :: "string \<Rightarrow> string \<Rightarrow> instant \<Rightarrow> command_row \<Rightarrow> bool" where
  "owns_claim tenant_id worker_id now r \<longleftrightarrow> cq_tenant_id r = tenant_id \<and> cq_status r = CQ_CLAIMED \<and>
     cq_claimed_by r = Some worker_id \<and> live now (cq_claim_expires_at r)"

definition renew_command_claim ::
  "string \<Rightarrow> string \<Rightarrow> string \<Rightarrow> int \<Rightarrow> instant \<Rightarrow> delivery \<Rightarrow> command_row result \<times> delivery" where
  "renew_command_claim tenant_id command_id worker_id timeout now =
     checked (bindE (validate_visibility_timeout timeout) (\<lambda>_. check_tenant tenant_id)) (\<lambda>d.
       let P = (\<lambda>r. owns_claim tenant_id worker_id now r \<and> cq_command_id r = command_id);
           f = (\<lambda>r. r\<lparr>cq_claim_expires_at := Some (now + seconds timeout), cq_updated_at := now\<rparr>) in
       case returning P f (dl_commands d) of
         [] \<Rightarrow> (Inl RunVersionConflictError, d)
       | r # _ \<Rightarrow> (Inr r, d\<lparr>dl_commands := update_where P f (dl_commands d)\<rparr>))"

definition release_row :: "instant \<Rightarrow> command_row \<Rightarrow> command_row" where
  "release_row now r = r\<lparr>cq_claimed_by := None, cq_claimed_at := None, cq_claim_expires_at := None, cq_updated_at := now\<rparr>"

definition reclaim_commands :: "string \<Rightarrow> int \<Rightarrow> instant \<Rightarrow> delivery \<Rightarrow> int result \<times> delivery" where
  "reclaim_commands tenant_id limit now =
     checked (bindE (validate_limit limit) (\<lambda>_. check_tenant tenant_id)) (\<lambda>d.
       let keys = select_keys command_key (\<lambda>r. cq_tenant_id r = tenant_id \<and> cq_status r = CQ_CLAIMED \<and>
             lapsed now (cq_claim_expires_at r)) (\<lambda>r. case cq_claim_expires_at r of None \<Rightarrow> (0, 0) | Some e \<Rightarrow> (1 :: int, e))
             limit (dl_commands d);
           P = (\<lambda>r. command_key r \<in> set keys);
           f = (\<lambda>r. (release_row now r)\<lparr>cq_status := CQ_QUEUED, cq_last_error := Some visibility_timeout_error\<rparr>) in
       (Inr (int (length (returning P f (dl_commands d)))), d\<lparr>dl_commands := update_where P f (dl_commands d)\<rparr>))"

definition finish_row :: "command_status \<Rightarrow> instant \<Rightarrow> command_row \<Rightarrow> command_row" where
  "finish_row status now r = (release_row now r)\<lparr>cq_status := status, cq_completed_at := Some now\<rparr>"

definition acknowledge_command :: "string \<Rightarrow> string \<Rightarrow> string \<Rightarrow> instant \<Rightarrow> delivery \<Rightarrow> bool result \<times> delivery" where
  "acknowledge_command tenant_id command_id worker_id now =
     checked (check_tenant tenant_id) (\<lambda>d.
       let P = (\<lambda>r. owns_claim tenant_id worker_id now r \<and> cq_command_id r = command_id); f = finish_row CQ_DONE now in
       (Inr (returning P f (dl_commands d) \<noteq> []), d\<lparr>dl_commands := update_where P f (dl_commands d)\<rparr>))"

definition acknowledge_commands_batch ::
  "string \<Rightarrow> string list \<Rightarrow> string \<Rightarrow> instant \<Rightarrow> delivery \<Rightarrow> string list result \<times> delivery" where
  "acknowledge_commands_batch tenant_id command_ids worker_id now =
     (if command_ids = [] then (\<lambda>d. (Inr [], d))
      else
        checked (bindE (refuse (length command_ids > 100)) (\<lambda>_. bindE (refuse (list_ex blank command_ids)) (\<lambda>_.
          bindE (refuse (\<not> distinct command_ids)) (\<lambda>_. bindE (validate_worker_id worker_id) (\<lambda>_. check_tenant tenant_id)))))
          (\<lambda>d.
          let P = (\<lambda>r. owns_claim tenant_id worker_id now r \<and> cq_command_id r \<in> set command_ids); f = finish_row CQ_DONE now;
              acknowledged = map cq_command_id (returning P f (dl_commands d)) in
          (Inr (filter (\<lambda>v. v \<in> set acknowledged) command_ids), d\<lparr>dl_commands := update_where P f (dl_commands d)\<rparr>)))"

definition fail_command ::
  "string \<Rightarrow> string \<Rightarrow> string \<Rightarrow> json \<Rightarrow> bool \<Rightarrow> int \<Rightarrow> instant \<Rightarrow> delivery \<Rightarrow> bool result \<times> delivery" where
  "fail_command tenant_id command_id worker_id err retryable delay now =
     checked (bindE (validate_retry_delay delay) (\<lambda>_. bindE (refuse (\<not> retryable \<and> delay \<noteq> 0)) (\<lambda>_. check_tenant tenant_id)))
       (\<lambda>d.
       let P = (\<lambda>r. owns_claim tenant_id worker_id now r \<and> cq_command_id r = command_id);
           f = (\<lambda>r. if retryable
                then (release_row now r)\<lparr>cq_status := CQ_QUEUED, cq_available_at := now + seconds delay, cq_last_error := Some err,
                       cq_completed_at := None\<rparr>
                else (finish_row CQ_FAILED now r)\<lparr>cq_last_error := Some err\<rparr>) in
       (Inr (returning P f (dl_commands d) \<noteq> []), d\<lparr>dl_commands := update_where P f (dl_commands d)\<rparr>))"

section \<open>Outbox\<close>

definition outbox_key :: "outbox_row \<Rightarrow> string \<times> string" where
  "outbox_key r = (x_tenant_id r, x_outbox_id r)"

definition outbox_pending :: "string \<Rightarrow> string option \<Rightarrow> instant \<Rightarrow> outbox_row \<Rightarrow> bool" where
  "outbox_pending tenant_id destination now r \<longleftrightarrow> x_tenant_id r = tenant_id \<and>
     (case destination of None \<Rightarrow> True | Some t \<Rightarrow> x_destination r = t) \<and> x_published_at r = None \<and>
     (x_claimed_by r = None \<or> lapsed now (x_claim_expires_at r))"

definition pending_outbox :: "string \<Rightarrow> int \<Rightarrow> instant \<Rightarrow> delivery \<Rightarrow> outbox_row list result" where
  "pending_outbox tenant_id limit now d =
     bindE (validate_limit limit) (\<lambda>_. bindE (check_tenant tenant_id) (\<lambda>_.
     Inr (take (nat limit) (sort_key (\<lambda>r. (x_created_at r, x_outbox_id r))
       (filter (outbox_pending tenant_id None now) (dl_outbox d))))))"

definition claim_outbox ::
  "string \<Rightarrow> string \<Rightarrow> int \<Rightarrow> int \<Rightarrow> string option \<Rightarrow> instant \<Rightarrow> delivery \<Rightarrow> outbox_row list result \<times> delivery" where
  "claim_outbox tenant_id publisher_id limit timeout destination now =
     checked (bindE (validate_limit limit) (\<lambda>_. bindE (validate_visibility_timeout timeout) (\<lambda>_.
       bindE (refuse (case destination of None \<Rightarrow> False | Some t \<Rightarrow> blank t)) (\<lambda>_. check_tenant tenant_id)))) (\<lambda>d.
       let keys = select_keys outbox_key (outbox_pending tenant_id destination now) x_created_at limit (dl_outbox d);
           P = (\<lambda>r. outbox_key r \<in> set keys);
           f = (\<lambda>r. r\<lparr>x_claimed_by := Some publisher_id, x_claimed_at := Some now,
                  x_claim_expires_at := Some (now + seconds timeout),
                  x_last_error := (if x_claimed_by r \<noteq> None then Some visibility_timeout_error else x_last_error r),
                  x_publish_attempts := x_publish_attempts r + 1\<rparr>) in
       (Inr (returning P f (dl_outbox d)), d\<lparr>dl_outbox := update_where P f (dl_outbox d)\<rparr>))"

definition reclaim_outbox :: "string \<Rightarrow> int \<Rightarrow> instant \<Rightarrow> delivery \<Rightarrow> int result \<times> delivery" where
  "reclaim_outbox tenant_id limit now =
     checked (bindE (validate_limit limit) (\<lambda>_. check_tenant tenant_id)) (\<lambda>d.
       let keys = select_keys outbox_key (\<lambda>r. x_tenant_id r = tenant_id \<and> x_published_at r = None \<and> x_claimed_by r \<noteq> None \<and>
             lapsed now (x_claim_expires_at r)) (\<lambda>r. case x_claim_expires_at r of None \<Rightarrow> (0, 0) | Some e \<Rightarrow> (1 :: int, e))
             limit (dl_outbox d);
           P = (\<lambda>r. outbox_key r \<in> set keys);
           f = (\<lambda>r. r\<lparr>x_claimed_by := None, x_claimed_at := None, x_claim_expires_at := None,
                  x_last_error := Some visibility_timeout_error\<rparr>) in
       (Inr (int (length (returning P f (dl_outbox d)))), d\<lparr>dl_outbox := update_where P f (dl_outbox d)\<rparr>))"

definition publish_row :: "instant \<Rightarrow> outbox_row \<Rightarrow> outbox_row" where
  "publish_row now r = r\<lparr>x_published_at := Some now, x_claimed_by := None, x_claimed_at := None, x_claim_expires_at := None\<rparr>"

definition mark_outbox_published :: "string \<Rightarrow> string \<Rightarrow> string option \<Rightarrow> instant \<Rightarrow> delivery \<Rightarrow> bool result \<times> delivery" where
  "mark_outbox_published tenant_id outbox_id publisher_id now =
     checked (check_tenant tenant_id) (\<lambda>d.
       let P = (\<lambda>r. outbox_key r = (tenant_id, outbox_id) \<and> x_published_at r = None \<and> x_claimed_by r = publisher_id) in
       (Inr (returning P (publish_row now) (dl_outbox d) \<noteq> []),
        d\<lparr>dl_outbox := update_where P (publish_row now) (dl_outbox d)\<rparr>))"

definition validate_outbox_ack_batch :: "string list \<Rightarrow> string \<Rightarrow> unit result" where
  "validate_outbox_ack_batch outbox_ids publisher_id =
     bindE (refuse (length outbox_ids > 100)) (\<lambda>_. bindE (refuse (list_ex blank outbox_ids)) (\<lambda>_.
     bindE (refuse (\<not> distinct outbox_ids)) (\<lambda>_. refuse (blank publisher_id))))"

definition mark_outbox_published_batch ::
  "string \<Rightarrow> string list \<Rightarrow> string \<Rightarrow> instant \<Rightarrow> delivery \<Rightarrow> string list result \<times> delivery" where
  "mark_outbox_published_batch tenant_id outbox_ids publisher_id now =
     checked (validate_outbox_ack_batch outbox_ids publisher_id) (\<lambda>d.
       if outbox_ids = [] then (Inr [], d)
       else checked (check_tenant tenant_id) (\<lambda>d.
         let P = (\<lambda>r. x_tenant_id r = tenant_id \<and> x_outbox_id r \<in> set outbox_ids \<and> x_published_at r = None \<and>
               x_claimed_by r = Some publisher_id);
             acknowledged = map x_outbox_id (returning P (publish_row now) (dl_outbox d)) in
         (Inr (filter (\<lambda>v. v \<in> set acknowledged) outbox_ids),
          d\<lparr>dl_outbox := update_where P (publish_row now) (dl_outbox d)\<rparr>)) d)"

section \<open>Worker leases and presence\<close>

definition acquire_worker_lease ::
  "string \<Rightarrow> string \<Rightarrow> string \<Rightarrow> int \<Rightarrow> instant \<Rightarrow> delivery \<Rightarrow> worker_lease_row result \<times> delivery" where
  "acquire_worker_lease tenant_id run_id worker_id ttl now =
     checked (bindE (validate_lease_ttl ttl) (\<lambda>_. check_tenant tenant_id)) (\<lambda>d.
       let P = (\<lambda>r. wl_tenant_id r = tenant_id \<and> wl_run_id r = run_id \<and>
             (wl_lease_owner r = None \<or> wl_lease_owner r = Some worker_id \<or>
              wl_lease_expires_at r \<noteq> None \<and> the (wl_lease_expires_at r) \<le> now));
           f = (\<lambda>r. r\<lparr>wl_lease_epoch := (if wl_lease_owner r = Some worker_id \<and> live now (wl_lease_expires_at r)
                  then wl_lease_epoch r else wl_lease_epoch r + 1),
                wl_lease_owner := Some worker_id, wl_lease_expires_at := Some (now + seconds ttl)\<rparr>) in
       case returning P f (dl_leases d) of
         [] \<Rightarrow> (Inl RunVersionConflictError, d)
       | r # _ \<Rightarrow> (Inr r, d\<lparr>dl_leases := update_where P f (dl_leases d)\<rparr>))"

definition renew_worker_lease ::
  "string \<Rightarrow> string \<Rightarrow> string \<Rightarrow> int \<Rightarrow> int \<Rightarrow> instant \<Rightarrow> delivery \<Rightarrow> worker_lease_row result \<times> delivery" where
  "renew_worker_lease tenant_id run_id worker_id epoch ttl now =
     checked (bindE (validate_lease_ttl ttl) (\<lambda>_. check_tenant tenant_id)) (\<lambda>d.
       let P = (\<lambda>r. wl_tenant_id r = tenant_id \<and> wl_run_id r = run_id \<and> wl_lease_owner r = Some worker_id \<and>
             wl_lease_epoch r = epoch \<and> live now (wl_lease_expires_at r));
           f = (\<lambda>r. r\<lparr>wl_lease_expires_at := Some (now + seconds ttl)\<rparr>) in
       case returning P f (dl_leases d) of
         [] \<Rightarrow> (Inl RunVersionConflictError, d)
       | r # _ \<Rightarrow> (Inr r, d\<lparr>dl_leases := update_where P f (dl_leases d)\<rparr>))"

definition release_worker_lease ::
  "string \<Rightarrow> string \<Rightarrow> string \<Rightarrow> int \<Rightarrow> instant \<Rightarrow> delivery \<Rightarrow> bool result \<times> delivery" where
  "release_worker_lease tenant_id run_id worker_id epoch now =
     checked (check_tenant tenant_id) (\<lambda>d.
       let P = (\<lambda>r. wl_tenant_id r = tenant_id \<and> wl_run_id r = run_id \<and> wl_lease_owner r = Some worker_id \<and>
             wl_lease_epoch r = epoch);
           f = (\<lambda>r. r\<lparr>wl_lease_owner := None, wl_lease_expires_at := None\<rparr>) in
       (Inr (returning P f (dl_leases d) \<noteq> []), d\<lparr>dl_leases := update_where P f (dl_leases d)\<rparr>))"

definition heartbeat_worker ::
  "string \<Rightarrow> string \<Rightarrow> json \<Rightarrow> bool option \<Rightarrow> instant \<Rightarrow> delivery \<Rightarrow> worker_row result \<times> delivery" where
  "heartbeat_worker tenant_id worker_id capabilities draining now =
     checked (bindE (validate_worker_id worker_id) (\<lambda>_. check_tenant tenant_id)) (\<lambda>d.
       let P = (\<lambda>r. wk_tenant_id r = tenant_id \<and> wk_worker_id r = worker_id);
           f = (\<lambda>r. r\<lparr>wk_capabilities := capabilities, wk_last_heartbeat_at := now,
                 wk_draining := (case draining of None \<Rightarrow> wk_draining r | Some b \<Rightarrow> b)\<rparr>);
           fresh = \<lparr>wk_tenant_id = tenant_id, wk_worker_id = worker_id, wk_capabilities = capabilities,
             wk_last_heartbeat_at = now, wk_draining = (case draining of None \<Rightarrow> False | Some b \<Rightarrow> b)\<rparr> in
       case returning P f (dl_workers d) of
         [] \<Rightarrow> (Inr fresh, d\<lparr>dl_workers := dl_workers d @ [fresh]\<rparr>)
       | r # _ \<Rightarrow> (Inr r, d\<lparr>dl_workers := update_where P f (dl_workers d)\<rparr>))"

definition set_worker_draining :: "string \<Rightarrow> string \<Rightarrow> bool \<Rightarrow> instant \<Rightarrow> delivery \<Rightarrow> bool result \<times> delivery" where
  "set_worker_draining tenant_id worker_id draining now =
     checked (bindE (validate_worker_id worker_id) (\<lambda>_. check_tenant tenant_id)) (\<lambda>d.
       let P = (\<lambda>r. wk_tenant_id r = tenant_id \<and> wk_worker_id r = worker_id);
           f = (\<lambda>r. r\<lparr>wk_draining := draining, wk_last_heartbeat_at := now\<rparr>) in
       (Inr (returning P f (dl_workers d) \<noteq> []), d\<lparr>dl_workers := update_where P f (dl_workers d)\<rparr>))"

section \<open>What admission puts into the queue\<close>

definition start_command :: "string \<Rightarrow> string \<Rightarrow> string \<Rightarrow> string \<Rightarrow> string \<Rightarrow> int \<Rightarrow> string \<Rightarrow> instant \<Rightarrow> command_row" where
  "start_command tenant_id worker_pool command_id run_id idempotency_key stream_version actor_user_id now =
     \<lparr>cq_tenant_id = tenant_id, cq_worker_pool = worker_pool, cq_command_id = command_id, cq_run_id = run_id,
      cq_command_type = ''start'', cq_idempotency_key = Some idempotency_key, cq_expected_stream_version = stream_version,
      cq_payload = JObj [(''actor_user_id'', JStr actor_user_id), (''run_id'', JStr run_id),
        (''session_id'', JStr (''session-'' @ run_id)), (''turn_id'', JStr (''turn-'' @ run_id))],
      cq_available_at = now, cq_status = CQ_QUEUED, cq_claimed_by = None, cq_claimed_at = None, cq_claim_expires_at = None,
      cq_attempt_count = 0, cq_last_error = None, cq_completed_at = None, cq_updated_at = now\<rparr>"

definition wakeup_message :: "string \<Rightarrow> string \<Rightarrow> string \<Rightarrow> string \<Rightarrow> int \<Rightarrow> instant \<Rightarrow> outbox_row" where
  "wakeup_message tenant_id worker_pool command_id run_id stream_version now =
     (let outbox_id = ''command-wakeup-v1:'' @ command_id in
      \<lparr>x_tenant_id = tenant_id, x_outbox_id = outbox_id, x_run_id = run_id,
       x_destination = ''command-wakeup-v1:'' @ worker_pool, x_dedupe_key = Some outbox_id, x_stream_version = stream_version,
       x_source_event_id = None,
       x_payload = JObj [(''schema_version'', JInt 1), (''outbox_id'', JStr outbox_id), (''command_id'', JStr command_id),
         (''worker_pool'', JStr worker_pool)],
       x_created_at = now, x_published_at = None, x_claimed_by = None, x_claimed_at = None, x_claim_expires_at = None,
       x_publish_attempts = 0, x_last_error = None\<rparr>)"

end
