(* ===== verification/Delivery_Facts.thy ===== *)
theory Delivery_Facts
  imports Delivery Store
begin

text \<open>
  The methods of the queue, the outbox and the leases as one step relation, with the caller
  and the time of each step, and what no sequence of steps can do.
\<close>

section \<open>Updates by key\<close>

lemma update_where_keeps: "r \<in> set rows \<Longrightarrow> \<not> P r \<Longrightarrow> r \<in> set (update_where P f rows)"
  by (force simp: update_where_def)

lemma update_where_keys: "(\<And>r. key (f r) = key r) \<Longrightarrow> map key (update_where P f rows) = map key rows"
  by (induction rows) (simp_all add: update_where_def)

lemma select_keys_only:
  assumes "distinct (map key rows)" "r \<in> set rows" "key r \<in> set (select_keys key P ord n rows)"
  shows "P r"
proof -
  obtain r' where "r' \<in> set rows" "P r'" "key r' = key r"
    using assms(3) by (auto simp: select_keys_def dest!: in_set_takeD)
  with assms(1,2) show ?thesis by (metis distinct_map inj_onD)
qed

section \<open>Steps\<close>

definition lease_key :: "worker_lease_row \<Rightarrow> string \<times> string" where
  "lease_key r = (wl_tenant_id r, wl_run_id r)"

inductive delivery_step :: "string option \<Rightarrow> instant \<Rightarrow> delivery \<Rightarrow> delivery \<Rightarrow> bool" where
  do_claim: "claim_commands t w n pool v now d = (r1, d') \<Longrightarrow> delivery_step (Some w) now d d'"
| do_renew: "renew_command_claim t c w v now d = (r2, d') \<Longrightarrow> delivery_step (Some w) now d d'"
| do_reclaim: "reclaim_commands t n now d = (r3, d') \<Longrightarrow> delivery_step None now d d'"
| do_acknowledge: "acknowledge_command t c w now d = (r4, d') \<Longrightarrow> delivery_step (Some w) now d d'"
| do_acknowledge_batch: "acknowledge_commands_batch t cs w now d = (r5, d') \<Longrightarrow> delivery_step (Some w) now d d'"
| do_fail: "fail_command t c w er re dl now d = (r6, d') \<Longrightarrow> delivery_step (Some w) now d d'"
| do_claim_outbox: "claim_outbox t w n v dest now d = (r7, d') \<Longrightarrow> delivery_step (Some w) now d d'"
| do_reclaim_outbox: "reclaim_outbox t n now d = (r8, d') \<Longrightarrow> delivery_step None now d d'"
| do_mark: "mark_outbox_published t oid p now d = (r9, d') \<Longrightarrow> delivery_step p now d d'"
| do_mark_batch: "mark_outbox_published_batch t oids w now d = (r10, d') \<Longrightarrow> delivery_step (Some w) now d d'"
| do_acquire: "acquire_worker_lease t k w ttl now d = (r11, d') \<Longrightarrow> delivery_step (Some w) now d d'"
| do_renew_lease: "renew_worker_lease t k w ep ttl now d = (r12, d') \<Longrightarrow> delivery_step (Some w) now d d'"
| do_release_lease: "release_worker_lease t k w ep now d = (r13, d') \<Longrightarrow> delivery_step (Some w) now d d'"
| do_heartbeat: "heartbeat_worker t w cap dr now d = (r14, d') \<Longrightarrow> delivery_step (Some w) now d d'"
| do_drain: "set_worker_draining t w b now d = (r15, d') \<Longrightarrow> delivery_step None now d d'"
| do_admit: "command_key (start_command t pool c k ik sv ac now) \<notin> command_key ` set (dl_commands d) \<Longrightarrow>
    outbox_key (wakeup_message t pool c k sv now) \<notin> outbox_key ` set (dl_outbox d) \<Longrightarrow>
    (t, k) \<notin> lease_key ` set (dl_leases d) \<Longrightarrow>
    d' = d\<lparr>dl_commands := dl_commands d @ [start_command t pool c k ik sv ac now],
           dl_outbox := dl_outbox d @ [wakeup_message t pool c k sv now],
           dl_leases := dl_leases d @ [\<lparr>wl_tenant_id = t, wl_run_id = k, wl_stream_version = sv, wl_lease_owner = None,
             wl_lease_epoch = 0, wl_lease_expires_at = None\<rparr>]\<rparr> \<Longrightarrow>
    delivery_step None now d d'"

text \<open>The primary keys.\<close>

definition delivery_ok :: "delivery \<Rightarrow> bool" where
  "delivery_ok d \<longleftrightarrow> distinct (map command_key (dl_commands d)) \<and> distinct (map outbox_key (dl_outbox d)) \<and>
     distinct (map lease_key (dl_leases d))"

lemmas delivery_methods = claim_commands_def renew_command_claim_def reclaim_commands_def acknowledge_command_def
  acknowledge_commands_batch_def fail_command_def claim_outbox_def reclaim_outbox_def mark_outbox_published_def
  mark_outbox_published_batch_def acquire_worker_lease_def renew_worker_lease_def release_worker_lease_def
  heartbeat_worker_def set_worker_draining_def

text \<open>Which row a caller may change at a time.\<close>

definition may_touch :: "string option \<Rightarrow> instant \<Rightarrow> command_row \<Rightarrow> bool" where
  "may_touch a now r \<longleftrightarrow> cq_status r = CQ_QUEUED \<or> cq_status r = CQ_CLAIMED \<and>
     (lapsed now (cq_claim_expires_at r) \<or> a \<noteq> None \<and> cq_claimed_by r = a)"

definition may_publish :: "string option \<Rightarrow> instant \<Rightarrow> outbox_row \<Rightarrow> bool" where
  "may_publish a now r \<longleftrightarrow> x_published_at r = None \<and> (x_claimed_by r = None \<or> lapsed now (x_claim_expires_at r) \<or> x_claimed_by r = a)"

text \<open>
  Epochs of a lease: they never fall, and a lease that keeps its epoch keeps its owner or is
  given up.
\<close>

definition lease_evolves :: "worker_lease_row \<Rightarrow> worker_lease_row \<Rightarrow> bool" where
  "lease_evolves r r' \<longleftrightarrow> wl_lease_epoch r \<le> wl_lease_epoch r' \<and>
     (wl_lease_epoch r' = wl_lease_epoch r \<longrightarrow> wl_lease_owner r' = None \<or> wl_lease_owner r' = wl_lease_owner r)"

text \<open>How a step changes a table: an update that keeps keys and moves rows along a relation, and new rows.\<close>

definition table_step :: "('r \<Rightarrow> 'k) \<Rightarrow> ('r \<Rightarrow> 'r \<Rightarrow> bool) \<Rightarrow> 'r list \<Rightarrow> 'r list \<Rightarrow> bool" where
  "table_step key T rows rows' \<longleftrightarrow> (\<exists>P f new. rows' = update_where P f rows @ new \<and>
     (\<forall>r\<in>set rows. P r \<longrightarrow> key (f r) = key r \<and> T r (f r)) \<and>
     distinct (map key new) \<and> key ` set new \<inter> key ` set rows = {})"

lemma table_step_update:
  "(\<And>r. r \<in> set rows \<Longrightarrow> P r \<Longrightarrow> key (f r) = key r \<and> T r (f r)) \<Longrightarrow> table_step key T rows (update_where P f rows)"
  unfolding table_step_def by (intro exI [of _ P] exI [of _ f] exI [of _ "[]"]) simp

lemma table_step_new: "key r \<notin> key ` set rows \<Longrightarrow> table_step key T rows (rows @ [r])"
  unfolding table_step_def
  by (rule exI [of _ "\<lambda>_. False"], rule exI [of _ id], rule exI [of _ "[r]"]) (simp add: update_where_def)

lemma table_step_id: "table_step key T rows rows"
  using table_step_update [of rows "\<lambda>_. False" key id T] by (simp add: update_where_def)

lemma table_step_row:
  assumes "table_step key T rows rows'" "r \<in> set rows"
  obtains "r \<in> set rows'" | r' where "r' \<in> set rows'" "key r' = key r" "T r r'"
proof -
  obtain P f new where t: "rows' = update_where P f rows @ new" "\<forall>r\<in>set rows. P r \<longrightarrow> key (f r) = key r \<and> T r (f r)"
    using assms(1) by (auto simp: table_step_def)
  have "(if P r then f r else r) \<in> set rows'" using t(1) assms(2) by (auto simp: update_where_def)
  with t(2) assms(2) that show thesis by (cases "P r") auto
qed

lemma table_step_distinct: "table_step key T rows rows' \<Longrightarrow> distinct (map key rows) \<Longrightarrow> distinct (map key rows')"
  unfolding table_step_def
proof (elim exE conjE)
  fix P f new
  assume a: "rows' = update_where P f rows @ new" "\<forall>r\<in>set rows. P r \<longrightarrow> key (f r) = key r \<and> T r (f r)"
    "distinct (map key new)" "key ` set new \<inter> key ` set rows = {}" "distinct (map key rows)"
  have "map key (update_where P f rows) = map key rows" using a(2) by (auto simp: update_where_def)
  then have "map key rows' = map key rows @ map key new" using a(1) by simp
  then show "distinct (map key rows')" using a(3-5) by auto
qed

lemmas delivery_row_defs = command_key_def claim_row_def release_row_def finish_row_def owns_claim_def may_touch_def live_def
  lapsed_def command_ready_def outbox_key_def outbox_pending_def may_publish_def publish_row_def lease_key_def lease_evolves_def

lemma commands_step:
  assumes "delivery_step a now d d'" "delivery_ok d"
  shows "table_step command_key (\<lambda>r _. may_touch a now r) (dl_commands d) (dl_commands d')"
proof -
  have key: "distinct (map command_key (dl_commands d))" using assms(2) by (simp add: delivery_ok_def)
  show ?thesis
    using assms(1)
  proof cases
    case (do_claim t w n pool v r1)
    then show ?thesis
      by (auto simp: claim_commands_def checked_def Let_def delivery_row_defs split: sum.splits
          intro!: table_step_id table_step_update dest!: select_keys_only [OF key])
  next
    case (do_reclaim t n r3)
    then show ?thesis
      by (auto simp: reclaim_commands_def checked_def Let_def delivery_row_defs split: sum.splits
          intro!: table_step_id table_step_update dest!: select_keys_only [OF key])
  qed (auto simp: delivery_methods checked_def Let_def delivery_row_defs
      split: sum.splits list.splits if_splits option.splits
      intro!: table_step_id table_step_update table_step_new)
qed

lemma outbox_step:
  assumes "delivery_step a now d d'" "delivery_ok d"
  shows "table_step outbox_key (\<lambda>r _. may_publish a now r) (dl_outbox d) (dl_outbox d')"
proof -
  have key: "distinct (map outbox_key (dl_outbox d))" using assms(2) by (simp add: delivery_ok_def)
  show ?thesis
    using assms(1)
  proof cases
    case (do_claim_outbox t w n v dest r7)
    then show ?thesis
      by (auto simp: claim_outbox_def checked_def Let_def delivery_row_defs split: sum.splits
          intro!: table_step_id table_step_update dest!: select_keys_only [OF key])
  next
    case (do_reclaim_outbox t n r8)
    then show ?thesis
      by (auto simp: reclaim_outbox_def checked_def Let_def delivery_row_defs split: sum.splits
          intro!: table_step_id table_step_update dest!: select_keys_only [OF key])
  qed (auto simp: delivery_methods checked_def Let_def delivery_row_defs
      split: sum.splits list.splits if_splits option.splits
      intro!: table_step_id table_step_update table_step_new)
qed

lemma leases_step:
  assumes "delivery_step a now d d'"
  shows "table_step lease_key lease_evolves (dl_leases d) (dl_leases d')"
  using assms
  by cases (auto simp: delivery_methods checked_def Let_def delivery_row_defs
      split: sum.splits list.splits if_splits option.splits
      intro!: table_step_id table_step_update table_step_new)

section \<open>Sequences of steps\<close>

definition any_step :: "delivery \<Rightarrow> delivery \<Rightarrow> bool" where
  "any_step d d' \<longleftrightarrow> (\<exists>a now. delivery_step a now d d')"

text \<open>Steps of others than a worker, before a time.\<close>

definition others_step :: "string \<Rightarrow> instant \<Rightarrow> delivery \<Rightarrow> delivery \<Rightarrow> bool" where
  "others_step w e d d' \<longleftrightarrow> (\<exists>a now. delivery_step a now d d' \<and> a \<noteq> Some w \<and> now < e)"

text \<open>The claims a worker holds until that time or longer.\<close>

definition holds_command :: "string \<Rightarrow> instant \<Rightarrow> command_row \<Rightarrow> bool" where
  "holds_command w e r \<longleftrightarrow> cq_status r = CQ_CLAIMED \<and> cq_claimed_by r = Some w \<and> \<not> (\<exists>t<e. lapsed t (cq_claim_expires_at r))"

definition holds_message :: "string \<Rightarrow> instant \<Rightarrow> outbox_row \<Rightarrow> bool" where
  "holds_message w e r \<longleftrightarrow> x_published_at r = None \<and> x_claimed_by r = Some w \<and> \<not> (\<exists>t<e. lapsed t (x_claim_expires_at r))"

definition finished :: "command_row \<Rightarrow> bool" where
  "finished r \<longleftrightarrow> cq_status r \<noteq> CQ_QUEUED \<and> cq_status r \<noteq> CQ_CLAIMED"

definition claims_stay :: "string \<Rightarrow> instant \<Rightarrow> delivery \<Rightarrow> delivery \<Rightarrow> bool" where
  "claims_stay w e d d' \<longleftrightarrow> (\<forall>r\<in>set (dl_commands d). holds_command w e r \<longrightarrow> r \<in> set (dl_commands d')) \<and>
     (\<forall>r\<in>set (dl_outbox d). holds_message w e r \<longrightarrow> r \<in> set (dl_outbox d'))"

definition outcomes_stay :: "delivery \<Rightarrow> delivery \<Rightarrow> bool" where
  "outcomes_stay d d' \<longleftrightarrow> (\<forall>r\<in>set (dl_commands d). finished r \<longrightarrow> r \<in> set (dl_commands d')) \<and>
     (\<forall>r\<in>set (dl_outbox d). x_published_at r \<noteq> None \<longrightarrow> r \<in> set (dl_outbox d')) \<and>
     (\<forall>r\<in>set (dl_leases d). \<exists>r'\<in>set (dl_leases d'). lease_key r' = lease_key r \<and> lease_evolves r r')"

lemma step_ok:
  assumes "delivery_step a now d d'" "delivery_ok d"
  shows "delivery_ok d'"
  using table_step_distinct [OF commands_step [OF assms]] table_step_distinct [OF outbox_step [OF assms]]
    table_step_distinct [OF leases_step [OF assms(1)]] assms(2)
  by (simp add: delivery_ok_def)

lemma step_claims_stay:
  assumes "delivery_step a now d d'" "delivery_ok d" "a \<noteq> Some w" "now < e"
  shows "claims_stay w e d d'"
  unfolding claims_stay_def
proof (intro conjI ballI impI)
  fix r assume r: "r \<in> set (dl_commands d)" "holds_command w e r"
  then have "\<not> may_touch a now r" using assms(3,4) by (auto simp: holds_command_def may_touch_def)
  then show "r \<in> set (dl_commands d')" using table_step_row [OF commands_step [OF assms(1,2)] r(1)] by blast
next
  fix r assume r: "r \<in> set (dl_outbox d)" "holds_message w e r"
  then have "\<not> may_publish a now r" using assms(3,4) by (auto simp: holds_message_def may_publish_def)
  then show "r \<in> set (dl_outbox d')" using table_step_row [OF outbox_step [OF assms(1,2)] r(1)] by blast
qed

lemma step_outcomes_stay:
  assumes "delivery_step a now d d'" "delivery_ok d"
  shows "outcomes_stay d d'"
  unfolding outcomes_stay_def
proof (intro conjI ballI impI)
  fix r assume r: "r \<in> set (dl_commands d)" "finished r"
  then have "\<not> may_touch a now r" by (auto simp: finished_def may_touch_def)
  then show "r \<in> set (dl_commands d')" using table_step_row [OF commands_step [OF assms] r(1)] by blast
next
  fix r assume r: "r \<in> set (dl_outbox d)" "x_published_at r \<noteq> None"
  then have "\<not> may_publish a now r" by (auto simp: may_publish_def)
  then show "r \<in> set (dl_outbox d')" using table_step_row [OF outbox_step [OF assms] r(1)] by blast
next
  fix r assume r: "r \<in> set (dl_leases d)"
  have "lease_evolves r r" by (simp add: lease_evolves_def)
  then show "\<exists>r'\<in>set (dl_leases d'). lease_key r' = lease_key r \<and> lease_evolves r r'"
    using table_step_row [OF leases_step [OF assms(1)] r] by blast
qed

lemma lease_evolves_trans: "lease_evolves r s \<Longrightarrow> lease_evolves s t \<Longrightarrow> lease_evolves r t"
  by (auto simp: lease_evolves_def)

lemma outcomes_stay_trans:
  assumes "outcomes_stay c d" "outcomes_stay d e"
  shows "outcomes_stay c e"
  unfolding outcomes_stay_def
proof (intro conjI ballI impI)
  fix r assume "r \<in> set (dl_leases c)"
  then obtain s where s: "s \<in> set (dl_leases d)" "lease_key s = lease_key r" "lease_evolves r s"
    using assms(1) by (auto simp: outcomes_stay_def)
  then obtain t where t: "t \<in> set (dl_leases e)" "lease_key t = lease_key s" "lease_evolves s t"
    using assms(2) by (auto simp: outcomes_stay_def)
  then show "\<exists>r'\<in>set (dl_leases e). lease_key r' = lease_key r \<and> lease_evolves r r'"
    using s lease_evolves_trans by fastforce
qed (use assms in \<open>auto simp: outcomes_stay_def\<close>)

interpretation delivery_machine: evolving_machine any_step delivery_ok outcomes_stay
proof unfold_locales
  show "outcomes_stay s s" for s by (auto simp: outcomes_stay_def lease_evolves_def)
qed (auto simp: any_step_def intro: step_ok step_outcomes_stay outcomes_stay_trans)

interpretation claim_machine: evolving_machine "others_step w e" delivery_ok "claims_stay w e" for w e
  by unfold_locales (auto simp: others_step_def claims_stay_def intro: step_ok dest: step_claims_stay)

text \<open>A claim that others cannot take from a worker lets it acknowledge the command.\<close>

lemma update_where_one:
  assumes "r \<in> set rows" "P r"
  shows "f r \<in> set (update_where P f rows)" "returning P f rows \<noteq> []"
  using assms by (force simp: update_where_def, auto simp: returning_def filter_empty_conv)

lemma acknowledge_held:
  assumes "r \<in> set (dl_commands d)" "holds_command w e r" "now < e" "check_tenant (cq_tenant_id r) = Inr ()"
  obtains d' where "acknowledge_command (cq_tenant_id r) (cq_command_id r) w now d = (Inr True, d')"
    "finish_row CQ_DONE now r \<in> set (dl_commands d')"
proof -
  have "owns_claim (cq_tenant_id r) w now r"
    using assms(2,3) by (auto simp: holds_command_def owns_claim_def live_def lapsed_def not_le split: option.splits)
  then show thesis
    using that update_where_one [OF assms(1), of "\<lambda>x. owns_claim (cq_tenant_id r) w now x \<and> cq_command_id x = cq_command_id r"
        "finish_row CQ_DONE now"] assms(4)
    by (simp add: acknowledge_command_def checked_def)
qed

text \<open>A command whose worker is gone is handed out again, with its failure noted and one more attempt counted.\<close>

lemma claim_abandoned:
  assumes "r \<in> set (dl_commands d)" "cq_status r = CQ_CLAIMED" "lapsed now (cq_claim_expires_at r)" "cq_available_at r \<le> now"
    and "length (filter (command_ready (cq_tenant_id r) (cq_worker_pool r) now) (dl_commands d)) \<le> 100"
    and "validate_worker_pool (cq_worker_pool r) = Inr ()" "validate_visibility_timeout v = Inr ()"
    "check_tenant (cq_tenant_id r) = Inr ()"
  obtains rows d' where "claim_commands (cq_tenant_id r) w 100 (cq_worker_pool r) v now d = (Inr rows, d')"
    "claim_row w v now r \<in> set rows" "claim_row w v now r \<in> set (dl_commands d')"
proof -
  let ?keys = "select_keys command_key (command_ready (cq_tenant_id r) (cq_worker_pool r) now) cq_available_at 100 (dl_commands d)"
  have "command_ready (cq_tenant_id r) (cq_worker_pool r) now r" using assms(2-4) by (simp add: command_ready_def)
  then have "command_key r \<in> set ?keys" using assms(1,5) by (simp add: select_keys_def)
  then have "claim_row w v now r \<in> set (returning (\<lambda>x. command_key x \<in> set ?keys) (claim_row w v now) (dl_commands d))"
    using assms(1) by (auto simp: returning_def)
  then show thesis
    using that update_where_one(1) [OF assms(1), of "\<lambda>x. command_key x \<in> set ?keys" "claim_row w v now"]
      assms(6-8) \<open>command_key r \<in> set ?keys\<close>
    by (simp add: claim_commands_def checked_def Let_def validate_limit_def refuse_def)
qed

end
