(* ===== verification/Capacity.thy ===== *)
theory Capacity
  imports Shadow_Config
begin

text \<open>
  The reports that admit the Redis layer to production: release contexts
  (\<^verbatim>\<open>production/canary_release.py\<close>), the capacity gate (\<^verbatim>\<open>production/capacity_gate.py\<close>) and the
  fault drill (\<^verbatim>\<open>production/fault_drill.py\<close>). Values have the declared types; a datetime is an
  instant, since the program refuses every datetime that is not UTC.
\<close>

section \<open>The platform\<close>

text \<open>
  What Python's library computes: digests and message codes in lower-case hexadecimal (of a
  key and a message), rounding to a double (\<^const>\<open>None\<close> beyond its range), the text of a double,
  and \<^verbatim>\<open>datetime.fromisoformat\<close> (the instant and, if it has one, the offset from UTC).
\<close>

record platform =
  pf_sha256 :: "string \<Rightarrow> string"
  pf_hmac :: "string \<Rightarrow> string \<Rightarrow> string"
  pf_round :: "rat \<Rightarrow> rat option"
  pf_repr :: "rat \<Rightarrow> string"
  pf_fromisoformat :: "string \<Rightarrow> (instant \<times> int option) option"

text \<open>An \<^verbatim>\<open>int\<close>, a \<^verbatim>\<open>float\<close> by its value (without the sign of zero), or a float that is not finite.\<close>

datatype number = IntNum int | FloatNum rat | NanNum

fun num_value :: "number \<Rightarrow> rat" where
  "num_value (IntNum i) = of_int i"
| "num_value (FloatNum x) = x"
| "num_value NanNum = 0"

definition float_of :: "platform \<Rightarrow> rat \<Rightarrow> number" where
  "float_of pf x = (case pf_round pf x of Some y \<Rightarrow> FloatNum y | None \<Rightarrow> NanNum)"

definition literal :: "platform \<Rightarrow> rat \<Rightarrow> rat" where
  "literal pf x = num_value (float_of pf x)"

text \<open>\<^verbatim>\<open>a * b\<close>, \<^verbatim>\<open>a + b\<close> and \<^verbatim>\<open>a / b\<close>; integers are in the range of a double.\<close>

fun num_arith :: "platform \<Rightarrow> (rat \<Rightarrow> rat \<Rightarrow> rat) \<Rightarrow> (int \<Rightarrow> int \<Rightarrow> int) \<Rightarrow> number \<Rightarrow> number \<Rightarrow> number" where
  "num_arith pf f g (IntNum a) (IntNum b) = IntNum (g a b)"
| "num_arith pf f g NanNum b = NanNum"
| "num_arith pf f g a NanNum = NanNum"
| "num_arith pf f g a b = float_of pf (f (literal pf (num_value a)) (literal pf (num_value b)))"

definition num_mul :: "platform \<Rightarrow> number \<Rightarrow> number \<Rightarrow> number" where
  "num_mul pf = num_arith pf (*) (*)"

definition num_add :: "platform \<Rightarrow> number \<Rightarrow> number \<Rightarrow> number" where
  "num_add pf = num_arith pf (+) (+)"

definition num_hundredth :: "platform \<Rightarrow> number \<Rightarrow> number" where
  "num_hundredth pf a = (case a of NanNum \<Rightarrow> NanNum | _ \<Rightarrow> float_of pf (num_value a / 100))"

fun num_json :: "platform \<Rightarrow> number \<Rightarrow> json" where
  "num_json pf (IntNum i) = JInt i"
| "num_json pf (FloatNum x) = JFloat (pf_repr pf x)"
| "num_json pf NanNum = JNull"

definition non_negative_number :: "number \<Rightarrow> unit result" where
  "non_negative_number n = refuse_if (n = NanNum \<or> num_value n < 0)"

definition positive_number :: "number \<Rightarrow> unit result" where
  "positive_number n = bindE (non_negative_number n) (\<lambda>_. refuse_if (num_value n = 0))"

definition percent_number :: "number \<Rightarrow> unit result" where
  "percent_number n = bindE (non_negative_number n) (\<lambda>_. refuse_if (num_value n > 100))"

definition all_ok :: "unit result list \<Rightarrow> unit result" where
  "all_ok rs = foldr (\<lambda>r k. bindE r (\<lambda>_. k)) rs (Inr ())"

lemma all_ok_Inr [simp]: "all_ok rs = Inr u \<longleftrightarrow> (\<forall>r\<in>set rs. r = Inr ())"
  by (induction rs) (auto simp: all_ok_def bindE_eq_Inr)

lemma all_ok_steps [simp]: "all_ok [] = Inr ()" "all_ok (Inr u # rs) = all_ok rs"
  by (simp_all add: all_ok_def bindE_def)

definition flag :: "bool \<Rightarrow> string \<Rightarrow> string list" where
  "flag b reason = (if b then [reason] else [])"

definition opt_text :: "string option \<Rightarrow> json" where
  "opt_text t = (case t of None \<Rightarrow> JNull | Some s \<Rightarrow> JStr s)"

text \<open>\<^verbatim>\<open>re.fullmatch\<close> of a first character and at most \<open>n\<close> others.\<close>

definition ascii_in :: "string \<Rightarrow> bool \<Rightarrow> char \<Rightarrow> bool" where
  "ascii_in extra upper c \<longleftrightarrow> (let n = (of_char c :: nat) in
     48 \<le> n \<and> n \<le> 57 \<or> 97 \<le> n \<and> n \<le> 122 \<or> upper \<and> 65 \<le> n \<and> n \<le> 90) \<or> c \<in> set extra"

definition name_match :: "bool \<Rightarrow> string \<Rightarrow> nat \<Rightarrow> string \<Rightarrow> bool" where
  "name_match upper extra n s \<longleftrightarrow> (case s of [] \<Rightarrow> False
     | c # cs \<Rightarrow> ascii_in [] upper c \<and> list_all (ascii_in extra upper) cs \<and> length cs \<le> n)"

definition code_match :: "string \<Rightarrow> bool" where
  "code_match s \<longleftrightarrow> (case s of [] \<Rightarrow> False
     | c # cs \<Rightarrow> 97 \<le> (of_char c :: nat) \<and> (of_char c :: nat) \<le> 122 \<and> list_all (ascii_in ''_'' False) cs \<and> length cs \<le> 63)"

definition environment_match :: "string \<Rightarrow> bool" where
  "environment_match = name_match False ''_-'' 31"

definition region_match :: "string \<Rightarrow> bool" where
  "region_match = name_match False ''-'' 62"

definition version_match :: "string \<Rightarrow> bool" where
  "version_match = name_match False ''_.-'' 63"

definition key_id_match :: "string \<Rightarrow> bool" where
  "key_id_match = name_match True ''_.:/-'' 127"

definition git_sha_match :: "string \<Rightarrow> bool" where
  "git_sha_match s \<longleftrightarrow> length s = 40 \<and> list_all (\<lambda>c. let n = (of_char c :: nat) in 48 \<le> n \<and> n \<le> 57 \<or> 97 \<le> n \<and> n \<le> 102) s"

section \<open>Release contexts\<close>

record release_context =
  rx_environment :: string
  rx_region :: string
  rx_release_sha :: string
  rx_config_sha256 :: string
  rx_cohort_version :: string

definition release_context_ok :: "release_context \<Rightarrow> unit result" where
  "release_context_ok x = refuse_if (\<not> (environment_match (rx_environment x) \<and> region_match (rx_region x) \<and>
     git_sha_match (rx_release_sha x) \<and> sha256_text (rx_config_sha256 x) \<and> version_match (rx_cohort_version x)))"

definition context_payload :: "release_context \<Rightarrow> json" where
  "context_payload x = JObj [(''cohort_version'', JStr (rx_cohort_version x)), (''config_sha256'', JStr (rx_config_sha256 x)),
     (''environment'', JStr (rx_environment x)), (''region'', JStr (rx_region x)), (''release_sha'', JStr (rx_release_sha x))]"

section \<open>Capacity\<close>

datatype service_evidence_kind = SE_LIVE | SE_FAKE | SE_MISSING

fun service_kind_value :: "service_evidence_kind \<Rightarrow> string" where
  "service_kind_value SE_LIVE = ''live''"
| "service_kind_value SE_FAKE = ''fake''"
| "service_kind_value SE_MISSING = ''missing''"

record service_provenance =
  sp_kind :: service_evidence_kind
  sp_version :: "string option"
  sp_endpoint_sha256 :: "string option"

definition service_version_ok :: "string \<Rightarrow> bool" where
  "service_version_ok v \<longleftrightarrow> py_strip is_space v = v \<and> name_match True '' ._()+-'' 127 v"

definition service_provenance_ok :: "service_provenance \<Rightarrow> unit result" where
  "service_provenance_ok p =
     (if sp_kind p = SE_LIVE
      then refuse_if (\<not> (\<exists>v\<in>set_option (sp_version p). service_version_ok v) \<or>
             \<not> (\<exists>e\<in>set_option (sp_endpoint_sha256 p). sha256_text e))
      else refuse_if (sp_version p \<noteq> None \<or> sp_endpoint_sha256 p \<noteq> None))"

definition is_live :: "service_provenance \<Rightarrow> bool" where
  "is_live p \<longleftrightarrow> sp_kind p = SE_LIVE"

definition provenance_mapping :: "service_provenance \<Rightarrow> json" where
  "provenance_mapping p = JObj [(''kind'', JStr (service_kind_value (sp_kind p))), (''version'', opt_text (sp_version p)),
     (''endpoint_sha256'', opt_text (sp_endpoint_sha256 p))]"

record capacity_policy =
  cp_minimum_load_multiplier :: number
  cp_minimum_queued_commands :: int
  cp_minimum_active_workers :: int
  cp_minimum_throughput_ratio :: number
  cp_maximum_redis_wake_p95_ms :: number
  cp_maximum_outbox_lag_p95_ms :: number
  cp_maximum_sql_fallback_recovery_seconds :: number
  cp_streams_demand_claim_p95_ms :: number
  cp_streams_demand_claims_per_second :: number

definition capacity_policy_ok :: "platform \<Rightarrow> capacity_policy \<Rightarrow> unit result" where
  "capacity_policy_ok pf p = all_ok [
     positive_number (cp_minimum_load_multiplier p),
     refuse_if (cp_minimum_queued_commands p < 1), refuse_if (cp_minimum_active_workers p < 1),
     positive_number (cp_minimum_throughput_ratio p),
     refuse_if (num_value (cp_minimum_load_multiplier p) < 2),
     refuse_if (cp_minimum_queued_commands p < 1000), refuse_if (cp_minimum_active_workers p < 20),
     refuse_if (\<not> (literal pf (95 / 100) \<le> num_value (cp_minimum_throughput_ratio p) \<and>
       num_value (cp_minimum_throughput_ratio p) \<le> 1)),
     positive_number (cp_maximum_redis_wake_p95_ms p), positive_number (cp_maximum_outbox_lag_p95_ms p),
     positive_number (cp_maximum_sql_fallback_recovery_seconds p), positive_number (cp_streams_demand_claim_p95_ms p),
     positive_number (cp_streams_demand_claims_per_second p),
     refuse_if (num_value (cp_maximum_redis_wake_p95_ms p) > 100), refuse_if (num_value (cp_maximum_outbox_lag_p95_ms p) > 2000),
     refuse_if (num_value (cp_maximum_sql_fallback_recovery_seconds p) > 60)]"

definition default_capacity_policy :: "platform \<Rightarrow> capacity_policy" where
  "default_capacity_policy pf = \<lparr>cp_minimum_load_multiplier = FloatNum 2, cp_minimum_queued_commands = 1000,
     cp_minimum_active_workers = 20, cp_minimum_throughput_ratio = float_of pf (95 / 100),
     cp_maximum_redis_wake_p95_ms = FloatNum 100, cp_maximum_outbox_lag_p95_ms = FloatNum 2000,
     cp_maximum_sql_fallback_recovery_seconds = FloatNum 60, cp_streams_demand_claim_p95_ms = FloatNum 25,
     cp_streams_demand_claims_per_second = FloatNum 1000\<rparr>"

record capacity_measurement =
  cm_postgres :: service_provenance
  cm_redis :: service_provenance
  cm_expected_peak_claims_per_second :: number
  cm_load_multiplier :: number
  cm_queued_commands :: int
  cm_active_workers :: int
  cm_steady_claims_per_second :: number
  cm_sql_fallback_claims_per_second :: number
  cm_command_claim_p95_ms :: number
  cm_redis_wake_p95_ms :: number
  cm_outbox_lag_p95_ms :: number
  cm_sql_fallback_recovery_seconds :: number
  cm_command_loss :: int
  cm_duplicate_external_effects :: int
  cm_stale_writes_accepted :: int

definition capacity_measurement_ok :: "capacity_measurement \<Rightarrow> unit result" where
  "capacity_measurement_ok m = all_ok [
     service_provenance_ok (cm_postgres m), service_provenance_ok (cm_redis m),
     positive_number (cm_expected_peak_claims_per_second m), positive_number (cm_load_multiplier m),
     refuse_if (cm_queued_commands m < 0), refuse_if (cm_active_workers m < 0),
     non_negative_number (cm_steady_claims_per_second m), non_negative_number (cm_sql_fallback_claims_per_second m),
     non_negative_number (cm_command_claim_p95_ms m), non_negative_number (cm_redis_wake_p95_ms m),
     non_negative_number (cm_outbox_lag_p95_ms m), non_negative_number (cm_sql_fallback_recovery_seconds m),
     refuse_if (cm_command_loss m < 0), refuse_if (cm_duplicate_external_effects m < 0),
     refuse_if (cm_stale_writes_accepted m < 0)]"

definition target_claims_per_second :: "platform \<Rightarrow> capacity_measurement \<Rightarrow> number" where
  "target_claims_per_second pf m = num_mul pf (cm_expected_peak_claims_per_second m) (cm_load_multiplier m)"

record capacity_decision =
  cd_allowed :: bool
  cd_reasons :: "string list"
  cd_streams_demand_qualifies :: bool
  cd_target_claims_per_second :: number
  cd_minimum_accepted_claims_per_second :: number

definition capacity_decision_new :: "capacity_decision \<Rightarrow> capacity_decision result" where
  "capacity_decision_new c = bindE (all_ok [
     refuse_if (\<not> distinct (cd_reasons c)), refuse_if (cd_allowed c \<noteq> (cd_reasons c = [])),
     positive_number (cd_target_claims_per_second c), positive_number (cd_minimum_accepted_claims_per_second c)]) (\<lambda>_. Inr c)"

definition capacity_reasons :: "platform \<Rightarrow> capacity_measurement \<Rightarrow> capacity_policy \<Rightarrow> string list" where
  "capacity_reasons pf m p =
     (let v = num_value; minimum_throughput = v (num_mul pf (target_claims_per_second pf m) (cp_minimum_throughput_ratio p)) in
      flag (\<not> is_live (cm_postgres m)) ''postgres_not_live'' @
      flag (\<not> is_live (cm_redis m)) ''redis_not_live'' @
      flag (v (cm_load_multiplier m) < v (cp_minimum_load_multiplier p)) ''load_multiplier_below_2x'' @
      flag (cm_queued_commands m < cp_minimum_queued_commands p) ''queued_commands_below_1000'' @
      flag (cm_active_workers m < cp_minimum_active_workers p) ''active_workers_below_20'' @
      flag (v (cm_steady_claims_per_second m) < minimum_throughput) ''steady_throughput_below_target'' @
      flag (v (cm_sql_fallback_claims_per_second m) < minimum_throughput) ''sql_fallback_throughput_below_target'' @
      flag (v (cm_redis_wake_p95_ms m) > v (cp_maximum_redis_wake_p95_ms p)) ''redis_wake_p95_exceeded'' @
      flag (v (cm_outbox_lag_p95_ms m) \<ge> v (cp_maximum_outbox_lag_p95_ms p)) ''outbox_lag_p95_exceeded'' @
      flag (v (cm_sql_fallback_recovery_seconds m) \<ge> v (cp_maximum_sql_fallback_recovery_seconds p))
        ''sql_fallback_recovery_exceeded'' @
      flag (cm_command_loss m \<noteq> 0) ''command_loss_detected'' @
      flag (cm_duplicate_external_effects m \<noteq> 0) ''duplicate_external_effect_detected'' @
      flag (cm_stale_writes_accepted m \<noteq> 0) ''stale_write_accepted'')"

definition capacity_evaluate :: "platform \<Rightarrow> capacity_measurement \<Rightarrow> capacity_policy \<Rightarrow> capacity_decision result" where
  "capacity_evaluate pf m p =
     bindE (capacity_measurement_ok m) (\<lambda>_.
     bindE (capacity_policy_ok pf p) (\<lambda>_.
     let v = num_value; target = target_claims_per_second pf m; reasons = capacity_reasons pf m p in
     capacity_decision_new \<lparr>cd_allowed = (reasons = []), cd_reasons = reasons,
       cd_streams_demand_qualifies = (v (cm_command_claim_p95_ms m) > v (cp_streams_demand_claim_p95_ms p) \<or>
         v (cm_redis_wake_p95_ms m) > v (cp_maximum_redis_wake_p95_ms p) \<or>
         v (cm_steady_claims_per_second m) \<ge> v (cp_streams_demand_claims_per_second p)),
       cd_target_claims_per_second = target,
       cd_minimum_accepted_claims_per_second = num_mul pf target (cp_minimum_throughput_ratio p)\<rparr>))"

record capacity_report =
  cr_generated_at :: string
  cr_context :: release_context
  cr_policy :: capacity_policy
  cr_measurement :: capacity_measurement
  cr_decision :: capacity_decision

text \<open>
  The identity of the release is the five fields of a context; \<^verbatim>\<open>schema_version\<close> and \<^verbatim>\<open>suite\<close> are fixed.
  A timestamp needs a timezone.
\<close>

definition timestamp_ok :: "platform \<Rightarrow> string \<Rightarrow> unit result" where
  "timestamp_ok pf t = (if blank t then Inl ValueError
     else case pf_fromisoformat pf (py_replace ''Z'' ''+00:00'' t) of Some (_, Some _) \<Rightarrow> Inr () | _ \<Rightarrow> Inl ValueError)"

definition capacity_report_ok :: "platform \<Rightarrow> capacity_report \<Rightarrow> unit result" where
  "capacity_report_ok pf r =
     bindE (timestamp_ok pf (cr_generated_at r)) (\<lambda>_.
     bindE (release_context_ok (cr_context r)) (\<lambda>_.
     bindE (capacity_evaluate pf (cr_measurement r) (cr_policy r)) (\<lambda>expected.
     refuse_if (cr_decision r \<noteq> expected))))"

definition policy_mapping :: "platform \<Rightarrow> capacity_policy \<Rightarrow> json" where
  "policy_mapping pf p = JObj [
     (''minimum_load_multiplier'', num_json pf (cp_minimum_load_multiplier p)),
     (''minimum_queued_commands'', JInt (cp_minimum_queued_commands p)),
     (''minimum_active_workers'', JInt (cp_minimum_active_workers p)),
     (''minimum_throughput_ratio'', num_json pf (cp_minimum_throughput_ratio p)),
     (''maximum_redis_wake_p95_ms'', num_json pf (cp_maximum_redis_wake_p95_ms p)),
     (''maximum_outbox_lag_p95_ms'', num_json pf (cp_maximum_outbox_lag_p95_ms p)),
     (''maximum_sql_fallback_recovery_seconds'', num_json pf (cp_maximum_sql_fallback_recovery_seconds p)),
     (''streams_demand_claim_p95_ms'', num_json pf (cp_streams_demand_claim_p95_ms p)),
     (''streams_demand_claims_per_second'', num_json pf (cp_streams_demand_claims_per_second p))]"

definition measurement_mapping :: "platform \<Rightarrow> capacity_measurement \<Rightarrow> json" where
  "measurement_mapping pf m = JObj [
     (''postgres'', provenance_mapping (cm_postgres m)), (''redis'', provenance_mapping (cm_redis m)),
     (''expected_peak_claims_per_second'', num_json pf (cm_expected_peak_claims_per_second m)),
     (''load_multiplier'', num_json pf (cm_load_multiplier m)),
     (''queued_commands'', JInt (cm_queued_commands m)), (''active_workers'', JInt (cm_active_workers m)),
     (''steady_claims_per_second'', num_json pf (cm_steady_claims_per_second m)),
     (''sql_fallback_claims_per_second'', num_json pf (cm_sql_fallback_claims_per_second m)),
     (''command_claim_p95_ms'', num_json pf (cm_command_claim_p95_ms m)),
     (''redis_wake_p95_ms'', num_json pf (cm_redis_wake_p95_ms m)),
     (''outbox_lag_p95_ms'', num_json pf (cm_outbox_lag_p95_ms m)),
     (''sql_fallback_recovery_seconds'', num_json pf (cm_sql_fallback_recovery_seconds m)),
     (''command_loss'', JInt (cm_command_loss m)), (''duplicate_external_effects'', JInt (cm_duplicate_external_effects m)),
     (''stale_writes_accepted'', JInt (cm_stale_writes_accepted m))]"

definition decision_mapping :: "platform \<Rightarrow> capacity_decision \<Rightarrow> json" where
  "decision_mapping pf c = JObj [
     (''allowed'', JBool (cd_allowed c)), (''reasons'', JArr (map JStr (cd_reasons c))),
     (''streams_demand_qualifies'', JBool (cd_streams_demand_qualifies c)),
     (''target_claims_per_second'', num_json pf (cd_target_claims_per_second c)),
     (''minimum_accepted_claims_per_second'', num_json pf (cd_minimum_accepted_claims_per_second c))]"

definition capacity_mapping :: "platform \<Rightarrow> capacity_report \<Rightarrow> json" where
  "capacity_mapping pf r = JObj [
     (''schema_version'', JInt 1), (''suite'', JStr ''postgres-authority-redis-hot-layer-capacity''),
     (''generated_at'', JStr (cr_generated_at r)), (''environment'', JStr (rx_environment (cr_context r))),
     (''region'', JStr (rx_region (cr_context r))), (''release_sha'', JStr (rx_release_sha (cr_context r))),
     (''config_sha256'', JStr (rx_config_sha256 (cr_context r))), (''cohort_version'', JStr (rx_cohort_version (cr_context r))),
     (''policy'', policy_mapping pf (cr_policy r)), (''measurement'', measurement_mapping pf (cr_measurement r)),
     (''decision'', decision_mapping pf (cr_decision r))]"

definition capacity_sha256 :: "platform \<Rightarrow> capacity_report \<Rightarrow> string result" where
  "capacity_sha256 pf r = bindE (capacity_report_ok pf r) (\<lambda>_. Inr (pf_sha256 pf (canonical_json (capacity_mapping pf r))))"

definition capacity_matches_context :: "platform \<Rightarrow> capacity_report \<Rightarrow> release_context \<Rightarrow> bool result" where
  "capacity_matches_context pf r x =
     bindE (capacity_report_ok pf r) (\<lambda>_. bindE (release_context_ok x) (\<lambda>_. Inr (cr_context r = x)))"

definition build_report ::
  "platform \<Rightarrow> capacity_measurement \<Rightarrow> string \<Rightarrow> release_context \<Rightarrow> capacity_policy option \<Rightarrow> capacity_report result" where
  "build_report pf m generated_at x policy =
     (let p = (case policy of None \<Rightarrow> default_capacity_policy pf | Some p \<Rightarrow> p) in
      bindE (capacity_evaluate pf m p) (\<lambda>d.
      let r = \<lparr>cr_generated_at = generated_at, cr_context = x, cr_policy = p, cr_measurement = m, cr_decision = d\<rparr> in
      bindE (capacity_report_ok pf r) (\<lambda>_. Inr r)))"

section \<open>Fault drills\<close>

datatype fault_scenario =
    REDIS_DISCONNECT | REDIS_STREAM_LOSS | REDIS_NOGROUP_RECOVERY | REDIS_FLUSH | REDIS_EVICTION | REDIS_FAILOVER
  | REDIS_FULL_REBUILD | WORKER_PROCESS_INTERRUPTION | SQL_FALLBACK | OUTBOX_DUPLICATE | OUTBOX_OUT_OF_ORDER
  | STALE_FENCING | POSTGRES_FAILOVER | POSTGRES_BACKUP_RESTORE | POSTGRES_PITR | TLS_ACL_ROTATION
  | CROSS_TENANT_POOL_ISOLATION | KILL_WINDOW_MATRIX

text \<open>Every scenario, its value and the invariants a drill of it has to report.\<close>

definition scenario_table :: "(fault_scenario \<times> string \<times> string list) list" where
  "scenario_table = [
     (REDIS_DISCONNECT, ''redis_disconnect'', [''redis_unavailable_observed'', ''sql_authority_preserved'']),
     (REDIS_STREAM_LOSS, ''redis_stream_loss'', [''zero_committed_fact_loss'', ''sql_authority_preserved'']),
     (REDIS_NOGROUP_RECOVERY, ''redis_nogroup_recovery'', [''consumer_group_recreated'']),
     (REDIS_FLUSH, ''redis_flush'', [''zero_committed_fact_loss'', ''sql_projection_rebuilt'']),
     (REDIS_EVICTION, ''redis_eviction'', [''zero_committed_fact_loss'', ''sql_fallback_preserved'']),
     (REDIS_FAILOVER, ''redis_failover'', [''sql_authority_preserved'', ''consumer_reconnected'']),
     (REDIS_FULL_REBUILD, ''redis_full_rebuild'', [''zero_committed_fact_loss'', ''projection_converged'']),
     (WORKER_PROCESS_INTERRUPTION, ''worker_process_interruption'', [''abandoned_claim_recovered'', ''single_logical_command'']),
     (SQL_FALLBACK, ''sql_fallback'', [''sql_command_claimed'', ''recovery_under_sixty_seconds'']),
     (OUTBOX_DUPLICATE, ''outbox_duplicate'', [''single_logical_effect'', ''stale_publisher_rejected'']),
     (OUTBOX_OUT_OF_ORDER, ''outbox_out_of_order'', [''sql_stream_monotonic'']),
     (STALE_FENCING, ''stale_fencing'', [''stale_write_rejected'', ''sql_stream_monotonic'']),
     (POSTGRES_FAILOVER, ''postgres_failover'', [''committed_fact_preserved'', ''connection_recovered'']),
     (POSTGRES_BACKUP_RESTORE, ''postgres_backup_restore'', [''restore_integrity_verified'']),
     (POSTGRES_PITR, ''postgres_pitr'', [''rpo_verified'', ''restored_stream_consistent'']),
     (TLS_ACL_ROTATION, ''tls_acl_rotation'', [''unauthorized_access_rejected'', ''authorized_clients_recovered'']),
     (CROSS_TENANT_POOL_ISOLATION, ''cross_tenant_pool_isolation'', [''cross_tenant_disclosure_zero'', ''cross_pool_claim_zero'']),
     (KILL_WINDOW_MATRIX, ''kill_window_matrix'', [''no_committed_fact_loss'', ''duplicate_effect_zero_or_uncertain''])]"

record fault_scenario_result =
  fs_scenario :: fault_scenario
  fs_evidence_kind :: service_evidence_kind
  fs_triggered :: bool
  fs_passed :: bool
  fs_recovery_seconds :: number
  fs_invariants :: "string list"
  fs_failure_code :: "string option"

definition fault_result_ok :: "fault_scenario_result \<Rightarrow> unit result" where
  "fault_result_ok f = all_ok [
     non_negative_number (fs_recovery_seconds f),
     refuse_if (\<not> list_all code_match (fs_invariants f)), refuse_if (\<not> distinct (fs_invariants f)),
     refuse_if (case fs_failure_code f of None \<Rightarrow> False | Some s \<Rightarrow> \<not> code_match s),
     refuse_if (fs_passed f \<and> \<not> fs_triggered f), refuse_if (fs_passed f \<and> fs_evidence_kind f \<noteq> SE_LIVE),
     refuse_if (fs_passed f \<and> fs_failure_code f \<noteq> None)]"

record fault_drill_report =
  fd_execution_id :: string
  fd_started_at :: string
  fd_finished_at :: string
  fd_context :: release_context
  fd_postgres :: service_provenance
  fd_redis :: service_provenance
  fd_raw_results_sha256 :: string
  fd_results :: "fault_scenario_result list"

definition rfc3339 :: "platform \<Rightarrow> string \<Rightarrow> instant result" where
  "rfc3339 pf t = (if t = [] \<or> last t \<noteq> CHR ''Z'' then Inl ValueError
     else case pf_fromisoformat pf (butlast t @ ''+00:00'') of Some (i, Some z) \<Rightarrow> if z = 0 then Inr i else Inl ValueError
       | _ \<Rightarrow> Inl ValueError)"

definition fault_report_ok :: "platform \<Rightarrow> fault_drill_report \<Rightarrow> unit result" where
  "fault_report_ok pf r =
     bindE (refuse_if (\<not> is_uuid (fd_execution_id r))) (\<lambda>_.
     bindE (rfc3339 pf (fd_started_at r)) (\<lambda>started.
     bindE (rfc3339 pf (fd_finished_at r)) (\<lambda>finished_at.
     all_ok ([refuse_if (finished_at \<le> started), release_context_ok (fd_context r),
       service_provenance_ok (fd_postgres r), service_provenance_ok (fd_redis r),
       refuse_if (\<not> sha256_text (fd_raw_results_sha256 r))] @ map fault_result_ok (fd_results r) @
       [refuse_if (\<not> distinct (map fs_scenario (fd_results r)))]))))"

definition by_scenario :: "fault_drill_report \<Rightarrow> fault_scenario \<Rightarrow> fault_scenario_result option" where
  "by_scenario r s = find (\<lambda>f. fs_scenario f = s) (rev (fd_results r))"

definition fault_qualifies :: "fault_drill_report \<Rightarrow> bool" where
  "fault_qualifies r \<longleftrightarrow> is_live (fd_postgres r) \<and> is_live (fd_redis r) \<and>
     list_all (\<lambda>(s, _, required). case by_scenario r s of None \<Rightarrow> False
       | Some f \<Rightarrow> fs_evidence_kind f = SE_LIVE \<and> fs_triggered f \<and> fs_passed f \<and> fs_failure_code f = None \<and>
           (s = SQL_FALLBACK \<longrightarrow> num_value (fs_recovery_seconds f) < 60) \<and> set required \<subseteq> set (fs_invariants f)) scenario_table"

definition scenario_value :: "fault_scenario \<Rightarrow> string" where
  "scenario_value s = (case map_of scenario_table s of Some (v, _) \<Rightarrow> v | None \<Rightarrow> [])"

definition fault_mapping :: "platform \<Rightarrow> fault_drill_report \<Rightarrow> json" where
  "fault_mapping pf r = JObj [
     (''schema_version'', JInt 1), (''suite'', JStr ''postgres-authority-redis-hot-layer-faults''),
     (''execution_id'', JStr (fd_execution_id r)), (''started_at'', JStr (fd_started_at r)),
     (''finished_at'', JStr (fd_finished_at r)), (''context'', context_payload (fd_context r)),
     (''postgres'', provenance_mapping (fd_postgres r)), (''redis'', provenance_mapping (fd_redis r)),
     (''raw_results_sha256'', JStr (fd_raw_results_sha256 r)),
     (''results'', JArr (map (\<lambda>f. JObj [
        (''scenario'', JStr (scenario_value (fs_scenario f))),
        (''evidence_kind'', JStr (service_kind_value (fs_evidence_kind f))), (''triggered'', JBool (fs_triggered f)),
        (''passed'', JBool (fs_passed f)), (''recovery_seconds'', num_json pf (fs_recovery_seconds f)),
        (''invariants'', JArr (map JStr (fs_invariants f))), (''failure_code'', opt_text (fs_failure_code f))]) (fd_results r))),
     (''qualifies'', JBool (fault_qualifies r))]"

definition fault_sha256 :: "platform \<Rightarrow> fault_drill_report \<Rightarrow> string result" where
  "fault_sha256 pf r = bindE (fault_report_ok pf r) (\<lambda>_. Inr (pf_sha256 pf (canonical_json (fault_mapping pf r))))"

end
