(* ===== verification/Release.thy ===== *)
theory Release
  imports Capacity
begin

text \<open>
  Authorization of canary releases (\<^verbatim>\<open>production/canary_release.py\<close>) and the choice of the tenants
  that see one (\<^verbatim>\<open>canary_cohort.py\<close>): signed evidence about an observation of the current stage,
  the gate for transitions and for live health, and the manifest of what is authorized.
\<close>

section \<open>Capabilities and cohorts\<close>

datatype redis_capability =
    UI_STATUS_READ | ACTIVE_INDEX_READ | FANOUT | PROMPT_CACHE_READ | API_RATE_LIMIT_ENFORCE | WORKER_WAKE_CONSUME

fun capability_value :: "redis_capability \<Rightarrow> string" where
  "capability_value UI_STATUS_READ = ''ui_status_read''"
| "capability_value ACTIVE_INDEX_READ = ''active_index_read''"
| "capability_value FANOUT = ''fanout''"
| "capability_value PROMPT_CACHE_READ = ''prompt_cache_read''"
| "capability_value API_RATE_LIMIT_ENFORCE = ''api_rate_limit_enforce''"
| "capability_value WORKER_WAKE_CONSUME = ''worker_wake_consume''"

definition bytes_identity :: "string \<Rightarrow> bool" where
  "bytes_identity t \<longleftrightarrow> char_of (0 :: nat) \<notin> set t \<and> length t \<le> 512"

definition hmac_key_ok :: "string \<Rightarrow> unit result" where
  "hmac_key_ok key = refuse_if (length key < 32)"

text \<open>\<^verbatim>\<open>Decimal(str(x))\<close> as a coefficient and the power of ten that divides it.\<close>

definition split_at :: "char \<Rightarrow> string \<Rightarrow> string \<times> string" where
  "split_at c s = (takeWhile (\<lambda>x. x \<noteq> c) s, drop 1 (dropWhile (\<lambda>x. x \<noteq> c) s))"

definition exponent_of :: "string \<Rightarrow> int" where
  "exponent_of s = (case s of [] \<Rightarrow> 0
     | c # cs \<Rightarrow> if c = CHR ''-'' then - int (read_nat cs) else if c = CHR ''+'' then int (read_nat cs) else int (read_nat s))"

definition decimal_of :: "string \<Rightarrow> nat \<times> int" where
  "decimal_of s =
     (let (mantissa, ex) = split_at CHR ''e'' s; (whole, frac) = split_at CHR ''.'' mantissa in
      (read_nat (whole @ frac), int (length frac) - exponent_of ex))"

fun number_text :: "platform \<Rightarrow> number \<Rightarrow> string" where
  "number_text pf (IntNum i) = int_text i"
| "number_text pf (FloatNum x) = pf_repr pf x"
| "number_text pf NanNum = ''nan''"

text \<open>The default decimal context: 28 significant digits, half to even.\<close>

definition half_even :: "nat \<Rightarrow> nat \<Rightarrow> nat" where
  "half_even n d = (let q = n div d; r = n mod d in if 2 * r > d \<or> 2 * r = d \<and> odd q then q + 1 else q)"

definition decimal_context :: "nat \<Rightarrow> nat" where
  "decimal_context n = (let k = length (nat_digits n) - 28 in half_even n (10 ^ k) * 10 ^ k)"

definition rollout_threshold :: "platform \<Rightarrow> number \<Rightarrow> int" where
  "rollout_threshold pf percent =
     (let (m, k) = decimal_of (number_text pf percent); n = int (decimal_context (m * 2 ^ 64)) in
      if k + 2 \<ge> 0 then n div 10 ^ nat (k + 2) else n * 10 ^ nat (- (k + 2)))"

text \<open>\<^verbatim>\<open>len(x).to_bytes(2, "big")\<close> and \<^verbatim>\<open>int.from_bytes(digest[:8], "big")\<close> of a digest in hexadecimal.\<close>

definition two_bytes :: "nat \<Rightarrow> string" where
  "two_bytes n = [char_of (n div 256), char_of (n mod 256)]"

definition hex_value :: "string \<Rightarrow> nat" where
  "hex_value s = foldl (\<lambda>n c. 16 * n + (let v = of_char c in if v \<ge> 97 then v - 87 else v - 48)) 0 s"

definition cohort_bucket :: "platform \<Rightarrow> string \<Rightarrow> string \<Rightarrow> string \<Rightarrow> int" where
  "cohort_bucket pf tenant_id secret version =
     int (hex_value (take 16 (pf_hmac pf secret (''forge-replay:redis-canary:tenant:v1'' @ [char_of (0 :: nat)] @
       two_bytes (length version) @ version @ two_bytes (length tenant_id) @ tenant_id))))"

definition tenant_in_canary_percent :: "platform \<Rightarrow> string \<Rightarrow> number \<Rightarrow> string \<Rightarrow> string \<Rightarrow> bool result" where
  "tenant_in_canary_percent pf tenant_id percent secret cohort_version =
     bindE (all_ok [refuse_if (tenant_id = [] \<or> \<not> bytes_identity tenant_id), percent_number percent, hmac_key_ok secret,
       refuse_if (\<not> version_match cohort_version)]) (\<lambda>_.
     if num_value percent = 0 then Inr False
     else if num_value percent = 100 then Inr True
     else Inr (cohort_bucket pf tenant_id secret cohort_version < rollout_threshold pf percent))"

section \<open>Stages\<close>

datatype rollout_stage = STAGE_OFF | STAGE_SHADOW | CANARY_1 | CANARY_5 | CANARY_25 | STAGE_FULL

fun stage_value :: "rollout_stage \<Rightarrow> string" where
  "stage_value STAGE_OFF = ''off''"
| "stage_value STAGE_SHADOW = ''shadow''"
| "stage_value CANARY_1 = ''1''"
| "stage_value CANARY_5 = ''5''"
| "stage_value CANARY_25 = ''25''"
| "stage_value STAGE_FULL = ''100''"

fun stage_percent :: "rollout_stage \<Rightarrow> number" where
  "stage_percent STAGE_OFF = FloatNum 0"
| "stage_percent STAGE_SHADOW = FloatNum 0"
| "stage_percent CANARY_1 = FloatNum 1"
| "stage_percent CANARY_5 = FloatNum 5"
| "stage_percent CANARY_25 = FloatNum 25"
| "stage_percent STAGE_FULL = FloatNum 100"

fun stage_index :: "rollout_stage \<Rightarrow> nat" where
  "stage_index STAGE_OFF = 0"
| "stage_index STAGE_SHADOW = 1"
| "stage_index CANARY_1 = 2"
| "stage_index CANARY_5 = 3"
| "stage_index CANARY_25 = 4"
| "stage_index STAGE_FULL = 5"

definition serving :: "rollout_stage \<Rightarrow> bool" where
  "serving s \<longleftrightarrow> s \<notin> {STAGE_OFF, STAGE_SHADOW}"

definition tenant_in_canary_cohort :: "platform \<Rightarrow> string \<Rightarrow> rollout_stage \<Rightarrow> string \<Rightarrow> string \<Rightarrow> bool result" where
  "tenant_in_canary_cohort pf tenant_id s secret cohort_version =
     tenant_in_canary_percent pf tenant_id (stage_percent s) secret cohort_version"

section \<open>Observations\<close>

record cohort_metrics =
  cx_sample_count :: int
  cx_latency_p95_ms :: number
  cx_error_rate_percent :: number
  cx_redis_fallback_recovery_seconds :: number
  cx_outbox_lag_p95_seconds :: number

definition cohort_metrics_ok :: "cohort_metrics \<Rightarrow> unit result" where
  "cohort_metrics_ok c = all_ok [refuse_if (cx_sample_count c < 0), non_negative_number (cx_latency_p95_ms c),
     percent_number (cx_error_rate_percent c), non_negative_number (cx_redis_fallback_recovery_seconds c),
     non_negative_number (cx_outbox_lag_p95_seconds c)]"

record hard_safety_counters =
  hs_duplicate_external_effects :: int
  hs_approval_bypasses :: int
  hs_budget_bypasses :: int
  hs_authorization_bypasses :: int
  hs_cross_tenant_or_pool_leaks :: int
  hs_stale_fence_accepts :: int
  hs_prompt_integrity_violations :: int

definition hard_safety_items :: "hard_safety_counters \<Rightarrow> (string \<times> int) list" where
  "hard_safety_items h = [(''duplicate_external_effects'', hs_duplicate_external_effects h),
     (''approval_bypasses'', hs_approval_bypasses h), (''budget_bypasses'', hs_budget_bypasses h),
     (''authorization_bypasses'', hs_authorization_bypasses h), (''cross_tenant_or_pool_leaks'', hs_cross_tenant_or_pool_leaks h),
     (''stale_fence_accepts'', hs_stale_fence_accepts h), (''prompt_integrity_violations'', hs_prompt_integrity_violations h)]"

definition hard_safety_ok :: "hard_safety_counters \<Rightarrow> unit result" where
  "hard_safety_ok h = refuse_if (list_ex (\<lambda>(_, v). v < 0) (hard_safety_items h))"

definition hard_safety_total :: "hard_safety_counters \<Rightarrow> int" where
  "hard_safety_total h = sum_list (map snd (hard_safety_items h))"

definition hard_safety_json :: "hard_safety_counters \<Rightarrow> json" where
  "hard_safety_json h = JObj (map (\<lambda>(k, v). (k, JInt v)) (hard_safety_items h))"

record canary_observation =
  co_capability :: redis_capability
  co_context :: release_context
  co_stage :: rollout_stage
  co_observed_from :: instant
  co_observed_until :: instant
  co_control :: cohort_metrics
  co_candidate :: cohort_metrics
  co_hard_safety :: hard_safety_counters
  co_consecutive_breaching_windows :: int

definition observation_ok :: "canary_observation \<Rightarrow> unit result" where
  "observation_ok b = all_ok [release_context_ok (co_context b), cohort_metrics_ok (co_control b),
     cohort_metrics_ok (co_candidate b), hard_safety_ok (co_hard_safety b),
     refuse_if (co_observed_until b \<le> co_observed_from b), refuse_if (co_consecutive_breaching_windows b < 0)]"

text \<open>\<^verbatim>\<open>isoformat()\<close> with \<open>Z\<close>: a fraction only when there is one.\<close>

definition iso_text :: "instant \<Rightarrow> string" where
  "iso_text t = (let s = iso_timestamp t in if t mod 1000000 = 0 then take (length s - 8) s @ ''Z'' else s)"

definition metrics_payload :: "platform \<Rightarrow> cohort_metrics \<Rightarrow> json" where
  "metrics_payload pf c = JObj [(''error_rate_percent'', num_json pf (cx_error_rate_percent c)),
     (''latency_p95_ms'', num_json pf (cx_latency_p95_ms c)), (''outbox_lag_p95_seconds'', num_json pf (cx_outbox_lag_p95_seconds c)),
     (''redis_fallback_recovery_seconds'', num_json pf (cx_redis_fallback_recovery_seconds c)),
     (''sample_count'', JInt (cx_sample_count c))]"

definition observation_payload :: "platform \<Rightarrow> canary_observation \<Rightarrow> json" where
  "observation_payload pf b = JObj [(''candidate'', metrics_payload pf (co_candidate b)),
     (''capability'', JStr (capability_value (co_capability b))), (''context'', context_payload (co_context b)),
     (''control'', metrics_payload pf (co_control b)),
     (''consecutive_breaching_windows'', JInt (co_consecutive_breaching_windows b)),
     (''hard_safety'', hard_safety_json (co_hard_safety b)), (''observed_from'', JStr (iso_text (co_observed_from b))),
     (''observed_until'', JStr (iso_text (co_observed_until b))), (''stage'', JStr (stage_value (co_stage b)))]"

definition observation_sha256 :: "platform \<Rightarrow> canary_observation \<Rightarrow> string" where
  "observation_sha256 pf b = pf_sha256 pf (canonical_json (observation_payload pf b))"

section \<open>Signed evidence\<close>

record evidence_envelope =
  ev_capability :: redis_capability
  ev_context :: release_context
  ev_artifact_sha256 :: string
  ev_observation_sha256 :: string
  ev_observed_from :: instant
  ev_observed_until :: instant
  ev_expires_at :: instant
  ev_tested_stage :: rollout_stage
  ev_sample_count :: int
  ev_key_id :: string
  ev_signature :: string
  ev_previous_evidence_sha256 :: "string option"

definition opt_sha_ok :: "string option \<Rightarrow> bool" where
  "opt_sha_ok s \<longleftrightarrow> (case s of None \<Rightarrow> True | Some t \<Rightarrow> sha256_text t)"

definition envelope_ok :: "evidence_envelope \<Rightarrow> unit result" where
  "envelope_ok e = all_ok [refuse_if (\<not> sha256_text (ev_artifact_sha256 e)), refuse_if (\<not> sha256_text (ev_observation_sha256 e)),
     refuse_if (\<not> opt_sha_ok (ev_previous_evidence_sha256 e)), refuse_if (ev_observed_until e \<le> ev_observed_from e),
     refuse_if (ev_expires_at e \<le> ev_observed_until e), refuse_if (ev_sample_count e < 0),
     refuse_if (\<not> key_id_match (ev_key_id e)), refuse_if (\<not> sha256_text (ev_signature e))]"

definition signed_items :: "evidence_envelope \<Rightarrow> (string \<times> json) list" where
  "signed_items e = [(''artifact_sha256'', JStr (ev_artifact_sha256 e)), (''capability'', JStr (capability_value (ev_capability e))),
     (''context'', context_payload (ev_context e)), (''expires_at'', JStr (iso_text (ev_expires_at e))),
     (''key_id'', JStr (ev_key_id e)), (''observation_sha256'', JStr (ev_observation_sha256 e)),
     (''observed_from'', JStr (iso_text (ev_observed_from e))), (''observed_until'', JStr (iso_text (ev_observed_until e))),
     (''previous_evidence_sha256'', opt_text (ev_previous_evidence_sha256 e)), (''sample_count'', JInt (ev_sample_count e)),
     (''schema_version'', JInt 1), (''tested_stage'', JStr (stage_value (ev_tested_stage e)))]"

definition evidence_mac :: "platform \<Rightarrow> string \<Rightarrow> evidence_envelope \<Rightarrow> string" where
  "evidence_mac pf key e = pf_hmac pf key (''forge-replay:redis-canary:evidence:v1'' @ [char_of (0 :: nat)] @
     canonical_json (JObj (signed_items e)))"

definition sign_evidence ::
  "platform \<Rightarrow> canary_observation \<Rightarrow> string \<Rightarrow> instant \<Rightarrow> string \<Rightarrow> string \<Rightarrow> string option \<Rightarrow> evidence_envelope result" where
  "sign_evidence pf b artifact_sha256 expires_at key_id key previous =
     bindE (hmac_key_ok key) (\<lambda>_.
     let unsigned = \<lparr>ev_capability = co_capability b, ev_context = co_context b, ev_artifact_sha256 = artifact_sha256,
           ev_observation_sha256 = observation_sha256 pf b, ev_observed_from = co_observed_from b,
           ev_observed_until = co_observed_until b, ev_expires_at = expires_at, ev_tested_stage = co_stage b,
           ev_sample_count = cx_sample_count (co_candidate b), ev_key_id = key_id, ev_signature = replicate 64 CHR ''0'',
           ev_previous_evidence_sha256 = previous\<rparr> in
     bindE (envelope_ok unsigned) (\<lambda>_.
     let signed = unsigned\<lparr>ev_signature := evidence_mac pf key unsigned\<rparr> in
     bindE (envelope_ok signed) (\<lambda>_. Inr signed)))"

definition verify_evidence :: "platform \<Rightarrow> string \<Rightarrow> evidence_envelope \<Rightarrow> bool result" where
  "verify_evidence pf key e = bindE (hmac_key_ok key) (\<lambda>_. Inr (evidence_mac pf key e = ev_signature e))"

definition evidence_sha256 :: "platform \<Rightarrow> evidence_envelope \<Rightarrow> string" where
  "evidence_sha256 pf e = pf_sha256 pf (canonical_json (JObj (signed_items e @ [(''signature'', JStr (ev_signature e))])))"

section \<open>The gate\<close>

record gate_policy =
  gp_minimum_observation :: int
  gp_minimum_control_samples :: int
  gp_minimum_candidate_samples :: int
  gp_max_latency_regression_percent :: number
  gp_max_error_rate_percent :: number
  gp_max_error_rate_delta_percent :: number
  gp_max_api_rate_limit_latency_ms :: number
  gp_max_worker_wake_latency_ms :: number
  gp_max_redis_fallback_recovery_seconds :: number
  gp_max_outbox_lag_p95_seconds :: number

definition minutes :: "int \<Rightarrow> int" where
  "minutes n = n * 60000000"

definition gate_policy_ok :: "gate_policy \<Rightarrow> unit result" where
  "gate_policy_ok p = all_ok [refuse_if (gp_minimum_observation p < minutes 30),
     refuse_if (gp_minimum_control_samples p < 1), refuse_if (gp_minimum_candidate_samples p < 1),
     percent_number (gp_max_latency_regression_percent p), percent_number (gp_max_error_rate_percent p),
     percent_number (gp_max_error_rate_delta_percent p), positive_number (gp_max_api_rate_limit_latency_ms p),
     positive_number (gp_max_worker_wake_latency_ms p), positive_number (gp_max_redis_fallback_recovery_seconds p),
     positive_number (gp_max_outbox_lag_p95_seconds p)]"

record authorization =
  au_capability :: redis_capability
  au_context :: release_context
  au_stage :: rollout_stage
  au_issued_at :: instant
  au_evidence_sha256 :: "string option"

definition authorization_ok :: "authorization \<Rightarrow> unit result" where
  "authorization_ok a = all_ok [refuse_if (\<not> opt_sha_ok (au_evidence_sha256 a)),
     refuse_if (serving (au_stage a) = (au_evidence_sha256 a = None))]"

definition authorization_new :: "authorization \<Rightarrow> authorization result" where
  "authorization_new a = bindE (authorization_ok a) (\<lambda>_. Inr a)"

text \<open>A decision of the gate: an authorization, or the reasons against it.\<close>

type_synonym gate_decision = "string list + authorization"

record canary_gate =
  ga_keys :: "(string \<times> string) list"
  ga_policy :: gate_policy

definition canary_gate_new :: "canary_gate \<Rightarrow> canary_gate result" where
  "canary_gate_new g = bindE (all_ok (gate_policy_ok (ga_policy g) #
     map (\<lambda>(key_id, key). bindE (refuse_if (\<not> key_id_match key_id)) (\<lambda>_. hmac_key_ok key)) (ga_keys g))) (\<lambda>_. Inr g)"

definition soft_reasons :: "canary_gate \<Rightarrow> platform \<Rightarrow> redis_capability \<Rightarrow> canary_observation \<Rightarrow> string list" where
  "soft_reasons g pf capability b =
     (let p = ga_policy g; candidate = co_candidate b; control = co_control b; v = num_value;
          permitted = num_mul pf (cx_latency_p95_ms control)
            (num_add pf (IntNum 1) (num_hundredth pf (gp_max_latency_regression_percent p))) in
      flag (v (cx_latency_p95_ms candidate) > v permitted) ''latency_regression'' @
      flag (capability = API_RATE_LIMIT_ENFORCE \<and> v (cx_latency_p95_ms candidate) \<ge> v (gp_max_api_rate_limit_latency_ms p) \<or>
            capability = WORKER_WAKE_CONSUME \<and> v (cx_latency_p95_ms candidate) > v (gp_max_worker_wake_latency_ms p))
        ''latency_slo_exceeded'' @
      flag (v (cx_error_rate_percent candidate) > v (gp_max_error_rate_percent p) \<or>
            v (cx_error_rate_percent candidate) >
              v (num_add pf (cx_error_rate_percent control) (gp_max_error_rate_delta_percent p))) ''error_rate_regression'' @
      flag (v (cx_redis_fallback_recovery_seconds candidate) \<ge> v (gp_max_redis_fallback_recovery_seconds p))
        ''redis_fallback_slo_exceeded'' @
      flag (v (cx_outbox_lag_p95_seconds candidate) \<ge> v (gp_max_outbox_lag_p95_seconds p)) ''outbox_lag_slo_exceeded'')"

definition signature_reasons :: "canary_gate \<Rightarrow> platform \<Rightarrow> evidence_envelope \<Rightarrow> string list result" where
  "signature_reasons g pf e = (case map_of (ga_keys g) (ev_key_id e) of
       None \<Rightarrow> Inr [''untrusted_evidence_key'']
     | Some key \<Rightarrow> bindE (verify_evidence pf key e) (\<lambda>ok. Inr (flag (\<not> ok) ''evidence_signature_invalid'')))"

definition hard_reasons ::
  "canary_gate \<Rightarrow> platform \<Rightarrow> redis_capability \<Rightarrow> release_context \<Rightarrow> rollout_stage \<Rightarrow> string option \<Rightarrow> instant
     \<Rightarrow> evidence_envelope \<Rightarrow> canary_observation \<Rightarrow> string list" where
  "hard_reasons g pf capability x current_stage current_evidence now e b =
     flag (ev_capability e \<noteq> capability) ''evidence_capability_mismatch'' @
     flag (ev_context e \<noteq> x) ''evidence_context_mismatch'' @
     flag (ev_tested_stage e \<noteq> current_stage) ''evidence_stage_mismatch'' @
     flag (ev_previous_evidence_sha256 e \<noteq> current_evidence) ''previous_evidence_mismatch'' @
     flag (ev_observed_until e > now) ''evidence_observation_in_future'' @
     flag (ev_expires_at e \<le> now) ''evidence_expired'' @
     flag (co_capability b \<noteq> capability) ''observation_capability_mismatch'' @
     flag (co_context b \<noteq> x) ''observation_context_mismatch'' @
     flag (co_stage b \<noteq> current_stage) ''observation_stage_mismatch'' @
     flag (observation_sha256 pf b \<noteq> ev_observation_sha256 e) ''observation_digest_mismatch'' @
     flag (co_observed_from b \<noteq> ev_observed_from e \<or> co_observed_until b \<noteq> ev_observed_until e) ''observation_window_mismatch'' @
     flag (ev_sample_count e \<noteq> cx_sample_count (co_candidate b)) ''evidence_sample_count_mismatch'' @
     flag (co_observed_until b - co_observed_from b < gp_minimum_observation (ga_policy g)) ''observation_window_too_short'' @
     flag (cx_sample_count (co_control b) < gp_minimum_control_samples (ga_policy g)) ''insufficient_control_samples'' @
     flag (cx_sample_count (co_candidate b) < gp_minimum_candidate_samples (ga_policy g)) ''insufficient_candidate_samples'' @
     flag (hard_safety_total (co_hard_safety b) \<noteq> 0) ''hard_safety_violation''"

text \<open>\<^verbatim>\<open>list(dict.fromkeys(values))\<close>\<close>

definition deduplicate :: "string list \<Rightarrow> string list" where
  "deduplicate xs = rev (remdups (rev xs))"

definition validate_evidence ::
  "canary_gate \<Rightarrow> platform \<Rightarrow> redis_capability \<Rightarrow> release_context \<Rightarrow> rollout_stage \<Rightarrow> string option \<Rightarrow> instant
     \<Rightarrow> evidence_envelope \<Rightarrow> canary_observation \<Rightarrow> string list result" where
  "validate_evidence g pf capability x current_stage current_evidence now e b =
     bindE (signature_reasons g pf e) (\<lambda>signature.
     Inr (deduplicate (signature @ hard_reasons g pf capability x current_stage current_evidence now e b @
       soft_reasons g pf capability b)))"

text \<open>Errors of the report are \<^verbatim>\<open>ValueError\<close>.\<close>

definition validate_capacity_report ::
  "platform \<Rightarrow> release_context \<Rightarrow> evidence_envelope \<Rightarrow> capacity_report option \<Rightarrow> string list" where
  "validate_capacity_report pf x e report = (case report of
       None \<Rightarrow> [''capacity_report_required'']
     | Some r \<Rightarrow>
         (case bindE (capacity_sha256 pf r) (\<lambda>sha. bindE (capacity_matches_context pf r x) (\<lambda>matches. Inr (sha, matches))) of
            Inl _ \<Rightarrow> [''capacity_report_invalid'']
          | Inr (sha, matches) \<Rightarrow>
              flag (sha \<noteq> ev_artifact_sha256 e) ''capacity_artifact_digest_mismatch'' @
              flag (\<not> matches) ''capacity_context_mismatch'' @
              flag (\<not> cd_allowed (cr_decision r)) ''capacity_gate_failed''))"

definition authorize :: "redis_capability \<Rightarrow> release_context \<Rightarrow> rollout_stage \<Rightarrow> instant \<Rightarrow> string option \<Rightarrow> gate_decision result" where
  "authorize capability x s now evidence =
     bindE (authorization_new \<lparr>au_capability = capability, au_context = x, au_stage = s, au_issued_at = now,
       au_evidence_sha256 = evidence\<rparr>) (\<lambda>a. Inr (Inr a))"

definition evaluate_transition ::
  "canary_gate \<Rightarrow> platform \<Rightarrow> redis_capability \<Rightarrow> release_context \<Rightarrow> authorization option \<Rightarrow> rollout_stage \<Rightarrow> instant
     \<Rightarrow> evidence_envelope option \<Rightarrow> canary_observation option \<Rightarrow> capacity_report option \<Rightarrow> gate_decision result" where
  "evaluate_transition g pf capability x current target now evidence observation report =
     bindE (all_ok [gate_policy_ok (ga_policy g), release_context_ok x,
       case current of None \<Rightarrow> Inr () | Some a \<Rightarrow> authorization_ok a]) (\<lambda>_.
     let mismatch = (case current of None \<Rightarrow> False | Some a \<Rightarrow> au_capability a \<noteq> capability \<or> au_context a \<noteq> x);
         current_stage = (case current of None \<Rightarrow> STAGE_OFF | Some a \<Rightarrow> au_stage a);
         current_evidence = (case current of None \<Rightarrow> None | Some a \<Rightarrow> au_evidence_sha256 a) in
     if mismatch then Inr (Inl [''current_authorization_mismatch''])
     else if stage_index target = stage_index current_stage
     then (case current of Some a \<Rightarrow> Inr (Inr a) | None \<Rightarrow> authorize capability x target now None)
     else if stage_index target < stage_index current_stage
     then authorize capability x target now (if serving target then current_evidence else None)
     else if stage_index target \<noteq> stage_index current_stage + 1 then Inr (Inl [''non_adjacent_upgrade''])
     else if target = STAGE_SHADOW then authorize capability x target now None
     else case evidence of
       None \<Rightarrow> Inr (Inl [''evidence_required''])
     | Some e \<Rightarrow>
         (case observation of
            None \<Rightarrow> Inr (Inl [''observation_required''])
          | Some b \<Rightarrow>
              bindE (envelope_ok e) (\<lambda>_.
              bindE (observation_ok b) (\<lambda>_.
              bindE (validate_evidence g pf capability x current_stage current_evidence now e b) (\<lambda>evidence_reasons.
              let reasons = evidence_reasons @
                    (if target = CANARY_1 then validate_capacity_report pf x e report else []) in
              if reasons \<noteq> [] then (if distinct reasons then Inr (Inl reasons) else Inl ValueError)
              else authorize capability x target now (Some (evidence_sha256 pf e)))))))"

text \<open>A health decision: the reasons against, and the authorization to roll back to.\<close>

definition evaluate_runtime_health ::
  "canary_gate \<Rightarrow> platform \<Rightarrow> authorization \<Rightarrow> instant \<Rightarrow> evidence_envelope \<Rightarrow> canary_observation
     \<Rightarrow> (string list \<times> authorization option) result" where
  "evaluate_runtime_health g pf current now e b =
     bindE (all_ok [authorization_ok current, gate_policy_ok (ga_policy g), envelope_ok e, observation_ok b]) (\<lambda>_.
     if \<not> serving (au_stage current) then Inr ([], None)
     else
       bindE (validate_evidence g pf (au_capability current) (au_context current) (au_stage current)
         (au_evidence_sha256 current) now e b) (\<lambda>reasons.
       let soft_codes = [''latency_regression'', ''latency_slo_exceeded'', ''error_rate_regression'',
             ''redis_fallback_slo_exceeded'', ''outbox_lag_slo_exceeded''] in
       if reasons = [] then Inr ([], None)
       else if set reasons \<subseteq> set soft_codes \<and> co_consecutive_breaching_windows b < 2 then Inr (reasons, None)
       else
         bindE (authorization_new \<lparr>au_capability = au_capability current, au_context = au_context current,
           au_stage = (if ''hard_safety_violation'' \<in> set reasons then STAGE_OFF else STAGE_SHADOW), au_issued_at = now,
           au_evidence_sha256 = None\<rparr>) (\<lambda>a. Inr (reasons, Some a))))"

section \<open>The manifest\<close>

record manifest =
  mf_context :: release_context
  mf_generation :: int
  mf_authorizations :: "authorization list"

definition manifest_ok :: "manifest \<Rightarrow> unit result" where
  "manifest_ok m = all_ok ([release_context_ok (mf_context m), refuse_if (mf_generation m < 1)] @
     map (\<lambda>a. bindE (authorization_ok a) (\<lambda>_. refuse_if (au_context a \<noteq> mf_context m))) (mf_authorizations m) @
     [refuse_if (\<not> distinct (map au_capability (mf_authorizations m)))])"

definition authorization_for :: "manifest \<Rightarrow> redis_capability \<Rightarrow> authorization option" where
  "authorization_for m capability = find (\<lambda>a. au_capability a = capability) (mf_authorizations m)"

definition identity_ok :: "string \<Rightarrow> bool" where
  "identity_ok s \<longleftrightarrow> \<not> blank s \<and> bytes_identity s"

fun generations_match :: "int \<Rightarrow> (string \<times> int) list \<Rightarrow> bool result" where
  "generations_match n [] = Inr True"
| "generations_match n ((_, g) # gs) =
     (if g < 1 then Inl ValueError else if g \<noteq> n then Inr False else generations_match n gs)"

definition has_converged :: "manifest \<Rightarrow> (string \<times> int) list \<Rightarrow> string list \<Rightarrow> bool result" where
  "has_converged m applied expected =
     (if expected = [] then Inr False
      else bindE (refuse_if (\<not> distinct expected)) (\<lambda>_.
        bindE (refuse_if (\<not> list_all identity_ok expected)) (\<lambda>_.
        if fst ` set applied \<noteq> set expected then Inr False
        else generations_match (mf_generation m) applied)))"

definition apply_authorization ::
  "manifest \<Rightarrow> authorization \<Rightarrow> int \<Rightarrow> string list \<Rightarrow> (string \<times> int) list option \<Rightarrow> manifest result" where
  "apply_authorization m a expected_generation expected applied =
     bindE (manifest_ok m) (\<lambda>_.
     bindE (refuse_if (expected_generation \<noteq> mf_generation m)) (\<lambda>_.
     bindE (authorization_ok a) (\<lambda>_.
     bindE (refuse_if (au_context a \<noteq> mf_context m)) (\<lambda>_.
     let current_index = (case authorization_for m (au_capability a) of None \<Rightarrow> 0 | Some c \<Rightarrow> stage_index (au_stage c));
         target_index = stage_index (au_stage a) in
     bindE (refuse_if (target_index > current_index + 1)) (\<lambda>_.
     bindE (if target_index > current_index \<and> au_stage a \<noteq> STAGE_SHADOW
       then has_converged m (case applied of None \<Rightarrow> [] | Some gs \<Rightarrow> gs) expected else Inr True) (\<lambda>converged.
     bindE (refuse_if (\<not> converged)) (\<lambda>_.
     let m' = \<lparr>mf_context = mf_context m, mf_generation = mf_generation m + 1,
           mf_authorizations = filter (\<lambda>c. au_capability c \<noteq> au_capability a) (mf_authorizations m) @ [a]\<rparr> in
     bindE (manifest_ok m') (\<lambda>_. Inr m'))))))))"

record manifest_policy =
  mp_manifest :: manifest
  mp_cohort_secret :: string
  mp_expected_context :: release_context

definition manifest_policy_new :: "manifest_policy \<Rightarrow> manifest_policy result" where
  "manifest_policy_new p = bindE (all_ok [manifest_ok (mp_manifest p), release_context_ok (mp_expected_context p),
     refuse_if (mf_context (mp_manifest p) \<noteq> mp_expected_context p), hmac_key_ok (mp_cohort_secret p)]) (\<lambda>_. Inr p)"

definition manifest_allows :: "platform \<Rightarrow> manifest_policy \<Rightarrow> redis_capability \<Rightarrow> string \<Rightarrow> bool result" where
  "manifest_allows pf p capability tenant_id =
     bindE (all_ok [refuse_if (\<not> identity_ok tenant_id), manifest_ok (mp_manifest p), release_context_ok (mp_expected_context p)]) (\<lambda>_.
     if mf_context (mp_manifest p) \<noteq> mp_expected_context p then Inr False
     else case authorization_for (mp_manifest p) capability of
       None \<Rightarrow> Inr False
     | Some a \<Rightarrow> tenant_in_canary_cohort pf tenant_id (au_stage a) (mp_cohort_secret p) (rx_cohort_version (mf_context (mp_manifest p))))"

end
