(* ===== verification/Evidence.thy ===== *)
theory Evidence
  imports Release
begin

text \<open>
  The signing boundary of release evidence (\<^verbatim>\<open>production/evidence_signing.py\<close>): runners attest
  the capacity and fault reports, the release signer checks both before it signs the envelope
  and a receipt, and a retained package is checked again before it is used.
\<close>

section \<open>Attestations and receipts\<close>

datatype artifact_kind = AK_CAPACITY | AK_FAULT_DRILL

fun artifact_kind_value :: "artifact_kind \<Rightarrow> string" where
  "artifact_kind_value AK_CAPACITY = ''capacity''"
| "artifact_kind_value AK_FAULT_DRILL = ''fault_drill''"

text \<open>\<^verbatim>\<open>EvidenceRunOutcome\<close> is whether the run passed; services, source and schema version are fixed.\<close>

record attestation =
  at_artifact_kind :: artifact_kind
  at_context :: release_context
  at_execution_id :: string
  at_started_at :: instant
  at_finished_at :: instant
  at_report_sha256 :: string
  at_raw_results_sha256 :: string
  at_isolation_sha256 :: string
  at_runner_build_sha256 :: string
  at_passed :: bool
  at_failure_codes :: "string list"
  at_runner_key_id :: string
  at_signature :: string

definition attestation_ok :: "attestation \<Rightarrow> unit result" where
  "attestation_ok t = all_ok [release_context_ok (at_context t), refuse_if (\<not> name_match True ''_.:-'' 127 (at_execution_id t)),
     refuse_if (at_finished_at t \<le> at_started_at t), refuse_if (at_finished_at t - at_started_at t > minutes 360),
     refuse_if (\<not> list_all sha256_text [at_report_sha256 t, at_raw_results_sha256 t, at_isolation_sha256 t, at_runner_build_sha256 t]),
     refuse_if (\<not> list_all code_match (at_failure_codes t)), refuse_if (\<not> distinct (at_failure_codes t)),
     refuse_if (at_passed t \<noteq> (at_failure_codes t = [])), refuse_if (\<not> key_id_match (at_runner_key_id t)),
     refuse_if (\<not> sha256_text (at_signature t))]"

definition attestation_items :: "attestation \<Rightarrow> (string \<times> json) list" where
  "attestation_items t = [(''artifact_kind'', JStr (artifact_kind_value (at_artifact_kind t))),
     (''context'', context_payload (at_context t)), (''execution_id'', JStr (at_execution_id t)),
     (''failure_codes'', JArr (map JStr (at_failure_codes t))), (''finished_at'', JStr (iso_text (at_finished_at t))),
     (''isolation_sha256'', JStr (at_isolation_sha256 t)), (''outcome'', JStr (if at_passed t then ''passed'' else ''failed'')),
     (''raw_results_sha256'', JStr (at_raw_results_sha256 t)), (''report_sha256'', JStr (at_report_sha256 t)),
     (''runner_build_sha256'', JStr (at_runner_build_sha256 t)), (''runner_key_id'', JStr (at_runner_key_id t)),
     (''schema_version'', JInt 1), (''services'', JArr [JStr ''postgresql'', JStr ''redis'']),
     (''source'', JStr ''live_external_services''), (''started_at'', JStr (iso_text (at_started_at t)))]"

definition attestation_mac :: "platform \<Rightarrow> string \<Rightarrow> attestation \<Rightarrow> string" where
  "attestation_mac pf key t = pf_hmac pf key (''forge-replay:live-runner-attestation:v1'' @ [char_of (0 :: nat)] @
     canonical_json (JObj (attestation_items t)))"

text \<open>The attestation to sign is given with any signature.\<close>

definition sign_attestation :: "platform \<Rightarrow> string \<Rightarrow> attestation \<Rightarrow> attestation result" where
  "sign_attestation pf key t =
     bindE (hmac_key_ok key) (\<lambda>_.
     let unsigned = t\<lparr>at_signature := replicate 64 CHR ''0''\<rparr> in
     bindE (attestation_ok unsigned) (\<lambda>_.
     let signed = unsigned\<lparr>at_signature := attestation_mac pf key unsigned\<rparr> in
     bindE (attestation_ok signed) (\<lambda>_. Inr signed)))"

definition verify_attestation_mac :: "platform \<Rightarrow> string \<Rightarrow> attestation \<Rightarrow> bool result" where
  "verify_attestation_mac pf key t =
     bindE (attestation_ok t) (\<lambda>_. bindE (hmac_key_ok key) (\<lambda>_. Inr (attestation_mac pf key t = at_signature t)))"

definition attestation_sha256 :: "platform \<Rightarrow> attestation \<Rightarrow> string result" where
  "attestation_sha256 pf t = bindE (attestation_ok t) (\<lambda>_.
     Inr (pf_sha256 pf (canonical_json (JObj (attestation_items t @ [(''signature'', JStr (at_signature t))])))))"

record receipt =
  sr_context :: release_context
  sr_evidence_sha256 :: string
  sr_capacity_attestation_sha256 :: string
  sr_fault_attestation_sha256 :: string
  sr_signed_at :: instant
  sr_signing_key_id :: string
  sr_signature :: string

definition receipt_ok :: "receipt \<Rightarrow> unit result" where
  "receipt_ok r = all_ok [release_context_ok (sr_context r),
     refuse_if (\<not> list_all sha256_text [sr_evidence_sha256 r, sr_capacity_attestation_sha256 r, sr_fault_attestation_sha256 r]),
     refuse_if (\<not> key_id_match (sr_signing_key_id r)), refuse_if (\<not> sha256_text (sr_signature r))]"

definition receipt_mac :: "platform \<Rightarrow> string \<Rightarrow> receipt \<Rightarrow> string" where
  "receipt_mac pf key r = pf_hmac pf key (''forge-replay:evidence-signing-receipt:v1'' @ [char_of (0 :: nat)] @
     canonical_json (JObj [(''capacity_attestation_sha256'', JStr (sr_capacity_attestation_sha256 r)),
       (''context'', context_payload (sr_context r)), (''evidence_sha256'', JStr (sr_evidence_sha256 r)),
       (''fault_attestation_sha256'', JStr (sr_fault_attestation_sha256 r)), (''schema_version'', JInt 1),
       (''signed_at'', JStr (iso_text (sr_signed_at r))), (''signing_key_id'', JStr (sr_signing_key_id r))]))"

definition sign_receipt :: "platform \<Rightarrow> string \<Rightarrow> receipt \<Rightarrow> receipt result" where
  "sign_receipt pf key r =
     bindE (hmac_key_ok key) (\<lambda>_.
     let unsigned = r\<lparr>sr_signature := replicate 64 CHR ''0''\<rparr> in
     bindE (receipt_ok unsigned) (\<lambda>_.
     let signed = unsigned\<lparr>sr_signature := receipt_mac pf key unsigned\<rparr> in
     bindE (receipt_ok signed) (\<lambda>_. Inr signed)))"

definition verify_receipt :: "platform \<Rightarrow> string \<Rightarrow> receipt \<Rightarrow> bool result" where
  "verify_receipt pf key r =
     bindE (receipt_ok r) (\<lambda>_. bindE (hmac_key_ok key) (\<lambda>_. Inr (receipt_mac pf key r = sr_signature r)))"

record admission_evidence =
  ae_envelope :: evidence_envelope
  ae_capacity_attestation :: attestation
  ae_fault_attestation :: attestation
  ae_receipt :: receipt

section \<open>The signer\<close>

record evidence_signer =
  es_runner_keys :: "(string \<times> string) list"
  es_signing_key_id :: string
  es_signing_key :: string
  es_maximum_attestation_age :: int
  es_maximum_evidence_ttl :: int

fun runner_keys_ok :: "string \<Rightarrow> string list \<Rightarrow> (string \<times> string) list \<Rightarrow> unit result" where
  "runner_keys_ok signing_key known [] = Inr ()"
| "runner_keys_ok signing_key known ((key_id, key) # keys) =
     bindE (refuse_if (\<not> key_id_match key_id)) (\<lambda>_. bindE (hmac_key_ok key) (\<lambda>_.
     bindE (refuse_if (key = signing_key)) (\<lambda>_. bindE (refuse_if (key \<in> set known)) (\<lambda>_.
     runner_keys_ok signing_key (key # known) keys))))"

definition evidence_signer_new :: "evidence_signer \<Rightarrow> evidence_signer result" where
  "evidence_signer_new g = bindE (all_ok [refuse_if (\<not> key_id_match (es_signing_key_id g)), hmac_key_ok (es_signing_key g),
     runner_keys_ok (es_signing_key g) [] (es_runner_keys g), refuse_if (es_runner_keys g = []),
     refuse_if (\<not> (0 < es_maximum_attestation_age g \<and> es_maximum_attestation_age g \<le> minutes 10080)),
     refuse_if (\<not> (0 < es_maximum_evidence_ttl g \<and> es_maximum_evidence_ttl g \<le> minutes 10080))]) (\<lambda>_. Inr g)"

definition verify_attestation ::
  "platform \<Rightarrow> evidence_signer \<Rightarrow> attestation \<Rightarrow> artifact_kind \<Rightarrow> release_context \<Rightarrow> instant \<Rightarrow> canary_observation option
     \<Rightarrow> unit result" where
  "verify_attestation pf g t kind x now observation =
     bindE (attestation_ok t) (\<lambda>_.
     bindE (refuse_if (at_artifact_kind t \<noteq> kind)) (\<lambda>_.
     bindE (refuse_if (at_context t \<noteq> x)) (\<lambda>_.
     bindE (refuse_if (\<not> at_passed t)) (\<lambda>_.
     bindE (case map_of (es_runner_keys g) (at_runner_key_id t) of None \<Rightarrow> Inr False | Some key \<Rightarrow> verify_attestation_mac pf key t) (\<lambda>ok.
     bindE (refuse_if (\<not> ok)) (\<lambda>_.
     bindE (refuse_if (at_finished_at t > now)) (\<lambda>_.
     bindE (refuse_if (now - at_finished_at t > es_maximum_attestation_age g)) (\<lambda>_.
     refuse_if (case observation of None \<Rightarrow> False | Some b \<Rightarrow> at_finished_at t > co_observed_until b)))))))))"

definition verify_reports ::
  "platform \<Rightarrow> capacity_report \<Rightarrow> fault_drill_report \<Rightarrow> release_context \<Rightarrow> attestation \<Rightarrow> attestation \<Rightarrow> unit result" where
  "verify_reports pf cap fault x cap_att fault_att =
     bindE (capacity_report_ok pf cap) (\<lambda>_.
     bindE (release_context_ok (fd_context fault)) (\<lambda>_.
     bindE (all_ok (map fault_result_ok (fd_results fault))) (\<lambda>_.
     bindE (fault_report_ok pf fault) (\<lambda>_.
     bindE (capacity_matches_context pf cap x) (\<lambda>matches.
     bindE (refuse_if (\<not> matches)) (\<lambda>_.
     bindE (refuse_if (fd_context fault \<noteq> x)) (\<lambda>_.
     bindE (refuse_if (\<not> cd_allowed (cr_decision cap))) (\<lambda>_.
     bindE (refuse_if (\<not> fault_qualifies fault)) (\<lambda>_.
     bindE (capacity_sha256 pf cap) (\<lambda>cap_sha.
     bindE (refuse_if (cap_sha \<noteq> at_report_sha256 cap_att)) (\<lambda>_.
     bindE (fault_sha256 pf fault) (\<lambda>fault_sha.
     bindE (refuse_if (fault_sha \<noteq> at_report_sha256 fault_att)) (\<lambda>_.
     refuse_if (fd_raw_results_sha256 fault \<noteq> at_raw_results_sha256 fault_att))))))))))))))"

definition sign_shadow_admission ::
  "platform \<Rightarrow> evidence_signer \<Rightarrow> release_context \<Rightarrow> canary_observation \<Rightarrow> capacity_report \<Rightarrow> fault_drill_report \<Rightarrow> attestation
     \<Rightarrow> attestation \<Rightarrow> instant \<Rightarrow> instant \<Rightarrow> string option \<Rightarrow> admission_evidence result" where
  "sign_shadow_admission pf g x b cap fault cap_att fault_att now expires_at previous =
     bindE (release_context_ok x) (\<lambda>_.
     bindE (observation_ok b) (\<lambda>_.
     bindE (verify_reports pf cap fault x cap_att fault_att) (\<lambda>_.
     bindE (refuse_if (co_context b \<noteq> x)) (\<lambda>_.
     bindE (refuse_if (co_stage b \<noteq> STAGE_SHADOW)) (\<lambda>_.
     bindE (refuse_if (co_observed_until b > now)) (\<lambda>_.
     bindE (refuse_if (\<not> (now < expires_at \<and> expires_at \<le> now + es_maximum_evidence_ttl g))) (\<lambda>_.
     bindE (verify_attestation pf g cap_att AK_CAPACITY x now (Some b)) (\<lambda>_.
     bindE (verify_attestation pf g fault_att AK_FAULT_DRILL x now (Some b)) (\<lambda>_.
     bindE (refuse_if (at_runner_key_id cap_att = at_runner_key_id fault_att)) (\<lambda>_.
     bindE (capacity_sha256 pf cap) (\<lambda>cap_sha.
     bindE (sign_evidence pf b cap_sha expires_at (es_signing_key_id g) (es_signing_key g) previous) (\<lambda>envelope.
     bindE (attestation_sha256 pf cap_att) (\<lambda>cap_att_sha.
     bindE (attestation_sha256 pf fault_att) (\<lambda>fault_att_sha.
     bindE (sign_receipt pf (es_signing_key g) \<lparr>sr_context = x, sr_evidence_sha256 = evidence_sha256 pf envelope,
       sr_capacity_attestation_sha256 = cap_att_sha, sr_fault_attestation_sha256 = fault_att_sha, sr_signed_at = now,
       sr_signing_key_id = es_signing_key_id g, sr_signature = []\<rparr>) (\<lambda>rcpt.
     Inr \<lparr>ae_envelope = envelope, ae_capacity_attestation = cap_att, ae_fault_attestation = fault_att, ae_receipt = rcpt\<rparr>)))))))))))))))"

text \<open>\<^verbatim>\<open>verify_package\<close>: whatever raises, the package is not valid.\<close>

definition package_checks :: "platform \<Rightarrow> evidence_signer \<Rightarrow> admission_evidence \<Rightarrow> release_context \<Rightarrow> instant \<Rightarrow> unit result" where
  "package_checks pf g p x now =
     (let e = ae_envelope p; r = ae_receipt p in
      bindE (all_ok [release_context_ok x, envelope_ok e, receipt_ok r,
        refuse_if (ev_context e \<noteq> x \<or> sr_context r \<noteq> x), refuse_if (ev_key_id e \<noteq> es_signing_key_id g)]) (\<lambda>_.
      bindE (verify_evidence pf (es_signing_key g) e) (\<lambda>ok.
      bindE (all_ok [refuse_if (\<not> ok), refuse_if (ev_observed_until e > now), refuse_if (ev_expires_at e \<le> now),
        refuse_if (sr_signing_key_id r \<noteq> es_signing_key_id g)]) (\<lambda>_.
      bindE (verify_receipt pf (es_signing_key g) r) (\<lambda>ok.
      bindE (all_ok [refuse_if (\<not> ok), refuse_if (sr_signed_at r > now), refuse_if (sr_evidence_sha256 r \<noteq> evidence_sha256 pf e)]) (\<lambda>_.
      bindE (attestation_sha256 pf (ae_capacity_attestation p)) (\<lambda>cap_sha.
      bindE (refuse_if (sr_capacity_attestation_sha256 r \<noteq> cap_sha)) (\<lambda>_.
      bindE (attestation_sha256 pf (ae_fault_attestation p)) (\<lambda>fault_sha.
      bindE (all_ok [refuse_if (sr_fault_attestation_sha256 r \<noteq> fault_sha),
        refuse_if (ev_artifact_sha256 e \<noteq> at_report_sha256 (ae_capacity_attestation p)),
        refuse_if (at_runner_key_id (ae_capacity_attestation p) = at_runner_key_id (ae_fault_attestation p)),
        verify_attestation pf g (ae_capacity_attestation p) AK_CAPACITY x (sr_signed_at r) None]) (\<lambda>_.
      verify_attestation pf g (ae_fault_attestation p) AK_FAULT_DRILL x (sr_signed_at r) None))))))))))"

definition verify_package :: "platform \<Rightarrow> evidence_signer \<Rightarrow> admission_evidence \<Rightarrow> release_context \<Rightarrow> instant \<Rightarrow> bool" where
  "verify_package pf g p x now \<longleftrightarrow> package_checks pf g p x now = Inr ()"

end
