(* ===== verification/Canary.thy ===== *)
theory Canary
  imports Evidence
begin

text \<open>
  The coordinator of the canary ladder (\<^verbatim>\<open>production/canary_lifecycle.py\<close>). It keeps no state: its
  methods take the durable state of one capability and return a decision with the state to
  persist, by compare-and-swap on its revision.
\<close>

section \<open>Convergence of instances\<close>

record convergence =
  gc_context :: release_context
  gc_manifest_generation :: int
  gc_manifest_sha256 :: string
  gc_inventory_revision :: string
  gc_expected_instance_ids :: "string list"
  gc_applied_instances :: "(string \<times> int) list"
  gc_observed_at :: instant
  gc_inventory_key_id :: string
  gc_signature :: string

definition inventory_revision_match :: "string \<Rightarrow> bool" where
  "inventory_revision_match = name_match True ''_.:/-'' 127"

definition applied_instance_ok :: "string \<times> int \<Rightarrow> bool" where
  "applied_instance_ok i \<longleftrightarrow> identity_ok (fst i) \<and> snd i \<ge> 1"

definition convergence_ok :: "convergence \<Rightarrow> unit result" where
  "convergence_ok v = all_ok [release_context_ok (gc_context v), refuse_if (gc_manifest_generation v < 1),
     refuse_if (\<not> sha256_text (gc_manifest_sha256 v)), refuse_if (\<not> inventory_revision_match (gc_inventory_revision v)),
     refuse_if (\<not> key_id_match (gc_inventory_key_id v)), refuse_if (\<not> sha256_text (gc_signature v)),
     refuse_if (gc_expected_instance_ids v = []), refuse_if (\<not> distinct (gc_expected_instance_ids v)),
     refuse_if (\<not> list_all identity_ok (gc_expected_instance_ids v)),
     refuse_if (\<not> list_all applied_instance_ok (gc_applied_instances v)),
     refuse_if (\<not> distinct (map fst (gc_applied_instances v)))]"

definition manifest_payload :: "manifest \<Rightarrow> json" where
  "manifest_payload m = JObj [
     (''authorizations'', JArr (map (\<lambda>a. JObj [(''capability'', JStr (capability_value (au_capability a))),
        (''context'', context_payload (au_context a)), (''evidence_sha256'', opt_text (au_evidence_sha256 a)),
        (''issued_at'', JStr (iso_text (au_issued_at a))), (''stage'', JStr (stage_value (au_stage a)))])
        (sort_key (\<lambda>a. capability_value (au_capability a)) (mf_authorizations m)))),
     (''context'', context_payload (mf_context m)), (''generation'', JInt (mf_generation m))]"

definition manifest_sha256 :: "platform \<Rightarrow> manifest \<Rightarrow> string result" where
  "manifest_sha256 pf m = bindE (manifest_ok m) (\<lambda>_. Inr (pf_sha256 pf (canonical_json (manifest_payload m))))"

definition convergence_mac :: "platform \<Rightarrow> string \<Rightarrow> convergence \<Rightarrow> string" where
  "convergence_mac pf key v = pf_hmac pf key (''forge-replay:canary-generation-inventory:v1'' @ [char_of (0 :: nat)] @
     canonical_json (JObj [
       (''applied_instances'', JArr (map (\<lambda>(i, n). JObj [(''instance_id'', JStr i), (''generation'', JInt n)]) (gc_applied_instances v))),
       (''context'', context_payload (gc_context v)),
       (''expected_instance_ids'', JArr (map JStr (gc_expected_instance_ids v))),
       (''inventory_key_id'', JStr (gc_inventory_key_id v)), (''inventory_revision'', JStr (gc_inventory_revision v)),
       (''manifest_generation'', JInt (gc_manifest_generation v)), (''manifest_sha256'', JStr (gc_manifest_sha256 v)),
       (''observed_at'', JStr (iso_text (gc_observed_at v))), (''schema_version'', JInt 1)]))"

definition sign_convergence ::
  "platform \<Rightarrow> manifest \<Rightarrow> string \<Rightarrow> string list \<Rightarrow> (string \<times> int) list \<Rightarrow> instant \<Rightarrow> string \<Rightarrow> string \<Rightarrow> convergence result" where
  "sign_convergence pf m revision expected applied observed_at key_id key =
     bindE (hmac_key_ok key) (\<lambda>_.
     bindE (manifest_sha256 pf m) (\<lambda>sha.
     let unsigned = \<lparr>gc_context = mf_context m, gc_manifest_generation = mf_generation m, gc_manifest_sha256 = sha,
           gc_inventory_revision = revision, gc_expected_instance_ids = expected, gc_applied_instances = applied,
           gc_observed_at = observed_at, gc_inventory_key_id = key_id, gc_signature = replicate 64 CHR ''0''\<rparr> in
     bindE (convergence_ok unsigned) (\<lambda>_.
     let signed = unsigned\<lparr>gc_signature := convergence_mac pf key unsigned\<rparr> in
     bindE (convergence_ok signed) (\<lambda>_. Inr signed))))"

definition convergence_matches ::
  "platform \<Rightarrow> convergence \<Rightarrow> manifest \<Rightarrow> instant \<Rightarrow> (string \<times> string) list \<Rightarrow> int \<Rightarrow> bool result" where
  "convergence_matches pf v m now keys maximum_age =
     bindE (manifest_ok m) (\<lambda>_.
     bindE (convergence_ok v) (\<lambda>_.
     case map_of keys (gc_inventory_key_id v) of
       None \<Rightarrow> Inr False
     | Some key \<Rightarrow>
         bindE (hmac_key_ok key) (\<lambda>_.
         bindE (manifest_sha256 pf m) (\<lambda>sha.
         Inr (convergence_mac pf key v = gc_signature v \<and> gc_context v = mf_context m \<and>
           gc_manifest_generation v = mf_generation m \<and> gc_manifest_sha256 v = sha \<and> gc_observed_at v \<le> now \<and>
           now - gc_observed_at v \<le> maximum_age \<and>
           set (gc_expected_instance_ids v) = fst ` set (gc_applied_instances v) \<and>
           list_all (\<lambda>(_, n). n = mf_generation m) (gc_applied_instances v))))))"

section \<open>Safety snapshots and breaches\<close>

record admission_bundle =
  ab_signed :: admission_evidence
  ab_capacity_report :: capacity_report
  ab_fault_report :: fault_drill_report

definition REQUIRED_SAFETY_PROBES :: "string list" where
  "REQUIRED_SAFETY_PROBES = [''committed_fact_loss'', ''duplicate_external_effects'', ''approval_bypasses'', ''budget_bypasses'',
     ''authorization_bypasses'', ''cross_tenant_or_pool_leaks'', ''stale_fence_accepts'', ''prompt_integrity_violations'']"

definition SOFT_SLO_REASONS :: "string list" where
  "SOFT_SLO_REASONS = [''latency_regression'', ''latency_slo_exceeded'', ''error_rate_regression'',
     ''redis_fallback_slo_exceeded'', ''outbox_lag_slo_exceeded'']"

record safety_snapshot =
  sf_capability :: redis_capability
  sf_context :: release_context
  sf_stage :: rollout_stage
  sf_observed_from :: instant
  sf_observed_until :: instant
  sf_hard_safety :: hard_safety_counters
  sf_committed_fact_loss :: int
  sf_completed_probes :: "string list"

definition safety_snapshot_ok :: "safety_snapshot \<Rightarrow> unit result" where
  "safety_snapshot_ok f = all_ok [release_context_ok (sf_context f), refuse_if (sf_observed_until f \<le> sf_observed_from f),
     hard_safety_ok (sf_hard_safety f), refuse_if (sf_committed_fact_loss f < 0), refuse_if (\<not> distinct (sf_completed_probes f))]"

definition coverage_complete :: "safety_snapshot \<Rightarrow> bool" where
  "coverage_complete f \<longleftrightarrow> set (sf_completed_probes f) = set REQUIRED_SAFETY_PROBES"

definition safety_sha256 :: "platform \<Rightarrow> safety_snapshot \<Rightarrow> string" where
  "safety_sha256 pf f = pf_sha256 pf (canonical_json (JObj [(''capability'', JStr (capability_value (sf_capability f))),
     (''committed_fact_loss'', JInt (sf_committed_fact_loss f)), (''completed_probes'', JArr (map JStr (sf_completed_probes f))),
     (''context'', context_payload (sf_context f)), (''hard_safety'', hard_safety_json (sf_hard_safety f)),
     (''observed_from'', JStr (iso_text (sf_observed_from f))), (''observed_until'', JStr (iso_text (sf_observed_until f))),
     (''schema_version'', JInt 1), (''stage'', JStr (stage_value (sf_stage f)))]))"

record breach_window =
  bw_evidence_sha256 :: string
  bw_observed_from :: instant
  bw_observed_until :: instant
  bw_reasons :: "string list"

definition breach_window_ok :: "breach_window \<Rightarrow> unit result" where
  "breach_window_ok w = all_ok [refuse_if (\<not> sha256_text (bw_evidence_sha256 w)),
     refuse_if (bw_observed_until w \<le> bw_observed_from w), refuse_if (bw_reasons w = []),
     refuse_if (\<not> distinct (bw_reasons w) \<or> \<not> set (bw_reasons w) \<subseteq> set SOFT_SLO_REASONS)]"

section \<open>State\<close>

record lifecycle =
  lf_manifest :: manifest
  lf_capability :: redis_capability
  lf_cooldown_until :: "instant option"
  lf_soft_breach_windows :: "breach_window list"
  lf_state_revision :: int
  lf_serving_expires_at :: "instant option"
  lf_last_health_evidence_sha256 :: "string option"
  lf_last_health_observed_until :: "instant option"
  lf_last_rollback_at :: "instant option"
  lf_last_admission_sha256 :: "string option"

definition lifecycle_authorization :: "lifecycle \<Rightarrow> authorization option" where
  "lifecycle_authorization l = authorization_for (lf_manifest l) (lf_capability l)"

definition lifecycle_stage :: "lifecycle \<Rightarrow> rollout_stage" where
  "lifecycle_stage l = (case lifecycle_authorization l of None \<Rightarrow> STAGE_OFF | Some a \<Rightarrow> au_stage a)"

fun contiguous :: "breach_window list \<Rightarrow> bool" where
  "contiguous (v # w # ws) \<longleftrightarrow> bw_observed_until v = bw_observed_from w \<and> contiguous (w # ws)"
| "contiguous _ = True"

definition lifecycle_ok :: "lifecycle \<Rightarrow> unit result" where
  "lifecycle_ok l = all_ok ([manifest_ok (lf_manifest l),
     refuse_if (\<not> opt_sha_ok (lf_last_health_evidence_sha256 l)), refuse_if (\<not> opt_sha_ok (lf_last_admission_sha256 l)),
     refuse_if ((lf_last_health_evidence_sha256 l = None) \<noteq> (lf_last_health_observed_until l = None)),
     refuse_if (lf_state_revision l < 0)] @ map breach_window_ok (lf_soft_breach_windows l) @
     [refuse_if (\<not> contiguous (lf_soft_breach_windows l)),
      refuse_if (lf_soft_breach_windows l \<noteq> [] \<and>
        (lf_last_health_evidence_sha256 l \<noteq> Some (bw_evidence_sha256 (last (lf_soft_breach_windows l))) \<or>
         lf_last_health_observed_until l \<noteq> Some (bw_observed_until (last (lf_soft_breach_windows l))))),
      refuse_if (\<not> serving (lifecycle_stage l) \<and> lf_serving_expires_at l \<noteq> None),
      refuse_if (\<not> serving (lifecycle_stage l) \<and> (lf_soft_breach_windows l \<noteq> [] \<or> lf_last_health_evidence_sha256 l \<noteq> None \<or>
        lf_last_health_observed_until l \<noteq> None)),
      refuse_if ((lf_cooldown_until l = None) \<noteq> (lf_last_rollback_at l = None)),
      refuse_if (case (lf_cooldown_until l, lf_last_rollback_at l) of (Some c, Some r) \<Rightarrow> c - r < minutes 30 | _ \<Rightarrow> False)])"

definition lifecycle_new :: "lifecycle \<Rightarrow> lifecycle result" where
  "lifecycle_new l = bindE (lifecycle_ok l) (\<lambda>_. Inr l)"

record lifecycle_decision =
  ld_allowed :: bool
  ld_reasons :: "string list"
  ld_state :: lifecycle
  ld_expected_state_revision :: int
  ld_rollback_stage :: "rollout_stage option"
  ld_expected_inventory_revision :: "string option"

definition state_changed :: "lifecycle_decision \<Rightarrow> bool" where
  "state_changed d \<longleftrightarrow> lf_state_revision (ld_state d) = ld_expected_state_revision d + 1"

definition decision_new :: "lifecycle_decision \<Rightarrow> lifecycle_decision result" where
  "decision_new d = bindE (all_ok [refuse_if (ld_allowed d = (ld_reasons d \<noteq> [])), lifecycle_ok (ld_state d),
     refuse_if (ld_expected_state_revision d < 0),
     refuse_if (lf_state_revision (ld_state d) \<notin> {ld_expected_state_revision d, ld_expected_state_revision d + 1}),
     refuse_if (\<exists>s\<in>set_option (ld_rollback_stage d). serving s),
     refuse_if (\<exists>v\<in>set_option (ld_expected_inventory_revision d). \<not> inventory_revision_match v)]) (\<lambda>_. Inr d)"

definition unchanged :: "bool \<Rightarrow> string list \<Rightarrow> lifecycle \<Rightarrow> string option \<Rightarrow> lifecycle_decision result" where
  "unchanged allowed reasons l inventory = decision_new \<lparr>ld_allowed = allowed, ld_reasons = reasons, ld_state = l,
     ld_expected_state_revision = lf_state_revision l, ld_rollback_stage = None, ld_expected_inventory_revision = inventory\<rparr>"

definition denied :: "lifecycle \<Rightarrow> string \<Rightarrow> string option \<Rightarrow> lifecycle_decision result" where
  "denied l reason inventory = unchanged False [reason] l inventory"

definition changed :: "bool \<Rightarrow> string list \<Rightarrow> lifecycle \<Rightarrow> lifecycle \<Rightarrow> string option \<Rightarrow> lifecycle_decision result" where
  "changed allowed reasons l l' inventory =
     bindE (lifecycle_new l') (\<lambda>l'. decision_new \<lparr>ld_allowed = allowed, ld_reasons = reasons, ld_state = l',
       ld_expected_state_revision = lf_state_revision l, ld_rollback_stage = None, ld_expected_inventory_revision = inventory\<rparr>)"

section \<open>The coordinator\<close>

record coordinator =
  lc_gate :: canary_gate
  lc_verifier :: evidence_signer
  lc_inventory_keys :: "(string \<times> string) list"
  lc_cooldown :: int
  lc_maximum_convergence_age :: int
  lc_soft_breach_windows_required :: int

definition coordinator_new :: "coordinator \<Rightarrow> coordinator result" where
  "coordinator_new c = bindE (all_ok
     (map (\<lambda>(key_id, key). bindE (refuse_if (\<not> key_id_match key_id)) (\<lambda>_. hmac_key_ok key)) (lc_inventory_keys c) @
      [refuse_if (lc_inventory_keys c = []), refuse_if (lc_cooldown c < minutes 30),
       refuse_if (\<not> (0 < lc_maximum_convergence_age c \<and> lc_maximum_convergence_age c \<le> minutes 15)),
       refuse_if (lc_soft_breach_windows_required c < 2)])) (\<lambda>_. Inr c)"

definition rollback ::
  "coordinator \<Rightarrow> lifecycle \<Rightarrow> instant \<Rightarrow> rollout_stage \<Rightarrow> string list \<Rightarrow> string option \<Rightarrow> lifecycle_decision result" where
  "rollback c l now target reasons inventory =
     bindE (authorization_new \<lparr>au_capability = lf_capability l, au_context = mf_context (lf_manifest l), au_stage = target,
       au_issued_at = now, au_evidence_sha256 = None\<rparr>) (\<lambda>a.
     bindE (apply_authorization (lf_manifest l) a (mf_generation (lf_manifest l)) [] None) (\<lambda>m.
     bindE (lifecycle_new \<lparr>lf_manifest = m, lf_capability = lf_capability l, lf_cooldown_until = Some (now + lc_cooldown c),
       lf_soft_breach_windows = [], lf_state_revision = lf_state_revision l + 1, lf_serving_expires_at = None,
       lf_last_health_evidence_sha256 = None, lf_last_health_observed_until = None, lf_last_rollback_at = Some now,
       lf_last_admission_sha256 = lf_last_admission_sha256 l\<rparr>) (\<lambda>rolled_back.
     decision_new \<lparr>ld_allowed = False, ld_reasons = reasons, ld_state = rolled_back,
       ld_expected_state_revision = lf_state_revision l, ld_rollback_stage = Some target,
       ld_expected_inventory_revision = inventory\<rparr>)))"

definition validate_safety_snapshot ::
  "platform \<Rightarrow> lifecycle \<Rightarrow> canary_observation \<Rightarrow> evidence_envelope \<Rightarrow> safety_snapshot option \<Rightarrow> string list" where
  "validate_safety_snapshot pf l b e snapshot = (case snapshot of
       None \<Rightarrow> [''safety_snapshot_required'']
     | Some f \<Rightarrow>
         if safety_snapshot_ok f \<noteq> Inr () then [''safety_snapshot_invalid'']
         else
           flag (sf_capability f \<noteq> lf_capability l \<or> sf_context f \<noteq> mf_context (lf_manifest l) \<or> sf_stage f \<noteq> lifecycle_stage l \<or>
             sf_observed_from f \<noteq> co_observed_from b \<or> sf_observed_until f \<noteq> co_observed_until b \<or>
             sf_hard_safety f \<noteq> co_hard_safety b) ''safety_snapshot_mismatch'' @
           flag (ev_artifact_sha256 e \<noteq> safety_sha256 pf f) ''safety_snapshot_digest_mismatch'' @
           flag (\<not> coverage_complete f) ''safety_coverage_incomplete'' @
           flag (sf_committed_fact_loss f \<noteq> 0) ''committed_fact_loss'' @
           flag (hard_safety_total (sf_hard_safety f) \<noteq> 0) ''hard_safety_violation'')"

definition parse_timestamp :: "platform \<Rightarrow> string \<Rightarrow> instant result" where
  "parse_timestamp pf t = (case pf_fromisoformat pf (py_replace ''Z'' ''+00:00'' t) of
     Some (i, Some z) \<Rightarrow> if z = 0 then Inr i else Inl ValueError | _ \<Rightarrow> Inl ValueError)"

definition admission_reasons ::
  "platform \<Rightarrow> evidence_signer \<Rightarrow> lifecycle \<Rightarrow> instant \<Rightarrow> admission_bundle \<Rightarrow> string list result" where
  "admission_reasons pf g l now b =
     (let package = ab_signed b; cap = ab_capacity_report b; fault = ab_fault_report b; x = mf_context (lf_manifest l);
          before = (\<lambda>t. case lf_last_rollback_at l of None \<Rightarrow> False | Some r \<Rightarrow> t \<le> r) in
      bindE (capacity_report_ok pf cap) (\<lambda>_.
      bindE (fault_report_ok pf fault) (\<lambda>_.
      bindE (capacity_sha256 pf cap) (\<lambda>cap_sha.
      bindE (fault_sha256 pf fault) (\<lambda>fault_sha.
      bindE (parse_timestamp pf (cr_generated_at cap)) (\<lambda>generated_at.
      bindE (parse_timestamp pf (fd_started_at fault)) (\<lambda>started_at.
      bindE (parse_timestamp pf (fd_finished_at fault)) (\<lambda>finished_at.
      Inr (deduplicate (
        flag (\<not> verify_package pf g package x now) ''signed_admission_package_invalid'' @
        flag (Some (evidence_sha256 pf (ae_envelope package)) = lf_last_admission_sha256 l) ''admission_evidence_replayed'' @
        flag (before (sr_signed_at (ae_receipt package)) \<or> before (ev_observed_from (ae_envelope package)))
          ''admission_evidence_predates_rollback'' @
        flag (list_ex before [at_started_at (ae_capacity_attestation package), at_started_at (ae_fault_attestation package),
          at_finished_at (ae_capacity_attestation package), at_finished_at (ae_fault_attestation package),
          generated_at, started_at, finished_at]) ''phase42_artifacts_predate_rollback'' @
        flag (cr_context cap \<noteq> x) ''capacity_context_mismatch'' @
        flag (\<not> cd_allowed (cr_decision cap)) ''capacity_gate_failed'' @
        flag (cap_sha \<noteq> at_report_sha256 (ae_capacity_attestation package)) ''capacity_attestation_digest_mismatch'' @
        flag (ev_artifact_sha256 (ae_envelope package) \<noteq> cap_sha) ''capacity_envelope_digest_mismatch'' @
        flag (fd_context fault \<noteq> x) ''fault_context_mismatch'' @
        flag (\<not> fault_qualifies fault) ''fault_gate_failed'' @
        flag (fault_sha \<noteq> at_report_sha256 (ae_fault_attestation package)) ''fault_attestation_digest_mismatch'' @
        flag (fd_raw_results_sha256 fault \<noteq> at_raw_results_sha256 (ae_fault_attestation package))
          ''fault_raw_results_digest_mismatch''))))))))))"

definition validate_admission_package ::
  "platform \<Rightarrow> evidence_signer \<Rightarrow> lifecycle \<Rightarrow> instant \<Rightarrow> admission_bundle option \<Rightarrow> string list" where
  "validate_admission_package pf g l now bundle = (case bundle of
       None \<Rightarrow> [''signed_admission_package_required'']
     | Some b \<Rightarrow> (case admission_reasons pf g l now b of Inl _ \<Rightarrow> [''signed_admission_package_invalid''] | Inr reasons \<Rightarrow> reasons))"

definition percent :: "rollout_stage \<Rightarrow> rat" where
  "percent s = num_value (stage_percent s)"

text \<open>
  The checks of \<^verbatim>\<open>advance\<close> before the gate: it ends with a decision, or goes on with the revision of
  the inventory to compare.
\<close>

definition convergence_stage ::
  "coordinator \<Rightarrow> platform \<Rightarrow> lifecycle \<Rightarrow> rollout_stage \<Rightarrow> instant \<Rightarrow> convergence option \<Rightarrow> string option
     \<Rightarrow> (lifecycle_decision + string option) result" where
  "convergence_stage c pf l target now convergence current_inventory_revision =
     (let stop = (\<lambda>r. bindE (denied l r None) (\<lambda>d. Inr (Inl d))) in
      if \<not> (percent target > percent (lifecycle_stage l) \<and> target \<noteq> STAGE_SHADOW) then Inr (Inr None)
      else if (case lf_cooldown_until l of None \<Rightarrow> False | Some t \<Rightarrow> now < t) then stop ''rollback_cooldown_active''
      else case convergence of
        None \<Rightarrow> stop ''generation_convergence_required''
      | Some v \<Rightarrow>
          (case current_inventory_revision of
             None \<Rightarrow> stop ''current_inventory_revision_required''
           | Some revision \<Rightarrow>
               if \<not> inventory_revision_match revision \<or> revision \<noteq> gc_inventory_revision v then stop ''inventory_revision_stale''
               else
                 bindE (convergence_matches pf v (lf_manifest l) now (lc_inventory_keys c) (lc_maximum_convergence_age c)) (\<lambda>ok.
                 if \<not> ok then stop ''generation_not_converged'' else Inr (Inr (Some revision)))))"

definition health_stage ::
  "coordinator \<Rightarrow> platform \<Rightarrow> lifecycle \<Rightarrow> rollout_stage \<Rightarrow> instant \<Rightarrow> string option \<Rightarrow> canary_observation option
     \<Rightarrow> evidence_envelope option \<Rightarrow> safety_snapshot option \<Rightarrow> lifecycle_decision option result" where
  "health_stage c pf l target now inventory observation selected snapshot =
     (let stop = (\<lambda>r. bindE (denied l r inventory) (\<lambda>d. Inr (Some d))) in
      if \<not> (percent target > percent (lifecycle_stage l) \<and> target \<in> {CANARY_5, CANARY_25, STAGE_FULL}) then Inr None
      else if lf_soft_breach_windows l \<noteq> [] then stop ''unresolved_soft_breach_windows''
      else case (observation, selected) of
        (Some b, Some e) \<Rightarrow>
          if lf_last_health_evidence_sha256 l = None then stop ''verified_health_evidence_required''
          else if lf_last_health_evidence_sha256 l \<noteq> Some (evidence_sha256 pf e) then stop ''promotion_health_evidence_fork''
          else
            let reasons = validate_safety_snapshot pf l b e snapshot in
            if reasons = [] then Inr None
            else bindE (rollback c l now
              (if {''committed_fact_loss'', ''hard_safety_violation''} \<inter> set reasons \<noteq> {} then STAGE_OFF else STAGE_SHADOW)
              reasons inventory) (\<lambda>d. Inr (Some d))
      | _ \<Rightarrow> stop ''signed_safety_snapshot_required'')"

text \<open>What \<^verbatim>\<open>advance\<close> does with an authorization of the gate.\<close>

definition advance_apply ::
  "coordinator \<Rightarrow> platform \<Rightarrow> lifecycle \<Rightarrow> rollout_stage \<Rightarrow> instant \<Rightarrow> convergence option \<Rightarrow> string option
     \<Rightarrow> evidence_envelope option \<Rightarrow> authorization \<Rightarrow> lifecycle_decision result" where
  "advance_apply c pf l target now convergence inventory selected a =
     (let current_stage = lifecycle_stage l; upgrade = percent target > percent current_stage;
          downgrade = percent current_stage > 0 \<and> percent target < percent current_stage in
      if target = current_stage then unchanged True [] l None
      else
        bindE (apply_authorization (lf_manifest l) a (mf_generation (lf_manifest l))
          (if upgrade \<and> target \<noteq> STAGE_SHADOW then (case convergence of None \<Rightarrow> [] | Some v \<Rightarrow> gc_expected_instance_ids v) else [])
          (if upgrade \<and> target \<noteq> STAGE_SHADOW then map_option gc_applied_instances convergence else None)) (\<lambda>m.
        bindE (lifecycle_new \<lparr>lf_manifest = m, lf_capability = lf_capability l, lf_cooldown_until = lf_cooldown_until l,
          lf_soft_breach_windows = [], lf_state_revision = lf_state_revision l + 1,
          lf_serving_expires_at =
            (if upgrade \<and> percent target > 0 \<and> selected \<noteq> None then map_option ev_expires_at selected
             else if downgrade \<or> percent target = 0 then None else lf_serving_expires_at l),
          lf_last_health_evidence_sha256 = None, lf_last_health_observed_until = None,
          lf_last_rollback_at = lf_last_rollback_at l,
          lf_last_admission_sha256 =
            (if target = CANARY_1 \<and> current_stage = STAGE_SHADOW \<and> selected \<noteq> None
             then map_option (evidence_sha256 pf) selected else lf_last_admission_sha256 l)\<rparr>) (\<lambda>next_state.
        if downgrade
        then changed True [] l (next_state\<lparr>lf_cooldown_until := Some (now + lc_cooldown c), lf_last_rollback_at := Some now\<rparr>) inventory
        else decision_new \<lparr>ld_allowed = True, ld_reasons = [], ld_state = next_state,
          ld_expected_state_revision = lf_state_revision l, ld_rollback_stage = None, ld_expected_inventory_revision = inventory\<rparr>)))"

text \<open>A step up from a serving stage is judged against the evidence its own evidence follows.\<close>

definition gate_authorization :: "lifecycle \<Rightarrow> rollout_stage \<Rightarrow> evidence_envelope option \<Rightarrow> authorization option" where
  "gate_authorization l target selected = (case (lifecycle_authorization l, selected) of
       (Some a, Some e) \<Rightarrow>
         if percent target > percent (lifecycle_stage l) \<and> percent (lifecycle_stage l) > 0
         then Some (a\<lparr>au_evidence_sha256 := ev_previous_evidence_sha256 e\<rparr>) else Some a
     | (current, _) \<Rightarrow> current)"

definition advance_gate ::
  "coordinator \<Rightarrow> platform \<Rightarrow> lifecycle \<Rightarrow> rollout_stage \<Rightarrow> instant \<Rightarrow> convergence option \<Rightarrow> string option
     \<Rightarrow> canary_observation option \<Rightarrow> evidence_envelope option \<Rightarrow> admission_bundle option \<Rightarrow> lifecycle_decision result" where
  "advance_gate c pf l target now convergence inventory observation selected bundle =
     (let current_stage = lifecycle_stage l; upgrade = percent target > percent current_stage;
          gate_current = gate_authorization l target selected in
      bindE (case gate_current of None \<Rightarrow> Inr () | Some a \<Rightarrow> authorization_ok a) (\<lambda>_.
      bindE (evaluate_transition (lc_gate c) pf (lf_capability l) (mf_context (lf_manifest l)) gate_current target now selected
        observation (map_option ab_capacity_report bundle)) (\<lambda>decision.
      case decision of
        Inl reasons \<Rightarrow>
          if upgrade \<and> percent current_stage > 0
          then rollback c l now (if ''hard_safety_violation'' \<in> set reasons then STAGE_OFF else STAGE_SHADOW) reasons inventory
          else unchanged False reasons l inventory
      | Inr a \<Rightarrow> advance_apply c pf l target now convergence inventory selected a)))"

text \<open>\<^verbatim>\<open>advance\<close> once the instances have converged: the evidence of admission, health, then the gate.\<close>

definition advance_converged ::
  "coordinator \<Rightarrow> platform \<Rightarrow> lifecycle \<Rightarrow> rollout_stage \<Rightarrow> instant \<Rightarrow> convergence option \<Rightarrow> string option
     \<Rightarrow> canary_observation option \<Rightarrow> evidence_envelope option \<Rightarrow> admission_bundle option \<Rightarrow> safety_snapshot option
     \<Rightarrow> lifecycle_decision result" where
  "advance_converged c pf l target now convergence inventory observation evidence bundle snapshot =
     (let admission = (target = CANARY_1 \<and> lifecycle_stage l = STAGE_SHADOW);
          reasons = (if admission then validate_admission_package pf (lc_verifier c) l now bundle else []);
          selected = (if admission then map_option (\<lambda>b. ae_envelope (ab_signed b)) bundle else evidence) in
      if reasons \<noteq> [] then unchanged False reasons l inventory
      else if admission \<and> evidence \<noteq> None \<and> evidence \<noteq> selected then denied l ''admission_envelope_mismatch'' None
      else
        bindE (health_stage c pf l target now inventory observation selected snapshot) (\<lambda>r. case r of
          Some d \<Rightarrow> Inr d
        | None \<Rightarrow> advance_gate c pf l target now convergence inventory observation selected bundle))"

definition advance ::
  "coordinator \<Rightarrow> platform \<Rightarrow> lifecycle \<Rightarrow> rollout_stage \<Rightarrow> instant \<Rightarrow> convergence option \<Rightarrow> string option
     \<Rightarrow> canary_observation option \<Rightarrow> evidence_envelope option \<Rightarrow> admission_bundle option \<Rightarrow> safety_snapshot option
     \<Rightarrow> lifecycle_decision result" where
  "advance c pf l target now convergence current_inventory_revision observation evidence bundle snapshot =
     bindE (lifecycle_ok l) (\<lambda>_.
     let current_stage = lifecycle_stage l;
         serving_same_or_upgrade = (percent current_stage > 0 \<and> percent target \<ge> percent current_stage) in
     if serving_same_or_upgrade \<and> lf_serving_expires_at l = None
     then rollback c l now STAGE_SHADOW [''serving_expiry_missing''] None
     else if serving_same_or_upgrade \<and> (\<exists>t\<in>set_option (lf_serving_expires_at l). t \<le> now)
     then rollback c l now STAGE_SHADOW [''serving_authorization_expired''] None
     else
       bindE (convergence_stage c pf l target now convergence current_inventory_revision) (\<lambda>r. case r of
         Inl d \<Rightarrow> Inr d
       | Inr inventory \<Rightarrow>
           advance_converged c pf l target now convergence inventory observation evidence bundle snapshot))"

section \<open>Health\<close>

definition append_continuous_window ::
  "platform \<Rightarrow> breach_window list \<Rightarrow> evidence_envelope \<Rightarrow> canary_observation \<Rightarrow> string list
     \<Rightarrow> (string + breach_window list) result" where
  "append_continuous_window pf retained e b reasons =
     (let w = \<lparr>bw_evidence_sha256 = evidence_sha256 pf e, bw_observed_from = co_observed_from b,
            bw_observed_until = co_observed_until b, bw_reasons = reasons\<rparr> in
      bindE (breach_window_ok w) (\<lambda>_.
      if retained = [] then Inr (Inr [w])
      else if bw_evidence_sha256 (last retained) = bw_evidence_sha256 w then Inr (Inl ''health_window_replayed'')
      else if bw_observed_from w < bw_observed_until (last retained) then Inr (Inl ''health_window_overlap_or_out_of_order'')
      else if bw_observed_from w > bw_observed_until (last retained) then Inr (Inl ''health_window_gap'')
      else Inr (Inr (retained @ [w]))))"

definition observed :: "platform \<Rightarrow> lifecycle \<Rightarrow> evidence_envelope \<Rightarrow> canary_observation \<Rightarrow> breach_window list \<Rightarrow> int \<Rightarrow> lifecycle" where
  "observed pf l e b windows revision = l\<lparr>lf_soft_breach_windows := windows, lf_state_revision := revision,
     lf_last_health_evidence_sha256 := Some (evidence_sha256 pf e), lf_last_health_observed_until := Some (co_observed_until b)\<rparr>"

definition health_verdict ::
  "coordinator \<Rightarrow> platform \<Rightarrow> lifecycle \<Rightarrow> instant \<Rightarrow> canary_observation \<Rightarrow> evidence_envelope \<Rightarrow> string list
     \<Rightarrow> lifecycle_decision result" where
  "health_verdict c pf l now b e reasons =
     (if reasons = []
      then
        (if lf_soft_breach_windows l = [] \<and> lf_serving_expires_at l = Some (ev_expires_at e) \<and>
            lf_last_health_evidence_sha256 l = Some (evidence_sha256 pf e)
         then unchanged True [] l None
         else changed True [] l ((observed pf l e b [] (lf_state_revision l + 1))\<lparr>lf_serving_expires_at := Some (ev_expires_at e)\<rparr>) None)
      else if ''hard_safety_violation'' \<in> set reasons then rollback c l now STAGE_OFF reasons None
      else if set reasons \<subseteq> set SOFT_SLO_REASONS
      then
        bindE (append_continuous_window pf (lf_soft_breach_windows l) e b reasons) (\<lambda>r. case r of
          Inl failure \<Rightarrow> rollback c l now STAGE_SHADOW [failure] None
        | Inr windows \<Rightarrow>
            if int (length windows) < lc_soft_breach_windows_required c
            then changed False reasons l (observed pf l e b windows (lf_state_revision l + 1)) None
            else
              bindE (lifecycle_new (observed pf l e b windows (lf_state_revision l))) (\<lambda>l'.
              rollback c l' now STAGE_SHADOW reasons None))
      else rollback c l now STAGE_SHADOW reasons None)"

definition observe_health ::
  "coordinator \<Rightarrow> platform \<Rightarrow> lifecycle \<Rightarrow> instant \<Rightarrow> canary_observation \<Rightarrow> evidence_envelope \<Rightarrow> safety_snapshot
     \<Rightarrow> lifecycle_decision result" where
  "observe_health c pf l now b e snapshot =
     bindE (lifecycle_ok l) (\<lambda>_.
     case lifecycle_authorization l of
       None \<Rightarrow> unchanged True [] l None
     | Some current \<Rightarrow>
         if \<not> serving (au_stage current) then unchanged True [] l None
         else case lf_serving_expires_at l of
           None \<Rightarrow> rollback c l now STAGE_SHADOW [''serving_expiry_missing''] None
         | Some expires \<Rightarrow>
             if expires \<le> now then rollback c l now STAGE_SHADOW [''serving_authorization_expired''] None
             else
               let expected_previous = (case lf_last_health_evidence_sha256 l of Some s \<Rightarrow> Some s | None \<Rightarrow> au_evidence_sha256 current) in
               if ev_previous_evidence_sha256 e \<noteq> expected_previous
               then rollback c l now STAGE_SHADOW [''health_evidence_chain_mismatch''] None
               else if (\<exists>t\<in>set_option (lf_last_health_observed_until l). co_observed_from b < t)
               then rollback c l now STAGE_SHADOW [''health_window_overlap_or_out_of_order''] None
               else if (\<exists>t\<in>set_option (lf_last_health_observed_until l). co_observed_from b > t)
               then rollback c l now STAGE_SHADOW [''health_window_gap''] None
               else
                 bindE (authorization_new (current\<lparr>au_evidence_sha256 := expected_previous\<rparr>)) (\<lambda>validation_current.
                 bindE (evaluate_runtime_health (lc_gate c) pf validation_current now e b) (\<lambda>health.
                 let safety_reasons = validate_safety_snapshot pf l b e (Some snapshot) in
                 if safety_reasons \<noteq> []
                 then rollback c l now
                   (if {''committed_fact_loss'', ''hard_safety_violation''} \<inter> set safety_reasons \<noteq> {} then STAGE_OFF else STAGE_SHADOW)
                   safety_reasons None
                 else health_verdict c pf l now b e (fst health))))"

section \<open>The policy of the runtime\<close>

record lifecycle_policy =
  lp_states :: "(redis_capability \<times> lifecycle) list"
  lp_expected_context :: release_context
  lp_cohort_secret :: string

definition lifecycle_policy_new :: "lifecycle_policy \<Rightarrow> lifecycle_policy result" where
  "lifecycle_policy_new p = bindE (all_ok [release_context_ok (lp_expected_context p), hmac_key_ok (lp_cohort_secret p),
     refuse_if (list_ex (\<lambda>(c, l). lf_capability l \<noteq> c) (lp_states p))]) (\<lambda>_. Inr p)"

definition lifecycle_allows :: "platform \<Rightarrow> lifecycle_policy \<Rightarrow> instant \<Rightarrow> redis_capability \<Rightarrow> string \<Rightarrow> bool result" where
  "lifecycle_allows pf p now capability tenant_id = (case map_of (lp_states p) capability of
       None \<Rightarrow> Inr False
     | Some l \<Rightarrow>
         if lifecycle_ok l \<noteq> Inr () then Inr False
         else if mf_context (lf_manifest l) \<noteq> lp_expected_context p then Inr False
         else if \<not> serving (lifecycle_stage l) then Inr False
         else if (case lf_serving_expires_at l of None \<Rightarrow> True | Some t \<Rightarrow> t \<le> now) then Inr False
         else tenant_in_canary_percent pf tenant_id (stage_percent (lifecycle_stage l)) (lp_cohort_secret p)
           (rx_cohort_version (lp_expected_context p)))"

end
