(* ===== verification/Canary_Facts.thy ===== *)
theory Canary_Facts
  imports Canary Store
begin

text \<open>
  What the coordinator of the canary ladder decides: how each of its decisions changes the
  state, what a step up needs, what ends serving, and that signed packages verify.
\<close>

section \<open>Checks\<close>

lemma flag_Nil [simp]: "flag b r = [] \<longleftrightarrow> \<not> b"
  by (simp add: flag_def)

lemma in_flag [simp]: "s \<in> set (flag b r) \<longleftrightarrow> b \<and> s = r"
  by (auto simp: flag_def)

lemma flag_disjoint: "r \<notin> A \<Longrightarrow> set (flag b r) \<inter> A = {}"
  by (auto simp: flag_def)

lemma flag_subset: "r \<in> A \<Longrightarrow> set (flag b r) \<subseteq> A"
  by (auto simp: flag_def)

lemma deduplicate_simps [simp]: "deduplicate xs = [] \<longleftrightarrow> xs = []" "set (deduplicate xs) = set xs" "distinct (deduplicate xs)"
  by (simp_all add: deduplicate_def)

lemma decision_new_Inr: "decision_new x = Inr d \<longleftrightarrow> d = x \<and> ld_allowed x = (ld_reasons x = []) \<and> lifecycle_ok (ld_state x) = Inr () \<and>
    0 \<le> ld_expected_state_revision x \<and>
    lf_state_revision (ld_state x) \<in> {ld_expected_state_revision x, ld_expected_state_revision x + 1} \<and>
    (\<forall>s\<in>set_option (ld_rollback_stage x). \<not> serving s) \<and>
    (\<forall>v\<in>set_option (ld_expected_inventory_revision x). inventory_revision_match v)"
  by (auto simp: decision_new_def bindE_eq_Inr)

lemma lifecycle_new_Inr [simp]: "lifecycle_new x = Inr l \<longleftrightarrow> l = x \<and> lifecycle_ok x = Inr ()"
  by (auto simp: lifecycle_new_def bindE_eq_Inr)

lemma authorization_new_Inr [simp]: "authorization_new x = Inr a \<longleftrightarrow> a = x \<and> authorization_ok x = Inr ()"
  by (auto simp: authorization_new_def bindE_eq_Inr)

lemma manifest_ok_stage: "manifest_ok m = Inr () \<Longrightarrow> authorization_for m k = Some a \<Longrightarrow>
    authorization_ok a = Inr () \<and> au_capability a = k \<and> au_context a = mf_context m"
  by (auto simp: manifest_ok_def authorization_for_def find_Some_iff bindE_eq_Inr)

lemma serving_percent: "percent s > 0 \<longleftrightarrow> serving s" "percent s = 0 \<longleftrightarrow> \<not> serving s" "percent s \<ge> 0"
  by (cases s; simp add: percent_def serving_def)+

lemma percent_less: "percent s < percent t \<longleftrightarrow> stage_index s < stage_index t \<and> serving t"
  by (cases s; cases t; simp add: percent_def serving_def)

lemma stage_index_inj: "stage_index s = stage_index t \<longleftrightarrow> s = t"
  by (cases s; cases t; simp)

section \<open>The manifest\<close>

lemma find_append_filter:
  "find (\<lambda>x. f x = k) (filter (\<lambda>x. f x \<noteq> f a) xs @ [a]) = (if k = f a then Some a else find (\<lambda>x. f x = k) xs)"
proof (induction xs)
  case (Cons x xs)
  then show ?case by (cases "f x = k"; cases "f x = f a") auto
qed simp

lemma apply_authorization_Inr:
  assumes "apply_authorization m a n expected applied = Inr m'"
  shows "mf_generation m' = mf_generation m + 1 \<and> mf_context m' = mf_context m \<and> manifest_ok m' = Inr () \<and>
    (\<forall>k. authorization_for m' k = (if k = au_capability a then Some a else authorization_for m k)) \<and>
    stage_index (au_stage a) \<le> (case authorization_for m (au_capability a) of None \<Rightarrow> 0 | Some c \<Rightarrow> stage_index (au_stage c)) + 1"
  using assms
  by (auto simp: apply_authorization_def bindE_eq_Inr Let_def authorization_for_def find_append_filter [of au_capability]
      split: option.splits)

section \<open>Rolling back\<close>

definition rolled_back :: "coordinator \<Rightarrow> instant \<Rightarrow> rollout_stage \<Rightarrow> lifecycle \<Rightarrow> lifecycle \<Rightarrow> bool" where
  "rolled_back c now t l l' \<longleftrightarrow> \<not> serving t \<and> lifecycle_stage l' = t \<and> lf_capability l' = lf_capability l \<and>
     mf_context (lf_manifest l') = mf_context (lf_manifest l) \<and>
     mf_generation (lf_manifest l') = mf_generation (lf_manifest l) + 1 \<and> lf_state_revision l' = lf_state_revision l + 1 \<and>
     lf_cooldown_until l' = Some (now + lc_cooldown c) \<and> lf_last_rollback_at l' = Some now \<and> lf_serving_expires_at l' = None"

lemma rollback_Inr:
  assumes "rollback c l now t reasons inventory = Inr d"
  shows "rolled_back c now t l (ld_state d) \<and> lifecycle_ok (ld_state d) = Inr () \<and> \<not> ld_allowed d \<and> ld_reasons d = reasons \<and>
    ld_expected_state_revision d = lf_state_revision l"
proof -
  obtain a m where a: "a = \<lparr>au_capability = lf_capability l, au_context = mf_context (lf_manifest l), au_stage = t,
       au_issued_at = now, au_evidence_sha256 = None\<rparr>" "authorization_ok a = Inr ()"
      "apply_authorization (lf_manifest l) a (mf_generation (lf_manifest l)) [] None = Inr m"
    and d: "d = \<lparr>ld_allowed = False, ld_reasons = reasons, ld_state = \<lparr>lf_manifest = m, lf_capability = lf_capability l,
       lf_cooldown_until = Some (now + lc_cooldown c), lf_soft_breach_windows = [], lf_state_revision = lf_state_revision l + 1,
       lf_serving_expires_at = None, lf_last_health_evidence_sha256 = None, lf_last_health_observed_until = None,
       lf_last_rollback_at = Some now, lf_last_admission_sha256 = lf_last_admission_sha256 l\<rparr>,
       ld_expected_state_revision = lf_state_revision l, ld_rollback_stage = Some t,
       ld_expected_inventory_revision = inventory\<rparr>"
    and ok: "lifecycle_ok (ld_state d) = Inr ()" "\<not> serving t"
    using assms unfolding rollback_def by (auto simp: bindE_eq_Inr decision_new_Inr)
  have "authorization_for m (lf_capability l) = Some a" using apply_authorization_Inr [OF a(3)] a(1) by simp
  then have "lifecycle_stage (ld_state d) = t" using d a(1) by (simp add: lifecycle_stage_def lifecycle_authorization_def)
  with d ok apply_authorization_Inr [OF a(3)] show ?thesis by (simp add: rolled_back_def)
qed

text \<open>A valid state can always be taken out of service.\<close>

lemma rollback_succeeds:
  assumes "lifecycle_ok l = Inr ()" "\<not> serving t" "reasons \<noteq> []" "minutes 30 \<le> lc_cooldown c"
    "stage_index t \<le> stage_index (lifecycle_stage l)"
  shows "\<exists>d. rollback c l now t reasons None = Inr d"
proof -
  let ?a = "\<lparr>au_capability = lf_capability l, au_context = mf_context (lf_manifest l), au_stage = t,
       au_issued_at = now, au_evidence_sha256 = None\<rparr>"
  let ?m = "\<lparr>mf_context = mf_context (lf_manifest l), mf_generation = mf_generation (lf_manifest l) + 1,
     mf_authorizations = filter (\<lambda>c. au_capability c \<noteq> lf_capability l) (mf_authorizations (lf_manifest l)) @ [?a]\<rparr>"
  let ?l = "\<lparr>lf_manifest = ?m, lf_capability = lf_capability l, lf_cooldown_until = Some (now + lc_cooldown c),
       lf_soft_breach_windows = [], lf_state_revision = lf_state_revision l + 1, lf_serving_expires_at = None,
       lf_last_health_evidence_sha256 = None, lf_last_health_observed_until = None, lf_last_rollback_at = Some now,
       lf_last_admission_sha256 = lf_last_admission_sha256 l\<rparr>"
  have m: "manifest_ok (lf_manifest l) = Inr ()" "0 \<le> lf_state_revision l" "opt_sha_ok (lf_last_admission_sha256 l)"
    using assms(1) by (auto simp: lifecycle_ok_def)
  have a: "authorization_ok ?a = Inr ()" using assms(2) by (simp add: authorization_ok_def opt_sha_ok_def)
  have m': "manifest_ok ?m = Inr ()"
    using m(1) a by (auto simp: manifest_ok_def bindE_eq_Inr distinct_map intro: inj_on_subset)
  have "\<not> stage_index t > (case authorization_for (lf_manifest l) (lf_capability l) of None \<Rightarrow> 0 | Some c \<Rightarrow> stage_index (au_stage c))"
    using assms(5) by (simp add: lifecycle_stage_def lifecycle_authorization_def split: option.splits)
  then have ap: "apply_authorization (lf_manifest l) ?a (mf_generation (lf_manifest l)) [] None = Inr ?m"
    using m(1) m' a by (simp add: apply_authorization_def bindE_def Let_def refuse_if_def)
  have "authorization_for ?m (lf_capability l) = Some ?a" using apply_authorization_Inr [OF ap] by simp
  then have s: "lifecycle_ok ?l = Inr ()"
    using m m' assms(2-4) unfolding lifecycle_ok_def all_ok_Inr lifecycle_stage_def lifecycle_authorization_def
    by (simp add: opt_sha_ok_def)
  have "rollback c l now t reasons None = decision_new \<lparr>ld_allowed = False, ld_reasons = reasons, ld_state = ?l,
       ld_expected_state_revision = lf_state_revision l, ld_rollback_stage = Some t, ld_expected_inventory_revision = None\<rparr>"
    by (simp add: rollback_def authorization_new_def lifecycle_new_def a ap s bindE_def)
  then show ?thesis using s m(2) assms(2,3) by (simp add: decision_new_Inr)
qed

section \<open>Decisions\<close>

text \<open>The ways a decision treats the state.\<close>

definition noted :: "lifecycle \<Rightarrow> lifecycle \<Rightarrow> bool" where
  "noted l l' \<longleftrightarrow> lf_manifest l' = lf_manifest l \<and> lf_capability l' = lf_capability l \<and> lf_state_revision l' = lf_state_revision l + 1 \<and>
     lf_cooldown_until l' = lf_cooldown_until l \<and> lf_last_rollback_at l' = lf_last_rollback_at l"

definition moved :: "coordinator \<Rightarrow> instant \<Rightarrow> rollout_stage \<Rightarrow> lifecycle \<Rightarrow> lifecycle \<Rightarrow> bool" where
  "moved c now target l l' \<longleftrightarrow> lifecycle_stage l' = target \<and> lf_capability l' = lf_capability l \<and>
     mf_context (lf_manifest l') = mf_context (lf_manifest l) \<and>
     mf_generation (lf_manifest l') = mf_generation (lf_manifest l) + 1 \<and> lf_state_revision l' = lf_state_revision l + 1 \<and>
     stage_index target \<le> stage_index (lifecycle_stage l) + 1"

definition decided :: "coordinator \<Rightarrow> instant \<Rightarrow> lifecycle \<Rightarrow> lifecycle_decision \<Rightarrow> bool" where
  "decided c now l d \<longleftrightarrow> lifecycle_ok (ld_state d) = Inr () \<and> ld_expected_state_revision d = lf_state_revision l \<and>
     (ld_state d = l \<or> noted l (ld_state d) \<or> (\<exists>t. rolled_back c now t l (ld_state d) \<and> \<not> ld_allowed d) \<or>
      (\<exists>t. moved c now t l (ld_state d) \<and> ld_allowed d))"

lemma unchanged_Inr: "unchanged b reasons l inventory = Inr d \<Longrightarrow> ld_state d = l \<and> ld_expected_state_revision d = lf_state_revision l \<and>
    lifecycle_ok l = Inr () \<and> ld_allowed d = b \<and> ld_reasons d = reasons"
  by (auto simp: unchanged_def decision_new_Inr)

lemma denied_Inr: "denied l reason inventory = Inr d \<Longrightarrow> ld_state d = l \<and> ld_expected_state_revision d = lf_state_revision l \<and>
    lifecycle_ok l = Inr () \<and> \<not> ld_allowed d"
  by (auto simp: denied_def dest: unchanged_Inr)

lemma decided_unchanged: "unchanged b reasons l inventory = Inr d \<Longrightarrow> decided c now l d"
  by (auto simp: decided_def dest: unchanged_Inr)

lemma decided_denied: "denied l reason inventory = Inr d \<Longrightarrow> decided c now l d"
  by (auto simp: decided_def dest: denied_Inr)

lemma decided_rollback: "rollback c l now t reasons inventory = Inr d \<Longrightarrow> decided c now l d"
  using rollback_Inr [of c l now t reasons inventory d] by (auto simp: decided_def)

lemma changed_Inr: "changed b reasons l l' inventory = Inr d \<longleftrightarrow> lifecycle_ok l' = Inr () \<and>
    decision_new \<lparr>ld_allowed = b, ld_reasons = reasons, ld_state = l', ld_expected_state_revision = lf_state_revision l,
      ld_rollback_stage = None, ld_expected_inventory_revision = inventory\<rparr> = Inr d"
  by (auto simp: changed_def bindE_eq_Inr)

lemma decided_noted: "changed b reasons l l' inventory = Inr d \<Longrightarrow> noted l l' \<Longrightarrow> decided c now l d"
  by (auto simp: changed_Inr decision_new_Inr decided_def)

lemmas decided_rules = decided_unchanged decided_denied decided_rollback

lemma stage_of_manifest: "lifecycle_stage l = (case authorization_for (lf_manifest l) (lf_capability l) of None \<Rightarrow> STAGE_OFF | Some a \<Rightarrow> au_stage a)"
  by (simp add: lifecycle_stage_def lifecycle_authorization_def)

lemma stage_frame [simp]:
  "lifecycle_stage (l\<lparr>lf_cooldown_until := a\<rparr>) = lifecycle_stage l" "lifecycle_stage (l\<lparr>lf_last_rollback_at := a\<rparr>) = lifecycle_stage l"
  by (simp_all add: stage_of_manifest)

section \<open>The gate\<close>

text \<open>What evidence without a reason against it says.\<close>

definition sound_evidence ::
  "canary_gate \<Rightarrow> platform \<Rightarrow> redis_capability \<Rightarrow> release_context \<Rightarrow> rollout_stage \<Rightarrow> string option \<Rightarrow> instant
     \<Rightarrow> evidence_envelope \<Rightarrow> canary_observation \<Rightarrow> bool" where
  "sound_evidence g pf k x s previous now e b \<longleftrightarrow>
     (\<exists>key. map_of (ga_keys g) (ev_key_id e) = Some key \<and> evidence_mac pf key e = ev_signature e) \<and>
     ev_previous_evidence_sha256 e = previous \<and> ev_expires_at e > now \<and> co_observed_until b \<le> now \<and>
     co_capability b = k \<and> co_context b = x \<and> co_stage b = s \<and> observation_sha256 pf b = ev_observation_sha256 e \<and>
     gp_minimum_observation (ga_policy g) \<le> co_observed_until b - co_observed_from b \<and>
     gp_minimum_control_samples (ga_policy g) \<le> cx_sample_count (co_control b) \<and>
     gp_minimum_candidate_samples (ga_policy g) \<le> cx_sample_count (co_candidate b) \<and>
     hard_safety_total (co_hard_safety b) = 0"

lemma soft_codes: "set (soft_reasons g pf k b) \<subseteq> set SOFT_SLO_REASONS"
  unfolding soft_reasons_def Let_def set_append Un_subset_iff
  by (intro conjI flag_subset) (simp_all add: SOFT_SLO_REASONS_def)

lemma soft_reasons_only:
  assumes "validate_evidence g pf k x s previous now e b = Inr reasons" "set reasons \<subseteq> set SOFT_SLO_REASONS"
  shows "sound_evidence g pf k x s previous now e b \<and> set reasons = set (soft_reasons g pf k b)"
proof -
  obtain sig where sig: "signature_reasons g pf e = Inr sig"
    and r: "set reasons = set sig \<union> set (hard_reasons g pf k x s previous now e b) \<union> set (soft_reasons g pf k b)"
    using assms(1) by (auto simp: validate_evidence_def bindE_eq_Inr Un_assoc)
  have h: "set (hard_reasons g pf k x s previous now e b) \<inter> set SOFT_SLO_REASONS = {}"
    unfolding hard_reasons_def set_append Int_Un_distrib2 Un_empty
    by (intro conjI flag_disjoint) (simp_all add: SOFT_SLO_REASONS_def)
  have "set sig \<subseteq> {''untrusted_evidence_key'', ''evidence_signature_invalid''}"
    using sig by (auto simp: signature_reasons_def bindE_eq_Inr split: option.splits)
  then have "set sig \<inter> set SOFT_SLO_REASONS = {}" by (auto simp: SOFT_SLO_REASONS_def)
  moreover have "set (hard_reasons g pf k x s previous now e b) \<subseteq> set SOFT_SLO_REASONS" "set sig \<subseteq> set SOFT_SLO_REASONS"
    using assms(2) unfolding r Un_subset_iff by simp_all
  ultimately have "set (hard_reasons g pf k x s previous now e b) = {}" "set sig = {}"
    using h by (simp_all only: Int_absorb2)
  then have n: "hard_reasons g pf k x s previous now e b = []" "sig = []" by simp_all
  have "\<exists>key. map_of (ga_keys g) (ev_key_id e) = Some key \<and> evidence_mac pf key e = ev_signature e"
    using sig n(2) by (auto simp: signature_reasons_def verify_evidence_def bindE_eq_Inr split: option.splits)
  with n r show ?thesis by (auto simp: sound_evidence_def hard_reasons_def)
qed

lemma hard_violation_reported:
  assumes "validate_evidence g pf k x s previous now e b = Inr reasons" "hard_safety_total (co_hard_safety b) \<noteq> 0"
  shows "''hard_safety_violation'' \<in> set reasons"
  using assms by (auto simp: validate_evidence_def hard_reasons_def bindE_eq_Inr)

lemma authorize_Inr: "authorize k x s now v = Inr r \<longleftrightarrow> (\<exists>a. r = Inr a \<and> a = \<lparr>au_capability = k, au_context = x, au_stage = s,
    au_issued_at = now, au_evidence_sha256 = v\<rparr> \<and> authorization_ok a = Inr ())"
  by (auto simp: authorize_def bindE_eq_Inr)

definition current_stage_of :: "authorization option \<Rightarrow> rollout_stage" where
  "current_stage_of current = (case current of None \<Rightarrow> STAGE_OFF | Some a \<Rightarrow> au_stage a)"

lemma evaluate_transition_Inr:
  assumes "evaluate_transition g pf k x current target now evidence observation report = Inr (Inr a)"
  shows "au_stage a = target \<and> au_capability a = k \<and> au_context a = x \<and>
    (serving target \<and> stage_index (current_stage_of current) < stage_index target \<longrightarrow>
      stage_index target = stage_index (current_stage_of current) + 1 \<and>
      (\<exists>e b. evidence = Some e \<and> observation = Some b \<and>
         sound_evidence g pf k x (current_stage_of current) (case current of None \<Rightarrow> None | Some c \<Rightarrow> au_evidence_sha256 c) now e b \<and>
         soft_reasons g pf k b = [] \<and> au_evidence_sha256 a = Some (evidence_sha256 pf e) \<and>
         (target = CANARY_1 \<longrightarrow> validate_capacity_report pf x e report = [])))"
proof -
  note defs = evaluate_transition_def bindE_eq_Inr Let_def current_stage_of_def authorize_Inr
  have basic: "au_stage a = target \<and> au_capability a = k \<and> au_context a = x"
    using assms by (auto simp: defs stage_index_inj split: option.splits if_splits)
  show ?thesis
  proof (cases "serving target \<and> stage_index (current_stage_of current) < stage_index target")
    case True
    then have s: "target \<noteq> STAGE_SHADOW" by (auto simp: serving_def)
    obtain e b reasons where *: "evidence = Some e" "observation = Some b"
      "stage_index target = stage_index (current_stage_of current) + 1"
      "validate_evidence g pf k x (current_stage_of current) (case current of None \<Rightarrow> None | Some c \<Rightarrow> au_evidence_sha256 c) now e b = Inr reasons"
      "reasons = []" "target = CANARY_1 \<longrightarrow> validate_capacity_report pf x e report = []"
      "au_evidence_sha256 a = Some (evidence_sha256 pf e)"
      using assms True s by (auto simp: defs split: option.splits if_splits)
    with soft_reasons_only [OF *(4)] basic show ?thesis by auto
  qed (use basic in blast)
qed

section \<open>Advancing\<close>

lemma advance_apply_steps:
  assumes "advance_apply c pf l target now v inventory selected a = Inr d" "target \<noteq> lifecycle_stage l"
  obtains m where
    "apply_authorization (lf_manifest l) a (mf_generation (lf_manifest l))
      (if percent target > percent (lifecycle_stage l) \<and> target \<noteq> STAGE_SHADOW
       then (case v of None \<Rightarrow> [] | Some v \<Rightarrow> gc_expected_instance_ids v) else [])
      (if percent target > percent (lifecycle_stage l) \<and> target \<noteq> STAGE_SHADOW then map_option gc_applied_instances v else None) = Inr m"
    "lf_manifest (ld_state d) = m" "lf_capability (ld_state d) = lf_capability l"
    "lf_state_revision (ld_state d) = lf_state_revision l + 1" "lifecycle_ok (ld_state d) = Inr ()" "ld_allowed d"
    "ld_expected_state_revision d = lf_state_revision l"
    "percent target > percent (lifecycle_stage l) \<Longrightarrow> selected \<noteq> None \<Longrightarrow>
      lf_serving_expires_at (ld_state d) = map_option ev_expires_at selected"
proof (cases "percent (lifecycle_stage l) > 0 \<and> percent target < percent (lifecycle_stage l)")
  case True
  then have "\<not> percent target > percent (lifecycle_stage l)" by simp
  with True assms that show thesis
    unfolding advance_apply_def Let_def by (clarsimp simp: bindE_eq_Inr changed_Inr decision_new_Inr)
next
  case False
  have "0 < percent target" if "percent target > percent (lifecycle_stage l)"
    using that serving_percent(3) [of "lifecycle_stage l"] by linarith
  with False assms that show thesis
    unfolding advance_apply_def Let_def if_not_P [OF False] if_not_P [OF assms(2)]
    by (clarsimp simp: bindE_eq_Inr decision_new_Inr)
qed

lemma advance_apply_decided:
  assumes "advance_apply c pf l target now v inventory selected a = Inr d" "au_stage a = target" "au_capability a = lf_capability l"
  shows "decided c now l d \<and> (ld_state d = l \<or> moved c now target l (ld_state d) \<and> ld_allowed d)"
proof (cases "target = lifecycle_stage l")
  case True
  with assms show ?thesis by (auto simp: advance_apply_def Let_def decided_def dest: unchanged_Inr)
next
  case False
  from advance_apply_steps [OF assms(1) False] obtain m ids gs where
    m: "apply_authorization (lf_manifest l) a (mf_generation (lf_manifest l)) ids gs = Inr m"
    and n: "lf_manifest (ld_state d) = m" "lf_capability (ld_state d) = lf_capability l"
      "lf_state_revision (ld_state d) = lf_state_revision l + 1" "lifecycle_ok (ld_state d) = Inr ()" "ld_allowed d"
      "ld_expected_state_revision d = lf_state_revision l" by metis
  note facts = apply_authorization_Inr [OF m]
  have "lifecycle_stage (ld_state d) = target" using n facts assms(2,3) by (simp add: stage_of_manifest)
  moreover have "stage_index target \<le> stage_index (lifecycle_stage l) + 1"
    using facts assms(2,3) by (simp add: stage_of_manifest split: option.splits)
  ultimately have "moved c now target l (ld_state d)" using n facts by (simp add: moved_def)
  with n show ?thesis by (auto simp: decided_def)
qed

lemma advance_gate_cases:
  assumes "advance_gate c pf l target now v inventory observation selected bundle = Inr d" "lifecycle_ok l = Inr ()"
  obtains (keep) "ld_state d = l" "lifecycle_ok l = Inr ()" "ld_expected_state_revision d = lf_state_revision l"
  | (rolled) t where "rolled_back c now t l (ld_state d)" "\<not> ld_allowed d" "lifecycle_ok (ld_state d) = Inr ()"
      "ld_expected_state_revision d = lf_state_revision l"
  | (move) a gate_current where "evaluate_transition (lc_gate c) pf (lf_capability l) (mf_context (lf_manifest l)) gate_current target now selected
        observation (map_option ab_capacity_report bundle) = Inr (Inr a)" "current_stage_of gate_current = lifecycle_stage l"
      "advance_apply c pf l target now v inventory selected a = Inr d"
proof -
  let ?cur = "gate_authorization l target selected"
  have cur: "current_stage_of ?cur = lifecycle_stage l"
    by (auto simp: gate_authorization_def current_stage_of_def lifecycle_stage_def split: option.splits)
  obtain decision where g: "evaluate_transition (lc_gate c) pf (lf_capability l) (mf_context (lf_manifest l)) ?cur target now selected
        observation (map_option ab_capacity_report bundle) = Inr decision"
    "(case decision of
        Inl reasons \<Rightarrow>
          if percent target > percent (lifecycle_stage l) \<and> percent (lifecycle_stage l) > 0
          then rollback c l now (if ''hard_safety_violation'' \<in> set reasons then STAGE_OFF else STAGE_SHADOW) reasons inventory
          else unchanged False reasons l inventory
      | Inr a \<Rightarrow> advance_apply c pf l target now v inventory selected a) = Inr d"
    using assms(1) unfolding advance_gate_def Let_def
    by (auto simp: bindE_eq_Inr)
  show thesis
  proof (cases decision)
    case (Inl reasons)
    with g(2) keep rolled show thesis by (auto split: if_splits dest!: rollback_Inr unchanged_Inr)
  next
    case (Inr a)
    with g move cur show thesis by simp
  qed
qed

lemma convergence_stage_cases:
  assumes "convergence_stage c pf l target now v revision = Inr r"
  obtains (stop) d reason inventory where "r = Inl d" "denied l reason inventory = Inr d"
  | (go) inventory where "r = Inr inventory"
      "percent target > percent (lifecycle_stage l) \<Longrightarrow> (\<forall>t\<in>set_option (lf_cooldown_until l). t \<le> now) \<and>
        (\<exists>g. v = Some g \<and> revision = Some (gc_inventory_revision g) \<and>
          convergence_matches pf g (lf_manifest l) now (lc_inventory_keys c) (lc_maximum_convergence_age c) = Inr True)"
proof (cases "percent target > percent (lifecycle_stage l) \<and> target \<noteq> STAGE_SHADOW")
  case True
  show thesis
  proof (cases r)
    case (Inl d)
    with assms True stop show thesis
      by (auto simp: convergence_stage_def Let_def bindE_eq_Inr split: option.splits if_splits)
  next
    case (Inr inventory)
    with assms True go show thesis
      by (auto simp: convergence_stage_def Let_def bindE_eq_Inr split: option.splits if_splits)
  qed
next
  case False
  then have "\<not> percent target > percent (lifecycle_stage l)"
    by (auto simp: percent_less serving_def)
  with assms go [of None] show thesis by (simp add: convergence_stage_def)
qed

lemma health_stage_decided:
  assumes "health_stage c pf l target now inventory observation selected snapshot = Inr (Some d)"
  shows "(ld_state d = l \<or> (\<exists>t. rolled_back c now t l (ld_state d))) \<and> \<not> ld_allowed d \<and> lifecycle_ok (ld_state d) = Inr () \<and>
    ld_expected_state_revision d = lf_state_revision l"
  using assms
  by (auto simp: health_stage_def Let_def bindE_eq_Inr split: if_splits option.splits dest!: denied_Inr rollback_Inr)

lemma advance_converged_cases:
  assumes "advance_converged c pf l target now v inventory observation evidence bundle snapshot = Inr d" "lifecycle_ok l = Inr ()"
  obtains (keep) "ld_state d = l" "ld_expected_state_revision d = lf_state_revision l"
  | (rolled) t where "rolled_back c now t l (ld_state d)" "\<not> ld_allowed d" "lifecycle_ok (ld_state d) = Inr ()"
      "ld_expected_state_revision d = lf_state_revision l"
  | (move) a current selected where
      "evaluate_transition (lc_gate c) pf (lf_capability l) (mf_context (lf_manifest l)) current target now selected
        observation (map_option ab_capacity_report bundle) = Inr (Inr a)" "current_stage_of current = lifecycle_stage l"
      "advance_apply c pf l target now v inventory selected a = Inr d"
      "target = CANARY_1 \<Longrightarrow> lifecycle_stage l = STAGE_SHADOW \<Longrightarrow>
        (\<exists>b. bundle = Some b \<and> selected = Some (ae_envelope (ab_signed b)) \<and> admission_reasons pf (lc_verifier c) l now b = Inr [])"
proof -
  define admission where "admission \<longleftrightarrow> target = CANARY_1 \<and> lifecycle_stage l = STAGE_SHADOW"
  define reasons where "reasons = (if admission then validate_admission_package pf (lc_verifier c) l now bundle else [])"
  define selected where "selected = (if admission then map_option (\<lambda>b. ae_envelope (ab_signed b)) bundle else evidence)"
  have d: "(if reasons \<noteq> [] then unchanged False reasons l inventory
      else if admission \<and> evidence \<noteq> None \<and> evidence \<noteq> selected then denied l ''admission_envelope_mismatch'' None
      else bindE (health_stage c pf l target now inventory observation selected snapshot) (\<lambda>r. case r of
          Some d \<Rightarrow> Inr d
        | None \<Rightarrow> advance_gate c pf l target now v inventory observation selected bundle)) = Inr d"
    using assms(1) unfolding advance_converged_def Let_def admission_def reasons_def selected_def .
  show thesis
  proof (cases "reasons \<noteq> [] \<or> admission \<and> evidence \<noteq> None \<and> evidence \<noteq> selected")
    case True
    with d keep show thesis by (auto split: if_splits dest!: denied_Inr unchanged_Inr)
  next
    case pass: False
    then obtain h where h: "health_stage c pf l target now inventory observation selected snapshot = Inr h"
      "(case h of Some d \<Rightarrow> Inr d | None \<Rightarrow> advance_gate c pf l target now v inventory observation selected bundle) = Inr d"
      using d by (auto simp: bindE_eq_Inr)
    show thesis
    proof (cases h)
      case (Some x)
      with h show thesis using keep rolled health_stage_decided [of c pf l target now inventory observation selected snapshot d] by auto
    next
      case None
      have admitted: "\<exists>b. bundle = Some b \<and> selected = Some (ae_envelope (ab_signed b)) \<and>
          admission_reasons pf (lc_verifier c) l now b = Inr []" if "target = CANARY_1" "lifecycle_stage l = STAGE_SHADOW"
        using pass that
        by (auto simp: reasons_def selected_def admission_def validate_admission_package_def split: option.splits sum.splits)
      from None h have "advance_gate c pf l target now v inventory observation selected bundle = Inr d" by simp
      then show thesis
      proof (rule advance_gate_cases [OF _ assms(2)])
        assume "ld_state d = l" "ld_expected_state_revision d = lf_state_revision l"
        then show thesis by (rule keep)
      next
        fix t
        assume "rolled_back c now t l (ld_state d)" "\<not> ld_allowed d" "lifecycle_ok (ld_state d) = Inr ()"
          "ld_expected_state_revision d = lf_state_revision l"
        then show thesis by (rule rolled)
      next
        fix a current
        assume "evaluate_transition (lc_gate c) pf (lf_capability l) (mf_context (lf_manifest l)) current target now selected
            observation (map_option ab_capacity_report bundle) = Inr (Inr a)" "current_stage_of current = lifecycle_stage l"
          "advance_apply c pf l target now v inventory selected a = Inr d"
        then show thesis using admitted by (rule move)
      qed
    qed
  qed
qed

lemma advance_cases:
  assumes "advance c pf l target now v revision observation evidence bundle snapshot = Inr d"
  obtains (keep) "ld_state d = l" "lifecycle_ok l = Inr ()" "ld_expected_state_revision d = lf_state_revision l"
  | (rolled) t where "rolled_back c now t l (ld_state d)" "\<not> ld_allowed d" "lifecycle_ok (ld_state d) = Inr ()"
      "ld_expected_state_revision d = lf_state_revision l"
  | (move) a current selected inventory where
      "evaluate_transition (lc_gate c) pf (lf_capability l) (mf_context (lf_manifest l)) current target now selected
        observation (map_option ab_capacity_report bundle) = Inr (Inr a)" "current_stage_of current = lifecycle_stage l"
      "advance_apply c pf l target now v inventory selected a = Inr d"
      "percent target > percent (lifecycle_stage l) \<Longrightarrow> (\<forall>t\<in>set_option (lf_cooldown_until l). t \<le> now) \<and>
        (\<exists>g. v = Some g \<and> revision = Some (gc_inventory_revision g) \<and>
          convergence_matches pf g (lf_manifest l) now (lc_inventory_keys c) (lc_maximum_convergence_age c) = Inr True)"
      "target = CANARY_1 \<Longrightarrow> lifecycle_stage l = STAGE_SHADOW \<Longrightarrow>
        (\<exists>b. bundle = Some b \<and> selected = Some (ae_envelope (ab_signed b)) \<and> admission_reasons pf (lc_verifier c) l now b = Inr [])"
proof -
  have ok: "lifecycle_ok l = Inr ()" using assms by (auto simp: advance_def bindE_eq_Inr)
  let ?same = "percent (lifecycle_stage l) > 0 \<and> percent target \<ge> percent (lifecycle_stage l)"
  show thesis
  proof (cases "?same \<and> (case lf_serving_expires_at l of None \<Rightarrow> True | Some t \<Rightarrow> t \<le> now)")
    case True
    with assms ok have "\<exists>reason. rollback c l now STAGE_SHADOW [reason] None = Inr d"
      by (auto simp: advance_def Let_def split: option.splits if_splits)
    then show thesis using rolled rollback_Inr by blast
  next
    case False
    with assms ok obtain r where r: "convergence_stage c pf l target now v revision = Inr r"
      and d: "(case r of Inl d \<Rightarrow> Inr d
       | Inr inventory \<Rightarrow> advance_converged c pf l target now v inventory observation evidence bundle snapshot) = Inr d"
      by (auto simp: advance_def Let_def bindE_eq_Inr split: option.splits)
    show thesis
    proof (rule convergence_stage_cases [OF r])
      fix d' reason inventory
      assume "r = Inl d'" "denied l reason inventory = Inr d'"
      with d keep show thesis by (auto dest!: denied_Inr)
    next
      fix inventory
      assume "r = Inr inventory" and
        converged: "percent target > percent (lifecycle_stage l) \<Longrightarrow> (\<forall>t\<in>set_option (lf_cooldown_until l). t \<le> now) \<and>
          (\<exists>g. v = Some g \<and> revision = Some (gc_inventory_revision g) \<and>
            convergence_matches pf g (lf_manifest l) now (lc_inventory_keys c) (lc_maximum_convergence_age c) = Inr True)"
      with d have "advance_converged c pf l target now v inventory observation evidence bundle snapshot = Inr d" by simp
      then show thesis
      proof (rule advance_converged_cases [OF _ ok])
        assume "ld_state d = l" "ld_expected_state_revision d = lf_state_revision l"
        then show thesis by (rule keep [OF _ ok])
      next
        fix t
        assume "rolled_back c now t l (ld_state d)" "\<not> ld_allowed d" "lifecycle_ok (ld_state d) = Inr ()"
          "ld_expected_state_revision d = lf_state_revision l"
        then show thesis by (rule rolled)
      next
        fix a current selected
        assume m: "evaluate_transition (lc_gate c) pf (lf_capability l) (mf_context (lf_manifest l)) current target now selected
            observation (map_option ab_capacity_report bundle) = Inr (Inr a)" "current_stage_of current = lifecycle_stage l"
          "advance_apply c pf l target now v inventory selected a = Inr d"
          and admitted: "target = CANARY_1 \<Longrightarrow> lifecycle_stage l = STAGE_SHADOW \<Longrightarrow>
            (\<exists>b. bundle = Some b \<and> selected = Some (ae_envelope (ab_signed b)) \<and>
              admission_reasons pf (lc_verifier c) l now b = Inr [])"
        show thesis using m converged admitted by (rule move)
      qed
    qed
  qed
qed

text \<open>What an admission package without a reason against it holds.\<close>

lemma admission_reasons_Nil:
  assumes "admission_reasons pf g l now p = Inr []"
  shows "verify_package pf g (ab_signed p) (mf_context (lf_manifest l)) now \<and> cd_allowed (cr_decision (ab_capacity_report p)) \<and>
    cr_context (ab_capacity_report p) = mf_context (lf_manifest l) \<and> fault_qualifies (ab_fault_report p) \<and>
    fd_context (ab_fault_report p) = mf_context (lf_manifest l) \<and>
    Some (evidence_sha256 pf (ae_envelope (ab_signed p))) \<noteq> lf_last_admission_sha256 l \<and>
    (\<forall>t\<in>set_option (lf_last_rollback_at l). t < sr_signed_at (ae_receipt (ab_signed p)) \<and>
      t < at_started_at (ae_capacity_attestation (ab_signed p)) \<and> t < at_started_at (ae_fault_attestation (ab_signed p)))"
  using assms unfolding admission_reasons_def Let_def
  by (clarsimp simp: bindE_eq_Inr not_le split: option.splits)

section \<open>Health\<close>

lemma safety_snapshot_clean:
  assumes "validate_safety_snapshot pf l b e (Some f) = []"
  shows "sf_committed_fact_loss f = 0 \<and> hard_safety_total (sf_hard_safety f) = 0 \<and> coverage_complete f \<and>
    sf_hard_safety f = co_hard_safety b \<and> ev_artifact_sha256 e = safety_sha256 pf f"
  using assms by (auto simp: validate_safety_snapshot_def split: if_splits)

lemma runtime_health_evidence:
  assumes "evaluate_runtime_health g pf a now e b = Inr health" "serving (au_stage a)"
  shows "validate_evidence g pf (au_capability a) (au_context a) (au_stage a) (au_evidence_sha256 a) now e b = Inr (fst health)"
  using assms by (auto simp: evaluate_runtime_health_def bindE_eq_Inr Let_def split: if_splits)

lemma observed_frame [simp]: "lifecycle_stage (observed pf l e b ws r) = lifecycle_stage l"
    "lf_manifest (observed pf l e b ws r) = lf_manifest l" "lf_capability (observed pf l e b ws r) = lf_capability l"
    "lf_soft_breach_windows (observed pf l e b ws r) = ws" "lf_state_revision (observed pf l e b ws r) = r"
    "lf_cooldown_until (observed pf l e b ws r) = lf_cooldown_until l" "lf_last_rollback_at (observed pf l e b ws r) = lf_last_rollback_at l"
  by (simp_all add: observed_def stage_of_manifest)

lemma rolled_back_observed: "rolled_back c now t (observed pf l e b ws (lf_state_revision l)) l' \<Longrightarrow> rolled_back c now t l l'"
  by (simp add: rolled_back_def)

lemma health_verdict_cases:
  assumes "health_verdict c pf l now b e reasons = Inr d"
  obtains (rolled) t where "rolled_back c now t l (ld_state d)" "\<not> ld_allowed d" "lifecycle_ok (ld_state d) = Inr ()"
      "ld_expected_state_revision d = lf_state_revision l" "''hard_safety_violation'' \<in> set reasons \<Longrightarrow> t = STAGE_OFF"
  | (healthy) "reasons = []" "ld_state d = l \<or> noted l (ld_state d)" "lifecycle_ok (ld_state d) = Inr ()"
      "ld_expected_state_revision d = lf_state_revision l" "lf_soft_breach_windows (ld_state d) = []"
  | (soft) "set reasons \<subseteq> set SOFT_SLO_REASONS" "noted l (ld_state d)" "lifecycle_ok (ld_state d) = Inr ()"
      "ld_expected_state_revision d = lf_state_revision l"
      "int (length (lf_soft_breach_windows (ld_state d))) < lc_soft_breach_windows_required c" "\<not> ld_allowed d"
proof -
  consider (none) "reasons = []" | (hard) "''hard_safety_violation'' \<in> set reasons"
    | (soft_only) "reasons \<noteq> []" "''hard_safety_violation'' \<notin> set reasons" "set reasons \<subseteq> set SOFT_SLO_REASONS"
    | (other) "reasons \<noteq> []" "''hard_safety_violation'' \<notin> set reasons" "\<not> set reasons \<subseteq> set SOFT_SLO_REASONS" by blast
  then show thesis
  proof cases
    case none
    with assms healthy show thesis
      by (auto simp: health_verdict_def changed_Inr decision_new_Inr noted_def split: if_splits dest!: unchanged_Inr)
  next
    case hard
    then have "reasons \<noteq> []" by auto
    with hard have "rollback c l now STAGE_OFF reasons None = Inr d" using assms by (auto simp: health_verdict_def)
    then show thesis using rolled rollback_Inr by blast
  next
    case soft_only
    with assms obtain r where r: "append_continuous_window pf (lf_soft_breach_windows l) e b reasons = Inr r"
      "(case r of Inl failure \<Rightarrow> rollback c l now STAGE_SHADOW [failure] None
        | Inr windows \<Rightarrow>
            if int (length windows) < lc_soft_breach_windows_required c
            then changed False reasons l (observed pf l e b windows (lf_state_revision l + 1)) None
            else bindE (lifecycle_new (observed pf l e b windows (lf_state_revision l))) (\<lambda>l'.
              rollback c l' now STAGE_SHADOW reasons None)) = Inr d"
      by (auto simp: health_verdict_def bindE_eq_Inr)
    show thesis
    proof (cases r)
      case (Inl failure)
      with r rolled rollback_Inr soft_only show thesis by fastforce
    next
      case (Inr windows)
      show thesis
      proof (cases "int (length windows) < lc_soft_breach_windows_required c")
        case True
        with r Inr soft soft_only(3) show thesis by (auto simp: changed_Inr decision_new_Inr noted_def)
      next
        case False
        with r Inr have "rollback c (observed pf l e b windows (lf_state_revision l)) now STAGE_SHADOW reasons None = Inr d"
          by (auto simp: bindE_eq_Inr)
        from rollback_Inr [OF this] soft_only show thesis
          by (intro rolled [of STAGE_SHADOW]) (auto dest: rolled_back_observed)
      qed
    qed
  next
    case other
    then have "rollback c l now STAGE_SHADOW reasons None = Inr d" using assms by (auto simp: health_verdict_def)
    from rollback_Inr [OF this] other show thesis by (intro rolled [of STAGE_SHADOW]) auto
  qed
qed

definition health_previous :: "lifecycle \<Rightarrow> authorization \<Rightarrow> string option" where
  "health_previous l a = (case lf_last_health_evidence_sha256 l of Some s \<Rightarrow> Some s | None \<Rightarrow> au_evidence_sha256 a)"

lemma observe_health_cases:
  assumes "observe_health c pf l now b e f = Inr d" "serving (lifecycle_stage l)"
  obtains (rolled) t where "rolled_back c now t l (ld_state d)" "\<not> ld_allowed d" "lifecycle_ok (ld_state d) = Inr ()"
      "ld_expected_state_revision d = lf_state_revision l"
  | (on) a x where "lifecycle_authorization l = Some a" "lf_serving_expires_at l = Some x" "now < x"
      "sound_evidence (lc_gate c) pf (lf_capability l) (mf_context (lf_manifest l)) (lifecycle_stage l) (health_previous l a) now e b"
      "sf_committed_fact_loss f = 0" "coverage_complete f" "ev_artifact_sha256 e = safety_sha256 pf f"
      "ld_state d = l \<or> noted l (ld_state d)" "lifecycle_ok (ld_state d) = Inr ()"
      "ld_expected_state_revision d = lf_state_revision l"
      "lf_soft_breach_windows (ld_state d) = [] \<or>
        int (length (lf_soft_breach_windows (ld_state d))) < lc_soft_breach_windows_required c"
proof -
  have ok: "lifecycle_ok l = Inr ()" using assms(1) by (auto simp: observe_health_def bindE_eq_Inr)
  obtain a where a: "lifecycle_authorization l = Some a" "lifecycle_stage l = au_stage a" "serving (au_stage a)"
    using assms(2) by (auto simp: lifecycle_stage_def serving_def split: option.splits)
  have m: "manifest_ok (lf_manifest l) = Inr ()" using ok by (auto simp: lifecycle_ok_def)
  have ctx: "au_capability a = lf_capability l" "au_context a = mf_context (lf_manifest l)"
    using manifest_ok_stage [OF m] a(1) by (auto simp: lifecycle_authorization_def)
  show thesis
  proof (cases "\<exists>t reasons. rollback c l now t reasons None = Inr d")
    case True
    then show thesis using rolled rollback_Inr by blast
  next
    case False
    then obtain x health where x: "lf_serving_expires_at l = Some x" "now < x"
      and h: "evaluate_runtime_health (lc_gate c) pf (a\<lparr>au_evidence_sha256 := health_previous l a\<rparr>) now e b = Inr health"
      and clean: "validate_safety_snapshot pf l b e (Some f) = []"
      and verdict: "health_verdict c pf l now b e (fst health) = Inr d"
      using assms(1) a(1,3) ok
      by (auto simp: observe_health_def health_previous_def Let_def bindE_eq_Inr split: option.splits if_splits)
    have v: "validate_evidence (lc_gate c) pf (lf_capability l) (mf_context (lf_manifest l)) (lifecycle_stage l) (health_previous l a)
        now e b = Inr (fst health)" using runtime_health_evidence [OF h] a ctx by simp
    note on' = on [OF a(1) x _ _ _ _ ]
    show thesis
      using verdict
    proof (cases rule: health_verdict_cases)
      case (rolled t)
      then show thesis using that(1) by blast
    next
      case healthy
      then have "sound_evidence (lc_gate c) pf (lf_capability l) (mf_context (lf_manifest l)) (lifecycle_stage l) (health_previous l a) now e b"
        using soft_reasons_only [OF v] by simp
      then show thesis using on' safety_snapshot_clean [OF clean] healthy by blast
    next
      case soft
      then have "sound_evidence (lc_gate c) pf (lf_capability l) (mf_context (lf_manifest l)) (lifecycle_stage l) (health_previous l a) now e b"
        using soft_reasons_only [OF v] by simp
      then show thesis using on' safety_snapshot_clean [OF clean] soft by blast
    qed
  qed
qed

section \<open>Sequences of decisions\<close>

text \<open>A decision of the coordinator that the control plane has persisted.\<close>

inductive canary_step :: "coordinator \<Rightarrow> platform \<Rightarrow> lifecycle \<Rightarrow> lifecycle \<Rightarrow> bool" for c pf where
  do_advance: "advance c pf l target now v revision observation evidence bundle snapshot = Inr d \<Longrightarrow> canary_step c pf l (ld_state d)"
| do_observe: "observe_health c pf l now b e f = Inr d \<Longrightarrow> canary_step c pf l (ld_state d)"

definition lifecycle_follows :: "lifecycle \<Rightarrow> lifecycle \<Rightarrow> bool" where
  "lifecycle_follows l l' \<longleftrightarrow> lf_capability l' = lf_capability l \<and> mf_context (lf_manifest l') = mf_context (lf_manifest l) \<and>
     mf_generation (lf_manifest l) \<le> mf_generation (lf_manifest l') \<and> lf_state_revision l \<le> lf_state_revision l' \<and>
     (lf_state_revision l' = lf_state_revision l \<longrightarrow> l' = l) \<and>
     (mf_generation (lf_manifest l') = mf_generation (lf_manifest l) \<longrightarrow> lifecycle_stage l' = lifecycle_stage l) \<and>
     int (stage_index (lifecycle_stage l')) - int (stage_index (lifecycle_stage l)) \<le>
       mf_generation (lf_manifest l') - mf_generation (lf_manifest l)"

lemma not_serving_index: "\<not> serving t \<Longrightarrow> stage_index t \<le> 1"
  by (cases t) (auto simp: serving_def)

lemma follows_of:
  "l' = l \<or> noted l l' \<or> rolled_back c now t l l' \<or> moved c now t l l' \<Longrightarrow> lifecycle_follows l l'"
  by (auto simp: lifecycle_follows_def noted_def rolled_back_def moved_def stage_of_manifest dest!: not_serving_index)

lemma advance_decided:
  assumes "advance c pf l target now v revision observation evidence bundle snapshot = Inr d"
  shows "decided c now l d"
  using assms
proof (rule advance_cases)
  fix a current selected inventory
  assume e: "evaluate_transition (lc_gate c) pf (lf_capability l) (mf_context (lf_manifest l)) current target now selected
        observation (map_option ab_capacity_report bundle) = Inr (Inr a)"
    and a: "advance_apply c pf l target now v inventory selected a = Inr d"
  show ?thesis using advance_apply_decided [OF a] evaluate_transition_Inr [OF e] by blast
qed (auto simp: decided_def)

lemma observe_decided:
  assumes "observe_health c pf l now b e f = Inr d"
  shows "decided c now l d"
proof (cases "serving (lifecycle_stage l)")
  case True
  show ?thesis by (rule observe_health_cases [OF assms True]) (auto simp: decided_def)
next
  case False
  then have "unchanged True [] l None = Inr d"
    using assms by (auto simp: observe_health_def bindE_eq_Inr lifecycle_stage_def split: option.splits)
  then show ?thesis by (rule decided_unchanged)
qed

lemma decided_follows: "decided c now l d \<Longrightarrow> lifecycle_ok (ld_state d) = Inr () \<and> lifecycle_follows l (ld_state d)"
  unfolding decided_def by (blast intro: follows_of)

lemma canary_step_follows: "canary_step c pf l l' \<Longrightarrow> lifecycle_ok l' = Inr () \<and> lifecycle_follows l l'"
  by (induction rule: canary_step.induct) (blast dest: advance_decided observe_decided decided_follows)+

lemma lifecycle_follows_trans: "lifecycle_follows k l \<Longrightarrow> lifecycle_follows l m \<Longrightarrow> lifecycle_follows k m"
  unfolding lifecycle_follows_def by (elim conjE) (intro conjI impI; force)

interpretation canary_machine: evolving_machine "canary_step c pf" "\<lambda>l. lifecycle_ok l = Inr ()" lifecycle_follows for c pf
proof unfold_locales
  show "lifecycle_follows s s" for s by (simp add: lifecycle_follows_def)
qed (blast dest: canary_step_follows intro: lifecycle_follows_trans)+

section \<open>A step up\<close>

lemma upgrade_justified:
  assumes "advance c pf l target now v revision observation evidence bundle snapshot = Inr d"
    and "stage_index (lifecycle_stage l) < stage_index (lifecycle_stage (ld_state d))" "serving (lifecycle_stage (ld_state d))"
  obtains a current selected inventory where "target = lifecycle_stage (ld_state d)" "ld_allowed d"
    "evaluate_transition (lc_gate c) pf (lf_capability l) (mf_context (lf_manifest l)) current target now selected
      observation (map_option ab_capacity_report bundle) = Inr (Inr a)" "current_stage_of current = lifecycle_stage l"
    "advance_apply c pf l target now v inventory selected a = Inr d"
    "(\<forall>t\<in>set_option (lf_cooldown_until l). t \<le> now) \<and>
        (\<exists>g. v = Some g \<and> revision = Some (gc_inventory_revision g) \<and>
          convergence_matches pf g (lf_manifest l) now (lc_inventory_keys c) (lc_maximum_convergence_age c) = Inr True)"
    "target = CANARY_1 \<Longrightarrow>
        (\<exists>b. bundle = Some b \<and> selected = Some (ae_envelope (ab_signed b)) \<and> admission_reasons pf (lc_verifier c) l now b = Inr [])"
proof (rule advance_cases [OF assms(1)])
  fix a current selected inventory
  assume e: "evaluate_transition (lc_gate c) pf (lf_capability l) (mf_context (lf_manifest l)) current target now selected
        observation (map_option ab_capacity_report bundle) = Inr (Inr a)" "current_stage_of current = lifecycle_stage l"
    and a: "advance_apply c pf l target now v inventory selected a = Inr d"
    and converged: "percent target > percent (lifecycle_stage l) \<Longrightarrow> (\<forall>t\<in>set_option (lf_cooldown_until l). t \<le> now) \<and>
        (\<exists>g. v = Some g \<and> revision = Some (gc_inventory_revision g) \<and>
          convergence_matches pf g (lf_manifest l) now (lc_inventory_keys c) (lc_maximum_convergence_age c) = Inr True)"
    and admitted: "target = CANARY_1 \<Longrightarrow> lifecycle_stage l = STAGE_SHADOW \<Longrightarrow>
        (\<exists>b. bundle = Some b \<and> selected = Some (ae_envelope (ab_signed b)) \<and> admission_reasons pf (lc_verifier c) l now b = Inr [])"
  have m: "moved c now target l (ld_state d)" "ld_allowed d"
    using advance_apply_decided [OF a] evaluate_transition_Inr [OF e(1)] assms(2) by auto
  then have t: "target = lifecycle_stage (ld_state d)" by (simp add: moved_def)
  then have up: "percent target > percent (lifecycle_stage l)" using assms(2,3) by (simp add: percent_less)
  have "lifecycle_stage l = STAGE_SHADOW" if "target = CANARY_1"
    using evaluate_transition_Inr [OF e(1)] that assms(2,3) t e(2) by (cases "lifecycle_stage l") auto
  with t m(2) e a converged [OF up] admitted that show thesis by blast
next
  fix t
  assume "rolled_back c now t l (ld_state d)"
  then show thesis using assms(3) by (auto simp: rolled_back_def)
qed (use assms(2) in auto)

end
