(* ===== verification/Evidence_Facts.thy ===== *)
theory Evidence_Facts
  imports Evidence
begin

text \<open>Signed packages verify until they expire, and the cohorts of the ladder are nested.\<close>

section \<open>Signatures\<close>

lemma mac_frames [simp]:
  "evidence_mac pf key (e\<lparr>ev_signature := z\<rparr>) = evidence_mac pf key e"
  "receipt_mac pf key (r\<lparr>sr_signature := z\<rparr>) = receipt_mac pf key r"
  "attestation_mac pf key (t\<lparr>at_signature := z\<rparr>) = attestation_mac pf key t"
  by (simp_all add: evidence_mac_def signed_items_def receipt_mac_def attestation_mac_def attestation_items_def)

lemma sign_evidence_verifies:
  assumes "sign_evidence pf b artifact expires_at key_id key previous = Inr e"
  shows "verify_evidence pf key e = Inr True \<and> envelope_ok e = Inr () \<and> ev_context e = co_context b \<and> ev_key_id e = key_id \<and>
    ev_observed_until e = co_observed_until b \<and> ev_expires_at e = expires_at \<and> ev_artifact_sha256 e = artifact"
  using assms
  by (auto simp: sign_evidence_def verify_evidence_def bindE_eq_Inr Let_def evidence_mac_def signed_items_def)

lemma sign_receipt_verifies:
  assumes "sign_receipt pf key r = Inr r'"
  shows "verify_receipt pf key r' = Inr True \<and> receipt_ok r' = Inr () \<and> (\<exists>z. r' = r\<lparr>sr_signature := z\<rparr>)"
  using assms by (auto simp: sign_receipt_def verify_receipt_def bindE_eq_Inr Let_def)

lemma sign_attestation_verifies:
  assumes "sign_attestation pf key t = Inr t'"
  shows "verify_attestation_mac pf key t' = Inr True"
  using assms by (auto simp: sign_attestation_def verify_attestation_mac_def bindE_eq_Inr Let_def)

lemma verify_attestation_later: "verify_attestation pf g t kind x now (Some b) = Inr () \<Longrightarrow> verify_attestation pf g t kind x now None = Inr ()"
  by (auto simp: verify_attestation_def bindE_eq_Inr)

lemma package_verifies:
  assumes "sign_shadow_admission pf g x b cap fault cap_att fault_att now expires_at previous = Inr p"
  shows "verify_package pf g p y t \<longleftrightarrow> y = x \<and> now \<le> t \<and> t < expires_at"
proof -
  obtain cap_sha envelope cap_att_sha fault_att_sha rcpt where
    x: "release_context_ok x = Inr ()" "co_context b = x" "co_observed_until b \<le> now"
    and reports: "verify_reports pf cap fault x cap_att fault_att = Inr ()"
    and atts: "verify_attestation pf g cap_att AK_CAPACITY x now (Some b) = Inr ()"
      "verify_attestation pf g fault_att AK_FAULT_DRILL x now (Some b) = Inr ()" "at_runner_key_id cap_att \<noteq> at_runner_key_id fault_att"
    and shas: "capacity_sha256 pf cap = Inr cap_sha" "attestation_sha256 pf cap_att = Inr cap_att_sha"
      "attestation_sha256 pf fault_att = Inr fault_att_sha"
    and e: "sign_evidence pf b cap_sha expires_at (es_signing_key_id g) (es_signing_key g) previous = Inr envelope"
    and r: "sign_receipt pf (es_signing_key g) \<lparr>sr_context = x, sr_evidence_sha256 = evidence_sha256 pf envelope,
       sr_capacity_attestation_sha256 = cap_att_sha, sr_fault_attestation_sha256 = fault_att_sha, sr_signed_at = now,
       sr_signing_key_id = es_signing_key_id g, sr_signature = []\<rparr> = Inr rcpt"
    and p: "p = \<lparr>ae_envelope = envelope, ae_capacity_attestation = cap_att, ae_fault_attestation = fault_att, ae_receipt = rcpt\<rparr>"
    using assms(1) unfolding sign_shadow_admission_def by (auto simp: bindE_eq_Inr)
  have c: "cap_sha = at_report_sha256 cap_att" using reports shas(1) by (auto simp: verify_reports_def bindE_eq_Inr)
  obtain z where z: "rcpt = \<lparr>sr_context = x, sr_evidence_sha256 = evidence_sha256 pf envelope,
       sr_capacity_attestation_sha256 = cap_att_sha, sr_fault_attestation_sha256 = fault_att_sha, sr_signed_at = now,
       sr_signing_key_id = es_signing_key_id g, sr_signature = z\<rparr>" using sign_receipt_verifies [OF r] by auto
  have "package_checks pf g p x t = Inr ()" if "now \<le> t" "t < expires_at"
    unfolding package_checks_def Let_def p bindE_eq_Inr all_ok_Inr
    using sign_evidence_verifies [OF e] sign_receipt_verifies [OF r] atts verify_attestation_later x that shas c z
    by simp (rule exI [of _ True], rule TrueI)
  moreover have "y = x \<and> now \<le> t \<and> t < expires_at" if "package_checks pf g p y t = Inr ()"
    using that sign_evidence_verifies [OF e] z unfolding package_checks_def Let_def p bindE_eq_Inr all_ok_Inr by auto
  ultimately show ?thesis by (auto simp: verify_package_def)
qed

section \<open>Cohorts\<close>

text \<open>How Python prints the percentages of the ladder.\<close>

definition prints_percents :: "platform \<Rightarrow> bool" where
  "prints_percents pf \<longleftrightarrow> pf_repr pf 1 = ''1.0'' \<and> pf_repr pf 5 = ''5.0'' \<and> pf_repr pf 25 = ''25.0''"

lemma thresholds:
  assumes "prints_percents pf"
  shows "rollout_threshold pf (FloatNum 1) = 184467440737095516" "rollout_threshold pf (FloatNum 5) = 922337203685477580"
    "rollout_threshold pf (FloatNum 25) = 4611686018427387904"
proof -
  have d: "decimal_of ''1.0'' = (10, 1)" "decimal_of ''5.0'' = (50, 1)" "decimal_of ''25.0'' = (250, 1)" by (simp_all add: decimal_of_def split_at_def exponent_of_def read_nat_def)
  have c: "decimal_context (10 * 2 ^ 64) = 10 * 2 ^ 64" "decimal_context (50 * 2 ^ 64) = 50 * 2 ^ 64"
    "decimal_context (250 * 2 ^ 64) = 250 * 2 ^ 64"
    by (simp_all add: decimal_context_def half_even_def nat_digits.simps)
  show "rollout_threshold pf (FloatNum 1) = 184467440737095516" "rollout_threshold pf (FloatNum 5) = 922337203685477580"
    "rollout_threshold pf (FloatNum 25) = 4611686018427387904"
    using assms c by (simp_all add: rollout_threshold_def prints_percents_def d)
qed

lemma cohorts_nested:
  assumes "prints_percents pf" "tenant_in_canary_cohort pf tenant s secret v = Inr True" "stage_index s \<le> stage_index s'"
  shows "tenant_in_canary_cohort pf tenant s' secret v = Inr True"
proof -
  have "serving s" using assms(2)
    by (cases s) (simp_all add: tenant_in_canary_cohort_def tenant_in_canary_percent_def bindE_eq_Inr serving_def)
  with assms show ?thesis
    by (cases s; cases s') (auto simp: tenant_in_canary_cohort_def tenant_in_canary_percent_def bindE_eq_Inr serving_def thresholds
      percent_number_def non_negative_number_def)
qed

end
