(* ===== verification/Rate_Limit.thy ===== *)
theory Rate_Limit
  imports Release
begin

text \<open>
  API rate limiting (\<^verbatim>\<open>control_plane/rate_limit.py\<close>): policies per route, the evidence and the
  features of a rollout, decisions and results, and the service, which turns the decision or the
  failure of a backend into an answer. A backend promises the locale \<open>decision_backend\<close>.
\<close>

section \<open>Policies\<close>

datatype route_group = RG_RUN_CREATE | RG_ACTIVE_LIST | RG_UI_STATUS | RG_AUTHORITY_READ | RG_EVENT_READ | RG_FORCE_SQL | RG_STREAM_CONNECT

fun route_value :: "route_group \<Rightarrow> string" where
  "route_value RG_RUN_CREATE = ''run_create''"
| "route_value RG_ACTIVE_LIST = ''active_list''"
| "route_value RG_UI_STATUS = ''ui_status''"
| "route_value RG_AUTHORITY_READ = ''run_read''"
| "route_value RG_EVENT_READ = ''event_read''"
| "route_value RG_FORCE_SQL = ''force_sql''"
| "route_value RG_STREAM_CONNECT = ''stream_connect''"

datatype rate_limit_mode = RL_OFF | RL_SHADOW | RL_ENFORCE

datatype failure_policy = FAIL_OPEN | FAIL_CLOSED

datatype rate_disposition = RL_ALLOWED | RL_RATE_LIMITED | RL_UNAVAILABLE

datatype rate_outcome = RO_DISABLED | RO_ALLOWED | RO_RATE_LIMITED | RO_SHADOW_ALLOWED | RO_SHADOW_WOULD_LIMIT
  | RO_REDIS_ERROR_FAIL_OPEN | RO_REDIS_ERROR_FAIL_CLOSED

definition MAX_WINDOW_SECONDS :: int where
  "MAX_WINDOW_SECONDS = 3600"

definition MAX_REQUESTS_PER_WINDOW :: int where
  "MAX_REQUESTS_PER_WINDOW = 10000000"

definition bounded_positive_int :: "int \<Rightarrow> int \<Rightarrow> unit result" where
  "bounded_positive_int v maximum = refuse_if (\<not> (1 \<le> v \<and> v \<le> maximum))"

record rate_policy =
  rp_window_seconds :: int
  rp_tenant_limit :: int
  rp_user_limit :: int

definition rate_policy_ok :: "rate_policy \<Rightarrow> unit result" where
  "rate_policy_ok p = all_ok [bounded_positive_int (rp_window_seconds p) MAX_WINDOW_SECONDS,
     bounded_positive_int (rp_tenant_limit p) MAX_REQUESTS_PER_WINDOW, bounded_positive_int (rp_user_limit p) MAX_REQUESTS_PER_WINDOW,
     refuse_if (rp_user_limit p > rp_tenant_limit p)]"

text \<open>\<^verbatim>\<open>ApiRateLimitPolicies\<close>: a table with every route group.\<close>

type_synonym rate_policies = "(route_group \<times> rate_policy) list"

definition rate_policies_ok :: "rate_policies \<Rightarrow> unit result" where
  "rate_policies_ok ps = refuse_if (fst ` set ps \<noteq>
     {RG_RUN_CREATE, RG_ACTIVE_LIST, RG_UI_STATUS, RG_AUTHORITY_READ, RG_EVENT_READ, RG_FORCE_SQL, RG_STREAM_CONNECT})"

definition for_route :: "rate_policies \<Rightarrow> route_group \<Rightarrow> rate_policy result" where
  "for_route ps g = (case map_of ps g of None \<Rightarrow> Inl KeyError | Some p \<Rightarrow> Inr p)"

section \<open>Admission\<close>

record rate_admission =
  ra_load_multiplier :: number
  ra_decision_p95_ms :: number
  ra_sustained_decisions_per_second :: number
  ra_redis_error_percent :: number
  ra_concurrent_boundary_tested :: bool
  ra_cluster_failover_tested :: bool
  ra_script_reload_tested :: bool
  ra_redis_flush_tested :: bool
  ra_redis_eviction_tested :: bool
  ra_fail_open_tested :: bool
  ra_fail_closed_tested :: bool
  ra_retry_after_tested :: bool
  ra_sql_safety_boundary_tested :: bool
  ra_ingress_rate_limit_tested :: bool
  ra_shadow_observation_tested :: bool
  ra_redis_server_time_tested :: bool
  ra_ttl_recovery_tested :: bool
  ra_hot_tenant_tested :: bool
  ra_fairness_tested :: bool
  ra_protocol_corruption_tested :: bool
  ra_cross_tenant_isolation_tested :: bool
  ra_same_slot_tested :: bool
  ra_canary_percent :: number

definition rate_admission_ok :: "rate_admission \<Rightarrow> unit result" where
  "rate_admission_ok a = all_ok [non_negative_number (ra_load_multiplier a), non_negative_number (ra_decision_p95_ms a),
     non_negative_number (ra_sustained_decisions_per_second a), percent_number (ra_redis_error_percent a),
     percent_number (ra_canary_percent a), refuse_if (num_value (ra_load_multiplier a) = 0),
     refuse_if (num_value (ra_canary_percent a) = 0)]"

definition rate_admission_qualifies :: "platform \<Rightarrow> rate_admission \<Rightarrow> bool" where
  "rate_admission_qualifies pf a \<longleftrightarrow> num_value (ra_load_multiplier a) \<ge> 2 \<and> num_value (ra_decision_p95_ms a) < 10 \<and>
     num_value (ra_sustained_decisions_per_second a) \<ge> 500 \<and> num_value (ra_redis_error_percent a) \<le> literal pf (1 / 10) \<and>
     list_all (\<lambda>b. b) [ra_concurrent_boundary_tested a, ra_cluster_failover_tested a, ra_script_reload_tested a,
       ra_redis_flush_tested a, ra_redis_eviction_tested a, ra_fail_open_tested a, ra_fail_closed_tested a, ra_retry_after_tested a,
       ra_sql_safety_boundary_tested a, ra_ingress_rate_limit_tested a, ra_shadow_observation_tested a, ra_redis_server_time_tested a,
       ra_ttl_recovery_tested a, ra_hot_tenant_tested a, ra_fairness_tested a, ra_protocol_corruption_tested a,
       ra_cross_tenant_isolation_tested a, ra_same_slot_tested a]"

record rate_features =
  rf_mode :: rate_limit_mode
  rf_rollout_percent :: number
  rf_admission_evidence :: "rate_admission option"

definition rate_features_ok :: "platform \<Rightarrow> rate_features \<Rightarrow> unit result" where
  "rate_features_ok pf f =
     bindE (percent_number (rf_rollout_percent f)) (\<lambda>_.
     let rollout = num_value (rf_rollout_percent f) in
     case rf_mode f of
       RL_OFF \<Rightarrow> refuse_if (rollout \<noteq> 0 \<or> rf_admission_evidence f \<noteq> None)
     | RL_SHADOW \<Rightarrow> refuse_if (rollout \<noteq> 0)
     | RL_ENFORCE \<Rightarrow>
         (case rf_admission_evidence f of
            None \<Rightarrow> Inl ValueError
          | Some a \<Rightarrow> refuse_if (\<not> rate_admission_qualifies pf a \<or> rollout = 0 \<or> rollout > num_value (ra_canary_percent a))))"

section \<open>Checks, decisions and results\<close>

record rate_check =
  rc_tenant_id :: string
  rc_user_id :: string
  rc_route_group :: route_group
  rc_policy :: rate_policy
  rc_request_nonce :: string

definition rate_check_ok :: "rate_check \<Rightarrow> unit result" where
  "rate_check_ok c = all_ok [refuse_if (\<not> identity_ok (rc_tenant_id c)), refuse_if (\<not> identity_ok (rc_user_id c)),
     refuse_if (length (rc_request_nonce c) \<noteq> 32 \<or> \<not> set (rc_request_nonce c) \<subseteq> set ''0123456789abcdef'')]"

record rate_decision =
  rd_allowed :: bool
  rd_limit :: int
  rd_remaining :: int
  rd_reset_after_ms :: int
  rd_retry_after_ms :: "int option"

definition rate_decision_new :: "rate_decision \<Rightarrow> rate_decision result" where
  "rate_decision_new d = bindE (all_ok [bounded_positive_int (rd_limit d) MAX_REQUESTS_PER_WINDOW,
     refuse_if (\<not> (0 \<le> rd_remaining d \<and> rd_remaining d \<le> rd_limit d)),
     refuse_if (rd_reset_after_ms d < 0 \<or> rd_reset_after_ms d > MAX_WINDOW_SECONDS * 1000),
     if rd_allowed d then refuse_if (rd_retry_after_ms d \<noteq> None)
     else (case rd_retry_after_ms d of None \<Rightarrow> Inl ValueError
       | Some t \<Rightarrow> refuse_if (t < 1 \<or> t > MAX_WINDOW_SECONDS * 1000))]) (\<lambda>_. Inr d)"

record rate_result =
  rr_disposition :: rate_disposition
  rr_enforced :: bool
  rr_limit :: "int option"
  rr_remaining :: "int option"
  rr_reset_after_ms :: "int option"
  rr_retry_after_ms :: "int option"

definition rate_result_new :: "rate_result \<Rightarrow> rate_result result" where
  "rate_result_new r =
     bindE (case (rr_limit r, rr_remaining r, rr_reset_after_ms r) of
         (None, None, None) \<Rightarrow> refuse_if (rr_retry_after_ms r \<noteq> None)
       | (Some l, Some n, Some t) \<Rightarrow>
           bindE (rate_decision_new \<lparr>rd_allowed = (rr_disposition r \<noteq> RL_RATE_LIMITED), rd_limit = l, rd_remaining = n,
             rd_reset_after_ms = t, rd_retry_after_ms = rr_retry_after_ms r\<rparr>) (\<lambda>_. Inr ())
       | _ \<Rightarrow> Inl ValueError) (\<lambda>_.
     bindE (case rr_disposition r of
         RL_RATE_LIMITED \<Rightarrow> refuse_if (\<not> rr_enforced r \<or> rr_retry_after_ms r = None)
       | RL_UNAVAILABLE \<Rightarrow> refuse_if (\<not> rr_enforced r \<or> rr_limit r \<noteq> None \<or> rr_remaining r \<noteq> None \<or>
           rr_reset_after_ms r \<noteq> None \<or> rr_retry_after_ms r \<noteq> None)
       | RL_ALLOWED \<Rightarrow> Inr ()) (\<lambda>_. Inr r))"

definition plain_result :: "rate_disposition \<Rightarrow> bool \<Rightarrow> rate_result" where
  "plain_result d enforced = \<lparr>rr_disposition = d, rr_enforced = enforced, rr_limit = None, rr_remaining = None,
     rr_reset_after_ms = None, rr_retry_after_ms = None\<rparr>"

definition allowed_result :: "rate_decision \<Rightarrow> bool \<Rightarrow> rate_result result" where
  "allowed_result d enforced = rate_result_new \<lparr>rr_disposition = RL_ALLOWED, rr_enforced = enforced, rr_limit = Some (rd_limit d),
     rr_remaining = Some (rd_remaining d), rr_reset_after_ms = Some (rd_reset_after_ms d), rr_retry_after_ms = None\<rparr>"

section \<open>The service\<close>

fun redis_failure_policy :: "route_group \<Rightarrow> failure_policy" where
  "redis_failure_policy RG_ACTIVE_LIST = FAIL_OPEN"
| "redis_failure_policy RG_UI_STATUS = FAIL_OPEN"
| "redis_failure_policy RG_AUTHORITY_READ = FAIL_OPEN"
| "redis_failure_policy RG_EVENT_READ = FAIL_OPEN"
| "redis_failure_policy _ = FAIL_CLOSED"

text \<open>The policy of tenants is any function that answers or raises.\<close>

record rate_service =
  rv_has_backend :: bool
  rv_policies :: rate_policies
  rv_features :: rate_features
  rv_rollout_hmac_secret :: "string option"
  rv_tenant_policy :: "(redis_capability \<Rightarrow> string \<Rightarrow> bool result) option"

definition rate_service_new :: "rate_service \<Rightarrow> rate_service result" where
  "rate_service_new v = bindE (all_ok [refuse_if (rf_mode (rv_features v) \<noteq> RL_OFF \<and> \<not> rv_has_backend v),
     case rv_rollout_hmac_secret v of None \<Rightarrow> Inr () | Some key \<Rightarrow> hmac_key_ok key,
     refuse_if (rf_mode (rv_features v) = RL_ENFORCE \<and> rv_tenant_policy v = None)]) (\<lambda>_. Inr v)"

definition tenant_can_enforce :: "rate_service \<Rightarrow> string \<Rightarrow> bool" where
  "tenant_can_enforce v tenant_id = (case rv_tenant_policy v of
     None \<Rightarrow> False | Some p \<Rightarrow> p API_RATE_LIMIT_ENFORCE tenant_id = Inr True)"

text \<open>
  \<^verbatim>\<open>evaluate\<close>: the answer and the outcome the observer is told (its exceptions are dropped). The
  backend answers with a decision or raises, and may change its state \<open>'r\<close>.
\<close>

definition service_evaluate ::
  "rate_service \<Rightarrow> (rate_check \<Rightarrow> 'r \<Rightarrow> rate_decision result \<times> 'r) \<Rightarrow> string \<Rightarrow> string \<Rightarrow> string \<Rightarrow> route_group \<Rightarrow> 'r
     \<Rightarrow> (rate_outcome \<times> rate_result) result \<times> 'r" where
  "service_evaluate v backend nonce tenant_id user_id g r =
     (case all_ok [refuse_if (\<not> identity_ok tenant_id), refuse_if (\<not> identity_ok user_id)] of
        Inl e \<Rightarrow> (Inl e, r)
      | Inr _ \<Rightarrow>
          if rf_mode (rv_features v) = RL_OFF then (Inr (RO_DISABLED, plain_result RL_ALLOWED False), r)
          else
            let enforce = (rf_mode (rv_features v) = RL_ENFORCE \<and> tenant_can_enforce v tenant_id) in
            case bindE (for_route (rv_policies v) g) (\<lambda>p.
              let c = \<lparr>rc_tenant_id = tenant_id, rc_user_id = user_id, rc_route_group = g, rc_policy = p, rc_request_nonce = nonce\<rparr> in
              bindE (rate_check_ok c) (\<lambda>_. Inr c)) of
              Inl e \<Rightarrow> (Inl e, r)
            | Inr c \<Rightarrow>
                if \<not> rv_has_backend v then (Inl AssertionError, r)
                else case backend c r of
                  (Inl _, r') \<Rightarrow>
                    if \<not> enforce \<or> redis_failure_policy g = FAIL_OPEN
                    then (Inr (RO_REDIS_ERROR_FAIL_OPEN, plain_result RL_ALLOWED False), r')
                    else (Inr (RO_REDIS_ERROR_FAIL_CLOSED, plain_result RL_UNAVAILABLE True), r')
                | (Inr d, r') \<Rightarrow>
                    if \<not> enforce
                    then (bindE (allowed_result d False) (\<lambda>x.
                      Inr (if rd_allowed d then RO_SHADOW_ALLOWED else RO_SHADOW_WOULD_LIMIT, x)), r')
                    else if rd_allowed d then (bindE (allowed_result d True) (\<lambda>x. Inr (RO_ALLOWED, x)), r')
                    else (bindE (rate_result_new \<lparr>rr_disposition = RL_RATE_LIMITED, rr_enforced = True, rr_limit = Some (rd_limit d),
                      rr_remaining = Some (rd_remaining d), rr_reset_after_ms = Some (rd_reset_after_ms d),
                      rr_retry_after_ms = rd_retry_after_ms d\<rparr>) (\<lambda>x. Inr (RO_RATE_LIMITED, x)), r'))"

definition tenant_in_rate_limit_canary :: "platform \<Rightarrow> string \<Rightarrow> number \<Rightarrow> string \<Rightarrow> bool result" where
  "tenant_in_rate_limit_canary pf tenant_id p secret = tenant_in_canary_percent pf tenant_id p secret ''redis-canary-v1''"

section \<open>The contract of a backend\<close>

definition enforced_for :: "rate_service \<Rightarrow> string \<Rightarrow> bool" where
  "enforced_for v tenant_id \<longleftrightarrow> rf_mode (rv_features v) = RL_ENFORCE \<and> tenant_can_enforce v tenant_id"

definition request_ok :: "rate_service \<Rightarrow> string \<Rightarrow> string \<Rightarrow> string \<Rightarrow> bool" where
  "request_ok v nonce tenant_id user_id \<longleftrightarrow> rate_service_new v = Inr v \<and> rate_policies_ok (rv_policies v) = Inr () \<and>
     identity_ok tenant_id \<and> identity_ok user_id \<and> length nonce = 32 \<and> set nonce \<subseteq> set ''0123456789abcdef''"

lemma for_route_total:
  assumes "rate_policies_ok ps = Inr ()"
  shows "\<exists>p. for_route ps g = Inr p"
proof -
  have "fst ` set ps = UNIV" using assms by (auto simp: rate_policies_ok_def intro: route_group.exhaust)
  then have "map_of ps g \<noteq> None" by (simp add: map_of_eq_None_iff)
  then show ?thesis by (auto simp: for_route_def)
qed

text \<open>
  What the service relies on: a decision that a backend returns was constructed. The answer is then
  one of the dispositions, and a raised exception of any kind becomes one of two of them.
\<close>

locale decision_backend =
  fixes decide :: "rate_check \<Rightarrow> 'r \<Rightarrow> rate_decision result \<times> 'r"
  assumes constructed: "decide c r = (Inr d, r') \<Longrightarrow> rate_decision_new d = Inr d"
begin

lemma service_answers:
  assumes "request_ok v nonce tenant_id user_id"
  shows "\<exists>c outcome x r'. service_evaluate v decide nonce tenant_id user_id g r = (Inr (outcome, x), r') \<and>
    (rr_disposition x \<noteq> RL_ALLOWED \<longrightarrow> enforced_for v tenant_id) \<and>
    (rf_mode (rv_features v) = RL_OFF \<longrightarrow> r' = r) \<and>
    (rf_mode (rv_features v) \<noteq> RL_OFF \<longrightarrow> rc_tenant_id c = tenant_id \<and> rc_user_id c = user_id \<and> rc_route_group c = g \<and>
      for_route (rv_policies v) g = Inr (rc_policy c) \<and> r' = snd (decide c r) \<and>
      (case fst (decide c r) of
         Inl _ \<Rightarrow> rr_disposition x = (if enforced_for v tenant_id \<and> redis_failure_policy g = FAIL_CLOSED then RL_UNAVAILABLE else RL_ALLOWED)
       | Inr d \<Rightarrow> rr_disposition x = (if enforced_for v tenant_id \<and> \<not> rd_allowed d then RL_RATE_LIMITED else RL_ALLOWED)))"
proof (cases "rf_mode (rv_features v) = RL_OFF")
  case True
  with assms show ?thesis by (simp add: service_evaluate_def request_ok_def refuse_if_def plain_result_def)
next
  case False
  obtain p where p: "for_route (rv_policies v) g = Inr p" using for_route_total [of "rv_policies v" g] assms by (auto simp: request_ok_def)
  define c where c: "c = \<lparr>rc_tenant_id = tenant_id, rc_user_id = user_id, rc_route_group = g, rc_policy = p, rc_request_nonce = nonce\<rparr>"
  have ok: "rate_check_ok c = Inr ()" using assms by (simp add: rate_check_ok_def c request_ok_def refuse_if_def)
  have b: "rv_has_backend v" using assms False by (auto simp: request_ok_def rate_service_new_def bindE_eq_Inr)
  have ids: "refuse_if (\<not> identity_ok tenant_id) = Inr ()" "refuse_if (\<not> identity_ok user_id) = Inr ()"
    using assms by (simp_all add: request_ok_def refuse_if_def)
  obtain a r' where d: "decide c r = (a, r')" by (cases "decide c r")
  note defs = service_evaluate_def ids False p c [symmetric] ok b d bindE_def Let_def enforced_for_def plain_result_def
  show ?thesis
  proof (cases a)
    case (Inl e)
    have "redis_failure_policy g \<noteq> FAIL_CLOSED \<Longrightarrow> redis_failure_policy g = FAIL_OPEN" by (cases "redis_failure_policy g") simp_all
    with Inl show ?thesis using b by (intro exI [of _ c]) (simp add: defs, simp add: c p)
  next
    case (Inr x)
    then have x: "rate_decision_new x = Inr x" using constructed d by simp
    then have ra: "\<exists>y. allowed_result x enforced = Inr y \<and> rr_disposition y = RL_ALLOWED" for enforced
      by (auto simp: allowed_result_def rate_result_new_def rate_decision_new_def bindE_eq_Inr)
    have rl: "\<exists>y. rate_result_new \<lparr>rr_disposition = RL_RATE_LIMITED, rr_enforced = True, rr_limit = Some (rd_limit x),
        rr_remaining = Some (rd_remaining x), rr_reset_after_ms = Some (rd_reset_after_ms x), rr_retry_after_ms = rd_retry_after_ms x\<rparr> = Inr y \<and>
        rr_disposition y = RL_RATE_LIMITED" if "\<not> rd_allowed x"
      using x that by (auto simp: rate_result_new_def rate_decision_new_def bindE_eq_Inr split: option.splits)
    obtain y where y: "rr_disposition y = (if enforced_for v tenant_id \<and> \<not> rd_allowed x then RL_RATE_LIMITED else RL_ALLOWED)"
      "(if \<not> enforced_for v tenant_id then allowed_result x False else if rd_allowed x then allowed_result x True
        else rate_result_new \<lparr>rr_disposition = RL_RATE_LIMITED, rr_enforced = True, rr_limit = Some (rd_limit x),
          rr_remaining = Some (rd_remaining x), rr_reset_after_ms = Some (rd_reset_after_ms x), rr_retry_after_ms = rd_retry_after_ms x\<rparr>) = Inr y"
      using ra [of True] ra [of False] rl by (cases "enforced_for v tenant_id"; cases "rd_allowed x") auto
    then have "service_evaluate v decide nonce tenant_id user_id g r = (Inr (if \<not> enforced_for v tenant_id
        then if rd_allowed x then RO_SHADOW_ALLOWED else RO_SHADOW_WOULD_LIMIT else if rd_allowed x then RO_ALLOWED else RO_RATE_LIMITED, y), r')"
      using Inr by (auto simp: defs split: if_splits)
    then show ?thesis using Inr y(1) False p d by (intro exI [of _ c]) (auto simp: c)
  qed
qed

end

end
