(* ===== verification/Token_Bucket.thy ===== *)
theory Token_Bucket
  imports Rate_Limit
begin

text \<open>
  The token buckets of the rate limiter in Redis (\<^verbatim>\<open>production/redis_api_rate_limit.py\<close>): the Lua
  script, its keys, and the reading of its replies. Redis is its keys with their expiry in
  milliseconds of its own clock; a key whose expiry has passed is gone. It executes a script
  atomically and at one instant.
\<close>

section \<open>Redis\<close>

text \<open>A hash, or a key of another type.\<close>

datatype redis_object = RHash "(string \<times> string) list" | ROther

record bucket_entry =
  be_object :: redis_object
  be_expires_ms :: "nat option"

type_synonym buckets = "string \<rightharpoonup> bucket_entry"

definition entry_at :: "buckets \<Rightarrow> nat \<Rightarrow> string \<Rightarrow> bucket_entry option" where
  "entry_at r now key = (case r key of None \<Rightarrow> None
     | Some e \<Rightarrow> (case be_expires_ms e of None \<Rightarrow> Some e | Some t \<Rightarrow> if now > t then None else Some e))"

definition hset :: "string \<Rightarrow> string \<Rightarrow> (string \<times> string) list \<Rightarrow> (string \<times> string) list" where
  "hset k v h = (k, v) # filter (\<lambda>(k', _). k' \<noteq> k) h"

definition put_bucket :: "nat \<Rightarrow> string \<Rightarrow> string \<Rightarrow> string \<Rightarrow> nat \<Rightarrow> buckets \<Rightarrow> buckets" where
  "put_bucket now key tokens last_ms ttl_ms r =
     (let h = (case entry_at r now key of Some e \<Rightarrow> (case be_object e of RHash h \<Rightarrow> h | ROther \<Rightarrow> []) | None \<Rightarrow> []) in
      r(key \<mapsto> \<lparr>be_object = RHash (hset ''last_ms'' last_ms (hset ''tokens'' tokens h)), be_expires_ms = Some (now + ttl_ms)\<rparr>))"

section \<open>Numbers of Lua\<close>

text \<open>
  A number is a double: the value of a literal or of an operation is rounded by the platform.
  \<^verbatim>\<open>math.floor\<close>, \<^verbatim>\<open>math.ceil\<close>, \<^verbatim>\<open>math.min\<close> and \<^verbatim>\<open>math.max\<close> need no rounding.
\<close>

definition is_canonical_decimal :: "string option \<Rightarrow> bool" where
  "is_canonical_decimal value \<longleftrightarrow> lua_is_canonical_decimal value \<and> (\<forall>v\<in>set_option value. length v \<le> 16)"

definition parse_bounded :: "platform \<Rightarrow> string option \<Rightarrow> rat \<Rightarrow> rat \<Rightarrow> rat option" where
  "parse_bounded pf value minimum maximum =
     (if \<not> is_canonical_decimal value then None
      else
        let parsed = literal pf (of_nat (read_nat (the value))) in
        if parsed < minimum \<or> parsed > maximum then None else Some parsed)"

text \<open>\<^verbatim>\<open>string.format('%.0f', value)\<close>\<close>

definition lua_decimal :: "rat \<Rightarrow> string" where
  "lua_decimal v = (let n = \<lfloor>v\<rfloor>; f = v - of_int n in int_text (if f > 1 / 2 \<or> f = 1 / 2 \<and> odd n then n + 1 else n))"

definition scaled_refill :: "platform \<Rightarrow> rat \<Rightarrow> rat \<Rightarrow> rat \<Rightarrow> rat" where
  "scaled_refill pf elapsed capacity window_ms =
     (let quotient = of_int \<lfloor>literal pf (capacity / window_ms)\<rfloor>;
          remainder = literal pf (capacity - literal pf (quotient * window_ms)) in
      literal pf (literal pf (elapsed * quotient) + of_int \<lfloor>literal pf (literal pf (elapsed * remainder) / window_ms)\<rfloor>))"

definition bounded_wait :: "platform \<Rightarrow> rat \<Rightarrow> rat \<Rightarrow> rat \<Rightarrow> rat" where
  "bounded_wait pf deficit capacity window_ms =
     (if deficit \<le> 0 then 0
      else max 1 (of_int \<lceil>literal pf (literal pf (deficit / capacity) * window_ms)\<rceil>))"

section \<open>The script\<close>

text \<open>\<^verbatim>\<open>read_bucket\<close>: the tokens at this instant; the instant itself is the same for all.\<close>

definition read_bucket :: "platform \<Rightarrow> buckets \<Rightarrow> nat \<Rightarrow> rat \<Rightarrow> rat \<Rightarrow> string \<Rightarrow> rat \<Rightarrow> rat option" where
  "read_bucket pf r clock now_ms window_ms key capacity_units = (case entry_at r clock key of
       None \<Rightarrow> Some capacity_units
     | Some e \<Rightarrow>
         (case be_object e of
            ROther \<Rightarrow> None
          | RHash h \<Rightarrow>
              if length h \<noteq> 2 then None
              else case parse_bounded pf (map_of h ''tokens'') 0 capacity_units of
                None \<Rightarrow> None
              | Some stored_tokens \<Rightarrow>
                  if \<not> is_canonical_decimal (map_of h ''last_ms'') then None
                  else case parse_bounded pf (map_of h ''last_ms'') 0 9007199254740991 of
                    None \<Rightarrow> None
                  | Some stored_last \<Rightarrow>
                      if stored_last > now_ms then None
                      else
                        let elapsed = literal pf (now_ms - stored_last) in
                        if elapsed \<ge> window_ms then Some capacity_units
                        else Some (min capacity_units (literal pf (stored_tokens + scaled_refill pf elapsed capacity_units window_ms)))))"

definition PROTOCOL_REPLY :: "string list" where
  "PROTOCOL_REPLY = [''protocol'', ''0'', ''0'', ''0'', ''0'']"

text \<open>Both buckets have been read: deny, or take the cost from both.\<close>

definition spend_tokens ::
  "platform \<Rightarrow> nat \<Rightarrow> rat \<Rightarrow> string \<Rightarrow> string \<Rightarrow> rat \<Rightarrow> rat \<Rightarrow> rat \<Rightarrow> rat \<Rightarrow> nat \<Rightarrow> rat \<Rightarrow> rat \<Rightarrow> buckets \<Rightarrow> string list \<times> buckets" where
  "spend_tokens pf clock now_ms tenant_key user_key tenant_capacity user_capacity window_ms cost_units ttl_ms tenant user r =
     (let wait = (\<lambda>deficit capacity. bounded_wait pf (literal pf deficit) capacity window_ms) in
      if tenant < cost_units \<or> user < cost_units
      then
        let tenant_retry = bounded_wait pf (max 0 (literal pf (cost_units - tenant))) tenant_capacity window_ms;
            user_retry = bounded_wait pf (max 0 (literal pf (cost_units - user))) user_capacity window_ms;
            retry_ms = max 1 (max tenant_retry user_retry);
            tenant_reset = wait (tenant_capacity - tenant) tenant_capacity;
            user_reset = wait (user_capacity - user) user_capacity in
        ([''denied'', lua_decimal retry_ms, lua_decimal tenant, lua_decimal user, lua_decimal (max tenant_reset user_reset)], r)
      else
        let tenant_after = literal pf (tenant - cost_units); user_after = literal pf (user - cost_units);
            tenant_reset = wait (tenant_capacity - tenant_after) tenant_capacity;
            user_reset = wait (user_capacity - user_after) user_capacity;
            r1 = put_bucket clock tenant_key (lua_decimal tenant_after) (lua_decimal now_ms) ttl_ms r;
            r2 = put_bucket clock user_key (lua_decimal user_after) (lua_decimal now_ms) ttl_ms r1 in
        ([''allowed'', ''0'', lua_decimal tenant_after, lua_decimal user_after, lua_decimal (max tenant_reset user_reset)], r2))"

text \<open>The clock is the number of milliseconds; \<^verbatim>\<open>TIME\<close> answers seconds and microseconds.\<close>

definition redis_time :: "nat \<Rightarrow> nat \<Rightarrow> string \<times> string" where
  "redis_time clock micros = (nat_digits (clock div 1000), nat_digits (clock mod 1000 * 1000 + micros))"

definition token_bucket_lua :: "platform \<Rightarrow> nat \<Rightarrow> nat \<Rightarrow> string list \<Rightarrow> string list \<Rightarrow> buckets \<Rightarrow> string list \<times> buckets" where
  "token_bucket_lua pf clock micros keys argv r =
     (let arg = (\<lambda>i. if i < length argv then Some (argv ! i) else None) in
      case (parse_bounded pf (arg 0) 1 10000000, parse_bounded pf (arg 1) 1 10000000, parse_bounded pf (arg 2) 1000 3600000,
            parse_bounded pf (arg 3) 1 10000000, parse_bounded pf (arg 4) 2000 3601000) of
        (Some tenant_limit, Some user_limit, Some window_ms, Some cost, Some ttl_ms) \<Rightarrow>
          if cost > tenant_limit \<or> cost > user_limit \<or> ttl_ms \<noteq> literal pf (window_ms + 1000) then (PROTOCOL_REPLY, r)
          else
            let (seconds, microseconds) = redis_time clock micros in
            if \<not> is_canonical_decimal (Some seconds) \<or> \<not> is_canonical_decimal (Some microseconds) then (PROTOCOL_REPLY, r)
            else
              (case (parse_bounded pf (Some seconds) 0 9007199254740, parse_bounded pf (Some microseconds) 0 999999) of
                 (Some time_seconds, Some time_microseconds) \<Rightarrow>
                   let now_ms = literal pf (literal pf (time_seconds * 1000) + of_int \<lfloor>literal pf (time_microseconds / 1000)\<rfloor>);
                       cost_units = literal pf (cost * 1000);
                       tenant_capacity = literal pf (tenant_limit * 1000); user_capacity = literal pf (user_limit * 1000);
                       tenant_key = hd keys; user_key = hd (tl keys) in
                   (case (read_bucket pf r clock now_ms window_ms tenant_key tenant_capacity,
                          read_bucket pf r clock now_ms window_ms user_key user_capacity) of
                      (Some tenant, Some user) \<Rightarrow>
                        spend_tokens pf clock now_ms tenant_key user_key tenant_capacity user_capacity window_ms cost_units
                          (nat \<lfloor>ttl_ms\<rfloor>) tenant user r
                    | _ \<Rightarrow> (PROTOCOL_REPLY, r))
               | _ \<Rightarrow> (PROTOCOL_REPLY, r))
      | _ \<Rightarrow> (PROTOCOL_REPLY, r))"

section \<open>The adapter\<close>

record rate_backend =
  rb_environment :: string
  rb_namespace_hmac_key :: string

definition rate_environment_ok :: "string \<Rightarrow> bool" where
  "rate_environment_ok s \<longleftrightarrow> s \<noteq> [] \<and> length s \<le> 32 \<and> list_all (ascii_in ''_-'' False) s"

definition rate_backend_new :: "rate_backend \<Rightarrow> rate_backend result" where
  "rate_backend_new b = bindE (all_ok [refuse_if (\<not> rate_environment_ok (rb_environment b)),
     hmac_key_ok (rb_namespace_hmac_key b)]) (\<lambda>_. Inr b)"

definition rate_keys :: "platform \<Rightarrow> rate_backend \<Rightarrow> string \<Rightarrow> string \<Rightarrow> route_group \<Rightarrow> rate_policy \<Rightarrow> string \<times> string" where
  "rate_keys pf b tenant_id user_id g p =
     (let z = [char_of (0 :: nat)]; mac = pf_hmac pf (rb_namespace_hmac_key b);
          tenant_token = mac (''api-rate-limit/tenant/v1'' @ z @ tenant_id);
          user_token = mac (''api-rate-limit/user/v1'' @ z @ tenant_id @ z @ user_id);
          policy_token = mac (''api-rate-limit/policy/v1'' @ z @ route_value g @ z @ int_text (rp_window_seconds p) @ z @
            int_text (rp_tenant_limit p) @ z @ int_text (rp_user_limit p));
          slot = ''{rl:'' @ tenant_token @ ''}'';
          prefix = ''fr:'' @ rb_environment b @ '':v1:'' @ slot @ '':rate:'' @ route_value g @ '':p:'' @ policy_token in
      (prefix @ '':tenant'', prefix @ '':user:'' @ user_token))"

definition decode_ascii :: "redis_value \<Rightarrow> string result" where
  "decode_ascii v = (case v of
       RBytes s \<Rightarrow> if is_ascii s then Inr s else Inl ApiRateLimitBackendProtocolError
     | RStr s \<Rightarrow> if is_ascii s then Inr s else Inl ApiRateLimitBackendProtocolError
     | _ \<Rightarrow> Inl ApiRateLimitBackendProtocolError)"

definition parse_canonical_decimal :: "redis_value \<Rightarrow> int result" where
  "parse_canonical_decimal v = bindE (decode_ascii v) (\<lambda>s.
     if \<not> ascii_decimal s \<or> leading_zero s \<or> length s > 16 then Inl ApiRateLimitBackendProtocolError else Inr (int (read_nat s)))"

definition protocol_if :: "bool \<Rightarrow> unit result" where
  "protocol_if b = (if b then Inl ApiRateLimitBackendProtocolError else Inr ())"

definition parse_decision :: "redis_value \<Rightarrow> int \<Rightarrow> int \<Rightarrow> int \<Rightarrow> int \<Rightarrow> rate_decision result" where
  "parse_decision response tenant_limit user_limit window_ms cost = (case response of
       RSeq [s, a, b, c, d] \<Rightarrow>
         bindE (decode_ascii s) (\<lambda>status.
         bindE (protocol_if (status \<notin> {''allowed'', ''denied''})) (\<lambda>_.
         bindE (parse_canonical_decimal a) (\<lambda>retry_ms.
         bindE (parse_canonical_decimal b) (\<lambda>tenant_units.
         bindE (parse_canonical_decimal c) (\<lambda>user_units.
         bindE (parse_canonical_decimal d) (\<lambda>reset_ms.
         let tenant_capacity = tenant_limit * 1000; user_capacity = user_limit * 1000; cost_units = cost * 1000;
             allowed = (status = ''allowed'') in
         bindE (protocol_if (tenant_units > tenant_capacity \<or> user_units > user_capacity)) (\<lambda>_.
         bindE (protocol_if (reset_ms < 1 \<or> reset_ms > window_ms)) (\<lambda>_.
         bindE (protocol_if (if allowed
             then retry_ms \<noteq> 0 \<or> tenant_units > tenant_capacity - cost_units \<or> user_units > user_capacity - cost_units
             else retry_ms < 1 \<or> retry_ms > window_ms \<or> (tenant_units \<ge> cost_units \<and> user_units \<ge> cost_units))) (\<lambda>_.
         rate_decision_new \<lparr>rd_allowed = allowed, rd_limit = min tenant_limit user_limit,
           rd_remaining = min tenant_units user_units div 1000, rd_reset_after_ms = reset_ms,
           rd_retry_after_ms = (if allowed then None else Some retry_ms)\<rparr>)))))))))
     | _ \<Rightarrow> Inl ApiRateLimitBackendProtocolError)"

text \<open>The client is any function of keys and arguments; \<open>bucket_eval\<close> is the one that executes the script.\<close>

type_synonym 'r rate_client = "string list \<Rightarrow> string list \<Rightarrow> 'r \<Rightarrow> redis_answer \<times> 'r"

definition bucket_eval :: "platform \<Rightarrow> nat \<Rightarrow> nat \<Rightarrow> buckets rate_client" where
  "bucket_eval pf clock micros keys argv r =
     (case token_bucket_lua pf clock micros keys argv r of (reply, r') \<Rightarrow> (RedisAnswer (RSeq (map RBytes reply)), r'))"

definition backend_evaluate :: "platform \<Rightarrow> rate_backend \<Rightarrow> 'r rate_client \<Rightarrow> int \<Rightarrow> rate_check \<Rightarrow> 'r \<Rightarrow> rate_decision result \<times> 'r" where
  "backend_evaluate pf b client cost c r =
     (let p = rc_policy c; (tenant_key, user_key) = rate_keys pf b (rc_tenant_id c) (rc_user_id c) (rc_route_group c) p;
          window_ms = rp_window_seconds p * 1000; ttl_ms = window_ms + 1000 in
      case client [tenant_key, user_key] [int_text (rp_tenant_limit p), int_text (rp_user_limit p), int_text window_ms, int_text cost,
          int_text ttl_ms] r of
        (RedisRaised, r') \<Rightarrow> (Inl ApiRateLimitBackendUnavailableError, r')
      | (RedisAnswer response, r') \<Rightarrow> (parse_decision response (rp_tenant_limit p) (rp_user_limit p) window_ms cost, r'))"

definition backend_check ::
  "platform \<Rightarrow> rate_backend \<Rightarrow> 'r rate_client \<Rightarrow> string \<Rightarrow> string \<Rightarrow> string \<Rightarrow> route_group \<Rightarrow> rate_policy \<Rightarrow> int \<Rightarrow> 'r
     \<Rightarrow> rate_decision result \<times> 'r" where
  "backend_check pf b client nonce tenant_id user_id g p cost r =
     (let c = \<lparr>rc_tenant_id = tenant_id, rc_user_id = user_id, rc_route_group = g, rc_policy = p, rc_request_nonce = nonce\<rparr> in
      case all_ok [rate_policy_ok p, bounded_positive_int cost 10000000,
          refuse_if (cost > rp_tenant_limit p \<or> cost > rp_user_limit p), rate_check_ok c] of
        Inl e \<Rightarrow> (Inl e, r)
      | Inr _ \<Rightarrow> backend_evaluate pf b client cost c r)"

end
