(* ===== verification/Token_Facts.thy ===== *)
theory Token_Facts
  imports Token_Bucket Shadow_Facts
begin

text \<open>
  The script of the token buckets computes with doubles what integers say: a bucket of a
  capacity is refilled in proportion to the time since it was written, an allowed request takes
  its cost from both of its buckets, and a denied one takes nothing.
\<close>

section \<open>Doubles\<close>

text \<open>
  What IEEE 754 says of rounding to a double, for the numbers the script meets: integers up to
  \<open>2 ^ 53\<close> are doubles, rounding is monotone, and its relative error is at most \<open>2 ^ - 53\<close>.
\<close>

definition ieee_rounding :: "platform \<Rightarrow> bool" where
  "ieee_rounding pf \<longleftrightarrow>
     (\<forall>n. \<bar>n\<bar> \<le> 2 ^ 53 \<longrightarrow> literal pf (of_int n) = of_int n) \<and>
     (\<forall>x y. 0 \<le> x \<and> x \<le> y \<and> y \<le> 2 ^ 60 \<longrightarrow> literal pf x \<le> literal pf y) \<and>
     (\<forall>x. 1 / 2 ^ 60 \<le> x \<and> x \<le> 2 ^ 60 \<longrightarrow> \<bar>literal pf x - x\<bar> \<le> x / 2 ^ 53)"

lemma literal_int: "ieee_rounding pf \<Longrightarrow> 0 \<le> n \<Longrightarrow> n \<le> 2 ^ 53 \<Longrightarrow> literal pf (of_int n) = of_int n"
  by (simp add: ieee_rounding_def)

lemma literal_mono: "ieee_rounding pf \<Longrightarrow> 0 \<le> x \<Longrightarrow> x \<le> y \<Longrightarrow> y \<le> 2 ^ 60 \<Longrightarrow> literal pf x \<le> literal pf y"
  by (simp add: ieee_rounding_def)

lemma literal_floor_div:
  assumes "ieee_rounding pf" "0 \<le> a" "a < 2 ^ 53" "0 < b" "b \<le> 2 ^ 53"
  shows "\<lfloor>literal pf (of_int a / of_int b)\<rfloor> = a div b"
proof (cases "a = 0")
  case True
  then show ?thesis using literal_int [OF assms(1), of 0] by simp
next
  case False
  define x A B Q R :: rat where defs: "x = of_int a / of_int b" "A = of_int a" "B = of_int b" "Q = of_int (a div b)" "R = of_int (a mod b)"
  have B: "0 < B" "B \<le> 2 ^ 53" using assms(4,5) of_int_le_iff [of b "2 ^ 53", where 'a = rat] by (simp_all add: defs)
  have A: "1 \<le> A" "A < 2 ^ 53" using False assms(2,3) of_int_less_iff [of a "2 ^ 53", where 'a = rat] by (simp_all add: defs)
  have R: "0 \<le> R" "R + 1 \<le> B"
    using pos_mod_sign [OF assms(4), of a] pos_mod_bound [OF assms(4), of a] of_int_le_iff [of "a mod b + 1" b, where 'a = rat]
    by (simp_all add: defs)
  have "A = B * Q + R" unfolding defs of_int_mult [symmetric] of_int_add [symmetric] by simp
  then have x: "x = Q + R / B" using B by (simp add: defs(1) defs(2,3) [symmetric] field_simps)
  have q: "0 \<le> a div b" "a div b \<le> 2 ^ 53"
    using assms(2,3,4) zdiv_mono2 [of a 1 b] by (simp_all add: pos_imp_zdiv_nonneg_iff)
  have "A * 1 \<le> A * 2 ^ 60" "B \<le> A * 2 ^ 60" "A \<le> B * 2 ^ 60" using A B R
    by (simp_all add: mult_le_cancel_left1 order_trans [of B "2 ^ 53"] order_trans [of A "2 ^ 53"])
  then have bounds: "1 / 2 ^ 60 \<le> x" "x \<le> 2 ^ 60" using B A unfolding defs(1) defs(2,3) [symmetric]
    by (simp_all add: field_simps)
  have "\<bar>literal pf x - x\<bar> \<le> x / 2 ^ 53" using assms(1) bounds by (simp add: ieee_rounding_def)
  moreover have "x / 2 ^ 53 < 1 / B" using A B unfolding defs(1) defs(2,3) [symmetric] by (simp add: field_simps)
  moreover have "x + 1 / B \<le> Q + 1" using R B by (simp add: x field_simps)
  ultimately have "literal pf x < Q + 1" by linarith
  moreover have "Q \<le> x" using R B by (simp add: x)
  then have "literal pf Q \<le> literal pf x" using literal_mono [OF assms(1)] q bounds by (simp add: defs)
  then have "Q \<le> literal pf x" using literal_int [OF assms(1) q] by (simp add: defs)
  ultimately show ?thesis unfolding defs by linarith
qed

lemma literal_ops:
  assumes "ieee_rounding pf"
  shows "0 \<le> a + b \<Longrightarrow> a + b \<le> 2 ^ 53 \<Longrightarrow> literal pf (of_int a + of_int b) = of_int (a + b)"
    "0 \<le> a - b \<Longrightarrow> a - b \<le> 2 ^ 53 \<Longrightarrow> literal pf (of_int a - of_int b) = of_int (a - b)"
    "0 \<le> a * b \<Longrightarrow> a * b \<le> 2 ^ 53 \<Longrightarrow> literal pf (of_int a * of_int b) = of_int (a * b)"
  using literal_int [OF assms, of "a + b"] literal_int [OF assms, of "a - b"] literal_int [OF assms, of "a * b"] by simp_all

section \<open>Texts of numbers\<close>

lemma length_nat_digits: "n < 10 ^ k \<Longrightarrow> 0 < k \<Longrightarrow> length (nat_digits n) \<le> k"
proof (induction n arbitrary: k rule: nat_digits.induct)
  case (1 n)
  show ?case
  proof (cases "n < 10")
    case True
    then show ?thesis using 1(3) by (subst nat_digits.simps) simp
  next
    case False
    then have "k \<noteq> 1" using 1(2) by auto
    then obtain j where j: "k = Suc j" "0 < j" using 1(3) by (cases k) auto
    then have "n div 10 < 10 ^ j" using 1(2) by (simp add: less_mult_imp_div_less mult.commute)
    with False j 1(1) show ?thesis by (subst nat_digits.simps) simp
  qed
qed

lemma int_text_nat: "int_text (int n) = nat_digits n"
  by (simp add: int_text_def)

lemma text_canonical: "0 \<le> n \<Longrightarrow> n < 10 ^ 16 \<Longrightarrow> is_canonical_decimal (Some (int_text n))"
  using canonical_int_text [of n] length_nat_digits [of "nat n" 16]
  by (simp add: is_canonical_decimal_def lua_canonical) (simp add: int_text_def nat_less_iff)

lemma lua_decimal_int [simp]: "lua_decimal (of_int n) = int_text n"
  by (simp add: lua_decimal_def)

lemma parse_text:
  assumes "ieee_rounding pf" "0 \<le> n" "n \<le> 2 ^ 53" "m \<le> of_int n" "of_int n \<le> M"
  shows "parse_bounded pf (Some (int_text n)) m M = Some (of_int n)"
proof -
  have "(of_nat (read_nat (int_text n)) :: rat) = of_int n"
    using read_int_text [OF assms(2)] by (metis of_int_of_nat_eq)
  moreover have "n < 10 ^ 16" using assms(3) by simp
  ultimately show ?thesis
    using text_canonical [OF assms(2)] literal_int [OF assms(1-3)] assms(4,5) by (simp add: parse_bounded_def)
qed

section \<open>Refill and wait\<close>

text \<open>A capacity in thousandths of a token and a window in milliseconds, within the bounds of policies.\<close>

definition bucket_size :: "int \<Rightarrow> int \<Rightarrow> bool" where
  "bucket_size c w \<longleftrightarrow> 0 < c \<and> c \<le> 10 ^ 10 \<and> 1000 \<le> w \<and> w \<le> 3600000"

lemma scaled_refill_int:
  assumes "ieee_rounding pf" "bucket_size c w" "0 \<le> e" "e \<le> w"
  shows "scaled_refill pf (of_int e) (of_int c) (of_int w) = of_int (e * c div w) \<and> 0 \<le> e * c div w \<and> e * c div w \<le> c"
proof -
  have b: "0 < c" "c \<le> 10 ^ 10" "0 < w" "w \<le> 3600000" using assms(2) by (auto simp: bucket_size_def)
  have c53: "c \<le> 2 ^ 53" using b(2) by simp
  let ?q = "c div w" and ?r = "c mod w"
  have qw: "?q * w = c - ?r" by (simp add: minus_mod_eq_div_mult)
  have r: "0 \<le> ?r" "?r < w" using b by simp_all
  have q: "0 \<le> ?q" "?q * w \<le> c" "0 \<le> ?q * w" "c - ?q * w = ?r" "0 \<le> ?r" "?r < w"
    using b r unfolding qw by (simp_all add: pos_imp_zdiv_nonneg_iff zmod_le_nonneg_dividend)
  have eq: "0 \<le> e * ?q" "e * ?q \<le> c" using q(1,2) assms(3,4) mult_right_mono [of e w ?q] by (simp_all add: mult.commute)
  have er: "0 \<le> e * ?r" "e * ?r < 2 ^ 53" using q(5,6) assms(3,4) b(4) mult_mono [of e 3600000 ?r 3600000] by simp_all
  have "e * c = e * ?r + w * (e * ?q)" using mult_div_mod_eq [of w c] by (metis add.commute distrib_left mult.left_commute)
  then have split: "e * c div w = e * ?q + e * ?r div w" using b(3) by simp
  have "e * c \<le> c * w" using assms(3,4) b by (simp add: mult.commute mult_left_mono)
  then have le: "e * c div w \<le> c" using b by (metis nonzero_mult_div_cancel_right order_less_le zdiv_mono1)
  have nn: "0 \<le> e * c div w" using b assms(3) by (simp add: pos_imp_zdiv_nonneg_iff)
  have "\<lfloor>literal pf (of_int c / of_int w)\<rfloor> = ?q" using literal_floor_div [OF assms(1)] b by simp
  moreover have "literal pf (of_int ?q * of_int w) = of_int (?q * w)" using q c53 by (intro literal_ops(3) [OF assms(1)]) linarith+
  moreover have "literal pf (of_int c - of_int (?q * w)) = of_int ?r" using literal_ops(2) [OF assms(1), of c "?q * w", unfolded q(4)] q(5,6) b(4) by simp
  moreover have "literal pf (of_int e * of_int ?q) = of_int (e * ?q)" using eq c53 by (intro literal_ops(3) [OF assms(1)]) linarith+
  moreover have "literal pf (of_int e * of_int ?r) = of_int (e * ?r)" using er by (intro literal_ops(3) [OF assms(1)]) linarith+
  moreover have "\<lfloor>literal pf (of_int (e * ?r) / of_int w)\<rfloor> = e * ?r div w" using literal_floor_div [OF assms(1) er] b by simp
  moreover have "literal pf (of_int (e * ?q) + of_int (e * ?r div w)) = of_int (e * c div w)"
    using nn le c53 unfolding split by (intro literal_ops(1) [OF assms(1)]) linarith+
  ultimately show ?thesis using le nn by (simp add: scaled_refill_def Let_def)
qed

lemma bounded_wait_int:
  assumes "ieee_rounding pf" "bucket_size c w" "0 < d" "d \<le> c"
  shows "\<exists>t. bounded_wait pf (of_int d) (of_int c) (of_int w) = of_int t \<and> 1 \<le> t \<and> t \<le> w"
proof -
  have b: "0 < c" "c \<le> 10 ^ 10" "1000 \<le> w" "w \<le> 3600000" using assms(2) by (auto simp: bucket_size_def)
  have x: "0 \<le> (of_int d / of_int c :: rat)" "(of_int d / of_int c :: rat) \<le> 1" using assms(3,4) b by simp_all
  let ?f = "literal pf (of_int d / of_int c)"
  have f: "0 \<le> ?f" "?f \<le> 1"
    using literal_mono [OF assms(1), of 0 "of_int d / of_int c"] literal_mono [OF assms(1), of "of_int d / of_int c" 1] x
      literal_int [OF assms(1), of 0] literal_int [OF assms(1), of 1] by simp_all
  have g: "?f * of_int w \<le> of_int w" "0 \<le> ?f * of_int w" using f b by (simp_all add: mult_left_le_one_le)
  have "literal pf (?f * of_int w) \<le> literal pf (of_int w)"
    using literal_mono [OF assms(1) g(2,1)] b of_int_le_iff [of w 3600000, where 'a = rat] by simp
  then have "\<lceil>literal pf (?f * of_int w)\<rceil> \<le> w" using literal_int [OF assms(1), of w] b by (simp add: ceiling_le_iff)
  then show ?thesis
    using assms(3) b by (intro exI [of _ "max 1 \<lceil>literal pf (?f * of_int w)\<rceil>"]) (simp add: bounded_wait_def)
qed

section \<open>Buckets of integers\<close>

text \<open>
  The specification: a bucket that was never written is full; one that held \<open>n\<close> thousandths of a
  token at \<open>l\<close> gains in proportion to the time since then, up to its capacity.
\<close>

definition balance :: "int \<Rightarrow> int \<Rightarrow> int \<Rightarrow> (int \<times> int) option \<Rightarrow> int" where
  "balance c w t s = (case s of None \<Rightarrow> c | Some (n, l) \<Rightarrow> if w \<le> t - l then c else min c (n + (t - l) * c div w))"

definition bucket_holds :: "int \<Rightarrow> buckets \<Rightarrow> string \<Rightarrow> int \<Rightarrow> int \<Rightarrow> bool" where
  "bucket_holds w r k n l \<longleftrightarrow> r k = Some \<lparr>be_object = RHash [(''last_ms'', int_text l), (''tokens'', int_text n)],
     be_expires_ms = Some (nat (l + w + 1000))\<rparr>"

definition bucket_rep :: "int \<times> int \<Rightarrow> int \<Rightarrow> buckets \<Rightarrow> string \<Rightarrow> (int \<times> int) option \<Rightarrow> bool" where
  "bucket_rep cw t r k x \<longleftrightarrow> (case x of None \<Rightarrow> r k = None
     | Some (n, l) \<Rightarrow> bucket_holds (snd cw) r k n l \<and> 0 \<le> n \<and> n \<le> fst cw \<and> 0 \<le> l \<and> l \<le> t)"

lemma balance_bounds:
  assumes "bucket_size c w" "\<And>n l. s = Some (n, l) \<Longrightarrow> 0 \<le> n \<and> l \<le> t"
  shows "0 \<le> balance c w t s \<and> balance c w t s \<le> c"
proof (cases s)
  case (Some x)
  obtain n l where x: "x = (n, l)" by (cases x)
  have "0 \<le> (t - l) * c div w" using assms Some x by (simp add: pos_imp_zdiv_nonneg_iff bucket_size_def)
  with assms Some x show ?thesis by (auto simp: balance_def bucket_size_def)
qed (use assms in \<open>simp add: balance_def bucket_size_def\<close>)

lemma read_bucket_spec:
  assumes "ieee_rounding pf" "bucket_size c w" "bucket_rep (c, w) (int clock) r k x" "int clock < 2 ^ 53"
  shows "read_bucket pf r clock (of_int (int clock)) (of_int w) k (of_int c) = Some (of_int (balance c w (int clock) x))"
proof (cases x)
  case None
  with assms(3) show ?thesis by (simp add: read_bucket_def entry_at_def bucket_rep_def balance_def)
next
  case (Some y)
  obtain n l where y: "y = (n, l)" by (cases y)
  have h: "bucket_holds w r k n l" "0 \<le> n" "n \<le> c" "0 \<le> l" "l \<le> int clock" using assms(3) Some y by (simp_all add: bucket_rep_def)
  have b: "0 < c" "c \<le> 10 ^ 10" "1000 \<le> w" "w \<le> 3600000" using assms(2) by (auto simp: bucket_size_def)
  have el: "literal pf (of_int (int clock) - of_int l) = of_int (int clock - l)"
    using literal_ops(2) [OF assms(1), of "int clock" l] h assms(4) by simp
  show ?thesis
  proof (cases "clock > nat (l + w + 1000)")
    case True
    then have "w \<le> int clock - l" using h b by linarith
    with True h(1) Some y show ?thesis by (simp add: read_bucket_def entry_at_def bucket_holds_def balance_def)
  next
    case False
    let ?h = "[(''last_ms'', int_text l), (''tokens'', int_text n)]"
    have e: "entry_at r clock k = Some \<lparr>be_object = RHash ?h, be_expires_ms = Some (nat (l + w + 1000))\<rparr>"
      using False h(1) by (simp add: entry_at_def bucket_holds_def)
    have p: "parse_bounded pf (Some (int_text n)) 0 (of_int c) = Some (of_int n)"
      using h b by (intro parse_text [OF assms(1)]) simp_all
    have q: "parse_bounded pf (Some (int_text l)) 0 9007199254740991 = Some (of_int l)" "is_canonical_decimal (Some (int_text l))"
      using h assms(4) parse_text [OF assms(1) h(4), of 0 9007199254740991] text_canonical [OF h(4)]
        of_int_le_iff [of l 9007199254740991, where 'a = rat] by simp_all
    have m: "map_of ?h ''tokens'' = Some (int_text n)" "map_of ?h ''last_ms'' = Some (int_text l)" "length ?h = 2" by simp_all
    have step: "read_bucket pf r clock (of_int (int clock)) (of_int w) k (of_int c) =
        (if w \<le> int clock - l then Some (of_int c)
         else Some (min (of_int c) (literal pf (of_int n + scaled_refill pf (of_int (int clock - l)) (of_int c) (of_int w)))))"
      using h(5) unfolding read_bucket_def e by (simp only: option.case bucket_entry.simps redis_object.case m p q el Let_def) simp
    show ?thesis
    proof (cases "w \<le> int clock - l")
      case True
      with step Some y show ?thesis by (simp add: balance_def)
    next
      case F: False
      let ?f = "(int clock - l) * c div w"
      have f: "scaled_refill pf (of_int (int clock - l)) (of_int c) (of_int w) = of_int ?f" "0 \<le> ?f" "?f \<le> c"
        using scaled_refill_int [OF assms(1,2), of "int clock - l"] F h by simp_all
      have "literal pf (of_int n + of_int ?f) = of_int (n + ?f)" using literal_ops(1) [OF assms(1), of n ?f] f h b by simp
      then show ?thesis using step F f Some y by (simp add: balance_def min_def)
    qed
  qed
qed

section \<open>Writing\<close>

lemma put_bucket_holds:
  assumes "bucket_rep (c, w) (int clock) r k x" "0 \<le> n" "n \<le> c" "0 \<le> w"
  shows "bucket_rep (c, w) (int clock) (put_bucket clock k (int_text n) (int_text (int clock)) (nat (w + 1000)) r) k (Some (n, int clock))"
proof -
  have "nat (int clock + w + 1000) = clock + nat (w + 1000)" using assms(4) by linarith
  moreover have "hset ''last_ms'' b (hset ''tokens'' a [(''last_ms'', b'), (''tokens'', a')]) = [(''last_ms'', b), (''tokens'', a)]"
    "hset ''last_ms'' b (hset ''tokens'' a []) = [(''last_ms'', b), (''tokens'', a)]" for a b a' b'
    by (simp_all add: hset_def)
  moreover have "entry_at r clock k = None \<or> (\<exists>a b x. entry_at r clock k = Some \<lparr>be_object = RHash [(''last_ms'', b), (''tokens'', a)],
      be_expires_ms = x\<rparr>)"
    using assms(1) by (auto simp: bucket_rep_def entry_at_def bucket_holds_def split: option.splits)
  ultimately show ?thesis
    using assms(2,3) by (auto simp: bucket_rep_def bucket_holds_def put_bucket_def Let_def)
qed

lemma put_bucket_other: "k \<noteq> k' \<Longrightarrow> put_bucket clock k' a b ttl r k = r k"
  by (simp add: put_bucket_def Let_def)

lemma bucket_rep_frame: "r' k = r k \<Longrightarrow> t \<le> t' \<Longrightarrow> bucket_rep cw t r k x \<Longrightarrow> bucket_rep cw t' r' k x"
  by (auto simp: bucket_rep_def bucket_holds_def split: option.splits)

section \<open>Replies\<close>

lemma parse_reply_text: "0 \<le> n \<Longrightarrow> n < 10 ^ 16 \<Longrightarrow> parse_canonical_decimal (RBytes (int_text n)) = Inr n"
  using canonical_int_text [of n] digits_ascii [of "int_text n"] read_int_text [of n] length_nat_digits [of "nat n" 16]
  by (simp add: parse_canonical_decimal_def decode_ascii_def canonical_version_def ascii_decimal_def bindE_def)
    (simp add: int_text_def nat_less_iff)

text \<open>What a decision says when the balances of the buckets are \<open>x\<close> and \<open>y\<close>.\<close>

definition decides :: "int \<Rightarrow> int \<Rightarrow> int \<Rightarrow> int \<Rightarrow> rate_decision \<Rightarrow> bool" where
  "decides cost window_ms x y d \<longleftrightarrow> (rd_allowed d \<longleftrightarrow> cost * 1000 \<le> x \<and> cost * 1000 \<le> y) \<and>
     rd_remaining d = (if rd_allowed d then min x y - cost * 1000 else min x y) div 1000 \<and>
     1 \<le> rd_reset_after_ms d \<and> rd_reset_after_ms d \<le> window_ms \<and>
     (\<forall>t\<in>set_option (rd_retry_after_ms d). 1 \<le> t \<and> t \<le> window_ms)"

lemma min_div: "(0 :: int) < k \<Longrightarrow> a \<le> b * k \<Longrightarrow> min a c div k \<le> b"
  by (metis min.coboundedI1 nonzero_mult_div_cancel_right order_less_irrefl order_trans zdiv_mono1 order.refl)

lemma policy_bounds:
  assumes "rate_policy_ok p = Inr ()"
  shows "1 \<le> rp_window_seconds p" "rp_window_seconds p \<le> 3600" "1 \<le> rp_tenant_limit p" "rp_tenant_limit p \<le> 10000000"
    "1 \<le> rp_user_limit p" "rp_user_limit p \<le> 10000000" "rp_user_limit p \<le> rp_tenant_limit p"
  using assms by (auto simp: rate_policy_ok_def bounded_positive_int_def MAX_WINDOW_SECONDS_def MAX_REQUESTS_PER_WINDOW_def)

lemma parse_allowed:
  assumes "rate_policy_ok p = Inr ()" "1 \<le> cost" "cost \<le> rp_user_limit p" "0 \<le> x" "0 \<le> y"
    "x \<le> (rp_tenant_limit p - cost) * 1000" "y \<le> (rp_user_limit p - cost) * 1000" "1 \<le> reset" "reset \<le> rp_window_seconds p * 1000"
  shows "\<exists>d. parse_decision (RSeq (map RBytes [''allowed'', ''0'', int_text x, int_text y, int_text reset])) (rp_tenant_limit p)
      (rp_user_limit p) (rp_window_seconds p * 1000) cost = Inr d \<and> decides cost (rp_window_seconds p * 1000) (x + cost * 1000) (y + cost * 1000) d"
proof -
  note b = policy_bounds [OF assms(1)]
  have z: "parse_canonical_decimal (RBytes ''0'') = Inr 0" by code_simp
  have st: "decode_ascii (RBytes ''allowed'') = Inr ''allowed''" by (simp add: decode_ascii_def is_ascii_def)
  have t: "parse_canonical_decimal (RBytes (int_text x)) = Inr x" "parse_canonical_decimal (RBytes (int_text y)) = Inr y"
    "parse_canonical_decimal (RBytes (int_text reset)) = Inr reset"
    using assms b by (auto intro!: parse_reply_text)
  have m: "min x y div 1000 \<le> min (rp_tenant_limit p) (rp_user_limit p)" "0 \<le> min x y div 1000"
    using assms b min_div [of 1000 x "rp_tenant_limit p" y] min_div [of 1000 y "rp_user_limit p" x] by (auto simp: min.commute)
  let ?d = "\<lparr>rd_allowed = True, rd_limit = min (rp_tenant_limit p) (rp_user_limit p), rd_remaining = min x y div 1000,
    rd_reset_after_ms = reset, rd_retry_after_ms = None\<rparr>"
  have "parse_decision (RSeq (map RBytes [''allowed'', ''0'', int_text x, int_text y, int_text reset])) (rp_tenant_limit p)
      (rp_user_limit p) (rp_window_seconds p * 1000) cost = Inr ?d"
    using assms b m
    by (simp add: parse_decision_def bindE_def z st t protocol_if_def rate_decision_new_def bounded_positive_int_def refuse_if_def
        MAX_WINDOW_SECONDS_def MAX_REQUESTS_PER_WINDOW_def)
  moreover have "min (x + cost * 1000) (y + cost * 1000) - cost * 1000 = min x y" by (simp add: min_def)
  ultimately show ?thesis using assms by (intro exI [of _ ?d]) (simp add: decides_def)
qed

lemma parse_denied:
  assumes "rate_policy_ok p = Inr ()" "1 \<le> cost" "cost \<le> rp_user_limit p" "0 \<le> x" "0 \<le> y"
    "x \<le> rp_tenant_limit p * 1000" "y \<le> rp_user_limit p * 1000" "1 \<le> reset" "reset \<le> rp_window_seconds p * 1000"
    "1 \<le> retry" "retry \<le> rp_window_seconds p * 1000" "x < cost * 1000 \<or> y < cost * 1000"
  shows "\<exists>d. parse_decision (RSeq (map RBytes [''denied'', int_text retry, int_text x, int_text y, int_text reset])) (rp_tenant_limit p)
      (rp_user_limit p) (rp_window_seconds p * 1000) cost = Inr d \<and> decides cost (rp_window_seconds p * 1000) x y d"
proof -
  note b = policy_bounds [OF assms(1)]
  have nn: "\<not> (cost * 1000 \<le> x \<and> cost * 1000 \<le> y)" using assms(12) by linarith
  have st: "decode_ascii (RBytes ''denied'') = Inr ''denied''" by (simp add: decode_ascii_def is_ascii_def)
  have t: "parse_canonical_decimal (RBytes (int_text x)) = Inr x" "parse_canonical_decimal (RBytes (int_text y)) = Inr y"
    "parse_canonical_decimal (RBytes (int_text reset)) = Inr reset" "parse_canonical_decimal (RBytes (int_text retry)) = Inr retry"
    using assms b by (auto intro!: parse_reply_text)
  have m: "min x y div 1000 \<le> min (rp_tenant_limit p) (rp_user_limit p)" "0 \<le> min x y div 1000"
    using assms b min_div [of 1000 x "rp_tenant_limit p" y] min_div [of 1000 y "rp_user_limit p" x] by (auto simp: min.commute)
  let ?d = "\<lparr>rd_allowed = False, rd_limit = min (rp_tenant_limit p) (rp_user_limit p), rd_remaining = min x y div 1000,
    rd_reset_after_ms = reset, rd_retry_after_ms = Some retry\<rparr>"
  have "parse_decision (RSeq (map RBytes [''denied'', int_text retry, int_text x, int_text y, int_text reset])) (rp_tenant_limit p)
      (rp_user_limit p) (rp_window_seconds p * 1000) cost = Inr ?d"
    using assms b m nn
    by (simp add: parse_decision_def Let_def bindE_def st t protocol_if_def rate_decision_new_def bounded_positive_int_def refuse_if_def
        MAX_WINDOW_SECONDS_def MAX_REQUESTS_PER_WINDOW_def)
  then show ?thesis using assms by (intro exI [of _ ?d]) (auto simp: decides_def)
qed

section \<open>Requests\<close>

text \<open>A request as Redis serves it: the instant of its script, the check and its cost.\<close>

record rate_request =
  rq_clock :: nat
  rq_micros :: nat
  rq_check :: rate_check
  rq_cost :: int

definition request_keys :: "platform \<Rightarrow> rate_backend \<Rightarrow> rate_request \<Rightarrow> string \<times> string" where
  "request_keys pf b q = (let c = rq_check q in rate_keys pf b (rc_tenant_id c) (rc_user_id c) (rc_route_group c) (rc_policy c))"

definition serve :: "platform \<Rightarrow> rate_backend \<Rightarrow> rate_request \<Rightarrow> buckets \<Rightarrow> rate_decision result \<times> buckets" where
  "serve pf b q = backend_evaluate pf b (bucket_eval pf (rq_clock q) (rq_micros q)) (rq_cost q) (rq_check q)"

fun serve_all :: "platform \<Rightarrow> rate_backend \<Rightarrow> rate_request list \<Rightarrow> buckets \<Rightarrow> rate_decision result list \<times> buckets" where
  "serve_all pf b [] r = ([], r)"
| "serve_all pf b (q # qs) r = (let (d, r1) = serve pf b q r; (ds, r2) = serve_all pf b qs r1 in (d # ds, r2))"

text \<open>
  Valid requests: within the bounds that \<^verbatim>\<open>check\<close> enforces, with the clock within the script's, and every
  bucket of one capacity and window (the key holds a digest of both).
\<close>

definition valid_request :: "platform \<Rightarrow> rate_backend \<Rightarrow> (string \<Rightarrow> int \<times> int) \<Rightarrow> rate_request \<Rightarrow> bool" where
  "valid_request pf b sz q \<longleftrightarrow> (let p = rc_policy (rq_check q) in
     rate_policy_ok p = Inr () \<and> 1 \<le> rq_cost q \<and> rq_cost q \<le> rp_user_limit p \<and> rq_micros q < 1000 \<and> rq_clock q < 2 ^ 53 \<and>
     sz (fst (request_keys pf b q)) = (rp_tenant_limit p * 1000, rp_window_seconds p * 1000) \<and>
     sz (snd (request_keys pf b q)) = (rp_user_limit p * 1000, rp_window_seconds p * 1000))"

text \<open>The specification of a request on buckets of integers.\<close>

definition spec_balance :: "(string \<Rightarrow> int \<times> int) \<Rightarrow> int \<Rightarrow> (string \<rightharpoonup> int \<times> int) \<Rightarrow> string \<Rightarrow> int" where
  "spec_balance sz t s k = balance (fst (sz k)) (snd (sz k)) t (s k)"

definition spec_serve ::
  "platform \<Rightarrow> rate_backend \<Rightarrow> (string \<Rightarrow> int \<times> int) \<Rightarrow> rate_request \<Rightarrow> (string \<rightharpoonup> int \<times> int) \<Rightarrow> bool \<times> (string \<rightharpoonup> int \<times> int)" where
  "spec_serve pf b sz q s =
     (let (kt, ku) = request_keys pf b q; t = int (rq_clock q); c = rq_cost q * 1000;
          x = spec_balance sz t s kt; y = spec_balance sz t s ku in
      if c \<le> x \<and> c \<le> y then (True, s(kt \<mapsto> (x - c, t), ku \<mapsto> (y - c, t))) else (False, s))"

definition buckets_rep :: "(string \<Rightarrow> int \<times> int) \<Rightarrow> int \<Rightarrow> buckets \<Rightarrow> (string \<rightharpoonup> int \<times> int) \<Rightarrow> bool" where
  "buckets_rep sz t r s \<longleftrightarrow> (\<forall>k. bucket_rep (sz k) t r k (s k))"

lemma keys_differ: "fst (rate_keys pf b t u g p) \<noteq> snd (rate_keys pf b t u g p)"
  by (simp add: rate_keys_def Let_def)

lemma policy_sizes:
  assumes "rate_policy_ok p = Inr ()"
  shows "bucket_size (rp_tenant_limit p * 1000) (rp_window_seconds p * 1000)" "bucket_size (rp_user_limit p * 1000) (rp_window_seconds p * 1000)"
  using policy_bounds [OF assms] by (simp_all add: bucket_size_def)

text \<open>The script, once its arguments and the clock are read.\<close>

lemma script_reads:
  assumes ieee: "ieee_rounding pf" and p: "rate_policy_ok p = Inr ()" and c: "1 \<le> cost" "cost \<le> rp_user_limit p"
    and t: "micros < 1000" "clock < 2 ^ 53"
    and x: "read_bucket pf r clock (of_int (int clock)) (of_int (rp_window_seconds p * 1000)) kt (of_int (rp_tenant_limit p * 1000)) = Some x"
    and y: "read_bucket pf r clock (of_int (int clock)) (of_int (rp_window_seconds p * 1000)) ku (of_int (rp_user_limit p * 1000)) = Some y"
  shows "token_bucket_lua pf clock micros [kt, ku] [int_text (rp_tenant_limit p), int_text (rp_user_limit p),
      int_text (rp_window_seconds p * 1000), int_text cost, int_text (rp_window_seconds p * 1000 + 1000)] r =
    spend_tokens pf clock (of_int (int clock)) kt ku (of_int (rp_tenant_limit p * 1000)) (of_int (rp_user_limit p * 1000))
      (of_int (rp_window_seconds p * 1000)) (of_int (cost * 1000)) (nat (rp_window_seconds p * 1000 + 1000)) x y r"
proof -
  note b = policy_bounds [OF p]
  let ?w = "rp_window_seconds p * 1000"
  have q: "parse_bounded pf (Some (int_text n)) (of_int m) (of_int M) = Some (of_int n)" if "0 \<le> m" "m \<le> n" "n \<le> M" "M \<le> 2 ^ 53" for n m M
    using that by (intro parse_text [OF ieee]) simp_all
  have a: "parse_bounded pf (Some (int_text (rp_tenant_limit p))) 1 10000000 = Some (of_int (rp_tenant_limit p))"
    "parse_bounded pf (Some (int_text (rp_user_limit p))) 1 10000000 = Some (of_int (rp_user_limit p))"
    "parse_bounded pf (Some (int_text ?w)) 1000 3600000 = Some (of_int ?w)"
    "parse_bounded pf (Some (int_text cost)) 1 10000000 = Some (of_int cost)"
    "parse_bounded pf (Some (int_text (?w + 1000))) 2000 3601000 = Some (of_int (?w + 1000))"
    using q [of 1 "rp_tenant_limit p" 10000000] q [of 1 "rp_user_limit p" 10000000] q [of 1000 ?w 3600000] q [of 1 cost 10000000]
      q [of 2000 "?w + 1000" 3601000] b c by simp_all
  let ?s = "int (clock div 1000)" and ?m = "int (clock mod 1000 * 1000 + micros)"
  have "clock mod 1000 \<le> 999" by (simp add: less_Suc_eq_le [symmetric])
  then have m: "0 \<le> ?m" "?m \<le> 999999" "?m div 1000 = int (clock mod 1000)" using t(1) by (simp_all add: div_mult_self3 flip: of_nat_div)
  have sb: "0 \<le> ?s" "?s \<le> 9007199254740" using t(2) by (simp_all add: div_le_mono order_trans)
  have time: "redis_time clock micros = (int_text ?s, int_text ?m)" by (simp add: redis_time_def int_text_nat del: of_nat_add of_nat_mult)
  have tp: "parse_bounded pf (Some (int_text ?s)) 0 9007199254740 = Some (of_int ?s)" "parse_bounded pf (Some (int_text ?m)) 0 999999 = Some (of_int ?m)"
    "is_canonical_decimal (Some (int_text ?s))" "is_canonical_decimal (Some (int_text ?m))"
    using q [of 0 ?s 9007199254740] q [of 0 ?m 999999] sb m text_canonical [OF sb(1)] text_canonical [OF m(1)] by simp_all
  have now: "literal pf (literal pf (of_int ?s * 1000) + of_int \<lfloor>literal pf (of_int ?m / 1000)\<rfloor>) = of_int (int clock)"
  proof -
    have e: "?s * 1000 + int (clock mod 1000) = int clock" by (metis div_mult_mod_eq of_nat_add of_nat_mult of_nat_numeral)
    have "literal pf (of_int ?s * 1000) = of_int (?s * 1000)" using literal_ops(3) [OF ieee, of ?s 1000] sb by simp
    moreover have "\<lfloor>literal pf (of_int ?m / 1000)\<rfloor> = int (clock mod 1000)"
      using literal_floor_div [OF ieee m(1), of 1000] m(2,3) by simp
    moreover have "literal pf (of_int (?s * 1000) + of_int (int (clock mod 1000))) = of_int (int clock)"
      using literal_ops(1) [OF ieee, of "?s * 1000" "int (clock mod 1000)", unfolded e] t(2) by simp
    ultimately show ?thesis by simp
  qed
  have u: "literal pf (of_int cost * 1000) = of_int (cost * 1000)"
    "literal pf (of_int (rp_tenant_limit p) * 1000) = of_int (rp_tenant_limit p * 1000)"
    "literal pf (of_int (rp_user_limit p) * 1000) = of_int (rp_user_limit p * 1000)"
    "literal pf (of_int ?w + 1000) = of_int (?w + 1000)"
    using literal_ops(3) [OF ieee, of cost 1000] literal_ops(3) [OF ieee, of "rp_tenant_limit p" 1000]
      literal_ops(3) [OF ieee, of "rp_user_limit p" 1000] literal_ops(1) [OF ieee, of ?w 1000] b c by simp_all
  have "(of_int cost :: rat) \<le> of_int (rp_tenant_limit p)" "(of_int cost :: rat) \<le> of_int (rp_user_limit p)"
    using b c by (simp_all only: of_int_le_iff)
  then show ?thesis
    unfolding token_bucket_lua_def Let_def time
    by (simp add: a tp now u x y del: of_int_mult of_int_add of_int_of_nat_eq of_nat_add of_nat_mult)
qed

lemma wait_max:
  assumes "ieee_rounding pf" "bucket_size ct w" "bucket_size cu w" "0 \<le> i" "i \<le> ct" "0 \<le> j" "j \<le> cu" "0 < i \<or> 0 < j"
  shows "\<exists>t. max (bounded_wait pf (of_int i) (of_int ct) (of_int w)) (bounded_wait pf (of_int j) (of_int cu) (of_int w)) = of_int t \<and>
    1 \<le> t \<and> t \<le> w"
proof -
  have one: "\<exists>t. bounded_wait pf (of_int d) (of_int c) (of_int w) = of_int t \<and> 0 \<le> t \<and> t \<le> w \<and> (0 < d \<longrightarrow> 1 \<le> t)"
    if "bucket_size c w" "0 \<le> d" "d \<le> c" for c d
  proof (cases "d = 0")
    case True
    with that show ?thesis by (intro exI [of _ 0]) (simp add: bounded_wait_def bucket_size_def)
  next
    case False
    with that bounded_wait_int [OF assms(1) that(1), of d] show ?thesis by force
  qed
  obtain m n where m: "bounded_wait pf (of_int i) (of_int ct) (of_int w) = of_int m" "0 \<le> m" "m \<le> w" "0 < i \<longrightarrow> 1 \<le> m"
    and n: "bounded_wait pf (of_int j) (of_int cu) (of_int w) = of_int n" "0 \<le> n" "n \<le> w" "0 < j \<longrightarrow> 1 \<le> n"
    using one [OF assms(2,4,5)] one [OF assms(3,6,7)] by blast
  then show ?thesis using assms(8) by (intro exI [of _ "max m n"]) (auto simp: max_def)
qed

lemma spend_allowed:
  assumes "ieee_rounding pf" "bucket_size ct w" "bucket_size cu w" "0 < c" "c \<le> x" "x \<le> ct" "c \<le> y" "y \<le> cu"
  shows "\<exists>reset. spend_tokens pf clock (of_int now) kt ku (of_int ct) (of_int cu) (of_int w) (of_int c) ttl (of_int x) (of_int y) r =
    ([''allowed'', ''0'', int_text (x - c), int_text (y - c), int_text reset],
     put_bucket clock ku (int_text (y - c)) (int_text now) ttl (put_bucket clock kt (int_text (x - c)) (int_text now) ttl r)) \<and>
    1 \<le> reset \<and> reset \<le> w"
proof -
  have b: "ct \<le> 2 ^ 53" "cu \<le> 2 ^ 53" using assms(2,3) by (simp_all add: bucket_size_def)
  have l: "literal pf (of_int x - of_int c) = of_int (x - c)" "literal pf (of_int y - of_int c) = of_int (y - c)"
    "literal pf (of_int ct - of_int (x - c)) = of_int (ct - (x - c))" "literal pf (of_int cu - of_int (y - c)) = of_int (cu - (y - c))"
    using assms b by (intro literal_ops(2) [OF assms(1)]; linarith)+
  obtain reset where "max (bounded_wait pf (of_int (ct - (x - c))) (of_int ct) (of_int w))
      (bounded_wait pf (of_int (cu - (y - c))) (of_int cu) (of_int w)) = of_int reset" "1 \<le> reset" "reset \<le> w"
    using wait_max [OF assms(1-3), of "ct - (x - c)" "cu - (y - c)"] assms by auto
  then show ?thesis
    using assms(5,7) by (intro exI [of _ reset]) (simp add: spend_tokens_def Let_def l del: of_int_diff)
qed

lemma spend_denied:
  assumes "ieee_rounding pf" "bucket_size ct w" "bucket_size cu w" "0 \<le> x" "x \<le> ct" "0 \<le> y" "y \<le> cu" "c \<le> ct" "c \<le> cu"
    "x < c \<or> y < c"
  shows "\<exists>retry reset. spend_tokens pf clock (of_int now) kt ku (of_int ct) (of_int cu) (of_int w) (of_int c) ttl (of_int x) (of_int y) r =
    ([''denied'', int_text retry, int_text x, int_text y, int_text reset], r) \<and> 1 \<le> retry \<and> retry \<le> w \<and> 1 \<le> reset \<and> reset \<le> w"
proof -
  have b: "ct \<le> 2 ^ 53" "cu \<le> 2 ^ 53" "1 \<le> w" using assms(2,3) by (simp_all add: bucket_size_def)
  have l: "literal pf (of_int ct - of_int x) = of_int (ct - x)" "literal pf (of_int cu - of_int y) = of_int (cu - y)"
    using assms b by (intro literal_ops(2) [OF assms(1)]; linarith)+
  have deficit: "max 0 (literal pf (of_int c - of_int i)) = of_int (max 0 (c - i))" if "0 \<le> i" "i \<le> 2 ^ 53" for i
  proof -
    have "\<bar>c - i\<bar> \<le> 2 ^ 53" using that assms b by linarith
    then have "literal pf (of_int (c - i)) = of_int (c - i)" using assms(1) unfolding ieee_rounding_def by blast
    then show ?thesis by (simp add: max_def)
  qed
  obtain reset where reset: "max (bounded_wait pf (of_int (ct - x)) (of_int ct) (of_int w))
      (bounded_wait pf (of_int (cu - y)) (of_int cu) (of_int w)) = of_int reset" "1 \<le> reset" "reset \<le> w"
    using wait_max [OF assms(1-3), of "ct - x" "cu - y"] assms by auto
  obtain retry where retry: "max (bounded_wait pf (of_int (max 0 (c - x))) (of_int ct) (of_int w))
      (bounded_wait pf (of_int (max 0 (c - y))) (of_int cu) (of_int w)) = of_int retry" "1 \<le> retry" "retry \<le> w"
    using wait_max [OF assms(1-3), of "max 0 (c - x)" "max 0 (c - y)"] assms by auto
  then have "max 1 (of_int retry) = (of_int retry :: rat)" by simp
  then show ?thesis
    using reset retry assms(10) deficit [of x] deficit [of y] assms(4-7) b
    by (intro exI [of _ retry] exI [of _ reset]) (simp add: spend_tokens_def Let_def l del: of_int_diff)
qed

section \<open>Refinement\<close>

lemma serve_spec:
  assumes "ieee_rounding pf" "valid_request pf b sz q" "buckets_rep sz t r s" "t \<le> int (rq_clock q)"
  shows "\<exists>d r'. serve pf b q r = (Inr d, r') \<and> buckets_rep sz (int (rq_clock q)) r' (snd (spec_serve pf b sz q s)) \<and>
    rd_allowed d = fst (spec_serve pf b sz q s) \<and>
    decides (rq_cost q) (rp_window_seconds (rc_policy (rq_check q)) * 1000) (spec_balance sz (int (rq_clock q)) s (fst (request_keys pf b q)))
      (spec_balance sz (int (rq_clock q)) s (snd (request_keys pf b q))) d"
proof -
  define p clock c kt ku where defs: "p = rc_policy (rq_check q)" "clock = rq_clock q" "c = rq_cost q"
    "kt = fst (request_keys pf b q)" "ku = snd (request_keys pf b q)"
  have k: "request_keys pf b q = (kt, ku)" "kt \<noteq> ku" using keys_differ by (simp_all add: defs request_keys_def Let_def)
  have v: "rate_policy_ok p = Inr ()" "1 \<le> c" "c \<le> rp_user_limit p" "rq_micros q < 1000" "clock < 2 ^ 53"
    "sz kt = (rp_tenant_limit p * 1000, rp_window_seconds p * 1000)" "sz ku = (rp_user_limit p * 1000, rp_window_seconds p * 1000)"
    using assms(2) by (simp_all add: valid_request_def defs Let_def)
  note bs = policy_sizes [OF v(1)]
  note pb = policy_bounds [OF v(1)]
  define w ct cu where w: "w = rp_window_seconds p * 1000" "ct = rp_tenant_limit p * 1000" "cu = rp_user_limit p * 1000"
  have rep: "bucket_rep (sz k) (int clock) r k (s k)" for k
    using assms(3,4) bucket_rep_frame [of r k r t "int clock"] by (simp add: buckets_rep_def defs)
  define x y where xy: "x = spec_balance sz (int clock) s kt" "y = spec_balance sz (int clock) s ku"
  have past: "0 \<le> n \<and> l \<le> int clock" if "s k = Some (n, l)" for k n l using rep [of k] that by (simp add: bucket_rep_def)
  have xb: "0 \<le> x" "x \<le> ct" "0 \<le> y" "y \<le> cu"
    using balance_bounds [OF bs(1) past [of kt]] balance_bounds [OF bs(2) past [of ku]] v(6,7) by (simp_all add: xy spec_balance_def w)
  have rx: "read_bucket pf r clock (of_int (int clock)) (of_int w) kt (of_int ct) = Some (of_int x)"
    "read_bucket pf r clock (of_int (int clock)) (of_int w) ku (of_int cu) = Some (of_int y)"
    using read_bucket_spec [OF assms(1) bs(1), of clock r kt "s kt"] read_bucket_spec [OF assms(1) bs(2), of clock r ku "s ku"]
      rep [of kt] rep [of ku] v(5-7) by (simp_all add: xy spec_balance_def w)
  have run: "serve pf b q r = (case spend_tokens pf clock (of_int (int clock)) kt ku (of_int ct) (of_int cu) (of_int w) (of_int (c * 1000))
      (nat (w + 1000)) (of_int x) (of_int y) r of
      (reply, r') \<Rightarrow> (parse_decision (RSeq (map RBytes reply)) (rp_tenant_limit p) (rp_user_limit p) w c, r'))"
    using script_reads [OF assms(1) v(1-5), of r kt "of_int x" ku "of_int y"] rx k(1)
    by (simp add: serve_def backend_evaluate_def bucket_eval_def request_keys_def defs(1,2,3) [symmetric] Let_def w split: prod.splits)
  have sp: "spec_serve pf b sz q s = (if c * 1000 \<le> x \<and> c * 1000 \<le> y
      then (True, s(kt \<mapsto> (x - c * 1000, int clock), ku \<mapsto> (y - c * 1000, int clock))) else (False, s))"
    by (simp add: spec_serve_def k(1) xy defs(2,3) [symmetric] Let_def)
  have "\<exists>d r'. serve pf b q r = (Inr d, r') \<and> buckets_rep sz (int clock) r' (snd (spec_serve pf b sz q s)) \<and>
      rd_allowed d = fst (spec_serve pf b sz q s) \<and> decides c w x y d"
  proof (cases "c * 1000 \<le> x \<and> c * 1000 \<le> y")
    case True
    obtain reset where sp': "spend_tokens pf clock (of_int (int clock)) kt ku (of_int ct) (of_int cu) (of_int w) (of_int (c * 1000))
        (nat (w + 1000)) (of_int x) (of_int y) r = ([''allowed'', ''0'', int_text (x - c * 1000), int_text (y - c * 1000), int_text reset],
       put_bucket clock ku (int_text (y - c * 1000)) (int_text (int clock)) (nat (w + 1000))
        (put_bucket clock kt (int_text (x - c * 1000)) (int_text (int clock)) (nat (w + 1000)) r))" "1 \<le> reset" "reset \<le> w"
      using spend_allowed [OF assms(1), of ct w cu "c * 1000" x y clock "int clock" kt ku "nat (w + 1000)" r] bs True xb v(2) by (auto simp: w)
    obtain d where d: "parse_decision (RSeq (map RBytes [''allowed'', ''0'', int_text (x - c * 1000), int_text (y - c * 1000), int_text reset]))
        (rp_tenant_limit p) (rp_user_limit p) w c = Inr d" "decides c w x y d"
      using parse_allowed [OF v(1-3), of "x - c * 1000" "y - c * 1000" reset] True xb sp'(2,3) by (auto simp: w algebra_simps)
    let ?r = "put_bucket clock kt (int_text (x - c * 1000)) (int_text (int clock)) (nat (w + 1000)) r"
    let ?u = "put_bucket clock ku (int_text (y - c * 1000)) (int_text (int clock)) (nat (w + 1000)) ?r"
    have kt: "bucket_rep (sz kt) (int clock) ?r kt (Some (x - c * 1000, int clock))"
      using put_bucket_holds [of ct w clock r kt "s kt" "x - c * 1000"] rep [of kt] v(2,6) True xb pb by (simp add: w)
    have ku: "bucket_rep (sz ku) (int clock) ?u ku (Some (y - c * 1000, int clock))"
      using put_bucket_holds [of cu w clock ?r ku "s ku" "y - c * 1000"] bucket_rep_frame [of ?r ku r "int clock" "int clock" "sz ku" "s ku"]
        put_bucket_other [OF k(2) [symmetric], of clock _ _ _ r] rep [of ku] v(2,7) True xb pb by (simp add: w)
    have "bucket_rep (sz k) (int clock) ?u k ((s(kt \<mapsto> (x - c * 1000, int clock), ku \<mapsto> (y - c * 1000, int clock))) k)" for k
      using bucket_rep_frame [of ?u k r "int clock" "int clock" "sz k" "s k"] bucket_rep_frame [of ?u kt ?r "int clock" "int clock" "sz kt"]
        kt ku k(2) rep [of k] by (cases "k = ku"; cases "k = kt") (simp_all add: put_bucket_other)
    then have "buckets_rep sz (int clock) ?u (s(kt \<mapsto> (x - c * 1000, int clock), ku \<mapsto> (y - c * 1000, int clock)))"
      by (simp add: buckets_rep_def)
    moreover have "rd_allowed d" using d(2) True by (simp add: decides_def)
    ultimately show ?thesis using run sp' sp True d by simp
  next
    case False
    obtain retry reset where sp': "spend_tokens pf clock (of_int (int clock)) kt ku (of_int ct) (of_int cu) (of_int w) (of_int (c * 1000))
        (nat (w + 1000)) (of_int x) (of_int y) r = ([''denied'', int_text retry, int_text x, int_text y, int_text reset], r)"
      "1 \<le> retry" "retry \<le> w" "1 \<le> reset" "reset \<le> w"
      using spend_denied [OF assms(1), of ct w cu x y "c * 1000" clock "int clock" kt ku "nat (w + 1000)" r] bs False xb v(3) pb
      by (auto simp: w)
    obtain d where d: "parse_decision (RSeq (map RBytes [''denied'', int_text retry, int_text x, int_text y, int_text reset]))
        (rp_tenant_limit p) (rp_user_limit p) w c = Inr d" "decides c w x y d"
      using parse_denied [OF v(1-3), of x y reset retry] False xb sp'(2-5) by (auto simp: w)
    moreover have "\<not> rd_allowed d" using d(2) False by (simp add: decides_def)
    moreover have "buckets_rep sz (int clock) r s" using rep by (simp add: buckets_rep_def)
    ultimately show ?thesis using run sp' sp False by simp
  qed
  then show ?thesis by (simp add: defs w xy)
qed

text \<open>A sequence of requests.\<close>

fun spec_all ::
  "platform \<Rightarrow> rate_backend \<Rightarrow> (string \<Rightarrow> int \<times> int) \<Rightarrow> rate_request list \<Rightarrow> (string \<rightharpoonup> int \<times> int) \<Rightarrow> bool list \<times> (string \<rightharpoonup> int \<times> int)" where
  "spec_all pf b sz [] s = ([], s)"
| "spec_all pf b sz (q # qs) s = (let (x, s1) = spec_serve pf b sz q s; (xs, s2) = spec_all pf b sz qs s1 in (x # xs, s2))"

lemma serve_all_spec:
  assumes "ieee_rounding pf" "\<forall>q\<in>set qs. valid_request pf b sz q \<and> t \<le> int (rq_clock q)" "sorted (map rq_clock qs)" "buckets_rep sz t r s"
  shows "\<exists>ds. fst (serve_all pf b qs r) = map Inr ds \<and> map rd_allowed ds = fst (spec_all pf b sz qs s) \<and>
    (\<forall>q\<in>set qs. buckets_rep sz (int (rq_clock (last qs))) (snd (serve_all pf b qs r)) (snd (spec_all pf b sz qs s)))"
  using assms(2-4)
proof (induction qs arbitrary: t r s)
  case (Cons q qs)
  obtain d r1 where d: "serve pf b q r = (Inr d, r1)" "buckets_rep sz (int (rq_clock q)) r1 (snd (spec_serve pf b sz q s))"
    "rd_allowed d = fst (spec_serve pf b sz q s)"
    using serve_spec [OF assms(1), of b sz q t r s] Cons.prems by auto
  have "\<forall>p\<in>set qs. valid_request pf b sz p \<and> int (rq_clock q) \<le> int (rq_clock p)" "sorted (map rq_clock qs)" using Cons.prems by auto
  from Cons.IH [OF this d(2)] obtain ds where ds: "fst (serve_all pf b qs r1) = map Inr ds"
    "map rd_allowed ds = fst (spec_all pf b sz qs (snd (spec_serve pf b sz q s)))"
    "\<forall>p\<in>set qs. buckets_rep sz (int (rq_clock (last qs))) (snd (serve_all pf b qs r1)) (snd (spec_all pf b sz qs (snd (spec_serve pf b sz q s))))"
    by blast
  then show ?case using d
    by (intro exI [of _ "d # ds"]) (cases qs; auto simp: Let_def split: prod.splits)
qed simp

lemma buckets_rep_empty: "buckets_rep sz t Map.empty Map.empty"
  by (simp add: buckets_rep_def bucket_rep_def)

section \<open>The rate\<close>

text \<open>What may still be taken from a bucket, in units of its window: its balance without rounding.\<close>

definition potential :: "int \<times> int \<Rightarrow> int \<Rightarrow> (int \<times> int) option \<Rightarrow> int" where
  "potential cw t x = (case x of None \<Rightarrow> fst cw * snd cw | Some (n, l) \<Rightarrow> min (fst cw * snd cw) (n * snd cw + (t - l) * fst cw))"

definition spec_inv :: "int \<Rightarrow> (string \<rightharpoonup> int \<times> int) \<Rightarrow> bool" where
  "spec_inv t s \<longleftrightarrow> (\<forall>k n l. s k = Some (n, l) \<longrightarrow> 0 \<le> n \<and> l \<le> t)"

lemma potential_later: "0 < c \<Longrightarrow> t \<le> u \<Longrightarrow> potential (c, w) u x \<le> potential (c, w) t x + (u - t) * c"
proof -
  assume a: "0 < c" "t \<le> u"
  have d: "0 \<le> (u - t) * c" "(u - l) * c = (t - l) * c + (u - t) * c" for l using a by (simp_all add: algebra_simps)
  have m: "min A (B + (X + D)) \<le> min A (B + X) + D" if "0 \<le> D" for A B X D :: int using that by (simp add: min_def)
  show "potential (c, w) u x \<le> potential (c, w) t x + (u - t) * c"
  proof (cases x)
    case (Some y)
    obtain n l where "y = (n, l)" by (cases y)
    with Some m [OF d(1), of "c * w" "n * w" "(t - l) * c"] show ?thesis unfolding potential_def by (simp only: d(2) [of l] option.case prod.case fst_conv snd_conv)
  qed (use d(1) in \<open>simp add: potential_def\<close>)
qed

lemma balance_potential:
  assumes "0 < c" "0 < w" "\<And>n l. x = Some (n, l) \<Longrightarrow> 0 \<le> n \<and> l \<le> t"
  shows "balance c w t x * w \<le> potential (c, w) t x"
proof (cases x)
  case (Some y)
  obtain n l where y: "y = (n, l)" by (cases y)
  have n: "0 \<le> n" "l \<le> t" using assms(3) Some y by auto
  show ?thesis
  proof (cases "w \<le> t - l")
    case True
    then have "w * c \<le> (t - l) * c" using assms(1) by simp
    then show ?thesis using True Some y n assms(2) by (simp add: balance_def potential_def mult.commute add_increasing)
  next
    case False
    have "(t - l) * c div w * w \<le> (t - l) * c" using minus_mod_eq_div_mult [of "(t - l) * c" w] assms(2) pos_mod_sign [of w "(t - l) * c"] by linarith
    then have "(n + (t - l) * c div w) * w \<le> n * w + (t - l) * c" by (simp add: distrib_right)
    moreover have "min c (n + (t - l) * c div w) * w \<le> c * w" "min c (n + (t - l) * c div w) * w \<le> (n + (t - l) * c div w) * w"
      using assms(2) by (auto intro!: mult_right_mono)
    ultimately show ?thesis using False Some y by (simp add: balance_def potential_def)
  qed
qed (simp add: balance_def potential_def)

fun granted :: "platform \<Rightarrow> rate_backend \<Rightarrow> string \<Rightarrow> rate_request list \<Rightarrow> bool list \<Rightarrow> int" where
  "granted pf b k (q # qs) (x # xs) =
     (if x \<and> k \<in> {fst (request_keys pf b q), snd (request_keys pf b q)} then rq_cost q else 0) + granted pf b k qs xs"
| "granted pf b k _ _ = 0"

lemma spec_step:
  assumes "valid_request pf b sz q" "spec_inv t s" "t \<le> int (rq_clock q)" "sz k = (c, w)" "0 < c" "0 < w"
  shows "spec_inv (int (rq_clock q)) (snd (spec_serve pf b sz q s)) \<and>
    (if fst (spec_serve pf b sz q s) \<and> k \<in> {fst (request_keys pf b q), snd (request_keys pf b q)} then rq_cost q else 0) * 1000 * w +
      potential (c, w) (int (rq_clock q)) (snd (spec_serve pf b sz q s) k) \<le> potential (c, w) (int (rq_clock q)) (s k)"
proof -
  obtain kt ku where k: "request_keys pf b q = (kt, ku)" by (cases "request_keys pf b q")
  let ?t = "int (rq_clock q)" and ?c = "rq_cost q * 1000"
  have inv: "spec_inv ?t s" using assms(2,3) by (force simp: spec_inv_def)
  have sp: "spec_serve pf b sz q s = (if ?c \<le> spec_balance sz ?t s kt \<and> ?c \<le> spec_balance sz ?t s ku
      then (True, s(kt \<mapsto> (spec_balance sz ?t s kt - ?c, ?t), ku \<mapsto> (spec_balance sz ?t s ku - ?c, ?t))) else (False, s))"
    by (simp add: spec_serve_def k Let_def)
  have bal: "spec_balance sz ?t s k * w \<le> potential (c, w) ?t (s k)"
    using balance_potential [OF assms(5,6), of "s k" ?t] inv assms(4) by (auto simp: spec_balance_def spec_inv_def)
  have after: "potential (c, w) ?t (Some (spec_balance sz ?t s k - ?c, ?t)) \<le> spec_balance sz ?t s k * w - rq_cost q * 1000 * w"
    by (simp add: potential_def algebra_simps)
  show ?thesis
  proof (cases "?c \<le> spec_balance sz ?t s kt \<and> ?c \<le> spec_balance sz ?t s ku")
    case True
    then show ?thesis using sp k inv bal after by (auto simp: spec_inv_def)
  next
    case False
    then show ?thesis using sp k inv by auto
  qed
qed

lemma spec_rate:
  assumes "\<forall>q\<in>set qs. valid_request pf b sz q \<and> t \<le> int (rq_clock q) \<and> int (rq_clock q) \<le> u" "sorted (map rq_clock qs)" "spec_inv t s"
    "sz k = (c, w)" "0 < c" "0 < w" "t \<le> u"
  shows "granted pf b k qs (fst (spec_all pf b sz qs s)) * 1000 * w \<le> potential (c, w) t (s k) + (u - t) * c"
  using assms(1-3,7)
proof (induction qs arbitrary: t s)
  case Nil
  have "0 \<le> potential (c, w) t (s k)"
    using Nil.prems(3) assms(5,6) by (auto simp: potential_def spec_inv_def split: option.splits)
  then show ?case using Nil assms(5) by simp
next
  case (Cons q qs)
  let ?u = "int (rq_clock q)" and ?s = "snd (spec_serve pf b sz q s)"
  let ?g = "(if fst (spec_serve pf b sz q s) \<and> k \<in> {fst (request_keys pf b q), snd (request_keys pf b q)} then rq_cost q else 0)"
  have q: "valid_request pf b sz q" "t \<le> ?u" "?u \<le> u" using Cons.prems by auto
  note st = spec_step [OF q(1) Cons.prems(3) q(2) assms(4-6)]
  have "\<forall>p\<in>set qs. valid_request pf b sz p \<and> ?u \<le> int (rq_clock p) \<and> int (rq_clock p) \<le> u" "sorted (map rq_clock qs)"
    using Cons.prems by auto
  from Cons.IH [OF this] st q(3)
  have ih: "granted pf b k qs (fst (spec_all pf b sz qs ?s)) * 1000 * w \<le> potential (c, w) ?u (?s k) + (u - ?u) * c" by blast
  have "granted pf b k (q # qs) (fst (spec_all pf b sz (q # qs) s)) = ?g + granted pf b k qs (fst (spec_all pf b sz qs ?s))"
    by (cases "spec_serve pf b sz q s"; cases "spec_all pf b sz qs ?s") simp
  then have "granted pf b k (q # qs) (fst (spec_all pf b sz (q # qs) s)) * 1000 * w =
      ?g * 1000 * w + granted pf b k qs (fst (spec_all pf b sz qs ?s)) * 1000 * w" by (simp only: distrib_right)
  also have "\<dots> \<le> potential (c, w) ?u (s k) + (u - ?u) * c" using st ih by linarith
  also have "\<dots> \<le> potential (c, w) t (s k) + (u - t) * c"
    using potential_later [OF assms(5) q(2), of w "s k"] by (simp add: left_diff_distrib)
  finally show ?case .
qed

lemma spec_inv_later: "spec_inv t s \<Longrightarrow> t \<le> u \<Longrightarrow> spec_inv u s"
  by (force simp: spec_inv_def)

lemma spec_inv_step: "spec_inv (int (rq_clock q)) s \<Longrightarrow> spec_inv (int (rq_clock q)) (snd (spec_serve pf b sz q s))"
  by (auto simp: spec_serve_def Let_def spec_inv_def split: prod.splits)

lemma spec_all_Cons:
  "fst (spec_all pf b sz (q # qs) s) = fst (spec_serve pf b sz q s) # fst (spec_all pf b sz qs (snd (spec_serve pf b sz q s)))"
  "snd (spec_all pf b sz (q # qs) s) = snd (spec_all pf b sz qs (snd (spec_serve pf b sz q s)))"
  by (cases "spec_serve pf b sz q s"; cases "spec_all pf b sz qs (snd (spec_serve pf b sz q s))"; simp)+

lemma potential_le: "potential (c, w) t x \<le> c * w"
  by (auto simp: potential_def split: option.splits)

lemma spec_inv_all:
  assumes "spec_inv t s" "\<forall>q\<in>set qs. t \<le> int (rq_clock q) \<and> int (rq_clock q) \<le> u" "sorted (map rq_clock qs)" "t \<le> u"
  shows "spec_inv u (snd (spec_all pf b sz qs s))"
  using assms
proof (induction qs arbitrary: t s)
  case Nil
  then show ?case using spec_inv_later by simp
next
  case (Cons q qs)
  have "spec_inv u (snd (spec_all pf b sz qs (snd (spec_serve pf b sz q s))))"
  proof (rule Cons.IH)
    show "spec_inv (int (rq_clock q)) (snd (spec_serve pf b sz q s))"
      using Cons.prems by (intro spec_inv_step) (auto intro: spec_inv_later)
  qed (use Cons.prems in auto)
  then show ?case by (simp add: spec_all_Cons del: spec_all.simps)
qed

lemma spec_all_append:
  "fst (spec_all pf b sz (qs @ rs) s) = fst (spec_all pf b sz qs s) @ fst (spec_all pf b sz rs (snd (spec_all pf b sz qs s)))"
  "length (fst (spec_all pf b sz qs s)) = length qs"
  by (induction qs arbitrary: s) (simp_all add: spec_all_Cons del: spec_all.simps(2))

text \<open>What a bucket grants between two instants.\<close>

lemma spec_rate_after:
  assumes "\<forall>q\<in>set (qs @ rs). valid_request pf b sz q" "sorted (map rq_clock (qs @ rs))"
    "\<forall>q\<in>set rs. t \<le> int (rq_clock q) \<and> int (rq_clock q) \<le> u" "t \<le> u" "sz k = (limit * 1000, w)" "0 < limit" "0 < w"
  shows "granted pf b k rs (drop (length qs) (fst (spec_all pf b sz (qs @ rs) Map.empty))) * w \<le> limit * (w + (u - t))"
proof (cases rs)
  case Nil
  then show ?thesis using assms(4,6,7) by simp
next
  case (Cons r rs')
  define t0 where "t0 = int (rq_clock r)"
  let ?s = "snd (spec_all pf b sz qs Map.empty)"
  have inv: "spec_inv t0 ?s"
    using assms(2) Cons by (intro spec_inv_all [of 0]) (auto simp: spec_inv_def t0_def sorted_append)
  have "granted pf b k rs (fst (spec_all pf b sz rs ?s)) * 1000 * w \<le> potential (limit * 1000, w) t0 (?s k) + (u - t0) * (limit * 1000)"
    using assms Cons inv by (intro spec_rate) (auto simp: t0_def sorted_append)
  also have "\<dots> \<le> limit * 1000 * w + (u - t) * (limit * 1000)"
    using assms(3,6) Cons potential_le [of "limit * 1000" w t0 "?s k"] by (auto simp: t0_def intro!: add_mono mult_right_mono)
  finally have "(granted pf b k rs (fst (spec_all pf b sz rs ?s)) * w) * 1000 \<le> (limit * (w + (u - t))) * 1000"
    by (simp add: algebra_simps)
  then show ?thesis by (simp add: spec_all_append)
qed

section \<open>The backend as the service sees it\<close>

lemma parse_decision_constructed: "parse_decision v l m w c = Inr d \<Longrightarrow> rate_decision_new d = Inr d"
  by (auto simp: parse_decision_def Let_def bindE_eq_Inr rate_decision_new_def split: redis_value.splits list.splits)

interpretation redis_limiter: decision_backend "backend_evaluate pf b client 1" for pf b client
proof unfold_locales
  fix c r d r'
  assume "backend_evaluate pf b client 1 c r = (Inr d, r')"
  then show "rate_decision_new d = Inr d"
    by (auto simp: backend_evaluate_def Let_def parse_decision_constructed split: prod.splits redis_answer.splits)
qed

end
