(* ===== verification/Spec2Isabelle.thy ===== *)
theory Spec2Isabelle
  imports Scenario Idempotency Session_Log File_Facts Prompt Agent_Effects Shadow_Rebuild Delivery_Facts
    Canary_Facts Evidence_Facts Token_Facts
begin

text \<open>
  A verification development for ForgeReplay (\<^verbatim>\<open>src/src/forge_replay\<close>): a coding-agent
  harness whose every durable fact is an event of a ledger, and whose runs can be
  recovered from that ledger after a crash.

  \<^bold>\<open>The program.\<close> A user message opens a turn and a run in a session. A worker takes a
  lease on the run, calls a model, records the response, proposes tool calls, has them
  approved, dispatches them and records the results, under budgets, until it commits a
  final answer or the run is terminated. All of it goes through \<^verbatim>\<open>SQLiteEventStore\<close>
  (\<^verbatim>\<open>persistence/store.py\<close>): every public method opens one immediate transaction, checks the
  caller's lease (the fence), changes rows, appends events and commits. The columns of the
  table \<^verbatim>\<open>runs\<close> are a cache of what replaying the events gives (\<^verbatim>\<open>runtime/projection.py\<close>);
  checkpoints (\<^verbatim>\<open>runtime/checkpoint.py\<close>) shorten the replay.

  \<^bold>\<open>Theories and sources.\<close>
  \<^item> \<open>Prelude\<close>: error classes (\<^verbatim>\<open>persistence/contracts.py\<close>), results, the transaction monad
    (\<^verbatim>\<open>BEGIN IMMEDIATE\<close>, \<^verbatim>\<open>COMMIT\<close>, \<^verbatim>\<open>ROLLBACK\<close>), weakest preconditions, keyed tables.
  \<^item> \<open>Domain\<close>: \<^verbatim>\<open>domain.py\<close>. \<open>Json\<close>: \<^verbatim>\<open>canonical_json\<close>. \<open>Events\<close>: \<^verbatim>\<open>events.py\<close>.
    \<open>Projection\<close>: \<^verbatim>\<open>runtime/projection.py\<close> and \<^verbatim>\<open>runtime/checkpoint.py\<close>.
  \<^item> \<open>Tables\<close>: \<^verbatim>\<open>persistence/schema.py\<close>, every table a list of rows in a record \<^typ>\<open>db\<close>, with
    primary keys, foreign keys and unique indices checked on insertion.
  \<^item> \<open>Model_Calls\<close>, \<open>Ledger\<close>, \<open>Blobs\<close>, \<open>Recovery\<close>, \<open>Leases\<close>, \<open>Lifecycle\<close>, \<open>Tool_Calls\<close>,
    \<open>Budgets\<close>: the commands of \<^verbatim>\<open>persistence/store.py\<close>, one definition per method, in the
    order of their concerns. \<open>Tool_Identity\<close>: \<^verbatim>\<open>runtime/tool_identity.py\<close>.
  \<^item> \<open>Integrity\<close>, \<open>Lifecycle_Facts\<close>, \<open>Views\<close>, \<open>Tool_Facts\<close>, \<open>Identity_Facts\<close>,
    \<open>Session_Log\<close>, \<open>Outcomes\<close>, \<open>Idempotency\<close>: what the commands keep and return.
  \<^item> \<open>Path_Guard\<close>: \<^verbatim>\<open>workspace/path_guard.py\<close> over a file system of directories, files with
    link counts and symbolic links. \<open>File_Tools\<close>: \<^verbatim>\<open>tools/file_tools.py\<close>, planned writes and
    patches, their execution with interference at its two windows, reconciliation.
    \<open>File_Facts\<close>: the disks a crash can leave and what a retry does on them.
    \<open>File_Search\<close>: listing and searching, with bounds on what they return.
  \<^item> \<open>Prompt\<close>: \<^verbatim>\<open>runtime/prompt_working_set.py\<close>, the transcript of a run as the model sees it.
  \<^item> \<open>Json_Loads\<close>, \<open>Json_Roundtrip\<close>: a reader for \<^verbatim>\<open>json.loads\<close> and that it inverts
    \<^const>\<open>canonical_json\<close>. \<open>Model_Output\<close>: \<^verbatim>\<open>MiniAgent.parse\<close> of \<^verbatim>\<open>mini_coding_agent.py\<close>, which turns the
    text of a model into a tool call, a final answer or a notice to retry.
  \<^item> \<open>Runtime\<close>: the world of a worker (database, disk, its context, a count of actions) and
    its actions; \<open>Executors\<close>: \<^verbatim>\<open>runtime/file_executor.py\<close>, \<^verbatim>\<open>runtime/shell_executor.py\<close>; \<open>Agent\<close>:
    \<^verbatim>\<open>runtime/agent.py\<close>; \<open>Agent_Facts\<close>, \<open>Agent_Outcomes\<close>, \<open>Agent_Effects\<close>: the loop as a client of
    the store, what its outcomes say about the store, and that its effects on the disk follow
    what the store knows of calls and attempts (\<open>Tool_History\<close>).
  \<^item> \<open>Store\<close>: the commands as one step relation \<^const>\<open>store_step\<close> (25 rules, any interleaving of
    any callers), the invariant \<^const>\<open>store_inv\<close> and reachability. \<open>Scenario\<close>: a concrete
    execution that instantiates the theorems.

  \<^item> \<open>Shadow\<close>: \<^verbatim>\<open>production/shadow_projection.py\<close> and \<^verbatim>\<open>production/redis_shadow.py\<close>, the Lua script
    included, over a Redis of hashes; \<open>Shadow_Facts\<close>: versions, keys, deliveries.
    \<open>Shadow_Config\<close>: \<^verbatim>\<open>production/shadow_config.py\<close>. \<open>Relay\<close>, \<open>Relay_Facts\<close>:
    \<^verbatim>\<open>production/outbox_relay.py\<close>, the relay and the rebuilder. \<open>Shadow_Source\<close>:
    \<^verbatim>\<open>production/postgres_shadow.py\<close>; \<open>Shadow_Rebuild\<close>: a rebuild from SQL to Redis.
  \<^item> \<open>Delivery\<close>, \<open>Delivery_Facts\<close>: the queue of commands, the outbox and the worker leases of
    \<^verbatim>\<open>control_plane/postgres.py\<close>, and their step relation \<^const>\<open>delivery_step\<close>.

  \<^item> \<open>Capacity\<close>: \<^verbatim>\<open>production/capacity_gate.py\<close> and \<^verbatim>\<open>production/fault_drill.py\<close>. \<open>Release\<close>:
    \<^verbatim>\<open>canary_cohort.py\<close> and \<^verbatim>\<open>production/canary_release.py\<close>, the gate and the manifest. \<open>Evidence\<close>:
    \<^verbatim>\<open>production/evidence_signing.py\<close>. \<open>Canary\<close>: \<^verbatim>\<open>production/canary_lifecycle.py\<close>, the coordinator of
    the ladder off, shadow, 1, 5, 25, 100 per cent. \<open>Evidence_Facts\<close>, \<open>Canary_Facts\<close>: signatures and
    cohorts; what each decision does to the state, and the step relation \<^const>\<open>canary_step\<close>.

  \<^item> \<open>Rate_Limit\<close>: \<^verbatim>\<open>control_plane/rate_limit.py\<close>, policies and the service. \<open>Token_Bucket\<close>:
    \<^verbatim>\<open>production/redis_api_rate_limit.py\<close>, the Lua script on doubles and the adapter. \<open>Token_Facts\<close>:
    rounding never shows, and the script refines token buckets of integers (\<^const>\<open>spec_serve\<close>).

  \<^bold>\<open>Interfaces.\<close> Locales state what one part promises another: \<open>cursor_reducer\<close> (a fold that
  skips foreign events and never goes back), \<open>keyed_store\<close> (lookup after update),
  \<open>fenced_command\<close> (a command that reads the fence first), \<open>run_view\<close> and its extensions
  \<open>tool_free_view\<close>, \<open>budget_free_view\<close> (a part of the database a command leaves alone),
  \<open>evolving_machine\<close> (an invariant and a relation kept along all steps), \<open>retryable\<close>
  (a command that answers a retry from its record), \<open>runtime_invariant\<close> with its extensions
  \<open>disk_free_invariant\<close>, \<open>effect_invariant\<close>, \<open>reachable_invariant\<close> and \<open>session_invariant\<close> (a
  predicate on worlds that survives what the store machine and other processes can do),
  \<open>decision_backend\<close> (a limiter whose decisions were constructed). Each is interpreted on the model.

  \<^bold>\<open>What is shown.\<close> The ledger of a reachable store is gap-free and decodable and only grows;
  the columns of a run are the replay of its events; recovery always succeeds and does not
  depend on the checkpoints; terminal statuses are final; errors leave no trace; fencing
  excludes every worker without the current lease; side effects need a matching approval
  and happen at most once; budgets, blob quotas and model calls respect their limits;
  retries are answered from the record; codecs, identifiers and paths are well-behaved;
  guarded paths stay in the workspace; a file mutation can be retried after a crash at any
  point; a cached prompt is the prompt read from the store. The agent loop does nothing to
  the store but steps of its machine, so all of this holds while it runs, and the outcomes
  it reports are durable; it changes the disk only under an unfinished attempt of the
  store. The Redis shadow of runs keeps the newest projection whatever the order of deliveries,
  the relay acknowledges only what Redis has, a rebuild ends and restores every run; claims of
  commands are exclusive while they live and are handed out again when they do not. A Redis capability starts to serve tenants only step by step on verified
  evidence, stops when the evidence fails or runs out, and its signed packages verify while they
  are valid. The rate limiter grants what its limits say and no more, and fails towards reading.
  The last section shows where the guarantees end.

  \<^bold>\<open>Conventions.\<close> A method with an optional \<open>execution_context\<close> takes and returns it (the
  object is mutated in the program). The clock is read once per command and is an argument
  \<open>now\<close>, in microseconds; drawn UUIDs are arguments. Instants are compared as numbers (the
  program compares ISO-8601 texts in UTC of one format). Lease times are whole seconds and
  budget amounts integers. Error messages are dropped; the class of the error is kept. Text
  is a list of bytes in UTF-8; \<^verbatim>\<open>str.isdigit\<close> and \<^verbatim>\<open>str.strip\<close> are modelled on ASCII. A
  record returned to the caller is the row it is built from, with the fields derived from
  JSON columns. \<^const>\<open>sha256\<close>, Unicode NFC and \<^verbatim>\<open>Path.resolve\<close> are fields of the environment
  \<^typ>\<open>env\<close>; no theorem assumes more of them than that they are functions. SQLite is taken to
  serialise immediate transactions and to enforce the declared constraints. The public
  \<^verbatim>\<open>append_event\<close> is a step of the machine only for events that do not change a run.

  \<^bold>\<open>Workers.\<close> The agent loop runs in arbitrary surroundings: the fields of \<^typ>\<open>runtime\<close> give,
  per action, the clock, drawn identifiers, what other workers did to the store and other
  processes to the disk, the texts of exceptions, the model's reports and answer, the result
  of a process, directory walks, compiled regular expressions and float literals. Theorems
  assume of them only \<^const>\<open>well_behaved\<close>: identifiers are UUIDs and other workers use the store
  through its commands. An exception of an action keeps what was done before it. A prompt is
  built from one state of the database. The execution hook of the executors is absent; JSON
  text with escapes of lone surrogates is outside the model.

  \<^bold>\<open>Services.\<close> Adapters of the relay are arbitrary functions of the calls made so far. Redis runs a
  script atomically and its commands do what their documentation says; the passing of
  retention times is not modelled for projections, so that an entry stays until it is overwritten.
  Token buckets do expire; evicting them before their time is not modelled. Redis gives a script
  one instant of its own clock, and theorems about many requests assume that this clock is not
  set back. PostgreSQL
  compares text by code point and hides from a transaction the rows that another one has
  locked. Decimal texts have fewer than the 4300 digits that Python converts.

  \<^bold>\<open>Release evidence.\<close> Values have their declared types, so the checks of types are absent; a datetime is an
  instant, since the program refuses every datetime that is not UTC. A float is the rational it
  stands for; rounding to a double, the text of a double, \<^verbatim>\<open>fromisoformat\<close>, SHA-256 and HMAC are
  fields of \<^typ>\<open>platform\<close>. Two things are assumed of it: \<open>cohorts_are_nested\<close> needs the texts of three
  percentages (\<^const>\<open>prints_percents\<close>), and the rate limits need what IEEE 754 says of rounding
  (\<^const>\<open>ieee_rounding\<close>). Nothing is assumed of the hashes: theorems speak of codes
  that agree, not of who could compute them. A decision of the gate is either an authorization
  or its reasons, as the program enforces.

  \<^bold>\<open>Termination.\<close> Every definition is total; loops of the program run over lists and are
  structural recursions. Resolving symbolic links (\<open>follow\<close>) counts links down from the
  kernel's limit \<open>MAXSYMLINKS\<close>, 40, and running out of it is the error \<^verbatim>\<open>ELOOP\<close>; \<open>py_count\<close>
  shortens its text. \<^const>\<open>json_loads\<close> reads a text of length \<open>n\<close> with fuel \<open>2 * n + 1\<close>, and
  more fuel changes nothing (\<open>json_value_fuel\<close>). The agent loop is bounded by
  \<^verbatim>\<open>max_steps * 2\<close> as in the program. There is no other fuel. The page loop of the rebuilder may run
  for ever on a source without end: it is a partial function, and \<open>rebuild_terminates\<close> says when
  it returns.

  \<^bold>\<open>Not modelled.\<close> Connection set-up and pragmas of SQLite; the PostgreSQL implementation of
  the same commands; the HTTP clients of models and the process supervisor, which are
  parameters of a worker; git worktrees; the HTTP control plane; deployment policies, operations
  and the read side of Redis; evaluation harnesses, the command line and,
  but for its parser, the predecessor script.
\<close>

section \<open>Facts of reachable stores\<close>

lemma reachable_parts:
  assumes "reachable env d"
  shows "store_ok env d" "ledger_sound env d" "ledger_ok env d" "runs_ok env d" "checkpoints_ok env d"
    "run_sessions_ok d" "distinct (map r_run_id (runs d))" "model_calls_ok d" "blobs_ok env d"
    "tool_discipline d" "tools_ok d" "budgets_ok d"
  using reachable_inv [OF assms]
  by (auto simp: store_inv_def store_ok_def ledger_sound_def runs_ok_def tool_discipline_def)

lemma reachable_steps: "(store_step env)\<^sup>*\<^sup>* d d' \<Longrightarrow> reachable env d \<Longrightarrow> reachable env d'"
  by (induction rule: rtranclp_induct) (auto intro: reachable_step)

lemma s_run_steps: "(store_step demo_env)\<^sup>*\<^sup>* s_run s_leased"
  unfolding s_leased_def by (rule r_into_rtranclp) (rule step_acquire [OF prod.collapse [symmetric]])

section \<open>The ledger and its projections\<close>

text \<open>
  C1 (equivalence). In every reachable store the mutable columns of a run are exactly what
  replaying the run's events gives: \<^const>\<open>load_run_events\<close> succeeds (no row fails its
  integrity check) and \<^const>\<open>reduce_run_events\<close> of what it returns is the projection the
  columns of the row stand for.
\<close>

theorem run_columns_are_replay:
  assumes "reachable env d" "get_run d k = Some r"
  shows "\<exists>es. load_run_events env d k = Inr es \<and> reduce_run_events es None = Inr (proj_of_row r)"
proof -
  note parts = reachable_parts [OF assms(1)]
  have "r \<in> set (runs d)" "r_run_id r = k" using get_run_in [OF assms(2)] by auto
  then have "reduce_run_events (history env d k) None = Inr (proj_of_row r)"
    using parts(4) by (auto simp: runs_ok_def)
  moreover have "load_run_events env d k = Inr (history env d k)"
    using load_full_history [OF parts(3,6,7), of k] assms(2)
    by (simp add: load_run_events_def require_run_row_def)
  ultimately show ?thesis by blast
qed

theorem run_columns_are_replay_witness:
  "\<exists>es. load_run_events demo_env s_settled ''r'' = Inr es \<and>
     reduce_run_events es None = Inr (proj_of_row ((leased_run 6)\<lparr>r_budget_consumed := [(''tokens'', 4)]\<rparr>))"
  by (rule run_columns_are_replay [OF reachable_s_settled])
    (simp add: s_settled_eq get_run_def tbl_simps leased_run_def demo_run_def)

text \<open>
  C2 (liveness). Recovery of a run of a reachable store always succeeds and gives the stored
  columns, whatever checkpoints it starts from and however many it rejects on the way.
\<close>

theorem recovery_returns_columns:
  assumes "reachable env d" "get_run d k = Some r"
  shows "\<exists>rec. recover_run_projection env d k = Inr rec \<and> rec_projection rec = proj_of_row r"
proof -
  note parts = reachable_parts [OF assms(1)]
  show ?thesis
    using recover_in_transaction [OF parts(3-5) assms(2)] assms(2)
    by (simp add: recover_run_projection_def require_run_row_def)
qed

theorem recovery_returns_columns_witness:
  "\<exists>rec. recover_run_projection demo_env s_dispatched ''r'' = Inr rec \<and>
     rec_projection rec = proj_of_row (leased_run 10)"
  by (rule recovery_returns_columns [OF reachable_s_dispatched])
    (simp add: s_dispatched_eq get_run_def tbl_simps leased_run_def demo_run_def)

text \<open>
  Damage to the checkpoint table cannot change what recovery returns: with the
  checkpoints of a reachable store replaced by any rows that either fail their check or
  are a true prefix of the history, the recovered projection is still the stored one.
\<close>

lemma recovery_survives_bad_checkpoints:
  assumes "reachable env d" "get_run d k = Some r"
    and "\<forall>ck \<in> set cks. checkpoint_sound env d ck r"
  shows "\<exists>rec. recover_run_projection env (d\<lparr>checkpoints := cks\<rparr>) k = Inr rec \<and>
    rec_projection rec = proj_of_row r"
proof -
  note parts = reachable_parts [OF assms(1)]
  let ?d = "d\<lparr>checkpoints := cks\<rparr>"
  have h: "history env ?d = history env d" by (rule history_cong) simp
  have L: "ledger_ok env ?d" "run_sessions_ok ?d" "distinct (map r_run_id (runs ?d))"
    using parts(3,6,7) ledger_ok_cong [of ?d d env] by (simp_all add: run_sessions_ok_def)
  have r: "r \<in> set (runs d)" "r_run_id r = k" using get_run_in [OF assms(2)] by auto
  have "reduce_run_events (history env ?d k) None = Inr (proj_of_row r)"
    using parts(4) r by (auto simp: runs_ok_def h)
  moreover have "\<forall>ck \<in> set cks. checkpoint_sound env ?d ck r"
    using assms(3) by (simp add: checkpoint_sound_def h)
  ultimately show ?thesis
    using recover_loop_full [OF L, of "rev (sort_key k_through_seq (filter (\<lambda>c. k_run_id c = k) cks))" r] r(2) assms(2)
    by (simp add: recover_run_projection_def require_run_row_def get_run_def recover_run_projection_in_transaction_def)
qed

lemma recovery_survives_bad_checkpoints_instance:
  "\<exists>rec. recover_run_projection demo_env (s_run\<lparr>checkpoints := [\<lparr>k_checkpoint_id = ''k'', k_run_id = ''r'',
     k_through_seq = 9, k_state_version = 1, k_phase = [], k_snapshot_json = JNull, k_snapshot_sha256 = ''x'',
     k_created_at = 0\<rparr>]\<rparr>) ''r'' = Inr rec \<and> rec_projection rec = proj_of_row demo_run"
  by (rule recovery_survives_bad_checkpoints [OF reachable_s_run])
    (simp_all add: s_run_eq get_run_def tbl_simps demo_run_def checkpoint_sound_def
      projection_from_checkpoint_row_def sha256_json_def)

text \<open>
  C3 (invariant). The ledger has no gaps: the sequence numbers of a session are
  \<open>1 \<dots> next_seq - 1\<close> in order, and every stored row decodes to the event it was written from.
\<close>

theorem ledger_gap_free:
  assumes "reachable env d"
  shows "(\<forall>s \<in> set (sessions d). session_seqs d (s_session_id s) = [1..s_next_seq s - 1]) \<and>
    (\<forall>v \<in> set (events d). \<exists>e. event_from_row env v = Inr e \<and> row_of_event env e = v)"
proof (intro conjI ballI)
  have ok: "ledger_ok env d" using assms by (rule reachable_parts)
  show "session_seqs d (s_session_id s) = [1..s_next_seq s - 1]" if "s \<in> set (sessions d)" for s
    using ok that by (simp add: ledger_ok_def)
  show "\<exists>e. event_from_row env v = Inr e \<and> row_of_event env e = v" if "v \<in> set (events d)" for v
    using ok that event_from_row_of_event by (fastforce simp: ledger_ok_def)
qed

theorem ledger_gap_free_witness:
  "session_seqs s_run ''s'' = [1..4] \<and> (\<exists>e. event_from_row demo_env ev3 = Inr e \<and> row_of_event demo_env e = ev3)"
  using ledger_gap_free [OF reachable_s_run] by (simp add: s_run_eq demo_session_def)

text \<open>
  C4 (safety). History is never rewritten: along any sequence of commands from a reachable
  store, events, blobs, control commands and checkpoints only grow at the end, and a run
  that exists keeps its identity, its lease epoch never goes down and a cancellation
  request is never withdrawn.
\<close>

theorem history_only_grows:
  assumes "reachable env d" "(store_step env)\<^sup>*\<^sup>* d d'"
  shows "prefix (events d) (events d') \<and> prefix (blobs d) (blobs d') \<and>
    prefix (control_commands d) (control_commands d') \<and> prefix (checkpoints d) (checkpoints d') \<and>
    (\<forall>k r. get_run d k = Some r \<longrightarrow> (\<exists>r'. get_run d' k = Some r' \<and> run_identity r r' \<and>
       r_lease_epoch r \<le> r_lease_epoch r' \<and>
       (r_cancel_requested_at r \<noteq> None \<longrightarrow> r_cancel_requested_at r' \<noteq> None)))"
proof -
  have "evolves d d'"
    using machine.steps_inv_follows [OF assms(2) reachable_inv [OF assms(1)]] by blast
  then show ?thesis
    using evolves_run [of d d'] unfolding evolves_def run_le_def by blast
qed

theorem history_only_grows_witness:
  "prefix (events s_run) (events s_leased) \<and> (\<exists>r'. get_run s_leased ''r'' = Some r' \<and> run_identity demo_run r')"
proof -
  have "get_run s_run ''r'' = Some demo_run" by (simp add: s_run_eq get_run_def tbl_simps demo_run_def)
  with history_only_grows [OF reachable_s_run s_run_steps] show ?thesis by blast
qed



section \<open>Outcomes, fencing and leases\<close>



text \<open>
  After a successful command the context it hands back to the worker
  either is the one it was given (nothing was appended) or carries the stream version the
  store now has for the run, with the same run, worker and epoch: the next command of the
  same worker is not refused as stale.
\<close>

lemma context_keeps_pace:
  assumes "reachable env d" "is_uuid eid" "is_uuid eid2"
  shows "keeps_pace (begin_workspace_provisioning env now eid eid2 k dm pid (Some c)) c d \<and>
    keeps_pace (attach_provisioned_workspace env now eid eid2 k wt br bc om ot pid (Some c)) c d \<and>
    keeps_pace (commit_run_checkpoint env now eid k ck pid (Some c)) c d \<and>
    keeps_pace (transition_run_phase env now eid k pp np re pid (Some c)) c d \<and>
    keeps_pace (commit_final_answer env now eid eid2 k rsp an vs pid (Some c)) c d \<and>
    keeps_pace (complete_run env now eid k vs pid (Some c)) c d \<and>
    keeps_pace (terminate_run env now eid k st re pid (Some c)) c d \<and>
    keeps_pace (propose_tool_call env now eid fid k rsp n tn tv args ec tps pv pid (Some c)) c d \<and>
    keeps_pace (request_tool_approval env now eid fid tc pol pid (Some c)) c d \<and>
    keeps_pace (decide_tool_approval env now eid aid fp dc ac re pid cc (Some c)) c d \<and>
    keeps_pace (dispatch_tool_call env now eid fid tc plan idn pid att (Some c)) c d \<and>
    keeps_pace (finish_tool_attempt env now eid atid oc pid rcpt out mt er rt (Some c)) c d \<and>
    keeps_pace (reserve_budget env now eid k bid cat amount pid (Some c)) c d \<and>
    keeps_pace (settle_budget env now eid bid amount pid (Some c)) c d"
  unfolding command_defs
  by (intro conjI keeps_pace_run_command [where env = env] lifecycle_commits tool_commits budget_commits
      reachable_parts(1) [OF assms(1)] assms(2-3))

lemma context_keeps_pace_instance:
  "keeps_pace (terminate_run demo_env 500 (uid CHR ''5'') ''r'' ES_FAILED ''gone'' ''p'' (Some (demo_context 4)))
     (demo_context 4) s_leased"
  using context_keeps_pace [OF reachable_s_leased, of "uid CHR ''5''" "uid CHR ''6''" 500 "''r''" _ "''p''"] by simp



text \<open>
  While another worker holds an unexpired lease, acquiring the run is refused
  with a lease conflict and nothing changes.
\<close>

lemma live_lease_blocks_acquisition:
  assumes "get_run d k = Some row" "r_lease_owner row = Some w" "w \<noteq> []" "w \<noteq> owner" "expires_after row now"
    and "\<not> blank owner" "1 \<le> ttl" "ttl \<le> 3600"
  shows "acquire_run_lease k owner ttl now d = (Inl LeaseConflictError, d)"
  using assms
  by (simp add: acquire_run_lease_def acquire_run_lease_body_def transact_def bindT_apply readT_def
      require_run_row_def has_owner_def)

lemma live_lease_blocks_acquisition_instance:
  "acquire_run_lease ''r'' ''v'' 60 300 s_leased = (Inl LeaseConflictError, s_leased)"
  by (rule live_lease_blocks_acquisition [where row = "leased_run 4" and w = "''w''"])
    (simp_all add: s_leased_eq get_run_def tbl_simps leased_run_def demo_run_def expires_after_def blank_def is_space_def)

text \<open>
  A successful acquisition makes the caller the owner until exactly \<open>ttl\<close>
  seconds later, raises the epoch by one when the owner changes (a takeover or a first
  lease) and keeps it when the owner renews its own lease, and touches no other column of
  the run and no other run.
\<close>

lemma acquisition_takes_over:
  assumes "acquire_run_lease k owner ttl now d = (Inr l, d')"
  shows "\<exists>row. get_run d k = Some row \<and>
    l_epoch l = (if r_lease_owner row = Some owner then r_lease_epoch row else r_lease_epoch row + 1) \<and>
    l_owner l = owner \<and> l_run_id l = k \<and> l_expires_at l = now + ttl * 1000000 \<and>
    get_run d' k = Some (row\<lparr>r_lease_owner := Some owner, r_lease_epoch := l_epoch l,
      r_lease_expires_at := Some (l_expires_at l)\<rparr>) \<and>
    (\<forall>k'. k' \<noteq> k \<longrightarrow> get_run d' k' = get_run d k')"
proof -
  have "wp (acquire_run_lease_body k owner ttl now) (\<lambda>l d'. \<exists>row. get_run d k = Some row \<and>
    l_epoch l = (if r_lease_owner row = Some owner then r_lease_epoch row else r_lease_epoch row + 1) \<and>
    l_owner l = owner \<and> l_run_id l = k \<and> l_expires_at l = now + ttl * 1000000 \<and>
    get_run d' k = Some (row\<lparr>r_lease_owner := Some owner, r_lease_epoch := l_epoch l,
      r_lease_expires_at := Some (l_expires_at l)\<rparr>) \<and>
    (\<forall>k'. k' \<noteq> k \<longrightarrow> get_run d' k' = get_run d k')) d"
    by (rule wp_acquire) (auto simp: run_store.lookup_update set_lease_def lease_expiry_def)
  from wp_transact [OF this assms [unfolded acquire_run_lease_def]] show ?thesis .
qed

lemma acquisition_takes_over_instance:
  "\<exists>row. get_run s_run ''r'' = Some row \<and> get_run s_leased ''r'' = Some (row\<lparr>r_lease_owner := Some ''w'',
     r_lease_epoch := r_lease_epoch row + 1, r_lease_expires_at := Some 60000200\<rparr>)"
proof -
  have "acquire_run_lease ''r'' ''w'' 60 200 s_run = (Inr \<lparr>l_run_id = ''r'', l_owner = ''w'', l_epoch = 1,
      l_expires_at = 60000200\<rparr>, s_leased)"
    by (simp add: s_leased_def acquire_run_lease_def acquire_run_lease_body_def s_run_eq exec_simps row_defs
        has_owner_def expires_after_def lease_expiry_def)
  from acquisition_takes_over [OF this] show ?thesis by (auto simp: s_run_eq get_run_def tbl_simps demo_run_def)
qed



section \<open>Tool calls and approvals\<close>

lemma attempted_is_approved:
  assumes "reachable env d" "c \<in> set (tool_calls d)" "a \<in> set (tool_attempts d)"
    and "a_tool_call_id a = c_tool_call_id c"
  shows "c_effect_class c = TE_PURE \<or> (\<exists>ap \<in> set (approvals d). ap_run_id ap = c_run_id c \<and>
    ap_subject_id ap = c_tool_call_id c \<and> ap_fingerprint ap = c_approval_fingerprint c \<and>
    ap_decision ap = Some AD_ALLOW_ONCE)"
proof -
  have "call_ok (tool_attempts d) (approvals d) c"
    using reachable_parts(11) [OF assms(1)] assms(2) by (simp add: tools_ok_def tools_inv_def list_all_iff)
  moreover have "attempts_of (tool_attempts d) (c_tool_call_id c) \<noteq> []"
    using assms(3,4) by (auto simp: attempts_of_def filter_empty_conv)
  ultimately have "c_effect_class c = TE_PURE \<or> approved (approvals d) c"
    unfolding call_ok_def by (metis insertI2)
  then show ?thesis by (auto simp: approved_def list_ex_iff same_approval_def)
qed

text \<open>
  C9 (safety). No side effect without consent: in a reachable store, a tool call that has
  an execution attempt is pure, or a human allowed exactly this call once: there is an
  approval of the same run, for this call, with the call's own fingerprint, decided
  \<open>allow_once\<close>.
\<close>

theorem dispatch_needs_approval:
  assumes "reachable env d" "c \<in> set (tool_calls d)" "a \<in> set (tool_attempts d)"
    and "a_tool_call_id a = c_tool_call_id c"
  shows "c_effect_class c = TE_PURE \<or> (\<exists>ap \<in> set (approvals d). ap_run_id ap = c_run_id c \<and>
    ap_subject_id ap = c_tool_call_id c \<and> ap_fingerprint ap = c_approval_fingerprint c \<and>
    ap_decision ap = Some AD_ALLOW_ONCE)"
  using assms by (rule attempted_is_approved)

theorem dispatch_needs_approval_witness:
  "\<exists>ap \<in> set (approvals s_dispatched). ap_subject_id ap = uid CHR ''8'' \<and> ap_decision ap = Some AD_ALLOW_ONCE"
proof -
  have "demo_tool TC_DISPATCHED (JObj (demo_pre @ [(''action_plan'', JObj [])])) \<in> set (tool_calls s_dispatched)"
    "demo_attempt \<in> set (tool_attempts s_dispatched)" by (simp_all add: s_dispatched_eq)
  from dispatch_needs_approval [OF reachable_s_dispatched this] show ?thesis
    by (auto simp: demo_tool_def demo_attempt_def)
qed

text \<open>
  C10 (invariant). A call is executed at most once: in a reachable store every tool call has
  at most one attempt, none before it is dispatched, and the attempt is in the state of
  the call.
\<close>

theorem at_most_one_attempt:
  assumes "reachable env d" "c \<in> set (tool_calls d)"
  shows "length (filter (\<lambda>a. a_tool_call_id a = c_tool_call_id c) (tool_attempts d)) \<le> 1 \<and>
    (\<forall>a \<in> set (tool_attempts d). a_tool_call_id a = c_tool_call_id c \<longrightarrow>
       a_state a = c_state c \<and> c_state c \<in> {TC_DISPATCHED, TC_SUCCEEDED, TC_FAILED, TC_UNCERTAIN})"
proof -
  have ok: "call_ok (tool_attempts d) (approvals d) c"
    using reachable_parts(11) [OF assms(1)] assms(2) by (simp add: tools_ok_def tools_inv_def list_all_iff)
  show ?thesis
  proof (cases "c_state c \<in> {TC_DISPATCHED, TC_SUCCEEDED, TC_FAILED, TC_UNCERTAIN}")
    case True
    with ok have one: "map a_state (attempts_of (tool_attempts d) (c_tool_call_id c)) = [c_state c]"
      by (simp add: call_ok_def)
    then obtain b where b: "attempts_of (tool_attempts d) (c_tool_call_id c) = [b]" "a_state b = c_state c"
      by (auto simp: map_eq_Cons_conv)
    have "a = b" if "a \<in> set (tool_attempts d)" "a_tool_call_id a = c_tool_call_id c" for a
    proof -
      have "a \<in> set (attempts_of (tool_attempts d) (c_tool_call_id c))" using that by (simp add: attempts_of_def)
      with b(1) show ?thesis by simp
    qed
    then have "\<forall>a \<in> set (tool_attempts d). a_tool_call_id a = c_tool_call_id c \<longrightarrow> a_state a = c_state c"
      using b(2) by blast
    moreover have "length (filter (\<lambda>a. a_tool_call_id a = c_tool_call_id c) (tool_attempts d)) \<le> 1"
      using b(1) unfolding attempts_of_def by simp
    ultimately show ?thesis using True by blast
  next
    case False
    with ok have "attempts_of (tool_attempts d) (c_tool_call_id c) = []" by (simp add: call_ok_def)
    then show ?thesis by (auto simp: attempts_of_def filter_empty_conv)
  qed
qed

theorem at_most_one_attempt_witness:
  "length (filter (\<lambda>a. a_tool_call_id a = uid CHR ''8'') (tool_attempts s_dispatched)) \<le> 1"
proof -
  have "demo_tool TC_DISPATCHED (JObj (demo_pre @ [(''action_plan'', JObj [])])) \<in> set (tool_calls s_dispatched)"
    by (simp add: s_dispatched_eq)
  from at_most_one_attempt [OF reachable_s_dispatched this] show ?thesis by (simp add: demo_tool_def)
qed

text \<open>
  An approval cannot be turned to anything else: deciding it with a fingerprint
  that is not the recorded one, with the unsupported run scope, or against the decision it
  already has is refused and changes nothing.
\<close>

lemma decision_is_bound:
  assumes "get_approval_row d aid = Some ap" "\<not> blank ac" "\<not> blank re"
    and "dc = AD_ALLOW_RUN_SCOPE \<or> ap_fingerprint ap \<noteq> fp \<or> (\<exists>x. ap_decision ap = Some x \<and> x \<noteq> dc)"
  shows "decide_tool_approval env now eid aid fp dc ac re pid None None d = (Inl ApprovalConflictError, d)"
  using assms
  by (auto simp: decide_tool_approval_def decide_tool_approval_body_def run_command_def transact_def
      bindT_apply readT_def begin_if_control_def split: option.splits)

lemma decision_is_bound_instance:
  "decide_tool_approval demo_env 306 (uid CHR ''d'') (uid CHR ''a'') ''d'' AD_DENY ''u'' ''no'' ''p'' None None
     s_approved = (Inl ApprovalConflictError, s_approved)"
  by (rule decision_is_bound [where ap = "decide_row AD_ALLOW_ONCE 304 ''u'' ''fine'' demo_approval"])
    (simp_all add: s_approved_eq get_approval_row_def tbl_simps decide_row_def demo_approval_def blank_def is_space_def)

text \<open>
  C11 (safety). A cancellation request stops work that has not started: in a store where
  cancellation of the run was requested, no attempt of the run can be dispatched that did not
  exist before.
\<close>

theorem cancelled_run_dispatches_nothing:
  assumes "get_tool_call_row d tc = Some c" "get_run d (c_run_id c) = Some row"
    and "r_cancel_requested_at row \<noteq> None" "get_attempt_row d (chosen_attempt_id att fid) = None"
  shows "(\<exists>e. fst (dispatch_tool_call env now eid fid tc plan idn pid att ctx d) = Inl e) \<and>
    snd (dispatch_tool_call env now eid fid tc plan idn pid att ctx d) = d"
proof -
  have "\<exists>e. dispatch_tool_call_body env now eid fid tc plan idn pid att ctx d = Inl e"
    using assms
    by (auto simp: dispatch_tool_call_body_def bindT_apply readT_def require_execution_context_Inr
        require_run_row_Inr split: sum.splits dest!: require_fence_passed)
  then show ?thesis by (auto simp: dispatch_tool_call_def run_command_def transact_def)
qed

theorem cancelled_run_dispatches_nothing_witness:
  "snd (dispatch_tool_call demo_env 305 (uid CHR ''c'') (uid CHR ''d'') (uid CHR ''8'') [] [] ''p'' None
      (Some (demo_context 9)) (s_approved\<lparr>runs := [(leased_run 9)\<lparr>r_cancel_requested_at := Some 300\<rparr>]\<rparr>)) =
    s_approved\<lparr>runs := [(leased_run 9)\<lparr>r_cancel_requested_at := Some 300\<rparr>]\<rparr>"
  by (rule cancelled_run_dispatches_nothing [THEN conjunct2, of _ _ "demo_tool TC_READY (JObj demo_pre)"
        "(leased_run 9)\<lparr>r_cancel_requested_at := Some 300\<rparr>"])
    (simp_all add: s_approved_eq s_requested_eq s_proposed_eq state_eqs empty_db_def get_defs tbl_simps demo_tool_def leased_run_def
      demo_run_def chosen_attempt_id_def)

section \<open>Budgets\<close>



text \<open>
  A reservation that does not fit is refused: with no limit for the category, or
  with less left than asked for, the command raises the budget error and changes nothing.
\<close>

lemma reservation_must_fit:
  assumes "require_execution_context now k ctx d = Inr row" "get_reservation_row d rid = None"
    and "\<not> blank cat" "\<not> blank rid" "0 < n"
    and "case map_of (r_budget_limits row) cat of None \<Rightarrow> True
         | Some limit \<Rightarrow> limit < total_of cat (r_budget_consumed row) +
             outstanding k cat (budget_reservations d) + n"
  shows "reserve_budget env now eid k rid cat n pid ctx d = (Inl BudgetLimitError, d)"
  using assms
  by (simp add: reserve_budget_def reserve_budget_body_def run_command_def transact_def bindT_apply readT_def
      split: option.splits)

lemma reservation_must_fit_instance:
  "reserve_budget demo_env 402 (uid CHR ''7'') ''r'' ''c'' ''tokens'' 5 ''p'' (Some (demo_context 5)) s_reserved =
     (Inl BudgetLimitError, s_reserved)"
proof -
  have "require_execution_context 402 ''r'' (Some (demo_context 5)) s_reserved = Inr (leased_run 5)"
    by (simp add: s_reserved_eq fence_simps exec_simps row_defs)
  from reservation_must_fit [OF this, of "''c''" "''tokens''" 5] show ?thesis
    by (simp add: s_reserved_eq get_reservation_row_def tbl_simps demo_reservation_def new_reservation_def
        blank_def is_space_def leased_run_def demo_run_def total_of_def outstanding_def)
qed

section \<open>Retries\<close>

text \<open>
  Budget commands can be retried: after a successful reservation or
  settlement, repeating it with the same identifier and amount, by any process that
  passes the fence, returns the recorded reservation and changes nothing.
\<close>

lemma budget_commands_are_idempotent:
  assumes "reserve_budget env now eid k rid cat n pid ctx d = (Inr (rec, ctx'), d')"
    and "require_execution_context now2 k ctx2 d' = Inr row"
    and "settle_budget env now3 eid3 rid3 n3 pid3 ctx3 d3 = (Inr (rec3, ctx3'), d4)"
    and "require_execution_context now4 (b_run_id (fst rec3)) ctx4 d4 = Inr row4"
  shows "reserve_budget env now2 eid2 k rid cat n pid2 ctx2 d' = (Inr ((fst rec, None), ctx2), d') \<and>
    settle_budget env now4 eid4 rid3 n3 pid4 ctx4 d4 = (Inr ((fst rec3, None), ctx4), d4)"
proof
  show "reserve_budget env now2 eid2 k rid cat n pid2 ctx2 d' = (Inr ((fst rec, None), ctx2), d')"
    using reserve_retry.retry [of ctx env k rid cat n "(now, eid, pid)"] assms(1,2)
    unfolding reserve_budget_def by fastforce
  show "settle_budget env now4 eid4 rid3 n3 pid4 ctx4 d4 = (Inr ((fst rec3, None), ctx4), d4)"
    using settle_retry.retry [of ctx3 env rid3 n3 "(now3, eid3, pid3)"] assms(3,4)
    unfolding settle_budget_def by fastforce
qed

lemma budget_commands_are_idempotent_instance:
  "fst (reserve_budget demo_env 402 (uid CHR ''7'') ''r'' ''b'' ''tokens'' 6 ''q'' (Some (demo_context 5)) s_reserved) =
     Inr ((demo_reservation, None), Some (demo_context 5)) \<and>
   snd (settle_budget demo_env 403 (uid CHR ''8'') ''b'' 4 ''q'' (Some (demo_context 6)) s_settled) = s_settled"
proof -
  have r: "reserve_budget demo_env 400 (uid CHR ''5'') ''r'' ''b'' ''tokens'' 6 ''p'' (Some (demo_context 4)) s_leased =
      (Inr ((demo_reservation, Some (decode demo_env ev_reserved)), Some (demo_context 5)), s_reserved)"
    by (simp add: s_reserved_def reserve_budget_def reserve_budget_body_def s_leased_eq s_run_eq exec_simps row_defs
        fence_simps run_event_def total_of_def outstanding_def demo_reservation_def new_reservation_def ev_reserved_def
        decode_row_of_event event_wf_def)
  have s: "settle_budget demo_env 401 (uid CHR ''6'') ''b'' 4 ''p'' (Some (demo_context 5)) s_reserved =
      (Inr ((settle_row 4 401 demo_reservation, Some (decode demo_env ev_settled)), Some (demo_context 6)), s_settled)"
    by (simp add: s_settled_def settle_budget_def settle_budget_body_def s_reserved_eq s_leased_eq s_run_eq exec_simps
      row_defs fence_simps run_event_def total_of_def demo_reservation_def new_reservation_def ev_reserved_def
      ev_settled_def settle_row_def decode_row_of_event event_wf_def)
  have f: "require_execution_context 402 ''r'' (Some (demo_context 5)) s_reserved = Inr (leased_run 5)"
    "require_execution_context 403 ''r'' (Some (demo_context 6)) s_settled =
       Inr ((leased_run 6)\<lparr>r_budget_consumed := [(''tokens'', 4)]\<rparr>)"
    by (simp_all add: s_settled_eq s_reserved_eq fence_simps exec_simps row_defs)
  show ?thesis
    using budget_commands_are_idempotent [OF r f(1) s, of 403 "Some (demo_context 6)"] f(2)
    by (simp add: settle_row_def demo_reservation_def new_reservation_def)
qed

text \<open>
  Side effects can be retried: after a successful dispatch under a chosen
  attempt id, dispatching the same action again under that id, and after a recorded
  result, recording the same outcome again, gives back the recorded attempt and changes
  nothing, whoever asks and whenever.
\<close>

lemma attempts_are_idempotent:
  assumes "dispatch_tool_call env now eid fid tc plan idn pid (Some (x # xs)) ctx d = (Inr (rec, ctx'), d')"
    and "finish_tool_attempt env now3 eid3 atid oc pid3 rcpt out mt er rt ctx3 d3 = (Inr (rec3, ctx3'), d4)"
  shows "dispatch_tool_call env now2 eid2 fid2 tc plan idn pid2 (Some (x # xs)) ctx2 d' =
      (Inr (rec\<lparr>ta_event := None\<rparr>, ctx2), d') \<and>
    finish_tool_attempt env now4 eid4 atid oc pid4 rcpt out mt er rt ctx4 d4 =
      (Inr (rec3\<lparr>ta_event := None\<rparr>, ctx4), d4)"
proof
  have ev: "(tool_attempt_from_row ev row)\<lparr>ta_event := None\<rparr> = tool_attempt_from_row None row" for ev row
    by (simp add: tool_attempt_from_row_def)
  show "dispatch_tool_call env now2 eid2 fid2 tc plan idn pid2 (Some (x # xs)) ctx2 d' =
      (Inr (rec\<lparr>ta_event := None\<rparr>, ctx2), d')"
    using dispatch_retry.retry [of ctx env tc plan idn x xs "(now, eid, fid, pid)"] assms(1) ev
    unfolding dispatch_tool_call_def by fastforce
  show "finish_tool_attempt env now4 eid4 atid oc pid4 rcpt out mt er rt ctx4 d4 =
      (Inr (rec3\<lparr>ta_event := None\<rparr>, ctx4), d4)"
    using finish_retry.retry [of ctx3 env atid oc rcpt out mt er rt "(now3, eid3, pid3)"] assms(2) ev
    unfolding finish_tool_attempt_def by fastforce
qed

lemma attempts_are_idempotent_instance:
  "\<exists>rec d'. dispatch_tool_call demo_env 305 (uid CHR ''c'') ''f'' (uid CHR ''8'') [] [] ''p'' (Some ''attempt'')
       (Some (demo_context 9)) s_approved = (Inr (rec, Some (demo_context 10)), d') \<and>
     dispatch_tool_call demo_env 999 (uid CHR ''1'') ''g'' (uid CHR ''8'') [] [] ''q'' (Some ''attempt'') None d' =
       (Inr (rec\<lparr>ta_event := None\<rparr>, None), d')"
proof -
  have r: "dispatch_tool_call demo_env 305 (uid CHR ''c'') ''f'' (uid CHR ''8'') [] [] ''p'' (Some ''attempt'')
       (Some (demo_context 9)) s_approved =
       (Inr (tool_attempt_from_row (Some (decode demo_env ev10)) demo_attempt, Some (demo_context 10)), s_dispatched)"
    by (simp add: dispatch_tool_call_def dispatch_tool_call_body_def chosen_attempt_id_def s_dispatched_eq
      next_attempt_no_def s_approved_eq s_requested_eq s_proposed_eq state_eqs exec_simps tool_row_defs fence_simps
      run_event_def decide_row_def tool_attempt_from_row_def decode_row_of_event event_wf_def del: canonical_json.simps)
  have "\<exists>rec c d'. finish_tool_attempt demo_env 306 (uid CHR ''a'') ''attempt'' ''failed'' ''p'' None None ''text'' None
      False (Some (demo_context 10)) s_dispatched = (Inr (rec, c), d')"
    by (simp add: finish_tool_attempt_def finish_tool_attempt_body_def outcome_state_def result_payload_def
      error_field_def s_dispatched_eq s_approved_eq s_requested_eq s_proposed_eq state_eqs exec_simps tool_row_defs fence_simps
      run_event_def decide_row_def finish_attempt_row_def del: canonical_json.simps)
  then obtain rec c d' where "finish_tool_attempt demo_env 306 (uid CHR ''a'') ''attempt'' ''failed'' ''p'' None None
      ''text'' None False (Some (demo_context 10)) s_dispatched = (Inr (rec, c), d')" by blast
  from attempts_are_idempotent [OF r this, THEN conjunct1] r show ?thesis by blast
qed

text \<open>
  A control command is applied once: repeating a cancellation request with
  the same command id gives the answer of the first request, the committed event
  included, and changes nothing.
\<close>

lemma cancellation_is_idempotent:
  assumes "is_uuid eid" "request_cancellation env now eid k ac re pid (Some cc) d = (Inr ev, d')"
  shows "request_cancellation env now2 eid2 k ac re pid2 (Some cc) d' = (Inr ev, d')"
proof -
  have "request_cancellation_body env now2 eid2 k ac re pid2 (Some cc) d' = Inr (ev, d')"
    by (rule wp_transact [OF cancellation_replay [OF assms(1)] assms(2) [unfolded request_cancellation_def]])
  then show ?thesis by (simp add: request_cancellation_def transact_def)
qed

lemma cancellation_is_idempotent_instance:
  "\<exists>ev d'. request_cancellation demo_env 600 (uid CHR ''5'') ''r'' ''u'' ''stop'' ''p''
       (Some \<lparr>cc_command_id = ''c1'', cc_actor = ''u'', cc_expected_stream_version = 4\<rparr>) s_leased = (Inr (Some ev), d') \<and>
     request_cancellation demo_env 700 (uid CHR ''6'') ''r'' ''u'' ''stop'' ''q''
       (Some \<lparr>cc_command_id = ''c1'', cc_actor = ''u'', cc_expected_stream_version = 4\<rparr>) d' = (Inr (Some ev), d')"
proof -
  have "\<exists>ev d'. request_cancellation demo_env 600 (uid CHR ''5'') ''r'' ''u'' ''stop'' ''p''
       (Some \<lparr>cc_command_id = ''c1'', cc_actor = ''u'', cc_expected_stream_version = 4\<rparr>) s_leased = (Inr (Some ev), d')"
    by (simp add: request_cancellation_def request_cancellation_body_def begin_if_control_def begin_control_command_def
        record_if_control_def record_control_command_def state_eqs exec_simps row_defs run_event_def empty_db_def
        del: canonical_json.simps)
  then show ?thesis using cancellation_is_idempotent [of "uid CHR ''5''"] by fastforce
qed

section \<open>Blobs, model calls, workspaces and checkpoints\<close>

text \<open>
  What is put into the blob store is read back: after a successful put, the
  digest of the content gives the stored blob with exactly that content, and putting the
  content again stores nothing and returns the same blob.
\<close>

lemma blob_roundtrip:
  assumes "put_blob env now content mt d = (Inr b, d')"
  shows "get_blob env d' (sha256 env content) = Inr b \<and> o_content b = content \<and>
    (\<not> blank (o_media_type b) \<longrightarrow> put_blob env now2 content (o_media_type b) d' = (Inr b, d'))"
proof -
  have "blob_stored env content d b d'"
    using assms by (intro put_blob_stored) (simp add: put_blob_def transact_Inr)
  then show ?thesis
    by (auto simp: blob_stored_def get_blob_def put_blob_def transact_def put_blob_in_transaction_def bindT_apply)
qed

lemma blob_roundtrip_instance:
  "\<exists>b d'. put_blob demo_env 1 ''abc'' ''text'' empty_db = (Inr b, d') \<and>
     get_blob demo_env d' (sha256 demo_env ''abc'') = Inr b \<and> o_content b = ''abc''"
proof -
  have "\<exists>b d'. put_blob demo_env 1 ''abc'' ''text'' empty_db = (Inr b, d')"
    by (simp add: put_blob_def put_blob_in_transaction_def exec_simps empty_db_def total_blob_bytes_def)
  then show ?thesis using blob_roundtrip by fastforce
qed

text \<open>
  C13 (bounds). The blob table of a reachable store respects both quotas, holds every digest
  once, and every blob in it passes the check made on reading.
\<close>

theorem blobs_within_quota:
  assumes "reachable env d"
  shows "sum_list (map (\<lambda>b. int (length (o_content b))) (blobs d)) \<le> max_total_bytes env \<and>
    (\<forall>b \<in> set (blobs d). int (length (o_content b)) \<le> max_blob_bytes env \<and>
       get_blob env d (o_sha256 b) = Inr b)"
proof -
  have ok: "blobs_ok env d" using assms by (rule reachable_parts)
  then have v: "verify_blob env b = Inr () \<and> o_byte_length b \<le> max_blob_bytes env" if "b \<in> set (blobs d)" for b
    using that by (auto simp: blobs_ok_def list_all_iff)
  then have len: "int (length (o_content b)) = o_byte_length b" if "b \<in> set (blobs d)" for b
    using that by (fastforce simp: verify_blob_def split: if_splits)
  have "get_blob_row d (o_sha256 b) = Some b" if "b \<in> set (blobs d)" for b
    using that ok unfolding get_blob_row_def by (intro row_get_member) (auto simp: blobs_ok_def)
  moreover have "sum_list (map (\<lambda>b. int (length (o_content b))) (blobs d)) = total_blob_bytes d"
    unfolding total_blob_bytes_def by (intro arg_cong [where f = sum_list] map_cong refl len)
  moreover have "total_blob_bytes d \<le> max_total_bytes env" using ok by (simp add: blobs_ok_def)
  ultimately show ?thesis using v len by (simp add: get_blob_def)
qed

theorem blobs_within_quota_witness: "get_blob demo_env s_run ''d'' = Inr demo_blob"
  using blobs_within_quota [OF reachable_s_run] by (simp add: s_run_eq demo_blob_def)

text \<open>
  C14 (invariant). In a reachable store a run has at most one model call that is started or
  awaits consumption, no two calls for the same step, and a call that is not merely
  started carries its response; a consumed call carries the event that consumed it.
\<close>

theorem one_active_model_call:
  assumes "reachable env d"
  shows "length (filter (\<lambda>m. mc_run_id m = k \<and> model_call_active m) (model_calls d)) \<le> 1 \<and>
    (\<forall>m \<in> set (model_calls d). \<forall>m' \<in> set (model_calls d).
       mc_run_id m = mc_run_id m' \<and> mc_step m = mc_step m' \<longrightarrow> m = m') \<and>
    (\<forall>m \<in> set (model_calls d). mc_status m \<noteq> MS_started \<longrightarrow>
       mc_response_event_id m \<noteq> None \<and> mc_response_blob_sha256 m \<noteq> None) \<and>
    (\<forall>m \<in> set (model_calls d). mc_status m = MS_consumed \<longleftrightarrow> mc_consumed_event_id m \<noteq> None)"
proof -
  have ok: "model_calls_ok d" using assms by (rule reachable_parts)
  have "inj_on (\<lambda>r. (mc_run_id r, mc_step r)) (set (model_calls d))"
    using ok by (simp add: model_calls_ok_def distinct_map)
  then have "\<forall>m \<in> set (model_calls d). \<forall>m' \<in> set (model_calls d).
       mc_run_id m = mc_run_id m' \<and> mc_step m = mc_step m' \<longrightarrow> m = m'" by (auto dest: inj_onD)
  moreover have "\<forall>m \<in> set (model_calls d). call_complete m" using ok by (simp add: model_calls_ok_def list_all_iff)
  moreover have "length (active_calls k (model_calls d)) \<le> 1" using ok by (simp add: model_calls_ok_def)
  ultimately show ?thesis unfolding call_complete_def active_calls_def by blast
qed

theorem one_active_model_call_witness:
  "length (filter (\<lambda>m. mc_run_id m = ''r'' \<and> model_call_active m) (model_calls s_responded)) \<le> 1"
  using one_active_model_call [OF reachable_s_responded] by blast

text \<open>
  The disposition of a workspace only moves along the allowed transitions:
  the command succeeds only from the expected disposition, to one of its successors, and
  then the run's column is the target; otherwise it raises and nothing changes.
\<close>

lemma disposition_follows_transitions:
  assumes "set_workspace_disposition env now eid k ex ta re pid d = (res, d')"
  shows "case res of
      Inl e \<Rightarrow> d' = d
    | Inr _ \<Rightarrow> ta \<in> set (allowed_dispositions ex) \<and> (\<exists>row row'. get_run d k = Some row \<and>
        r_workspace_disposition row = ex \<and> get_run d' k = Some row' \<and> r_workspace_disposition row' = ta)"
proof -
  have "wp (set_workspace_disposition_body env now eid k ex ta re pid) (\<lambda>x d'. snd x = None \<and>
      ta \<in> set (allowed_dispositions ex) \<and> (\<exists>row row'. get_run d k = Some row \<and>
        r_workspace_disposition row = ex \<and> get_run d' k = Some row' \<and> r_workspace_disposition row' = ta)) d"
    unfolding set_workspace_disposition_body_def wp_simps require_run_row_Inr
    by (auto intro!: wp_append dest!: appended_tables simp: run_store.lookup_update) (auto simp: get_run_def)
  then show ?thesis
    using assms unfolding set_workspace_disposition_def run_command_def transact_def wp_def
    by (auto split: sum.splits prod.splits option.splits)
qed

lemma disposition_follows_transitions_instance:
  "\<not> (\<exists>x d'. set_workspace_disposition demo_env 300 (uid CHR ''5'') ''r'' WD_NONE WD_CLEANED ''x'' ''p'' s_leased = (Inr x, d'))"
proof
  assume "\<exists>x d'. set_workspace_disposition demo_env 300 (uid CHR ''5'') ''r'' WD_NONE WD_CLEANED ''x'' ''p'' s_leased = (Inr x, d')"
  then obtain x d' where "set_workspace_disposition demo_env 300 (uid CHR ''5'') ''r'' WD_NONE WD_CLEANED ''x'' ''p'' s_leased = (Inr x, d')"
    by blast
  from disposition_follows_transitions [OF this] show False by simp
qed

text \<open>
  A committed checkpoint is the state of the run: the new row passes the
  check made on recovery and decodes to the columns the run had when it was taken.
\<close>

lemma checkpoint_holds_state:
  assumes "reachable env d" "commit_run_checkpoint env now eid k cid pid ctx d = (Inr (rec, ctx'), d')"
  shows "\<exists>row ck. get_run d k = Some row \<and> checkpoints d' = checkpoints d @ [ck] \<and>
    k_checkpoint_id ck = cid \<and> k_through_seq ck = r_last_event_seq row \<and>
    projection_from_checkpoint_row env ck row = Inr (proj_of_row row)"
  using run_command_Inr [OF assms(2) [unfolded commit_run_checkpoint_def]
      commit_run_checkpoint_row [OF reachable_parts(3-5) [OF assms(1)]]] by simp

lemma checkpoint_holds_state_instance:
  "\<exists>ck. checkpoints (snd (commit_run_checkpoint demo_env 300 (uid CHR ''5'') ''r'' ''k1'' ''p'' (Some (demo_context 4)) s_leased)) = [ck] \<and>
     projection_from_checkpoint_row demo_env ck (leased_run 4) = Inr (proj_of_row (leased_run 4))"
proof -
  have row: "get_run s_leased ''r'' = Some (leased_run 4)" "checkpoints s_leased = []"
    by (simp_all add: s_leased_eq s_run_eq empty_db_def get_run_def tbl_simps leased_run_def demo_run_def)
  obtain rec c d' where ok: "commit_run_checkpoint demo_env 300 (uid CHR ''5'') ''r'' ''k1'' ''p'' (Some (demo_context 4)) s_leased =
      (Inr (rec, c), d')"
    by (simp add: commit_run_checkpoint_def commit_run_checkpoint_body_def recover_run_projection_in_transaction_def
      load_run_events_in_transaction_def event_from_row_of_event event_wf_def reduce_run_events_def reduce_start_def
      reduce_step_def opt_ge_def s_leased_eq s_run_eq empty_db_def exec_simps row_defs fence_simps run_event_def checkpoint_of_def)
  from checkpoint_holds_state [OF reachable_s_leased ok] row show ?thesis by (auto simp: ok)
qed

section \<open>The log and its codecs\<close>

text \<open>
  C15 (refinement). The ledger refines a family of append-only lists: loading a session of a
  reachable store returns its list, and a successful append, of whatever event, adds
  the returned event at the end of the list of its session and leaves every other
  session alone; its sequence number is its position.
\<close>

theorem append_refines_log:
  assumes "reachable env d" "is_uuid eid" "append_event env now eid q ctx d = (Inr (e, ctx'), d')"
  shows "load_events env d sid 0 = Inr (session_log env d sid) \<and>
    load_events env d' sid 0 = Inr (log_append e (session_log env d) sid) \<and>
    e_session_id e = q_session_id q \<and>
    e_seq e = int (length (session_log env d (q_session_id q))) + 1"
proof -
  have ok: "ledger_ok env d" using assms(1) by (rule reachable_parts)
  show ?thesis
    using run_command_Inr [OF assms(3) [unfolded append_event_def] append_event_body_log [OF assms(2) ok]]
      load_events_log [OF ok] load_events_log [of env d'] by auto
qed

theorem append_refines_log_witness:
  "\<exists>e c d'. append_event demo_env 300 (uid CHR ''5'')
      (run_request None (ModelCallStartedPayload call_id ''m'' 1 (Some 0))) (Some (demo_context 4)) s_leased =
        (Inr (e, c), d') \<and>
     load_events demo_env d' ''s'' 0 = Inr (session_log demo_env s_leased ''s'' @ [e])"
proof -
  obtain e c d' where ok: "append_event demo_env 300 (uid CHR ''5'')
      (run_request None (ModelCallStartedPayload call_id ''m'' 1 (Some 0))) (Some (demo_context 4)) s_leased =
        (Inr (e, c), d')"
    by (simp add: append_event_def append_event_body_def s_leased_eq s_run_eq exec_simps row_defs empty_db_def
      fence_simps project_model_call_started_def event_run_id_def resolve_model_step_def run_has_active_call_def
      model_call_prefix_def int_text_zero call_id_def new_model_call_def model_call_active_def opt_ge_def)
  from append_refines_log [OF reachable_s_leased _ ok, of "''s''"] ok show ?thesis
    by (auto simp: run_request_def log_append_def)
qed

text \<open>
  C16 (roundtrip). An event survives storage: the row written for a well-formed event decodes to
  that event, whatever its payload class, and a row whose payload document no longer has
  the recorded digest is refused as a ledger integrity error.
\<close>

theorem stored_events_decode:
  assumes "event_wf e"
  shows "event_from_row env (row_of_event env e) = Inr e \<and>
    payload_validate (payload_dump (e_payload e)) = Inr (e_payload e) \<and>
    (\<forall>j. sha256_json env j \<noteq> sha256_json env (payload_dump (e_payload e)) \<longrightarrow>
       event_from_row env ((row_of_event env e)\<lparr>v_payload_json := j\<rparr>) = Inl LedgerIntegrityError)"
proof (intro conjI allI impI)
  show "event_from_row env (row_of_event env e) = Inr e" using assms by (rule event_from_row_of_event)
  show "payload_validate (payload_dump (e_payload e)) = Inr (e_payload e)"
    using assms by (intro payload_roundtrip) (simp add: event_wf_def)
qed (simp add: event_from_row_def row_of_event_def)

theorem stored_events_decode_witness:
  "event_from_row demo_env ev3 = Inr (decode demo_env ev3) \<and> e_seq (decode demo_env ev3) = 3"
proof -
  have "event_wf \<lparr>e_event_id = uid CHR ''3'', e_schema_version = 1, e_session_id = ''s'', e_turn_id = Some ''t'',
      e_run_id = Some ''r'', e_seq = 3, e_occurred_at = 101, e_process_instance_id = ''p'', e_boot_id = None,
      e_causation_event_id = Some (uid CHR ''2''), e_correlation_id = Some ''r'',
      e_payload = RunCreatedPayload ''/repo'' ''abc'' [(''tokens'', 10)]\<rparr>"
    by (simp add: event_wf_def parse_opt_uuid_def envelope_check_def)
  from stored_events_decode [OF this, of demo_env] show ?thesis
    by (simp add: ev3_def demo_event_def decode_def)
qed

text \<open>
  C17 (equivalence). Replay is incremental: stopping at any point of a stream and resuming from the
  projection reached there, which may have gone through a checkpoint document in between,
  gives what one pass over the whole stream gives, success or error.
\<close>

theorem replay_is_incremental:
  assumes "reduce_run_events xs i = Inr p"
    and "snapshot_validate (snapshot_dump (from_projection p)) = Inr s"
  shows "reduce_run_events (xs @ ys) i = reduce_run_events ys (Some (to_projection s))"
proof -
  have "to_projection s = p" using assms(2) by (metis snapshot_roundtrip sum.inject(2) to_from_projection)
  then show ?thesis using reduce_append [OF assms(1)] by simp
qed

theorem replay_is_incremental_witness:
  "reduce_run_events ([decode demo_env ev3] @ [decode demo_env ev4]) None =
     reduce_run_events [decode demo_env ev4] (Some ((proj_of_row demo_run)\<lparr>p_phase := None, p_last_event_seq := 3\<rparr>))"
proof -
  have "reduce_run_events [decode demo_env ev3] None = Inr ((proj_of_row demo_run)\<lparr>p_phase := None, p_last_event_seq := 3\<rparr>)"
    by (simp add: ev3_def demo_event_def decode_row_of_event event_wf_def parse_opt_uuid_def envelope_check_def
        reduce_run_events_def reduce_start_def reduce_step_def proj_of_row_def demo_run_def)
  from replay_is_incremental [OF this snapshot_roundtrip] show ?thesis by simp
qed

text \<open>
  C18 (type). An execution context that was constructed is valid, and stays so: advancing or
  renewing it keeps the run, the worker, the lease epoch, a zone-aware expiry and a
  version that never goes back.
\<close>

theorem contexts_stay_valid:
  assumes "execution_context_new r w ep x v = Inr c" "observe c v2 = Inr c2" "renew c2 x3 ep3 = Inr c3"
  shows "context_valid c \<and> context_valid c2 \<and> context_valid c3 \<and>
    ctx_run_id c3 = r \<and> ctx_worker_id c3 = w \<and> ctx_lease_epoch c3 = ep \<and>
    ctx_stream_version c \<le> ctx_stream_version c3 \<and> ep3 = ep"
proof -
  have "context_valid c" using assms(1) by (rule execution_context_new_valid)
  moreover have "context_valid c2" using calculation assms(2) by (rule observe_valid)
  moreover have "context_valid c3" using calculation(2) assms(3) by (rule renew_valid)
  ultimately show ?thesis
    using assms by (auto simp: execution_context_new_def observe_def renew_def split: if_splits)
qed

theorem contexts_stay_valid_witness:
  "context_valid ((demo_context 5)\<lparr>ctx_lease_expires_at := Aware 70000000\<rparr>)"
  using contexts_stay_valid [of "''r''" "''w''" 1 "Aware 60000200" 4 "demo_context 4" 5 "demo_context 5" "Aware 70000000" 1
      "(demo_context 5)\<lparr>ctx_lease_expires_at := Aware 70000000\<rparr>"]
  by (simp add: execution_context_new_def observe_def renew_def demo_context_def)

section \<open>Tool identities\<close>

text \<open>
  A version 7 UUID is a 128-bit number with the time stamp in its top 48 bits,
  version 7, variant 2 and the random fields in place, so identifiers of a later
  millisecond are greater than those of an earlier one, whatever the random bits.
\<close>

lemma uuid7_is_time_ordered:
  assumes "new_uuid7 t a b = Inr v" "0 \<le> a" "a < 2 ^ 12" "0 \<le> b" "b < 2 ^ 62"
    and "new_uuid7 t' a' b' = Inr v'" "0 \<le> a'" "a' < 2 ^ 12" "0 \<le> b'" "b' < 2 ^ 62"
  shows "0 \<le> v \<and> v < 2 ^ 128 \<and> v div 2 ^ 80 = t \<and> v div 2 ^ 76 mod 16 = 7 \<and> v div 2 ^ 62 mod 4 = 2 \<and>
    v div 2 ^ 64 mod 2 ^ 12 = a \<and> v mod 2 ^ 62 = b \<and> (t < t' \<longrightarrow> v < v')"
proof (intro conjI impI)
  show "v < v'" if "t < t'"
  proof (rule ccontr)
    assume "\<not> v < v'"
    then have "v' div 2 ^ 80 \<le> v div 2 ^ 80" by (intro zdiv_mono1) simp_all
    then show False unfolding uuid7_fields(1) [OF assms(1-5)] uuid7_fields(1) [OF assms(6-10)] using that by simp
  qed
qed (rule uuid7_fields [OF assms(1-5)])+

lemma uuid7_is_time_ordered_instance:
  "uuid7_value 1000 4095 7 < uuid7_value 1001 0 0"
  using uuid7_is_time_ordered [of 1000 4095 7 "uuid7_value 1000 4095 7" 1001 0 0 "uuid7_value 1001 0 0"]
  by (simp add: new_uuid7_def)

text \<open>
  A normalised target path stays inside the workspace, lexically: it is a
  non-empty list of parts joined by slashes, no part is empty, \<open>.\<close> or \<open>..\<close>, it does not
  start with a slash and contains neither backslash nor NUL.
\<close>

lemma target_paths_stay_inside:
  assumes "normalize_target_path env raw = Inr q"
  shows "\<exists>ps. q = join_with (CHR ''/'') ps \<and> ps = split_on (CHR ''/'') q \<and> ps \<noteq> [] \<and>
    (\<forall>p \<in> set ps. p \<noteq> [] \<and> p \<noteq> ''.'' \<and> p \<noteq> ''..'' \<and> backslash \<notin> set p \<and> char_of (0 :: nat) \<notin> set p) \<and>
    hd q \<noteq> CHR ''/''"
proof -
  obtain ps where ps: "q = join_with (CHR ''/'') ps" "ps \<noteq> []" "list_all plain_part ps"
    "\<forall>p \<in> set ps. CHR ''/'' \<notin> set p \<and> backslash \<notin> set p \<and> char_of (0 :: nat) \<notin> set p"
    using assms by (rule normalize_target_path_parts)
  then obtain p ps' where p: "ps = p # ps'" "p \<noteq> []" by (cases ps) (auto simp: plain_part_def)
  have "hd q = hd p" using p ps(1) by (simp add: hd_join_with)
  moreover have "hd p \<noteq> CHR ''/''" using ps(4) p hd_in_set [of p] by (metis list.set_intros(1))
  moreover have "split_on (CHR ''/'') q = ps" unfolding ps(1) using ps(2,4) by (intro split_on_join) auto
  ultimately show ?thesis
    using ps by (intro exI [of _ ps]) (auto simp: list_all_iff plain_part_def)
qed

lemma target_paths_stay_inside_instance: "hd ''a.txt'' \<noteq> CHR ''/''"
  using target_paths_stay_inside [OF normalize_demo_path] by blast

text \<open>
  The canonical text and digest of tool arguments do not depend on the order in
  which a dict was built: a permutation of the items gives the same canonical JSON and
  the same digest, or is refused as well.
\<close>

lemma canonical_args_ignore_order:
  assumes "mset xs = mset ys"
  shows "map_sum id (\<lambda>ca. (ca_json ca, ca_sha256 ca)) (canonicalize_tool_args env (PyDict xs)) =
      map_sum id (\<lambda>ca. (ca_json ca, ca_sha256 ca)) (canonicalize_tool_args env (PyDict ys)) \<or>
    (\<exists>e e'. canonicalize_tool_args env (PyDict xs) = Inl e \<and> canonicalize_tool_args env (PyDict ys) = Inl e')"
  using canonicalize_order [OF assms] canonicalize_order [OF assms [symmetric]]
  by (cases "canonicalize_tool_args env (PyDict xs)"; cases "canonicalize_tool_args env (PyDict ys)") fastforce+

lemma canonical_args_ignore_order_instance:
  "map_sum id ca_json (canonicalize_tool_args demo_env (PyDict [(PyStr ''b'', PyInt 1), (PyStr ''a'', PyNone)])) =
   map_sum id ca_json (canonicalize_tool_args demo_env (PyDict [(PyStr ''a'', PyNone), (PyStr ''b'', PyInt 1)]))"
  using canonical_args_ignore_order [of "[(PyStr ''b'', PyInt 1), (PyStr ''a'', PyNone)]"
      "[(PyStr ''a'', PyNone), (PyStr ''b'', PyInt 1)]" demo_env]
  by (simp add: canonicalize_tool_args_def del: canonical_json.simps)

section \<open>Workspace files\<close>

text \<open>
  C19 (safety). File tools cannot leave the workspace: a path the guard accepts resolves, on the
  file system it was checked against, to the workspace root followed by plain
  components, at most as many as the depth limit; no component on the way is a symbolic
  link; it is not in Git's directory nor in the harness state; and a write target that
  exists as a file has no second hard link.
\<close>

theorem guard_confines:
  assumes "path_guard_new fs0 ws_root state_root depth = Inr g"
    and "canonical fs (wg_workspace_root g)"
    and "guard_resolve fs g for_write untrusted = Inr gp"
  shows "\<exists>parts. gp_absolute gp = wg_workspace_root g @ parts \<and> gp_relative gp = join_with (CHR ''/'') parts \<and>
    parts \<noteq> [] \<and> int (length parts) \<le> depth \<and> map ascii_lower (hd parts) \<noteq> ''.git'' \<and>
    (\<forall>p \<in> set parts. p \<noteq> [] \<and> p \<noteq> ''.'' \<and> p \<noteq> ''..'' \<and> CHR ''/'' \<notin> set p \<and> CHR '':'' \<notin> set p) \<and>
    (\<forall>q. prefix q (gp_absolute gp) \<and> q \<noteq> [] \<longrightarrow> \<not> link_at fs q) \<and>
    (\<forall>s. wg_harness_state_root g = Some s \<longrightarrow> \<not> prefix s (gp_absolute gp)) \<and>
    (for_write \<longrightarrow> (\<forall>m c. fs (gp_absolute gp) = Some (FileNode m c) \<longrightarrow> nd_nlink m \<le> 1))"
proof -
  obtain parts where p: "lexical_parts g untrusted = Inr parts"
    "check_components fs for_write (wg_workspace_root g) parts = Inr ()"
    "gp = \<lparr>gp_relative = join_with (CHR ''/'') parts, gp_absolute = wg_workspace_root g @ parts,
       gp_exists = (fs (wg_workspace_root g @ parts) \<noteq> None)\<rparr>"
    "canonical fs (wg_workspace_root g @ parts)"
    "\<forall>s. wg_harness_state_root g = Some s \<longrightarrow> \<not> prefix s (wg_workspace_root g @ parts)"
    using assms(3,2) by (rule guard_resolve_Inr)
  note L = lexical_parts_Inr [OF p(1)]
  have "wg_max_depth g = depth"
    using assms(1) by (auto simp: path_guard_new_def split: option.splits if_splits)
  then show ?thesis
    using p L check_components_links [of fs "wg_workspace_root g" parts]
    by (intro exI [of _ parts]) (auto simp: plain_part_def canonical_def)
qed

definition demo_dir :: "int \<Rightarrow> fs_node" where
  "demo_dir i = DirNode \<lparr>nd_device = 1, nd_inode = i, nd_mode = 493, nd_nlink = 2\<rparr> 4096"

definition demo_file :: "string \<Rightarrow> fs_node" where
  "demo_file c = FileNode \<lparr>nd_device = 1, nd_inode = 3, nd_mode = 420, nd_nlink = 1\<rparr> c"

definition demo_fs :: fs_map where
  "demo_fs = [[''w''] \<mapsto> demo_dir 2, [''w'', ''a''] \<mapsto> demo_file ''old'']"

definition demo_tools :: file_tools where
  "demo_tools = \<lparr>ft_guard = \<lparr>wg_workspace_root = [''w''], wg_harness_state_root = None, wg_max_depth = 32\<rparr>,
     ft_max_file_bytes = 100\<rparr>"

lemma demo_nodes:
  "demo_fs [''w''] = Some (demo_dir 2)" "demo_fs [''w'', ''a''] = Some (demo_file ''old'')"
  "ft_max_file_bytes demo_tools = 100"
  by (simp_all add: demo_fs_def demo_tools_def)

lemma demo_guard:
  "path_guard_new demo_fs [''w''] None 32 = Inr (ft_guard demo_tools)"
  "guard_resolve demo_fs (ft_guard demo_tools) w ''a'' =
     Inr \<lparr>gp_relative = ''a'', gp_absolute = [''w'', ''a''], gp_exists = True\<rparr>"
  "canonical demo_fs [''w'']"
proof -
  have f: "real_path demo_fs p = Some p" if "p \<in> {[], [''w''], [''w'', ''a'']}" for p
    using that by (auto simp: real_path_def MAXSYMLINKS_def demo_fs_def demo_dir_def demo_file_def)
  show "path_guard_new demo_fs [''w''] None 32 = Inr (ft_guard demo_tools)"
    by (simp add: path_guard_new_def f demo_tools_def) (simp add: demo_fs_def)
  have "lexical_parts (ft_guard demo_tools) ''a'' = Inr [''a'']" by code_simp
  then show "guard_resolve demo_fs (ft_guard demo_tools) w ''a'' =
     Inr \<lparr>gp_relative = ''a'', gp_absolute = [''w'', ''a''], gp_exists = True\<rparr>"
    by (simp add: guard_resolve_def demo_tools_def f path_exists_def stat_node_def lstat_node_def is_within_def
        Let_def demo_nodes demo_file_def)
  show "canonical demo_fs [''w'']" using f [of "[''w'']"] by (auto intro: real_path_canonical(1))
qed

theorem guard_confines_witness: "\<not> link_at demo_fs [''w'', ''a'']"
  using guard_confines [OF demo_guard(1) _ demo_guard(2), of True] demo_guard(3) by (simp add: demo_tools_def)



section \<open>The prompt\<close>

text \<open>
  C21 (equivalence). The prompt cache is transparent: a working set built earlier, whatever
  commands ran since and whatever window it was built for, changes nothing when it is
  offered as the cached candidate: the entries are those read from the durable events and
  blobs, and the user message is the candidate's. The entries are at most the transcript
  limit, in increasing order of their sequence numbers.
\<close>

theorem prompt_cache_is_transparent:
  assumes "reachable env d0" "(store_step env)\<^sup>*\<^sup>* d0 d"
    and "build_authoritative_prompt_working_set env d0 k exp0 None el0 trl0 cont0 = Inr w0"
    and "build_authoritative_prompt_working_set env d k expected None el trl cont = Inr w"
  shows "build_authoritative_prompt_working_set env d k expected (Some w0) el trl cont = Inr (w\<lparr>pw_user_message := pw_user_message w0\<rparr>) \<and>
    int (length (pw_entries w)) \<le> trl \<and> sorted_wrt (<) (map pe_seq (pw_entries w))"
proof (intro conjI)
  have "evolves d0 d"
    using machine.steps_inv_follows [OF assms(2) reachable_inv [OF assms(1)]] by blast
  then have "prefix (events d0) (events d)" "prefix (blobs d0) (blobs d)" by (simp_all add: evolves_def)
  then have t: "truthful env d (all_events env d) w0" by (rule built_truthful [OF assms(3)])
  have k: "pw_run_id w0 = k" using assms(3) by (rule build_Inr)
  have L: "ledger_ok env d" using reachable_parts(3) [OF reachable_steps [OF assms(2,1)]] .
  show "build_authoritative_prompt_working_set env d k expected (Some w0) el trl cont = Inr (w\<lparr>pw_user_message := pw_user_message w0\<rparr>)"
    by (rule build_with_cache [OF t k L assms(4)])
  show "int (length (pw_entries w)) \<le> trl" "sorted_wrt (<) (map pe_seq (pw_entries w))"
    using build_bounds [OF assms(4)] by auto
qed

definition demo_entry :: prompt_entry where
  "demo_entry = \<lparr>pe_event_id = uid CHR ''b'', pe_seq = 9, pe_event_type = EV_APPROVAL_DECIDED,
     pe_role = PR_approval, pe_text = approval_decision_value AD_ALLOW_ONCE, pe_source_blob_sha256 = None\<rparr>"

definition demo_prompt :: prompt_working_set where
  "demo_prompt = \<lparr>pw_run_id = ''r'', pw_user_message = ''do it'', pw_entries = [demo_entry]\<rparr>"

lemmas prompt_simps = build_authoritative_prompt_working_set_def validate_limits_def PROMPT_TRANSCRIPT_ENTRY_LIMIT_def
  load_recent_run_events_def validate_event_window_def candidate_entries_def reuse_or_hydrate_entry_def
  hydrate_entry_def hydrate_text_def prompt_entry_new_def prompt_working_set_new_def last_n_def
  get_run_user_message_def get_blob_def get_blob_row_def verify_blob_def demo_entry_def demo_prompt_def

lemma nul_char: "char_of (0 :: nat) \<noteq> CHR ''r''"
  by code_simp

lemma demo_prompt_built:
  "build_authoritative_prompt_working_set demo_env s_approved ''r'' (Some 9) None 1 1 True = Inr demo_prompt"
  "build_authoritative_prompt_working_set demo_env s_dispatched ''r'' (Some 10) None 2 2 True = Inr demo_prompt"
  by (simp_all add: prompt_simps s_dispatched_eq s_approved_eq s_requested_eq s_proposed_eq state_eqs exec_simps
      tool_row_defs event_from_row_of_event event_wf_def numeral_2_eq_2 nul_char del: canonical_json.simps)

theorem prompt_cache_is_transparent_witness:
  "build_authoritative_prompt_working_set demo_env s_dispatched ''r'' (Some 10) (Some demo_prompt) 2 2 True = Inr demo_prompt"
proof -
  have "(store_step demo_env)\<^sup>*\<^sup>* s_approved s_dispatched"
    unfolding s_dispatched_def
    by (rule r_into_rtranclp) (rule step_dispatch [OF _ prod.collapse [symmetric]], simp)
  from prompt_cache_is_transparent [OF reachable_s_approved this demo_prompt_built] show ?thesis by simp
qed

section \<open>The agent loop\<close>

text \<open>
  C22 (refinement). The agent loop is a client of the store: whatever the model answers, whatever
  other workers do in between, and whether the loop returns or raises, what one call of
  \<^verbatim>\<open>run\<close> does to the database is a sequence of steps of the store machine, so that every
  invariant of reachable stores holds afterwards.
\<close>

theorem agent_is_a_store_client:
  assumes "well_behaved rt" "reachable (rt_env rt) (w_db w)" "agent_run rt k ctx w = (r, w')"
  shows "(store_step (rt_env rt))\<^sup>*\<^sup>* (w_db w) (w_db w') \<and> reachable (rt_env rt) (w_db w')"
proof -
  have "(store_step (rt_env rt))\<^sup>*\<^sup>* (w_db w) (w_db w')"
    using agent_run_steps [of rt w k ctx] assms by (simp add: sound_start_def)
  with assms(2) show ?thesis by (blast intro: steps_reachable)
qed

definition demo_runtime :: runtime where
  "demo_runtime = \<lparr>rt_env = demo_env, rt_pid = ''v'', rt_now = (\<lambda>n. 70000000 + int n),
     rt_uuid = (\<lambda>n i. uid CHR ''9''), rt_others = (\<lambda>n d. d), rt_touch = (\<lambda>n i d. d), rt_text = (\<lambda>n. ''''),
     rt_class = (\<lambda>n e. ''Error''), rt_token = (\<lambda>n. ''01''),
     rt_os = \<lparr>os_new_mode = 420, os_dir_added = id, os_dir_removed = id\<rparr>, rt_tools = demo_tools,
     rt_walk = (\<lambda>fs p. []), rt_regex = (\<lambda>s. None), rt_float = id,
     rt_process = (\<lambda>n argv cwd t. (Inl OSError, id)), rt_model_name = ''m'', rt_model = (\<lambda>n p t. ([], Inl ''E'')),
     rt_prompt_reader = None, rt_contiguous = True, rt_max_steps = 4, rt_max_output_tokens = 100,
     rt_auto_approve_files = False, rt_auto_approve_processes = False, rt_process_tools_enabled = False,
     rt_checkpoint_interval = 10\<rparr>"

definition demo_world :: "db \<Rightarrow> world" where
  "demo_world d = \<lparr>w_db = d, w_disk = \<lparr>dk_nodes = demo_fs, dk_next_inode = 9\<rparr>, w_ctx = None, w_tick = 0\<rparr>"

lemma demo_well_behaved: "well_behaved demo_runtime" "rt_env demo_runtime = demo_env"
  by (simp_all add: well_behaved_def demo_runtime_def)

theorem agent_is_a_store_client_witness:
  "reachable demo_env (w_db (snd (agent_run demo_runtime ''r'' None (demo_world s_responded))))"
  using agent_is_a_store_client [OF demo_well_behaved(1) _ prod.collapse [symmetric], of "demo_world s_responded" "''r''" None]
    reachable_s_responded by (simp add: demo_well_behaved(2) demo_world_def)

text \<open>
  C23 (functional). What the agent loop reports is durable: when \<^verbatim>\<open>run\<close> returns completed, cancelled or
  over budget, the run has that status in the database at that moment, also with other
  workers active, and a final answer it returns is the content of the blob with its digest.
\<close>

theorem agent_outcome_is_durable:
  assumes "well_behaved rt" "reachable (rt_env rt) (w_db w)" "agent_run rt k ctx w = (Inr oc, w')"
  shows "(oc_status oc = OC_completed \<longrightarrow> run_status (w_db w') k ES_COMPLETED) \<and>
    (oc_status oc = OC_cancelled \<longrightarrow> run_status (w_db w') k ES_CANCELLED) \<and>
    (oc_status oc = OC_budget_exceeded \<longrightarrow> run_status (w_db w') k ES_BUDGET_EXCEEDED) \<and>
    (\<forall>a. oc_final_answer oc = Some a \<longrightarrow> oc_status oc = OC_completed \<and>
       (\<exists>b. get_blob (rt_env rt) (w_db w') (sha256 (rt_env rt) a) = Inr b \<and> o_content b = a))"
proof -
  have s: "sound_start rt (w_db w)" using assms(1,2) by (simp add: sound_start_def)
  then have "steps_inv rt (w_db w) w" by (simp add: steps_inv_def)
  from ensuresD [OF ensures_agent_run this assms(3)] s show ?thesis
    by (simp add: promise_def durable_outcome_def)
qed

definition s_cancelled :: db where
  "s_cancelled = snd (terminate_run demo_env 500 (uid CHR ''5'') ''r'' ES_CANCELLED ''gone'' ''p''
     (Some (demo_context 4)) s_leased)"

definition ev_cancelled :: event_row where
  "ev_cancelled = demo_event CHR ''5'' 5 500 (Some ''t'') (Some ''r'') None (Some ''r'')
     (RunTerminatedPayload ES_CANCELLED ''gone'')"

lemma s_cancelled_eq: "s_cancelled = s_leased\<lparr>sessions := [demo_session 6 CHR ''5''],
    runs := [terminate_row ES_CANCELLED ''gone'' 500 5 (leased_run 5)], events := [ev1, ev2, ev3, ev4, ev_cancelled]\<rparr>"
  by (simp add: s_cancelled_def recover_run_projection_in_transaction_def load_run_events_in_transaction_def
      event_from_row_of_event event_wf_def reduce_run_events_def reduce_start_def reduce_step_def opt_ge_def
      terminate_run_def termination_statuses_def terminate_run_body_def s_leased_eq s_run_eq
      exec_simps row_defs fence_simps run_event_def terminate_row_def proj_of_row_def ev_cancelled_def
      can_transition_execution_def)

lemma reachable_s_cancelled: "reachable demo_env s_cancelled"
  unfolding s_cancelled_def
  by (rule reachable_step [OF reachable_s_leased step_terminate [OF _ prod.collapse [symmetric]]]) simp

lemmas runtime_simps = call_def query_def timed_query_def bindR_def returnR_def throwR_def liftR_def getR_def
  set_ctx_def catchR_def finallyR_def get_projection_def

lemma demo_takeover:
  "acquire_run_lease ''r'' ''v'' LEASE_TTL 70000000 s_cancelled =
     (Inr \<lparr>l_run_id = ''r'', l_owner = ''v'', l_epoch = 2, l_expires_at = 370000000\<rparr>,
      update_run ''r'' (set_lease ''v'' 2 370000000) s_cancelled)"
  by (simp add: s_cancelled_eq s_leased_eq s_run_eq acquire_run_lease_def acquire_run_lease_body_def exec_simps row_defs
      has_owner_def expires_after_def lease_expiry_def LEASE_TTL_def terminate_row_def)

lemma demo_cancelled_outcome:
  "\<exists>w'. agent_run demo_runtime ''r'' None (demo_world s_cancelled) =
     (Inr (outcome OC_cancelled (Some ''run status is cancelled'')), w')"
proof -
  let ?d = "update_run ''r'' (set_lease ''v'' 2 370000000) s_cancelled"
  let ?row = "set_lease ''v'' 2 370000000 (terminate_row ES_CANCELLED ''gone'' 500 5 (leased_run 5))"
  have "reachable demo_env ?d"
    using reachable_step [OF reachable_s_cancelled step_acquire [OF demo_takeover]] .
  moreover have row: "get_run ?d ''r'' = Some ?row"
    by (simp add: s_cancelled_eq get_defs exec_simps row_defs terminate_row_def set_lease_def)
  ultimately have p: "get_run_projection demo_env ?d ''r'' = Inr (proj_of_row ?row)" by (rule reachable_projection)
  have "\<exists>d'. release_run_lease \<lparr>l_run_id = ''r'', l_owner = ''v'', l_epoch = 2, l_expires_at = 370000000\<rparr> ?d = (Inr (), d')"
    by (simp add: release_run_lease_def release_run_lease_body_def update_runs_where_def exec_simps s_cancelled_eq
        row_defs terminate_row_def set_lease_def)
  with p show ?thesis
    by (auto simp: agent_run_def runtime_simps demo_world_def demo_runtime_def demo_takeover guarded_run_def run_with_lease_def
        release_owned_def execution_context_new_def proj_of_row_def set_lease_def terminate_row_def row_defs)
qed

theorem agent_outcome_is_durable_witness:
  "run_status (w_db (snd (agent_run demo_runtime ''r'' None (demo_world s_cancelled)))) ''r'' ES_CANCELLED"
proof -
  obtain w' where r: "agent_run demo_runtime ''r'' None (demo_world s_cancelled) =
      (Inr (outcome OC_cancelled (Some ''run status is cancelled'')), w')"
    using demo_cancelled_outcome by blast
  from agent_outcome_is_durable [OF demo_well_behaved(1) _ r] reachable_s_cancelled r show ?thesis
    by (auto simp: demo_well_behaved(2) demo_world_def outcome_def)
qed





section \<open>The Redis shadow\<close>

text \<open>
  The script of the sink compares versions as text, by length and then by bytes. On the
  decimal texts of two versions of any size this is the order of the numbers, and the
  reference comparison of the program gives the same answer.
\<close>

lemma decimal_order_is_numeric:
  assumes "0 \<le> a" "0 \<le> b"
  shows "lua_compare_decimal (int_text a) (int_text b) = sgn (a - b) \<and>
    compare_decimal_versions (int_text a) (int_text b) = Inr (sgn (a - b))"
  using lua_compare_numeric compare_is_lua canonical_int_text read_int_text assms by simp

lemma decimal_order_is_numeric_instance:
  "lua_compare_decimal (int_text 10) (int_text 9) = 1 \<and> compare_decimal_versions (int_text 10) (int_text 9) = Inr 1"
  using decimal_order_is_numeric [of 10 9] by simp

definition demo_hash_env :: env where
  "demo_hash_env = demo_env\<lparr>sha256 := (\<lambda>s. replicate 64 CHR ''a'')\<rparr>"

definition demo_snapshot :: "string \<Rightarrow> int \<Rightarrow> snapshot" where
  "demo_snapshot run v = \<lparr>sn_tenant_id = ''t'', sn_run_id = run, sn_stream_version = v, sn_execution_status = ES_ACTIVE,
     sn_phase = None, sn_last_event_seq = v, sn_updated_at = Aware 0\<rparr>"

lemma demo_snapshot_fields [simp]:
  "sn_tenant_id (demo_snapshot k v) = ''t''" "sn_run_id (demo_snapshot k v) = k" "sn_stream_version (demo_snapshot k v) = v"
  by (simp_all add: demo_snapshot_def)

lemma demo_hash [simp]: "sha256_text (canonical_sha256 demo_hash_env s)"
  by (simp add: demo_hash_env_def canonical_sha256_def sha256_text_def list_all_iff)

lemma demo_identities [simp]:
  "validate_identity 512 ''t'' = Inr ()" "validate_identity 512 ''a'' = Inr ()" "validate_identity 512 ''r'' = Inr ()"
  "validate_identity 512 ''o'' = Inr ()" "environment_ok ''dev''"
  by code_simp+

lemma demo_snapshot_valid [simp]: "0 \<le> v \<Longrightarrow> valid_snapshot (demo_snapshot ''r'' v)"
  by (simp add: valid_snapshot_def demo_snapshot_def snapshot_new_def bindE_def validate_version_def)




definition demo_config :: "bool \<Rightarrow> shadow_config" where
  "demo_config on = \<lparr>sc_environment = ''dev'', sc_ttl = \<lparr>tc_active_seconds = 60, tc_terminal_seconds = 600\<rparr>,
     sc_features = Phase3 (default_flags\<lparr>p3_cache_write := on\<rparr>),
     sc_prompt_working_set = \<lparr>pk_ttl_seconds = 60, pk_max_plaintext_bytes = 1000, pk_event_limit = 64, pk_transcript_limit = 12\<rparr>\<rparr>"

text \<open>Adapters over one run at version 3: one claimed message of version 2, writes that are applied.\<close>

definition demo_source :: shadow_source where
  "demo_source = \<lparr>ss_dsn = ''dsn'', ss_tenant_id = ''t''\<rparr>"

definition demo_table :: "pg_run list" where
  "demo_table = [\<lparr>pr_tenant_id = ''t'', pr_run_id = ''r'', pr_execution_status = ''active'', pr_phase = None,
     pr_stream_version = 3, pr_last_event_seq = 3, pr_updated_at = Aware 0\<rparr>]"

definition demo_ports :: ports where
  "demo_ports = \<lparr>
     po_claim = (\<lambda>h. Inr (Some [Some [(''tenant_id'', ColText ''t''), (''run_id'', ColText ''r''), (''outbox_id'', ColText ''o''),
       (''stream_version'', ColInt 2), (''destination'', ColText RUN_PROJECTION_DESTINATION), (''claimed_by'', ColText ''p'')]])),
     po_load = (\<lambda>h t k. bindE (load_projection demo_source t k demo_table) (\<lambda>s. Inr (Some s))),
     po_write = (\<lambda>h s ttl. Inr (Some \<lparr>pw_status = WS_APPLIED, pw_incoming_version = sn_stream_version s,
       pw_stored_version = sn_stream_version s\<rparr>)),
     po_index = (\<lambda>h s ttl. Inl ValueError), po_allows = (\<lambda>h t. Inr (Some False)), po_publish = (\<lambda>h s. Inr (Some 0)),
     po_mark = (\<lambda>h t oid p. Inr (Some True)), po_reset = (\<lambda>h t. Inr ()),
     po_scan = (\<lambda>h after n. bindE (scan_projections demo_source after n demo_table) (\<lambda>ss. Inr (Some (map Some ss)))),
     po_ready = (\<lambda>h t. Inr ())\<rparr>"



text \<open>
  C28 (termination). The rebuilder reads pages until one is short or wrong. It returns, whatever its adapters
  answer and however often, when the rows a scan can return have finitely many keys: each
  page has to be behind the cursor of the one before it.
\<close>

theorem rebuild_terminates:
  assumes "finite K"
    and "\<And>h after page s. po_scan (bd_ports b) h after (bd_page_size b) = Inr (Some page) \<Longrightarrow> Some s \<in> set page \<Longrightarrow>
      (sn_tenant_id s, sn_run_id s) \<in> K"
  shows "\<exists>c h. rebuild_run b = Some (c, h)"
  using rebuild_run_returns [OF assms(1), of b] assms(2) by (simp add: key_of_def)

definition demo_rebuilder :: rebuilder where
  "demo_rebuilder = \<lparr>bd_ports = demo_ports, bd_tenant_id = ''t'', bd_projection_config = demo_config True, bd_page_size = 1,
     bd_has_index_sink = False\<rparr>"

definition stuck_rebuilder :: rebuilder where
  "stuck_rebuilder = demo_rebuilder\<lparr>bd_ports := demo_ports\<lparr>po_scan := (\<lambda>h after n. Inr (Some [Some (demo_snapshot ''r'' 3)]))\<rparr>\<rparr>"

text \<open>A source that returns the same page for ever does not keep the rebuilder from returning.\<close>

theorem rebuild_terminates_witness: "\<exists>c h. rebuild_run stuck_rebuilder = Some (c, h)"
  by (rule rebuild_terminates [where K = "{(''t'', ''r'')}"]) (auto simp: stuck_rebuilder_def)



section \<open>The queue of commands and the outbox\<close>

text \<open>
  C30 (safety). A live claim is exclusive. While others claim, renew, reclaim, acknowledge, fail, publish,
  take leases and admit new runs, in any order and at any times before the claim of a worker
  runs out, the claimed command stays as it is, and the worker can still acknowledge it.
\<close>

theorem live_claim_is_exclusive:
  assumes "delivery_ok d" "(others_step w e)\<^sup>*\<^sup>* d d'"
    and "r \<in> set (dl_commands d)" "cq_status r = CQ_CLAIMED" "cq_claimed_by r = Some w" "cq_claim_expires_at r = Some e"
    and "now < e" "check_tenant (cq_tenant_id r) = Inr ()"
  shows "r \<in> set (dl_commands d') \<and> (\<exists>d''. acknowledge_command (cq_tenant_id r) (cq_command_id r) w now d' = (Inr True, d'') \<and>
    (\<exists>r'\<in>set (dl_commands d''). command_key r' = command_key r \<and> cq_status r' = CQ_DONE))"
proof -
  have r: "holds_command w e r" using assms(4-6) by (auto simp: holds_command_def lapsed_def)
  have "claims_stay w e d d'" using claim_machine.steps_inv_follows [OF assms(2,1)] by simp
  then have r': "r \<in> set (dl_commands d')" using assms(3) r by (simp add: claims_stay_def)
  obtain d'' where d'': "acknowledge_command (cq_tenant_id r) (cq_command_id r) w now d' = (Inr True, d'')"
      "finish_row CQ_DONE now r \<in> set (dl_commands d'')" using acknowledge_held [OF r' r assms(7,8)] by blast
  have "command_key (finish_row CQ_DONE now r) = command_key r" "cq_status (finish_row CQ_DONE now r) = CQ_DONE"
    by (simp_all add: command_key_def finish_row_def release_row_def)
  with r' d'' show ?thesis by metis
qed

definition no_deliveries :: delivery where
  "no_deliveries = \<lparr>dl_commands = [], dl_outbox = [], dl_leases = [], dl_workers = []\<rparr>"

definition demo_command :: command_row where
  "demo_command = start_command ''t'' ''default'' ''c'' ''r'' ''key'' 1 ''u'' 100"

definition demo_delivery :: delivery where
  "demo_delivery = no_deliveries\<lparr>dl_commands := [demo_command],
     dl_leases := [\<lparr>wl_tenant_id = ''t'', wl_run_id = ''r'', wl_stream_version = 1, wl_lease_owner = None, wl_lease_epoch = 0,
       wl_lease_expires_at = None\<rparr>]\<rparr>"

definition demo_claimed :: delivery where
  "demo_claimed = snd (claim_commands ''t'' ''w'' 1 ''default'' 60 100 demo_delivery)"

lemma demo_claimed_commands:
  "dl_commands demo_claimed = [claim_row ''w'' 60 100 demo_command]"
  "fst (claim_commands ''t'' ''x'' 1 ''default'' 60 200 demo_claimed) = Inr []"
  "check_tenant ''t'' = Inr ()" "validate_worker_pool ''default'' = Inr ()" "validate_visibility_timeout 60 = Inr ()"
  by code_simp+

theorem live_claim_is_exclusive_witness:
  "let d' = snd (claim_commands ''t'' ''x'' 1 ''default'' 60 200 demo_claimed) in
   fst (acknowledge_command ''t'' ''c'' ''w'' 300 d') = Inr True"
proof -
  let ?r = "claim_row ''w'' 60 100 demo_command" and ?d = "snd (claim_commands ''t'' ''x'' 1 ''default'' 60 200 demo_claimed)"
  have r: "cq_status ?r = CQ_CLAIMED" "cq_claimed_by ?r = Some ''w''" "cq_claim_expires_at ?r = Some 60000100"
    "cq_tenant_id ?r = ''t''" "cq_command_id ?r = ''c''"
    by (simp_all add: claim_row_def seconds_def demo_command_def start_command_def)
  have ok: "delivery_ok demo_claimed" by code_simp
  have "delivery_step (Some ''x'') 200 demo_claimed ?d" by (rule do_claim [OF prod.collapse [symmetric]])
  then have "others_step ''w'' 60000100 demo_claimed ?d" unfolding others_step_def by (intro exI [of _ "Some ''x''"] exI [of _ 200]) simp
  then have "(others_step ''w'' 60000100)\<^sup>*\<^sup>* demo_claimed ?d" by blast
  from live_claim_is_exclusive [OF ok this _ r(1-3), of 300] show ?thesis
    using r demo_claimed_commands by auto
qed

text \<open>
  C31 (invariant). Along every sequence of steps of any callers, a command that is done, failed or cancelled and
  a message that is published stay as they are; the epoch of a run's worker lease never
  falls, and two workers never hold the lease at the same epoch.
\<close>

theorem delivery_outcomes_are_final:
  assumes "delivery_ok d" "any_step\<^sup>*\<^sup>* d d'"
  shows "(\<forall>r\<in>set (dl_commands d). cq_status r \<in> {CQ_DONE, CQ_FAILED, CQ_CANCELLED} \<longrightarrow> r \<in> set (dl_commands d')) \<and>
    (\<forall>r\<in>set (dl_outbox d). x_published_at r \<noteq> None \<longrightarrow> r \<in> set (dl_outbox d')) \<and>
    (\<forall>r\<in>set (dl_leases d). \<exists>r'\<in>set (dl_leases d'). lease_key r' = lease_key r \<and> wl_lease_epoch r \<le> wl_lease_epoch r' \<and>
      (\<forall>w w'. wl_lease_owner r = Some w \<longrightarrow> wl_lease_owner r' = Some w' \<longrightarrow> wl_lease_epoch r' = wl_lease_epoch r \<longrightarrow> w' = w))"
proof -
  have *: "outcomes_stay d d'" using delivery_machine.steps_inv_follows [OF assms(2,1)] by simp
  have lease: "wl_lease_epoch r \<le> wl_lease_epoch r' \<and>
      (\<forall>w w'. wl_lease_owner r = Some w \<longrightarrow> wl_lease_owner r' = Some w' \<longrightarrow> wl_lease_epoch r' = wl_lease_epoch r \<longrightarrow> w' = w)"
    if "lease_evolves r r'" for r r' using that by (auto simp: lease_evolves_def)
  have "cq_status r \<in> {CQ_DONE, CQ_FAILED, CQ_CANCELLED} \<longleftrightarrow> finished r" for r
    by (cases "cq_status r") (simp_all add: finished_def)
  with * lease show ?thesis unfolding outcomes_stay_def by blast
qed

definition demo_done :: delivery where
  "demo_done = snd (acknowledge_command ''t'' ''c'' ''w'' 200 demo_claimed)"

theorem delivery_outcomes_are_final_witness:
  "let d' = snd (claim_commands ''t'' ''x'' 1 ''default'' 60 900 demo_done) in
   \<exists>r\<in>set (dl_commands d'). cq_status r = CQ_DONE \<and> cq_command_id r = ''c''"
proof -
  let ?d = "snd (claim_commands ''t'' ''x'' 1 ''default'' 60 900 demo_done)"
  have d: "delivery_ok demo_done" "\<exists>r\<in>set (dl_commands demo_done). cq_status r = CQ_DONE \<and> cq_command_id r = ''c''"
    by code_simp+
  have "delivery_step (Some ''x'') 900 demo_done ?d" by (rule do_claim [OF prod.collapse [symmetric]])
  then have "any_step demo_done ?d" unfolding any_step_def by blast
  then have "any_step\<^sup>*\<^sup>* demo_done ?d" by blast
  from delivery_outcomes_are_final [OF d(1) this] show ?thesis using d(2) unfolding Let_def by blast
qed

text \<open>
  A command whose worker is gone is not lost: once its claim has run out it can be claimed again,
  by any worker of its pool, when at most a hundred commands of the pool are ready; the
  timeout is noted and the attempt counted.
\<close>

lemma abandoned_command_is_claimed_again:
  assumes "r \<in> set (dl_commands d)" "cq_status r = CQ_CLAIMED" "cq_claim_expires_at r = Some e" "e \<le> now" "cq_available_at r \<le> now"
    and "length (filter (command_ready (cq_tenant_id r) (cq_worker_pool r) now) (dl_commands d)) \<le> 100"
    and "validate_worker_pool (cq_worker_pool r) = Inr ()" "validate_visibility_timeout v = Inr ()"
    "check_tenant (cq_tenant_id r) = Inr ()"
  shows "\<exists>rows d' r'. claim_commands (cq_tenant_id r) w 100 (cq_worker_pool r) v now d = (Inr rows, d') \<and> r' \<in> set rows \<and>
    r' \<in> set (dl_commands d') \<and> command_key r' = command_key r \<and> cq_claimed_by r' = Some w \<and>
    cq_claim_expires_at r' = Some (now + seconds v) \<and> cq_attempt_count r' = cq_attempt_count r + 1 \<and>
    cq_last_error r' = Some visibility_timeout_error"
proof -
  have "lapsed now (cq_claim_expires_at r)" using assms(3,4) by (simp add: lapsed_def)
  from claim_abandoned [OF assms(1,2) this assms(5-9), of w] obtain rows d' where
    c: "claim_commands (cq_tenant_id r) w 100 (cq_worker_pool r) v now d = (Inr rows, d')"
      "claim_row w v now r \<in> set rows" "claim_row w v now r \<in> set (dl_commands d')" by blast
  have "command_key (claim_row w v now r) = command_key r" "cq_claimed_by (claim_row w v now r) = Some w"
    "cq_claim_expires_at (claim_row w v now r) = Some (now + seconds v)"
    "cq_attempt_count (claim_row w v now r) = cq_attempt_count r + 1"
    "cq_last_error (claim_row w v now r) = Some visibility_timeout_error"
    using assms(2) by (simp_all add: command_key_def claim_row_def)
  with c show ?thesis by blast
qed

lemma abandoned_command_is_claimed_again_instance:
  "\<exists>rows d' r'. claim_commands ''t'' ''x'' 100 ''default'' 60 60000100 demo_claimed = (Inr rows, d') \<and> r' \<in> set rows \<and>
     cq_claimed_by r' = Some ''x'' \<and> cq_attempt_count r' = 2"
proof -
  let ?r = "claim_row ''w'' 60 100 demo_command"
  have r: "cq_status ?r = CQ_CLAIMED" "cq_claim_expires_at ?r = Some 60000100" "cq_available_at ?r = 100" "cq_attempt_count ?r = 1"
    "cq_tenant_id ?r = ''t''" "cq_worker_pool ?r = ''default''"
    by (simp_all add: claim_row_def seconds_def demo_command_def start_command_def)
  have "length (filter (command_ready ''t'' ''default'' 60000100) (dl_commands demo_claimed)) \<le> 100"
    by (simp add: demo_claimed_commands(1))
  with abandoned_command_is_claimed_again [of ?r demo_claimed 60000100 60000100 60 "''x''"]
  have "\<exists>rows d' r'. claim_commands ''t'' ''x'' 100 ''default'' 60 60000100 demo_claimed = (Inr rows, d') \<and> r' \<in> set rows \<and>
      r' \<in> set (dl_commands d') \<and> command_key r' = command_key ?r \<and> cq_claimed_by r' = Some ''x'' \<and>
      cq_claim_expires_at r' = Some (60000100 + seconds 60) \<and> cq_attempt_count r' = 1 + 1 \<and>
      cq_last_error r' = Some visibility_timeout_error"
    by (simp only: r demo_claimed_commands) simp
  then show ?thesis by auto
qed

section \<open>The canary ladder\<close>

definition demo_sha :: string where
  "demo_sha = replicate 64 CHR ''a''"

definition demo_platform :: platform where
  "demo_platform = \<lparr>pf_sha256 = (\<lambda>_. demo_sha), pf_hmac = (\<lambda>_ _. demo_sha), pf_round = Some,
     pf_repr = (\<lambda>x. if x = 1 then ''1.0'' else if x = 5 then ''5.0'' else ''25.0''),
     pf_fromisoformat = (\<lambda>t. Some (int (length t), Some 0))\<rparr>"

definition demo_release :: release_context where
  "demo_release = \<lparr>rx_environment = ''prod'', rx_region = ''eu'', rx_release_sha = replicate 40 CHR ''a'',
     rx_config_sha256 = demo_sha, rx_cohort_version = ''v1''\<rparr>"

definition demo_key :: string where
  "demo_key = replicate 32 CHR ''k''"

definition demo_metrics :: cohort_metrics where
  "demo_metrics = \<lparr>cx_sample_count = 10, cx_latency_p95_ms = FloatNum 1, cx_error_rate_percent = FloatNum 0,
     cx_redis_fallback_recovery_seconds = FloatNum 1, cx_outbox_lag_p95_seconds = FloatNum 1\<rparr>"

definition demo_gate :: canary_gate where
  "demo_gate = \<lparr>ga_keys = [(''k'', demo_key)], ga_policy = \<lparr>gp_minimum_observation = minutes 30, gp_minimum_control_samples = 1,
     gp_minimum_candidate_samples = 1, gp_max_latency_regression_percent = FloatNum 10, gp_max_error_rate_percent = FloatNum 1,
     gp_max_error_rate_delta_percent = FloatNum 1, gp_max_api_rate_limit_latency_ms = FloatNum 10,
     gp_max_worker_wake_latency_ms = FloatNum 100, gp_max_redis_fallback_recovery_seconds = FloatNum 60,
     gp_max_outbox_lag_p95_seconds = FloatNum 2\<rparr>\<rparr>"

definition demo_observation :: "rollout_stage \<Rightarrow> canary_observation" where
  "demo_observation s = \<lparr>co_capability = UI_STATUS_READ, co_context = demo_release, co_stage = s, co_observed_from = minutes 100,
     co_observed_until = minutes 140, co_control = demo_metrics, co_candidate = demo_metrics,
     co_hard_safety = \<lparr>hs_duplicate_external_effects = 0, hs_approval_bypasses = 0, hs_budget_bypasses = 0,
       hs_authorization_bypasses = 0, hs_cross_tenant_or_pool_leaks = 0, hs_stale_fence_accepts = 0, hs_prompt_integrity_violations = 0\<rparr>,
     co_consecutive_breaching_windows = 0\<rparr>"

definition demo_envelope :: "rollout_stage \<Rightarrow> string option \<Rightarrow> evidence_envelope" where
  "demo_envelope s previous = \<lparr>ev_capability = UI_STATUS_READ, ev_context = demo_release, ev_artifact_sha256 = demo_sha,
     ev_observation_sha256 = demo_sha, ev_observed_from = minutes 100, ev_observed_until = minutes 140, ev_expires_at = minutes 300,
     ev_tested_stage = s, ev_sample_count = 10, ev_key_id = ''k'', ev_signature = demo_sha, ev_previous_evidence_sha256 = previous\<rparr>"

definition demo_lifecycle :: lifecycle where
  "demo_lifecycle = \<lparr>lf_manifest = \<lparr>mf_context = demo_release, mf_generation = 3,
       mf_authorizations = [\<lparr>au_capability = UI_STATUS_READ, au_context = demo_release, au_stage = CANARY_1,
         au_issued_at = minutes 90, au_evidence_sha256 = Some demo_sha\<rparr>]\<rparr>,
     lf_capability = UI_STATUS_READ, lf_cooldown_until = None, lf_soft_breach_windows = [], lf_state_revision = 7,
     lf_serving_expires_at = Some (minutes 200), lf_last_health_evidence_sha256 = Some demo_sha,
     lf_last_health_observed_until = Some (minutes 100), lf_last_rollback_at = None, lf_last_admission_sha256 = None\<rparr>"

definition demo_safety :: safety_snapshot where
  "demo_safety = \<lparr>sf_capability = UI_STATUS_READ, sf_context = demo_release, sf_stage = CANARY_1, sf_observed_from = minutes 100,
     sf_observed_until = minutes 140, sf_hard_safety = co_hard_safety (demo_observation CANARY_1), sf_committed_fact_loss = 0,
     sf_completed_probes = REQUIRED_SAFETY_PROBES\<rparr>"

definition demo_convergence :: convergence where
  "demo_convergence = \<lparr>gc_context = demo_release, gc_manifest_generation = 3, gc_manifest_sha256 = demo_sha,
     gc_inventory_revision = ''i1'', gc_expected_instance_ids = [''w''], gc_applied_instances = [(''w'', 3)],
     gc_observed_at = minutes 149, gc_inventory_key_id = ''k'', gc_signature = demo_sha\<rparr>"

definition demo_signer :: evidence_signer where
  "demo_signer = \<lparr>es_runner_keys = [(''c'', ''c'' @ demo_key), (''f'', ''f'' @ demo_key)], es_signing_key_id = ''k'',
     es_signing_key = demo_key, es_maximum_attestation_age = minutes 1440, es_maximum_evidence_ttl = minutes 1440\<rparr>"

definition demo_coordinator :: coordinator where
  "demo_coordinator = \<lparr>lc_gate = demo_gate, lc_verifier = demo_signer, lc_inventory_keys = [(''k'', demo_key)],
     lc_cooldown = minutes 30, lc_maximum_convergence_age = minutes 5, lc_soft_breach_windows_required = 2\<rparr>"

lemma demo_texts [simp]:
  "sha256_text demo_sha" "git_sha_match (replicate 40 CHR ''a'')" "environment_match ''prod''" "region_match ''eu''"
  "version_match ''v1''" "key_id_match ''k''" "key_id_match ''c''" "key_id_match ''f''" "inventory_revision_match ''i1''"
  "identity_ok ''w''" "length demo_key = 32" "sha256_text (replicate 64 CHR ''0'')"
  by code_simp+

lemma demo_platform_simps [simp]:
  "pf_sha256 demo_platform s = demo_sha" "pf_hmac demo_platform k s = demo_sha" "pf_round demo_platform x = Some x"
  "pf_fromisoformat demo_platform t = Some (int (length t), Some 0)"
  by (simp_all add: demo_platform_def)

lemma demo_release_ok [simp]: "release_context_ok demo_release = Inr ()"
  by (simp add: release_context_ok_def demo_release_def)

lemmas demo_digests = observation_sha256_def evidence_sha256_def safety_sha256_def evidence_mac_def receipt_mac_def
  attestation_mac_def convergence_mac_def

lemma demo_digest_simps [simp]:
  "observation_sha256 demo_platform b = demo_sha" "evidence_sha256 demo_platform e = demo_sha" "safety_sha256 demo_platform f = demo_sha"
  "evidence_mac demo_platform k e = demo_sha" "receipt_mac demo_platform k r = demo_sha" "attestation_mac demo_platform k t = demo_sha"
  "convergence_mac demo_platform k v = demo_sha"
  by (simp_all add: demo_digests)

lemma demo_parts_ok [simp]:
  "lifecycle_ok demo_lifecycle = Inr ()" "lifecycle_stage demo_lifecycle = CANARY_1"
  "hard_safety_ok (co_hard_safety (demo_observation s)) = Inr ()" "hard_safety_total (co_hard_safety (demo_observation s)) = 0"
  "observation_ok (demo_observation s) = Inr ()" "opt_sha_ok previous \<Longrightarrow> envelope_ok (demo_envelope s previous) = Inr ()"
  "gate_policy_ok (ga_policy demo_gate) = Inr ()"
proof -
  show "hard_safety_ok (co_hard_safety (demo_observation s)) = Inr ()" "hard_safety_total (co_hard_safety (demo_observation s)) = 0"
    for s by (simp_all add: hard_safety_ok_def hard_safety_total_def hard_safety_items_def demo_observation_def refuse_if_def)
  then show "observation_ok (demo_observation s) = Inr ()" for s
    by (simp add: observation_ok_def demo_observation_def cohort_metrics_ok_def demo_metrics_def non_negative_number_def
      percent_number_def bindE_def minutes_def refuse_if_def)
  show "lifecycle_stage demo_lifecycle = CANARY_1"
    by (simp add: lifecycle_stage_def lifecycle_authorization_def authorization_for_def demo_lifecycle_def)
  then show "lifecycle_ok demo_lifecycle = Inr ()"
    by (simp add: lifecycle_ok_def demo_lifecycle_def manifest_ok_def authorization_ok_def opt_sha_ok_def serving_def bindE_def
      refuse_if_def all_ok_def)
  show "opt_sha_ok previous \<Longrightarrow> envelope_ok (demo_envelope s previous) = Inr ()"
    by (simp add: envelope_ok_def demo_envelope_def minutes_def)
  show "gate_policy_ok (ga_policy demo_gate) = Inr ()"
    by (simp add: gate_policy_ok_def demo_gate_def percent_number_def positive_number_def non_negative_number_def bindE_def refuse_if_def)
qed

text \<open>
  C32 (safety). A serving stage is only entered one step up the ladder, and only when no cooldown runs, a signed
  inventory of the current revision shows every instance on the current generation, trusted
  evidence about a clean observation of the current stage has no reason against it and bounds
  how long the new stage may serve; the first serving stage needs an admission package that
  verifies, with a capacity report that passed and a fault drill that qualifies.
\<close>

theorem serving_upgrade_is_justified:
  assumes "advance c pf l target now v revision observation envelope bundle snapshot = Inr d"
    and "stage_index (lifecycle_stage l) < stage_index (lifecycle_stage (ld_state d))" "serving (lifecycle_stage (ld_state d))"
  shows "target = lifecycle_stage (ld_state d) \<and> stage_index target = stage_index (lifecycle_stage l) + 1 \<and>
    (\<forall>t\<in>set_option (lf_cooldown_until l). t \<le> now) \<and>
    (\<exists>g. v = Some g \<and> revision = Some (gc_inventory_revision g) \<and>
      convergence_matches pf g (lf_manifest l) now (lc_inventory_keys c) (lc_maximum_convergence_age c) = Inr True) \<and>
    (\<exists>e b previous. observation = Some b \<and> soft_reasons (lc_gate c) pf (lf_capability l) b = [] \<and>
      sound_evidence (lc_gate c) pf (lf_capability l) (mf_context (lf_manifest l)) (lifecycle_stage l) previous now e b \<and>
      lf_serving_expires_at (ld_state d) = Some (ev_expires_at e)) \<and>
    (target = CANARY_1 \<longrightarrow> (\<exists>p. bundle = Some p \<and>
      verify_package pf (lc_verifier c) (ab_signed p) (mf_context (lf_manifest l)) now \<and>
      cd_allowed (cr_decision (ab_capacity_report p)) \<and> fault_qualifies (ab_fault_report p)))"
proof (rule upgrade_justified [OF assms])
  fix a current selected inventory
  assume t: "target = lifecycle_stage (ld_state d)"
    and e: "evaluate_transition (lc_gate c) pf (lf_capability l) (mf_context (lf_manifest l)) current target now selected
      observation (map_option ab_capacity_report bundle) = Inr (Inr a)" "current_stage_of current = lifecycle_stage l"
    and a: "advance_apply c pf l target now v inventory selected a = Inr d"
    and conv: "(\<forall>t\<in>set_option (lf_cooldown_until l). t \<le> now) \<and>
        (\<exists>g. v = Some g \<and> revision = Some (gc_inventory_revision g) \<and>
          convergence_matches pf g (lf_manifest l) now (lc_inventory_keys c) (lc_maximum_convergence_age c) = Inr True)"
    and admitted: "target = CANARY_1 \<Longrightarrow>
        (\<exists>b. bundle = Some b \<and> selected = Some (ae_envelope (ab_signed b)) \<and> admission_reasons pf (lc_verifier c) l now b = Inr [])"
  have up: "percent target > percent (lifecycle_stage l)" "target \<noteq> lifecycle_stage l" using assms(2,3) t by (auto simp: percent_less)
  obtain ev b where s: "selected = Some ev" "observation = Some b" "stage_index target = stage_index (lifecycle_stage l) + 1"
    "soft_reasons (lc_gate c) pf (lf_capability l) b = []"
    "\<exists>previous. sound_evidence (lc_gate c) pf (lf_capability l) (mf_context (lf_manifest l)) (lifecycle_stage l) previous now ev b"
    using evaluate_transition_Inr [OF e(1)] assms(2,3) t e(2) by auto
  have "lf_serving_expires_at (ld_state d) = Some (ev_expires_at ev)"
    by (rule advance_apply_steps [OF a up(2)]) (use s(1) up(1) in simp)
  with t s conv admitted show ?thesis by (fast dest: admission_reasons_Nil)
qed

lemma demo_converged: "convergence_stage demo_coordinator demo_platform demo_lifecycle CANARY_5 (minutes 150) (Some demo_convergence)
    (Some ''i1'') = Inr (Inr (Some ''i1''))"
proof -
  have "manifest_ok (lf_manifest demo_lifecycle) = Inr ()" using demo_parts_ok(1) unfolding lifecycle_ok_def by simp
  moreover have "convergence_ok demo_convergence = Inr ()"
    by (simp add: convergence_ok_def demo_convergence_def applied_instance_ok_def)
  ultimately have "convergence_matches demo_platform demo_convergence (lf_manifest demo_lifecycle) (minutes 150)
      (lc_inventory_keys demo_coordinator) (lc_maximum_convergence_age demo_coordinator) = Inr True"
    by (simp add: convergence_matches_def manifest_sha256_def hmac_key_ok_def refuse_if_def demo_convergence_def demo_coordinator_def
      demo_lifecycle_def bindE_def minutes_def)
  then show ?thesis
    by (simp add: convergence_stage_def percent_def bindE_def) (simp add: demo_lifecycle_def demo_convergence_def)
qed

lemma demo_healthy: "health_stage demo_coordinator demo_platform demo_lifecycle CANARY_5 (minutes 150) (Some ''i1'')
    (Some (demo_observation CANARY_1)) (Some (demo_envelope CANARY_1 (Some demo_sha))) (Some demo_safety) = Inr None"
proof -
  have "safety_snapshot_ok demo_safety = Inr ()"
    by (simp add: safety_snapshot_ok_def demo_safety_def minutes_def REQUIRED_SAFETY_PROBES_def)
  then have "validate_safety_snapshot demo_platform demo_lifecycle (demo_observation CANARY_1)
      (demo_envelope CANARY_1 (Some demo_sha)) (Some demo_safety) = []"
    by (simp add: validate_safety_snapshot_def coverage_complete_def)
      (simp add: demo_safety_def demo_lifecycle_def demo_observation_def demo_envelope_def hard_safety_total_def hard_safety_items_def)
  then show ?thesis by (simp add: health_stage_def percent_def) (simp add: demo_lifecycle_def)
qed

lemma demo_signature: "signature_reasons demo_gate demo_platform (demo_envelope s previous) = Inr []"
  by (simp add: signature_reasons_def verify_evidence_def demo_gate_def demo_envelope_def hmac_key_ok_def refuse_if_def bindE_def flag_def)

definition demo_authorization :: authorization where
  "demo_authorization = \<lparr>au_capability = UI_STATUS_READ, au_context = demo_release, au_stage = CANARY_5, au_issued_at = minutes 150,
     au_evidence_sha256 = Some demo_sha\<rparr>"

lemma demo_authorized: "advance_gate demo_coordinator demo_platform demo_lifecycle CANARY_5 (minutes 150) (Some demo_convergence)
    (Some ''i1'') (Some (demo_observation CANARY_1)) (Some (demo_envelope CANARY_1 (Some demo_sha))) None =
    advance_apply demo_coordinator demo_platform demo_lifecycle CANARY_5 (minutes 150) (Some demo_convergence) (Some ''i1'')
      (Some (demo_envelope CANARY_1 (Some demo_sha))) demo_authorization"
proof -
  let ?b = "demo_observation CANARY_1" and ?e = "demo_envelope CANARY_1 (Some demo_sha)"
  let ?a = "\<lparr>au_capability = UI_STATUS_READ, au_context = demo_release, au_stage = CANARY_1,
         au_issued_at = minutes 90, au_evidence_sha256 = Some demo_sha\<rparr>"
  have a: "gate_authorization demo_lifecycle CANARY_5 (Some ?e) = Some ?a"
    by (simp add: gate_authorization_def) (simp add: lifecycle_authorization_def authorization_for_def demo_lifecycle_def demo_envelope_def)
  have ok: "authorization_ok ?a = Inr ()" "authorization_ok demo_authorization = Inr ()"
    by (simp_all add: authorization_ok_def demo_authorization_def opt_sha_ok_def serving_def)
  have hard: "hard_reasons demo_gate demo_platform UI_STATUS_READ demo_release CANARY_1 (Some demo_sha) (minutes 150) ?e ?b = []"
    by (simp add: hard_reasons_def) (simp add: demo_gate_def demo_envelope_def demo_observation_def demo_metrics_def minutes_def)
  have soft: "soft_reasons demo_gate demo_platform UI_STATUS_READ ?b = []"
    by (simp add: soft_reasons_def demo_gate_def demo_observation_def demo_metrics_def num_mul_def num_add_def num_hundredth_def
      float_of_def literal_def flag_def)
  have "validate_evidence demo_gate demo_platform UI_STATUS_READ demo_release CANARY_1 (Some demo_sha) (minutes 150) ?e ?b = Inr []"
    by (simp add: validate_evidence_def demo_signature hard soft bindE_def)
  then have "evaluate_transition demo_gate demo_platform UI_STATUS_READ demo_release (Some ?a) CANARY_5 (minutes 150) (Some ?e) (Some ?b)
      None = Inr (Inr demo_authorization)"
    using ok by (simp add: evaluate_transition_def authorize_def authorization_new_def bindE_def all_ok_def opt_sha_ok_def
      demo_authorization_def)
  then show ?thesis by (simp add: advance_gate_def a ok bindE_def) (simp add: demo_coordinator_def demo_lifecycle_def)
qed

lemma demo_advanced: "\<exists>d. advance demo_coordinator demo_platform demo_lifecycle CANARY_5 (minutes 150) (Some demo_convergence) (Some ''i1'')
      (Some (demo_observation CANARY_1)) (Some (demo_envelope CANARY_1 (Some demo_sha))) None (Some demo_safety) = Inr d \<and>
    lifecycle_stage (ld_state d) = CANARY_5"
proof -
  let ?m = "\<lparr>mf_context = demo_release, mf_generation = 4, mf_authorizations = [demo_authorization]\<rparr>"
  have m: "manifest_ok ?m = Inr ()" "manifest_ok (lf_manifest demo_lifecycle) = Inr ()" "authorization_ok demo_authorization = Inr ()"
    by (simp_all add: manifest_ok_def demo_authorization_def authorization_ok_def opt_sha_ok_def serving_def demo_lifecycle_def
      bindE_def refuse_if_def all_ok_def)
  have hc: "has_converged (lf_manifest demo_lifecycle) [(''w'', 3)] [''w''] = Inr True"
    by (simp add: has_converged_def demo_lifecycle_def bindE_def refuse_if_def)
  have ap: "apply_authorization (lf_manifest demo_lifecycle) demo_authorization (mf_generation (lf_manifest demo_lifecycle)) [''w'']
      (Some [(''w'', 3)]) = Inr ?m"
    using m hc by (simp add: apply_authorization_def bindE_def refuse_if_def Let_def)
      (simp add: demo_lifecycle_def demo_authorization_def authorization_for_def)
  let ?l = "\<lparr>lf_manifest = ?m, lf_capability = UI_STATUS_READ, lf_cooldown_until = None, lf_soft_breach_windows = [],
     lf_state_revision = 8, lf_serving_expires_at = Some (minutes 300), lf_last_health_evidence_sha256 = None,
     lf_last_health_observed_until = None, lf_last_rollback_at = None, lf_last_admission_sha256 = None\<rparr>"
  have st: "lifecycle_stage ?l = CANARY_5"
    by (simp add: lifecycle_stage_def lifecycle_authorization_def authorization_for_def demo_authorization_def)
  have l: "lifecycle_ok ?l = Inr ()" unfolding lifecycle_ok_def all_ok_Inr st using m(1) by (simp add: opt_sha_ok_def serving_def)
  have "advance_apply demo_coordinator demo_platform demo_lifecycle CANARY_5 (minutes 150) (Some demo_convergence) (Some ''i1'')
      (Some (demo_envelope CANARY_1 (Some demo_sha))) demo_authorization = Inr \<lparr>ld_allowed = True, ld_reasons = [], ld_state = ?l,
        ld_expected_state_revision = 7, ld_rollback_stage = None, ld_expected_inventory_revision = Some ''i1''\<rparr>"
    using ap l by (simp add: advance_apply_def percent_def)
      (simp add: demo_convergence_def bindE_def lifecycle_new_def decision_new_def demo_lifecycle_def demo_envelope_def all_ok_def refuse_if_def)
  then show ?thesis
    using demo_converged demo_healthy demo_authorized st
    by (simp add: advance_def advance_converged_def percent_def bindE_def) (simp add: demo_lifecycle_def minutes_def)
qed

theorem serving_upgrade_is_justified_witness:
  "\<exists>d e previous. advance demo_coordinator demo_platform demo_lifecycle CANARY_5 (minutes 150) (Some demo_convergence) (Some ''i1'')
      (Some (demo_observation CANARY_1)) (Some (demo_envelope CANARY_1 (Some demo_sha))) None (Some demo_safety) = Inr d \<and>
    lifecycle_stage (ld_state d) = CANARY_5 \<and> lf_serving_expires_at (ld_state d) = Some (ev_expires_at e) \<and>
    sound_evidence demo_gate demo_platform UI_STATUS_READ demo_release CANARY_1 previous (minutes 150) e (demo_observation CANARY_1)"
proof -
  from demo_advanced obtain d where d: "advance demo_coordinator demo_platform demo_lifecycle CANARY_5 (minutes 150)
      (Some demo_convergence) (Some ''i1'') (Some (demo_observation CANARY_1)) (Some (demo_envelope CANARY_1 (Some demo_sha))) None
      (Some demo_safety) = Inr d" "lifecycle_stage (ld_state d) = CANARY_5" by blast
  have f: "lc_gate demo_coordinator = demo_gate" "lf_capability demo_lifecycle = UI_STATUS_READ"
    "mf_context (lf_manifest demo_lifecycle) = demo_release" by (simp_all add: demo_coordinator_def demo_lifecycle_def)
  have "stage_index (lifecycle_stage demo_lifecycle) < stage_index (lifecycle_stage (ld_state d))" "serving (lifecycle_stage (ld_state d))"
    using d(2) by (simp_all add: serving_def)
  from serving_upgrade_is_justified [OF d(1) this] d show ?thesis unfolding f by auto
qed

text \<open>
  C33 (safety). A health observation of a serving stage keeps it serving only when its time has not passed, the evidence
  is trusted, follows the retained evidence and reports neither a hard violation nor the loss of
  a fact, with every probe completed. Otherwise the decision rolls back: the runtime policy
  refuses every tenant from then on, and no step up is allowed before the cooldown ends.
\<close>

theorem breach_ends_serving:
  assumes "observe_health c pf l now b e f = Inr d" "serving (lifecycle_stage l)"
    and "(\<forall>t\<in>set_option (lf_serving_expires_at l). t \<le> now) \<or> hard_safety_total (co_hard_safety b) \<noteq> 0 \<or>
      sf_committed_fact_loss f \<noteq> 0 \<or> \<not> coverage_complete f \<or> ev_expires_at e \<le> now \<or>
      (\<forall>key. map_of (ga_keys (lc_gate c)) (ev_key_id e) = Some key \<longrightarrow> evidence_mac pf key e \<noteq> ev_signature e)"
  shows "\<not> ld_allowed d \<and> \<not> serving (lifecycle_stage (ld_state d)) \<and> lf_cooldown_until (ld_state d) = Some (now + lc_cooldown c) \<and>
    (map_of (lp_states p) k = Some (ld_state d) \<longrightarrow> lifecycle_allows pf p t k tenant = Inr False)"
proof (rule observe_health_cases [OF assms(1,2)])
  fix s
  assume "rolled_back c now s l (ld_state d)" "\<not> ld_allowed d"
  then show ?thesis by (auto simp: rolled_back_def lifecycle_allows_def)
next
  fix a x
  assume "lf_serving_expires_at l = Some x" "now < x" "sf_committed_fact_loss f = 0" "coverage_complete f"
    "sound_evidence (lc_gate c) pf (lf_capability l) (mf_context (lf_manifest l)) (lifecycle_stage l) (health_previous l a) now e b"
  then show ?thesis using assms(3) by (auto simp: sound_evidence_def)
qed

lemma not_serving [simp]: "\<not> serving STAGE_OFF" "\<not> serving STAGE_SHADOW"
  by (simp_all add: serving_def)

definition demo_breach :: canary_observation where
  "demo_breach = (demo_observation CANARY_1)\<lparr>co_hard_safety := (co_hard_safety (demo_observation CANARY_1))\<lparr>hs_approval_bypasses := 1\<rparr>\<rparr>"

theorem breach_ends_serving_witness:
  "\<exists>d. observe_health demo_coordinator demo_platform demo_lifecycle (minutes 150) demo_breach
      (demo_envelope CANARY_1 (Some demo_sha)) demo_safety = Inr d \<and>
    \<not> serving (lifecycle_stage (ld_state d)) \<and> lf_cooldown_until (ld_state d) = Some (minutes 180) \<and>
    lifecycle_allows demo_platform \<lparr>lp_states = [(UI_STATUS_READ, ld_state d)], lp_expected_context = demo_release,
      lp_cohort_secret = demo_key\<rparr> (minutes 151) UI_STATUS_READ ''t'' = Inr False"
proof -
  let ?e = "demo_envelope CANARY_1 (Some demo_sha)"
  let ?a = "\<lparr>au_capability = UI_STATUS_READ, au_context = demo_release, au_stage = CANARY_1,
         au_issued_at = minutes 90, au_evidence_sha256 = Some demo_sha\<rparr>"
  have b: "observation_ok demo_breach = Inr ()"
    using demo_parts_ok(5) [of CANARY_1] unfolding observation_ok_def demo_breach_def
    by (simp add: hard_safety_ok_def hard_safety_items_def demo_observation_def)
  have stopped: "authorization_ok \<lparr>au_capability = UI_STATUS_READ, au_context = demo_release, au_stage = s, au_issued_at = t,
         au_evidence_sha256 = None\<rparr> = Inr ()" if "\<not> serving s" for s t
    using that by (simp add: authorization_ok_def opt_sha_ok_def)
  have a: "authorization_ok ?a = Inr ()" by (simp add: authorization_ok_def opt_sha_ok_def serving_def)
  have ok: "all_ok [authorization_ok ?a, gate_policy_ok (ga_policy demo_gate), envelope_ok ?e, observation_ok demo_breach] = Inr ()"
    using a b by (simp add: opt_sha_ok_def)
  obtain reasons where "validate_evidence demo_gate demo_platform UI_STATUS_READ demo_release CANARY_1 (Some demo_sha) (minutes 150) ?e
      demo_breach = Inr reasons" by (simp add: validate_evidence_def demo_signature bindE_def)
  then have "\<exists>h. evaluate_runtime_health demo_gate demo_platform ?a (minutes 150) ?e demo_breach = Inr h"
    using ok stopped [of STAGE_OFF] stopped [of STAGE_SHADOW]
    by (simp add: evaluate_runtime_health_def bindE_def authorization_new_def Let_def serving_def)
  then obtain h where h: "evaluate_runtime_health demo_gate demo_platform ?a (minutes 150) ?e demo_breach = Inr h" ..
  define why where "why = validate_safety_snapshot demo_platform demo_lifecycle demo_breach ?e (Some demo_safety)"
  have "safety_snapshot_ok demo_safety = Inr ()"
    by (simp add: safety_snapshot_ok_def demo_safety_def minutes_def REQUIRED_SAFETY_PROBES_def)
  then have r: "why \<noteq> []"
    by (simp add: why_def validate_safety_snapshot_def) (simp add: demo_breach_def demo_safety_def demo_observation_def)
  have c: "lc_gate demo_coordinator = demo_gate" "minutes 30 \<le> lc_cooldown demo_coordinator" by (simp_all add: demo_coordinator_def)
  have l: "lifecycle_authorization demo_lifecycle = Some ?a" "lf_serving_expires_at demo_lifecycle = Some (minutes 200)"
    "lf_last_health_evidence_sha256 demo_lifecycle = Some demo_sha" "lf_last_health_observed_until demo_lifecycle = Some (minutes 100)"
    by (simp_all add: demo_lifecycle_def lifecycle_authorization_def authorization_for_def)
  have x: "ev_previous_evidence_sha256 ?e = Some demo_sha" "co_observed_from demo_breach = minutes 100"
    by (simp_all add: demo_envelope_def demo_breach_def demo_observation_def)
  have stop: "\<exists>d. rollback demo_coordinator demo_lifecycle (minutes 150) t why None = Inr d" if "\<not> serving t" for t
    using rollback_succeeds [OF demo_parts_ok(1) that r c(2)] that by (cases t) (auto simp: serving_def)
  then obtain d where "rollback demo_coordinator demo_lifecycle (minutes 150)
      (if {''committed_fact_loss'', ''hard_safety_violation''} \<inter> set why \<noteq> {} then STAGE_OFF else STAGE_SHADOW) why None = Inr d"
    using that by (cases "{''committed_fact_loss'', ''hard_safety_violation''} \<inter> set why \<noteq> {}") force+
  then have d: "observe_health demo_coordinator demo_platform demo_lifecycle (minutes 150) demo_breach ?e demo_safety = Inr d"
    using h a r by (simp add: observe_health_def l x c bindE_def authorization_new_def why_def [symmetric] Let_def serving_def)
      (simp add: minutes_def)
  have "hard_safety_total (co_hard_safety demo_breach) \<noteq> 0"
    by (simp add: demo_breach_def demo_observation_def hard_safety_total_def hard_safety_items_def)
  then show ?thesis
    using d breach_ends_serving [OF d, of "\<lparr>lp_states = [(UI_STATUS_READ, ld_state d)], lp_expected_context = demo_release,
      lp_cohort_secret = demo_key\<rparr>" UI_STATUS_READ "minutes 151" "''t''"] c
    by (auto simp: serving_def demo_coordinator_def minutes_def)
qed



text \<open>
  C35 (invariant). Along any sequence of persisted decisions the state of a capability stays valid: a stage that does not
  serve has neither an expiry nor open breaches, and a cooldown lasts at least half an hour from
  the rollback that began it. Generation and revision never fall, the same revision is the same
  state, and a stage \<open>n\<close> steps up the ladder takes at least \<open>n\<close> generations of the manifest.
\<close>

theorem canary_state_stays_valid:
  assumes "(canary_step c pf)\<^sup>*\<^sup>* l l'" "lifecycle_ok l = Inr ()"
  shows "lifecycle_ok l' = Inr () \<and> lf_capability l' = lf_capability l \<and> mf_context (lf_manifest l') = mf_context (lf_manifest l) \<and>
    (\<not> serving (lifecycle_stage l') \<longrightarrow> lf_serving_expires_at l' = None \<and> lf_soft_breach_windows l' = []) \<and>
    (\<forall>t\<in>set_option (lf_cooldown_until l'). \<exists>r. lf_last_rollback_at l' = Some r \<and> r + minutes 30 \<le> t) \<and>
    lf_state_revision l \<le> lf_state_revision l' \<and> (lf_state_revision l' = lf_state_revision l \<longrightarrow> l' = l) \<and>
    mf_generation (lf_manifest l) \<le> mf_generation (lf_manifest l') \<and>
    int (stage_index (lifecycle_stage l')) \<le>
      int (stage_index (lifecycle_stage l)) + (mf_generation (lf_manifest l') - mf_generation (lf_manifest l))"
proof -
  have f: "lifecycle_ok l' = Inr ()" "lifecycle_follows l l'" using canary_machine.steps_inv_follows [OF assms] by simp_all
  have "\<not> serving (lifecycle_stage l') \<longrightarrow> lf_serving_expires_at l' = None \<and> lf_soft_breach_windows l' = []"
    using f(1) unfolding lifecycle_ok_def by auto
  moreover have "\<forall>t\<in>set_option (lf_cooldown_until l'). \<exists>r. lf_last_rollback_at l' = Some r \<and> r + minutes 30 \<le> t"
    using f(1) unfolding lifecycle_ok_def by (auto split: option.splits)
  ultimately show ?thesis using f unfolding lifecycle_follows_def by (intro conjI) simp_all
qed

theorem canary_state_stays_valid_witness:
  "\<exists>l'. (canary_step demo_coordinator demo_platform)\<^sup>*\<^sup>* demo_lifecycle l' \<and> lifecycle_stage l' = CANARY_5 \<and>
    lifecycle_ok l' = Inr () \<and> 4 \<le> mf_generation (lf_manifest l')"
proof -
  obtain d where d: "advance demo_coordinator demo_platform demo_lifecycle CANARY_5 (minutes 150) (Some demo_convergence) (Some ''i1'')
      (Some (demo_observation CANARY_1)) (Some (demo_envelope CANARY_1 (Some demo_sha))) None (Some demo_safety) = Inr d"
    "lifecycle_stage (ld_state d) = CANARY_5" using demo_advanced by blast
  from canary_step.do_advance [OF d(1)] have "(canary_step demo_coordinator demo_platform)\<^sup>*\<^sup>* demo_lifecycle (ld_state d)" ..
  moreover have "mf_generation (lf_manifest demo_lifecycle) = 3" by (simp add: demo_lifecycle_def)
  ultimately show ?thesis
    using canary_state_stays_valid [of demo_coordinator demo_platform demo_lifecycle "ld_state d"] d(2)
    by (intro exI [of _ "ld_state d"]) auto
qed

text \<open>
  The cohorts of the ladder are nested: with Python's text of the three percentages, a tenant that a stage
  includes is included by every later stage under the same secret and cohort version, so a
  promotion never takes the canary away from a tenant.
\<close>

lemma cohorts_are_nested:
  assumes "prints_percents pf" "tenant_in_canary_cohort pf tenant s secret v = Inr True" "stage_index s \<le> stage_index s'"
  shows "tenant_in_canary_cohort pf tenant s' secret v = Inr True"
  using assms by (rule cohorts_nested)

lemma cohorts_are_nested_instance:
  "tenant_in_canary_cohort (demo_platform\<lparr>pf_hmac := (\<lambda>_ _. replicate 64 CHR ''0'')\<rparr>) ''t'' CANARY_25 demo_key ''v1'' = Inr True"
proof -
  let ?pf = "demo_platform\<lparr>pf_hmac := (\<lambda>_ _. replicate 64 CHR ''0'')\<rparr>"
  have p: "prints_percents ?pf" by (simp add: prints_percents_def demo_platform_def)
  have "cohort_bucket ?pf ''t'' demo_key ''v1'' = 0"
    by (simp add: cohort_bucket_def hex_value_def eval_nat_numeral)
  moreover have "bytes_identity ''t''" by code_simp
  ultimately have "tenant_in_canary_cohort ?pf ''t'' CANARY_1 demo_key ''v1'' = Inr True"
    using thresholds [OF p] by (simp add: tenant_in_canary_cohort_def tenant_in_canary_percent_def percent_number_def
      non_negative_number_def hmac_key_ok_def refuse_if_def bindE_def)
  from cohorts_are_nested [OF p this, of CANARY_25] show ?thesis by simp
qed

text \<open>
  C36 (roundtrip). A package that the release signer signs for a release verifies with the same signer exactly from the time
  it was signed until it expires, and for no other release.
\<close>

theorem signed_package_verifies:
  assumes "sign_shadow_admission pf g x b cap fault cap_att fault_att now expires_at previous = Inr p"
  shows "verify_package pf g p y t \<longleftrightarrow> y = x \<and> now \<le> t \<and> t < expires_at"
  using assms by (rule package_verifies)

definition demo_service :: service_provenance where
  "demo_service = \<lparr>sp_kind = SE_LIVE, sp_version = Some ''7'', sp_endpoint_sha256 = Some demo_sha\<rparr>"

definition demo_measurement :: capacity_measurement where
  "demo_measurement = \<lparr>cm_postgres = demo_service, cm_redis = demo_service, cm_expected_peak_claims_per_second = IntNum 10,
     cm_load_multiplier = FloatNum 2, cm_queued_commands = 1000, cm_active_workers = 20, cm_steady_claims_per_second = IntNum 20,
     cm_sql_fallback_claims_per_second = IntNum 20, cm_command_claim_p95_ms = IntNum 5, cm_redis_wake_p95_ms = IntNum 5,
     cm_outbox_lag_p95_ms = IntNum 5, cm_sql_fallback_recovery_seconds = IntNum 5, cm_command_loss = 0,
     cm_duplicate_external_effects = 0, cm_stale_writes_accepted = 0\<rparr>"

definition demo_capacity :: capacity_report where
  "demo_capacity = \<lparr>cr_generated_at = ''2Z'', cr_context = demo_release, cr_policy = default_capacity_policy demo_platform,
     cr_measurement = demo_measurement, cr_decision = \<lparr>cd_allowed = True, cd_reasons = [], cd_streams_demand_qualifies = False,
       cd_target_claims_per_second = FloatNum 20, cd_minimum_accepted_claims_per_second = FloatNum 19\<rparr>\<rparr>"

definition demo_fault :: fault_drill_report where
  "demo_fault = \<lparr>fd_execution_id = ''01234567-89ab-7def-8123-456789abcdef'', fd_started_at = ''2Z'', fd_finished_at = ''20Z'',
     fd_context = demo_release, fd_postgres = demo_service, fd_redis = demo_service, fd_raw_results_sha256 = demo_sha,
     fd_results = map (\<lambda>(s, _, required). \<lparr>fs_scenario = s, fs_evidence_kind = SE_LIVE, fs_triggered = True, fs_passed = True,
       fs_recovery_seconds = IntNum 5, fs_invariants = required, fs_failure_code = None\<rparr>) scenario_table\<rparr>"

definition demo_attestation :: "artifact_kind \<Rightarrow> string \<Rightarrow> attestation" where
  "demo_attestation k key_id = \<lparr>at_artifact_kind = k, at_context = demo_release, at_execution_id = ''r'', at_started_at = minutes 10,
     at_finished_at = minutes 20, at_report_sha256 = demo_sha, at_raw_results_sha256 = demo_sha, at_isolation_sha256 = demo_sha,
     at_runner_build_sha256 = demo_sha, at_passed = True, at_failure_codes = [], at_runner_key_id = key_id, at_signature = demo_sha\<rparr>"

lemma demo_capacity_ok: "capacity_report_ok demo_platform demo_capacity = Inr ()"
proof -
  have s: "service_provenance_ok demo_service = Inr ()"
    by (simp add: service_provenance_ok_def demo_service_def service_version_ok_def refuse_if_def) code_simp
  have "capacity_measurement_ok demo_measurement = Inr ()"
    by (simp add: capacity_measurement_ok_def demo_measurement_def s positive_number_def non_negative_number_def bindE_def refuse_if_def)
  moreover have "capacity_policy_ok demo_platform (default_capacity_policy demo_platform) = Inr ()"
    by (simp add: capacity_policy_ok_def default_capacity_policy_def float_of_def literal_def positive_number_def non_negative_number_def
      bindE_def refuse_if_def)
  moreover have "capacity_reasons demo_platform demo_measurement (default_capacity_policy demo_platform) = []"
    by (simp add: capacity_reasons_def demo_measurement_def default_capacity_policy_def target_claims_per_second_def num_mul_def
      float_of_def literal_def flag_def is_live_def demo_service_def)
  ultimately have "capacity_evaluate demo_platform demo_measurement (default_capacity_policy demo_platform) = Inr (cr_decision demo_capacity)"
    by (simp add: capacity_evaluate_def bindE_def Let_def capacity_decision_new_def demo_capacity_def)
      (simp add: demo_measurement_def default_capacity_policy_def target_claims_per_second_def num_mul_def float_of_def literal_def
      positive_number_def non_negative_number_def refuse_if_def bindE_def)
  then show ?thesis
    by (simp add: capacity_report_ok_def demo_capacity_def timestamp_ok_def bindE_def refuse_if_def) code_simp
qed

lemma demo_results_ok: "\<forall>f\<in>set (fd_results demo_fault). fault_result_ok f = Inr ()"
proof -
  have "list_all (\<lambda>(s, _, required). list_all code_match required \<and> distinct required) scenario_table"
    by (simp add: scenario_table_def code_match_def ascii_in_def)
  then show ?thesis
    by (auto simp: demo_fault_def fault_result_ok_def non_negative_number_def refuse_if_def list_all_iff)
qed

lemma demo_fault_ok: "fault_report_ok demo_platform demo_fault = Inr ()"
proof -
  have "is_uuid (fd_execution_id demo_fault)" by (simp add: demo_fault_def) code_simp
  moreover have "service_provenance_ok demo_service = Inr ()"
    by (simp add: service_provenance_ok_def demo_service_def service_version_ok_def refuse_if_def) code_simp
  moreover have "distinct (map fs_scenario (fd_results demo_fault))" by (simp add: demo_fault_def scenario_table_def)
  ultimately show ?thesis
    using demo_results_ok unfolding fault_report_ok_def bindE_eq_Inr all_ok_Inr
    by (auto simp: rfc3339_def demo_fault_def)
qed

lemma demo_fault_qualifies: "fault_qualifies demo_fault"
  by (simp add: fault_qualifies_def by_scenario_def demo_fault_def is_live_def demo_service_def scenario_table_def)

lemma demo_attested [simp]: "key_id \<in> {''c'', ''f''} \<Longrightarrow> attestation_ok (demo_attestation k key_id) = Inr ()"
proof -
  have "name_match True ''_.:-'' 127 ''r''" by code_simp
  then show "key_id \<in> {''c'', ''f''} \<Longrightarrow> attestation_ok (demo_attestation k key_id) = Inr ()"
    by (auto simp: attestation_ok_def demo_attestation_def minutes_def)
qed

lemma demo_signed: "\<exists>p. sign_shadow_admission demo_platform demo_signer demo_release (demo_observation STAGE_SHADOW) demo_capacity demo_fault
    (demo_attestation AK_CAPACITY ''c'') (demo_attestation AK_FAULT_DRILL ''f'') (minutes 150) (minutes 300) None = Inr p"
proof -
  note ok = demo_attested [of "''c''"] demo_attested [of "''f''"]
  have f: "at_artifact_kind (demo_attestation k i) = k" "at_context (demo_attestation k i) = demo_release"
    "at_passed (demo_attestation k i)" "at_runner_key_id (demo_attestation k i) = i" "at_finished_at (demo_attestation k i) = minutes 20"
    "at_signature (demo_attestation k i) = demo_sha" "at_report_sha256 (demo_attestation k i) = demo_sha"
    "at_raw_results_sha256 (demo_attestation k i) = demo_sha" for k i
    by (simp_all add: demo_attestation_def)
  have o: "co_context (demo_observation s) = demo_release" "co_stage (demo_observation s) = s"
    "co_observed_until (demo_observation s) = minutes 140" for s by (simp_all add: demo_observation_def)
  have g: "map_of (es_runner_keys demo_signer) ''c'' = Some (''c'' @ demo_key)" "map_of (es_runner_keys demo_signer) ''f'' = Some (''f'' @ demo_key)"
    "es_maximum_attestation_age demo_signer = minutes 1440" "es_maximum_evidence_ttl demo_signer = minutes 1440"
    "es_signing_key_id demo_signer = ''k''" "es_signing_key demo_signer = demo_key" by (simp_all add: demo_signer_def)
  have v: "verify_attestation demo_platform demo_signer (demo_attestation k ''c'') k demo_release (minutes 150)
      (Some (demo_observation STAGE_SHADOW)) = Inr ()"
    "verify_attestation demo_platform demo_signer (demo_attestation k ''f'') k demo_release (minutes 150)
      (Some (demo_observation STAGE_SHADOW)) = Inr ()" for k
    by (simp_all add: verify_attestation_def verify_attestation_mac_def bindE_def refuse_if_def hmac_key_ok_def f g o ok minutes_def)
  have rep: "verify_reports demo_platform demo_capacity demo_fault demo_release (demo_attestation AK_CAPACITY ''c'')
      (demo_attestation AK_FAULT_DRILL ''f'') = Inr ()"
    using demo_results_ok demo_capacity_ok demo_fault_ok demo_fault_qualifies
    unfolding verify_reports_def bindE_eq_Inr all_ok_Inr
    by (simp add: capacity_matches_context_def capacity_sha256_def fault_sha256_def bindE_def f)
      (simp add: demo_capacity_def demo_fault_def)
  have "\<exists>e. sign_evidence demo_platform (demo_observation STAGE_SHADOW) demo_sha (minutes 300) ''k'' demo_key None = Inr e"
    by (simp add: sign_evidence_def hmac_key_ok_def refuse_if_def bindE_def Let_def envelope_ok_def opt_sha_ok_def)
      (simp add: demo_observation_def demo_metrics_def minutes_def)
  moreover have "\<exists>r. sign_receipt demo_platform demo_key \<lparr>sr_context = demo_release, sr_evidence_sha256 = demo_sha,
       sr_capacity_attestation_sha256 = demo_sha, sr_fault_attestation_sha256 = demo_sha, sr_signed_at = minutes 150,
       sr_signing_key_id = ''k'', sr_signature = []\<rparr> = Inr r"
    by (simp add: sign_receipt_def hmac_key_ok_def refuse_if_def bindE_def Let_def receipt_ok_def)
  ultimately show ?thesis
    using rep v demo_capacity_ok ok
    by (auto simp: sign_shadow_admission_def bindE_def refuse_if_def o f g capacity_sha256_def attestation_sha256_def minutes_def)
qed

theorem signed_package_verifies_witness:
  "\<exists>p. verify_package demo_platform demo_signer p demo_release (minutes 299) \<and>
    \<not> verify_package demo_platform demo_signer p demo_release (minutes 300)"
proof -
  from demo_signed obtain p where p: "sign_shadow_admission demo_platform demo_signer demo_release (demo_observation STAGE_SHADOW)
      demo_capacity demo_fault (demo_attestation AK_CAPACITY ''c'') (demo_attestation AK_FAULT_DRILL ''f'') (minutes 150) (minutes 300)
      None = Inr p" ..
  show ?thesis
    using signed_package_verifies [OF p, of demo_release "minutes 299"] signed_package_verifies [OF p, of demo_release "minutes 300"]
    by (auto simp: minutes_def)
qed

section \<open>Rate limits\<close>


definition demo_rate_policy :: rate_policy where
  "demo_rate_policy = \<lparr>rp_window_seconds = 1, rp_tenant_limit = 2, rp_user_limit = 1\<rparr>"

definition demo_backend :: rate_backend where
  "demo_backend = \<lparr>rb_environment = ''dev'', rb_namespace_hmac_key = demo_key\<rparr>"

definition demo_request :: "nat \<Rightarrow> rate_request" where
  "demo_request t = \<lparr>rq_clock = t, rq_micros = 0, rq_check = \<lparr>rc_tenant_id = ''t'', rc_user_id = ''u'', rc_route_group = RG_RUN_CREATE,
     rc_policy = demo_rate_policy, rc_request_nonce = replicate 32 CHR ''0''\<rparr>, rq_cost = 1\<rparr>"

definition demo_sizes :: "string \<Rightarrow> int \<times> int" where
  "demo_sizes k = (if k = fst (request_keys demo_platform demo_backend (demo_request 0)) then (2000, 1000) else (1000, 1000))"

lemma demo_ieee: "ieee_rounding demo_platform"
  by (simp add: ieee_rounding_def literal_def float_of_def)

lemma demo_request_valid: "t < 2 ^ 53 \<Longrightarrow> valid_request demo_platform demo_backend demo_sizes (demo_request t)"
proof -
  have k: "request_keys demo_platform demo_backend (demo_request t) = request_keys demo_platform demo_backend (demo_request 0)"
    by (simp add: request_keys_def demo_request_def)
  have "fst (request_keys demo_platform demo_backend (demo_request 0)) \<noteq> snd (request_keys demo_platform demo_backend (demo_request 0))"
    using keys_differ by (simp add: request_keys_def Let_def)
  then show "t < 2 ^ 53 \<Longrightarrow> valid_request demo_platform demo_backend demo_sizes (demo_request t)"
    unfolding valid_request_def k Let_def
    by (simp add: demo_sizes_def) (simp add: demo_request_def demo_rate_policy_def rate_policy_ok_def bounded_positive_int_def
      refuse_if_def MAX_WINDOW_SECONDS_def MAX_REQUESTS_PER_WINDOW_def)
qed


definition demo_requests :: "rate_request list" where
  "demo_requests = [demo_request 0, demo_request 500, demo_request 1000]"

lemma demo_requests_valid: "\<forall>q\<in>set demo_requests. valid_request demo_platform demo_backend demo_sizes q"
  "sorted (map rq_clock demo_requests)"
  by (simp_all add: demo_requests_def demo_request_valid) (simp add: demo_request_def)


text \<open>
  C38 (bounds). However requests arrive, what a bucket of a limit per window grants between two instants is at most the
  limit, and its share of the time between them on top: \<open>granted \<le> limit * (1 + time / window)\<close>. This
  holds for the bucket of a tenant and for the bucket of a user, and after any earlier requests.
\<close>

theorem rate_limit_is_respected:
  assumes "ieee_rounding pf" "\<forall>q\<in>set (qs @ rs). valid_request pf b sz q" "sorted (map rq_clock (qs @ rs))"
    and "\<forall>q\<in>set rs. t \<le> rq_clock q \<and> rq_clock q \<le> u" "t \<le> u" "sz k = (limit * 1000, w)" "0 < limit" "0 < w"
  shows "\<exists>ds. fst (serve_all pf b (qs @ rs) Map.empty) = map Inr ds \<and>
    granted pf b k rs (map rd_allowed (drop (length qs) ds)) * w \<le> limit * (w + int u - int t)"
proof -
  obtain ds where ds: "fst (serve_all pf b (qs @ rs) Map.empty) = map Inr ds" "map rd_allowed ds = fst (spec_all pf b sz (qs @ rs) Map.empty)"
    using serve_all_spec [OF assms(1), of "qs @ rs" b sz 0 Map.empty Map.empty] assms(2,3) buckets_rep_empty by auto
  moreover have "granted pf b k rs (drop (length qs) (fst (spec_all pf b sz (qs @ rs) Map.empty))) * w \<le> limit * (w + (int u - int t))"
    using spec_rate_after [OF assms(2,3), of "int t" "int u" k limit w] assms(4-8) by auto
  moreover have "map rd_allowed (drop (length qs) ds) = drop (length qs) (fst (spec_all pf b sz (qs @ rs) Map.empty))"
    unfolding ds(2) [symmetric] drop_map ..
  ultimately show ?thesis by (intro exI [of _ ds]) (simp add: add_diff_eq)
qed

theorem rate_limit_is_respected_witness:
  "\<exists>ds. fst (serve_all demo_platform demo_backend demo_requests Map.empty) = map Inr ds \<and>
    granted demo_platform demo_backend (fst (request_keys demo_platform demo_backend (demo_request 0))) demo_requests
      (map rd_allowed ds) \<le> 4"
  using rate_limit_is_respected [OF demo_ieee, of "[]" demo_requests demo_backend demo_sizes 0 1000
      "fst (request_keys demo_platform demo_backend (demo_request 0))" 2 1000] demo_requests_valid
  by (auto simp: demo_sizes_def demo_requests_def demo_request_def)

text \<open>
  C39 (error). The service answers every valid request, whatever the backend does: an exception of Redis or of the
  protocol lets reads through and refuses only what creates work, and only for tenants whose
  policy enforces limits. The backend is asked about this tenant, user and route under the policy of the route. A request
  is refused for its rate exactly when the backend decides so and the tenant is enforced; a policy that raises enforces nothing.
\<close>

theorem limiter_fails_safely:
  assumes "request_ok v nonce tenant_id user_id"
  shows "\<exists>c outcome x. fst (service_evaluate v (backend_evaluate pf b client 1) nonce tenant_id user_id g r) = Inr (outcome, x) \<and>
    (rr_disposition x \<noteq> RL_ALLOWED \<longrightarrow> rf_mode (rv_features v) = RL_ENFORCE \<and>
      (\<exists>p. rv_tenant_policy v = Some p \<and> p API_RATE_LIMIT_ENFORCE tenant_id = Inr True)) \<and>
    (rf_mode (rv_features v) \<noteq> RL_OFF \<longrightarrow>
      rc_tenant_id c = tenant_id \<and> rc_user_id c = user_id \<and> rc_route_group c = g \<and> for_route (rv_policies v) g = Inr (rc_policy c) \<and>
      (case fst (backend_evaluate pf b client 1 c r) of
         Inl _ \<Rightarrow> rr_disposition x = (if enforced_for v tenant_id \<and> g \<in> {RG_RUN_CREATE, RG_FORCE_SQL, RG_STREAM_CONNECT}
           then RL_UNAVAILABLE else RL_ALLOWED)
       | Inr d \<Rightarrow> rr_disposition x = (if enforced_for v tenant_id \<and> \<not> rd_allowed d then RL_RATE_LIMITED else RL_ALLOWED)))"
proof -
  have closed: "g \<in> {RG_RUN_CREATE, RG_FORCE_SQL, RG_STREAM_CONNECT} \<longleftrightarrow> redis_failure_policy g = FAIL_CLOSED" by (cases g) simp_all
  have enforced: "enforced_for v tenant_id \<Longrightarrow> rf_mode (rv_features v) = RL_ENFORCE \<and>
      (\<exists>p. rv_tenant_policy v = Some p \<and> p API_RATE_LIMIT_ENFORCE tenant_id = Inr True)"
    by (auto simp: enforced_for_def tenant_can_enforce_def split: option.splits)
  obtain c outcome x r' where a: "service_evaluate v (backend_evaluate pf b client 1) nonce tenant_id user_id g r = (Inr (outcome, x), r')"
    "rr_disposition x \<noteq> RL_ALLOWED \<longrightarrow> enforced_for v tenant_id"
    "rf_mode (rv_features v) \<noteq> RL_OFF \<longrightarrow> rc_tenant_id c = tenant_id \<and> rc_user_id c = user_id \<and> rc_route_group c = g \<and>
      for_route (rv_policies v) g = Inr (rc_policy c) \<and> (case fst (backend_evaluate pf b client 1 c r) of
         Inl _ \<Rightarrow> rr_disposition x = (if enforced_for v tenant_id \<and> redis_failure_policy g = FAIL_CLOSED then RL_UNAVAILABLE else RL_ALLOWED)
       | Inr d \<Rightarrow> rr_disposition x = (if enforced_for v tenant_id \<and> \<not> rd_allowed d then RL_RATE_LIMITED else RL_ALLOWED))"
    using redis_limiter.service_answers [OF assms, of pf b client g r] by blast
  show ?thesis unfolding closed
    by (intro exI [of _ c] exI [of _ outcome] exI [of _ x] conjI) (simp add: a(1), use a(2) enforced in blast, rule a(3))
qed

definition demo_rate_admission :: rate_admission where
  "demo_rate_admission = \<lparr>ra_load_multiplier = IntNum 2, ra_decision_p95_ms = IntNum 1, ra_sustained_decisions_per_second = IntNum 500,
     ra_redis_error_percent = IntNum 0, ra_concurrent_boundary_tested = True, ra_cluster_failover_tested = True,
     ra_script_reload_tested = True, ra_redis_flush_tested = True, ra_redis_eviction_tested = True, ra_fail_open_tested = True,
     ra_fail_closed_tested = True, ra_retry_after_tested = True, ra_sql_safety_boundary_tested = True,
     ra_ingress_rate_limit_tested = True, ra_shadow_observation_tested = True, ra_redis_server_time_tested = True,
     ra_ttl_recovery_tested = True, ra_hot_tenant_tested = True, ra_fairness_tested = True, ra_protocol_corruption_tested = True,
     ra_cross_tenant_isolation_tested = True, ra_same_slot_tested = True, ra_canary_percent = IntNum 1\<rparr>"

definition demo_rate_service :: rate_service where
  "demo_rate_service = \<lparr>rv_has_backend = True,
     rv_policies = map (\<lambda>g. (g, demo_rate_policy)) [RG_RUN_CREATE, RG_ACTIVE_LIST, RG_UI_STATUS, RG_AUTHORITY_READ, RG_EVENT_READ,
       RG_FORCE_SQL, RG_STREAM_CONNECT],
     rv_features = \<lparr>rf_mode = RL_ENFORCE, rf_rollout_percent = IntNum 1, rf_admission_evidence = Some demo_rate_admission\<rparr>,
     rv_rollout_hmac_secret = None, rv_tenant_policy = Some (\<lambda>_ _. Inr True)\<rparr>"

lemma demo_rate_service_request_ok: "request_ok demo_rate_service (replicate 32 CHR ''0'') ''w'' ''w''"
  by (simp add: request_ok_def demo_rate_service_def rate_service_new_def rate_policies_ok_def refuse_if_def)

theorem limiter_fails_safely_witness:
  "rate_features_ok demo_platform (rv_features demo_rate_service) = Inr () \<and>
   (\<exists>outcome x. fst (service_evaluate demo_rate_service (backend_evaluate demo_platform demo_backend (\<lambda>_ _ s. (RedisRaised, s)) 1)
     (replicate 32 CHR ''0'') ''w'' ''w'' RG_RUN_CREATE ()) = Inr (outcome, x) \<and> rr_disposition x = RL_UNAVAILABLE)"
proof -
  have "rate_features_ok demo_platform (rv_features demo_rate_service) = Inr ()"
    by (simp add: demo_rate_service_def demo_rate_admission_def rate_features_ok_def rate_admission_qualifies_def percent_number_def
      literal_def float_of_def non_negative_number_def refuse_if_def bindE_def)
  moreover have "fst (backend_evaluate demo_platform demo_backend (\<lambda>_ _ s. (RedisRaised, s)) 1 c ()) = Inl ApiRateLimitBackendUnavailableError" for c
    by (simp add: backend_evaluate_def Let_def split: prod.split)
  moreover have "enforced_for demo_rate_service ''w''" "rf_mode (rv_features demo_rate_service) \<noteq> RL_OFF"
    by (simp_all add: enforced_for_def demo_rate_service_def tenant_can_enforce_def)
  ultimately show ?thesis
    using limiter_fails_safely [OF demo_rate_service_request_ok, of demo_platform demo_backend "\<lambda>_ _ s. (RedisRaised, s)" RG_RUN_CREATE "()"]
    by auto
qed

section \<open>Limits of the guarantees\<close>

text \<open>
  The public append refuses only two payload classes, so it accepts a termination event: the
  run's columns then stay active while replay says the run has failed. The commands of
  \<^const>\<open>store_step\<close> therefore take the append only with events that do not change a run.
\<close>

lemma public_append_can_diverge:
  "\<exists>e c d'. append_event demo_env 500 (uid CHR ''5'') (run_request None (RunTerminatedPayload ES_FAILED ''gone''))
       (Some (demo_context 4)) s_leased = (Inr (e, c), d') \<and>
     (\<exists>r. get_run d' ''r'' = Some r \<and> r_execution_status r = ES_ACTIVE) \<and>
     (\<exists>rec. recover_run_projection demo_env d' ''r'' = Inr rec \<and> p_execution_status (rec_projection rec) = ES_FAILED)"
  by (simp add: append_event_def append_event_body_def s_leased_eq s_run_eq exec_simps row_defs empty_db_def
      fence_simps recover_run_projection_def recover_run_projection_in_transaction_def
      load_run_events_in_transaction_def event_from_row_of_event event_wf_def reduce_run_events_def reduce_start_def
      reduce_step_def opt_ge_def termination_statuses_def)

text \<open>
  Normalisation of a target path is not idempotent: the drive check looks at the path before
  its \<open>.\<close> parts are dropped, so a path comes out that the same check refuses.
\<close>

lemma drive_path_slips_through:
  "normalize_target_path demo_env ''./C:/x'' = Inr ''C:/x'' \<and>
   normalize_target_path demo_env ''C:/x'' = Inl ToolIdentityError"
  by code_simp

text \<open>Terminating a run leaves its turn marked active, with the run as its active run.\<close>

lemma terminated_run_keeps_turn_active:
  "map r_execution_status (runs s_failed) = [ES_FAILED] \<and>
   map t_status (turns s_failed) = [''active''] \<and> map t_active_run_id (turns s_failed) = [Some ''r'']"
  by (simp add: s_failed_eq s_leased_eq s_run_eq terminate_row_def demo_turn_def)






end
